(* ===== verification/Prelude.thy ===== *)
theory Prelude
  imports Complex_Main "HOL-Library.AList" "HOL-Library.List_Lexorder" "HOL-Library.Char_ord"
begin

text \<open>
  Shared vocabulary of the development: the fragment of Python's built-in types that the
  sources use, as HOL functions, and the generic facts about it.

  \<^item> Strings are \<^typ>\<open>string\<close>, a list of code points below 256 (Latin-1); \<open>lower\<close>,
    \<open>strip\<close>, \<open>split\<close>, \<open>join\<close>, \<open>startswith\<close> and the substring test \<open>in\<close> follow the
    Python methods on such strings.
  \<^item> A \<open>dict\<close> is an association list in insertion order: \<open>map_of d k\<close> reads a key,
    \<open>AList.update k v d\<close> overwrites it in place or appends it.
  \<^item> A finite \<open>float\<close> is a \<^typ>\<open>real\<close> (rounding of the 53-bit mantissa is not
    modelled); where the code tests for NaN or an infinity the type is \<open>pyfloat\<close>.
  \<^item> \<open>format(x, '.nf')\<close> and \<open>round(x, n)\<close> round half to even on the exact value.
  \<^item> A JSON or YAML value is a \<open>pyval\<close>; \<open>py_str\<close> and \<open>py_repr\<close> print it. The shortest
    round-trip printing of a float, \<open>float.__repr__\<close>, is a parameter of the printers.
\<close>

named_theorems record_defs \<open>definitions a component proof unfolds\<close>
named_theorems keeps \<open>frame facts: which fields an operation leaves alone\<close>

section \<open>Strings\<close>

definition is_space :: "char \<Rightarrow> bool" where
  "is_space c = (let n = (of_char c :: nat) in
     (9 \<le> n \<and> n \<le> 13) \<or> (28 \<le> n \<and> n \<le> 32) \<or> n = 133 \<or> n = 160)"

definition lower_char :: "char \<Rightarrow> char" where
  "lower_char c = (let n = (of_char c :: nat) in
     if (65 \<le> n \<and> n \<le> 90) \<or> (192 \<le> n \<and> n \<le> 222 \<and> n \<noteq> 215)
     then char_of (n + 32) else c)"

definition lower :: "string \<Rightarrow> string" where
  "lower s = map lower_char s"

definition lstrip :: "string \<Rightarrow> string" where
  "lstrip s = dropWhile is_space s"

definition rstrip :: "string \<Rightarrow> string" where
  "rstrip s = rev (dropWhile is_space (rev s))"

definition strip :: "string \<Rightarrow> string" where
  "strip s = rstrip (lstrip s)"

text \<open>\<open>s.rstrip(cs)\<close>\<close>

definition rstrip_chars :: "string \<Rightarrow> string \<Rightarrow> string" where
  "rstrip_chars cs s = rev (dropWhile (\<lambda>c. c \<in> set cs) (rev s))"

text \<open>\<open>s.split()\<close>: maximal runs of non-space characters.\<close>

fun split_aux :: "string \<Rightarrow> string \<Rightarrow> string list" where
  "split_aux buf [] = (if buf = [] then [] else [buf])"
| "split_aux buf (c # cs) =
     (if is_space c then (if buf = [] then split_aux [] cs else buf # split_aux [] cs)
      else split_aux (buf @ [c]) cs)"

definition split :: "string \<Rightarrow> string list" where
  "split s = split_aux [] s"

fun join :: "string \<Rightarrow> string list \<Rightarrow> string" where
  "join sep [] = []"
| "join sep [x] = x"
| "join sep (x # y # xs) = x @ sep @ join sep (y # xs)"

definition startswith :: "string \<Rightarrow> string \<Rightarrow> bool" where
  "startswith p s = (take (length p) s = p)"

fun contains :: "string \<Rightarrow> string \<Rightarrow> bool" where
  "contains sub [] = (sub = [])"
| "contains sub (c # cs) = (startswith sub (c # cs) \<or> contains sub cs)"

section \<open>Numbers\<close>

definition digit :: "nat \<Rightarrow> char" where
  "digit n = ''0123456789'' ! (n mod 10)"

fun show_nat :: "nat \<Rightarrow> string" where
  "show_nat n = (if n < 10 then [digit n] else show_nat (n div 10) @ [digit (n mod 10)])"

declare show_nat.simps [simp del]

definition show_int :: "int \<Rightarrow> string" where
  "show_int i = (if i < 0 then ''-'' @ show_nat (nat (- i)) else show_nat (nat i))"

definition zero_pad :: "nat \<Rightarrow> string \<Rightarrow> string" where
  "zero_pad w s = replicate (w - length s) (CHR ''0'') @ s"

definition round_half_even :: "real \<Rightarrow> int" where
  "round_half_even x = (let f = \<lfloor>x\<rfloor>; d = x - of_int f in
     if d < 1/2 then f else if d > 1/2 then f + 1 else if even f then f else f + 1)"

definition py_round :: "real \<Rightarrow> nat \<Rightarrow> real" where
  "py_round x n = of_int (round_half_even (x * 10 ^ n)) / 10 ^ n"

definition fmt_fixed :: "nat \<Rightarrow> real \<Rightarrow> string" where
  "fmt_fixed n x =
     (let k = nat (round_half_even (\<bar>x\<bar> * 10 ^ n));
          body = (if n = 0 then show_nat k
                  else show_nat (k div 10 ^ n) @ ''.'' @ zero_pad n (show_nat (k mod 10 ^ n)))
      in (if x < 0 then ''-'' @ body else body))"

definition trunc_int :: "real \<Rightarrow> int" where
  "trunc_int x = (if x < 0 then \<lceil>x\<rceil> else \<lfloor>x\<rfloor>)"

text \<open>Python's \<open>%\<close> on floats takes the sign of the divisor.\<close>

definition py_fmod :: "real \<Rightarrow> real \<Rightarrow> real" where
  "py_fmod x m = x - m * of_int \<lfloor>x / m\<rfloor>"

definition hypot :: "real \<Rightarrow> real \<Rightarrow> real" where
  "hypot x y = sqrt (x\<^sup>2 + y\<^sup>2)"

definition atan2 :: "real \<Rightarrow> real \<Rightarrow> real" where
  "atan2 y x = (if x > 0 then arctan (y / x)
     else if x < 0 then (if y \<ge> 0 then arctan (y / x) + pi else arctan (y / x) - pi)
     else if y > 0 then pi / 2 else if y < 0 then - (pi / 2) else 0)"

section \<open>Floats with NaN and infinities\<close>

datatype pyfloat = Fin real | PosInf | NegInf | NaN

fun py_lt :: "pyfloat \<Rightarrow> pyfloat \<Rightarrow> bool" where
  "py_lt NaN _ = False"
| "py_lt _ NaN = False"
| "py_lt (Fin a) (Fin b) = (a < b)"
| "py_lt NegInf b = (b \<noteq> NegInf)"
| "py_lt a NegInf = False"
| "py_lt a PosInf = (a \<noteq> PosInf)"
| "py_lt PosInf b = False"

text \<open>\<open>min(a, b)\<close> keeps \<open>a\<close> unless \<open>b < a\<close>; \<open>max(a, b)\<close> keeps \<open>a\<close> unless \<open>a < b\<close>.\<close>

definition py_min :: "pyfloat \<Rightarrow> pyfloat \<Rightarrow> pyfloat" where
  "py_min a b = (if py_lt b a then b else a)"

definition py_max :: "pyfloat \<Rightarrow> pyfloat \<Rightarrow> pyfloat" where
  "py_max a b = (if py_lt a b then b else a)"

fun is_finite :: "pyfloat \<Rightarrow> bool" where
  "is_finite (Fin _) = True"
| "is_finite _ = False"

text \<open>The number of a finite float. The callers that need a real number read it of a value that a clamp or a
  validation has made finite; the float itself is kept beside it where the program keeps it.\<close>

fun fin :: "pyfloat \<Rightarrow> real" where
  "fin (Fin r) = r"
| "fin _ = 0"

section \<open>Dynamic values\<close>

datatype pyval =
    PNone
  | PBool bool
  | PInt int
  | PFloat real
  | PStr string
  | PList "pyval list"
  | PDict "(string \<times> pyval) list"

type_synonym pydict = "(string \<times> pyval) list"

fun truthy :: "pyval \<Rightarrow> bool" where
  "truthy PNone = False"
| "truthy (PBool b) = b"
| "truthy (PInt i) = (i \<noteq> 0)"
| "truthy (PFloat r) = (r \<noteq> 0)"
| "truthy (PStr s) = (s \<noteq> [])"
| "truthy (PList xs) = (xs \<noteq> [])"
| "truthy (PDict d) = (d \<noteq> [])"

definition dict_get :: "('k \<times> 'v) list \<Rightarrow> 'k \<Rightarrow> 'v \<Rightarrow> 'v" where
  "dict_get d k v = (case map_of d k of Some x \<Rightarrow> x | None \<Rightarrow> v)"

definition dict_of :: "('k \<times> 'v) list \<Rightarrow> ('k \<times> 'v) list" where
  "dict_of kvs = fold (\<lambda>(k, v) d. AList.update k v d) kvs []"

definition hex_digit :: "nat \<Rightarrow> char" where
  "hex_digit n = ''0123456789abcdef'' ! (n mod 16)"

definition is_printable :: "nat \<Rightarrow> bool" where
  "is_printable n = ((32 \<le> n \<and> n \<le> 126) \<or> (161 \<le> n \<and> n \<noteq> 173))"

definition repr_char :: "char \<Rightarrow> char \<Rightarrow> string" where
  "repr_char q c = (let n = (of_char c :: nat) in
     if c = q \<or> n = 92 then [CHR 0x5C, c]
     else if n = 10 then [CHR 0x5C, CHR ''n'']
     else if n = 13 then [CHR 0x5C, CHR ''r'']
     else if n = 9 then [CHR 0x5C, CHR ''t'']
     else if is_printable n then [c]
     else [CHR 0x5C, CHR ''x'', hex_digit (n div 16), hex_digit n])"

definition repr_str :: "string \<Rightarrow> string" where
  "repr_str s = (let q = (if CHR 0x27 \<in> set s \<and> CHR 0x22 \<notin> set s then CHR 0x22 else CHR 0x27)
                 in q # concat (map (repr_char q) s) @ [q])"

fun py_repr :: "(real \<Rightarrow> string) \<Rightarrow> pyval \<Rightarrow> string" where
  "py_repr fr PNone = ''None''"
| "py_repr fr (PBool b) = (if b then ''True'' else ''False'')"
| "py_repr fr (PInt i) = show_int i"
| "py_repr fr (PFloat r) = fr r"
| "py_repr fr (PStr s) = repr_str s"
| "py_repr fr (PList xs) = ''['' @ join '', '' (map (py_repr fr) xs) @ '']''"
| "py_repr fr (PDict d) =
     ''{'' @ join '', '' (map (\<lambda>(k, v). repr_str k @ '': '' @ py_repr fr v) d) @ ''}''"

definition py_str :: "(real \<Rightarrow> string) \<Rightarrow> pyval \<Rightarrow> string" where
  "py_str fr v = (case v of PStr s \<Rightarrow> s | _ \<Rightarrow> py_repr fr v)"

section \<open>Facts about strings\<close>

lemma all_chars:
  assumes "\<forall>n < 256. P (char_of (n :: nat))"
  shows "P c"
proof -
  have "of_char c < (256 :: nat)" by (rule nat_of_char_less_256)
  with assms have "P (char_of (of_char c :: nat))" by blast
  then show ?thesis by simp
qed

lemma is_space_lower_char [simp]: "is_space (lower_char c) = is_space c"
  using nat_of_char_less_256 [of c]
  by (auto simp: is_space_def lower_char_def Let_def)

lemma lower_char_idem [simp]: "lower_char (lower_char c) = lower_char c"
  using nat_of_char_less_256 [of c]
  by (auto simp: lower_char_def Let_def)

lemma lower_idem [simp]: "lower (lower s) = lower s"
  by (simp add: lower_def o_def)

lemma lower_append: "lower (a @ b) = lower a @ lower b"
  by (simp add: lower_def)

lemma startswith_iff: "startswith p s \<longleftrightarrow> (\<exists>t. s = p @ t)"
  unfolding startswith_def by (metis append_take_drop_id append_eq_conv_conj)

lemma contains_iff: "contains sub s \<longleftrightarrow> (\<exists>a b. s = a @ sub @ b)"
proof (induction s)
  case Nil
  then show ?case by auto
next
  case (Cons c cs)
  have "(\<exists>a b. c # cs = a @ sub @ b) \<longleftrightarrow>
        (\<exists>t. c # cs = sub @ t) \<or> (\<exists>a b. cs = a @ sub @ b)" (is "?l \<longleftrightarrow> ?r")
  proof
    assume ?l
    then obtain a b where ab: "c # cs = a @ sub @ b" by blast
    then show ?r by (cases a) auto
  next
    assume ?r
    then show ?l by (metis append_Cons append_Nil)
  qed
  then show ?case by (simp add: Cons startswith_iff)
qed

lemma contains_append1: "contains sub s \<Longrightarrow> contains sub (s @ t)"
  unfolding contains_iff by (metis append_assoc)

lemma contains_append2: "contains sub t \<Longrightarrow> contains sub (s @ t)"
  unfolding contains_iff by (metis append_assoc)

text \<open>A word is a non-empty run of non-space characters, what \<open>split\<close> returns.\<close>

definition is_word :: "string \<Rightarrow> bool" where
  "is_word w = (w \<noteq> [] \<and> (\<forall>c \<in> set w. \<not> is_space c))"

lemma split_aux_words: "list_all (\<lambda>c. \<not> is_space c) buf \<Longrightarrow> list_all is_word (split_aux buf s)"
proof (induction s arbitrary: buf)
  case Nil
  then show ?case by (simp add: is_word_def list_all_iff)
next
  case (Cons c cs)
  have "list_all is_word (split_aux [] cs)" by (rule Cons.IH) simp
  moreover have "\<not> is_space c \<Longrightarrow> list_all is_word (split_aux (buf @ [c]) cs)"
    by (rule Cons.IH) (simp add: Cons.prems)
  ultimately show ?case using Cons.prems by (simp add: is_word_def list_all_iff)
qed

lemma split_words: "w \<in> set (split s) \<Longrightarrow> is_word w"
  using split_aux_words [of "[]" s] by (simp add: split_def list_all_iff)

lemma split_aux_word_append:
  "(\<forall>c \<in> set w. \<not> is_space c) \<Longrightarrow> split_aux buf (w @ r) = split_aux (buf @ w) r"
  by (induction w arbitrary: buf) auto

lemma is_space_blank [simp]: "is_space (CHR '' '')"
  by (simp add: is_space_def)

lemma split_join:
  "\<forall>w \<in> set ws. is_word w \<Longrightarrow> split (join '' '' ws) = ws"
proof (induction "'' ''" ws rule: join.induct)
  case 1
  show ?case by (simp add: split_def)
next
  case (2 x)
  then show ?case
    using split_aux_word_append [of x "[]" "[]"] by (simp add: split_def is_word_def)
next
  case (3 x y xs)
  then show ?case
    using split_aux_word_append [of x "[]" "'' '' @ join '' '' (y # xs)"]
    by (simp add: split_def is_word_def)
qed

lemma join_eq_Nil: "\<forall>w \<in> set ws. is_word w \<Longrightarrow> join '' '' ws = [] \<longleftrightarrow> ws = []"
  by (induction "'' ''" ws rule: join.induct) (auto simp: is_word_def)

lemma hd_join: "\<forall>w \<in> set ws. is_word w \<Longrightarrow> ws \<noteq> [] \<Longrightarrow> hd (join '' '' ws) = hd (hd ws)"
  by (induction "'' ''" ws rule: join.induct) (auto simp: is_word_def)

lemma last_join: "\<forall>w \<in> set ws. is_word w \<Longrightarrow> ws \<noteq> [] \<Longrightarrow> last (join '' '' ws) = last (last ws)"
proof (induction "'' ''" ws rule: join.induct)
  case (3 x y xs)
  then show ?case using join_eq_Nil [of "y # xs"] by simp
qed auto

lemma strip_trivial: "s = [] \<or> (\<not> is_space (hd s) \<and> \<not> is_space (last s)) \<Longrightarrow> strip s = s"
proof -
  assume s: "s = [] \<or> (\<not> is_space (hd s) \<and> \<not> is_space (last s))"
  then have "dropWhile is_space s = s" by (auto simp: dropWhile_eq_self_iff)
  moreover from s have "dropWhile is_space (rev s) = rev s"
    by (auto simp: dropWhile_eq_self_iff hd_rev)
  ultimately show ?thesis by (simp add: strip_def lstrip_def rstrip_def)
qed

lemma strip_join: "\<forall>w \<in> set ws. is_word w \<Longrightarrow> strip (join '' '' ws) = join '' '' ws"
proof (rule strip_trivial)
  assume ws: "\<forall>w \<in> set ws. is_word w"
  show "join '' '' ws = [] \<or> \<not> is_space (hd (join '' '' ws)) \<and> \<not> is_space (last (join '' '' ws))"
  proof (cases "ws = []")
    case False
    then have "is_word (hd ws)" "is_word (last ws)" using ws by auto
    then show ?thesis using hd_join [OF ws False] last_join [OF ws False]
      by (auto simp: is_word_def)
  qed simp
qed

lemma lower_join: "lower (join '' '' ws) = join '' '' (map lower ws)"
proof (induction "'' ''" ws rule: join.induct)
  case (3 x y xs)
  have "lower_char (CHR '' '') = CHR '' ''" by (simp add: lower_char_def)
  with 3 show ?case by (simp add: lower_def)
qed (auto simp: lower_def)

lemma split_aux_lower: "split_aux (lower buf) (lower s) = map lower (split_aux buf s)"
  by (induction buf s rule: split_aux.induct) (auto simp: lower_def)

lemma split_lower: "split (lower s) = map lower (split s)"
  using split_aux_lower [of "[]" s] by (simp add: split_def lower_def)

text \<open>\<open>" ".join(s.strip().lower().split())\<close>, the key normalisation of the world model.\<close>

definition norm_words :: "string \<Rightarrow> string" where
  "norm_words s = join '' '' (split (lower (strip s)))"

lemma norm_words_idem [simp]: "norm_words (norm_words s) = norm_words s"
proof -
  let ?ws = "split (lower (strip s))"
  have ws: "\<forall>w \<in> set ?ws. is_word w" by (blast intro: split_words)
  have low: "map lower ?ws = ?ws" by (simp add: split_lower o_def)
  have "norm_words (join '' '' ?ws) = join '' '' (split (lower (join '' '' ?ws)))"
    by (simp add: norm_words_def strip_join [OF ws])
  also have "\<dots> = join '' '' (split (join '' '' ?ws))" by (simp only: lower_join low)
  also have "\<dots> = join '' '' ?ws" by (simp only: split_join [OF ws])
  finally show ?thesis by (simp add: norm_words_def)
qed

section \<open>Facts about numbers\<close>

lemma round_half_even_of_int [simp]: "round_half_even (of_int i) = i"
  by (simp add: round_half_even_def Let_def)

lemma round_half_even_error: "\<bar>of_int (round_half_even x) - x\<bar> \<le> 1 / 2"
  unfolding round_half_even_def Let_def by (auto; linarith)

lemma round_half_even_mono: "x \<le> y \<Longrightarrow> round_half_even x \<le> round_half_even y"
proof -
  assume le: "x \<le> y"
  then have f: "\<lfloor>x\<rfloor> \<le> \<lfloor>y\<rfloor>" by (rule floor_mono)
  show ?thesis
  proof (cases "\<lfloor>x\<rfloor> = \<lfloor>y\<rfloor>")
    case True
    with le show ?thesis by (simp add: round_half_even_def Let_def)
  next
    case False
    with f have "\<lfloor>x\<rfloor> + 1 \<le> \<lfloor>y\<rfloor>" by simp
    moreover have "round_half_even x \<le> \<lfloor>x\<rfloor> + 1" "\<lfloor>y\<rfloor> \<le> round_half_even y"
      by (simp_all add: round_half_even_def Let_def)
    ultimately show ?thesis by linarith
  qed
qed

lemma py_fmod_bounds: "0 < m \<Longrightarrow> 0 \<le> py_fmod x m \<and> py_fmod x m < m"
proof -
  assume m: "0 < m"
  have "of_int \<lfloor>x / m\<rfloor> \<le> x / m" "x / m < of_int \<lfloor>x / m\<rfloor> + 1" by linarith+
  then have "of_int \<lfloor>x / m\<rfloor> * m \<le> x" "x < (of_int \<lfloor>x / m\<rfloor> + 1) * m"
    using m pos_le_divide_eq [OF m] pos_divide_less_eq [OF m] by blast+
  then show ?thesis by (simp add: py_fmod_def algebra_simps)
qed

text \<open>Wrapping an angle to the half-open interval from \<open>-pi\<close> to \<open>pi\<close>, as both
  \<open>services/motion.py\<close> and \<open>backends/simulation.py\<close> write it.\<close>

definition wrap :: "real \<Rightarrow> real" where
  "wrap a = py_fmod (a + pi) (2 * pi) - pi"

lemma wrap_bounds: "- pi \<le> wrap a \<and> wrap a < pi"
  using py_fmod_bounds [of "2 * pi" "a + pi"] pi_gt_zero by (auto simp: wrap_def)

lemma wrap_id: "- pi \<le> a \<Longrightarrow> a < pi \<Longrightarrow> wrap a = a"
proof -
  assume "- pi \<le> a" "a < pi"
  then have "\<lfloor>(a + pi) / (2 * pi)\<rfloor> = 0"
    by (intro floor_unique) (auto simp: field_simps)
  then show ?thesis by (simp add: wrap_def py_fmod_def)
qed

section \<open>Facts about clamping\<close>

text \<open>\<open>max(-limit, min(limit, v))\<close> with Python's comparison on floats: the result is always
  finite, and NaN is mapped to the upper limit.\<close>

definition clamp :: "pyfloat \<Rightarrow> real \<Rightarrow> pyfloat" where
  "clamp v limit = py_max (Fin (- limit)) (py_min (Fin limit) v)"

lemma clamp_Fin: "clamp (Fin v) limit = Fin (max (- limit) (min limit v))"
  by (auto simp: clamp_def py_max_def py_min_def max_def min_def)

lemma clamp_special [simp]:
  "0 \<le> l \<Longrightarrow> clamp NaN l = Fin l"
  "0 \<le> l \<Longrightarrow> clamp PosInf l = Fin l"
  "clamp NegInf l = Fin (- l)"
  by (auto simp: clamp_def py_max_def py_min_def)

lemma clamp_finite [simp]: "is_finite (clamp v limit)"
  by (cases v) (auto simp: clamp_def py_max_def py_min_def)

lemma clamp_bounds: "0 \<le> limit \<Longrightarrow> \<bar>fin (clamp v limit)\<bar> \<le> limit"
  by (cases v) (auto simp: clamp_Fin)

lemma clamp_within: "0 \<le> limit \<Longrightarrow> \<exists>r. clamp v limit = Fin r \<and> \<bar>r\<bar> \<le> limit"
  by (cases v) (auto simp: clamp_Fin)

lemma is_finite_iff: "is_finite v \<longleftrightarrow> (\<exists>r. v = Fin r)"
  by (cases v) auto

section \<open>Facts about dictionaries\<close>

lemma dict_get_update [simp]:
  "dict_get (AList.update k v d) k' x = (if k = k' then v else dict_get d k' x)"
  by (simp add: dict_get_def update_conv')

lemma map_of_update [simp]: "map_of (AList.update k v d) = (map_of d)(k \<mapsto> v)"
  by (rule update_conv')

section \<open>Transition systems\<close>

text \<open>The interface of every stateful component below: a step relation over its state and a
  predicate that each step keeps. What holds at the start then holds after any sequence of
  steps.\<close>

locale invariant_system =
  fixes step :: "'s \<Rightarrow> 's \<Rightarrow> bool" and inv :: "'s \<Rightarrow> bool"
  assumes step_inv: "step s t \<Longrightarrow> inv s \<Longrightarrow> inv t"
begin

lemma steps_inv: "step\<^sup>*\<^sup>* s t \<Longrightarrow> inv s \<Longrightarrow> inv t"
  by (induction rule: rtranclp_induct) (auto intro: step_inv)

end

end
