(* ===== verification/Errors.thy ===== *)
theory Errors
  imports Prelude
begin

text \<open>
  The exception hierarchy of \<open>core/errors.py\<close>, with the built-in exceptions and
  \<open>InvalidTransition\<close> that the modelled code can raise. A function that may raise returns
  \<open>exn + 'a\<close>: \<open>Inl\<close> is the exception, \<open>Inr\<close> the value. An operation on state that may raise
  returns the state beside the result, because the effects made before a raise stay.
\<close>

datatype exn =
    DroidError string
  | ConfigError string
  | BodyError string
  | BackendError string
  | SafetyError string
  | CapabilityError string
  | AuthorizationError string
  | ConfirmationRequired string string
  | UnknownIntentError string
  | ProviderError string
  | InvalidTransition string string
  | AttributeError string
  | KeyError string
  | ValueError string
  | TypeError string
  | UnicodeDecodeError string
  | JSONDecodeError string
  | OSError string
  | MiniYamlError string
  | IntegrityError string
  | ProgrammingError string
  | OverflowError string
  | IndexError string
  | RuntimeError string
  | NotImplementedError string

type_synonym 'a res = "exn + 'a"

text \<open>\<open>isinstance(exc, DroidError)\<close>\<close>

fun is_droid_error :: "exn \<Rightarrow> bool" where
  "is_droid_error (InvalidTransition _ _) = False"
| "is_droid_error (AttributeError _) = False"
| "is_droid_error (KeyError _) = False"
| "is_droid_error (ValueError _) = False"
| "is_droid_error (TypeError _) = False"
| "is_droid_error (UnicodeDecodeError _) = False"
| "is_droid_error (JSONDecodeError _) = False"
| "is_droid_error (OSError _) = False"
| "is_droid_error (MiniYamlError _) = False"
| "is_droid_error (IntegrityError _) = False"
| "is_droid_error (ProgrammingError _) = False"
| "is_droid_error (OverflowError _) = False"
| "is_droid_error (IndexError _) = False"
| "is_droid_error (RuntimeError _) = False"
| "is_droid_error (NotImplementedError _) = False"
| "is_droid_error _ = True"

text \<open>\<open>type(exc).__name__\<close> and \<open>str(exc)\<close>\<close>

fun exn_name :: "exn \<Rightarrow> string" where
  "exn_name (DroidError _) = ''DroidError''"
| "exn_name (ConfigError _) = ''ConfigError''"
| "exn_name (BodyError _) = ''BodyError''"
| "exn_name (BackendError _) = ''BackendError''"
| "exn_name (SafetyError _) = ''SafetyError''"
| "exn_name (CapabilityError _) = ''CapabilityError''"
| "exn_name (AuthorizationError _) = ''AuthorizationError''"
| "exn_name (ConfirmationRequired _ _) = ''ConfirmationRequired''"
| "exn_name (UnknownIntentError _) = ''UnknownIntentError''"
| "exn_name (ProviderError _) = ''ProviderError''"
| "exn_name (InvalidTransition _ _) = ''InvalidTransition''"
| "exn_name (AttributeError _) = ''AttributeError''"
| "exn_name (KeyError _) = ''KeyError''"
| "exn_name (ValueError _) = ''ValueError''"
| "exn_name (TypeError _) = ''TypeError''"
| "exn_name (UnicodeDecodeError _) = ''UnicodeDecodeError''"
| "exn_name (JSONDecodeError _) = ''JSONDecodeError''"
| "exn_name (OSError _) = ''OSError''"
| "exn_name (MiniYamlError _) = ''MiniYamlError''"
| "exn_name (IntegrityError _) = ''IntegrityError''"
| "exn_name (ProgrammingError _) = ''ProgrammingError''"
| "exn_name (OverflowError _) = ''OverflowError''"
| "exn_name (IndexError _) = ''IndexError''"
| "exn_name (RuntimeError _) = ''RuntimeError''"
| "exn_name (NotImplementedError _) = ''NotImplementedError''"

fun exn_str :: "exn \<Rightarrow> string" where
  "exn_str (DroidError m) = m"
| "exn_str (ConfigError m) = m"
| "exn_str (BodyError m) = m"
| "exn_str (BackendError m) = m"
| "exn_str (SafetyError m) = m"
| "exn_str (CapabilityError m) = m"
| "exn_str (AuthorizationError m) = m"
| "exn_str (ConfirmationRequired m _) = m"
| "exn_str (UnknownIntentError m) = m"
| "exn_str (ProviderError m) = m"
| "exn_str (InvalidTransition src dst) = ''illegal state transition '' @ src @ '' -> '' @ dst"
| "exn_str (AttributeError m) = m"
| "exn_str (KeyError m) = repr_str m"
| "exn_str (ValueError m) = m"
| "exn_str (TypeError m) = m"
| "exn_str (UnicodeDecodeError m) = m"
| "exn_str (JSONDecodeError m) = m"
| "exn_str (OSError m) = m"
| "exn_str (MiniYamlError m) = m"
| "exn_str (NotImplementedError m) = m"
| "exn_str (RuntimeError m) = m"
| "exn_str (OverflowError m) = m"
| "exn_str (IndexError m) = m"
| "exn_str (ProgrammingError m) = m"
| "exn_str (IntegrityError m) = m"

text \<open>\<open>f"{type(exc).__name__}: {exc}"\<close>\<close>

definition exn_report :: "exn \<Rightarrow> string" where
  "exn_report e = exn_name e @ '': '' @ exn_str e"

lemma exn_report_nonempty [simp]: "exn_report e \<noteq> []"
  by (simp add: exn_report_def)

text \<open>\<open>isinstance\<close> follows the class statements: exactly the classes below \<open>DroidError\<close>.\<close>

lemma is_droid_error_iff:
  "is_droid_error e \<longleftrightarrow> exn_name e \<in>
     {''DroidError'', ''ConfigError'', ''BodyError'', ''BackendError'', ''SafetyError'',
      ''CapabilityError'', ''AuthorizationError'', ''ConfirmationRequired'',
      ''UnknownIntentError'', ''ProviderError''}"
  by (cases e) simp_all

section \<open>Dynamic values\<close>

text \<open>\<open>type(v).__name__\<close>\<close>

fun py_type_name :: "pyval \<Rightarrow> string" where
  "py_type_name PNone = ''NoneType''"
| "py_type_name (PBool _) = ''bool''"
| "py_type_name (PInt _) = ''int''"
| "py_type_name (PFloat _) = ''float''"
| "py_type_name (PStr _) = ''str''"
| "py_type_name (PList _) = ''list''"
| "py_type_name (PDict _) = ''dict''"

definition and_then :: "'a res \<Rightarrow> ('a \<Rightarrow> 'b res) \<Rightarrow> 'b res" where
  "and_then r f = (case r of Inl e \<Rightarrow> Inl e | Inr x \<Rightarrow> f x)"

lemma and_then_Inr [simp]: "and_then (Inr x) f = f x"
  by (simp add: and_then_def)

lemma and_then_eq_Inr: "and_then r f = Inr y \<longleftrightarrow> (\<exists>x. r = Inr x \<and> f x = Inr y)"
  by (cases r) (simp_all add: and_then_def)

text \<open>\<open>v.get(k, d)\<close> on a value that should be a dictionary\<close>

definition val_get :: "pyval \<Rightarrow> string \<Rightarrow> pyval \<Rightarrow> pyval res" where
  "val_get v k d =
     (case v of PDict m \<Rightarrow> Inr (dict_get m k d)
      | _ \<Rightarrow> Inl (AttributeError (repr_str (py_type_name v) @ '' object has no attribute '' @ repr_str ''get'')))"

end
