(* ===== verification/MiniYaml.thy ===== *)
theory MiniYaml
  imports Errors
begin

text \<open>
  The dependency-free YAML subset, \<open>util/miniyaml.py\<close>: scalars, flow sequences, comments, the block
  parser for mappings, lists and block scalars, and the dumper.

  A parser position is the list of lines that are left. The mutually recursive block parsers take fuel,
  and \<open>None\<close> says that it ran out; \<open>parse_total\<close> shows that the fuel \<open>parse_yaml\<close> passes, twice the number of
  characters, never does. Whatever fails in them is a \<open>MiniYamlError\<close> (\<open>parse_yaml_errors\<close>); Python's limits on the depth of
  recursion and on the digits of an integer are not modelled. Reading and printing a float are parameters (\<open>float(s)\<close> for a finite result
  and \<open>float.__repr__\<close>). PyYAML, which replaces this parser when it is installed, is not modelled.
\<close>

section \<open>Scalars\<close>

definition is_quote :: "char \<Rightarrow> bool" where
  "is_quote c = (c = CHR 0x27 \<or> c = CHR 0x22)"

text \<open>\<open>int(token)\<close>: an optional sign and decimal digits, with single underscores between digits.\<close>

definition digit_val :: "char \<Rightarrow> nat option" where
  "digit_val c = (let n = (of_char c :: nat) in if 48 \<le> n \<and> n \<le> 57 then Some (n - 48) else None)"

fun int_digits :: "nat \<Rightarrow> bool \<Rightarrow> string \<Rightarrow> nat option" where
  "int_digits acc ok [] = (if ok then Some acc else None)"
| "int_digits acc ok (c # cs) =
     (case digit_val c of
        Some d \<Rightarrow> int_digits (acc * 10 + d) True cs
      | None \<Rightarrow> if c = CHR ''_'' \<and> ok then int_digits acc False cs else None)"

definition py_int :: "string \<Rightarrow> int option" where
  "py_int s =
     (case s of
        [] \<Rightarrow> None
      | c # cs \<Rightarrow>
          if c = CHR ''-'' then map_option (\<lambda>n. - int n) (int_digits 0 False cs)
          else if c = CHR ''+'' then map_option int (int_digits 0 False cs)
          else map_option int (int_digits 0 False s))"

fun flow_aux :: "string \<Rightarrow> bool \<Rightarrow> bool \<Rightarrow> string \<Rightarrow> string list" where
  "flow_aux buf sq dq [] = (if strip buf \<noteq> [] then [strip buf] else [])"
| "flow_aux buf sq dq (c # cs) =
     (let sq' = (if c = CHR 0x27 \<and> \<not> dq then \<not> sq else sq);
          dq' = (if c = CHR 0x22 \<and> \<not> sq then \<not> dq else dq)
      in if c = CHR '','' \<and> \<not> sq' \<and> \<not> dq' then strip buf # flow_aux [] sq' dq' cs
         else flow_aux (buf @ [c]) sq' dq' cs)"

definition split_flow :: "string \<Rightarrow> string list" where
  "split_flow inner = flow_aux [] False False inner"

lemma length_strip: "length (strip s) \<le> length s"
  unfolding strip_def rstrip_def lstrip_def
  by (metis length_dropWhile_le length_rev order_trans)

lemma flow_aux_length: "p \<in> set (flow_aux buf sq dq cs) \<Longrightarrow> length p \<le> length buf + length cs"
proof (induction buf sq dq cs rule: flow_aux.induct)
  case (1 buf sq dq)
  then show ?case using length_strip [of buf] by (simp split: if_splits)
next
  case (2 buf sq dq c cs)
  then show ?case using length_strip [of buf] by (fastforce simp: Let_def split: if_splits)
qed

lemma split_flow_length: "p \<in> set (split_flow s) \<Longrightarrow> length p \<le> length s"
  using flow_aux_length [of p "[]" False False s] by (simp add: split_flow_def)

function scalar :: "(string \<Rightarrow> real option) \<Rightarrow> string \<Rightarrow> pyval" where
  "scalar pf token0 =
     (let token = strip token0 in
      if token = [] \<or> token \<in> {''null'', ''~'', ''None''} then PNone
      else if token \<in> {''true'', ''True''} then PBool True
      else if token \<in> {''false'', ''False''} then PBool False
      else if token = ''[]'' then PList []
      else if token = ''{}'' then PDict []
      else if length token \<ge> 2 \<and> hd token = last token \<and> is_quote (hd token) then PStr (butlast (tl token))
      else if length token \<ge> 2 \<and> hd token = CHR ''['' \<and> last token = CHR '']'' then
        (let inner = strip (butlast (tl token)) in
         if inner = [] then PList [] else PList (map (\<lambda>p. scalar pf p) (split_flow inner)))
      else case py_int token of
        Some i \<Rightarrow> PInt i
      | None \<Rightarrow> (case pf token of Some r \<Rightarrow> PFloat r | None \<Rightarrow> PStr token))"
  by pat_completeness auto
termination
proof (relation "measure (\<lambda>(pf, s). length s)", goal_cases)
  case (2 pf token0 token inner p)
  have "length p \<le> length inner" using 2 split_flow_length by blast
  also have "\<dots> \<le> length (butlast (tl token))" using 2 length_strip by blast
  also have "\<dots> < length token" using 2 by (cases token) auto
  also have "\<dots> \<le> length token0" using 2 length_strip by blast
  finally show ?case by simp
qed simp

declare scalar.simps [simp del]

section \<open>Lines\<close>

definition is_break :: "char \<Rightarrow> bool" where
  "is_break c = (let n = (of_char c :: nat) in (10 \<le> n \<and> n \<le> 13) \<or> (28 \<le> n \<and> n \<le> 30) \<or> n = 133)"

fun splitlines_aux :: "string \<Rightarrow> string \<Rightarrow> string list" where
  "splitlines_aux buf [] = (if buf = [] then [] else [buf])"
| "splitlines_aux buf (c # cs) =
     (if is_break c
      then buf # splitlines_aux [] (if c = CHR 0x0D \<and> cs \<noteq> [] \<and> hd cs = CHR 0x0A then tl cs else cs)
      else splitlines_aux (buf @ [c]) cs)"

definition splitlines :: "string \<Rightarrow> string list" where
  "splitlines s = splitlines_aux [] s"

text \<open>A comment starts at a \<open>#\<close> outside quotes, at the start of the line or after a blank or a tab.\<close>

fun comment_aux :: "char option \<Rightarrow> bool \<Rightarrow> bool \<Rightarrow> string \<Rightarrow> string" where
  "comment_aux prev sq dq [] = []"
| "comment_aux prev sq dq (c # cs) =
     (if c = CHR 0x27 \<and> \<not> dq then c # comment_aux (Some c) (\<not> sq) dq cs
      else if c = CHR 0x22 \<and> \<not> sq then c # comment_aux (Some c) sq (\<not> dq) cs
      else if c = CHR ''#'' \<and> \<not> sq \<and> \<not> dq \<and> (prev = None \<or> prev = Some (CHR '' '') \<or> prev = Some (CHR 0x09)) then []
      else c # comment_aux (Some c) sq dq cs)"

definition strip_comment :: "string \<Rightarrow> string" where
  "strip_comment line = comment_aux None False False line"

definition indent_of :: "string \<Rightarrow> nat" where
  "indent_of line = length (takeWhile (\<lambda>c. c = CHR '' '') line)"

type_synonym yline = "nat \<times> string"

definition clean_line :: "string \<Rightarrow> yline list" where
  "clean_line raw =
     (let line = strip_comment raw in
      if strip line = [] then []
      else if startswith ''---'' (lstrip line) \<or> startswith ''...'' (lstrip line) then []
      else [(indent_of line, strip line)])"

definition clean_lines :: "string \<Rightarrow> yline list" where
  "clean_lines text = concat (map clean_line (splitlines text))"

section \<open>Blocks\<close>

text \<open>The header of a block scalar: whether it is folded, and whether its final newline is stripped.\<close>

definition block_scalar_kind :: "string \<Rightarrow> (bool \<times> bool) option" where
  "block_scalar_kind rest =
     (let head = strip rest in
      if head = [] \<or> hd head \<notin> {CHR ''|'', CHR ''>''} then None
      else Some (hd head = CHR ''>'', CHR ''-'' \<in> set (tl head)))"

definition parse_block_scalar :: "yline list \<Rightarrow> nat \<Rightarrow> bool \<times> bool \<Rightarrow> string \<times> yline list" where
  "parse_block_scalar ls ind kind =
     (let parts = map snd (takeWhile (\<lambda>l. fst l > ind) ls);
          rest = dropWhile (\<lambda>l. fst l > ind) ls;
          text = join (if fst kind then '' '' else [CHR 0x0A]) parts
      in (text @ (if \<not> snd kind \<and> parts \<noteq> [] \<and> \<not> fst kind then [CHR 0x0A] else []), rest))"

definition key_of :: "string \<Rightarrow> string" where
  "key_of content = strip (takeWhile (\<lambda>c. c \<noteq> CHR '':'') content)"

definition rest_of :: "string \<Rightarrow> string" where
  "rest_of content = strip (tl (dropWhile (\<lambda>c. c \<noteq> CHR '':'') content))"

type_synonym yres = "(pyval \<times> yline list) res option"

definition yfail :: "string \<Rightarrow> string \<Rightarrow> yres" where
  "yfail msg content = Some (Inl (MiniYamlError (msg @ repr_str content)))"

text \<open>\<open>":" in item and not item[0] in quotes\<close>\<close>

definition inline_map :: "string \<Rightarrow> bool" where
  "inline_map item = (CHR '':'' \<in> set item \<and> \<not> is_quote (hd item))"


text \<open>\<open>value, i = f(...)\<close> and then the rest of the loop; an error or the end of the fuel is passed on.\<close>

definition ythen :: "yres \<Rightarrow> (pyval \<Rightarrow> yline list \<Rightarrow> yres) \<Rightarrow> yres" where
  "ythen r f = (case r of None \<Rightarrow> None | Some (Inl e) \<Rightarrow> Some (Inl e) | Some (Inr (v, ls)) \<Rightarrow> f v ls)"

text \<open>One round of each parser, given the parsers for the rest of the work.\<close>

type_synonym block_parser = "yline list \<Rightarrow> nat \<Rightarrow> yres"
type_synonym map_parser = "yline list \<Rightarrow> nat \<Rightarrow> pydict \<Rightarrow> yres"
type_synonym list_parser = "yline list \<Rightarrow> nat \<Rightarrow> pyval list \<Rightarrow> yres"

definition block_step :: "map_parser \<Rightarrow> list_parser \<Rightarrow> block_parser" where
  "block_step mp lp lines ind =
     (if startswith ''- '' (snd (hd lines)) then lp lines ind [] else mp lines ind [])"

definition map_step :: "(string \<Rightarrow> real option) \<Rightarrow> block_parser \<Rightarrow> map_parser \<Rightarrow> map_parser" where
  "map_step pf bp mp lines ind acc =
     (case lines of
        [] \<Rightarrow> Some (Inr (PDict acc, []))
      | (ci, content) # ls \<Rightarrow>
          if ci < ind then Some (Inr (PDict acc, lines))
          else if ci > ind then yfail ''bad indent at '' content
          else if startswith ''- '' content then yfail ''unexpected list item in mapping: '' content
          else if CHR '':'' \<notin> set content
          then yfail (''expected '' @ [CHR 0x27] @ ''key: value'' @ [CHR 0x27] @ '' but got '') content
          else
            let key = key_of content; rest = rest_of content in
            (case block_scalar_kind rest of
               Some kind \<Rightarrow>
                 (case parse_block_scalar ls ind kind of (v, ls') \<Rightarrow> mp ls' ind (AList.update key (PStr v) acc))
             | None \<Rightarrow>
                 if rest \<noteq> [] then mp ls ind (AList.update key (scalar pf rest) acc)
                 else if ls \<noteq> [] \<and> fst (hd ls) > ind
                 then ythen (bp ls (fst (hd ls))) (\<lambda>v ls'. mp ls' ind (AList.update key v acc))
                 else mp ls ind (AList.update key PNone acc)))"

definition list_step :: "(string \<Rightarrow> real option) \<Rightarrow> map_parser \<Rightarrow> list_parser \<Rightarrow> list_parser" where
  "list_step pf mp lp lines ind acc =
     (case lines of
        [] \<Rightarrow> Some (Inr (PList acc, []))
      | (ci, content) # ls \<Rightarrow>
          if ci < ind \<or> (\<not> startswith ''- '' content \<and> ci = ind) then Some (Inr (PList acc, lines))
          else if ci > ind then yfail ''bad list indent at '' content
          else
            let item = strip (drop 2 content) in
            if inline_map item then
              ythen (mp ((ind + 2, item) # takeWhile (\<lambda>l. fst l > ind) ls) (ind + 2) [])
                (\<lambda>v _. lp (dropWhile (\<lambda>l. fst l > ind) ls) ind (acc @ [v]))
            else lp ls ind (acc @ [scalar pf item]))"

primrec parsers :: "(string \<Rightarrow> real option) \<Rightarrow> nat \<Rightarrow> block_parser \<times> map_parser \<times> list_parser" where
  "parsers pf 0 = (\<lambda>_ _. None, \<lambda>_ _ _. None, \<lambda>_ _ _. None)"
| "parsers pf (Suc n) =
     (case parsers pf n of (bp, mp, lp) \<Rightarrow> (block_step mp lp, map_step pf bp mp, list_step pf mp lp))"

definition parse_block :: "(string \<Rightarrow> real option) \<Rightarrow> nat \<Rightarrow> block_parser" where
  "parse_block pf n = fst (parsers pf n)"

definition parse_map :: "(string \<Rightarrow> real option) \<Rightarrow> nat \<Rightarrow> map_parser" where
  "parse_map pf n = fst (snd (parsers pf n))"

definition parse_list :: "(string \<Rightarrow> real option) \<Rightarrow> nat \<Rightarrow> list_parser" where
  "parse_list pf n = snd (snd (parsers pf n))"

lemma parser_simps [simp]:
  "parse_block pf 0 ls ind = None" "parse_map pf 0 ls ind acc = None" "parse_list pf 0 ls ind xs = None"
  "parse_block pf (Suc n) = block_step (parse_map pf n) (parse_list pf n)"
  "parse_map pf (Suc n) = map_step pf (parse_block pf n) (parse_map pf n)"
  "parse_list pf (Suc n) = list_step pf (parse_map pf n) (parse_list pf n)"
  by (simp_all add: parse_block_def parse_map_def parse_list_def case_prod_beta)

definition yaml_fuel :: "yline list \<Rightarrow> nat" where
  "yaml_fuel ls = 2 * sum_list (map (\<lambda>l. Suc (length (snd l))) ls) + 2"

definition parse_yaml :: "(string \<Rightarrow> real option) \<Rightarrow> string \<Rightarrow> pyval res option" where
  "parse_yaml pf text =
     (let lines = clean_lines text in
      if lines = [] then Some (Inr PNone)
      else case parse_block pf (yaml_fuel lines) lines (fst (hd lines)) of
        None \<Rightarrow> None
      | Some (Inl e) \<Rightarrow> Some (Inl e)
      | Some (Inr (v, [])) \<Rightarrow> Some (Inr v)
      | Some (Inr (v, l # _)) \<Rightarrow> Some (Inl (MiniYamlError (''unexpected indentation near: '' @ repr_str (snd l)))))"

text \<open>\<open>load\<close>: PyYAML (\<open>safe_load\<close>) where it is installed, this parser otherwise\<close>

definition yaml_load :: "(string \<Rightarrow> pyval res) option \<Rightarrow> (string \<Rightarrow> real option) \<Rightarrow> string \<Rightarrow> pyval res option" where
  "yaml_load pyyaml pf text = (case pyyaml of Some safe_load \<Rightarrow> Some (safe_load text) | None \<Rightarrow> parse_yaml pf text)"

section \<open>Dumping\<close>

definition dump_scalar :: "(real \<Rightarrow> string) \<Rightarrow> pyval \<Rightarrow> string" where
  "dump_scalar fr v =
     (case v of
        PNone \<Rightarrow> ''null''
      | PBool b \<Rightarrow> if b then ''true'' else ''false''
      | PInt i \<Rightarrow> show_int i
      | PFloat r \<Rightarrow> fr r
      | _ \<Rightarrow>
          let s = py_str fr v in
          if s = [] \<or> CHR '':'' \<in> set s \<or> CHR ''#'' \<in> set s \<or> strip s \<noteq> s then [CHR 0x22] @ s @ [CHR 0x22] else s)"

fun is_block :: "pyval \<Rightarrow> bool" where
  "is_block (PDict m) = (m \<noteq> [])"
| "is_block (PList xs) = (xs \<noteq> [])"
| "is_block _ = False"

definition pad :: "nat \<Rightarrow> string" where
  "pad n = replicate n (CHR '' '')"

definition dash_block :: "nat \<Rightarrow> string list \<Rightarrow> string list" where
  "dash_block ind block = (pad ind @ ''- '' @ lstrip (hd block)) # tl block"

fun dump :: "(real \<Rightarrow> string) \<Rightarrow> nat \<Rightarrow> pyval \<Rightarrow> string" where
  "dump fr ind (PDict m) =
     (if m = [] then pad ind @ ''{}'' @ [CHR 0x0A]
      else join [CHR 0x0A] (concat (map (\<lambda>(k, v).
             if is_block v then [pad ind @ k @ '':'', rstrip_chars [CHR 0x0A] (dump fr (ind + 2) v)]
             else [pad ind @ k @ '': '' @ dump_scalar fr v]) m)) @ [CHR 0x0A])"
| "dump fr ind (PList xs) =
     (if xs = [] then pad ind @ ''[]'' @ [CHR 0x0A]
      else join [CHR 0x0A] (concat (map (\<lambda>x.
             case x of
               PDict _ \<Rightarrow> dash_block ind (splitlines (rstrip_chars [CHR 0x0A] (dump fr (ind + 2) x)))
             | _ \<Rightarrow> [pad ind @ ''- '' @ dump_scalar fr x]) xs)) @ [CHR 0x0A])"
| "dump fr ind v = pad ind @ dump_scalar fr v @ [CHR 0x0A]"

section \<open>Termination\<close>

definition ysize :: "yline list \<Rightarrow> nat" where
  "ysize ls = sum_list (map (\<lambda>l. Suc (length (snd l))) ls)"

lemma ysize_simps [simp]: "ysize [] = 0" "ysize (l # ls) = Suc (length (snd l)) + ysize ls"
  by (simp_all add: ysize_def)

lemma ysize_take: "ysize (takeWhile P ls) \<le> ysize ls" and ysize_drop: "ysize (dropWhile P ls) \<le> ysize ls"
  by (induction ls) auto

lemma ysize_block_scalar: "ysize (snd (parse_block_scalar ls ind kind)) \<le> ysize ls"
  by (simp add: parse_block_scalar_def Let_def ysize_drop)

text \<open>What is left of the input is never larger than the input.\<close>

lemma ythen_Some: "ythen r f = Some (Inr x) \<longleftrightarrow> (\<exists>v ls. r = Some (Inr (v, ls)) \<and> f v ls = Some (Inr x))"
  by (auto simp: ythen_def split: option.splits sum.splits)

lemma ythen_total: "r \<noteq> None \<Longrightarrow> (\<And>v ls. r = Some (Inr (v, ls)) \<Longrightarrow> f v ls \<noteq> None) \<Longrightarrow> ythen r f \<noteq> None"
  by (auto simp: ythen_def split: option.splits sum.splits prod.splits)

lemma rest_size:
  "(parse_block pf n ls ind = Some (Inr (v, ls')) \<longrightarrow> ysize ls' \<le> ysize ls)
   \<and> (parse_map pf n ls ind acc = Some (Inr (v, ls')) \<longrightarrow> ysize ls' \<le> ysize ls)
   \<and> (parse_list pf n ls ind xs = Some (Inr (v, ls')) \<longrightarrow> ysize ls' \<le> ysize ls)"
proof (induction n arbitrary: ls ind acc xs v ls')
  case (Suc n)
  have m: "parse_map pf n l i a = Some (Inr (w, l')) \<Longrightarrow> ysize l' \<le> ysize l"
    and b: "parse_block pf n l i = Some (Inr (w, l')) \<Longrightarrow> ysize l' \<le> ysize l"
    and li: "parse_list pf n l i y = Some (Inr (w, l')) \<Longrightarrow> ysize l' \<le> ysize l" for l i a y w l'
    using Suc.IH by blast+
  have "parse_block pf (Suc n) ls ind = Some (Inr (v, ls')) \<longrightarrow> ysize ls' \<le> ysize ls"
    using m li by (auto simp: block_step_def split: if_splits)
  moreover have "parse_map pf (Suc n) ls ind acc = Some (Inr (v, ls')) \<longrightarrow> ysize ls' \<le> ysize ls"
  proof (cases ls)
    case (Cons l t)
    have tail: "ysize ls' \<le> ysize ls" if "parse_map pf n u ind a = Some (Inr (v, ls'))" "ysize u \<le> ysize t" for u a
      using m [OF that(1)] that(2) Cons by simp
    show ?thesis
      using Cons tail b ysize_block_scalar [of t ind]
      by (fastforce simp: map_step_def yfail_def Let_def case_prod_beta ythen_Some split: if_splits option.splits)
  qed (auto simp: map_step_def)
  moreover have "parse_list pf (Suc n) ls ind xs = Some (Inr (v, ls')) \<longrightarrow> ysize ls' \<le> ysize ls"
  proof (cases ls)
    case (Cons l t)
    have tail: "ysize ls' \<le> ysize ls" if "parse_list pf n u ind a = Some (Inr (v, ls'))" "ysize u \<le> ysize t" for u a
      using li [OF that(1)] that(2) Cons by simp
    show ?thesis
      using Cons tail ysize_drop [of "\<lambda>l. fst l > ind" t]
      by (fastforce simp: list_step_def yfail_def Let_def case_prod_beta ythen_Some split: if_splits)
  qed (auto simp: list_step_def)
  ultimately show ?case by blast
qed simp

lemmas rest_size_block = rest_size [THEN conjunct1, rule_format]

lemma colon_nonempty: "CHR '':'' \<in> set content \<Longrightarrow> 1 \<le> length content"
  by (cases content) auto

lemma item_length: "startswith ''- '' content \<Longrightarrow> length (strip (drop 2 content)) + 2 \<le> length content"
  using length_strip [of "drop 2 content"] by (auto simp: startswith_iff)

lemma enough_fuel:
  "(2 * ysize ls + 2 \<le> n \<longrightarrow> parse_block pf n ls ind \<noteq> None)
   \<and> (2 * ysize ls + 1 \<le> n \<longrightarrow> parse_map pf n ls ind acc \<noteq> None)
   \<and> (2 * ysize ls + 1 \<le> n \<longrightarrow> parse_list pf n ls ind xs \<noteq> None)"
proof (induction n arbitrary: ls ind acc xs)
  case (Suc n)
  have b: "2 * ysize l + 2 \<le> n \<Longrightarrow> parse_block pf n l i \<noteq> None"
    and m: "2 * ysize l + 1 \<le> n \<Longrightarrow> parse_map pf n l i a \<noteq> None"
    and li: "2 * ysize l + 1 \<le> n \<Longrightarrow> parse_list pf n l i y \<noteq> None" for l i a y
    using Suc.IH by blast+
  have "parse_block pf (Suc n) ls ind \<noteq> None" if "2 * ysize ls + 2 \<le> Suc n"
    using that m li by (simp add: block_step_def)
  moreover have "parse_map pf (Suc n) ls ind acc \<noteq> None" if f: "2 * ysize ls + 1 \<le> Suc n"
  proof (cases ls)
    case (Cons l t)
    obtain ci content where l: "l = (ci, content)" by (cases l)
    have tail: "parse_map pf n u ind a \<noteq> None" if "ysize u \<le> ysize t" for u a
      using f Cons that by (intro m) simp
    have sub: "ythen (parse_block pf n t i) (\<lambda>v ls'. parse_map pf n ls' ind (g v)) \<noteq> None"
      if "CHR '':'' \<in> set content" for i g
      using f Cons l colon_nonempty [OF that] rest_size_block
      by (intro ythen_total b tail) auto
    have scal: "parse_map pf n (snd (parse_block_scalar t ind kind)) ind a \<noteq> None" for kind a
      by (rule tail [OF ysize_block_scalar])
    show ?thesis
      using Cons l tail [OF order_refl] sub scal
      by (cases "block_scalar_kind (rest_of content)") (auto simp: map_step_def yfail_def Let_def case_prod_beta)
  qed (simp add: map_step_def)
  moreover have "parse_list pf (Suc n) ls ind xs \<noteq> None" if f: "2 * ysize ls + 1 \<le> Suc n"
  proof (cases ls)
    case (Cons l t)
    obtain ci content where l: "l = (ci, content)" by (cases l)
    have tail: "parse_list pf n u ind a \<noteq> None" if "ysize u \<le> ysize t" for u a
      using f Cons that by (intro li) simp
    have "parse_map pf n ((i, strip (drop 2 content)) # takeWhile P t) j [] \<noteq> None"
      if "startswith ''- '' content" for i j P
      using f Cons l item_length [OF that] ysize_take [of P t] by (intro m) simp
    then have sub: "ythen (parse_map pf n ((i, strip (drop 2 content)) # takeWhile P t) j [])
        (\<lambda>v _. parse_list pf n (dropWhile P t) ind (g v)) \<noteq> None"
      if "startswith ''- '' content" for i j P g
      using that ysize_drop [of P t] by (intro ythen_total tail) auto
    show ?thesis
      using Cons l tail sub by (auto simp: list_step_def yfail_def Let_def)
  qed (simp add: list_step_def)
  ultimately show ?case by blast
qed simp

lemma parse_yaml_total: "\<exists>r. parse_yaml pf text = Some r"
proof (cases "clean_lines text = []")
  case False
  have "parse_block pf (yaml_fuel (clean_lines text)) (clean_lines text) (fst (hd (clean_lines text))) \<noteq> None"
    by (rule enough_fuel [THEN conjunct1, rule_format]) (simp only: yaml_fuel_def ysize_def)
  then show ?thesis
    using False by (auto simp: parse_yaml_def Let_def split: sum.splits list.splits)
qed (simp add: parse_yaml_def)

section \<open>Errors\<close>

text \<open>A result that is a value, a \<open>MiniYamlError\<close>, or the end of the fuel: closed under \<open>ythen\<close>, so every
  failure of the block parsers is of that kind.\<close>

definition only_yaml_errors :: "yres \<Rightarrow> bool" where
  "only_yaml_errors r = (\<forall>e. r = Some (Inl e) \<longrightarrow> (\<exists>m. e = MiniYamlError m))"

lemma only_yaml_errors_simps [simp]:
  "only_yaml_errors None" "only_yaml_errors (Some (Inr x))" "only_yaml_errors (yfail msg content)"
  by (simp_all add: only_yaml_errors_def yfail_def)

lemma only_yaml_errors_ythen:
  "only_yaml_errors r \<Longrightarrow> (\<And>v ls. only_yaml_errors (f v ls)) \<Longrightarrow> only_yaml_errors (ythen r f)"
  by (auto simp: only_yaml_errors_def ythen_def split: option.splits sum.splits prod.splits)

lemma parser_errors:
  "only_yaml_errors (parse_block pf n ls ind) \<and> only_yaml_errors (parse_map pf n ls ind acc)
   \<and> only_yaml_errors (parse_list pf n ls ind xs)"
proof (induction n arbitrary: ls ind acc xs)
  case (Suc n)
  have b: "only_yaml_errors (parse_block pf n l i)" and m: "only_yaml_errors (parse_map pf n l i a)"
    and li: "only_yaml_errors (parse_list pf n l i y)" for l i a y
    using Suc.IH by blast+
  have "only_yaml_errors (parse_block pf (Suc n) ls ind)" by (simp add: block_step_def m li)
  moreover have "only_yaml_errors (parse_map pf (Suc n) ls ind acc)"
    by (cases ls; cases "block_scalar_kind (rest_of (snd (hd ls)))")
      (auto simp: map_step_def Let_def case_prod_beta m b only_yaml_errors_ythen)
  moreover have "only_yaml_errors (parse_list pf (Suc n) ls ind xs)"
    by (cases ls) (auto simp: list_step_def Let_def m li only_yaml_errors_ythen)
  ultimately show ?case by blast
qed simp

lemma parse_yaml_errors: "parse_yaml pf text = Some (Inl e) \<Longrightarrow> \<exists>m. e = MiniYamlError m"
  using parser_errors [THEN conjunct1, of pf "yaml_fuel (clean_lines text)" "clean_lines text"]
  by (auto simp: parse_yaml_def Let_def only_yaml_errors_def split: if_splits option.splits sum.splits list.splits)

end
