(* ===== verification/RockyPolicy.thy ===== *)
theory RockyPolicy
  imports MiniYaml
begin

text \<open>
  The policy of the Debian control layer (\<open>src/rocky/policy.py\<close>): the loader of its two configuration
  files, the pattern checks, the capability an action needs, and \<open>decide\<close>, which answers \<open>allow\<close>,
  \<open>ask_user\<close> or \<open>deny\<close> for a typed action. Actions, capabilities and the tool registry are dynamic
  values, as the JSON and YAML decoders deliver them, so a wrongly typed field raises as in Python.
  \<open>fr\<close> prints a float.
\<close>

section \<open>Dynamic values\<close>

text \<open>\<open>v or d\<close>, the elements of a \<open>for\<close> loop, and \<open>set(xs)\<close>, which needs hashable elements.\<close>

definition py_or :: "pyval \<Rightarrow> pyval \<Rightarrow> pyval" where
  "py_or v d = (if truthy v then v else d)"

definition py_iter :: "pyval \<Rightarrow> pyval list res" where
  "py_iter v =
     (case v of
        PList xs \<Rightarrow> Inr xs
      | PStr s \<Rightarrow> Inr (map (\<lambda>c. PStr [c]) s)
      | PDict m \<Rightarrow> Inr (map (\<lambda>kv. PStr (fst kv)) m)
      | _ \<Rightarrow> Inl (TypeError (repr_str (py_type_name v) @ '' object is not iterable'')))"

fun hashable :: "pyval \<Rightarrow> bool" where
  "hashable (PList _) = False"
| "hashable (PDict _) = False"
| "hashable _ = True"

definition unhashable :: "pyval \<Rightarrow> exn" where
  "unhashable v = TypeError (''unhashable type: '' @ repr_str (py_type_name v))"

definition py_set :: "pyval \<Rightarrow> pyval list res" where
  "py_set v = and_then (py_iter v) (\<lambda>xs.
     case filter (\<lambda>x. \<not> hashable x) xs of [] \<Rightarrow> Inr xs | x # _ \<Rightarrow> Inl (unhashable x))"

section \<open>The loader of the configuration files\<close>

definition simple_line :: "string \<Rightarrow> yline list" where
  "simple_line raw =
     (if strip raw = [] \<or> startswith ''#'' (lstrip raw) then [] else [(indent_of raw, strip raw)])"

definition simple_scalar :: "string \<Rightarrow> pyval" where
  "simple_scalar tok =
     (if length tok \<ge> 2 \<and> hd tok = last tok \<and> is_quote (hd tok) then PStr (butlast (tl tok))
      else let low = lower tok in
        if low \<in> {''true'', ''yes''} then PBool True
        else if low \<in> {''false'', ''no''} then PBool False
        else if low \<in> {''null'', ''~'', []} then PNone
        else PStr tok)"

definition item_at :: "nat \<Rightarrow> yline \<Rightarrow> bool" where
  "item_at ind l = (fst l = ind \<and> startswith ''- '' (snd l))"

definition simple_list :: "yline list \<Rightarrow> nat \<Rightarrow> pyval \<times> yline list" where
  "simple_list ls ind =
     (PList (map (\<lambda>l. simple_scalar (strip (drop 2 (snd l)))) (takeWhile (item_at ind) ls)),
      dropWhile (item_at ind) ls)"

lemma simple_list_length: "length (snd (simple_list ls ind)) \<le> length ls"
  by (simp add: simple_list_def length_dropWhile_le)

text \<open>The mapping loop of \<open>_parse_block\<close>, with the recursive call for a nested block in it.\<close>

function simple_map :: "yline list \<Rightarrow> nat \<Rightarrow> pydict \<Rightarrow> pyval \<times> yline list" where
  "simple_map [] ind acc = (PDict acc, [])"
| "simple_map (l # ls) ind acc =
     (if fst l \<noteq> ind \<or> startswith ''- '' (snd l) then (PDict acc, l # ls)
      else
        let key = key_of (snd l); val = rest_of (snd l) in
        if val \<noteq> [] then simple_map ls ind (AList.update key (simple_scalar val) acc)
        else if ls \<noteq> [] \<and> fst (hd ls) > ind then
          (case (if startswith ''- '' (snd (hd ls)) then simple_list ls (fst (hd ls))
                 else simple_map ls (fst (hd ls)) []) of
             (child, rest) \<Rightarrow> simple_map rest ind (AList.update key child acc))
        else simple_map ls ind (AList.update key PNone acc))"
  by pat_completeness auto
termination
proof (relation "measure (\<lambda>(ls, _, _). length ls)", goal_cases)
  have shorter: "length (snd (simple_map ls ind acc)) \<le> length ls" if "simple_map_dom (ls, ind, acc)" for ls ind acc
    using that
  proof (induction ls ind acc rule: simple_map.pinduct)
    case (1 ind acc)
    then show ?case by (simp add: simple_map.psimps)
  next
    case (2 l ls ind acc)
    note ih = 2(2-) [OF _ refl refl]
    show ?case
    proof (cases "fst l \<noteq> ind \<or> startswith ''- '' (snd l)")
      case True
      then show ?thesis using 2(1) by (simp add: simple_map.psimps)
    next
      case a: False
      show ?thesis
      proof (cases "rest_of (snd l) \<noteq> []")
        case True
        then show ?thesis using 2(1) a ih(1) [OF a] by (simp add: simple_map.psimps Let_def)
      next
        case b: False
        show ?thesis
        proof (cases "ls \<noteq> [] \<and> fst (hd ls) > ind")
          case c: True
          obtain child rest where r: "(if startswith ''- '' (snd (hd ls)) then simple_list ls (fst (hd ls))
              else simple_map ls (fst (hd ls)) []) = (child, rest)" by (cases "startswith ''- '' (snd (hd ls))") force+
          have "length rest \<le> length ls"
            using ih(2) [OF a b c] r simple_list_length [of ls "fst (hd ls)"] by (auto split: if_splits)
          then show ?thesis
            using 2(1) a b c ih(3) [OF a b c r [symmetric]] r by (auto simp: simple_map.psimps Let_def)
        next
          case c: False
          then show ?thesis using 2(1) a b ih(4) [OF a b c] by (auto simp: simple_map.psimps Let_def)
        qed
      qed
    qed
  qed
  have child_shorter: "length rest < Suc (length ls)"
    if "(child, rest) = (if startswith ''- '' (snd (hd ls)) then simple_list ls (fst (hd ls))
        else simple_map ls (fst (hd ls)) [])"
      "\<not> startswith ''- '' (snd (hd ls)) \<Longrightarrow> simple_map_dom (ls, fst (hd ls), [])" for child rest ls
  proof (cases "startswith ''- '' (snd (hd ls))")
    case True
    then have "rest = snd (simple_list ls (fst (hd ls)))" using that(1) by (metis snd_conv)
    then show ?thesis using simple_list_length [of ls "fst (hd ls)"] by simp
  next
    case False
    then have "rest = snd (simple_map ls (fst (hd ls)) [])" using that(1) by (metis snd_conv)
    then show ?thesis using shorter [OF that(2) [OF False]] by simp
  qed
  case 4
  then show ?case by (simp add: child_shorter)
qed simp_all

definition simple_block :: "yline list \<Rightarrow> nat \<Rightarrow> pyval \<times> yline list" where
  "simple_block ls ind = (if startswith ''- '' (snd (hd ls)) then simple_list ls ind else simple_map ls ind [])"

definition parse_simple_yaml :: "string \<Rightarrow> pydict" where
  "parse_simple_yaml text =
     (let ls = concat (map simple_line (splitlines text)) in
      if ls = [] then []
      else case fst (simple_block ls (fst (hd ls))) of PDict m \<Rightarrow> m | _ \<Rightarrow> [])"

text \<open>\<open>_load_yaml\<close>: PyYAML where it is installed (\<open>safe_load(fh) or {}\<close>), the simple parser otherwise\<close>

definition load_yaml :: "(string \<Rightarrow> pyval) option \<Rightarrow> string \<Rightarrow> pyval" where
  "load_yaml pyyaml text =
     (case pyyaml of
        Some safe_load \<Rightarrow> if truthy (safe_load text) then safe_load text else PDict []
      | None \<Rightarrow> PDict (parse_simple_yaml text))"

definition load_registry :: "(string \<Rightarrow> pyval) option \<Rightarrow> string \<Rightarrow> pyval" where
  "load_registry pyyaml text = load_yaml pyyaml text"

definition load_capabilities :: "pydict \<Rightarrow> pyval" where
  "load_capabilities data = dict_get data ''capabilities'' (PDict [])"

section \<open>The decision\<close>

definition PRIVILEGED_COMMANDS :: "string list" where
  "PRIVILEGED_COMMANDS =
     [''sudo'', ''su'', ''systemctl'', ''service'', ''apt'', ''apt-get'', ''dpkg'', ''pip'', ''pip3'',
      ''mount'', ''umount'', ''useradd'', ''userdel'', ''usermod'', ''passwd'', ''reboot'',
      ''shutdown'', ''crontab'']"

definition KIND_CAPABILITY :: "(string \<times> string) list" where
  "KIND_CAPABILITY =
     [(''file.read'', ''file_read''), (''file.write'', ''file_write''), (''file.delete'', ''file_delete''),
      (''memory.write'', ''memory_write''), (''memory.search'', ''memory_read'')]"

datatype policy_decision = allow | ask_user | deny

type_synonym verdict = "policy_decision \<times> string"

text \<open>\<open>action.get("payload", {}) or {}\<close>\<close>

definition payload_of :: "pydict \<Rightarrow> pyval" where
  "payload_of action = py_or (dict_get action ''payload'' (PDict [])) (PDict [])"

definition quoted :: "string \<Rightarrow> string" where
  "quoted s = [CHR 0x27] @ s @ [CHR 0x27]"

definition command_string :: "(real \<Rightarrow> string) \<Rightarrow> pydict \<Rightarrow> string res" where
  "command_string fr action =
     (let p = payload_of action in
      and_then (val_get p ''command'' (PStr [])) (\<lambda>c.
      and_then (val_get p ''args'' (PList [])) (\<lambda>a.
      and_then (py_iter (py_or a (PList []))) (\<lambda>args.
        Inr (strip (join '' '' (py_str fr c # map (py_str fr) args)))))))"

text \<open>\<open>str(payload.get("command", "")).strip()\<close>\<close>

definition base_command :: "(real \<Rightarrow> string) \<Rightarrow> pyval \<Rightarrow> string res" where
  "base_command fr p = and_then (val_get p ''command'' (PStr [])) (\<lambda>c. Inr (strip (py_str fr c)))"

text \<open>\<open>set(reg.get(key, []) or [])\<close>\<close>

definition reg_set :: "pydict \<Rightarrow> string \<Rightarrow> pyval list res" where
  "reg_set reg key = py_set (py_or (dict_get reg key (PList [])) (PList []))"

definition required_capability ::
  "(real \<Rightarrow> string) \<Rightarrow> pyval \<Rightarrow> pyval \<Rightarrow> pyval \<Rightarrow> pydict \<Rightarrow> string option res" where
  "required_capability fr kind risk payload reg =
     (if kind = PStr ''debian.command'' then
        and_then (base_command fr payload) (\<lambda>base.
          if base \<in> set PRIVILEGED_COMMANDS \<or> risk = PStr ''privileged'' then Inr (Some ''privileged'')
          else if risk = PStr ''network'' then Inr (Some ''network'')
          else and_then (reg_set reg ''debian_read_only_commands'') (\<lambda>allowed.
            if risk = PStr ''read_only'' \<and> PStr base \<in> set allowed then Inr (Some ''shell_read'')
            else Inr (Some ''shell_write'')))
      else if risk = PStr ''network'' then Inr (Some ''network'')
      else case kind of
        PStr k \<Rightarrow> Inr (map_of KIND_CAPABILITY k)
      | _ \<Rightarrow> if hashable kind then Inr None else Inl (unhashable kind))"

text \<open>The loop over the forbidden patterns: the first one found, if any.\<close>

fun first_pattern :: "pyval list \<Rightarrow> string \<Rightarrow> string option res" where
  "first_pattern [] hay = Inr None"
| "first_pattern (p # ps) hay =
     (if \<not> truthy p then first_pattern ps hay
      else case p of
        PStr s \<Rightarrow> if contains s hay then Inr (Some s) else first_pattern ps hay
      | _ \<Rightarrow> Inl (TypeError (quoted ''in <string>'' @ '' requires string as left operand, not '' @ py_type_name p)))"

definition capability_enabled :: "pyval \<Rightarrow> string \<Rightarrow> bool res" where
  "capability_enabled caps name =
     and_then (val_get caps name PNone) (\<lambda>cap.
       if cap = PNone then Inr False
       else and_then (val_get cap ''enabled'' (PBool False)) (\<lambda>e. Inr (truthy e)))"

definition decide_command :: "(real \<Rightarrow> string) \<Rightarrow> pyval \<Rightarrow> pyval \<Rightarrow> pydict \<Rightarrow> verdict res" where
  "decide_command fr risk payload reg =
     and_then (base_command fr payload) (\<lambda>base.
       if base = [] then Inr (deny, ''no command specified'')
       else and_then (reg_set reg ''debian_read_only_commands'') (\<lambda>allowed.
       and_then (reg_set reg ''dangerous_commands'') (\<lambda>dangerous.
         if PStr base \<in> set dangerous
         then Inr (ask_user, ''command '' @ quoted base @ '' is potentially dangerous'')
         else if risk = PStr ''read_only'' \<and> PStr base \<in> set allowed
         then Inr (allow, quoted base @ '' is an allowlisted read-only command'')
         else Inr (ask_user, quoted base @ '' is not on the read-only allowlist''))))"

definition decide_gated ::
  "(real \<Rightarrow> string) \<Rightarrow> pyval \<Rightarrow> pyval \<Rightarrow> pyval \<Rightarrow> pyval \<Rightarrow> pydict \<Rightarrow> verdict res" where
  "decide_gated fr kind risk payload caps reg =
     and_then (required_capability fr kind risk payload reg) (\<lambda>cap_name.
     and_then (case cap_name of None \<Rightarrow> Inr True | Some c \<Rightarrow> capability_enabled caps c) (\<lambda>ok.
       if \<not> ok then Inr (deny, ''capability '' @ quoted (the cap_name) @ '' is disabled'')
       else if kind = PStr ''debian.command'' then decide_command fr risk payload reg
       else if risk = PStr ''read_only'' then Inr (allow, ''read-only action'')
       else Inr (ask_user, ''risk '' @ quoted (py_str fr (py_or risk (PStr ''unknown''))) @ '' requires confirmation'')))"

definition decide_action :: "(real \<Rightarrow> string) \<Rightarrow> pydict \<Rightarrow> pyval \<Rightarrow> pydict \<Rightarrow> verdict res" where
  "decide_action fr action caps reg =
     (let kind = dict_get action ''kind'' (PStr []);
          risk = dict_get action ''risk'' (PStr []);
          payload = payload_of action
      in if risk = PStr ''forbidden'' then Inr (deny, ''risk is '' @ quoted ''forbidden'')
      else
        and_then (command_string fr action) (\<lambda>cmd.
        and_then (val_get payload ''content'' (PStr [])) (\<lambda>content.
        and_then (py_iter (py_or (dict_get reg ''forbidden_patterns'' (PList [])) (PList []))) (\<lambda>patterns.
        and_then (first_pattern patterns (cmd @ '' '' @ py_str fr content)) (\<lambda>found.
          case found of
            Some p \<Rightarrow> Inr (deny, ''matches forbidden pattern: '' @ repr_str p)
          | None \<Rightarrow> decide_gated fr kind risk payload caps reg)))))"


section \<open>Facts about decisions\<close>

text \<open>What the pattern check looks at, and the patterns it looks for.\<close>

definition haystack :: "(real \<Rightarrow> string) \<Rightarrow> pydict \<Rightarrow> string res" where
  "haystack fr action =
     and_then (command_string fr action) (\<lambda>cmd.
     and_then (val_get (payload_of action) ''content'' (PStr [])) (\<lambda>content.
       Inr (cmd @ '' '' @ py_str fr content)))"

definition patterns_of :: "pydict \<Rightarrow> pyval list res" where
  "patterns_of reg = py_iter (py_or (dict_get reg ''forbidden_patterns'' (PList [])) (PList []))"

definition kind_of :: "pydict \<Rightarrow> pyval" where
  "kind_of action = dict_get action ''kind'' (PStr [])"

definition risk_of :: "pydict \<Rightarrow> pyval" where
  "risk_of action = dict_get action ''risk'' (PStr [])"

lemma first_pattern_None:
  "first_pattern ps hay = Inr None \<Longrightarrow> PStr p \<in> set ps \<Longrightarrow> p \<noteq> [] \<Longrightarrow> \<not> contains p hay"
  by (induction ps hay rule: first_pattern.induct) (auto split: if_splits pyval.splits)

lemma first_pattern_Some:
  "first_pattern ps hay = Inr (Some p) \<Longrightarrow> PStr p \<in> set ps \<and> p \<noteq> [] \<and> contains p hay"
  by (induction ps hay rule: first_pattern.induct) (auto split: if_splits pyval.splits)

lemma decide_action_Inr:
  assumes "decide_action fr a caps reg = Inr v"
  shows "(risk_of a = PStr ''forbidden'' \<and> fst v = deny)
    \<or> (\<exists>hay ps p. haystack fr a = Inr hay \<and> patterns_of reg = Inr ps \<and> first_pattern ps hay = Inr (Some p) \<and> fst v = deny)
    \<or> (\<exists>hay ps. risk_of a \<noteq> PStr ''forbidden'' \<and> haystack fr a = Inr hay \<and> patterns_of reg = Inr ps
         \<and> first_pattern ps hay = Inr None
         \<and> decide_gated fr (kind_of a) (risk_of a) (payload_of a) caps reg = Inr v)"
  using assms
  by (force simp: decide_action_def haystack_def patterns_of_def kind_of_def risk_of_def Let_def and_then_eq_Inr
      split: if_splits option.splits)

lemma decide_gated_Inr:
  assumes "decide_gated fr kind risk payload caps reg = Inr v" "fst v \<noteq> deny"
  shows "\<exists>c. required_capability fr kind risk payload reg = Inr c
    \<and> (\<forall>n. c = Some n \<longrightarrow> capability_enabled caps n = Inr True)
    \<and> (if kind = PStr ''debian.command'' then decide_command fr risk payload reg = Inr v
       else fst v = (if risk = PStr ''read_only'' then allow else ask_user))"
  using assms by (auto simp: decide_gated_def and_then_eq_Inr split: if_splits option.splits)

lemma decide_command_allow:
  assumes "decide_command fr risk payload reg = Inr v" "fst v = allow"
  shows "\<exists>base al da. base_command fr payload = Inr base \<and> base \<noteq> []
    \<and> reg_set reg ''debian_read_only_commands'' = Inr al \<and> reg_set reg ''dangerous_commands'' = Inr da
    \<and> risk = PStr ''read_only'' \<and> PStr base \<in> set al \<and> PStr base \<notin> set da"
  using assms by (auto simp: decide_command_def and_then_eq_Inr split: if_splits)

lemma privileged_required:
  assumes "base_command fr payload = Inr base" "base \<in> set PRIVILEGED_COMMANDS"
  shows "required_capability fr (PStr ''debian.command'') risk payload reg = Inr (Some ''privileged'')"
  using assms by (simp add: required_capability_def)

section \<open>Properties\<close>

text \<open>C35. The policy lets an action run without asking only when everything vouches for it: it is labelled
  read-only, no forbidden pattern occurs in its command line or content, the capability it needs is
  enabled, and a command is on the allowlist, is not listed as dangerous, and is no privileged command
  unless that capability is enabled. An action labelled forbidden, or matching a pattern, is denied.\<close>

theorem policy_allows_only_vetted:
  assumes "decide_action fr a caps reg = Inr v"
  shows "(fst v = allow \<longrightarrow>
      risk_of a = PStr ''read_only''
      \<and> (\<exists>hay ps. haystack fr a = Inr hay \<and> patterns_of reg = Inr ps
            \<and> (\<forall>p. PStr p \<in> set ps \<and> p \<noteq> [] \<longrightarrow> \<not> contains p hay))
      \<and> (\<exists>c. required_capability fr (kind_of a) (risk_of a) (payload_of a) reg = Inr c
            \<and> (\<forall>n. c = Some n \<longrightarrow> capability_enabled caps n = Inr True))
      \<and> (kind_of a = PStr ''debian.command'' \<longrightarrow>
           (\<exists>base al da. base_command fr (payload_of a) = Inr base
              \<and> reg_set reg ''debian_read_only_commands'' = Inr al \<and> reg_set reg ''dangerous_commands'' = Inr da
              \<and> PStr base \<in> set al \<and> PStr base \<notin> set da
              \<and> (base \<in> set PRIVILEGED_COMMANDS \<longrightarrow> capability_enabled caps ''privileged'' = Inr True))))
    \<and> (risk_of a = PStr ''forbidden'' \<longrightarrow> fst v = deny)
    \<and> (\<forall>hay ps p. haystack fr a = Inr hay \<and> patterns_of reg = Inr ps \<and> PStr p \<in> set ps \<and> p \<noteq> [] \<and> contains p hay
         \<longrightarrow> fst v = deny)"
proof (intro conjI impI allI)
  assume al: "fst v = allow"
  then obtain hay ps where g: "haystack fr a = Inr hay" "patterns_of reg = Inr ps" "first_pattern ps hay = Inr None"
    "decide_gated fr (kind_of a) (risk_of a) (payload_of a) caps reg = Inr v"
    using decide_action_Inr [OF assms] by auto
  then obtain c where c: "required_capability fr (kind_of a) (risk_of a) (payload_of a) reg = Inr c"
    "\<And>n. c = Some n \<Longrightarrow> capability_enabled caps n = Inr True"
    "if kind_of a = PStr ''debian.command'' then decide_command fr (risk_of a) (payload_of a) reg = Inr v
       else fst v = (if risk_of a = PStr ''read_only'' then allow else ask_user)"
    using decide_gated_Inr [OF g(4)] al by auto
  show "risk_of a = PStr ''read_only''"
    using c(3) al decide_command_allow [of fr "risk_of a" "payload_of a" reg v] by (auto split: if_splits)
  show "\<exists>hay ps. haystack fr a = Inr hay \<and> patterns_of reg = Inr ps
      \<and> (\<forall>p. PStr p \<in> set ps \<and> p \<noteq> [] \<longrightarrow> \<not> contains p hay)"
    using g first_pattern_None by blast
  show "\<exists>c. required_capability fr (kind_of a) (risk_of a) (payload_of a) reg = Inr c
      \<and> (\<forall>n. c = Some n \<longrightarrow> capability_enabled caps n = Inr True)"
    using c by blast
  assume k: "kind_of a = PStr ''debian.command''"
  then obtain base al da where b: "base_command fr (payload_of a) = Inr base"
    "reg_set reg ''debian_read_only_commands'' = Inr al" "reg_set reg ''dangerous_commands'' = Inr da"
    "PStr base \<in> set al" "PStr base \<notin> set da"
    using decide_command_allow [of fr "risk_of a" "payload_of a" reg v] c(3) al by auto
  moreover have "capability_enabled caps ''privileged'' = Inr True" if "base \<in> set PRIVILEGED_COMMANDS"
    using privileged_required [OF b(1) that, of "risk_of a" reg] c(1,2) k by simp
  ultimately show "\<exists>base al da. base_command fr (payload_of a) = Inr base
      \<and> reg_set reg ''debian_read_only_commands'' = Inr al \<and> reg_set reg ''dangerous_commands'' = Inr da
      \<and> PStr base \<in> set al \<and> PStr base \<notin> set da
      \<and> (base \<in> set PRIVILEGED_COMMANDS \<longrightarrow> capability_enabled caps ''privileged'' = Inr True)"
    by blast
next
  assume "risk_of a = PStr ''forbidden''"
  then show "fst v = deny" using decide_action_Inr [OF assms] by auto
next
  fix hay ps p
  assume "haystack fr a = Inr hay \<and> patterns_of reg = Inr ps \<and> PStr p \<in> set ps \<and> p \<noteq> [] \<and> contains p hay"
  then show "fst v = deny" using decide_action_Inr [OF assms] first_pattern_None by fastforce
qed

end
