(* ===== verification/RockyShipped.thy ===== *)
theory RockyShipped
  imports RockyPolicy
begin

text \<open>
  The configuration that is shipped with the Debian control layer (\<open>src/rocky/capabilities.yaml\<close> and
  \<open>src/rocky/tool_registry.yaml\<close>), read by the model of the loader, and what the policy decides with it.
\<close>

section \<open>The files\<close>

definition CAPABILITIES_YAML :: string where
  "CAPABILITIES_YAML = join [CHR 0x0A]
     [''capabilities:'', ''  shell_read:'', ''    enabled: true'', ''    risk: read_only'',
      ''    description: Run allowlisted read-only Debian commands.'', [], ''  shell_write:'',
      ''    enabled: false'', ''    risk: write'',
      ''    description: Run commands that modify files or system state.'', [], ''  file_read:'',
      ''    enabled: true'', ''    risk: read_only'',
      ''    description: Read non-private user-approved files.'', [], ''  file_write:'',
      ''    enabled: false'', ''    risk: write'', ''    description: Write or append files.'', [],
      ''  file_delete:'', ''    enabled: false'', ''    risk: destructive'',
      ''    description: Delete files.'', [], ''  memory_read:'', ''    enabled: true'',
      ''    risk: read_only'', ''    description: Search Rocky memory.'', [], ''  memory_write:'',
      ''    enabled: true'', ''    risk: write'',
      ''    description: Store user preferences, facts, and project notes.'', [], ''  network:'',
      ''    enabled: false'', ''    risk: network'', ''    description: Use network access.'', [],
      ''  privileged:'', ''    enabled: false'', ''    risk: privileged'',
      ''    description: Use sudo, systemctl, package managers, or root-level operations.'', []]"

definition TOOL_REGISTRY_YAML :: string where
  "TOOL_REGISTRY_YAML = join [CHR 0x0A]
     [''debian_read_only_commands:'', ''  - pwd'', ''  - whoami'', ''  - id'', ''  - uname'', ''  - hostname'',
      ''  - date'', ''  - uptime'', ''  - df'', ''  - du'', ''  - free'', ''  - ls'', ''  - cat'',
      ''  - head'', ''  - tail'', ''  - grep'', ''  - find'', ''  - stat'', ''  - file'', ''  - ps'',
      ''  - top'', ''  - ss'', ''  - ip'', ''  - lscpu'', ''  - lsblk'', ''  - mount'', ''  - env'',
      ''  - printenv'', ''  - which'', ''  - command'', [], ''dangerous_commands:'', ''  - sudo'', ''  - su'',
      ''  - rm'', ''  - rmdir'', ''  - mv'', ''  - cp'', ''  - chmod'', ''  - chown'', ''  - dd'',
      ''  - mkfs'', ''  - fdisk'', ''  - parted'', ''  - mount'', ''  - umount'', ''  - systemctl'',
      ''  - service'', ''  - apt'', ''  - apt-get'', ''  - dpkg'', ''  - pip'', ''  - pip3'', ''  - curl'',
      ''  - wget'', ''  - nc'', ''  - ssh'', ''  - scp'', ''  - rsync'', ''  - kill'', ''  - killall'',
      ''  - pkill'', ''  - reboot'', ''  - shutdown'', ''  - passwd'', ''  - useradd'', ''  - userdel'',
      ''  - usermod'', ''  - crontab'', ''  - tee'', ''  - sed'', ''  - awk'', ''  - python'', ''  - python3'',
      ''  - perl'', ''  - bash'', ''  - sh'', [], ''forbidden_patterns:'',
      ''  - '' @ [CHR 0x22] @ ''rm -rf /'' @ [CHR 0x22], ''  - '' @ [CHR 0x22] @ ''rm -rf /*'' @ [CHR 0x22],
      ''  - '' @ [CHR 0x22] @ ''mkfs'' @ [CHR 0x22], ''  - '' @ [CHR 0x22] @ ''dd if='' @ [CHR 0x22],
      ''  - '' @ [CHR 0x22] @ '':(){ :|:& };:'' @ [CHR 0x22],
      ''  - '' @ [CHR 0x22] @ ''chmod -R 777 /'' @ [CHR 0x22],
      ''  - '' @ [CHR 0x22] @ ''chown -R'' @ [CHR 0x22], ''  - '' @ [CHR 0x22] @ ''> /dev/sd'' @ [CHR 0x22],
      ''  - '' @ [CHR 0x22] @ ''> /dev/nvme'' @ [CHR 0x22], []]"

section \<open>What they are read as\<close>

definition CAPABILITIES :: pydict where
  "CAPABILITIES =
     [(''shell_read'', PDict [(''enabled'', PBool True), (''risk'', PStr ''read_only''), (''description'', PStr ''Run allowlisted read-only Debian commands.'')]),
      (''shell_write'', PDict [(''enabled'', PBool False), (''risk'', PStr ''write''), (''description'', PStr ''Run commands that modify files or system state.'')]),
      (''file_read'', PDict [(''enabled'', PBool True), (''risk'', PStr ''read_only''), (''description'', PStr ''Read non-private user-approved files.'')]),
      (''file_write'', PDict [(''enabled'', PBool False), (''risk'', PStr ''write''), (''description'', PStr ''Write or append files.'')]),
      (''file_delete'', PDict [(''enabled'', PBool False), (''risk'', PStr ''destructive''), (''description'', PStr ''Delete files.'')]),
      (''memory_read'', PDict [(''enabled'', PBool True), (''risk'', PStr ''read_only''), (''description'', PStr ''Search Rocky memory.'')]),
      (''memory_write'', PDict [(''enabled'', PBool True), (''risk'', PStr ''write''), (''description'', PStr ''Store user preferences, facts, and project notes.'')]),
      (''network'', PDict [(''enabled'', PBool False), (''risk'', PStr ''network''), (''description'', PStr ''Use network access.'')]),
      (''privileged'', PDict [(''enabled'', PBool False), (''risk'', PStr ''privileged''), (''description'', PStr ''Use sudo, systemctl, package managers, or root-level operations.'')])]"

definition READ_ONLY :: "string list" where
  "READ_ONLY =
     [''pwd'', ''whoami'', ''id'', ''uname'', ''hostname'', ''date'', ''uptime'', ''df'', ''du'', ''free'',
      ''ls'', ''cat'', ''head'', ''tail'', ''grep'', ''find'', ''stat'', ''file'', ''ps'', ''top'', ''ss'',
      ''ip'', ''lscpu'', ''lsblk'', ''mount'', ''env'', ''printenv'', ''which'', ''command'']"

definition DANGEROUS :: "string list" where
  "DANGEROUS =
     [''sudo'', ''su'', ''rm'', ''rmdir'', ''mv'', ''cp'', ''chmod'', ''chown'', ''dd'', ''mkfs'', ''fdisk'',
      ''parted'', ''mount'', ''umount'', ''systemctl'', ''service'', ''apt'', ''apt-get'', ''dpkg'', ''pip'',
      ''pip3'', ''curl'', ''wget'', ''nc'', ''ssh'', ''scp'', ''rsync'', ''kill'', ''killall'', ''pkill'',
      ''reboot'', ''shutdown'', ''passwd'', ''useradd'', ''userdel'', ''usermod'', ''crontab'', ''tee'',
      ''sed'', ''awk'', ''python'', ''python3'', ''perl'', ''bash'', ''sh'']"

definition PATTERNS :: "string list" where
  "PATTERNS =
     [''rm -rf /'', ''rm -rf /*'', ''mkfs'', ''dd if='', '':(){ :|:& };:'', ''chmod -R 777 /'', ''chown -R'',
      ''> /dev/sd'', ''> /dev/nvme'']"

definition REGISTRY :: pydict where
  "REGISTRY = [(''debian_read_only_commands'', PList (map PStr READ_ONLY)),
     (''dangerous_commands'', PList (map PStr DANGEROUS)), (''forbidden_patterns'', PList (map PStr PATTERNS))]"

lemma capabilities_loaded: "load_capabilities (parse_simple_yaml CAPABILITIES_YAML) = PDict CAPABILITIES"
  by code_simp

lemma registry_loaded: "parse_simple_yaml TOOL_REGISTRY_YAML = REGISTRY"
  by code_simp

abbreviation shipped_decide :: "(real \<Rightarrow> string) \<Rightarrow> pydict \<Rightarrow> verdict res" where
  "shipped_decide fr a \<equiv>
     decide_action fr a (load_capabilities (parse_simple_yaml CAPABILITIES_YAML)) (parse_simple_yaml TOOL_REGISTRY_YAML)"

section \<open>Facts\<close>

lemma shipped_capability:
  "capability_enabled (PDict CAPABILITIES) n = Inr (n \<in> {''shell_read'', ''file_read'', ''memory_read'', ''memory_write''})"
  by (simp add: capability_enabled_def CAPABILITIES_def val_get_def dict_get_def)

lemma filter_unhashable_PStr: "filter (\<lambda>x. \<not> hashable x) (map PStr xs) = []"
  by (induction xs) simp_all

lemma shipped_sets:
  "reg_set REGISTRY ''debian_read_only_commands'' = Inr (map PStr READ_ONLY)"
  "reg_set REGISTRY ''dangerous_commands'' = Inr (map PStr DANGEROUS)"
  by (simp_all add: reg_set_def py_set_def py_iter_def py_or_def REGISTRY_def dict_get_def filter_unhashable_PStr
      READ_ONLY_def DANGEROUS_def)

lemma shipped_command:
  assumes "decide_gated fr (PStr ''debian.command'') risk p (PDict CAPABILITIES) REGISTRY = Inr v" "fst v \<noteq> deny"
  shows "risk = PStr ''read_only'' \<and> fst v = allow
    \<and> (\<exists>base. base_command fr p = Inr base \<and> base \<in> set READ_ONLY \<and> base \<notin> set DANGEROUS)"
proof -
  obtain c where c: "required_capability fr (PStr ''debian.command'') risk p REGISTRY = Inr c"
    "\<And>n. c = Some n \<Longrightarrow> n \<in> {''shell_read'', ''file_read'', ''memory_read'', ''memory_write''}"
    and d: "decide_command fr risk p REGISTRY = Inr v"
    using decide_gated_Inr [OF assms] unfolding shipped_capability by (auto simp del: insert_iff)
  obtain base where b: "base_command fr p = Inr base"
    using c(1) by (auto simp: required_capability_def and_then_eq_Inr)
  have r: "base \<notin> set PRIVILEGED_COMMANDS" "risk = PStr ''read_only''" "base \<in> set READ_ONLY"
    using c b by (auto simp: required_capability_def shipped_sets split: if_splits)
  have "base \<notin> set DANGEROUS"
  proof
    assume "base \<in> set DANGEROUS"
    then have "base \<in> set (filter (\<lambda>c. c \<in> set DANGEROUS) READ_ONLY)" using r by simp
    moreover have "filter (\<lambda>c. c \<in> set DANGEROUS) READ_ONLY = [''mount'']" by code_simp
    ultimately show False using r(1) by (simp add: PRIVILEGED_COMMANDS_def)
  qed
  moreover have "base \<noteq> []" using r(3) by (auto simp: READ_ONLY_def)
  ultimately show ?thesis
    using d b r assms(2) by (auto simp: decide_command_def shipped_sets image_iff split: if_splits)
qed

lemma shipped_other:
  assumes "decide_gated fr (PStr k) risk p (PDict CAPABILITIES) REGISTRY = Inr v" "fst v \<noteq> deny"
    "k \<noteq> ''debian.command''"
  shows "k \<noteq> ''file.write'' \<and> k \<noteq> ''file.delete'' \<and> risk \<noteq> PStr ''network''"
  using decide_gated_Inr [OF assms(1,2)] assms(3)
  unfolding shipped_capability required_capability_def by (auto simp: KIND_CAPABILITY_def split: if_splits)

text \<open>The actions of a command given as its words, as a model may propose them.\<close>

definition argv_action :: "string \<Rightarrow> string list \<Rightarrow> pydict" where
  "argv_action cmd args = [(''type'', PStr ''action''), (''kind'', PStr ''debian.command''), (''risk'', PStr ''read_only''),
     (''payload'', PDict [(''command'', PStr cmd), (''args'', PList (map PStr args))])]"

lemma argv_fields [simp]:
  "kind_of (argv_action cmd args) = PStr ''debian.command''" "risk_of (argv_action cmd args) = PStr ''read_only''"
  "payload_of (argv_action cmd args) = PDict [(''command'', PStr cmd), (''args'', PList (map PStr args))]"
  "base_command fr (payload_of (argv_action cmd args)) = Inr (strip cmd)"
  by (simp_all add: kind_of_def risk_of_def payload_of_def argv_action_def dict_get_def py_or_def base_command_def
      val_get_def py_str_def)

lemma argv_haystack: "haystack fr (argv_action cmd args) = Inr (strip (join '' '' (cmd # args)) @ '' '')"
proof -
  have "map (py_str fr) (map PStr args) = args" by (induction args) (simp_all add: py_str_def)
  then show ?thesis
    by (cases args) (simp_all add: haystack_def command_string_def val_get_def dict_get_def py_or_def py_iter_def py_str_def)
qed

lemma shipped_patterns: "patterns_of REGISTRY = Inr (map PStr PATTERNS)"
  by (simp add: patterns_of_def REGISTRY_def dict_get_def py_or_def py_iter_def PATTERNS_def)

lemma decide_after_patterns:
  assumes "risk_of a \<noteq> PStr ''forbidden''" "haystack fr a = Inr hay" "patterns_of reg = Inr ps"
    "first_pattern ps hay = Inr None"
  shows "decide_action fr a caps reg = decide_gated fr (kind_of a) (risk_of a) (payload_of a) caps reg"
  using assms
  by (auto simp: decide_action_def haystack_def patterns_of_def kind_of_def risk_of_def Let_def and_then_eq_Inr)

lemma shipped_runs:
  assumes "strip cmd \<in> set READ_ONLY" "strip cmd \<notin> set DANGEROUS" "strip cmd \<notin> set PRIVILEGED_COMMANDS"
    "first_pattern (map PStr PATTERNS) (strip (join '' '' (cmd # args)) @ '' '') = Inr None"
  shows "\<exists>why. shipped_decide fr (argv_action cmd args) = Inr (allow, why)"
proof -
  have "strip cmd \<noteq> []" using assms(1) by (auto simp: READ_ONLY_def)
  then show ?thesis
    unfolding capabilities_loaded registry_loaded
    using decide_after_patterns [OF _ argv_haystack shipped_patterns assms(4), of fr "PDict CAPABILITIES"] assms(1-3)
      argv_fields(4) [of fr cmd args]
    by (auto simp: decide_gated_def required_capability_def shipped_sets shipped_capability decide_command_def image_iff
        simp del: argv_fields(4))
qed

lemma df_allowed: "\<exists>why. shipped_decide fr (argv_action ''df'' [''-h'']) = Inr (allow, why)"
proof -
  have "strip ''df'' = ''df''" "first_pattern (map PStr PATTERNS) (strip (join '' '' [''df'', ''-h'']) @ '' '') = Inr None" by code_simp+
  then show ?thesis
    by (intro shipped_runs) (simp_all add: READ_ONLY_def DANGEROUS_def PRIVILEGED_COMMANDS_def)
qed

section \<open>Properties\<close>

text \<open>With the shipped configuration a command is never put to the user: it is denied unless it is
  labelled read-only and its name is one of the allowlisted names other than the dangerous ones, and then it
  runs at once. Writing and deleting files and everything labelled as network access is denied.\<close>

theorem shipped_policy:
  assumes "shipped_decide fr a = Inr v" "kind_of a = PStr k"
  shows "(k = ''debian.command'' \<longrightarrow> fst v = deny
      \<or> fst v = allow \<and> risk_of a = PStr ''read_only''
        \<and> (\<exists>base. base_command fr (payload_of a) = Inr base \<and> base \<in> set READ_ONLY \<and> base \<notin> set DANGEROUS))
    \<and> (k \<in> {''file.write'', ''file.delete''} \<or> risk_of a = PStr ''network'' \<longrightarrow> fst v = deny)"
proof (cases "fst v = deny")
  case False
  then have g: "decide_gated fr (PStr k) (risk_of a) (payload_of a) (PDict CAPABILITIES) REGISTRY = Inr v"
    using decide_action_Inr [OF assms(1) [unfolded capabilities_loaded registry_loaded]] assms(2) by auto
  show ?thesis
  proof (cases "k = ''debian.command''")
    case True
    then show ?thesis using shipped_command [OF g [unfolded True] False] by auto
  next
    case False
    then show ?thesis using shipped_other [OF g \<open>fst v \<noteq> deny\<close> False] by auto
  qed
qed simp

theorem shipped_policy_witness:
  "\<exists>why base. shipped_decide (\<lambda>_. []) (argv_action ''df'' [''-h'']) = Inr (allow, why)
     \<and> base_command (\<lambda>_. []) (payload_of (argv_action ''df'' [''-h''])) = Inr base \<and> base \<in> set READ_ONLY
     \<and> base \<notin> set DANGEROUS"
proof -
  obtain why where d: "shipped_decide (\<lambda>_. []) (argv_action ''df'' [''-h'']) = Inr (allow, why)"
    using df_allowed by blast
  from shipped_policy [OF this argv_fields(1)] show ?thesis unfolding d by auto
qed

theorem policy_allows_only_vetted_witness:
  "\<exists>c. required_capability (\<lambda>_. []) (kind_of (argv_action ''df'' [''-h''])) (risk_of (argv_action ''df'' [''-h'']))
       (payload_of (argv_action ''df'' [''-h''])) (parse_simple_yaml TOOL_REGISTRY_YAML) = Inr c"
proof -
  obtain why where "shipped_decide (\<lambda>_. []) (argv_action ''df'' [''-h'']) = Inr (allow, why)" using df_allowed by blast
  from policy_allows_only_vetted [OF this] show ?thesis by auto
qed

text \<open>The allowlist is about names, not about effects: \<open>env\<close>, \<open>find\<close> and \<open>command\<close> are on it, and they run
  other programs. The policy lets \<open>env rm -r /home\<close> and \<open>find / -delete\<close> run without asking, although
  \<open>rm\<close> itself is listed as dangerous and needs a capability that is disabled.\<close>

theorem launchers_escape_the_policy:
  "(\<exists>why. shipped_decide fr (argv_action ''env'' [''rm'', ''-r'', ''/home'']) = Inr (allow, why))
   \<and> (\<exists>why. shipped_decide fr (argv_action ''find'' [''/'', ''-delete'']) = Inr (allow, why))"
proof
  have "strip ''env'' = ''env''"
    "first_pattern (map PStr PATTERNS) (strip (join '' '' [''env'', ''rm'', ''-r'', ''/home'']) @ '' '') = Inr None" by code_simp+
  then show "\<exists>why. shipped_decide fr (argv_action ''env'' [''rm'', ''-r'', ''/home'']) = Inr (allow, why)"
    by (intro shipped_runs) (simp_all add: READ_ONLY_def DANGEROUS_def PRIVILEGED_COMMANDS_def)
  have "strip ''find'' = ''find''"
    "first_pattern (map PStr PATTERNS) (strip (join '' '' [''find'', ''/'', ''-delete'']) @ '' '') = Inr None" by code_simp+
  then show "\<exists>why. shipped_decide fr (argv_action ''find'' [''/'', ''-delete'']) = Inr (allow, why)"
    by (intro shipped_runs) (simp_all add: READ_ONLY_def DANGEROUS_def PRIVILEGED_COMMANDS_def)
qed

end
