(* ===== verification/RockyStore.thy ===== *)
theory RockyStore
  imports RockyPolicy Tabular
begin

text \<open>
  The SQLite store of the Debian control layer: \<open>src/rocky/memory.py\<close> (memory items) and
  \<open>src/rocky/audit.py\<close> (actions, tool calls and the audit log).

  A table is the list of its rows in insertion order. An insertion binds its parameters as the driver
  does (lists and dictionaries are not bindable, integers must fit 64 bits, a text column stores the text
  of a number) and enforces NOT NULL, the primary key and, for tool calls, the foreign key. The database
  file is open and initialised; identifiers (\<open>uuid4\<close>) and the clock are sequences that each reading
  advances. \<open>fr\<close> prints a float.
\<close>

section \<open>Tables\<close>

record memory_item =
  mi_id :: string
  mi_kind :: string
  mi_content :: string
  mi_source :: string
  mi_confidence :: real
  mi_sensitivity :: string
  mi_tags_json :: string
  mi_created_at :: string

record action_row =
  ac_id :: string
  ac_kind :: string
  ac_risk :: string
  ac_needs_confirmation :: bool
  ac_payload_json :: string
  ac_status :: string
  ac_decision :: string
  ac_reason :: string
  ac_created_at :: string
  ac_updated_at :: string

record tool_call =
  tc_id :: string
  tc_action_id :: string
  tc_tool_name :: string
  tc_input_json :: string
  tc_output_json :: "string option"
  tc_exit_code :: "int option"

record audit_row =
  au_id :: string
  au_event_type :: string
  au_actor :: string
  au_message :: string
  au_data_json :: string

record database =
  memory_items :: "memory_item list"
  actions :: "action_row list"
  tool_calls :: "tool_call list"
  audit_log :: "audit_row list"
  uuids :: "nat \<Rightarrow> string"
  clock_now :: "nat \<Rightarrow> string"
  uuid_pos :: nat
  clock_pos :: nat

text \<open>The path of the database file: the environment variable \<open>ROCKY_DB\<close>, or \<open>rocky.db\<close> beside the code\<close>

definition db_path :: "(string \<Rightarrow> string option) \<Rightarrow> string \<Rightarrow> string" where
  "db_path environ here = (case environ ''ROCKY_DB'' of Some p \<Rightarrow> p | None \<Rightarrow> here @ ''/rocky.db'')"

text \<open>\<open>init_db\<close> runs the statements \<open>CREATE ... IF NOT EXISTS\<close> of the schema: a file without tables (\<open>None\<close>) gets
  empty ones, any other stays as it is.\<close>

definition init_db :: "(nat \<Rightarrow> string) \<Rightarrow> (nat \<Rightarrow> string) \<Rightarrow> database option \<Rightarrow> database" where
  "init_db ids clock file =
     (case file of
        Some db \<Rightarrow> db
      | None \<Rightarrow> \<lparr>memory_items = [], actions = [], tool_calls = [], audit_log = [], uuids = ids, clock_now = clock,
                 uuid_pos = 0, clock_pos = 0\<rparr>)"

definition utc_now :: "database \<Rightarrow> string \<times> database" where
  "utc_now db = (clock_now db (clock_pos db), db\<lparr>clock_pos := Suc (clock_pos db)\<rparr>)"

text \<open>\<open>f"{prefix}_{uuid.uuid4().hex[:12]}"\<close>\<close>

definition new_id :: "string \<Rightarrow> database \<Rightarrow> string \<times> database" where
  "new_id prefix db = (prefix @ ''_'' @ take 12 (uuids db (uuid_pos db)), db\<lparr>uuid_pos := Suc (uuid_pos db)\<rparr>)"

text \<open>The value of a bound parameter in a text column that may not be null.\<close>

definition bind_text :: "(real \<Rightarrow> string) \<Rightarrow> string \<Rightarrow> pyval \<Rightarrow> string res" where
  "bind_text fr col v =
     (case v of
        PStr s \<Rightarrow> Inr s
      | PInt i \<Rightarrow> if - (2 ^ 63) \<le> i \<and> i < 2 ^ 63 then Inr (show_int i)
                  else Inl (OverflowError ''Python int too large to convert to SQLite INTEGER'')
      | PBool b \<Rightarrow> Inr (if b then ''1'' else ''0'')
      | PFloat r \<Rightarrow> Inr (fr r)
      | PNone \<Rightarrow> Inl (IntegrityError (''NOT NULL constraint failed: '' @ col))
      | _ \<Rightarrow> Inl (ProgrammingError (''Error binding parameter: type '' @ quoted (py_type_name v) @ '' is not supported'')))"

definition insert_row :: "string \<Rightarrow> ('r \<Rightarrow> string) \<Rightarrow> 'r \<Rightarrow> 'r list \<Rightarrow> 'r list res" where
  "insert_row name key r rows =
     (if key r \<in> key ` set rows then Inl (IntegrityError (''UNIQUE constraint failed: '' @ name @ ''.id''))
      else Inr (rows @ [r]))"

section \<open>Memory\<close>

definition VALID_KINDS :: "string list" where
  "VALID_KINDS =
     [''fact'', ''preference'', ''project_note'', ''warning'', ''system_state'', ''command_history'',
      ''file_reference'', ''conversation_summary'', ''credential_reference'']"

definition SORTED_KINDS :: "string list" where
  "SORTED_KINDS =
     [''command_history'', ''conversation_summary'', ''credential_reference'', ''fact'', ''file_reference'',
      ''preference'', ''project_note'', ''system_state'', ''warning'']"

definition memory_add ::
  "(real \<Rightarrow> string) \<Rightarrow> pyval \<Rightarrow> pyval \<Rightarrow> pyval \<Rightarrow> pyval \<Rightarrow> string \<Rightarrow> real \<Rightarrow> database \<Rightarrow> string res \<times> database" where
  "memory_add fr kind content tags sensitivity source confidence db =
     (case kind of
        PStr k \<Rightarrow>
          if k \<in> set VALID_KINDS then
            let (item_id, db1) = new_id ''mem'' db; (ts, db2) = utc_now db1 in
            (case and_then (bind_text fr ''memory_items.content'' content) (\<lambda>c.
                   and_then (bind_text fr ''memory_items.sensitivity'' sensitivity) (\<lambda>se.
                     insert_row ''memory_items'' mi_id
                       \<lparr>mi_id = item_id, mi_kind = k, mi_content = c, mi_source = source, mi_confidence = confidence,
                        mi_sensitivity = se, mi_tags_json = json_dumps fr (py_or tags (PList [])), mi_created_at = ts\<rparr>
                       (memory_items db2))) of
               Inl e \<Rightarrow> (Inl e, db2)
             | Inr rows \<Rightarrow> (Inr item_id, db2\<lparr>memory_items := rows\<rparr>))
          else (Inl (ValueError (''unknown memory kind '' @ quoted k @ ''; valid: ''
                  @ py_repr fr (PList (map PStr SORTED_KINDS)))), db)
      | _ \<Rightarrow>
          if hashable kind
          then (Inl (ValueError (''unknown memory kind '' @ quoted (py_str fr kind) @ ''; valid: ''
                  @ py_repr fr (PList (map PStr SORTED_KINDS)))), db)
          else (Inl (unhashable kind), db))"

text \<open>SQL's \<open>LIKE\<close>: a percent sign stands for any text, an underscore for one character, and ASCII letters
  match in either case.\<close>

definition ascii_lower :: "char \<Rightarrow> char" where
  "ascii_lower c = (let n = (of_char c :: nat) in if 65 \<le> n \<and> n \<le> 90 then char_of (n + 32) else c)"

function sql_like :: "string \<Rightarrow> string \<Rightarrow> bool" where
  "sql_like [] s = (s = [])"
| "sql_like (p # ps) s =
     (if p = CHR 0x25 then sql_like ps s \<or> (case s of [] \<Rightarrow> False | _ # t \<Rightarrow> sql_like (p # ps) t)
      else case s of
        [] \<Rightarrow> False
      | c # t \<Rightarrow> (p = CHR 0x5F \<or> ascii_lower p = ascii_lower c) \<and> sql_like ps t)"
  by pat_completeness auto
termination
  by (relation "measure (\<lambda>(p, s). length p + length s)") auto

definition like_query :: "string \<Rightarrow> string" where
  "like_query q = [CHR 0x25] @ q @ [CHR 0x25]"

fun string_less :: "string \<Rightarrow> string \<Rightarrow> bool" where
  "string_less _ [] = False"
| "string_less [] (_ # _) = True"
| "string_less (a # as) (b # bs) =
     ((of_char a :: nat) < of_char b \<or> a = b \<and> string_less as bs)"

text \<open>\<open>ORDER BY created_at DESC\<close>: rows with equal times stay in the order of the table.\<close>

fun insert_desc :: "('r \<Rightarrow> string) \<Rightarrow> 'r \<Rightarrow> 'r list \<Rightarrow> 'r list" where
  "insert_desc f r [] = [r]"
| "insert_desc f r (x # xs) = (if string_less (f r) (f x) then x # insert_desc f r xs else r # x # xs)"

definition order_desc :: "('r \<Rightarrow> string) \<Rightarrow> 'r list \<Rightarrow> 'r list" where
  "order_desc f rows = foldr (insert_desc f) rows []"

definition memory_search :: "string \<Rightarrow> nat \<Rightarrow> database \<Rightarrow> memory_item list" where
  "memory_search query limit db =
     take limit (order_desc mi_created_at
       (filter (\<lambda>r. sql_like (like_query query) (mi_content r) \<or> sql_like (like_query query) (mi_kind r)
                  \<or> sql_like (like_query query) (mi_tags_json r)) (memory_items db)))"

section \<open>Audit\<close>

definition audit_event :: "(real \<Rightarrow> string) \<Rightarrow> string \<Rightarrow> string \<Rightarrow> string \<Rightarrow> pyval \<Rightarrow> database \<Rightarrow> string res \<times> database" where
  "audit_event fr event_type actor message data db =
     (let (event_id, db1) = new_id ''ev'' db; (ts, db2) = utc_now db1 in
      case insert_row ''audit_log'' au_id
             \<lparr>au_id = event_id, au_event_type = event_type, au_actor = actor, au_message = message,
              au_data_json = json_dumps fr (py_or data (PDict []))\<rparr> (audit_log db2) of
        Inl e \<Rightarrow> (Inl e, db2)
      | Inr rows \<Rightarrow> (Inr event_id, db2\<lparr>audit_log := rows\<rparr>))"

definition record_action ::
  "(real \<Rightarrow> string) \<Rightarrow> pydict \<Rightarrow> string \<Rightarrow> string \<Rightarrow> string \<Rightarrow> database \<Rightarrow> string res \<times> database" where
  "record_action fr action decision reason status db =
     (let (action_id, db1) = new_id ''act'' db; (ts, db2) = utc_now db1 in
      case and_then (bind_text fr ''actions.kind'' (kind_of action)) (\<lambda>k.
             and_then (bind_text fr ''actions.risk'' (risk_of action)) (\<lambda>r.
               insert_row ''actions'' ac_id
                 \<lparr>ac_id = action_id, ac_kind = k, ac_risk = r,
                  ac_needs_confirmation = truthy (dict_get action ''needs_confirmation'' PNone),
                  ac_payload_json = json_dumps fr (dict_get action ''payload'' (PDict [])), ac_status = status,
                  ac_decision = decision, ac_reason = reason, ac_created_at = ts, ac_updated_at = ts\<rparr>
                 (actions db2))) of
        Inl e \<Rightarrow> (Inl e, db2)
      | Inr rows \<Rightarrow> (Inr action_id, db2\<lparr>actions := rows\<rparr>))"

definition update_action_status :: "string \<Rightarrow> string \<Rightarrow> database \<Rightarrow> database" where
  "update_action_status action_id status db =
     (let (ts, db1) = utc_now db in
      db1\<lparr>actions := map (\<lambda>r. if ac_id r = action_id then r\<lparr>ac_status := status, ac_updated_at := ts\<rparr> else r) (actions db1)\<rparr>)"

definition record_tool_call ::
  "(real \<Rightarrow> string) \<Rightarrow> string \<Rightarrow> pyval \<Rightarrow> pyval \<Rightarrow> pyval \<Rightarrow> int option \<Rightarrow> database \<Rightarrow> string res \<times> database" where
  "record_tool_call fr action_id tool_name input_data output_data exit_code db =
     (let (call_id, db1) = new_id ''tc'' db in
      case and_then (bind_text fr ''tool_calls.tool_name'' tool_name) (\<lambda>t.
             if action_id \<notin> ac_id ` set (actions db1) then Inl (IntegrityError ''FOREIGN KEY constraint failed'')
             else insert_row ''tool_calls'' tc_id
               \<lparr>tc_id = call_id, tc_action_id = action_id, tc_tool_name = t, tc_input_json = json_dumps fr input_data,
                tc_output_json = (if output_data = PNone then None else Some (json_dumps fr output_data)),
                tc_exit_code = exit_code\<rparr> (tool_calls db1)) of
        Inl e \<Rightarrow> (Inl e, db1)
      | Inr rows \<Rightarrow> (Inr call_id, db1\<lparr>tool_calls := rows\<rparr>))"

definition audit_tail :: "nat \<Rightarrow> database \<Rightarrow> action_row list" where
  "audit_tail limit db = take limit (order_desc ac_created_at (actions db))"


section \<open>Search\<close>

lemma like_percent: "sql_like ps s \<Longrightarrow> sql_like (CHR 0x25 # ps) s"
  by simp

lemma like_skip: "sql_like (CHR 0x25 # ps) s \<Longrightarrow> sql_like (CHR 0x25 # ps) (a @ s)"
  by (induction a) (simp_all del: sql_like.simps, simp add: sql_like.simps(2) [of "CHR 0x25" ps "_ # _"])

lemma like_prefix: "sql_like ps s \<Longrightarrow> sql_like (q @ ps) (q @ s)"
proof (induction q)
  case (Cons p q)
  then have "sql_like (q @ ps) (q @ s)" by simp
  then show ?case using like_percent [of "q @ ps" "q @ s"] by (cases "p = CHR 0x25") auto
qed simp

lemma like_contains: "contains q s \<Longrightarrow> sql_like (like_query q) s"
proof -
  assume "contains q s"
  then obtain a b where s: "s = a @ q @ b" using contains_iff by blast
  have "sql_like [CHR 0x25] b" using like_skip [of "[]" "[]" b] by simp
  then have "sql_like (CHR 0x25 # q @ [CHR 0x25]) (q @ b)" using like_percent [OF like_prefix] by blast
  then show "sql_like (like_query q) s" using like_skip [of "q @ [CHR 0x25]" "q @ b" a] by (simp add: like_query_def s)
qed

lemma order_desc_newest:
  assumes "\<And>r. r \<in> set rows \<Longrightarrow> string_less (f r) (f row)"
  shows "order_desc f (rows @ [row]) = row # order_desc f rows"
proof -
  have "foldr (insert_desc f) rows [row] = row # foldr (insert_desc f) rows []"
    using assms by (induction rows) simp_all
  then show ?thesis by (simp add: order_desc_def)
qed

text \<open>What is remembered is found: an item that was stored is the first answer to a search for any part of
  its content, when no older item has a later or the same time; the older answers follow in their order.\<close>

theorem stored_item_is_found:
  assumes "memory_add fr (PStr k) (PStr c) tags (PStr sens) src conf db = (Inr i, db')"
    "\<forall>r \<in> set (memory_items db). string_less (mi_created_at r) (clock_now db (clock_pos db))" "contains q c" "0 < limit"
  shows "\<exists>row. mi_id row = i \<and> mi_content row = c \<and> mi_kind row = k
    \<and> memory_search q limit db' = row # memory_search q (limit - 1) db"
proof -
  define row where "row = \<lparr>mi_id = i, mi_kind = k, mi_content = c, mi_source = src, mi_confidence = conf, mi_sensitivity = sens,
    mi_tags_json = json_dumps fr (py_or tags (PList [])), mi_created_at = clock_now db (clock_pos db)\<rparr>"
  have "memory_items db' = memory_items db @ [row]"
    using assms(1) by (auto simp: row_def memory_add_def new_id_def utc_now_def Let_def bind_text_def insert_row_def split: if_splits)
  moreover have "\<And>r. r \<in> set (memory_items db) \<Longrightarrow> string_less (mi_created_at r) (mi_created_at row)"
    using assms(2) by (simp add: row_def)
  moreover have "sql_like (like_query q) (mi_content row)" using like_contains [OF assms(3)] by (simp add: row_def)
  ultimately have "memory_search q limit db' = row # memory_search q (limit - 1) db"
    using assms(4) order_desc_newest [of "filter (\<lambda>r. sql_like (like_query q) (mi_content r) \<or> sql_like (like_query q) (mi_kind r)
        \<or> sql_like (like_query q) (mi_tags_json r)) (memory_items db)" mi_created_at row]
    by (simp add: memory_search_def take_Cons')
  then show ?thesis by (intro exI [of _ row]) (simp add: row_def)
qed

definition example_db :: database where
  "example_db = \<lparr>memory_items = [], actions = [], tool_calls = [], audit_log = [], uuids = show_nat,
     clock_now = show_nat, uuid_pos = 0, clock_pos = 0\<rparr>"

theorem stored_item_is_found_witness:
  "\<exists>row db'. memory_search ''direct'' 20 db' = [row] \<and> mi_content row = ''wants direct answers''"
proof -
  let ?a = "memory_add (\<lambda>_. []) (PStr ''preference'') (PStr ''wants direct answers'') PNone (PStr ''normal'') ''user'' 1 example_db"
  have "fst ?a = Inr (''mem_'' @ take 12 (show_nat 0))"
    by (simp add: memory_add_def VALID_KINDS_def new_id_def utc_now_def Let_def bind_text_def insert_row_def example_db_def)
  then have a: "?a = (Inr (''mem_'' @ take 12 (show_nat 0)), snd ?a)" by (metis prod.collapse)
  have "contains ''direct'' ''wants direct answers''" by code_simp
  from stored_item_is_found [OF a _ this, of 20] show ?thesis
    by (auto simp: example_db_def memory_search_def order_desc_def)
qed

end
