(* ===== verification/RockyTools.thy ===== *)
theory RockyTools
  imports RockyStore
begin

text \<open>
  The executor of the Debian control layer (\<open>src/rocky/executor.py\<close>) and the pipeline that connects
  validation, policy, execution and audit (\<open>handle_action\<close> in \<open>src/rocky/rockyctl\<close>).

  The operating system is a parameter: an \<open>os\<close> record of the calls the executor makes, over a state of
  any type. \<open>rocky\<close> is that state beside the database. Durations are left out.
\<close>

section \<open>The executor\<close>

datatype spawned = Command_not_found | Timed_out | Spawn_raised exn | Finished int string string

record 'w os =
  os_spawn :: "string list \<Rightarrow> pyval \<Rightarrow> pyval \<Rightarrow> 'w \<Rightarrow> spawned \<times> 'w"
  os_read :: "pyval \<Rightarrow> 'w \<Rightarrow> string res"
  os_write :: "pyval \<Rightarrow> bool \<Rightarrow> pyval \<Rightarrow> 'w \<Rightarrow> nat res \<times> 'w"
  os_remove :: "pyval \<Rightarrow> 'w \<Rightarrow> unit res \<times> 'w"
  os_print :: "string \<Rightarrow> 'w \<Rightarrow> 'w"

record 'w rocky =
  rk_db :: database
  rk_world :: 'w

record exec_result =
  xr_ok :: bool
  xr_action_id :: string
  xr_kind :: pyval
  xr_exit_code :: int
  xr_stdout :: pyval
  xr_stderr :: string

definition exec_ok :: "string \<Rightarrow> pyval \<Rightarrow> pyval \<Rightarrow> exec_result" where
  "exec_ok action_id kind stdout =
     \<lparr>xr_ok = True, xr_action_id = action_id, xr_kind = kind, xr_exit_code = 0, xr_stdout = stdout, xr_stderr = []\<rparr>"

definition exec_fail :: "string \<Rightarrow> pyval \<Rightarrow> string \<Rightarrow> exec_result" where
  "exec_fail action_id kind stderr =
     \<lparr>xr_ok = False, xr_action_id = action_id, xr_kind = kind, xr_exit_code = 1, xr_stdout = PStr [], xr_stderr = stderr\<rparr>"

type_synonym 'w exec_handler = "pydict \<Rightarrow> string \<Rightarrow> 'w rocky \<Rightarrow> exec_result res \<times> 'w rocky"

definition DEFAULT_TIMEOUT_S :: pyval where
  "DEFAULT_TIMEOUT_S = PInt 30"

definition run_command :: "(real \<Rightarrow> string) \<Rightarrow> 'w os \<Rightarrow> 'w exec_handler" where
  "run_command fr os action action_id rk =
     (let p = payload_of action; k = PStr ''debian.command'' in
      case val_get p ''command'' PNone of
        Inl e \<Rightarrow> (Inl e, rk)
      | Inr (PStr (c # cs)) \<Rightarrow>
          (case and_then (val_get p ''args'' PNone) (\<lambda>a. and_then (py_iter (py_or a (PList []))) (\<lambda>args.
                  and_then (val_get p ''cwd'' PNone) (\<lambda>cwd. and_then (val_get p ''timeout'' DEFAULT_TIMEOUT_S) (\<lambda>t.
                    Inr (map (py_str fr) args, py_or cwd PNone, t))))) of
             Inl e \<Rightarrow> (Inl e, rk)
           | Inr (args, cwd, t) \<Rightarrow>
               (case os_spawn os ((c # cs) # args) cwd t (rk_world rk) of (r, w) \<Rightarrow>
                  let rk' = rk\<lparr>rk_world := w\<rparr> in
                  (case r of
                     Command_not_found \<Rightarrow> (Inr (exec_fail action_id k (''command not found: '' @ c # cs)), rk')
                   | Timed_out \<Rightarrow> (Inr (exec_fail action_id k ''command timed out''), rk')
                   | Spawn_raised e \<Rightarrow> (Inl e, rk')
                   | Finished code out err \<Rightarrow>
                       (Inr \<lparr>xr_ok = (code = 0), xr_action_id = action_id, xr_kind = k, xr_exit_code = code,
                             xr_stdout = PStr out, xr_stderr = err\<rparr>, rk'))))
      | Inr _ \<Rightarrow> (Inr (exec_fail action_id k (''missing/invalid '' @ quoted ''command'')), rk))"

text \<open>The three file handlers look at \<open>path\<close> first and fail without one.\<close>

definition with_path :: "string \<Rightarrow> (pyval \<Rightarrow> pyval \<Rightarrow> 'w rocky \<Rightarrow> exec_result res \<times> 'w rocky) \<Rightarrow> 'w exec_handler" where
  "with_path kind f action action_id rk =
     (let p = payload_of action in
      case val_get p ''path'' PNone of
        Inl e \<Rightarrow> (Inl e, rk)
      | Inr path \<Rightarrow>
          if \<not> truthy path then (Inr (exec_fail action_id (PStr kind) (''missing '' @ quoted ''path'')), rk)
          else f p path rk)"

definition file_read :: "'w os \<Rightarrow> 'w exec_handler" where
  "file_read os action action_id =
     with_path ''file.read'' (\<lambda>p path rk.
       (and_then (os_read os path (rk_world rk)) (\<lambda>content. Inr (exec_ok action_id (PStr ''file.read'') (PStr content))), rk))
       action action_id"

definition file_write :: "(real \<Rightarrow> string) \<Rightarrow> 'w os \<Rightarrow> 'w exec_handler" where
  "file_write fr os action action_id =
     with_path ''file.write'' (\<lambda>p path rk.
       case and_then (val_get p ''content'' (PStr [])) (\<lambda>c. and_then (val_get p ''mode'' PNone) (\<lambda>m. Inr (c, m))) of
         Inl e \<Rightarrow> (Inl e, rk)
       | Inr (content, mode) \<Rightarrow>
           (case os_write os path (mode = PStr ''append'') content (rk_world rk) of (r, w) \<Rightarrow>
              (and_then r (\<lambda>n. Inr (exec_ok action_id (PStr ''file.write'')
                 (PStr (''wrote '' @ show_nat n @ '' bytes to '' @ py_str fr path)))), rk\<lparr>rk_world := w\<rparr>)))
       action action_id"

definition file_delete :: "(real \<Rightarrow> string) \<Rightarrow> 'w os \<Rightarrow> 'w exec_handler" where
  "file_delete fr os action action_id =
     with_path ''file.delete'' (\<lambda>p path rk.
       case os_remove os path (rk_world rk) of (r, w) \<Rightarrow>
         (and_then r (\<lambda>_. Inr (exec_ok action_id (PStr ''file.delete'') (PStr (''deleted '' @ py_str fr path)))),
          rk\<lparr>rk_world := w\<rparr>))
       action action_id"

definition memory_write :: "(real \<Rightarrow> string) \<Rightarrow> 'w exec_handler" where
  "memory_write fr action action_id rk =
     (let p = payload_of action in
      case and_then (val_get p ''kind'' (PStr ''fact'')) (\<lambda>k. and_then (val_get p ''content'' (PStr [])) (\<lambda>c.
             and_then (val_get p ''tags'' PNone) (\<lambda>t. and_then (val_get p ''sensitivity'' (PStr ''normal'')) (\<lambda>s.
               Inr (k, c, t, s))))) of
        Inl e \<Rightarrow> (Inl e, rk)
      | Inr (k, c, t, s) \<Rightarrow>
          (case memory_add fr k c t s ''rocky'' 1 (rk_db rk) of (r, db) \<Rightarrow>
             (and_then r (\<lambda>i. Inr (exec_ok action_id (PStr ''memory.write'') (PStr i))), rk\<lparr>rk_db := db\<rparr>)))"

text \<open>A found row as \<open>json.dumps\<close> prints it.\<close>

definition item_dict :: "memory_item \<Rightarrow> pyval" where
  "item_dict r = PDict [(''id'', PStr (mi_id r)), (''kind'', PStr (mi_kind r)), (''content'', PStr (mi_content r)),
     (''sensitivity'', PStr (mi_sensitivity r)), (''tags_json'', PStr (mi_tags_json r)), (''created_at'', PStr (mi_created_at r))]"

definition memory_search_handler :: "(real \<Rightarrow> string) \<Rightarrow> 'w exec_handler" where
  "memory_search_handler fr action action_id rk =
     (and_then (val_get (payload_of action) ''query'' (PStr [])) (\<lambda>q.
        Inr (exec_ok action_id (PStr ''memory.search'')
          (PStr (json_indent fr 0 (PList (map item_dict (memory_search (py_str fr q) 20 (rk_db rk)))))))), rk)"

definition notify :: "(real \<Rightarrow> string) \<Rightarrow> 'w os \<Rightarrow> 'w exec_handler" where
  "notify fr os action action_id rk =
     (case val_get (payload_of action) ''message'' (PStr []) of
        Inl e \<Rightarrow> (Inl e, rk)
      | Inr msg \<Rightarrow>
          (Inr (exec_ok action_id (dict_get action ''kind'' (PStr ''notify'')) msg),
           rk\<lparr>rk_world := os_print os (py_str fr msg) (rk_world rk)\<rparr>))"

definition EXEC_HANDLERS :: "(real \<Rightarrow> string) \<Rightarrow> 'w os \<Rightarrow> (string \<times> 'w exec_handler) list" where
  "EXEC_HANDLERS fr os =
     [(''debian.command'', run_command fr os), (''file.read'', file_read os), (''file.write'', file_write fr os),
      (''file.delete'', file_delete fr os), (''memory.write'', memory_write fr),
      (''memory.search'', memory_search_handler fr), (''notify'', notify fr os), (''speak'', notify fr os)]"

definition exec_run ::
  "(real \<Rightarrow> string) \<Rightarrow> 'w os \<Rightarrow> pydict \<Rightarrow> string \<Rightarrow> 'w rocky \<Rightarrow> exec_result res \<times> 'w rocky" where
  "exec_run fr os action action_id rk =
     (let kind = kind_of action in
      if \<not> hashable kind then (Inl (unhashable kind), rk)
      else case (case kind of PStr k \<Rightarrow> map_of (EXEC_HANDLERS fr os) k | _ \<Rightarrow> None) of
        None \<Rightarrow> (Inr (exec_fail action_id kind (''no executor for kind '' @ quoted (py_str fr kind))), rk)
      | Some handler \<Rightarrow>
          (case handler action action_id rk of
             (Inl e, rk') \<Rightarrow> (Inr (exec_fail action_id kind (exn_report e)), rk')
           | (Inr r, rk') \<Rightarrow> (Inr r, rk')))"

section \<open>The pipeline\<close>

definition ACTION_KINDS :: "string list" where
  "ACTION_KINDS = [''debian.command'', ''file.delete'', ''file.read'', ''file.write'', ''memory.search'', ''memory.write'',
     ''notify'', ''speak'']"

definition ACTION_RISKS :: "string list" where
  "ACTION_RISKS = [''destructive'', ''forbidden'', ''network'', ''private'', ''privileged'', ''read_only'', ''write'']"

text \<open>\<open>action.get(key) not in names\<close>, with the message that lists the names in order\<close>

definition check_field :: "(real \<Rightarrow> string) \<Rightarrow> string \<Rightarrow> string list \<Rightarrow> pydict \<Rightarrow> string list res" where
  "check_field fr key names action =
     (let v = dict_get action key PNone in
      if \<not> hashable v then Inl (unhashable v)
      else Inr (if v \<in> PStr ` set names then []
                else [key @ '' must be one of '' @ py_repr fr (PList (map PStr names))]))"

definition validate_action :: "(real \<Rightarrow> string) \<Rightarrow> pyval \<Rightarrow> string list res" where
  "validate_action fr v =
     (case v of
        PDict action \<Rightarrow>
          and_then (check_field fr ''kind'' ACTION_KINDS action) (\<lambda>ks.
          and_then (check_field fr ''risk'' ACTION_RISKS action) (\<lambda>rs.
            Inr ((if dict_get action ''type'' PNone = PStr ''action'' then [] else [''type must be '' @ quoted ''action'']) @ ks @ rs
              @ (case dict_get action ''payload'' (PDict []) of PDict _ \<Rightarrow> [] | _ \<Rightarrow> [''payload must be an object'']))))
      | _ \<Rightarrow> Inr [''action is not a JSON object''])"

datatype action_outcome =
    Rejected string
  | Denied string string
  | Needs_confirmation string string
  | Executed exec_result

fun decision_value :: "policy_decision \<Rightarrow> string" where
  "decision_value allow = ''allow''"
| "decision_value ask_user = ''ask_user''"
| "decision_value deny = ''deny''"

text \<open>The end of a step that only writes to the database.\<close>

definition db_then :: "'a res \<times> database \<Rightarrow> 'w rocky \<Rightarrow> ('a \<Rightarrow> 'w rocky \<Rightarrow> 'b res \<times> 'w rocky) \<Rightarrow> 'b res \<times> 'w rocky" where
  "db_then r rk f = (case r of (Inl e, db) \<Rightarrow> (Inl e, rk\<lparr>rk_db := db\<rparr>) | (Inr x, db) \<Rightarrow> f x (rk\<lparr>rk_db := db\<rparr>))"

definition held :: "(real \<Rightarrow> string) \<Rightarrow> string \<Rightarrow> policy_decision \<Rightarrow> string \<Rightarrow> string \<Rightarrow> action_outcome \<Rightarrow> 'w rocky \<Rightarrow> action_outcome res \<times> 'w rocky" where
  "held fr status d reason action_id out rk =
     db_then (audit_event fr ''decision'' ''policy'' (decision_value d @ '': '' @ reason)
         (PDict [(''action_id'', PStr action_id)]) (update_action_status action_id status (rk_db rk))) rk
       (\<lambda>_ rk'. (Inr out, rk'))"

definition result_dict :: "exec_result \<Rightarrow> pyval" where
  "result_dict r = PDict [(''ok'', PBool (xr_ok r)), (''exit_code'', PInt (xr_exit_code r)), (''stdout'', xr_stdout r),
     (''stderr'', PStr (xr_stderr r))]"

definition execute ::
  "(real \<Rightarrow> string) \<Rightarrow> 'w os \<Rightarrow> pydict \<Rightarrow> string \<Rightarrow> 'w rocky \<Rightarrow> action_outcome res \<times> 'w rocky" where
  "execute fr os action action_id rk =
     (case exec_run fr os action action_id (rk\<lparr>rk_db := snd (utc_now (rk_db rk))\<rparr>) of
        (Inl e, rk1) \<Rightarrow> (Inl e, rk1)
      | (Inr r, rk1) \<Rightarrow>
          db_then (record_tool_call fr action_id (kind_of action) (dict_get action ''payload'' (PDict [])) (result_dict r)
              (Some (xr_exit_code r)) (snd (utc_now (rk_db rk1)))) rk1 (\<lambda>_ rk2.
          db_then (audit_event fr ''execute'' ''executor''
              (py_str fr (dict_get action ''kind'' PNone) @ '' exit='' @ show_int (xr_exit_code r))
              (PDict [(''action_id'', PStr action_id), (''ok'', PBool (xr_ok r))])
              (update_action_status action_id (if xr_ok r then ''succeeded'' else ''failed'') (rk_db rk2))) rk2 (\<lambda>_ rk3.
            (Inr (Executed r), rk3))))"

definition pursue ::
  "(real \<Rightarrow> string) \<Rightarrow> 'w os \<Rightarrow> pydict \<Rightarrow> policy_decision \<Rightarrow> string \<Rightarrow> bool \<Rightarrow> string \<Rightarrow> 'w rocky
     \<Rightarrow> action_outcome res \<times> 'w rocky" where
  "pursue fr os action d reason assume_yes action_id rk =
     (if d = deny then held fr ''denied'' d reason action_id (Denied reason action_id) rk
      else if d = ask_user \<and> \<not> assume_yes
      then held fr ''awaiting_confirmation'' d reason action_id (Needs_confirmation reason action_id) rk
      else execute fr os action action_id rk)"

definition handle_action ::
  "(real \<Rightarrow> string) \<Rightarrow> 'w os \<Rightarrow> pyval \<Rightarrow> pydict \<Rightarrow> pyval \<Rightarrow> bool \<Rightarrow> 'w rocky
     \<Rightarrow> action_outcome res \<times> 'w rocky" where
  "handle_action fr os caps reg v assume_yes rk =
     (case (validate_action fr v, v) of
        (Inl e, _) \<Rightarrow> (Inl e, rk)
      | (Inr [], PDict action) \<Rightarrow>
          (case decide_action fr action caps reg of
             Inl e \<Rightarrow> (Inl e, rk)
           | Inr (d, reason) \<Rightarrow>
               db_then (record_action fr action (decision_value d) reason ''proposed'' (rk_db rk)) rk (\<lambda>action_id rk1.
                 pursue fr os action d reason assume_yes action_id rk1))
      | (Inr errs, _) \<Rightarrow>
          db_then (audit_event fr ''schema_reject'' ''rockyctl'' (join ''; '' errs) (PDict [(''action'', v)]) (rk_db rk)) rk
            (\<lambda>_ rk1. (Inr (Rejected (join ''; '' errs)), rk1)))"


section \<open>Facts\<close>

lemma validate_ok:
  assumes "validate_action fr v = Inr []"
  shows "\<exists>action k r. v = PDict action \<and> kind_of action = PStr k \<and> k \<in> set ACTION_KINDS \<and> risk_of action = PStr r
    \<and> r \<in> set ACTION_RISKS"
proof -
  obtain action where v: "v = PDict action" using assms by (cases v) (simp_all add: validate_action_def)
  have "dict_get action ''kind'' PNone \<in> PStr ` set ACTION_KINDS" "dict_get action ''risk'' PNone \<in> PStr ` set ACTION_RISKS"
    using assms by (auto simp: v validate_action_def check_field_def Let_def and_then_eq_Inr split: if_splits)
  then show ?thesis
    by (auto simp: v kind_of_def risk_of_def dict_get_def split: option.splits)
qed

text \<open>What an execution leaves of the books: the three tables it does not write, and at most one identifier
  drawn.\<close>

definition keeps_books :: "database \<Rightarrow> database \<Rightarrow> bool" where
  "keeps_books db db' = (actions db' = actions db \<and> tool_calls db' = tool_calls db \<and> audit_log db' = audit_log db
     \<and> uuids db' = uuids db \<and> uuid_pos db' \<in> {uuid_pos db, Suc (uuid_pos db)})"

lemma keeps_books_refl [simp]: "keeps_books db db"
  by (simp add: keeps_books_def)

lemma memory_add_books: "keeps_books db (snd (memory_add fr k c t s src conf db))"
  by (auto simp: keeps_books_def memory_add_def new_id_def utc_now_def Let_def split: pyval.splits sum.splits)

lemma handler_books:
  assumes "(k, h) \<in> set (EXEC_HANDLERS fr os)"
  shows "keeps_books (rk_db rk) (rk_db (snd (h action i rk)))"
proof -
  have "keeps_books (rk_db rk) (rk_db (snd (run_command fr os action i rk)))"
    by (auto simp: run_command_def Let_def case_prod_beta split: sum.splits pyval.splits list.splits spawned.splits)
  moreover have "keeps_books (rk_db rk) (rk_db (snd (file_read os action i rk)))"
    by (auto simp: file_read_def with_path_def Let_def split: sum.splits)
  moreover have "keeps_books (rk_db rk) (rk_db (snd (file_write fr os action i rk)))"
    by (auto simp: file_write_def with_path_def Let_def case_prod_beta split: sum.splits)
  moreover have "keeps_books (rk_db rk) (rk_db (snd (file_delete fr os action i rk)))"
    by (auto simp: file_delete_def with_path_def Let_def case_prod_beta split: sum.splits)
  moreover have "keeps_books (rk_db rk) (rk_db (snd (memory_write fr action i rk)))"
    by (auto simp: memory_write_def Let_def case_prod_beta memory_add_books split: sum.splits)
  moreover have "keeps_books (rk_db rk) (rk_db (snd (memory_search_handler fr action i rk)))"
    by (simp add: memory_search_handler_def)
  moreover have "keeps_books (rk_db rk) (rk_db (snd (notify fr os action i rk)))"
    by (auto simp: notify_def split: sum.splits)
  ultimately show ?thesis using assms unfolding EXEC_HANDLERS_def by auto
qed

lemma exec_run_books:
  assumes "kind_of action = PStr k"
  shows "\<exists>r. fst (exec_run fr os action i rk) = Inr r \<and> keeps_books (rk_db rk) (rk_db (snd (exec_run fr os action i rk)))"
proof (cases "map_of (EXEC_HANDLERS fr os) k")
  case (Some h)
  then have "keeps_books (rk_db rk) (rk_db (snd (h action i rk)))"
    by (blast intro: handler_books map_of_SomeD)
  then show ?thesis
    using Some assms by (cases "h action i rk"; cases "fst (h action i rk)") (auto simp: exec_run_def Let_def)
qed (use assms in \<open>simp add: exec_run_def Let_def\<close>)

text \<open>The identifiers that the next insertions draw are new in their tables.\<close>

definition fresh_ids :: "nat \<Rightarrow> database \<Rightarrow> bool" where
  "fresh_ids n db = list_all (\<lambda>m. let i = take 12 (uuids db (uuid_pos db + m)) in
     ''act_'' @ i \<notin> ac_id ` set (actions db) \<and> ''tc_'' @ i \<notin> tc_id ` set (tool_calls db)
     \<and> ''ev_'' @ i \<notin> au_id ` set (audit_log db)) [0..<n]"

lemma fresh_ids_iff:
  "fresh_ids n db \<longleftrightarrow> (\<forall>m < n. ''act_'' @ take 12 (uuids db (uuid_pos db + m)) \<notin> ac_id ` set (actions db)
     \<and> ''tc_'' @ take 12 (uuids db (uuid_pos db + m)) \<notin> tc_id ` set (tool_calls db)
     \<and> ''ev_'' @ take 12 (uuids db (uuid_pos db + m)) \<notin> au_id ` set (audit_log db))"
  by (auto simp: fresh_ids_def list_all_iff Let_def)

lemma record_action_ok:
  assumes "kind_of action = PStr k" "risk_of action = PStr r" "fresh_ids (Suc n) db"
  shows "\<exists>row i. record_action fr action d reason st db
      = (Inr i, db\<lparr>uuid_pos := Suc (uuid_pos db), clock_pos := Suc (clock_pos db), actions := actions db @ [row]\<rparr>)
    \<and> ac_id row = i \<and> i \<notin> ac_id ` set (actions db) \<and> ac_decision row = d \<and> ac_reason row = reason \<and> ac_status row = st
    \<and> ac_kind row = k \<and> ac_risk row = r"
  using assms(1,2) assms(3) [unfolded fresh_ids_iff, rule_format, of 0]
  by (auto simp: record_action_def new_id_def utc_now_def Let_def bind_text_def insert_row_def)

lemma audit_event_ok:
  assumes "''ev_'' @ take 12 (uuids db (uuid_pos db)) \<notin> au_id ` set (audit_log db)"
  shows "\<exists>row i. audit_event fr et actor msg data db
      = (Inr i, db\<lparr>uuid_pos := Suc (uuid_pos db), clock_pos := Suc (clock_pos db), audit_log := audit_log db @ [row]\<rparr>)
    \<and> au_event_type row = et \<and> au_message row = msg"
  using assms by (auto simp: audit_event_def new_id_def utc_now_def Let_def insert_row_def)

lemma record_tool_call_ok:
  assumes "''tc_'' @ take 12 (uuids db (uuid_pos db)) \<notin> tc_id ` set (tool_calls db)" "i \<in> ac_id ` set (actions db)"
  shows "\<exists>call j. record_tool_call fr i (PStr t) inp out code db
      = (Inr j, db\<lparr>uuid_pos := Suc (uuid_pos db), tool_calls := tool_calls db @ [call]\<rparr>)
    \<and> tc_action_id call = i \<and> tc_tool_name call = t \<and> tc_exit_code call = code"
  using assms by (auto simp: record_tool_call_def new_id_def Let_def bind_text_def insert_row_def)

lemma update_status_last:
  assumes "actions db = rows @ [row]" "ac_id row \<notin> ac_id ` set rows"
  shows "\<exists>t. update_action_status (ac_id row) st db
    = db\<lparr>clock_pos := Suc (clock_pos db), actions := rows @ [row\<lparr>ac_status := st, ac_updated_at := t\<rparr>]\<rparr>"
proof -
  have "map (\<lambda>r. if ac_id r = ac_id row then r\<lparr>ac_status := st, ac_updated_at := t\<rparr> else r) rows = rows" for t
    using assms(2) by (intro map_idI) (auto simp: image_iff)
  then show ?thesis using assms(1) by (auto simp: update_action_status_def utc_now_def Let_def)
qed

lemma held_ok:
  assumes "actions (rk_db rk) = rows @ [row]" "ac_id row \<notin> ac_id ` set rows"
    "''ev_'' @ take 12 (uuids (rk_db rk) (uuid_pos (rk_db rk))) \<notin> au_id ` set (audit_log (rk_db rk))"
  shows "\<exists>rk' t e. held fr st d reason (ac_id row) out rk = (Inr out, rk') \<and> rk_world rk' = rk_world rk
    \<and> actions (rk_db rk') = rows @ [row\<lparr>ac_status := st, ac_updated_at := t\<rparr>]
    \<and> tool_calls (rk_db rk') = tool_calls (rk_db rk) \<and> memory_items (rk_db rk') = memory_items (rk_db rk)
    \<and> audit_log (rk_db rk') = audit_log (rk_db rk) @ [e]"
proof -
  obtain t where u: "update_action_status (ac_id row) st (rk_db rk)
      = (rk_db rk)\<lparr>clock_pos := Suc (clock_pos (rk_db rk)), actions := rows @ [row\<lparr>ac_status := st, ac_updated_at := t\<rparr>]\<rparr>"
    using update_status_last [OF assms(1,2)] by blast
  show ?thesis
    using audit_event_ok [of "update_action_status (ac_id row) st (rk_db rk)" fr "''decision''" "''policy''"
        "decision_value d @ '': '' @ reason" "PDict [(''action_id'', PStr (ac_id row))]"] assms(3)
    by (auto simp: held_def db_then_def u)
qed

lemma execute_ok:
  assumes rows: "actions (rk_db rk) = rows @ [row]" "ac_id row \<notin> ac_id ` set rows" and k: "kind_of action = PStr k"
    and fresh: "\<And>m. m < 3 \<Longrightarrow> ''tc_'' @ take 12 (uuids (rk_db rk) (uuid_pos (rk_db rk) + m)) \<notin> tc_id ` set (tool_calls (rk_db rk))"
      "\<And>m. m < 3 \<Longrightarrow> ''ev_'' @ take 12 (uuids (rk_db rk) (uuid_pos (rk_db rk) + m)) \<notin> au_id ` set (audit_log (rk_db rk))"
  shows "\<exists>r rk' t call e. execute fr os action (ac_id row) rk = (Inr (Executed r), rk')
    \<and> actions (rk_db rk') = rows @ [row\<lparr>ac_status := if xr_ok r then ''succeeded'' else ''failed'', ac_updated_at := t\<rparr>]
    \<and> tool_calls (rk_db rk') = tool_calls (rk_db rk) @ [call] \<and> tc_action_id call = ac_id row
    \<and> tc_exit_code call = Some (xr_exit_code r) \<and> audit_log (rk_db rk') = audit_log (rk_db rk) @ [e]"
proof -
  let ?rk0 = "rk\<lparr>rk_db := snd (utc_now (rk_db rk))\<rparr>"
  obtain r rk1 where x: "exec_run fr os action (ac_id row) ?rk0 = (Inr r, rk1)" and b: "keeps_books (rk_db ?rk0) (rk_db rk1)"
    using exec_run_books [OF k, of fr os "ac_id row" ?rk0] by (metis prod.collapse)
  let ?db1 = "snd (utc_now (rk_db rk1))"
  have f1: "actions ?db1 = rows @ [row]" "tool_calls ?db1 = tool_calls (rk_db rk)" "audit_log ?db1 = audit_log (rk_db rk)"
    "uuids ?db1 = uuids (rk_db rk)" "uuid_pos ?db1 = uuid_pos (rk_db rk) \<or> uuid_pos ?db1 = uuid_pos (rk_db rk) + 1"
    using b rows(1) by (auto simp: keeps_books_def utc_now_def)
  have "''tc_'' @ take 12 (uuids ?db1 (uuid_pos ?db1)) \<notin> tc_id ` set (tool_calls ?db1)"
    using f1(5) fresh(1) [of 0] fresh(1) [of 1] by (auto simp: f1(2,4))
  moreover have "ac_id row \<in> ac_id ` set (actions ?db1)" by (simp add: f1(1))
  ultimately obtain call j where c: "record_tool_call fr (ac_id row) (PStr k) (dict_get action ''payload'' (PDict [])) (result_dict r)
      (Some (xr_exit_code r)) ?db1 = (Inr j, ?db1\<lparr>uuid_pos := Suc (uuid_pos ?db1), tool_calls := tool_calls ?db1 @ [call]\<rparr>)"
    "tc_action_id call = ac_id row" "tc_exit_code call = Some (xr_exit_code r)"
    using record_tool_call_ok by blast
  define st where "st = (if xr_ok r then ''succeeded'' else ''failed'')"
  let ?db2 = "?db1\<lparr>uuid_pos := Suc (uuid_pos ?db1), tool_calls := tool_calls ?db1 @ [call]\<rparr>"
  obtain t where u: "update_action_status (ac_id row) st ?db2
      = ?db2\<lparr>clock_pos := Suc (clock_pos ?db2), actions := rows @ [row\<lparr>ac_status := st, ac_updated_at := t\<rparr>]\<rparr>"
    using update_status_last [of ?db2 rows row st] f1(1) rows(2) by auto
  let ?db3 = "update_action_status (ac_id row) st ?db2"
  have "''ev_'' @ take 12 (uuids ?db3 (uuid_pos ?db3)) \<notin> au_id ` set (audit_log ?db3)"
    using f1(5) fresh(2) [of 1] fresh(2) [of 2] unfolding u by (auto simp: f1(3,4))
  from audit_event_ok [OF this, of fr "''execute''" "''executor''"] obtain e i where
    a: "audit_event fr ''execute'' ''executor'' (py_str fr (dict_get action ''kind'' PNone) @ '' exit='' @ show_int (xr_exit_code r))
        (PDict [(''action_id'', PStr (ac_id row)), (''ok'', PBool (xr_ok r))]) ?db3
      = (Inr i, ?db3\<lparr>uuid_pos := Suc (uuid_pos ?db3), clock_pos := Suc (clock_pos ?db3), audit_log := audit_log ?db3 @ [e]\<rparr>)"
    by blast
  let ?rk = "rk1\<lparr>rk_db := ?db3\<lparr>uuid_pos := Suc (uuid_pos ?db3), clock_pos := Suc (clock_pos ?db3), audit_log := audit_log ?db3 @ [e]\<rparr>\<rparr>"
  have "execute fr os action (ac_id row) rk = (Inr (Executed r), ?rk)"
    by (simp add: execute_def x db_then_def k c(1) st_def [symmetric] a del: append.simps)
  moreover have "actions (rk_db ?rk) = rows @ [row\<lparr>ac_status := st, ac_updated_at := t\<rparr>]"
    "tool_calls (rk_db ?rk) = tool_calls (rk_db rk) @ [call]" "audit_log (rk_db ?rk) = audit_log (rk_db rk) @ [e]"
    unfolding u by (simp_all add: f1)
  ultimately show ?thesis using c(2,3) unfolding st_def by blast
qed

text \<open>Bookkeeping changes neither the world, nor the memory, nor the tool calls.\<close>

definition quiet :: "'w rocky \<Rightarrow> 'w rocky \<Rightarrow> bool" where
  "quiet rk rk' = (rk_world rk' = rk_world rk \<and> memory_items (rk_db rk') = memory_items (rk_db rk)
     \<and> tool_calls (rk_db rk') = tool_calls (rk_db rk))"

lemma quiet_refl [simp]: "quiet rk rk"
  by (simp add: quiet_def)

lemma quiet_db [simp]:
  "quiet rk (rk\<lparr>rk_db := snd (audit_event fr et actor msg data (rk_db rk))\<rparr>)"
  "quiet rk (rk\<lparr>rk_db := snd (record_action fr action d reason st (rk_db rk))\<rparr>)"
  "quiet rk (rk\<lparr>rk_db := update_action_status i st (rk_db rk)\<rparr>)"
  by (auto simp: quiet_def audit_event_def record_action_def update_action_status_def new_id_def utc_now_def Let_def split: sum.splits)

lemma quiet_trans: "quiet a b \<Longrightarrow> quiet b c \<Longrightarrow> quiet a c"
  by (simp add: quiet_def)

lemma db_then_quiet:
  assumes "quiet rk (rk\<lparr>rk_db := snd r\<rparr>)" "\<And>x. quiet (rk\<lparr>rk_db := snd r\<rparr>) (snd (f x (rk\<lparr>rk_db := snd r\<rparr>)))"
  shows "quiet rk (snd (db_then r rk f))"
  using assms(1) quiet_trans [OF assms(1) assms(2)] by (cases r; cases "fst r") (auto simp: db_then_def)

lemma held_quiet [simp]: "quiet rk (snd (held fr st d reason i out rk))"
  unfolding held_def
  using quiet_trans [OF quiet_db(3) [of rk i st] quiet_db(1) [of "rk\<lparr>rk_db := update_action_status i st (rk_db rk)\<rparr>"]]
  by (intro db_then_quiet) simp_all

text \<open>The state after an action row was added, and what happens to the action from there.\<close>

definition proposed_in :: "'w rocky \<Rightarrow> action_row \<Rightarrow> 'w rocky" where
  "proposed_in rk row = rk\<lparr>rk_db := (rk_db rk)\<lparr>uuid_pos := Suc (uuid_pos (rk_db rk)), clock_pos := Suc (clock_pos (rk_db rk)),
     actions := actions (rk_db rk) @ [row]\<rparr>\<rparr>"

lemma handle_judged:
  assumes "validate_action fr (PDict action) = Inr []" "decide_action fr action caps reg = Inr (d, reason)"
    "kind_of action = PStr k" "risk_of action = PStr r" "fresh_ids (Suc n) (rk_db rk)"
  shows "\<exists>row i. ac_id row = i \<and> i \<notin> ac_id ` set (actions (rk_db rk)) \<and> ac_decision row = decision_value d
    \<and> ac_reason row = reason \<and> ac_kind row = k \<and> ac_risk row = r
    \<and> handle_action fr os caps reg (PDict action) assume_yes rk
        = pursue fr os action d reason assume_yes i (proposed_in rk row)"
proof -
  obtain row i where ra: "record_action fr action (decision_value d) reason ''proposed'' (rk_db rk)
      = (Inr i, rk_db (proposed_in rk row))"
    and row: "ac_id row = i" "i \<notin> ac_id ` set (actions (rk_db rk))" "ac_decision row = decision_value d" "ac_reason row = reason"
      "ac_kind row = k" "ac_risk row = r"
    using record_action_ok [OF assms(3,4,5), of fr "decision_value d" reason "''proposed''"] by (auto simp: proposed_in_def)
  have "rk\<lparr>rk_db := rk_db (proposed_in rk row)\<rparr> = proposed_in rk row" by (simp add: proposed_in_def)
  then have "handle_action fr os caps reg (PDict action) assume_yes rk
      = pursue fr os action d reason assume_yes i (proposed_in rk row)"
    using assms(1,2) ra by (simp add: handle_action_def db_then_def)
  with row show ?thesis by blast
qed

lemma handle_action_approved:
  "(\<exists>action d reason. v = PDict action \<and> validate_action fr v = Inr [] \<and> decide_action fr action caps reg = Inr (d, reason)
      \<and> (d = allow \<or> d = ask_user \<and> assume_yes))
   \<or> (let rk' = snd (handle_action fr os caps reg v assume_yes rk) in
      rk_world rk' = rk_world rk \<and> memory_items (rk_db rk') = memory_items (rk_db rk)
      \<and> tool_calls (rk_db rk') = tool_calls (rk_db rk))"
proof (cases "validate_action fr v")
  case (Inr errs)
  show ?thesis
  proof (cases errs)
    case Nil
    then obtain action where v: "v = PDict action" using validate_ok Inr by blast
    show ?thesis
    proof (cases "decide_action fr action caps reg")
      case d: (Inr p)
      show ?thesis
      proof (cases "fst p = allow \<or> fst p = ask_user \<and> assume_yes")
        case True
        then show ?thesis using d Inr Nil v by (cases p) auto
      next
        case False
        then show ?thesis
          unfolding Let_def quiet_def [symmetric] using d Inr Nil v
          by (cases p; cases "fst p") (simp_all add: handle_action_def pursue_def db_then_quiet)
      qed
    qed (use Inr Nil v in \<open>simp add: handle_action_def\<close>)
  qed (simp add: handle_action_def Inr db_then_quiet quiet_def [symmetric])
qed (simp add: handle_action_def)

section \<open>Properties\<close>

text \<open>The executor acts only on what the policy let through: unless the proposed value is a valid action and
  the policy answered \<open>allow\<close>, or \<open>ask_user\<close> and the user confirmed, handling it changes nothing outside
  the database, stores no memory and records no tool call, whatever is raised on the way.\<close>

theorem executes_only_what_policy_approved:
  "(\<exists>action d reason. v = PDict action \<and> validate_action fr v = Inr [] \<and> decide_action fr action caps reg = Inr (d, reason)
      \<and> (d = allow \<or> d = ask_user \<and> assume_yes))
   \<or> (let rk' = snd (handle_action fr os caps reg v assume_yes rk) in
      rk_world rk' = rk_world rk \<and> memory_items (rk_db rk') = memory_items (rk_db rk)
      \<and> tool_calls (rk_db rk') = tool_calls (rk_db rk))"
  by (rule handle_action_approved)

text \<open>C36. Every judged action leaves its trace: handling a valid action on which the policy decides never raises
  when the next identifiers are unused; it adds one action row that holds the kind, the risk, the decision and
  the reason, one audit event, and a status that tells what happened; an executed action has its tool call
  beside it, with the exit code, and an action that was not executed has none.\<close>

theorem every_decision_is_recorded:
  assumes "validate_action fr (PDict action) = Inr []" "decide_action fr action caps reg = Inr (d, reason)"
    "fresh_ids 4 (rk_db rk)"
  shows "\<exists>out rk' row e calls.
     handle_action fr os caps reg (PDict action) assume_yes rk = (Inr out, rk')
     \<and> actions (rk_db rk') = actions (rk_db rk) @ [row] \<and> audit_log (rk_db rk') = audit_log (rk_db rk) @ [e]
     \<and> tool_calls (rk_db rk') = tool_calls (rk_db rk) @ calls
     \<and> PStr (ac_kind row) = kind_of action \<and> PStr (ac_risk row) = risk_of action
     \<and> ac_decision row = decision_value d \<and> ac_reason row = reason
     \<and> (case out of
          Rejected _ \<Rightarrow> False
        | Denied _ i \<Rightarrow> d = deny \<and> i = ac_id row \<and> ac_status row = ''denied'' \<and> calls = []
        | Needs_confirmation _ i \<Rightarrow> d = ask_user \<and> \<not> assume_yes \<and> i = ac_id row
            \<and> ac_status row = ''awaiting_confirmation'' \<and> calls = []
        | Executed r \<Rightarrow> d \<noteq> deny \<and> ac_status row = (if xr_ok r then ''succeeded'' else ''failed'')
            \<and> (\<exists>c. calls = [c] \<and> tc_action_id c = ac_id row \<and> tc_exit_code c = Some (xr_exit_code r)))"
proof -
  let ?db = "rk_db rk"
  obtain k r where kr: "kind_of action = PStr k" "risk_of action = PStr r" using validate_ok [OF assms(1)] by auto
  have f: "fresh_ids (Suc 3) (rk_db rk)" using assms(3) by simp
  obtain row i where row: "ac_id row = i" "i \<notin> ac_id ` set (actions ?db)" "ac_decision row = decision_value d" "ac_reason row = reason"
      "ac_kind row = k" "ac_risk row = r" and h: "handle_action fr os caps reg (PDict action) assume_yes rk =
        pursue fr os action d reason assume_yes i (proposed_in rk row)"
    using handle_judged [OF assms(1,2) kr f] by blast
  let ?rk1 = "proposed_in rk row"
  have fresh: "''tc_'' @ take 12 (uuids ?db (uuid_pos ?db + Suc m)) \<notin> tc_id ` set (tool_calls ?db)"
    "''ev_'' @ take 12 (uuids ?db (uuid_pos ?db + Suc m)) \<notin> au_id ` set (audit_log ?db)" if "m < 3" for m
    using assms(3) [unfolded fresh_ids_iff, THEN spec, of "Suc m"] that by simp_all
  have held: "\<exists>rk' t e. held fr st d reason i out ?rk1 = (Inr out, rk')
      \<and> actions (rk_db rk') = actions ?db @ [row\<lparr>ac_status := st, ac_updated_at := t\<rparr>]
      \<and> tool_calls (rk_db rk') = tool_calls ?db @ [] \<and> audit_log (rk_db rk') = audit_log ?db @ [e]" for st out
    using held_ok [of ?rk1 "actions ?db" row fr st d reason out] row(1,2) fresh(2) [of 0] by (force simp: proposed_in_def)
  consider "d = deny" | "d = ask_user" "\<not> assume_yes" | "d \<noteq> deny" "\<not> (d = ask_user \<and> \<not> assume_yes)" by blast
  then show ?thesis
  proof cases
    case 1
    obtain rk' t e where "held fr ''denied'' d reason i (Denied reason i) ?rk1 = (Inr (Denied reason i), rk')"
      "actions (rk_db rk') = actions ?db @ [row\<lparr>ac_status := ''denied'', ac_updated_at := t\<rparr>]"
      "tool_calls (rk_db rk') = tool_calls ?db @ []" "audit_log (rk_db rk') = audit_log ?db @ [e]" using held by blast
    then show ?thesis
      using 1 row kr
      unfolding h pursue_def by (intro exI [of _ "Denied reason i"] exI [of _ rk'] exI [of _ "row\<lparr>ac_status := ''denied'', ac_updated_at := t\<rparr>"]
          exI [of _ e] exI [of _ "[]"]) simp
  next
    case 2
    obtain rk' t e where "held fr ''awaiting_confirmation'' d reason i (Needs_confirmation reason i) ?rk1 = (Inr (Needs_confirmation reason i), rk')"
      "actions (rk_db rk') = actions ?db @ [row\<lparr>ac_status := ''awaiting_confirmation'', ac_updated_at := t\<rparr>]"
      "tool_calls (rk_db rk') = tool_calls ?db @ []" "audit_log (rk_db rk') = audit_log ?db @ [e]" using held by blast
    then show ?thesis
      using 2 row kr
      unfolding h pursue_def by (intro exI [of _ "Needs_confirmation reason i"] exI [of _ rk'] exI [of _ "row\<lparr>ac_status := ''awaiting_confirmation'', ac_updated_at := t\<rparr>"]
          exI [of _ e] exI [of _ "[]"]) simp
  next
    case 3
    obtain r' rk' t call e where x: "execute fr os action i ?rk1 = (Inr (Executed r'), rk')"
      "actions (rk_db rk') = actions ?db @ [row\<lparr>ac_status := if xr_ok r' then ''succeeded'' else ''failed'', ac_updated_at := t\<rparr>]"
      "tool_calls (rk_db rk') = tool_calls ?db @ [call]" "tc_action_id call = i" "tc_exit_code call = Some (xr_exit_code r')"
      "audit_log (rk_db rk') = audit_log ?db @ [e]"
      using execute_ok [of ?rk1 "actions ?db" row action k fr os] row(1,2) kr(1) fresh by (force simp: proposed_in_def)
    then show ?thesis
      using 3 row kr
      unfolding h pursue_def by (intro exI [of _ "Executed r'"] exI [of _ rk'] exI [of _ "row\<lparr>ac_status := if xr_ok r' then ''succeeded'' else ''failed'', ac_updated_at := t\<rparr>"]
          exI [of _ e] exI [of _ "[call]"]) auto
  qed
qed

definition example_rocky :: "string list rocky" where
  "example_rocky = \<lparr>rk_db = example_db, rk_world = []\<rparr>"

definition example_os :: "string list os" where
  "example_os = \<lparr>os_spawn = (\<lambda>argv _ _ w. (Finished 0 [] [], w @ [join '' '' argv])), os_read = (\<lambda>_ _. Inr []),
     os_write = (\<lambda>_ _ _ w. (Inr 0, w)), os_remove = (\<lambda>_ w. (Inr (), w)), os_print = (\<lambda>s w. w @ [s])\<rparr>"

definition notify_action :: pydict where
  "notify_action = [(''type'', PStr ''action''), (''kind'', PStr ''notify''), (''risk'', PStr ''read_only''),
     (''payload'', PDict [(''message'', PStr ''hello'')])]"

theorem every_decision_is_recorded_witness:
  "\<exists>out rk' row. handle_action (\<lambda>_. []) example_os (PDict []) [] (PDict notify_action) False example_rocky = (Inr out, rk')
     \<and> actions (rk_db rk') = [row] \<and> ac_decision row = ''allow''"
proof -
  have "validate_action (\<lambda>_. []) (PDict notify_action) = Inr []"
    "decide_action (\<lambda>_. []) notify_action (PDict []) [] = Inr (allow, ''read-only action'')" by code_simp+
  moreover have "fresh_ids 4 (rk_db example_rocky)" by (simp add: fresh_ids_iff example_rocky_def example_db_def)
  ultimately show ?thesis
    using every_decision_is_recorded [of "\<lambda>_. []" notify_action "PDict []" "[]" allow "''read-only action''" example_rocky
        example_os False]
    by (auto simp: example_rocky_def example_db_def)
qed

end
