(* ===== verification/RockyCtl.thy ===== *)
theory RockyCtl
  imports RockyTools
begin

text \<open>
  The front end of the Debian control layer, \<open>src/rocky/rockyctl\<close>: its commands, the choice of a local language model, the
  request to it, the extraction of an action from its reply, and the summary.

  Parameters: the HTTP calls with the decoded body of their answers (\<open>None\<close> for every failure), the environment, the
  configuration file, the agent profile, \<open>json.loads\<close> on the text of an action, and the time an execution took. The
  command line is read by \<open>argparse\<close>; a command is what it hands over. What a handler prints goes to the world of
  \<open>RockyTools\<close>; the texts here are those of the front end.
\<close>

section \<open>The language model\<close>

record rnet =
  rn_get :: "string \<Rightarrow> pyval option"
  rn_post :: "string \<Rightarrow> pyval \<Rightarrow> string option \<Rightarrow> pyval option"
  rn_env :: "string \<Rightarrow> string option"
  rn_conf :: "pyval option"
  rn_profile :: "string res"
  rn_loads :: "string \<Rightarrow> pyval option"
  rn_ms :: int

record llm =
  ll_api :: pyval
  ll_url :: string
  ll_model :: pyval
  ll_key :: pyval

definition PROBE_TARGETS :: "(string \<times> string) list" where
  "PROBE_TARGETS = [(''ollama'', ''http://localhost:11434''), (''openai'', ''http://localhost:8080''),
     (''openai'', ''http://localhost:1234'')]"

text \<open>The file, or an empty mapping when it is missing, unreadable or not JSON\<close>

definition rocky_config :: "rnet \<Rightarrow> pyval" where
  "rocky_config net = (case rn_conf net of Some v \<Rightarrow> v | None \<Rightarrow> PDict [])"

text \<open>\<open>xs[0]\<close> and \<open>v[k]\<close> of decoded JSON\<close>

definition first_item :: "pyval \<Rightarrow> pyval res" where
  "first_item v =
     (case v of
        PList [] \<Rightarrow> Inl (IndexError ''list index out of range'')
      | PList (x # _) \<Rightarrow> Inr x
      | PStr [] \<Rightarrow> Inl (IndexError ''string index out of range'')
      | PStr (c # _) \<Rightarrow> Inr (PStr [c])
      | PDict _ \<Rightarrow> Inl (KeyError ''0'')
      | _ \<Rightarrow> Inl (TypeError (repr_str (py_type_name v) @ '' object is not subscriptable'')))"

definition item_of :: "pyval \<Rightarrow> string \<Rightarrow> pyval res" where
  "item_of v k =
     (case v of
        PDict m \<Rightarrow> (case map_of m k of Some x \<Rightarrow> Inr x | None \<Rightarrow> Inl (KeyError k))
      | _ \<Rightarrow> Inl (TypeError (repr_str (py_type_name v) @ '' is not indexed by strings'')))"

definition probe :: "rnet \<Rightarrow> string \<Rightarrow> string \<Rightarrow> pyval res" where
  "probe net api url =
     (case rn_get net (url @ (if api = ''ollama'' then ''/api/tags'' else ''/v1/models'')) of
        None \<Rightarrow> Inr PNone
      | Some body \<Rightarrow>
          if api = ''ollama''
          then and_then (val_get body ''models'' (PList [])) (\<lambda>models.
                 if truthy models then and_then (first_item models) (\<lambda>m. item_of m ''name'') else Inr (PStr ''llama3''))
          else and_then (val_get body ''data'' (PList [])) (\<lambda>data.
                 if truthy data then and_then (first_item data) (\<lambda>m. item_of m ''id'') else Inr (PStr ''local-model'')))"

fun probe_all :: "rnet \<Rightarrow> (string \<times> string) list \<Rightarrow> llm option res" where
  "probe_all net [] = Inr None"
| "probe_all net ((api, url) # ts) =
     and_then (probe net api url) (\<lambda>model.
       if truthy model then Inr (Some \<lparr>ll_api = PStr api, ll_url = url, ll_model = model, ll_key = PNone\<rparr>)
       else probe_all net ts)"

definition env_val :: "rnet \<Rightarrow> string \<Rightarrow> pyval \<Rightarrow> pyval" where
  "env_val net name d = (case rn_env net name of Some s \<Rightarrow> PStr s | None \<Rightarrow> d)"

text \<open>\<open>os.environ.get(cfg["key_env"]) if cfg.get("key_env") else cfg.get("key")\<close>\<close>

definition config_key :: "rnet \<Rightarrow> pyval \<Rightarrow> pyval res" where
  "config_key net cfg =
     and_then (val_get cfg ''key_env'' PNone) (\<lambda>ke.
       if truthy ke then (case ke of PStr name \<Rightarrow> Inr (env_val net name PNone) | _ \<Rightarrow> Inl (TypeError ''str expected''))
       else val_get cfg ''key'' PNone)"

definition resolve_llm :: "(real \<Rightarrow> string) \<Rightarrow> rnet \<Rightarrow> llm option res" where
  "resolve_llm fr net =
     (let env_url = env_val net ''ROCKY_LLM_URL'' (PStr []) in
      if truthy env_url then
        Inr (Some \<lparr>ll_api = env_val net ''ROCKY_LLM_API'' (PStr ''ollama''), ll_url = rstrip_chars ''/'' (py_str fr env_url),
                   ll_model = env_val net ''ROCKY_LLM_MODEL'' (PStr ''llama3''), ll_key = env_val net ''ROCKY_LLM_KEY'' PNone\<rparr>)
      else
        and_then (val_get (rocky_config net) ''llm'' (PDict [])) (\<lambda>cfg.
        and_then (val_get cfg ''url'' PNone) (\<lambda>url.
          if truthy url then
            and_then (val_get cfg ''api'' (PStr ''ollama'')) (\<lambda>api.
            and_then (val_get cfg ''model'' (PStr ''llama3'')) (\<lambda>model.
            and_then (config_key net cfg) (\<lambda>key.
              Inr (Some \<lparr>ll_api = api, ll_url = rstrip_chars ''/'' (py_str fr url), ll_model = model, ll_key = key\<rparr>))))
          else probe_all net PROBE_TARGETS)))"

definition ROCKY_ADDITION :: string where
  "ROCKY_ADDITION = [CHR 0x0A] @ ''When action is required, output only valid JSON matching action_schema.json. ''
     @ ''Do not wrap JSON in markdown. Use argv format: {'' @ [CHR 0x22] @ ''command'' @ [CHR 0x22] @ '': '' @ [CHR 0x22] @ ''df''
     @ [CHR 0x22] @ '', '' @ [CHR 0x22] @ ''args'' @ [CHR 0x22] @ '': ['' @ [CHR 0x22] @ ''-h'' @ [CHR 0x22]
     @ '']}. Never produce raw shell strings. One action at a time. '' @ ''If unsure, set needs_confirmation to true.''"

definition system_prompt :: "rnet \<Rightarrow> string res" where
  "system_prompt net = and_then (rn_profile net) (\<lambda>profile. Inr (profile @ ROCKY_ADDITION))"

definition message :: "string \<Rightarrow> string \<Rightarrow> pyval" where
  "message role content = PDict [(''role'', PStr role), (''content'', PStr content)]"

text \<open>The reply is any JSON value; \<open>PNone\<close> also stands for a server that did not answer.\<close>

definition call_llm :: "(real \<Rightarrow> string) \<Rightarrow> rnet \<Rightarrow> llm \<Rightarrow> string \<Rightarrow> string option \<Rightarrow> pyval res" where
  "call_llm fr net l text system =
     and_then (case system of Some s \<Rightarrow> if s \<noteq> [] then Inr s else system_prompt net | None \<Rightarrow> system_prompt net) (\<lambda>sys.
       let messages = PList [message ''system'' sys, message ''user'' text];
           openai = (ll_api l = PStr ''openai'');
           auth = (if truthy (ll_key l) then Some (''Bearer '' @ py_str fr (ll_key l)) else None)
       in case (if openai
                then rn_post net (ll_url l @ ''/v1/chat/completions'')
                       (PDict [(''model'', ll_model l), (''messages'', messages), (''temperature'', PFloat 0)]) auth
                else rn_post net (ll_url l @ ''/api/chat'')
                       (PDict [(''model'', ll_model l), (''messages'', messages), (''stream'', PBool False)]) auth) of
            None \<Rightarrow> Inr PNone
          | Some body \<Rightarrow>
              and_then (if openai then and_then (val_get body ''choices'' (PList [PDict []])) first_item else Inr body) (\<lambda>c.
              and_then (val_get c ''message'' (PDict [])) (\<lambda>m. val_get m ''content'' (PStr []))))"

section \<open>Actions in a reply\<close>

text \<open>The text from the first opening brace to the last closing one\<close>

definition braced :: "string \<Rightarrow> string" where
  "braced s = rev (dropWhile (\<lambda>c. c \<noteq> CHR ''}'') (rev (dropWhile (\<lambda>c. c \<noteq> CHR ''{'') s)))"

definition no_attribute :: "pyval \<Rightarrow> string \<Rightarrow> exn" where
  "no_attribute v name = AttributeError (repr_str (py_type_name v) @ '' object has no attribute '' @ repr_str name)"

definition extract_action :: "rnet \<Rightarrow> pyval \<Rightarrow> pydict option res" where
  "extract_action net reply =
     (case reply of
        PStr s \<Rightarrow>
          Inr (if braced s = [] then None
               else case rn_loads net (braced s) of
                 Some (PDict obj) \<Rightarrow> (if dict_get obj ''type'' PNone = PStr ''action'' then Some obj else None)
               | _ \<Rightarrow> None)
      | _ \<Rightarrow> Inl (no_attribute reply ''find''))"

section \<open>Commands\<close>

definition outcome_dict :: "rnet \<Rightarrow> action_outcome \<Rightarrow> pydict" where
  "outcome_dict net out =
     (case out of
        Rejected reason \<Rightarrow> [(''ok'', PBool False), (''denied'', PBool True), (''reason'', PStr reason)]
      | Denied reason i \<Rightarrow> [(''ok'', PBool False), (''denied'', PBool True), (''reason'', PStr reason), (''action_id'', PStr i)]
      | Needs_confirmation reason i \<Rightarrow>
          [(''ok'', PBool False), (''needs_confirmation'', PBool True), (''reason'', PStr reason), (''action_id'', PStr i)]
      | Executed r \<Rightarrow>
          [(''ok'', PBool (xr_ok r)), (''action_id'', PStr (xr_action_id r)), (''kind'', xr_kind r), (''exit_code'', PInt (xr_exit_code r)),
           (''stdout'', xr_stdout r), (''stderr'', PStr (xr_stderr r)), (''duration_ms'', PInt (rn_ms net))])"

definition stripped :: "pyval \<Rightarrow> string res" where
  "stripped v = (case v of PStr s \<Rightarrow> Inr (strip s) | _ \<Rightarrow> Inl (no_attribute v ''strip''))"

definition summarize :: "(real \<Rightarrow> string) \<Rightarrow> rnet \<Rightarrow> llm \<Rightarrow> string \<Rightarrow> pydict \<Rightarrow> string res" where
  "summarize fr net l request result =
     (let get = (\<lambda>k. dict_get result k PNone); reason = py_str fr (get ''reason'') in
      if truthy (get ''needs_confirmation'')
      then Inr (''Needs confirmation: '' @ reason @ [CHR 0x0A] @ ''(re-run with --yes to confirm)'')
      else if truthy (get ''denied'') then Inr (''Denied: '' @ reason)
      else
        and_then (call_llm fr net l (''Request: '' @ request @ [CHR 0x0A] @ ''Result JSON:'' @ [CHR 0x0A] @ json_dumps fr (PDict result))
            (Some (''Summarize the command result for the user in one or two plain ''
                 @ ''sentences. State the outcome. Do not invent data.''))) (\<lambda>reply.
          if truthy reply then stripped reply
          else if truthy (get ''ok'')
          then and_then (stripped (py_or (get ''stdout'') (PStr []))) (\<lambda>out. Inr (if out \<noteq> [] then out else ''Done.''))
          else and_then (stripped (py_or (get ''stderr'') (PStr ''unknown error''))) (\<lambda>err. Inr (''Failed: '' @ err))))"

type_synonym 'w cmd = "int res \<times> printed list \<times> 'w rocky"

definition exit_status :: "pydict \<Rightarrow> int" where
  "exit_status result = (if truthy (dict_get result ''ok'' PNone) then 0 else 1)"

definition no_llm :: string where
  "no_llm = ''Rocky: no local LLM reachable. Set it in rocky.conf.json or export '' @ ''ROCKY_LLM_URL, then start the server. See README.''"

text \<open>The part of \<open>ask\<close> after the reply\<close>

definition act_on_reply ::
  "(real \<Rightarrow> string) \<Rightarrow> rnet \<Rightarrow> 'w os \<Rightarrow> pyval \<Rightarrow> pydict \<Rightarrow> llm \<Rightarrow> string \<Rightarrow> bool \<Rightarrow> bool \<Rightarrow> pyval \<Rightarrow> 'w rocky \<Rightarrow> 'w cmd" where
  "act_on_reply fr net os caps reg l text yes js reply rk =
     (if reply = PNone then (Inr 2, [Err (''Rocky: LLM at '' @ ll_url l @ '' did not respond.'')], rk)
      else case extract_action net reply of
        Inl e \<Rightarrow> (Inl e, [], rk)
      | Inr None \<Rightarrow> (case stripped reply of Inl e \<Rightarrow> (Inl e, [], rk) | Inr s \<Rightarrow> (Inr 0, [Out s], rk))
      | Inr (Some action) \<Rightarrow>
          (case handle_action fr os caps reg (PDict action) yes rk of
             (Inl e, rk1) \<Rightarrow> (Inl e, [], rk1)
           | (Inr out, rk1) \<Rightarrow>
               let result = outcome_dict net out in
               if js then (Inr (exit_status result), [Out (json_indent fr 0 (PDict result))], rk1)
               else case summarize fr net l text result of
                 Inl e \<Rightarrow> (Inl e, [], rk1)
               | Inr s \<Rightarrow> (Inr (exit_status result), [Out s], rk1)))"

definition cmd_ask ::
  "(real \<Rightarrow> string) \<Rightarrow> rnet \<Rightarrow> 'w os \<Rightarrow> pyval \<Rightarrow> pydict \<Rightarrow> string list \<Rightarrow> bool \<Rightarrow> bool \<Rightarrow> 'w rocky \<Rightarrow> 'w cmd" where
  "cmd_ask fr net os caps reg args yes js rk =
     (let text = join '' '' args in
      case resolve_llm fr net of
        Inl e \<Rightarrow> (Inl e, [], rk)
      | Inr None \<Rightarrow> (Inr 2, [Err no_llm], rk)
      | Inr (Some l) \<Rightarrow>
          (case audit_event fr ''ask'' ''user'' text (PDict [(''llm'', PStr (ll_url l)), (''model'', ll_model l)]) (rk_db rk) of
             (Inl e, db) \<Rightarrow> (Inl e, [], rk\<lparr>rk_db := db\<rparr>)
           | (Inr _, db) \<Rightarrow>
               (case call_llm fr net l text None of
                  Inl e \<Rightarrow> (Inl e, [], rk\<lparr>rk_db := db\<rparr>)
                | Inr reply \<Rightarrow> act_on_reply fr net os caps reg l text yes js reply (rk\<lparr>rk_db := db\<rparr>))))"

definition cmd_propose ::
  "(real \<Rightarrow> string) \<Rightarrow> rnet \<Rightarrow> 'w os \<Rightarrow> pyval \<Rightarrow> pydict \<Rightarrow> pyval res \<Rightarrow> bool \<Rightarrow> 'w rocky \<Rightarrow> 'w cmd" where
  "cmd_propose fr net os caps reg content yes rk =
     (case content of
        Inl e \<Rightarrow> (Inl e, [], rk)
      | Inr action \<Rightarrow>
          (case handle_action fr os caps reg action yes rk of
             (Inl e, rk1) \<Rightarrow> (Inl e, [], rk1)
           | (Inr out, rk1) \<Rightarrow>
               let result = outcome_dict net out in
               (Inr (exit_status result), [Out (json_indent fr 0 (PDict result))], rk1)))"

definition cmd_init :: "(real \<Rightarrow> string) \<Rightarrow> string \<Rightarrow> 'w rocky \<Rightarrow> 'w cmd" where
  "cmd_init fr path rk =
     (case audit_event fr ''init'' ''rockyctl'' ''database initialised'' (PDict [(''path'', PStr path)]) (rk_db rk) of
        (Inl e, db) \<Rightarrow> (Inl e, [], rk\<lparr>rk_db := db\<rparr>)
      | (Inr _, db) \<Rightarrow> (Inr 0, [Out (''initialised database at '' @ path)], rk\<lparr>rk_db := db\<rparr>))"

definition cmd_memory_add :: "(real \<Rightarrow> string) \<Rightarrow> string \<Rightarrow> string \<Rightarrow> 'w rocky \<Rightarrow> 'w cmd" where
  "cmd_memory_add fr kind content rk =
     (case memory_add fr (PStr kind) (PStr content) PNone (PStr ''normal'') ''user'' 1 (rk_db rk) of
        (Inl e, db) \<Rightarrow> (Inl e, [], rk\<lparr>rk_db := db\<rparr>)
      | (Inr i, db) \<Rightarrow>
          (case audit_event fr ''memory_add'' ''user'' kind (PDict [(''id'', PStr i)]) db of
             (Inl e, db1) \<Rightarrow> (Inl e, [], rk\<lparr>rk_db := db1\<rparr>)
           | (Inr _, db1) \<Rightarrow> (Inr 0, [Out (''stored '' @ i)], rk\<lparr>rk_db := db1\<rparr>)))"

definition cmd_memory_search :: "string \<Rightarrow> 'w rocky \<Rightarrow> 'w cmd" where
  "cmd_memory_search query rk =
     (Inr 0, map (\<lambda>r. Out (''['' @ mi_kind r @ ''] '' @ mi_content r @ ''  ('' @ mi_created_at r @ '')''))
        (memory_search query 20 (rk_db rk)), rk)"

text \<open>\<open>LIMIT\<close> with a negative number is no limit.\<close>

definition cmd_audit :: "int \<Rightarrow> 'w rocky \<Rightarrow> 'w cmd" where
  "cmd_audit limit rk =
     (let n = (if limit < 0 then length (actions (rk_db rk)) else nat limit) in
      (Inr 0, map (\<lambda>r. Out (ac_created_at r @ ''  '' @ ljust 16 (ac_kind r) @ '' '' @ ljust 11 (ac_risk r) @ '' ''
           @ ljust 9 (if ac_decision r \<noteq> [] then ac_decision r else ''-'') @ '' '' @ ljust 12 (ac_status r) @ '' '' @ ac_reason r))
        (audit_tail n (rk_db rk)), rk))"

definition cmd_tools :: "(real \<Rightarrow> string) \<Rightarrow> pydict \<Rightarrow> 'w rocky \<Rightarrow> 'w cmd" where
  "cmd_tools fr reg rk =
     (let header = Out ''Approved (auto-run) read-only commands:'';
          listed = (\<lambda>cs. map (\<lambda>c. Out (''  '' @ py_str fr c)) cs)
      in case py_iter (dict_get reg ''debian_read_only_commands'' (PList [])) of
           Inl e \<Rightarrow> (Inl e, [header], rk)
         | Inr cs \<Rightarrow>
             let out = header # listed cs @ [Out ([CHR 0x0A] @ ''Dangerous (confirmation required):'')] in
             (case py_iter (dict_get reg ''dangerous_commands'' (PList [])) of
                Inl e \<Rightarrow> (Inl e, out, rk)
              | Inr ds \<Rightarrow> (Inr 0, out @ listed ds, rk)))"

text \<open>\<open>f"{v:<{w}}"\<close> of a JSON value\<close>

definition format_left :: "(real \<Rightarrow> string) \<Rightarrow> nat \<Rightarrow> pyval \<Rightarrow> string res" where
  "format_left fr w v =
     (case v of
        PStr s \<Rightarrow> Inr (ljust w s) | PInt i \<Rightarrow> Inr (ljust w (show_int i)) | PFloat r \<Rightarrow> Inr (ljust w (fr r))
      | PBool b \<Rightarrow> Inr (ljust w (if b then ''1'' else ''0''))
      | _ \<Rightarrow> Inl (TypeError (''unsupported format string passed to '' @ py_type_name v @ ''.__format__'')))"

definition capability_line :: "(real \<Rightarrow> string) \<Rightarrow> string \<Rightarrow> pyval \<Rightarrow> string res" where
  "capability_line fr name cap =
     and_then (val_get cap ''enabled'' PNone) (\<lambda>enabled.
     and_then (val_get cap ''risk'' (PStr ''?'')) (\<lambda>risk.
     and_then (format_left fr 11 risk) (\<lambda>r.
     and_then (val_get cap ''description'' (PStr [])) (\<lambda>d.
       Inr (''  ['' @ (if truthy enabled then ''enabled '' else ''disabled'') @ ''] '' @ ljust 14 name @ '' risk='' @ r @ '' '' @ py_str fr d)))))"

fun capability_lines :: "(real \<Rightarrow> string) \<Rightarrow> pydict \<Rightarrow> int res \<times> printed list" where
  "capability_lines fr [] = (Inr 0, [])"
| "capability_lines fr ((name, cap) # cs) =
     (case capability_line fr name cap of
        Inl e \<Rightarrow> (Inl e, [])
      | Inr s \<Rightarrow> (case capability_lines fr cs of (r, out) \<Rightarrow> (r, Out s # out)))"

definition cmd_capabilities :: "(real \<Rightarrow> string) \<Rightarrow> pyval \<Rightarrow> 'w rocky \<Rightarrow> 'w cmd" where
  "cmd_capabilities fr caps rk =
     (case caps of
        PDict m \<Rightarrow> (case capability_lines fr m of (r, out) \<Rightarrow> (r, out, rk))
      | _ \<Rightarrow> (Inl (no_attribute caps ''items''), [], rk))"

text \<open>A parsed command line; the content of the file of \<open>propose\<close> and the path of the database come with it.\<close>

datatype rocky_command =
    Init string
  | Ask "string list" bool bool
  | Propose "pyval res" bool
  | Memory_add string string
  | Memory_search string
  | Audit_tail int
  | Tools_list
  | Capabilities_list

definition rocky_main ::
  "(real \<Rightarrow> string) \<Rightarrow> rnet \<Rightarrow> 'w os \<Rightarrow> pyval \<Rightarrow> pydict \<Rightarrow> rocky_command \<Rightarrow> 'w rocky \<Rightarrow> 'w cmd" where
  "rocky_main fr net os caps reg c rk =
     (case c of
        Init path \<Rightarrow> cmd_init fr path rk
      | Ask args yes js \<Rightarrow> cmd_ask fr net os caps reg args yes js rk
      | Propose content yes \<Rightarrow> cmd_propose fr net os caps reg content yes rk
      | Memory_add kind content \<Rightarrow> cmd_memory_add fr kind content rk
      | Memory_search q \<Rightarrow> cmd_memory_search q rk
      | Audit_tail n \<Rightarrow> cmd_audit n rk
      | Tools_list \<Rightarrow> cmd_tools fr reg rk
      | Capabilities_list \<Rightarrow> cmd_capabilities fr caps rk)"

section \<open>Facts\<close>

text \<open>The commands that hand an action to the pipeline, with the value they hand over\<close>

definition approved_action :: "(real \<Rightarrow> string) \<Rightarrow> pyval \<Rightarrow> pydict \<Rightarrow> bool \<Rightarrow> pyval \<Rightarrow> bool" where
  "approved_action fr caps reg yes v =
     (\<exists>action d reason. v = PDict action \<and> validate_action fr v = Inr [] \<and> decide_action fr action caps reg = Inr (d, reason)
        \<and> (d = allow \<or> d = ask_user \<and> yes))"

lemma unapproved_quiet: "\<not> approved_action fr caps reg yes v \<Longrightarrow> quiet rk (snd (handle_action fr os caps reg v yes rk))"
  using handle_action_approved [of v fr caps reg yes os rk] unfolding approved_action_def Let_def quiet_def [symmetric] by blast

lemma no_tool_calls:
  "tool_calls (snd (audit_event fr et actor msg data db)) = tool_calls db"
  "tool_calls (snd (memory_add fr k c tags sens src conf db)) = tool_calls db"
  by (auto simp: audit_event_def memory_add_def new_id_def utc_now_def Let_def split: sum.split pyval.split)

lemma act_on_reply_quiet:
  assumes "\<not> quiet rk (snd (snd (act_on_reply fr net os caps reg l s yes js reply rk)))"
  shows "\<exists>t action. reply = PStr t \<and> rn_loads net (braced t) = Some (PDict action) \<and> approved_action fr caps reg yes (PDict action)"
proof (cases "extract_action net reply")
  case (Inr a)
  show ?thesis
  proof (cases a)
    case None
    then show ?thesis using assms Inr by (auto simp: act_on_reply_def split: sum.splits if_splits)
  next
    case (Some action)
    obtain t where t: "reply = PStr t" "rn_loads net (braced t) = Some (PDict action)"
      using Inr Some by (auto simp: extract_action_def split: pyval.splits if_splits option.splits)
    have "snd (snd (act_on_reply fr net os caps reg l s yes js reply rk)) = snd (handle_action fr os caps reg (PDict action) yes rk)"
      using Inr Some t by (simp add: act_on_reply_def case_prod_beta Let_def split: sum.split)
    then have "approved_action fr caps reg yes (PDict action)" using assms unapproved_quiet by metis
    with t show ?thesis by blast
  qed
qed (use assms in \<open>auto simp: act_on_reply_def split: if_splits\<close>)

section \<open>Properties\<close>

text \<open>C34. The model proposes and the policy decides, through the whole front end: whatever a language model answers and
  whatever the network and the configuration do, a command changes something outside the database or calls a
  tool only if it hands over a valid action that the policy allows, or asks about and the user confirmed with
  \<open>--yes\<close>; for \<open>ask\<close>, that action is the one in the model's reply.\<close>

theorem front_end_acts_only_with_approval:
  assumes "rocky_main fr net os caps reg c rk = (r, out, rk')"
    "rk_world rk' \<noteq> rk_world rk \<or> tool_calls (rk_db rk') \<noteq> tool_calls (rk_db rk)"
  shows "(\<exists>content yes. c = Propose (Inr content) yes \<and> approved_action fr caps reg yes content)
    \<or> (\<exists>args yes js l t action. c = Ask args yes js \<and> resolve_llm fr net = Inr (Some l)
        \<and> call_llm fr net l (join '' '' args) None = Inr (PStr t) \<and> rn_loads net (braced t) = Some (PDict action)
        \<and> approved_action fr caps reg yes (PDict action))"
proof -
  have nq: "\<not> quiet rk rk'" using assms(2) by (auto simp: quiet_def)
  have rk': "rk' = snd (snd (rocky_main fr net os caps reg c rk))" using assms(1) by simp
  show ?thesis
  proof (cases c)
    case (Ask args yes js)
    obtain l where l: "resolve_llm fr net = Inr (Some l)"
      using nq rk' Ask by (cases "resolve_llm fr net") (auto simp: rocky_main_def cmd_ask_def Let_def split: option.splits)
    obtain i db' where a: "audit_event fr ''ask'' ''user'' (join '' '' args) (PDict [(''llm'', PStr (ll_url l)), (''model'', ll_model l)]) (rk_db rk) = (i, db')"
      by (cases "audit_event fr ''ask'' ''user'' (join '' '' args) (PDict [(''llm'', PStr (ll_url l)), (''model'', ll_model l)]) (rk_db rk)")
    then have q: "quiet rk (rk\<lparr>rk_db := db'\<rparr>)" using quiet_db(1) by (metis snd_conv)
    obtain reply where reply: "call_llm fr net l (join '' '' args) None = Inr reply"
      and "rk' = snd (snd (act_on_reply fr net os caps reg l (join '' '' args) yes js reply (rk\<lparr>rk_db := db'\<rparr>)))"
      using nq rk' Ask l a q by (auto simp: rocky_main_def cmd_ask_def Let_def split: sum.splits)
    then have "\<not> quiet (rk\<lparr>rk_db := db'\<rparr>) (snd (snd (act_on_reply fr net os caps reg l (join '' '' args) yes js reply (rk\<lparr>rk_db := db'\<rparr>))))"
      using nq q quiet_trans by blast
    from act_on_reply_quiet [OF this] l reply Ask show ?thesis by blast
  next
    case (Propose content yes)
    then obtain v where v: "content = Inr v"
      using nq rk' by (cases content) (auto simp: rocky_main_def cmd_propose_def)
    have "rk' = snd (handle_action fr os caps reg v yes rk)"
      using rk' Propose v by (simp add: rocky_main_def cmd_propose_def case_prod_beta Let_def split: sum.split)
    then have "approved_action fr caps reg yes v" using nq unapproved_quiet [of fr caps reg yes v rk os] by auto
    then show ?thesis using Propose v by simp
  next
    case (Memory_add kind content)
    have "rk_world rk' = rk_world rk \<and> tool_calls (rk_db rk') = tool_calls (rk_db rk)"
      using rk' Memory_add no_tool_calls(2) [of fr "PStr kind" "PStr content" PNone "PStr ''normal''" "''user''" 1 "rk_db rk"]
      by (simp add: rocky_main_def cmd_memory_add_def case_prod_beta no_tool_calls(1) split: sum.split)
    then show ?thesis using assms(2) by simp
  next
    case (Init path)
    then have "rk_world rk' = rk_world rk \<and> tool_calls (rk_db rk') = tool_calls (rk_db rk)"
      using rk' by (simp add: rocky_main_def cmd_init_def case_prod_beta no_tool_calls(1) split: sum.split)
    then show ?thesis using assms(2) by simp
  qed (use nq rk' in \<open>auto simp: rocky_main_def cmd_memory_search_def cmd_audit_def cmd_tools_def cmd_capabilities_def Let_def case_prod_beta
        split: sum.splits pyval.splits\<close>)
qed

definition example_rnet :: rnet where
  "example_rnet = \<lparr>rn_get = (\<lambda>_. None), rn_post = (\<lambda>_ _ _. None), rn_env = (\<lambda>_. None), rn_conf = None, rn_profile = Inr [],
     rn_loads = (\<lambda>_. None), rn_ms = 0\<rparr>"

theorem front_end_acts_only_with_approval_witness:
  "approved_action (\<lambda>_. []) (PDict []) [] False (PDict notify_action)"
proof -
  let ?c = "Propose (Inr (PDict notify_action)) False"
  let ?run = "rocky_main (\<lambda>_. []) example_rnet example_os (PDict []) [] ?c example_rocky"
  have "rk_world (snd (snd ?run)) = [''hello'']" by code_simp
  then have "rk_world (snd (snd ?run)) \<noteq> rk_world example_rocky" by (simp add: example_rocky_def)
  moreover have "?run = (fst ?run, fst (snd ?run), snd (snd ?run))" by simp
  ultimately show ?thesis using front_end_acts_only_with_approval [of "\<lambda>_. []" example_rnet example_os "PDict []" "[]" ?c example_rocky] by blast
qed

end
