(* ===== verification/YamlRoundTrip.thy ===== *)
theory YamlRoundTrip
  imports MiniYaml
begin

text \<open>
  What is dumped is read back: the values for which \<open>miniyaml.load\<close> inverts \<open>miniyaml.dump\<close>, and the
  values for which it does not.

  The proof goes through the lines. The dumped text consists of the lines \<open>dlines\<close>; splitting,
  removing comments and measuring the indentation recovers them, and the block parser reads each
  block of them back to the value it was printed from, leaving the lines that follow it.
\<close>

section \<open>The printable values\<close>

definition no_quote_break :: "string \<Rightarrow> bool" where
  "no_quote_break s = list_all (\<lambda>c. \<not> is_quote c \<and> \<not> is_break c) s"

definition needs_quotes :: "string \<Rightarrow> bool" where
  "needs_quotes s = (s = [] \<or> CHR '':'' \<in> set s \<or> CHR ''#'' \<in> set s \<or> strip s \<noteq> s)"

text \<open>A string survives if it has no quotes and line breaks and, where it is printed bare, does not read as
  another scalar or as the header of a block scalar.\<close>

definition plain_str :: "(string \<Rightarrow> real option) \<Rightarrow> string \<Rightarrow> bool" where
  "plain_str pf s = (no_quote_break s \<and> (needs_quotes s \<or> scalar pf s = PStr s \<and> block_scalar_kind s = None))"

fun plain_scalar :: "(string \<Rightarrow> real option) \<Rightarrow> pyval \<Rightarrow> bool" where
  "plain_scalar pf (PStr s) = plain_str pf s"
| "plain_scalar pf (PFloat _) = False"
| "plain_scalar pf (PList xs) = (xs = [])"
| "plain_scalar pf (PDict m) = (m = [])"
| "plain_scalar pf _ = True"

definition plain_key :: "string \<Rightarrow> bool" where
  "plain_key k = (k \<noteq> [] \<and> \<not> needs_quotes k \<and> no_quote_break k
     \<and> \<not> startswith ''- '' k \<and> \<not> startswith ''---'' k \<and> \<not> startswith ''...'' k)"

fun yaml_ok :: "(string \<Rightarrow> real option) \<Rightarrow> pyval \<Rightarrow> bool" where
  "yaml_ok pf (PDict m) = (distinct (map fst m) \<and> list_all (\<lambda>(k, v). plain_key k \<and> yaml_ok pf v) m)"
| "yaml_ok pf (PList xs) = list_all (\<lambda>x. plain_scalar pf x \<and> \<not> is_block x \<and> x \<noteq> PDict []) xs"
| "yaml_ok pf v = plain_scalar pf v"

fun dlines :: "(real \<Rightarrow> string) \<Rightarrow> nat \<Rightarrow> pyval \<Rightarrow> yline list" where
  "dlines fr ind (PDict m) = concat (map (\<lambda>(k, v).
     if is_block v then (ind, k @ '':'') # dlines fr (ind + 2) v else [(ind, k @ '': '' @ dump_scalar fr v)]) m)"
| "dlines fr ind (PList xs) = map (\<lambda>x. (ind, ''- '' @ dump_scalar fr x)) xs"
| "dlines fr ind v = []"

section \<open>Strings\<close>

lemma rstrip_prefix: "\<exists>t. x = rstrip x @ t"
proof -
  have "rev x = takeWhile is_space (rev x) @ dropWhile is_space (rev x)" by simp
  then have "x = rev (dropWhile is_space (rev x)) @ rev (takeWhile is_space (rev x))"
    by (metis rev_append rev_rev_ident)
  then show ?thesis unfolding rstrip_def by blast
qed

lemma strip_edges:
  assumes "strip s \<noteq> []"
  shows "\<not> is_space (hd (strip s))" "\<not> is_space (last (strip s))"
proof -
  let ?x = "lstrip s"
  have n: "dropWhile is_space (rev ?x) \<noteq> []" using assms by (auto simp: strip_def rstrip_def)
  show "\<not> is_space (last (strip s))"
    using hd_dropWhile [OF n] by (simp add: strip_def rstrip_def last_rev)
  obtain t where "?x = rstrip ?x @ t" using rstrip_prefix by blast
  then have "hd ?x = hd (strip s)" and "?x \<noteq> []"
    using assms by (metis hd_append2 strip_def, auto simp: strip_def rstrip_def)
  then show "\<not> is_space (hd (strip s))"
    using hd_dropWhile [of is_space s] by (simp add: lstrip_def)
qed

lemma strip_space: "is_space c \<Longrightarrow> strip (c # s) = strip s"
  by (simp add: strip_def lstrip_def)

lemma join_append: "a \<noteq> [] \<Longrightarrow> b \<noteq> [] \<Longrightarrow> join sep (a @ b) = join sep a @ sep @ join sep b"
proof (induction sep a rule: join.induct)
  case (2 sep x)
  then show ?case by (cases b) auto
qed auto

text \<open>Printing lists of lines whose parts are themselves joined lines.\<close>

lemma join_concat:
  assumes "\<And>x. x \<in> set xs \<Longrightarrow> f x \<noteq> [] \<and> g x \<noteq> [] \<and> join sep (f x) = join sep (g x)"
  shows "join sep (concat (map f xs)) = join sep (concat (map g xs))"
  using assms
proof (induction xs)
  case (Cons x xs)
  then have x: "f x \<noteq> []" "g x \<noteq> []" "join sep (f x) = join sep (g x)" by simp_all
  show ?case
  proof (cases xs)
    case Nil
    then show ?thesis using x by simp
  next
    case (Cons y ys)
    then have "concat (map f xs) \<noteq> []" "concat (map g xs) \<noteq> []" using Cons.prems by auto
    then show ?thesis using x Cons.IH Cons.prems by (simp add: join_append)
  qed
qed simp

section \<open>Numbers\<close>

lemma digit_facts:
  "digit_val (digit n) = Some (n mod 10)" "\<not> is_quote (digit n)" "\<not> is_break (digit n)" "\<not> is_space (digit n)"
  "digit n \<notin> set ''-+:#[~{nNtTfF|>._''"
proof -
  have "\<forall>k < 10. digit_val (''0123456789'' ! k) = Some k \<and> \<not> is_quote (''0123456789'' ! k) \<and> \<not> is_break (''0123456789'' ! k)
      \<and> \<not> is_space (''0123456789'' ! k) \<and> ''0123456789'' ! k \<notin> set ''-+:#[~{nNtTfF|>._''"
    by code_simp
  then show "digit_val (digit n) = Some (n mod 10)" "\<not> is_quote (digit n)" "\<not> is_break (digit n)" "\<not> is_space (digit n)"
    "digit n \<notin> set ''-+:#[~{nNtTfF|>._''"
    unfolding digit_def by simp_all
qed

lemma show_nat_nonempty: "show_nat n \<noteq> []"
  by (subst show_nat.simps) simp

lemma show_nat_digits: "set (show_nat n) \<subseteq> range digit"
proof (induction n rule: show_nat.induct)
  case (1 n)
  then show ?case by (subst show_nat.simps) auto
qed

lemma int_digits_show: "int_digits acc b (show_nat n @ cs) = int_digits (acc * 10 ^ length (show_nat n) + n) True cs"
proof (induction n arbitrary: acc b cs rule: show_nat.induct)
  case (1 n)
  show ?case
  proof (cases "n < 10")
    case True
    then show ?thesis by (simp add: show_nat.simps [of n] digit_facts)
  next
    case False
    have s: "show_nat n = show_nat (n div 10) @ [digit (n mod 10)]" using False by (simp add: show_nat.simps [of n])
    have "acc * 10 ^ length (show_nat n) + n = (acc * 10 ^ length (show_nat (n div 10)) + n div 10) * 10 + n mod 10"
      by (simp add: s algebra_simps)
    then show ?thesis using 1 [OF False] by (simp add: s digit_facts algebra_simps)
  qed
qed

lemma py_int_show: "py_int (show_int i) = Some i"
proof -
  have n: "int_digits 0 False (show_nat k) = Some k" for k
    using int_digits_show [of 0 False k "[]"] by simp
  obtain c cs where c: "show_nat (nat i) = c # cs" using show_nat_nonempty by (cases "show_nat (nat i)") auto
  then have "c \<in> range digit" using show_nat_digits [of "nat i"] by auto
  then have "c \<noteq> CHR ''-''" "c \<noteq> CHR ''+''" using digit_facts(5) by auto
  then show ?thesis using c n [of "nat i"] n [of "nat (- i)"] by (auto simp: show_int_def py_int_def)
qed

lemma show_int_chars:
  "c \<in> set (show_int i) \<Longrightarrow> \<not> is_quote c \<and> \<not> is_break c \<and> \<not> is_space c \<and> c \<notin> set '':#[~{nNtTfF|>._''"
proof -
  assume c: "c \<in> set (show_int i)"
  have "c = CHR ''-'' \<or> c \<in> range digit"
    using c show_nat_digits by (auto simp: show_int_def split: if_splits)
  then show ?thesis
    using digit_facts(2-5) by (auto simp: is_quote_def is_break_def is_space_def)
qed

lemma show_int_nonempty: "show_int i \<noteq> []"
  using show_nat_nonempty by (simp add: show_int_def)

lemma stripped:
  assumes "s \<noteq> []" "\<not> is_space (hd s)" "\<not> is_space (last s)"
  shows "strip s = s"
  using strip_trivial assms by blast

section \<open>Scalars\<close>

lemma show_int_ends:
  "\<not> is_space (hd (show_int i))" "\<not> is_space (last (show_int i))" "strip (show_int i) = show_int i"
  "hd (show_int i) \<notin> set '':#[~{nNtTfF|>._''" "\<not> is_quote (hd (show_int i))"
proof -
  note h = show_int_chars [OF hd_in_set [OF show_int_nonempty]] and l = show_int_chars [OF last_in_set [OF show_int_nonempty]]
  show "\<not> is_space (hd (show_int i))" "\<not> is_space (last (show_int i))"
    "hd (show_int i) \<notin> set '':#[~{nNtTfF|>._''" "\<not> is_quote (hd (show_int i))"
    using h l by blast+
  then show "strip (show_int i) = show_int i" using show_int_nonempty stripped by blast
qed

lemma scalar_int: "scalar pf (show_int i) = PInt i"
  using show_int_ends [of i] show_int_nonempty [of i] py_int_show [of i]
  by (subst scalar.simps) (auto simp: Let_def)

lemma scalar_quoted: "scalar pf ([CHR 0x22] @ s @ [CHR 0x22]) = PStr s"
proof -
  have "strip ([CHR 0x22] @ s @ [CHR 0x22]) = [CHR 0x22] @ s @ [CHR 0x22]"
    by (rule stripped) (simp_all add: is_space_def)
  then show ?thesis by (subst scalar.simps) (simp add: Let_def is_quote_def)
qed

lemma scalar_words:
  "scalar pf ''null'' = PNone" "scalar pf ''true'' = PBool True" "scalar pf ''false'' = PBool False"
  "scalar pf ''[]'' = PList []" "scalar pf ''{}'' = PDict []"
proof -
  have st: "strip ''null'' = ''null''" "strip ''true'' = ''true''" "strip ''false'' = ''false''" "strip ''[]'' = ''[]''"
    "strip ''{}'' = ''{}''" by code_simp+
  show "scalar pf ''null'' = PNone" "scalar pf ''true'' = PBool True" "scalar pf ''false'' = PBool False"
    "scalar pf ''[]'' = PList []" "scalar pf ''{}'' = PDict []"
    by (subst scalar.simps, simp add: st Let_def)+
qed

text \<open>A dumped scalar: it reads back, is not empty, has clean ends and no line break, and is neither a block
  header nor, unless quoted, anything with a colon or a comment sign.\<close>

lemma dump_scalar_str: "dump_scalar fr (PStr s) = (if needs_quotes s then [CHR 0x22] @ s @ [CHR 0x22] else s)"
  by (simp add: dump_scalar_def needs_quotes_def py_str_def Let_def)

lemma dump_scalar_empty: "dump_scalar fr (PList []) = ''[]''" "dump_scalar fr (PDict []) = ''{}''"
proof -
  have "strip ''[]'' = ''[]''" "strip ''{}'' = ''{}''" by code_simp+
  then show "dump_scalar fr (PList []) = ''[]''" "dump_scalar fr (PDict []) = ''{}''"
    by (simp_all add: dump_scalar_def py_str_def Let_def)
qed

lemma scalar_dump: "plain_scalar pf v \<Longrightarrow> scalar pf (dump_scalar fr v) = v"
proof (cases v)
  case (PBool b)
  then show ?thesis by (cases b) (simp_all add: dump_scalar_def scalar_words)
next
  case (PStr s)
  then show "plain_scalar pf v \<Longrightarrow> ?thesis"
    using scalar_quoted [of pf s] by (auto simp: dump_scalar_str plain_str_def)
qed (simp_all add: dump_scalar_empty scalar_words scalar_int, simp_all add: dump_scalar_def scalar_words scalar_int)

lemma comment_plain: "list_all (\<lambda>c. \<not> is_quote c \<and> c \<noteq> CHR ''#'') s \<Longrightarrow>
    comment_aux prev False False (s @ t) = s @ comment_aux (if s = [] then prev else Some (last s)) False False t"
  by (induction s arbitrary: prev) (auto simp: is_quote_def)

lemma comment_inside: "list_all (\<lambda>c. \<not> is_quote c) s \<Longrightarrow>
    comment_aux prev False True (s @ t) = s @ comment_aux (if s = [] then prev else Some (last s)) False True t"
  by (induction s arbitrary: prev) (auto simp: is_quote_def)

lemma comment_quoted: "list_all (\<lambda>c. \<not> is_quote c) s \<Longrightarrow>
    comment_aux prev False False ([CHR 0x22] @ s @ [CHR 0x22]) = [CHR 0x22] @ s @ [CHR 0x22]"
  using comment_inside [of s "Some (CHR 0x22)" "[CHR 0x22]"] by simp

definition good_scalar :: "string \<Rightarrow> bool" where
  "good_scalar d = (d \<noteq> [] \<and> \<not> is_space (hd d) \<and> \<not> is_space (last d) \<and> list_all (\<lambda>c. \<not> is_break c) d
     \<and> block_scalar_kind d = None \<and> (\<forall>prev. comment_aux prev False False d = d) \<and> \<not> inline_map d)"

lemma good_bare:
  assumes "d \<noteq> []" "\<not> is_space (hd d)" "\<not> is_space (last d)" "no_quote_break d" "CHR '':'' \<notin> set d" "CHR ''#'' \<notin> set d"
    "block_scalar_kind d = None"
  shows "good_scalar d"
proof -
  have "list_all (\<lambda>c. \<not> is_quote c \<and> c \<noteq> CHR ''#'') d" "list_all (\<lambda>c. \<not> is_break c) d"
    using assms(4,6) by (auto simp: no_quote_break_def list_all_iff)
  then show ?thesis using assms comment_plain [of d _ "[]"] by (simp add: good_scalar_def inline_map_def)
qed

lemma good_quoted: "no_quote_break s \<Longrightarrow> good_scalar ([CHR 0x22] @ s @ [CHR 0x22])"
proof -
  assume s: "no_quote_break s"
  then have q: "list_all (\<lambda>c. \<not> is_quote c) s" and "list_all (\<lambda>c. \<not> is_break c) s"
    by (auto simp: no_quote_break_def list_all_iff)
  moreover have "strip ([CHR 0x22] @ s @ [CHR 0x22]) = [CHR 0x22] @ s @ [CHR 0x22]"
    by (rule stripped) (simp_all add: is_space_def)
  ultimately show ?thesis using comment_quoted [OF q]
    by (simp add: good_scalar_def is_space_def is_break_def block_scalar_kind_def Let_def inline_map_def is_quote_def)
qed

lemma good_word: "w \<in> {''null'', ''true'', ''false'', ''[]'', ''{}''} \<Longrightarrow> good_scalar w"
proof -
  assume w: "w \<in> {''null'', ''true'', ''false'', ''[]'', ''{}''}"
  have "list_all (\<lambda>d. d \<noteq> [] \<and> \<not> is_space (hd d) \<and> \<not> is_space (last d) \<and> no_quote_break d \<and> CHR '':'' \<notin> set d
      \<and> CHR ''#'' \<notin> set d \<and> block_scalar_kind d = None) [''null'', ''true'', ''false'', ''[]'', ''{}'']" by code_simp
  then show ?thesis using w by (intro good_bare) auto
qed

lemma good_int: "good_scalar (show_int i)"
proof (rule good_bare)
  show "no_quote_break (show_int i)" using show_int_chars unfolding no_quote_break_def list_all_iff by blast
  show "CHR '':'' \<notin> set (show_int i)" "CHR ''#'' \<notin> set (show_int i)"
    using show_int_chars [of "CHR '':''" i] show_int_chars [of "CHR ''#''" i] by auto
  show "block_scalar_kind (show_int i) = None"
    using show_int_ends(4) [of i] by (auto simp: block_scalar_kind_def show_int_ends(3) Let_def)
qed (simp_all add: show_int_nonempty show_int_ends)

lemma good_dump: "plain_scalar pf v \<Longrightarrow> good_scalar (dump_scalar fr v)"
proof (cases v)
  case (PBool b)
  then show ?thesis by (cases b) (simp_all add: dump_scalar_def good_word)
next
  case (PStr s)
  assume "plain_scalar pf v"
  then have p: "plain_str pf s" using PStr by simp
  show ?thesis
  proof (cases "needs_quotes s")
    case True
    then show ?thesis using good_quoted [of s] p PStr by (simp add: dump_scalar_str plain_str_def)
  next
    case False
    then have "s \<noteq> []" "strip s = s" by (simp_all add: needs_quotes_def)
    then show ?thesis
      using strip_edges [of s] False p PStr
      by (auto simp: dump_scalar_str plain_str_def needs_quotes_def intro!: good_bare)
  qed
qed (simp_all add: dump_scalar_empty good_word good_int, simp_all add: dump_scalar_def good_word good_int)

section \<open>Lines\<close>

text \<open>A line that the reader returns as it was written.\<close>

definition good_line :: "string \<Rightarrow> bool" where
  "good_line c = (c \<noteq> [] \<and> \<not> is_space (hd c) \<and> \<not> is_space (last c) \<and> list_all (\<lambda>c. \<not> is_break c) c
     \<and> (\<forall>prev. comment_aux prev False False c = c) \<and> \<not> startswith ''---'' c \<and> \<not> startswith ''...'' c)"

lemma clean_good:
  assumes "good_line c"
  shows "clean_line (pad i @ c) = [(i, c)]"
proof -
  have sp: "list_all (\<lambda>c. \<not> is_quote c \<and> c \<noteq> CHR ''#'') (pad i)" by (simp add: pad_def is_quote_def list_all_iff)
  have "strip_comment (pad i @ c) = pad i @ c"
    using assms comment_plain [OF sp] by (simp add: strip_comment_def good_line_def)
  moreover have ls: "lstrip (pad i @ c) = lstrip c"
    by (induction i) (simp_all add: lstrip_def pad_def is_space_def)
  moreover have lc: "lstrip c = c" using assms by (cases c) (auto simp: lstrip_def good_line_def)
  moreover have "strip (pad i @ c) = c"
    using stripped [of c] assms ls lc by (simp add: strip_def good_line_def)
  moreover have "indent_of (pad i @ c) = i"
    using assms by (cases c) (auto simp: indent_of_def pad_def good_line_def is_space_def takeWhile_append)
  ultimately show ?thesis using assms by (simp add: clean_line_def Let_def good_line_def)
qed

lemma splitlines_line:
  "list_all (\<lambda>c. \<not> is_break c) l \<Longrightarrow> splitlines_aux buf (l @ [CHR 0x0A] @ t) = (buf @ l) # splitlines_aux [] t"
  by (induction l arbitrary: buf) (auto simp: is_break_def)

lemma splitlines_join:
  assumes "ls \<noteq> []" "list_all (list_all (\<lambda>c. \<not> is_break c)) ls"
  shows "splitlines (join [CHR 0x0A] ls @ [CHR 0x0A]) = ls"
  unfolding splitlines_def using assms
proof (induction "[CHR 0x0A]" ls rule: join.induct)
  case (2 x)
  then show ?case using splitlines_line [of x "[]" "[]"] by simp
next
  case (3 x y xs)
  then show ?case using splitlines_line [of x "[]" "join [CHR 0x0A] (y # xs) @ [CHR 0x0A]"] by simp
qed simp

definition rendered :: "yline list \<Rightarrow> string list" where
  "rendered ls = map (\<lambda>l. pad (fst l) @ snd l) ls"

lemma clean_render:
  assumes "ls \<noteq> []" "list_all (\<lambda>l. good_line (snd l)) ls"
  shows "clean_lines (join [CHR 0x0A] (rendered ls) @ [CHR 0x0A]) = ls"
proof -
  have "\<not> is_break (CHR '' '')" by (simp add: is_break_def)
  then have "list_all (list_all (\<lambda>c. \<not> is_break c)) (rendered ls)"
    using assms(2) by (auto simp: rendered_def pad_def list_all_iff good_line_def)
  then have "splitlines (join [CHR 0x0A] (rendered ls) @ [CHR 0x0A]) = rendered ls"
    using assms(1) by (intro splitlines_join) (simp_all add: rendered_def)
  moreover have "concat (map clean_line (rendered ls)) = ls"
    using assms(2) by (induction ls) (auto simp: rendered_def clean_good)
  ultimately show ?thesis by (simp add: clean_lines_def)
qed

lemma good_key_line:
  assumes "plain_key k"
  shows "good_line (k @ '':'')" "good_scalar d \<Longrightarrow> good_line (k @ '': '' @ d)"
proof -
  have k: "k \<noteq> []" "strip k = k" "list_all (\<lambda>c. \<not> is_quote c \<and> c \<noteq> CHR ''#'') k" "list_all (\<lambda>c. \<not> is_break c) k"
    "\<not> startswith ''---'' k" "\<not> startswith ''...'' k" "CHR '':'' \<notin> set k"
    using assms by (auto simp: plain_key_def needs_quotes_def no_quote_break_def list_all_iff)
  note e = strip_edges [of k, unfolded k(2), OF k(1)]
  have q: "list_all (\<lambda>c. \<not> is_quote c \<and> c \<noteq> CHR ''#'') (k @ '':'')" "list_all (\<lambda>c. \<not> is_quote c \<and> c \<noteq> CHR ''#'') (k @ '': '')"
    using k(3) by (simp_all add: is_quote_def)
  have st: "\<not> startswith ''---'' (k @ CHR '':'' # t)" "\<not> startswith ''...'' (k @ CHR '':'' # t)" for t
  proof -
    have "startswith [a, a, a] (k @ CHR '':'' # t) \<Longrightarrow> a \<noteq> CHR '':'' \<Longrightarrow> startswith [a, a, a] k" for a
      unfolding startswith_def
      by (cases k; cases "tl k"; cases "tl (tl k)") auto
    then show "\<not> startswith ''---'' (k @ CHR '':'' # t)" "\<not> startswith ''...'' (k @ CHR '':'' # t)"
      using k(5,6) by auto
  qed
  have "\<not> is_break (CHR '':'')" "\<not> is_break (CHR '' '')" "\<not> is_space (CHR '':'')" by (simp_all add: is_break_def is_space_def)
  then show "good_line (k @ '':'')" "good_scalar d \<Longrightarrow> good_line (k @ '': '' @ d)"
    using k(1,4) e(1) st comment_plain [OF q(1), of _ "[]"] comment_plain [OF q(2), of _ d]
    by (auto simp: good_line_def good_scalar_def)
qed

lemma good_item_line: "good_scalar d \<Longrightarrow> good_line (''- '' @ d)"
proof -
  assume d: "good_scalar d"
  have q: "list_all (\<lambda>c. \<not> is_quote c \<and> c \<noteq> CHR ''#'') ''- ''" by (simp add: is_quote_def)
  show ?thesis using d comment_plain [OF q, of _ d]
    by (auto simp: good_line_def good_scalar_def is_space_def is_break_def startswith_def)
qed

section \<open>The dumped text\<close>

lemma yaml_ok_scalar: "yaml_ok pf v \<Longrightarrow> \<not> is_block v \<Longrightarrow> plain_scalar pf v"
  by (cases v) auto

definition entry_lines :: "(real \<Rightarrow> string) \<Rightarrow> nat \<Rightarrow> string \<times> pyval \<Rightarrow> yline list" where
  "entry_lines fr ind kv =
     (if is_block (snd kv) then (ind, fst kv @ '':'') # dlines fr (ind + 2) (snd kv)
      else [(ind, fst kv @ '': '' @ dump_scalar fr (snd kv))])"

lemma dlines_dict: "dlines fr ind (PDict m) = concat (map (entry_lines fr ind) m)"
proof -
  have "(\<lambda>(k, v). if is_block v then (ind, k @ '':'') # dlines fr (ind + 2) v else [(ind, k @ '': '' @ dump_scalar fr v)])
      = entry_lines fr ind"
    by (simp add: entry_lines_def fun_eq_iff)
  then show ?thesis by simp
qed

declare dlines.simps(1) [simp del]

lemma entry_lines_nonempty [simp]: "entry_lines fr ind kv \<noteq> []"
  by (simp add: entry_lines_def)

lemma dlines_good: "yaml_ok pf v \<Longrightarrow> list_all (\<lambda>l. good_line (snd l)) (dlines fr ind v)"
proof (induction fr ind v rule: dlines.induct)
  case (1 fr ind m)
  have "list_all (\<lambda>l. good_line (snd l)) (entry_lines fr ind (k, v))" if kv: "(k, v) \<in> set m" for k v
  proof -
    have k: "plain_key k" "yaml_ok pf v" using 1(2) kv by (auto simp: list_all_iff)
    show ?thesis
      using 1(1) [OF kv] good_key_line [OF k(1)] good_dump [OF yaml_ok_scalar [OF k(2)]] k(2)
      by (auto simp: entry_lines_def)
  qed
  then show ?case unfolding dlines_dict list_all_iff by fastforce
next
  case (2 fr ind xs)
  then show ?case using good_dump [of pf _ fr] good_item_line by (auto simp: list_all_iff)
qed simp_all

lemma dlines_nonempty: "is_block v \<Longrightarrow> dlines fr ind v \<noteq> []"
proof (cases v)
  case (PDict m)
  assume "is_block v"
  then show ?thesis using PDict by (cases m) (simp_all add: dlines_dict)
qed auto

lemma rstrip_newline:
  assumes "ls \<noteq> []" "list_all (\<lambda>l. good_line (snd l)) ls"
  shows "rstrip_chars [CHR 0x0A] (join [CHR 0x0A] (rendered ls) @ [CHR 0x0A]) = join [CHR 0x0A] (rendered ls)"
proof -
  have "last (join [CHR 0x0A] (rendered ls)) \<noteq> CHR 0x0A \<and> join [CHR 0x0A] (rendered ls) \<noteq> []"
    using assms
  proof (induction ls)
    case (Cons l ls)
    have l: "pad (fst l) @ snd l \<noteq> []" "last (pad (fst l) @ snd l) \<noteq> CHR 0x0A"
      using Cons.prems by (auto simp: good_line_def is_space_def)
    show ?case
    proof (cases ls)
      case Nil
      then show ?thesis using l by (simp add: rendered_def)
    next
      case (Cons l' ls')
      then show ?thesis using Cons.IH Cons.prems by (simp add: rendered_def)
    qed
  qed simp
  then have "dropWhile (\<lambda>c. c = CHR 0x0A) (rev (join [CHR 0x0A] (rendered ls))) = rev (join [CHR 0x0A] (rendered ls))"
    by (simp only: dropWhile_eq_self_iff hd_rev) simp
  then show ?thesis by (simp add: rstrip_chars_def)
qed

lemma dump_lines:
  "yaml_ok pf v \<Longrightarrow> is_block v \<Longrightarrow> dump fr ind v = join [CHR 0x0A] (rendered (dlines fr ind v)) @ [CHR 0x0A]"
proof (induction fr ind v rule: dlines.induct)
  case (1 fr ind m)
  define f where "f = (\<lambda>(k, v). if is_block v then [pad ind @ k @ '':'', rstrip_chars [CHR 0x0A] (dump fr (ind + 2) v)]
             else [pad ind @ k @ '': '' @ dump_scalar fr v])"
  define g where "g = (\<lambda>kv. rendered (entry_lines fr ind kv))"
  have "f kv \<noteq> [] \<and> g kv \<noteq> [] \<and> join [CHR 0x0A] (f kv) = join [CHR 0x0A] (g kv)" if kv: "kv \<in> set m" for kv
  proof (cases kv)
    case (Pair k v)
    have ok: "yaml_ok pf v" using 1(2) kv Pair by (auto simp: list_all_iff)
    show ?thesis
    proof (cases "is_block v")
      case True
      have "rstrip_chars [CHR 0x0A] (dump fr (ind + 2) v) = join [CHR 0x0A] (rendered (dlines fr (ind + 2) v))"
        using 1(1) [OF kv [unfolded Pair] refl True ok True] rstrip_newline [OF dlines_nonempty [OF True] dlines_good [OF ok]]
        by simp
      moreover have "rendered (dlines fr (ind + 2) v) \<noteq> []" using dlines_nonempty [OF True] by (simp add: rendered_def)
      ultimately show ?thesis using True Pair
        by (cases "rendered (dlines fr (ind + 2) v)") (simp_all add: f_def g_def entry_lines_def rendered_def)
    next
      case False
      then show ?thesis using Pair by (simp add: f_def g_def entry_lines_def rendered_def)
    qed
  qed
  then have "join [CHR 0x0A] (concat (map f m)) = join [CHR 0x0A] (concat (map g m))" by (rule join_concat)
  moreover have "rendered (dlines fr ind (PDict m)) = concat (map g m)"
    by (simp add: rendered_def g_def map_concat comp_def dlines_dict)
  ultimately show ?case using 1(3) by (simp add: f_def)
next
  case (2 fr ind xs)
  have "map (\<lambda>x. case x of PDict _ \<Rightarrow> dash_block ind (splitlines (rstrip_chars [CHR 0x0A] (dump fr (ind + 2) x)))
             | _ \<Rightarrow> [pad ind @ ''- '' @ dump_scalar fr x]) xs = map (\<lambda>x. [pad ind @ ''- '' @ dump_scalar fr x]) xs"
    using 2 by (auto simp: list_all_iff split: pyval.split)
  then have "concat (map (\<lambda>x. case x of PDict _ \<Rightarrow> dash_block ind (splitlines (rstrip_chars [CHR 0x0A] (dump fr (ind + 2) x)))
             | _ \<Rightarrow> [pad ind @ ''- '' @ dump_scalar fr x]) xs) = map (\<lambda>x. pad ind @ ''- '' @ dump_scalar fr x) xs"
    by (simp only: concat_map_singleton)
  then show ?case using 2 by (simp add: rendered_def comp_def)
qed simp_all

lemma clean_dump: "yaml_ok pf v \<Longrightarrow> is_block v \<Longrightarrow> clean_lines (dump fr ind v) = dlines fr ind v"
  using clean_render [OF dlines_nonempty dlines_good] by (simp add: dump_lines)

section \<open>Reading the lines back\<close>

definition rest_ok :: "nat \<Rightarrow> yline list \<Rightarrow> bool" where
  "rest_ok ind rest = (rest = [] \<or> fst (hd rest) < ind)"

lemma colon_line:
  assumes "plain_key k"
  shows "\<not> startswith ''- '' (k @ CHR '':'' # t)" "CHR '':'' \<in> set (k @ CHR '':'' # t)" "key_of (k @ CHR '':'' # t) = k"
    "rest_of (k @ CHR '':'' # t) = strip t"
proof -
  have k: "CHR '':'' \<notin> set k" "strip k = k" "\<not> startswith ''- '' k" "k \<noteq> []"
    using assms by (auto simp: plain_key_def needs_quotes_def)
  show "\<not> startswith ''- '' (k @ CHR '':'' # t)"
    using k(3,4) unfolding startswith_def by (cases k; cases "tl k") auto
  show "CHR '':'' \<in> set (k @ CHR '':'' # t)" by simp
  have "takeWhile (\<lambda>c. c \<noteq> CHR '':'') (k @ CHR '':'' # t) = k" "dropWhile (\<lambda>c. c \<noteq> CHR '':'') (k @ CHR '':'' # t) = CHR '':'' # t"
    using k(1) by (induction k) auto
  then show "key_of (k @ CHR '':'' # t) = k" "rest_of (k @ CHR '':'' # t) = strip t"
    using k(2) by (simp_all add: key_of_def rest_of_def)
qed

lemma good_scalar_rest: "good_scalar d \<Longrightarrow> strip (CHR '' '' # d) = d \<and> strip d = d"
  using stripped [of d] strip_space [of "CHR '' ''" d] by (simp add: good_scalar_def is_space_def)

lemma read_list:
  assumes "list_all (\<lambda>x. plain_scalar pf x) xs" "rest_ok ind rest"
  shows "parse_list pf n (map (\<lambda>x. (ind, ''- '' @ dump_scalar fr x)) xs @ rest) ind acc \<in> {None, Some (Inr (PList (acc @ xs), rest))}"
  using assms
proof (induction n arbitrary: xs acc)
  case (Suc n)
  show ?case
  proof (cases xs)
    case Nil
    then show ?thesis using Suc.prems(2)
      by (cases rest) (auto simp: list_step_def rest_ok_def)
  next
    case (Cons x ys)
    let ?d = "dump_scalar fr x"
    have x: "plain_scalar pf x" "list_all (\<lambda>x. plain_scalar pf x) ys" using Suc.prems(1) Cons by simp_all
    have d: "strip ?d = ?d" "\<not> inline_map ?d" "scalar pf ?d = x"
      using good_dump [OF x(1), of fr] good_scalar_rest scalar_dump [OF x(1)] by (auto simp: good_scalar_def)
    have "startswith ''- '' (CHR ''-'' # CHR '' '' # ?d)" by (simp add: startswith_def)
    then show ?thesis
      using Suc.IH [OF x(2) Suc.prems(2), of "acc @ [x]"] Cons d by (simp add: list_step_def)
  qed
qed simp

lemma entry_first: "fst (hd (entry_lines fr ind kv)) = ind"
  by (simp add: entry_lines_def)

lemma dict_rest_ok: "rest_ok ind rest \<Longrightarrow> rest_ok (ind + 2) (concat (map (entry_lines fr ind) m) @ rest)"
  by (cases m) (auto simp: rest_ok_def entry_first)

lemma dlines_first: "is_block v \<Longrightarrow> fst (hd (dlines fr ind v)) = ind"
proof (cases v)
  case (PDict m)
  assume "is_block v"
  then show ?thesis using PDict by (cases m) (auto simp: dlines_dict entry_first)
next
  case (PList xs)
  assume "is_block v"
  then show ?thesis using PList by (cases xs) auto
qed auto

lemma read_map:
  assumes "list_all (\<lambda>(k, v). plain_key k \<and> yaml_ok pf v) m" "rest_ok ind rest"
    "\<And>k v n rest. (k, v) \<in> set m \<Longrightarrow> is_block v \<Longrightarrow> rest_ok (ind + 2) rest \<Longrightarrow>
        parse_block pf n (dlines fr (ind + 2) v @ rest) (ind + 2) \<in> {None, Some (Inr (v, rest))}"
  shows "parse_map pf n (concat (map (entry_lines fr ind) m) @ rest) ind acc
    \<in> {None, Some (Inr (PDict (fold (\<lambda>(k, v). AList.update k v) m acc), rest))}"
  using assms(1,3)
proof (induction n arbitrary: m acc)
  case (Suc n)
  show ?case
  proof (cases m)
    case Nil
    then show ?thesis using assms(2) by (cases rest) (auto simp: map_step_def rest_ok_def)
  next
    case (Cons kv ms)
    obtain k v where kv: "kv = (k, v)" by (cases kv)
    have kv_ok: "plain_key k" "yaml_ok pf v" "list_all (\<lambda>(k, v). plain_key k \<and> yaml_ok pf v) ms"
      using Suc.prems(1) Cons kv by simp_all
    let ?more = "concat (map (entry_lines fr ind) ms) @ rest"
    have ih: "parse_map pf n ?more ind a \<in> {None, Some (Inr (PDict (fold (\<lambda>(k, v). AList.update k v) ms a), rest))}" for a
    proof (rule Suc.IH [OF kv_ok(3)])
      fix k' v' n' rest'
      assume "(k', v') \<in> set ms" "is_block v'" "rest_ok (ind + 2) rest'"
      then show "parse_block pf n' (dlines fr (ind + 2) v' @ rest') (ind + 2) \<in> {None, Some (Inr (v', rest'))}"
        using Suc.prems(2) [of k' v'] Cons by simp
    qed
    show ?thesis
    proof (cases "is_block v")
      case True
      have nonempty: "dlines fr (ind + 2) v @ ?more \<noteq> []" "fst (hd (dlines fr (ind + 2) v @ ?more)) = ind + 2"
        using dlines_nonempty [OF True, of fr "ind + 2"] dlines_first [OF True, of fr "ind + 2"] by auto
      have sub: "parse_block pf n (dlines fr (ind + 2) v @ ?more) (ind + 2) \<in> {None, Some (Inr (v, ?more))}"
        using Suc.prems(2) [of k v] Cons kv True dict_rest_ok [OF assms(2)] by simp
      have none: "block_scalar_kind (strip []) = None" "strip [] = []"
        by (simp_all add: block_scalar_kind_def strip_def lstrip_def rstrip_def)
      have "parse_map pf (Suc n) (concat (map (entry_lines fr ind) m) @ rest) ind acc
          = ythen (parse_block pf n (dlines fr (ind + 2) v @ ?more) (ind + 2))
              (\<lambda>w ls'. parse_map pf n ls' ind (AList.update k w acc))"
        using Cons kv True nonempty none colon_line [OF kv_ok(1), of "[]"]
        by (simp add: entry_lines_def map_step_def Let_def)
      then show ?thesis using sub ih [of "AList.update k v acc"] Cons kv by (auto simp: ythen_def)
    next
      case False
      let ?d = "dump_scalar fr v"
      have g: "good_scalar ?d" and sc: "scalar pf ?d = v"
        using good_dump [of pf v fr] scalar_dump [of pf v fr] yaml_ok_scalar [OF kv_ok(2) False] by auto
      have "strip (CHR '' '' # ?d) = ?d" "block_scalar_kind ?d = None" "?d \<noteq> []"
        using g good_scalar_rest [OF g] by (auto simp: good_scalar_def)
      then have "parse_map pf (Suc n) (concat (map (entry_lines fr ind) m) @ rest) ind acc
          = parse_map pf n ?more ind (AList.update k v acc)"
        using Cons kv False sc colon_line [OF kv_ok(1), of "CHR '' '' # ?d"]
        by (simp add: entry_lines_def map_step_def Let_def)
      then show ?thesis using ih [of "AList.update k v acc"] Cons kv by simp
    qed
  qed
qed simp

lemma fold_update_append:
  "distinct (map fst (acc @ m)) \<Longrightarrow> fold (\<lambda>(k, v). AList.update k v) m acc = acc @ m"
proof (induction m arbitrary: acc)
  case (Cons kv m)
  obtain k v where kv: "kv = (k, v)" by (cases kv)
  have "AList.update k v acc = acc @ [(k, v)]"
    using Cons.prems kv by (induction acc) auto
  then show ?case using Cons.IH [of "acc @ [(k, v)]"] Cons.prems kv by simp
qed simp

lemma read_block:
  "yaml_ok pf v \<Longrightarrow> is_block v \<Longrightarrow> rest_ok ind rest \<Longrightarrow>
     parse_block pf n (dlines fr ind v @ rest) ind \<in> {None, Some (Inr (v, rest))}"
proof (induction fr ind v arbitrary: n rest rule: dlines.induct)
  case (1 fr ind m)
  have m: "m \<noteq> []" "list_all (\<lambda>(k, v). plain_key k \<and> yaml_ok pf v) m" "distinct (map fst m)" using 1(2,3) by auto
  have "parse_map pf n' (concat (map (entry_lines fr ind) m) @ rest) ind []
    \<in> {None, Some (Inr (PDict (fold (\<lambda>(k, v). AList.update k v) m []), rest))}" for n'
  proof (rule read_map [OF m(2) 1(4)])
    fix k v n rest
    assume kv: "(k, v) \<in> set m" "is_block v" "rest_ok (ind + 2) rest"
    then have "yaml_ok pf v" using m(2) by (auto simp: list_all_iff)
    then show "parse_block pf n (dlines fr (ind + 2) v @ rest) (ind + 2) \<in> {None, Some (Inr (v, rest))}"
      using 1(1) [OF kv(1) refl kv(2)] kv by blast
  qed
  then have p: "parse_map pf n' (concat (map (entry_lines fr ind) m) @ rest) ind [] \<in> {None, Some (Inr (PDict m, rest))}" for n'
    using fold_update_append [of "[]" m] m(3) by simp
  obtain k v ms where ms: "m = (k, v) # ms" using m(1) by (cases m) auto
  have "\<not> startswith ''- '' (snd (hd (concat (map (entry_lines fr ind) m) @ rest)))"
    using colon_line(1) [of k] m(2) ms by (auto simp: entry_lines_def)
  then show ?case using p by (cases n) (simp_all add: dlines_dict block_step_def)
next
  case (2 fr ind xs)
  then obtain x ys where xs: "xs = x # ys" by (cases xs) auto
  have "list_all (\<lambda>x. plain_scalar pf x) xs" using 2(1) by (auto simp: list_all_iff)
  from read_list [OF this 2(3), of _ fr "[]"]
  have p: "parse_list pf n' (map (\<lambda>x. (ind, ''- '' @ dump_scalar fr x)) xs @ rest) ind [] \<in> {None, Some (Inr (PList xs, rest))}" for n'
    by simp
  have "startswith ''- '' (CHR ''-'' # CHR '' '' # t)" for t by (simp add: startswith_def)
  then show ?case using p xs by (cases n) (simp_all add: block_step_def)
qed simp_all

text \<open>Parsing what was dumped, the lemma that the round trip and the selection file of a body rest on\<close>

lemma yaml_read_back:
  assumes "yaml_ok pf v" "is_block v"
  shows "parse_yaml pf (dump fr 0 v) = Some (Inr v)"
proof -
  let ?ls = "dlines fr 0 v"
  have c: "clean_lines (dump fr 0 v) = ?ls" by (rule clean_dump [OF assms])
  have ne: "?ls \<noteq> []" "fst (hd ?ls) = 0" using dlines_nonempty [OF assms(2)] dlines_first [OF assms(2)] by auto
  obtain r where "parse_yaml pf (dump fr 0 v) = Some r" using parse_yaml_total by blast
  moreover have "parse_block pf (yaml_fuel ?ls) ?ls 0 \<in> {None, Some (Inr (v, []))}"
    using read_block [OF assms, of 0 "[]" "yaml_fuel ?ls" fr] by (simp add: rest_ok_def)
  ultimately show ?thesis using ne by (auto simp: parse_yaml_def c Let_def)
qed

section \<open>Properties\<close>

text \<open>C31. The parser always returns, and with nothing but a value or a \<open>MiniYamlError\<close>: whatever the text, the block
  parsers end within a number of rounds that is linear in the number of characters, and no other error leaves them.\<close>

theorem yaml_parser_terminates:
  "(\<exists>v. parse_yaml pf s = Some (Inr v)) \<or> (\<exists>m. parse_yaml pf s = Some (Inl (MiniYamlError m)))"
  using parse_yaml_total [of pf s] parse_yaml_errors [of pf s] by (metis sumE)

text \<open>C30. What is dumped is read back: for a mapping or a list of printable values (nested mappings with plain
  keys, lists of scalars, strings that do not read as another scalar) parsing the dumped text returns the
  same value, keys in the same order.\<close>

theorem yaml_round_trip:
  assumes "yaml_ok pf v" "is_block v"
  shows "parse_yaml pf (dump fr 0 v) = Some (Inr v)"
  by (rule yaml_read_back [OF assms])

definition example_selection :: pyval where
  "example_selection = PDict [(''body_id'', PStr ''ig-mk1''), (''backend'', PStr ''simulation''),
     (''limits'', PDict [(''speed'', PInt 3), (''joints'', PList [PStr ''left: knee'', PNone])])]"

theorem yaml_round_trip_witness:
  "parse_yaml (\<lambda>_. None) (dump (\<lambda>_. []) 0 example_selection) = Some (Inr example_selection)"
proof -
  have "yaml_ok (\<lambda>_. None) example_selection" "is_block example_selection" by code_simp+
  then show ?thesis by (rule yaml_round_trip)
qed

lemma bare_entry:
  assumes "plain_key k" "good_scalar s" "\<not> needs_quotes s"
  shows "parse_yaml pf (dump fr 0 (PDict [(k, PStr s)])) = Some (Inr (PDict [(k, scalar pf s)]))"
proof -
  let ?c = "k @ CHR '':'' # CHR '' '' # s"
  have "dump fr 0 (PDict [(k, PStr s)]) = join [CHR 0x0A] (rendered [(0, ?c)]) @ [CHR 0x0A]"
    using assms(3) by (simp add: dump_scalar_str rendered_def pad_def)
  moreover have "clean_lines (join [CHR 0x0A] (rendered [(0, ?c)]) @ [CHR 0x0A]) = [(0, ?c)]"
    using good_key_line(2) [OF assms(1,2)] by (intro clean_render) simp_all
  moreover have "yaml_fuel [(0, ?c)] = Suc (Suc (Suc (2 * length ?c + 1)))" by (simp add: yaml_fuel_def)
  moreover have "strip (CHR '' '' # s) = s" "block_scalar_kind s = None" "s \<noteq> []"
    using good_scalar_rest [OF assms(2)] assms(2) by (auto simp: good_scalar_def)
  ultimately show ?thesis
    using colon_line [OF assms(1), of "CHR '' '' # s"]
    by (simp add: parse_yaml_def Let_def block_step_def map_step_def)
qed

text \<open>A mapping of bare strings, the form of a selection file, is read back with each string read as a scalar.\<close>

definition bare_lines :: "(string \<times> string) list \<Rightarrow> yline list" where
  "bare_lines m = map (\<lambda>(k, s). (0, k @ CHR '':'' # CHR '' '' # s)) m"

definition bare_ok :: "string \<times> string \<Rightarrow> bool" where
  "bare_ok ks = (plain_key (fst ks) \<and> good_scalar (snd ks) \<and> \<not> needs_quotes (snd ks))"

lemma read_bare:
  "list_all bare_ok m \<Longrightarrow>
     parse_map pf n (bare_lines m) 0 acc
       \<in> {None, Some (Inr (PDict (fold (\<lambda>(k, s). AList.update k (scalar pf s)) m acc), []))}"
proof (induction m arbitrary: n acc)
  case Nil
  then show ?case by (cases n) (simp_all add: bare_lines_def map_step_def)
next
  case (Cons ks m)
  obtain k s where ks: "ks = (k, s)" by (cases ks)
  have ok: "plain_key k" "good_scalar s" "list_all bare_ok m" using Cons.prems unfolding ks by (simp_all add: bare_ok_def [of "(k, s)"])
  have r: "strip (CHR '' '' # s) = s" "block_scalar_kind s = None" "s \<noteq> []"
    using good_scalar_rest [OF ok(2)] ok(2) by (auto simp: good_scalar_def)
  show ?case
  proof (cases n)
    case (Suc n')
    have "parse_map pf n (bare_lines (ks # m)) 0 acc = parse_map pf n' (bare_lines m) 0 (AList.update k (scalar pf s) acc)"
      using colon_line [OF ok(1), of "CHR '' '' # s"] r
      by (simp add: Suc ks bare_lines_def map_step_def Let_def)
    then show ?thesis using Cons.IH [OF ok(3), of n' "AList.update k (scalar pf s) acc"] by (simp add: ks)
  qed simp
qed

lemma bare_mapping:
  assumes "list_all bare_ok m" "m \<noteq> []"
  shows "parse_yaml pf (dump fr 0 (PDict (map (\<lambda>(k, s). (k, PStr s)) m)))
    = Some (Inr (PDict (fold (\<lambda>(k, s). AList.update k (scalar pf s)) m [])))"
proof -
  have "concat (map (\<lambda>(k, v). if is_block v then [pad 0 @ k @ '':'', rstrip_chars [CHR 0x0A] (dump fr (0 + 2) v)]
      else [pad 0 @ k @ '': '' @ dump_scalar fr v]) (map (\<lambda>(k, s). (k, PStr s)) m)) = rendered (bare_lines m)"
    using assms(1) by (induction m) (auto simp: rendered_def bare_lines_def dump_scalar_str pad_def bare_ok_def)
  then have d: "dump fr 0 (PDict (map (\<lambda>(k, s). (k, PStr s)) m)) = join [CHR 0x0A] (rendered (bare_lines m)) @ [CHR 0x0A]"
    using assms(2) by (simp only: dump.simps map_is_Nil_conv if_False)
  have "list_all (\<lambda>l. good_line (snd l)) (bare_lines m)"
    using assms(1) good_key_line(2)
    by (induction m) (auto simp: bare_lines_def bare_ok_def)
  then have c: "clean_lines (join [CHR 0x0A] (rendered (bare_lines m)) @ [CHR 0x0A]) = bare_lines m"
    using assms(2) by (intro clean_render) (simp_all add: bare_lines_def)
  have ne: "bare_lines m \<noteq> []" "fst (hd (bare_lines m)) = 0" "\<not> startswith ''- '' (snd (hd (bare_lines m)))"
    using assms colon_line(1) by (cases m; auto simp: bare_lines_def bare_ok_def)+
  have "parse_block pf n (bare_lines m) 0
      \<in> {None, Some (Inr (PDict (fold (\<lambda>(k, s). AList.update k (scalar pf s)) m []), []))}" for n
    using read_bare [OF assms(1)] ne(3) by (cases n) (simp_all add: block_step_def)
  from this [of "yaml_fuel (bare_lines m)"] parse_yaml_total [of pf "join [CHR 0x0A] (rendered (bare_lines m)) @ [CHR 0x0A]"]
  show ?thesis unfolding d using ne by (auto simp: parse_yaml_def c Let_def)
qed

text \<open>Strings that look like another scalar do not survive: the dumper prints them bare, so the identifier
  \<open>007\<close> comes back as the number 7, \<open>true\<close> as a truth value and \<open>null\<close> as nothing, and a selection
  of such a body is not read back as it was written.\<close>

theorem bare_strings_are_misread:
  "parse_yaml pf (dump fr 0 (PDict [(''body_id'', PStr ''007'')])) = Some (Inr (PDict [(''body_id'', PInt 7)]))
   \<and> parse_yaml pf (dump fr 0 (PDict [(''body_id'', PStr ''true'')])) = Some (Inr (PDict [(''body_id'', PBool True)]))
   \<and> parse_yaml pf (dump fr 0 (PDict [(''body_id'', PStr ''null'')])) = Some (Inr (PDict [(''body_id'', PNone)]))"
proof -
  have k: "plain_key ''body_id''" by code_simp
  have "list_all (\<lambda>d. d \<noteq> [] \<and> \<not> is_space (hd d) \<and> \<not> is_space (last d) \<and> no_quote_break d \<and> CHR '':'' \<notin> set d
      \<and> CHR ''#'' \<notin> set d \<and> block_scalar_kind d = None \<and> \<not> needs_quotes d \<and> strip d = d) [''007'', ''true'', ''null'']" by code_simp
  then have g: "good_scalar d \<and> \<not> needs_quotes d \<and> strip d = d" if "d \<in> {''007'', ''true'', ''null''}" for d
    using that good_bare by auto
  have "py_int ''007'' = Some 7" by code_simp
  then have "scalar pf ''007'' = PInt 7" using g [of "''007''"] by (subst scalar.simps) (simp add: Let_def is_quote_def)
  then show ?thesis using bare_entry [OF k, of _ pf fr] g scalar_words [of pf] by simp
qed

end
