(* ===== verification/Models.thy ===== *)
theory Models
  imports Errors
begin

text \<open>
  The shared value types of \<open>core/models.py\<close>: diagnostic levels (an \<open>IntEnum\<close>, hence linearly
  ordered) and statuses, the body-level velocity command and the motion-permission token.
  Construction time stamps are not modelled: no code reads them.
\<close>

datatype diagnostic_level = OK | WARN | ERROR | STALE

fun level_value :: "diagnostic_level \<Rightarrow> nat" where
  "level_value OK = 0"
| "level_value WARN = 1"
| "level_value ERROR = 2"
| "level_value STALE = 3"

fun level_label :: "diagnostic_level \<Rightarrow> string" where
  "level_label OK = ''OK''"
| "level_label WARN = ''WARN''"
| "level_label ERROR = ''ERROR''"
| "level_label STALE = ''STALE''"

lemma level_value_inj: "level_value a = level_value b \<Longrightarrow> a = b"
  by (cases a; cases b) simp_all

instantiation diagnostic_level :: linorder
begin

definition less_eq_diagnostic_level :: "diagnostic_level \<Rightarrow> diagnostic_level \<Rightarrow> bool" where
  "less_eq_diagnostic_level a b = (level_value a \<le> level_value b)"

definition less_diagnostic_level :: "diagnostic_level \<Rightarrow> diagnostic_level \<Rightarrow> bool" where
  "less_diagnostic_level a b = (level_value a < level_value b)"

instance
  by standard (auto simp: less_eq_diagnostic_level_def less_diagnostic_level_def level_value_inj)

end

record diagnostic_status =
  d_name :: string
  d_level :: diagnostic_level
  d_message :: string
  d_hardware_id :: string
  d_values :: pydict

definition diag_to_dict :: "diagnostic_status \<Rightarrow> pydict" where
  "diag_to_dict d =
     [(''name'', PStr (d_name d)), (''level'', PStr (level_label (d_level d))),
      (''message'', PStr (d_message d)), (''hardware_id'', PStr (d_hardware_id d)),
      (''values'', PDict (d_values d))]"

record body_velocity =
  linear_x :: pyfloat
  linear_y :: pyfloat
  angular_z :: pyfloat

definition zero_velocity :: body_velocity where
  "zero_velocity = \<lparr>linear_x = Fin 0, linear_y = Fin 0, angular_z = Fin 0\<rparr>"

definition is_zero :: "body_velocity \<Rightarrow> bool" where
  "is_zero v = (linear_x v = Fin 0 \<and> linear_y v = Fin 0 \<and> angular_z v = Fin 0)"

record motion_permission =
  granted :: bool
  perm_reason :: string
  perm_token :: string

definition permission_to_dict :: "motion_permission \<Rightarrow> pydict" where
  "permission_to_dict p =
     [(''granted'', PBool (granted p)), (''reason'', PStr (perm_reason p)), (''token'', PStr (perm_token p))]"

lemma is_zero_iff: "is_zero v \<longleftrightarrow> v = zero_velocity"
  by (cases v) (simp add: is_zero_def zero_velocity_def)

end
