(* ===== verification/Events.thy ===== *)
theory Events
  imports Models
begin

text \<open>
  The in-process event bus (\<open>core/events.py\<close>), the leveled logger and the append-only audit
  record (\<open>core/logging.py\<close>).

  A subscriber is named by an identifier; \<open>publish\<close> returns the identifiers it calls, in order.
  The audit file is its list of lines: a blank line, a line that is not JSON, or a value. A log
  or audit file that cannot be opened for appending swallows the line, as the \<open>except OSError\<close>
  does. The construction time stamps of events and records are not modelled; nothing reads them.
\<close>

section \<open>Lists sliced from the end\<close>

text \<open>\<open>xs[-n:]\<close>: for \<open>n = 0\<close> it is the whole list, for a negative \<open>n\<close> it drops a prefix.\<close>

definition last_items :: "int \<Rightarrow> 'a list \<Rightarrow> 'a list" where
  "last_items n xs = (if n > 0 then drop (length xs - nat n) xs else drop (nat (- n)) xs)"

section \<open>The event bus\<close>

record event =
  ev_topic :: string
  ev_payload :: pyval
  ev_source :: string

record event_bus =
  subs :: "(string \<times> nat list) list"
  bus_log :: "event list"
  log_limit :: nat

definition init_bus :: event_bus where
  "init_bus = \<lparr>subs = [], bus_log = [], log_limit = 2000\<rparr>"

definition subscribe :: "string \<Rightarrow> nat \<Rightarrow> event_bus \<Rightarrow> event_bus" where
  "subscribe topic cb bus = bus\<lparr>subs := AList.update topic (dict_get (subs bus) topic [] @ [cb]) (subs bus)\<rparr>"

definition publish :: "string \<Rightarrow> pyval \<Rightarrow> string \<Rightarrow> event_bus \<Rightarrow> (event \<times> nat list) \<times> event_bus" where
  "publish topic payload source bus =
     (let ev = \<lparr>ev_topic = topic, ev_payload = payload, ev_source = source\<rparr>;
          log1 = bus_log bus @ [ev];
          log2 = (if length log1 > log_limit bus then last_items (int (log_limit bus)) log1 else log1)
      in ((ev, dict_get (subs bus) topic [] @ dict_get (subs bus) ''*'' []), bus\<lparr>bus_log := log2\<rparr>))"

definition bus_recent :: "string option \<Rightarrow> int \<Rightarrow> event_bus \<Rightarrow> event list" where
  "bus_recent topic limit bus =
     last_items limit (case topic of None \<Rightarrow> bus_log bus
                       | Some t \<Rightarrow> filter (\<lambda>e. ev_topic e = t) (bus_log bus))"

definition publish_all :: "(string \<times> pyval \<times> string) list \<Rightarrow> event_bus \<Rightarrow> event_bus" where
  "publish_all evs bus = fold (\<lambda>(t, p, s) b. snd (publish t p s b)) evs bus"

section \<open>The logger\<close>

datatype log_level = LDebug | LInfo | LWarn | LError

fun level_number :: "log_level \<Rightarrow> nat" where
  "level_number LDebug = 10"
| "level_number LInfo = 20"
| "level_number LWarn = 30"
| "level_number LError = 40"

text \<open>\<open>f"{level.upper():5}"\<close>\<close>

fun level_field :: "log_level \<Rightarrow> string" where
  "level_field LDebug = ''DEBUG''"
| "level_field LInfo = ''INFO ''"
| "level_field LWarn = ''WARN ''"
| "level_field LError = ''ERROR''"

record logger =
  lg_name :: string
  lg_level :: nat
  lg_quiet :: bool
  lg_has_file :: bool
  lg_file_writable :: bool
  lg_stderr :: "string list"
  lg_file :: "string list"

definition parse_level :: "string \<Rightarrow> nat" where
  "parse_level s = dict_get [(''debug'', 10), (''info'', 20), (''warn'', 30), (''error'', 40)] s 20"

definition set_quiet :: "bool \<Rightarrow> logger \<Rightarrow> logger" where
  "set_quiet q l = l\<lparr>lg_quiet := q\<rparr>"

definition emit_line :: "string \<Rightarrow> log_level \<Rightarrow> string \<Rightarrow> logger \<Rightarrow> logger" where
  "emit_line stamp level msg l =
     (if level_number level < lg_level l then l
      else
        let line = stamp @ '' ['' @ level_field level @ ''] '' @ lg_name l @ '': '' @ msg;
            l1 = (if \<not> lg_quiet l then l\<lparr>lg_stderr := lg_stderr l @ [line]\<rparr> else l)
        in if lg_has_file l1 \<and> lg_file_writable l1 then l1\<lparr>lg_file := lg_file l1 @ [line]\<rparr> else l1)"

definition log_debug :: "string \<Rightarrow> string \<Rightarrow> logger \<Rightarrow> logger" where
  "log_debug stamp = emit_line stamp LDebug"

definition log_info :: "string \<Rightarrow> string \<Rightarrow> logger \<Rightarrow> logger" where
  "log_info stamp = emit_line stamp LInfo"

definition log_warn :: "string \<Rightarrow> string \<Rightarrow> logger \<Rightarrow> logger" where
  "log_warn stamp = emit_line stamp LWarn"

section \<open>The audit log\<close>

record audit_record =
  au_kind :: string
  au_user :: "string option"
  au_request_text :: "string option"
  au_intent :: "string option"
  au_arguments :: "pydict option"
  au_approval :: "string option"
  au_reason :: "string option"
  au_task_id :: "string option"
  au_outcome :: "string option"
  au_safety_state :: "string option"
  au_detail :: "pydict option"

definition blank_record :: "string \<Rightarrow> audit_record" where
  "blank_record kind = \<lparr>au_kind = kind, au_user = None, au_request_text = None, au_intent = None,
     au_arguments = None, au_approval = None, au_reason = None, au_task_id = None,
     au_outcome = None, au_safety_state = None, au_detail = None\<rparr>"

definition opt_field :: "string \<Rightarrow> ('a \<Rightarrow> pyval) \<Rightarrow> 'a option \<Rightarrow> pydict" where
  "opt_field k f v = (case v of None \<Rightarrow> [] | Some x \<Rightarrow> [(k, f x)])"

definition audit_to_dict :: "audit_record \<Rightarrow> pydict" where
  "audit_to_dict r =
     [(''kind'', PStr (au_kind r))]
     @ opt_field ''user'' PStr (au_user r) @ opt_field ''request_text'' PStr (au_request_text r)
     @ opt_field ''intent'' PStr (au_intent r) @ opt_field ''arguments'' PDict (au_arguments r)
     @ opt_field ''approval'' PStr (au_approval r) @ opt_field ''reason'' PStr (au_reason r)
     @ opt_field ''task_id'' PStr (au_task_id r) @ opt_field ''outcome'' PStr (au_outcome r)
     @ opt_field ''safety_state'' PStr (au_safety_state r) @ opt_field ''detail'' PDict (au_detail r)"

datatype audit_line = BlankLine | BadLine | JsonLine pyval

record audit_log =
  au_has_path :: bool
  au_writable :: bool
  au_file :: "audit_line list"
  records :: "audit_record list"

definition audit_append :: "audit_record \<Rightarrow> audit_log \<Rightarrow> audit_log" where
  "audit_append r a =
     (let a1 = a\<lparr>records := records a @ [r]\<rparr> in
      if au_has_path a1 \<and> au_writable a1
      then a1\<lparr>au_file := au_file a1 @ [JsonLine (PDict (audit_to_dict r))]\<rparr> else a1)"

definition audit_recent :: "int \<Rightarrow> string option \<Rightarrow> audit_log \<Rightarrow> audit_record list" where
  "audit_recent limit kind a =
     last_items limit (filter (\<lambda>r. kind = None \<or> kind = Some (au_kind r)) (records a))"

text \<open>Reading stops at the first bad line and returns what was read so far, unsliced.\<close>

fun read_lines :: "audit_line list \<Rightarrow> pyval list \<times> bool" where
  "read_lines [] = ([], True)"
| "read_lines (BlankLine # ls) = read_lines ls"
| "read_lines (BadLine # ls) = ([], False)"
| "read_lines (JsonLine v # ls) = (let (vs, ok) = read_lines ls in (v # vs, ok))"

definition load_history :: "int \<Rightarrow> audit_log \<Rightarrow> pyval list" where
  "load_history limit a =
     (if \<not> au_has_path a then []
      else case read_lines (au_file a) of (vs, ok) \<Rightarrow> if ok then last_items limit vs else vs)"

section \<open>Facts\<close>

lemma length_last_items: "n > 0 \<Longrightarrow> length (last_items n xs) \<le> nat n"
  by (simp add: last_items_def)

lemma publish_log_limit [simp, keeps]: "log_limit (snd (publish t p s b)) = log_limit b"
  "subs (snd (publish t p s b)) = subs b"
  by (simp_all add: publish_def Let_def)

lemma publish_log:
  "bus_log (snd (publish t p s b)) =
     (if length (bus_log b) < log_limit b then bus_log b @ [\<lparr>ev_topic = t, ev_payload = p, ev_source = s\<rparr>]
      else last_items (int (log_limit b)) (bus_log b @ [\<lparr>ev_topic = t, ev_payload = p, ev_source = s\<rparr>]))"
  by (simp add: publish_def Let_def)

definition log_bounded :: "event_bus \<Rightarrow> bool" where
  "log_bounded b = (0 < log_limit b \<and> length (bus_log b) \<le> log_limit b)"

lemma publish_bounded: "log_bounded b \<Longrightarrow> log_bounded (snd (publish t p s b))"
  using length_last_items [of "int (log_limit b)"]
  by (auto simp: log_bounded_def publish_log)

definition bus_step :: "event_bus \<Rightarrow> event_bus \<Rightarrow> bool" where
  "bus_step b b' = ((\<exists>t p s. b' = snd (publish t p s b)) \<or> (\<exists>t cb. b' = subscribe t cb b))"

lemma subscribe_bounded: "log_bounded b \<Longrightarrow> log_bounded (subscribe t cb b)"
  by (simp add: log_bounded_def subscribe_def)

interpretation bus: invariant_system bus_step log_bounded
  by unfold_locales (auto simp: bus_step_def intro: publish_bounded subscribe_bounded)

lemma publish_all_steps: "bus_step\<^sup>*\<^sup>* b (publish_all evs b)"
proof (induction evs arbitrary: b)
  case Nil
  then show ?case by (simp add: publish_all_def)
next
  case (Cons e evs)
  obtain t p s where e: "e = (t, p, s)" by (cases e)
  have "bus_step b (snd (publish t p s b))" by (auto simp: bus_step_def)
  with Cons [of "snd (publish t p s b)"] show ?case
    by (simp add: publish_all_def e converse_rtranclp_into_rtranclp)
qed

text \<open>The log after publishing is the last \<open>log_limit\<close> of everything published.\<close>

lemma publish_all_log:
  assumes "0 < log_limit b" "bus_log b = last_items (int (log_limit b)) all"
  shows "bus_log (publish_all evs b) = last_items (int (log_limit b))
           (all @ map (\<lambda>(t, p, s). \<lparr>ev_topic = t, ev_payload = p, ev_source = s\<rparr>) evs)"
  using assms
proof (induction evs arbitrary: b all)
  case Nil
  then show ?case by (simp add: publish_all_def)
next
  case (Cons e evs)
  obtain t p s where e: "e = (t, p, s)" by (cases e)
  let ?ev = "\<lparr>ev_topic = t, ev_payload = p, ev_source = s\<rparr>" and ?b = "snd (publish t p s b)"
  have "bus_log ?b = last_items (int (log_limit b)) (all @ [?ev])"
    using Cons.prems by (auto simp: publish_log last_items_def Suc_diff_le)
  then have "bus_log (publish_all evs ?b) = last_items (int (log_limit b))
      ((all @ [?ev]) @ map (\<lambda>(t, p, s). \<lparr>ev_topic = t, ev_payload = p, ev_source = s\<rparr>) evs)"
    using Cons.IH [of ?b "all @ [?ev]"] Cons.prems by simp
  then show ?case by (simp add: publish_all_def e)
qed

lemma read_lines_append_json:
  "snd (read_lines ls) \<Longrightarrow> read_lines (ls @ [JsonLine v]) = (fst (read_lines ls) @ [v], True)"
  by (induction ls rule: read_lines.induct) (auto simp: case_prod_beta Let_def)

section \<open>Properties\<close>

text \<open>The event log is a bounded window: after any sequence of publications from a fresh bus
  it holds exactly the last 2000 published events, in order.\<close>

theorem bus_log_window:
  "bus_log (publish_all evs init_bus) =
     last_items 2000 (map (\<lambda>(t, p, s). \<lparr>ev_topic = t, ev_payload = p, ev_source = s\<rparr>) evs)
   \<and> length (bus_log (publish_all evs init_bus)) \<le> 2000"
proof -
  have "bus_log (publish_all evs init_bus) =
     last_items 2000 (map (\<lambda>(t, p, s). \<lparr>ev_topic = t, ev_payload = p, ev_source = s\<rparr>) evs)"
    using publish_all_log [of init_bus "[]" evs] by (simp add: init_bus_def last_items_def)
  then show ?thesis
    using length_last_items [of 2000 "map (\<lambda>(t, p, s). \<lparr>ev_topic = t, ev_payload = p, ev_source = s\<rparr>) evs"]
    by simp
qed

text \<open>The audit record is append only and survives a restart: recording keeps every earlier
  record, and with a writable file whose lines are readable the record is the last entry of the
  history read back from the file.\<close>

theorem audit_append_history:
  assumes "au_has_path a" "au_writable a" "snd (read_lines (au_file a))" "0 < limit"
  shows "records (audit_append r a) = records a @ [r]
    \<and> load_history limit (audit_append r a) \<noteq> []
    \<and> last (load_history limit (audit_append r a)) = PDict (audit_to_dict r)"
  using assms read_lines_append_json [OF assms(3)]
  by (simp add: audit_append_def load_history_def Let_def last_items_def)

theorem audit_append_history_witness:
  "last (load_history 500 (audit_append (blank_record ''safety'')
      \<lparr>au_has_path = True, au_writable = True, au_file = [BlankLine], records = []\<rparr>))
   = PDict [(''kind'', PStr ''safety'')]"
  using audit_append_history
    [of "\<lparr>au_has_path = True, au_writable = True, au_file = [BlankLine], records = []\<rparr>" 500
        "blank_record ''safety''"]
  by (simp add: audit_to_dict_def blank_record_def opt_field_def)

end
