(* ===== verification/JsonText.thy ===== *)
theory JsonText
  imports Tabular YamlRoundTrip Events
begin

text \<open>
  Facts about the JSON texts of \<open>Tabular\<close>: reading a value off a text is unambiguous, and the compact form is one
  line of printable characters, whatever strings the value holds.

  A float is printed by the parameter \<open>fr\<close>. What is assumed of it are facts of \<open>float.__repr__\<close> on the finite floats
  \<open>F\<close> of the values: distinct floats have distinct texts, of the characters of numbers, that are no integer's text.
\<close>

section \<open>Strings\<close>

text \<open>The character that an escaped text starts with, and what follows\<close>

definition hex_value :: "char \<Rightarrow> nat" where
  "hex_value c = (let n = of_char c in if n \<ge> 97 then n - 87 else n - 48)"

fun unescape :: "string \<Rightarrow> (char \<times> string) option" where
  "unescape [] = None"
| "unescape (c # cs) =
     (if c \<noteq> CHR 0x5C then Some (c, cs)
      else case cs of
        e # rest \<Rightarrow>
          if e = CHR ''n'' then Some (CHR 0x0A, rest) else if e = CHR ''r'' then Some (CHR 0x0D, rest)
          else if e = CHR ''t'' then Some (CHR 0x09, rest) else if e = CHR ''b'' then Some (CHR 0x08, rest)
          else if e = CHR ''f'' then Some (CHR 0x0C, rest)
          else if e = CHR ''u'' then
            (case rest of
               _ # _ # h # k # rest' \<Rightarrow> Some (char_of (16 * hex_value h + hex_value k), rest')
             | _ \<Rightarrow> None)
          else Some (e, rest)
      | [] \<Rightarrow> None)"

lemma hex_value_digit: "k < 16 \<Longrightarrow> hex_value (hex_digit k) = k"
proof -
  have "list_all (\<lambda>k. hex_value (hex_digit k) = k) [0..<16]" by code_simp
  then show "k < 16 \<Longrightarrow> hex_value (hex_digit k) = k" by (simp add: list_all_iff)
qed

lemma hex_digit_printable: "of_char (hex_digit k) \<in> {48..102 :: nat}"
proof -
  have "list_all (\<lambda>k. of_char (hex_digit k) \<in> {48..102 :: nat}) [0..<16]" by code_simp
  then have "of_char (hex_digit (k mod 16)) \<in> {48..102 :: nat}" by (simp add: list_all_iff)
  then show ?thesis by (simp add: hex_digit_def)
qed

lemma char_codes:
  "(of_char c = (8 :: nat)) = (c = CHR 0x08)" "(of_char c = (9 :: nat)) = (c = CHR 0x09)"
  "(of_char c = (10 :: nat)) = (c = CHR 0x0A)" "(of_char c = (12 :: nat)) = (c = CHR 0x0C)"
  "(of_char c = (13 :: nat)) = (c = CHR 0x0D)"
  using of_char_eq_iff [of c "CHR 0x08", where ?'a = nat] of_char_eq_iff [of c "CHR 0x09", where ?'a = nat]
    of_char_eq_iff [of c "CHR 0x0A", where ?'a = nat] of_char_eq_iff [of c "CHR 0x0C", where ?'a = nat]
    of_char_eq_iff [of c "CHR 0x0D", where ?'a = nat] by simp_all

lemma unescape_json_char: "unescape (json_char c @ r) = Some (c, r)"
proof -
  have "of_char c div 16 < (16 :: nat)" using nat_of_char_less_256 [of c] by (simp add: less_mult_imp_div_less)
  then show ?thesis by (simp add: json_char_def Let_def hex_value_digit char_codes)
qed

lemma json_char_inj:
  assumes "json_char c @ r = json_char d @ s"
  shows "c = d \<and> r = s"
proof -
  have "Some (c, r) = Some (d, s)" unfolding unescape_json_char [symmetric] assms by (rule refl)
  then show ?thesis by simp
qed

lemma json_char_printable: "d \<in> set (json_char c) \<Longrightarrow> of_char d \<in> {32..126 :: nat}"
  using hex_digit_printable [of "of_char c div 16"] hex_digit_printable [of "of_char c mod 16"]
  by (simp add: json_char_def Let_def split: if_splits) auto

lemma json_char_start: "hd (json_char c) \<noteq> CHR 0x22"
  by (simp add: json_char_def Let_def)

lemma json_char_nonempty [simp]: "json_char c \<noteq> []"
  by (simp add: json_char_def Let_def)

lemma json_char_no_quote: "json_char c @ x \<noteq> CHR 0x22 # y"
proof
  assume eq: "json_char c @ x = CHR 0x22 # y"
  have "hd (json_char c) = hd (json_char c @ x)" by simp
  also have "\<dots> = CHR 0x22" unfolding eq by simp
  finally show False using json_char_start by blast
qed

lemma escaped_inj:
  "concat (map json_char a) @ CHR 0x22 # r = concat (map json_char b) @ CHR 0x22 # s \<Longrightarrow> a = b \<and> r = s"
proof (induction a arbitrary: b)
  case Nil
  then show ?case using json_char_no_quote by (cases b) (auto dest: sym)
next
  case (Cons c cs)
  show ?case
  proof (cases b)
    case Nil
    then show ?thesis using Cons.prems json_char_no_quote by auto
  next
    case b: (Cons d ds)
    have "json_char c @ (concat (map json_char cs) @ CHR 0x22 # r) = json_char d @ (concat (map json_char ds) @ CHR 0x22 # s)"
      using Cons.prems by (simp only: b list.simps concat.simps append_assoc)
    from json_char_inj [OF this] Cons.IH [of ds] show ?thesis by (simp add: b)
  qed
qed

lemma json_string_inj: "a = b \<and> r = s" if "json_string a @ r = json_string b @ s"
proof (rule escaped_inj)
  show "concat (map json_char a) @ CHR 0x22 # r = concat (map json_char b) @ CHR 0x22 # s"
    using that by (simp only: json_string_def append_assoc append_Cons append_Nil list.inject)
qed

section \<open>Values\<close>

definition number_char :: "char \<Rightarrow> bool" where
  "number_char c = (c \<in> set ''0123456789+-.e'')"

definition float_texts :: "(real \<Rightarrow> string) \<Rightarrow> real set \<Rightarrow> bool" where
  "float_texts fr F = (inj_on fr F \<and> (\<forall>x \<in> F. fr x \<noteq> [] \<and> list_all number_char (fr x) \<and> (\<forall>i. fr x \<noteq> show_int i)))"

fun floats_in :: "real set \<Rightarrow> pyval \<Rightarrow> bool" where
  "floats_in F (PFloat x) = (x \<in> F)"
| "floats_in F (PList xs) = list_all (floats_in F) xs"
| "floats_in F (PDict m) = list_all (\<lambda>(_, v). floats_in F v) m"
| "floats_in F _ = True"

lemma digit_number_char: "number_char (digit k)"
proof -
  have "list_all (\<lambda>k. number_char (digit k)) [0..<10]" by code_simp
  then have "number_char (digit (k mod 10))" by (simp add: list_all_iff)
  then show ?thesis by (simp add: digit_def)
qed

text \<open>What may follow a value\<close>

definition ended :: "string \<Rightarrow> bool" where
  "ended r = (case r of [] \<Rightarrow> True | c # _ \<Rightarrow> c = CHR '','' \<or> c = CHR 0x0A)"

lemma number_token:
  assumes "list_all number_char a" "list_all number_char b" "ended r" "ended s" "a @ r = b @ s"
  shows "a = b \<and> r = s"
proof -
  have t: "takeWhile number_char (x @ y) = x \<and> dropWhile number_char (x @ y) = y" if "list_all number_char x" "ended y" for x y
    using that by (cases y) (auto simp: list_all_iff ended_def number_char_def takeWhile_append2 dropWhile_append2)
  show ?thesis using t [OF assms(1,3)] t [OF assms(2,4)] assms(5) by metis
qed

lemma join_inj:
  assumes "\<And>x y r s. x \<in> set xs \<Longrightarrow> y \<in> set ys \<Longrightarrow> f x @ r = f y @ s \<Longrightarrow> ended r \<Longrightarrow> ended s \<Longrightarrow> x = y \<and> r = s"
    "join (CHR '','' # t) (map f xs) @ CHR 0x0A # r = join (CHR '','' # t) (map f ys) @ CHR 0x0A # s" "xs \<noteq> []" "ys \<noteq> []"
  shows "xs = ys \<and> r = s"
  using assms
proof (induction xs arbitrary: ys)
  case (Cons x xs)
  obtain y zs where y: "ys = y # zs" using Cons.prems(4) by (cases ys) auto
  define rest where "rest ws q = (if ws = [] then CHR 0x0A # q else CHR '','' # t @ join (CHR '','' # t) (map f ws) @ CHR 0x0A # q)" for ws q
  have j: "join (CHR '','' # t) (map f (w # ws)) @ CHR 0x0A # q = f w @ rest ws q" for w ws q
    by (cases ws) (simp_all add: rest_def)
  have e: "ended (rest ws q)" for ws q by (simp add: rest_def ended_def)
  have xy: "x = y" "rest xs r = rest zs s"
    using Cons.prems(1) [of x y "rest xs r" "rest zs s"] Cons.prems(2) e unfolding y j by simp_all
  show ?case
  proof (cases "xs = [] \<or> zs = []")
    case True
    then show ?thesis using xy by (auto simp: y rest_def split: if_splits)
  next
    case False
    then have "xs = zs \<and> r = s"
      using Cons.IH [of zs] Cons.prems(1) xy(2) by (auto simp: y rest_def)
    then show ?thesis using xy y by simp
  qed
qed simp

text \<open>The first character tells the kind of a value.\<close>

datatype kind = Null | Bool | Number | Text | List | Dict

fun kind_of_value :: "pyval \<Rightarrow> kind" where
  "kind_of_value PNone = Null"
| "kind_of_value (PBool _) = Bool"
| "kind_of_value (PInt _) = Number"
| "kind_of_value (PFloat _) = Number"
| "kind_of_value (PStr _) = Text"
| "kind_of_value (PList _) = List"
| "kind_of_value (PDict _) = Dict"

definition kind_of_char :: "char \<Rightarrow> kind" where
  "kind_of_char c = (if c = CHR ''n'' then Null else if c = CHR ''t'' \<or> c = CHR ''f'' then Bool else if c = CHR 0x22 then Text
     else if c = CHR ''['' then List else if c = CHR ''{'' then Dict else Number)"

lemma show_int_number: "list_all number_char (show_int i)"
  using show_nat_digits digit_number_char by (fastforce simp: show_int_def list_all_iff number_char_def [of "CHR ''-''"])

lemma show_int_inj: "show_int i = show_int j \<Longrightarrow> i = j"
  using py_int_show by (metis option.inject)

lemma number_kind: "a \<noteq> [] \<Longrightarrow> list_all number_char a \<Longrightarrow> kind_of_char (hd a) = Number"
  by (cases a) (auto simp: number_char_def kind_of_char_def)

lemma json_kind:
  assumes "floats_in F v" "float_texts fr F"
  shows "json_indent fr l v \<noteq> [] \<and> kind_of_char (hd (json_indent fr l v)) = kind_of_value v"
proof (cases v)
  case (PInt i)
  then show ?thesis using number_kind show_int_number show_int_nonempty by simp
next
  case (PFloat x)
  then show ?thesis using assms number_kind by (auto simp: float_texts_def)
qed (auto simp: kind_of_char_def json_string_def)

lemma json_same_kind:
  assumes "json_indent fr l v @ r = json_indent fr l w @ s" "floats_in F v" "floats_in F w" "float_texts fr F"
  shows "kind_of_value v = kind_of_value w"
  using json_kind [OF assms(2,4), of l] json_kind [OF assms(3,4), of l] assms(1) by (metis hd_append2)

fun number_of :: "pyval \<Rightarrow> (real \<Rightarrow> string) \<Rightarrow> string" where
  "number_of (PInt i) fr = show_int i"
| "number_of (PFloat x) fr = fr x"
| "number_of _ fr = []"

lemma number_of_inj:
  assumes "number_of v fr = number_of w fr" "kind_of_value v = Number" "kind_of_value w = Number"
    "floats_in F v" "floats_in F w" "float_texts fr F"
  shows "v = w"
  using assms show_int_inj by (cases v; cases w) (auto simp: float_texts_def dest: inj_onD [of fr F]; metis)+

lemma json_number:
  assumes "kind_of_value v = Number" "floats_in F v" "float_texts fr F"
  shows "json_indent fr l v = number_of v fr" "list_all number_char (number_of v fr)"
  using assms show_int_number by (cases v; auto simp: float_texts_def)+

lemma json_indent_inj:
  assumes "float_texts fr F"
  shows "json_indent fr l v @ r = json_indent fr l w @ s \<Longrightarrow> floats_in F v \<Longrightarrow> floats_in F w \<Longrightarrow> ended r \<Longrightarrow> ended s
    \<Longrightarrow> v = w \<and> r = s"
proof (induction v arbitrary: l w r s)
  case PNone
  then show ?case using json_same_kind [OF PNone(1-3) assms] by (cases w) auto
next
  case (PBool b)
  then show ?case using json_same_kind [OF PBool(1-3) assms] by (cases w) (auto split: if_splits)
next
  case (PInt i)
  have k: "kind_of_value w = Number" using json_same_kind [OF PInt(1-3) assms] by simp
  have "json_indent fr l (PInt i) = number_of w fr \<and> r = s"
    using number_token [OF show_int_number json_number(2) [OF k PInt(3) assms] PInt(4,5)] PInt(1) json_number(1) [OF k PInt(3) assms]
    by simp
  then show ?case using number_of_inj [OF _ _ k PInt(2,3) assms] by simp
next
  case (PFloat x)
  have k: "kind_of_value w = Number" using json_same_kind [OF PFloat(1-3) assms] by simp
  have "fr x = number_of w fr \<and> r = s"
    using number_token [OF json_number(2) [OF _ PFloat(2) assms] json_number(2) [OF k PFloat(3) assms] PFloat(4,5)] PFloat(1)
      json_number(1) [OF k PFloat(3) assms]
    by simp
  then show ?case using number_of_inj [OF _ _ k PFloat(2,3) assms] by simp
next
  case (PStr a)
  then obtain b where w: "w = PStr b" using json_same_kind [OF PStr(1-3) assms] by (cases w) auto
  have "json_string a @ r = json_string b @ s" using PStr(1) by (simp only: w json_indent.simps)
  from json_string_inj [OF this] show ?case by (simp add: w)
next
  case (PList xs)
  then obtain ys where w: "w = PList ys" using json_same_kind [OF PList(2-4) assms] by (cases w) auto
  show ?case
  proof (cases "xs = [] \<or> ys = []")
    case True
    then show ?thesis using PList(2) by (auto simp: w newline_def split: if_splits)
  next
    case False
    have "xs = ys \<and> replicate (2 * l) CHR '' '' @ '']'' @ r = replicate (2 * l) CHR '' '' @ '']'' @ s"
    proof (rule join_inj)
      show "join (CHR '','' # newline (Suc l)) (map (json_indent fr (Suc l)) xs) @ CHR 0x0A # replicate (2 * l) CHR '' '' @ '']'' @ r
        = join (CHR '','' # newline (Suc l)) (map (json_indent fr (Suc l)) ys) @ CHR 0x0A # replicate (2 * l) CHR '' '' @ '']'' @ s"
        using PList(2) False by (simp add: w newline_def)
      show "x = y \<and> r' = s'" if "x \<in> set xs" "y \<in> set ys" "json_indent fr (Suc l) x @ r' = json_indent fr (Suc l) y @ s'"
        "ended r'" "ended s'" for x y r' s'
        using PList(1) [OF that(1,3)] PList(3,4) that by (auto simp: w list_all_iff)
    qed (use False in auto)
    then show ?thesis by (simp add: w)
  qed
next
  case (PDict m)
  then obtain n where w: "w = PDict n" using json_same_kind [OF PDict(2-4) assms] by (cases w) auto
  let ?f = "\<lambda>(k, v). json_string k @ '': '' @ json_indent fr (Suc l) v"
  show ?case
  proof (cases "m = [] \<or> n = []")
    case True
    then show ?thesis using PDict(2) by (auto simp: w newline_def split: if_splits)
  next
    case False
    have "m = n \<and> replicate (2 * l) CHR '' '' @ ''}'' @ r = replicate (2 * l) CHR '' '' @ ''}'' @ s"
    proof (rule join_inj)
      show "join (CHR '','' # newline (Suc l)) (map ?f m) @ CHR 0x0A # replicate (2 * l) CHR '' '' @ ''}'' @ r
        = join (CHR '','' # newline (Suc l)) (map ?f n) @ CHR 0x0A # replicate (2 * l) CHR '' '' @ ''}'' @ s"
        using PDict(2) False by (simp add: w newline_def)
      fix x y r' s'
      assume a: "x \<in> set m" "y \<in> set n" "?f x @ r' = ?f y @ s'" "ended r'" "ended s'"
      obtain k v k' v' where xy: "x = (k, v)" "y = (k', v')" by (cases x; cases y)
      have "json_string k @ ('': '' @ json_indent fr (Suc l) v @ r') = json_string k' @ ('': '' @ json_indent fr (Suc l) v' @ s')"
        using a(3) by (simp add: xy)
      from json_string_inj [OF this] have k: "k = k'" "json_indent fr (Suc l) v @ r' = json_indent fr (Suc l) v' @ s'" by simp_all
      have "floats_in F v" "floats_in F v'" using PDict(3,4) a(1,2) by (auto simp: w xy list_all_iff)
      then show "x = y \<and> r' = s'" using PDict(1) [of x v "Suc l" r' v' s'] a k by (auto simp: xy)
    qed (use False in auto)
    then show ?thesis by (simp add: w)
  qed
qed

section \<open>One line\<close>

definition printable :: "char \<Rightarrow> bool" where
  "printable c = (of_char c \<in> {32..126 :: nat})"

lemma printable_brackets [simp]:
  "printable CHR ''[''" "printable CHR '']''" "printable CHR ''{''" "printable CHR ''}''" "printable CHR '',''"
  "printable CHR '' ''" "printable CHR '':''"
  by (simp_all add: printable_def)

lemma printable_letters: "list_all printable ''null''" "list_all printable ''true''" "list_all printable ''false''"
  by (simp_all add: printable_def)

lemma printable_string: "list_all printable (json_string s)"
  using json_char_printable by (auto simp: json_string_def list_all_iff printable_def)

lemma printable_join: "list_all printable sep \<Longrightarrow> list_all (list_all printable) xs \<Longrightarrow> list_all printable (join sep xs)"
  by (induction sep xs rule: join.induct) auto

lemma number_printable: "number_char c \<Longrightarrow> printable c"
  by (auto simp: number_char_def printable_def)

lemma json_dumps_printable:
  assumes "\<And>x. list_all printable (fr x)"
  shows "list_all printable (json_dumps fr v)"
proof (induction v)
  case (PInt i)
  then show ?case using show_int_number number_printable by (auto simp: list_all_iff)
next
  case (PList xs)
  have "list_all printable (join '', '' (map (json_dumps fr) xs))"
    using PList by (intro printable_join) (auto simp: list_all_iff)
  then show ?case by simp
next
  case (PDict m)
  have "list_all printable (join '', '' (map (\<lambda>(k, v). json_string k @ '': '' @ json_dumps fr v) m))"
    using PDict printable_string by (intro printable_join) (fastforce simp: list_all_iff)+
  then show ?case by simp
qed (use printable_string assms in \<open>simp_all add: printable_letters del: list.pred_inject\<close>)

text \<open>The text of an audit file after the records of one process: one call of \<open>write\<close> per record\<close>

definition audit_line_text :: "(real \<Rightarrow> string) \<Rightarrow> real \<times> audit_record \<Rightarrow> string" where
  "audit_line_text fr sr =
     json_dumps fr (PDict (take 1 (audit_to_dict (snd sr)) @ [(''stamp'', PFloat (fst sr))] @ drop 1 (audit_to_dict (snd sr))))"

definition audit_text :: "(real \<Rightarrow> string) \<Rightarrow> (real \<times> audit_record) list \<Rightarrow> string" where
  "audit_text fr srs = concat (map (\<lambda>sr. audit_line_text fr sr @ [CHR 0x0A]) srs)"

section \<open>Properties\<close>

text \<open>The indented JSON that the tools print determines the value: two values with the same text are equal, with
  every string, key, number and the order of the keys, however deeply they are nested.\<close>

theorem as_json_determines_value:
  assumes "float_texts fr F" "floats_in F v" "floats_in F w" "as_json fr v = as_json fr w"
  shows "v = w"
proof -
  have "json_indent fr 0 v @ [] = json_indent fr 0 w @ []" using assms(4) by (simp add: as_json_def)
  from json_indent_inj [OF assms(1) this assms(2,3)] show ?thesis by (simp add: ended_def)
qed

theorem as_json_determines_value_witness:
  "as_json (\<lambda>_. ''1.0'') (PDict [(''a'', PList [PInt 1])]) \<noteq> as_json (\<lambda>_. ''1.0'') (PDict [(''a'', PList [PFloat 1])])"
proof
  assume eq: "as_json (\<lambda>_. ''1.0'') (PDict [(''a'', PList [PInt 1])]) = as_json (\<lambda>_. ''1.0'') (PDict [(''a'', PList [PFloat 1])])"
  have "float_texts (\<lambda>_. ''1.0'') {1}"
    using show_int_chars [of "CHR ''.''"] by (auto simp: float_texts_def number_char_def) (metis list.set_intros(1,2))
  from as_json_determines_value [OF this _ _ eq] show False by simp
qed

text \<open>Nobody can forge an audit line: whatever a record holds, line breaks and quotes in a request included, its
  text is one line of printable characters, so the lines of the file are exactly the records in their order.\<close>

theorem audit_lines_are_records:
  assumes "\<forall>x. list_all printable (fr x)"
  shows "splitlines (audit_text fr srs) = map (audit_line_text fr) srs"
proof -
  have b: "list_all (\<lambda>c. \<not> is_break c) (audit_line_text fr sr)" for sr
    using json_dumps_printable [of fr] assms
    by (fastforce simp: audit_line_text_def list_all_iff printable_def is_break_def Let_def simp del: json_dumps.simps)
  have "splitlines_aux [] (audit_text fr srs) = map (audit_line_text fr) srs"
  proof (induction srs)
    case (Cons sr srs)
    then show ?case using splitlines_line [OF b, of "[]" sr "audit_text fr srs"] by (simp add: audit_text_def)
  qed (simp add: audit_text_def)
  then show ?thesis by (simp add: splitlines_def)
qed

theorem audit_lines_are_records_witness:
  "length (splitlines (audit_text (\<lambda>_. ''1.0'') [(1, (blank_record ''command'')\<lparr>au_request_text := Some [CHR 0x0A, CHR 0x22]\<rparr>)])) = 1"
proof -
  have "\<forall>x :: real. list_all printable ''1.0''" by (simp add: printable_def)
  from audit_lines_are_records [OF this] show ?thesis by simp
qed

end
