(* ===== verification/JsonRead.thy ===== *)
theory JsonRead
  imports JsonText
begin

text \<open>
  The reader of JSON texts, \<open>json.loads\<close>, as the state files, the audit history, the replies of language models and
  the update bundles use it: \<open>json/scanner.py\<close> and \<open>json/decoder.py\<close> of the standard library, with blanks between
  tokens, the escapes of strings, the pattern of numbers, and later keys of an object overriding earlier ones.

  The value of a number with a fraction or an exponent is the parameter \<open>fl\<close> (\<open>float\<close>). The characters of the model
  are those below 256: an escape of another character, an infinite float, and the words NaN and Infinity, which Python reads
  beside the JSON standard, have no value here. The limits of the interpreter on nesting and on the digits of an integer are not modelled.

  The reader is shown to undo \<open>json_dumps\<close> and \<open>json_indent\<close> of \<open>Tabular\<close>. Its fuel is twice the number of
  characters plus one, which is shown to be enough for every text.
\<close>

section \<open>Tokens\<close>

definition json_space :: "char \<Rightarrow> bool" where
  "json_space c = (c \<in> {CHR '' '', CHR 0x09, CHR 0x0A, CHR 0x0D})"

definition skip_ws :: "string \<Rightarrow> string" where
  "skip_ws s = dropWhile json_space s"

text \<open>A hexadecimal digit, of either case\<close>

definition hex_val :: "char \<Rightarrow> nat option" where
  "hex_val c =
     (let n = (of_char c :: nat) in
      if 48 \<le> n \<and> n \<le> 57 then Some (n - 48)
      else if 97 \<le> n \<and> n \<le> 102 then Some (n - 87)
      else if 65 \<le> n \<and> n \<le> 70 then Some (n - 55) else None)"

definition code_point :: "char \<Rightarrow> char \<Rightarrow> char \<Rightarrow> char \<Rightarrow> char option" where
  "code_point a b c d =
     (case (hex_val a, hex_val b, hex_val c, hex_val d) of
        (Some i, Some j, Some k, Some l) \<Rightarrow> if i = 0 \<and> j = 0 then Some (char_of (16 * k + l)) else None
      | _ \<Rightarrow> None)"

definition BACKSLASH :: "char \<Rightarrow> char option" where
  "BACKSLASH e = map_of
     [(CHR 0x22, CHR 0x22), (CHR 0x5C, CHR 0x5C), (CHR ''/'', CHR ''/''), (CHR ''b'', CHR 0x08), (CHR ''f'', CHR 0x0C),
      (CHR ''n'', CHR 0x0A), (CHR ''r'', CHR 0x0D), (CHR ''t'', CHR 0x09)] e"

text \<open>\<open>scanstring\<close>, after the opening quote: the string and what follows its closing quote\<close>

fun scanstring :: "string \<Rightarrow> (string \<times> string) option" where
  "scanstring [] = None"
| "scanstring (c # cs) =
     (if c = CHR 0x22 then Some ([], cs)
      else if c = CHR 0x5C then
        (case cs of
           [] \<Rightarrow> None
         | e # rest \<Rightarrow>
             if e = CHR ''u'' then
               (case rest of
                  h1 # h2 # h3 # h4 # rest' \<Rightarrow>
                    (case code_point h1 h2 h3 h4 of
                       None \<Rightarrow> None
                     | Some d \<Rightarrow> map_option (\<lambda>(t, r). (d # t, r)) (scanstring rest'))
                | _ \<Rightarrow> None)
             else
               (case BACKSLASH e of
                  None \<Rightarrow> None
                | Some d \<Rightarrow> map_option (\<lambda>(t, r). (d # t, r)) (scanstring rest)))
      else if (of_char c :: nat) < 32 then None
      else map_option (\<lambda>(t, r). (c # t, r)) (scanstring cs))"

text \<open>\<open>NUMBER_RE\<close>, the pattern \<^verbatim>\<open>(-?(?:0|[1-9][0-9]*))(\.[0-9]+)?([eE][-+]?[0-9]+)?\<close>: its three groups and the rest\<close>

definition is_digit :: "char \<Rightarrow> bool" where
  "is_digit c = (digit_val c \<noteq> None)"

definition match_int :: "string \<Rightarrow> string" where
  "match_int s =
     (case s of [] \<Rightarrow> []
      | c # _ \<Rightarrow> if c = CHR ''0'' then [c] else takeWhile is_digit s)"

definition match_frac :: "string \<Rightarrow> string" where
  "match_frac s =
     (case s of
        d # r \<Rightarrow> if d = CHR ''.'' \<and> takeWhile is_digit r \<noteq> [] then d # takeWhile is_digit r else []
      | [] \<Rightarrow> [])"

definition match_sign :: "char set \<Rightarrow> string \<Rightarrow> string" where
  "match_sign signs s = (case s of c # _ \<Rightarrow> if c \<in> signs then [c] else [] | [] \<Rightarrow> [])"

definition match_exp :: "string \<Rightarrow> string" where
  "match_exp s =
     (case s of
        e # r \<Rightarrow>
          let sg = match_sign {CHR ''+'', CHR ''-''} r; ds = takeWhile is_digit (drop (length sg) r)
          in if e \<in> {CHR ''e'', CHR ''E''} \<and> ds \<noteq> [] then e # sg @ ds else []
      | [] \<Rightarrow> [])"

definition match_number :: "string \<Rightarrow> (string \<times> string \<times> string \<times> string) option" where
  "match_number s =
     (let sg = match_sign {CHR ''-''} s; s1 = drop (length sg) s; ip = match_int s1; s2 = drop (length ip) s1;
          fp = match_frac s2; s3 = drop (length fp) s2; ep = match_exp s3
      in if ip = [] then None else Some (sg @ ip, fp, ep, drop (length ep) s3))"

definition scan_number :: "(string \<Rightarrow> real option) \<Rightarrow> string \<Rightarrow> (pyval \<times> string) option" where
  "scan_number fl s =
     (case match_number s of
        None \<Rightarrow> None
      | Some (ip, fp, ep, r) \<Rightarrow>
          if fp = [] \<and> ep = [] then map_option (\<lambda>i. (PInt i, r)) (py_int ip)
          else map_option (\<lambda>x. (PFloat x, r)) (fl (ip @ fp @ ep)))"

section \<open>Values\<close>

text \<open>\<open>_scan_once\<close>, and the loops of \<open>JSONArray\<close> and \<open>JSONObject\<close> over the items of a container that is not empty. An
  object is filled pair by pair, so a later key overrides an earlier one in its place.\<close>

fun scan_once :: "(string \<Rightarrow> real option) \<Rightarrow> nat \<Rightarrow> string \<Rightarrow> (pyval \<times> string) option"
  and JSONArray :: "(string \<Rightarrow> real option) \<Rightarrow> nat \<Rightarrow> string \<Rightarrow> (pyval list \<times> string) option"
  and JSONObject :: "(string \<Rightarrow> real option) \<Rightarrow> nat \<Rightarrow> string \<Rightarrow> ((string \<times> pyval) list \<times> string) option" where
  "scan_once fl 0 s = None"
| "scan_once fl (Suc n) s =
     (case s of
        [] \<Rightarrow> None
      | c # cs \<Rightarrow>
          if c = CHR 0x22 then map_option (\<lambda>(t, r). (PStr t, r)) (scanstring cs)
          else if c = CHR ''{'' then
            (if startswith ''}'' (skip_ws cs) then Some (PDict [], drop 1 (skip_ws cs))
             else map_option (\<lambda>(m, r). (PDict (dict_of m), r)) (JSONObject fl n (skip_ws cs)))
          else if c = CHR ''['' then
            (if startswith '']'' (skip_ws cs) then Some (PList [], drop 1 (skip_ws cs))
             else map_option (\<lambda>(xs, r). (PList xs, r)) (JSONArray fl n (skip_ws cs)))
          else if startswith ''null'' s then Some (PNone, drop 4 s)
          else if startswith ''true'' s then Some (PBool True, drop 4 s)
          else if startswith ''false'' s then Some (PBool False, drop 5 s)
          else scan_number fl s)"
| "JSONArray fl 0 s = None"
| "JSONArray fl (Suc n) s =
     (case scan_once fl n s of
        None \<Rightarrow> None
      | Some (v, r) \<Rightarrow>
          (case skip_ws r of
             [] \<Rightarrow> None
           | d # r' \<Rightarrow>
               if d = CHR '']'' then Some ([v], r')
               else if d = CHR '','' then map_option (\<lambda>(vs, q). (v # vs, q)) (JSONArray fl n (skip_ws r'))
               else None))"
| "JSONObject fl 0 s = None"
| "JSONObject fl (Suc n) s =
     (if \<not> startswith [CHR 0x22] s then None
      else case scanstring (drop 1 s) of
        None \<Rightarrow> None
      | Some (k, r) \<Rightarrow>
          if \<not> startswith '':'' (skip_ws r) then None
          else case scan_once fl n (skip_ws (drop 1 (skip_ws r))) of
            None \<Rightarrow> None
          | Some (v, q) \<Rightarrow>
              (case skip_ws q of
                 [] \<Rightarrow> None
               | d # q' \<Rightarrow>
                   if d = CHR ''}'' then Some ([(k, v)], q')
                   else if d = CHR '','' then map_option (\<lambda>(m, z). ((k, v) # m, z)) (JSONObject fl n (skip_ws q'))
                   else None))"

definition json_loads :: "(string \<Rightarrow> real option) \<Rightarrow> string \<Rightarrow> pyval option" where
  "json_loads fl s =
     (case scan_once fl (2 * length s + 1) (skip_ws s) of
        None \<Rightarrow> None
      | Some (v, r) \<Rightarrow> if skip_ws r = [] then Some v else None)"

section \<open>Enough fuel\<close>

lemma length_skip_ws: "length (skip_ws s) \<le> length s"
  by (simp add: skip_ws_def length_dropWhile_le)

lemma scanstring_shorter: "scanstring s = Some (t, r) \<Longrightarrow> length r < length s"
proof (induction s arbitrary: t r rule: scanstring.induct)
  case (2 c cs)
  note IH = 2(1-3)
  show ?case
  proof (cases "c = CHR 0x5C")
    case True
    then obtain e rest where cs: "cs = e # rest" using 2(4) by (cases cs) auto
    show ?thesis
    proof (cases "e = CHR ''u''")
      case u: True
      then obtain h1 h2 h3 h4 rest' where rest: "rest = h1 # h2 # h3 # h4 # rest'"
        using 2(4) True cs by (auto split: list.splits)
      then obtain d where d: "code_point h1 h2 h3 h4 = Some d" using 2(4) True cs u by (cases "code_point h1 h2 h3 h4") auto
      then obtain t' where "scanstring rest' = Some (t', r)" using 2(4) True cs u rest by auto
      from IH(1) [OF _ True cs u rest refl refl refl d this] show ?thesis by (simp add: True cs rest)
    next
      case u: False
      then obtain d where d: "BACKSLASH e = Some d" using 2(4) True cs by (cases "BACKSLASH e") auto
      then obtain t' where "scanstring rest = Some (t', r)" using 2(4) True cs u by auto
      from IH(2) [OF _ True cs u d this] show ?thesis by (simp add: True cs)
    qed
  next
    case False
    then show ?thesis using 2(3) [of _ r] 2(4) by (auto split: if_splits)
  qed
qed simp

lemma match_number_shorter: "match_number s = Some (ip, fp, ep, r) \<Longrightarrow> length r < length s"
proof -
  assume m: "match_number s = Some (ip, fp, ep, r)"
  have "s \<noteq> []" using m by (auto simp: match_number_def match_sign_def match_int_def)
  moreover have "match_int (drop (length (match_sign {CHR ''-''} s)) s) \<noteq> []"
    using m by (auto simp: match_number_def Let_def)
  ultimately show ?thesis using m by (auto simp: match_number_def Let_def intro!: diff_less)
qed

lemma scan_number_shorter: "scan_number fl s = Some (v, r) \<Longrightarrow> length r < length s"
  using match_number_shorter by (fastforce simp: scan_number_def split: option.splits if_splits)

lemma after_skip: "skip_ws s = d # r \<Longrightarrow> length r < length s"
  using length_skip_ws [of s] by simp

lemma scan_shorter:
  "scan_once fl n s = Some (v, r) \<Longrightarrow> length r < length s"
  "JSONArray fl n s = Some (xs, r) \<Longrightarrow> length r < length s"
  "JSONObject fl n s = Some (m, r) \<Longrightarrow> length r < length s"
proof (induction fl n s and fl n s and fl n s arbitrary: v r and xs r and m r rule: scan_once_JSONArray_JSONObject.induct)
  case (2 fl n s)
  obtain c cs where s: "s = c # cs" using 2(3) by (cases s) auto
  have l: "length (skip_ws cs) < length s" using length_skip_ws [of cs] by (simp add: s)
  show ?case
    using 2 l scanstring_shorter [of cs] scan_number_shorter [of fl s v r]
    by (fastforce simp: s startswith_def split: if_splits)
next
  case (4 fl n s)
  then obtain v r' d r'' where a: "scan_once fl n s = Some (v, r')" "skip_ws r' = d # r''"
    by (auto split: option.splits list.splits)
  have "length r'' < length s" using 4(1) [OF a(1)] after_skip [OF a(2)] by simp
  then show ?case using 4(2,3) a length_skip_ws [of r''] by (fastforce split: if_splits)
next
  case (6 fl n s)
  then obtain k r1 where a: "scanstring (drop 1 s) = Some (k, r1)" "startswith '':'' (skip_ws r1)"
    by (auto split: option.splits if_splits)
  then obtain v q d q' where b: "scan_once fl n (skip_ws (drop 1 (skip_ws r1))) = Some (v, q)" "skip_ws q = d # q'"
    using 6 by (auto split: option.splits list.splits if_splits)
  have "length q < length (skip_ws (drop 1 (skip_ws r1)))" using 6(1) a b(1) 6(3) by (auto split: if_splits)
  moreover have "length r1 < length s" using scanstring_shorter [OF a(1)] by simp
  ultimately have "length q' < length s"
    using after_skip [OF b(2)] length_skip_ws [of "drop 1 (skip_ws r1)"] length_skip_ws [of r1] by simp
  then show ?case using 6(2,3) a b length_skip_ws [of q'] by (fastforce split: if_splits)
qed auto

lemma scan_fuel:
  "2 * length s + 1 \<le> n \<Longrightarrow> scan_once fl (Suc n) s = scan_once fl n s"
  "2 * length s + 2 \<le> n \<Longrightarrow> JSONArray fl (Suc n) s = JSONArray fl n s"
  "2 * length s + 2 \<le> n \<Longrightarrow> JSONObject fl (Suc n) s = JSONObject fl n s"
proof (induction fl n s and fl n s and fl n s rule: scan_once_JSONArray_JSONObject.induct)
  case (2 fl n s)
  show ?case
  proof (cases s)
    case (Cons c cs)
    have l: "2 * length (skip_ws cs) + 2 \<le> n" using length_skip_ws [of cs] 2(3) by (simp add: Cons)
    have o: "JSONObject fl (Suc n) (skip_ws cs) = JSONObject fl n (skip_ws cs)"
      if "c \<noteq> CHR 0x22" "c = CHR ''{''" "\<not> startswith ''}'' (skip_ws cs)"
      using 2(1) [OF Cons that l] .
    have a: "JSONArray fl (Suc n) (skip_ws cs) = JSONArray fl n (skip_ws cs)"
      if "c \<noteq> CHR 0x22" "c \<noteq> CHR ''{''" "c = CHR ''[''" "\<not> startswith '']'' (skip_ws cs)"
      using 2(2) [OF Cons that l] .
    consider "c = CHR ''{''" | "c = CHR ''[''" | "c \<noteq> CHR ''{''" "c \<noteq> CHR ''[''" by blast
    then show ?thesis
    proof cases
      case 1
      then show ?thesis using o by (cases "startswith ''}'' (skip_ws cs)") (simp_all add: Cons del: JSONObject.simps)
    next
      case 2
      then show ?thesis using a by (cases "startswith '']'' (skip_ws cs)") (simp_all add: Cons del: JSONArray.simps)
    qed (simp add: Cons)
  qed simp
next
  case (4 fl n s)
  have o: "scan_once fl (Suc n) s = scan_once fl n s" using 4(1,3) by simp
  have "JSONArray fl (Suc n) (skip_ws r'') = JSONArray fl n (skip_ws r'')"
    if "scan_once fl n s = Some (v, r')" "skip_ws r' = d # r''" "d \<noteq> CHR '']''" "d = CHR '',''" for v r' d r''
    using 4(2) [OF that(1) refl that(2-4)] 4(3) scan_shorter(1) [OF that(1)] after_skip [OF that(2)] length_skip_ws [of r''] by simp
  then show ?case unfolding JSONArray.simps o by (auto split: option.split list.split)
next
  case (6 fl n s)
  show ?case
  proof (cases "startswith [CHR 0x22] s \<and> (\<exists>k r. scanstring (drop 1 s) = Some (k, r) \<and> startswith '':'' (skip_ws r))")
    case True
    then obtain k r where k: "scanstring (drop 1 s) = Some (k, r)" "startswith '':'' (skip_ws r)" by blast
    let ?t = "skip_ws (drop 1 (skip_ws r))"
    have l: "length ?t < length s"
      using scanstring_shorter [OF k(1)] length_skip_ws [of r] length_skip_ws [of "drop 1 (skip_ws r)"] by simp
    have o: "scan_once fl (Suc n) ?t = scan_once fl n ?t" using 6(1) True k l 6(3) by simp
    have "JSONObject fl (Suc n) (skip_ws q') = JSONObject fl n (skip_ws q')"
      if "scan_once fl n ?t = Some (v, q)" "skip_ws q = d # q'" "d \<noteq> CHR ''}''" "d = CHR '',''" for v q d q'
      using 6(2) [OF _ k(1) refl _ that(1) refl that(2-4)] True k 6(3) scan_shorter(1) [OF that(1)] after_skip [OF that(2)] l
        length_skip_ws [of q'] by simp
    then show ?thesis using True unfolding JSONObject.simps k(1) option.case prod.case o by (auto split: option.split list.split)
  next
    case False
    then show ?thesis by (auto split: option.split)
  qed
qed auto

lemma scan_once_fuel: "2 * length s + 1 \<le> n \<Longrightarrow> n \<le> m \<Longrightarrow> scan_once fl m s = scan_once fl n s"
proof (induction m)
  case (Suc m)
  then show ?case using scan_fuel(1) [of s m fl] by (cases "n \<le> m") (auto simp: le_Suc_eq)
qed simp

section \<open>Reading what was written: tokens\<close>

text \<open>What may follow a value in a text\<close>

definition closes :: "string \<Rightarrow> bool" where
  "closes r = (case r of [] \<Rightarrow> True | c # _ \<Rightarrow> json_space c \<or> c \<in> {CHR '','', CHR '']'', CHR ''}''})"

lemma closes_head:
  assumes "closes (c # r)"
  shows "\<not> is_digit c" "c \<noteq> CHR ''.''" "c \<noteq> CHR ''e''" "c \<noteq> CHR ''E''" "c \<noteq> CHR ''+''" "c \<noteq> CHR ''-''" "c \<noteq> CHR ''0''"
  using assms by (auto simp: closes_def json_space_def is_digit_def digit_val_def)

lemma closes_simps [simp]: "closes []" "closes (CHR '','' # r)" "closes (CHR '']'' # r)" "closes (CHR ''}'' # r)"
  by (simp_all add: closes_def)

lemma closes_blank: "list_all json_space w \<Longrightarrow> closes r \<Longrightarrow> closes (w @ r)"
  by (cases w) (simp_all add: closes_def)

lemma skip_blank: "list_all json_space w \<Longrightarrow> skip_ws (w @ r) = skip_ws r"
  by (induction w) (simp_all add: skip_ws_def)

lemma skip_none: "\<not> json_space c \<Longrightarrow> skip_ws (c # r) = c # r"
  by (simp add: skip_ws_def)

lemma hex_val_digit: "k < 16 \<Longrightarrow> hex_val (hex_digit k) = Some k"
proof -
  have "list_all (\<lambda>k. hex_val (hex_digit k) = Some k) [0..<16]" by code_simp
  then show "k < 16 \<Longrightarrow> hex_val (hex_digit k) = Some k" by (simp add: list_all_iff)
qed

lemma code_point_char: "code_point CHR ''0'' CHR ''0'' (hex_digit (of_char c div 16)) (hex_digit (of_char c mod 16)) = Some c"
proof -
  have "of_char c div 16 < (16 :: nat)" using nat_of_char_less_256 [of c] by (simp add: less_mult_imp_div_less)
  moreover have "hex_val CHR ''0'' = Some 0" by (simp add: hex_val_def)
  ultimately show ?thesis by (simp add: code_point_def hex_val_digit)
qed

lemma scanstring_char: "scanstring (json_char c @ s) = map_option (\<lambda>(t, r). (c # t, r)) (scanstring s)"
proof -
  let ?n = "of_char c :: nat"
  consider "c \<in> {CHR 0x22, CHR 0x5C, CHR 0x0A, CHR 0x0D, CHR 0x09, CHR 0x08, CHR 0x0C}"
    | "c \<notin> {CHR 0x22, CHR 0x5C, CHR 0x0A, CHR 0x0D, CHR 0x09, CHR 0x08, CHR 0x0C}" "32 \<le> ?n \<and> ?n \<le> 126"
    | "c \<notin> {CHR 0x22, CHR 0x5C, CHR 0x0A, CHR 0x0D, CHR 0x09, CHR 0x08, CHR 0x0C}" "\<not> (32 \<le> ?n \<and> ?n \<le> 126)"
    by blast
  then show ?thesis
  proof cases
    case 1
    then show ?thesis by (auto simp: json_char_def BACKSLASH_def)
  next
    case 2
    then show ?thesis by (simp add: json_char_def char_codes)
  next
    case 3
    then have "json_char c = [CHR 0x5C, CHR ''u'', CHR ''0'', CHR ''0'', hex_digit (?n div 16), hex_digit (?n mod 16)]"
      by (simp add: json_char_def Let_def char_codes)
    then show ?thesis using code_point_char [of c] by simp
  qed
qed

lemma scanstring_text: "scanstring (concat (map json_char a) @ CHR 0x22 # r) = Some (a, r)"
  by (induction a) (simp_all add: scanstring_char)

lemma takeWhile_digits: "closes r \<Longrightarrow> takeWhile is_digit (t @ r) = takeWhile is_digit t"
  by (cases r; induction t) (simp_all add: closes_head)

lemma match_append:
  assumes "closes r"
  shows "match_int (t @ r) = match_int t" "match_frac (t @ r) = match_frac t" "match_exp (t @ r) = match_exp t"
    "S \<subseteq> {CHR ''+'', CHR ''-''} \<Longrightarrow> match_sign S (t @ r) = match_sign S t"
proof -
  show s: "match_sign S (t @ r) = match_sign S t" if "S \<subseteq> {CHR ''+'', CHR ''-''}" for S t
    using assms that closes_head(5,6) by (cases t; cases r) (fastforce simp: match_sign_def)+
  show "match_int (t @ r) = match_int t"
    using assms closes_head(1,7) takeWhile_digits [OF assms, of t] by (cases t; cases r) (auto simp: match_int_def)
  show "match_frac (t @ r) = match_frac t"
  proof (cases t)
    case Nil
    then show ?thesis using assms closes_head(2) by (cases r) (auto simp: match_frac_def)
  next
    case (Cons d u)
    then show ?thesis using takeWhile_digits [OF assms, of u] by (simp add: match_frac_def)
  qed
  show "match_exp (t @ r) = match_exp t"
  proof (cases t)
    case Nil
    then show ?thesis using assms closes_head(3,4) by (cases r) (auto simp: match_exp_def Let_def)
  next
    case (Cons e u)
    have "length (match_sign {CHR ''+'', CHR ''-''} u) \<le> length u" by (cases u) (auto simp: match_sign_def)
    then show ?thesis using takeWhile_digits [OF assms] s [of "{CHR ''+'', CHR ''-''}" u] by (simp add: match_exp_def Cons Let_def)
  qed
qed

lemma length_match:
  "length (match_int t) \<le> length t" "length (match_frac t) \<le> length t" "length (match_exp t) \<le> length t"
  "length (match_sign S t) \<le> length t"
proof -
  show "length (match_int t) \<le> length t" "length (match_frac t) \<le> length t" "length (match_sign S t) \<le> length t"
    using length_takeWhile_le [of is_digit t] length_takeWhile_le [of is_digit "tl t"]
    by (auto simp: match_int_def match_frac_def match_sign_def split: list.split)
  show "length (match_exp t) \<le> length t"
  proof (cases t)
    case (Cons e u)
    have "length (match_sign {CHR ''+'', CHR ''-''} u) \<le> length u" by (cases u) (auto simp: match_sign_def)
    then show ?thesis
      using length_takeWhile_le [of is_digit "drop (length (match_sign {CHR ''+'', CHR ''-''} u)) u"]
      by (auto simp: match_exp_def Cons Let_def)
  qed (simp add: match_exp_def)
qed

lemma match_number_append:
  assumes "closes r" "match_number t = Some (ip, fp, ep, q)"
  shows "match_number (t @ r) = Some (ip, fp, ep, q @ r)"
proof -
  have d: "drop (length (match_int u)) (u @ r) = drop (length (match_int u)) u @ r"
    "drop (length (match_frac u)) (u @ r) = drop (length (match_frac u)) u @ r"
    "drop (length (match_exp u)) (u @ r) = drop (length (match_exp u)) u @ r"
    "drop (length (match_sign S u)) (u @ r) = drop (length (match_sign S u)) u @ r" for u S
    using length_match [where t = u] by simp_all
  have "match_number (t @ r) = map_option (\<lambda>(ip, fp, ep, q). (ip, fp, ep, q @ r)) (match_number t)"
    unfolding match_number_def Let_def by (simp add: match_append [OF assms(1)] d del: drop_append drop_drop)
  then show ?thesis using assms(2) by simp
qed

section \<open>Reading what was written: values\<close>

text \<open>A text that reads as a value, whatever follows it, once there is fuel enough\<close>

definition starts :: "string \<Rightarrow> bool" where
  "starts t = (case t of [] \<Rightarrow> False | c # _ \<Rightarrow> \<not> json_space c \<and> c \<noteq> CHR '']'')"

definition reads :: "(string \<Rightarrow> real option) \<Rightarrow> string \<Rightarrow> pyval \<Rightarrow> bool" where
  "reads fl t v = (starts t \<and> (\<exists>n. \<forall>m \<ge> n. \<forall>r. closes r \<longrightarrow> scan_once fl m (t @ r) = Some (v, r)))"

lemma readsI:
  assumes "starts t" "\<And>m r. closes r \<Longrightarrow> scan_once fl (Suc (m + n)) (t @ r) = Some (v, r)"
  shows "reads fl t v"
proof -
  have "scan_once fl m (t @ r) = Some (v, r)" if "Suc n \<le> m" "closes r" for m r
    using assms(2) [of r "m - Suc n"] that by simp
  then show ?thesis using assms(1) by (auto simp: reads_def)
qed

lemma readsE:
  assumes "reads fl t v"
  obtains n where "\<And>m r. n \<le> m \<Longrightarrow> closes r \<Longrightarrow> scan_once fl m (t @ r) = Some (v, r)"
  using assms unfolding reads_def by blast

lemma skip_starts: "starts t \<Longrightarrow> list_all json_space w \<Longrightarrow> skip_ws (w @ t @ r) = t @ r"
  by (cases t) (simp_all add: starts_def skip_blank skip_none)

lemma reads_loads:
  assumes "reads fl t v" "list_all json_space w" "list_all json_space w'"
  shows "json_loads fl (w @ t @ w') = Some v"
proof -
  obtain n where n: "\<And>m r. n \<le> m \<Longrightarrow> closes r \<Longrightarrow> scan_once fl m (t @ r) = Some (v, r)"
    using readsE [OF assms(1)] by blast
  let ?k = "2 * length (w @ t @ w') + 1"
  have s: "skip_ws (w @ t @ w') = t @ w'" using skip_starts [OF _ assms(2)] assms(1) by (simp add: reads_def)
  have c: "closes w'" using closes_blank [OF assms(3), of "[]"] by simp
  have e: "skip_ws w' = []" using skip_blank [OF assms(3), of "[]"] by (simp add: skip_ws_def)
  have "scan_once fl (max n ?k) (t @ w') = scan_once fl ?k (t @ w')" by (rule scan_once_fuel) simp_all
  then show ?thesis using n [of "max n ?k" w'] c s e by (simp add: json_loads_def)
qed

lemma reads_words: "reads fl ''null'' PNone" "reads fl ''true'' (PBool True)" "reads fl ''false'' (PBool False)"
  by (rule readsI [where n = 0]; simp add: starts_def json_space_def startswith_def)+

lemma reads_string: "reads fl (json_string s) (PStr s)"
  by (rule readsI [where n = 0]) (simp_all add: starts_def json_space_def json_string_def scanstring_text)

lemma reads_number:
  assumes "match_number t = Some (ip, fp, ep, [])" "scan_number fl t = Some (v, [])"
  shows "reads fl t v"
proof (rule readsI [where n = 0])
  obtain c cs where t: "t = c # cs" using assms(1) by (cases t) (auto simp: match_number_def match_sign_def match_int_def)
  have c: "is_digit c \<or> c = CHR ''-''"
    using assms(1) by (auto simp: t match_number_def match_sign_def match_int_def Let_def is_digit_def digit_val_def split: if_splits)
  then have n: "c \<notin> {CHR 0x22, CHR ''{'', CHR ''['', CHR ''n'', CHR ''t'', CHR ''f''}" "\<not> json_space c" "c \<noteq> CHR '']''"
    by (auto simp: is_digit_def digit_val_def json_space_def)
  then show "starts t" by (simp add: t starts_def)
  show "scan_once fl (Suc (m + 0)) (t @ r) = Some (v, r)" if "closes r" for m r
  proof -
    have "scan_number fl (t @ r) = Some (v, r)"
      using assms match_number_append [OF that assms(1)] by (auto simp: scan_number_def split: if_splits)
    then show ?thesis using n by (simp add: t startswith_def)
  qed
qed

lemma show_nat_start: "n > 0 \<Longrightarrow> hd (show_nat n) \<noteq> CHR ''0''"
proof (induction n rule: show_nat.induct)
  case (1 n)
  have d: "list_all (\<lambda>k. digit k \<noteq> CHR ''0'') [1..<10]" by code_simp
  show ?case
  proof (cases "n < 10")
    case True
    then show ?thesis using d 1(2) by (simp add: show_nat.simps [of n] list_all_iff)
  next
    case False
    then show ?thesis using 1(1) show_nat_nonempty by (simp add: show_nat.simps [of n])
  qed
qed

lemma match_int_show: "match_int (show_nat n) = show_nat n"
proof (cases "n = 0")
  case True
  then show ?thesis by (simp add: show_nat.simps digit_def match_int_def)
next
  case False
  have "is_digit c" if "c \<in> set (show_nat n)" for c
    using that show_nat_digits [of n] digit_facts(1) by (auto simp: is_digit_def)
  then have t: "takeWhile is_digit (show_nat n) = show_nat n" by (simp add: takeWhile_eq_all_conv)
  obtain c cs where "show_nat n = c # cs" using show_nat_nonempty by (cases "show_nat n") auto
  then show ?thesis using t show_nat_start [of n] False by (simp add: match_int_def)
qed

lemma match_show: "match_number (show_int i) = Some (show_int i, [], [], [])"
proof -
  have s: "match_sign {CHR ''-''} (show_nat n) = []" for n
    using show_nat_digits [of n] digit_facts(5) by (cases "show_nat n") (auto simp: match_sign_def)
  have g: "match_sign {CHR ''-''} (CHR ''-'' # t) = ''-''" for t by (simp add: match_sign_def)
  show ?thesis
    by (simp add: show_int_def match_number_def s g match_int_show match_frac_def match_exp_def show_nat_nonempty)
qed

lemma reads_int: "reads fl (show_int i) (PInt i)"
  by (rule reads_number [OF match_show]) (simp add: scan_number_def match_show py_int_show)

text \<open>Containers: blanks \<open>w\<close> may stand after a bracket and after a comma.\<close>

lemma closes_after: "list_all json_space w \<Longrightarrow> c \<in> {CHR '','', CHR '']'', CHR ''}''} \<Longrightarrow> closes (w @ c # r)"
  by (rule closes_blank) auto

lemma skip_close: "list_all json_space w \<Longrightarrow> c \<in> {CHR '','', CHR '']'', CHR ''}''} \<Longrightarrow> skip_ws (w @ c # r) = c # r"
  using skip_blank [of w "c # r"] skip_none [of c r] by (auto simp: json_space_def)

lemma items_read:
  assumes "list_all json_space w" "list_all json_space w'" "xs \<noteq> []" "\<And>x. x \<in> set xs \<Longrightarrow> reads fl (f x) x"
  shows "\<exists>n. \<forall>m \<ge> n. \<forall>r. JSONArray fl m (join (CHR '','' # w) (map f xs) @ w' @ CHR '']'' # r) = Some (xs, r)"
  using assms(3,4)
proof (induction xs)
  case (Cons x xs)
  obtain n where n: "\<And>m r. n \<le> m \<Longrightarrow> closes r \<Longrightarrow> scan_once fl m (f x @ r) = Some (x, r)"
    using readsE [OF Cons.prems(2) [of x]] by auto
  show ?case
  proof (cases "xs = []")
    case True
    have "JSONArray fl m (f x @ w' @ CHR '']'' # r) = Some ([x], r)" if "Suc n \<le> m" for m r
      using n [of "m - 1" "w' @ CHR '']'' # r"] that closes_after [OF assms(2)] skip_close [OF assms(2)] by (cases m) simp_all
    then show ?thesis using True by auto
  next
    case False
    let ?t = "\<lambda>r. join (CHR '','' # w) (map f xs) @ w' @ CHR '']'' # r"
    obtain n' where n': "\<forall>m \<ge> n'. \<forall>r. JSONArray fl m (?t r) = Some (xs, r)"
      using Cons.IH [OF False] Cons.prems(2) by auto
    obtain y ys where xs: "xs = y # ys" using False by (cases xs) auto
    have j: "join (CHR '','' # w) (map f (x # xs)) @ w' @ CHR '']'' # r = f x @ CHR '','' # w @ ?t r" for r by (simp add: xs)
    have "starts (f y)" using Cons.prems(2) [of y] by (simp add: xs reads_def)
    moreover have "\<exists>u. ?t r = f y @ u" for r by (cases ys) (simp_all add: xs)
    ultimately have k: "skip_ws (w @ ?t r) = ?t r" for r using skip_starts [OF _ assms(1)] by metis
    have "JSONArray fl m (f x @ CHR '','' # w @ ?t r) = Some (x # xs, r)" if m: "Suc (max n n') \<le> m" for m r
    proof -
      obtain i where i: "m = Suc i" "n \<le> i" "n' \<le> i" using m by (cases m) auto
      have "JSONArray fl i (?t r) = Some (xs, r)" using n' i(3) by blast
      then show ?thesis using n [OF i(2), of "CHR '','' # w @ ?t r"] k [of r] skip_close [of "[]" "CHR '',''"] by (simp add: i(1))
    qed
    then show ?thesis unfolding j by blast
  qed
qed simp

lemma reads_array:
  assumes "list_all json_space w0" "list_all json_space w" "list_all json_space w'" "xs \<noteq> []" "\<And>x. x \<in> set xs \<Longrightarrow> reads fl (f x) x"
  shows "reads fl (''['' @ w0 @ join (CHR '','' # w) (map f xs) @ w' @ '']'') (PList xs)"
proof -
  obtain n where n: "\<forall>m \<ge> n. \<forall>r. JSONArray fl m (join (CHR '','' # w) (map f xs) @ w' @ CHR '']'' # r) = Some (xs, r)"
    using items_read [OF assms(2-5)] by blast
  obtain x ys where xs: "xs = x # ys" using assms(4) by (cases xs) auto
  have st: "starts (f x)" using assms(5) [of x] by (simp add: xs reads_def)
  obtain u where u: "join (CHR '','' # w) (map f xs) = f x @ u" by (cases ys) (simp_all add: xs)
  have k: "skip_ws (w0 @ join (CHR '','' # w) (map f xs) @ w' @ CHR '']'' # r) = join (CHR '','' # w) (map f xs) @ w' @ CHR '']'' # r" for r
    using skip_starts [OF st assms(1)] by (simp add: u)
  have b: "\<not> startswith '']'' (join (CHR '','' # w) (map f xs) @ q)" for q
    using st by (cases "f x") (simp_all add: u starts_def startswith_def)
  show ?thesis
  proof (rule readsI [where n = n])
    show "scan_once fl (Suc (m + n)) ((''['' @ w0 @ join (CHR '','' # w) (map f xs) @ w' @ '']'') @ r) = Some (PList xs, r)" for m r
      using n b by (simp add: k)
  qed (simp add: starts_def json_space_def)
qed

definition member_text :: "('v \<Rightarrow> string) \<Rightarrow> string \<times> 'v \<Rightarrow> string" where
  "member_text f = (\<lambda>(k, v). json_string k @ '': '' @ f v)"

lemma member_head: "\<exists>u. member_text f e @ q = CHR 0x22 # u"
  by (cases e) (simp add: member_text_def json_string_def)

text \<open>What the loop does after a pair\<close>

definition next_member :: "(string \<Rightarrow> real option) \<Rightarrow> string \<times> pyval \<Rightarrow> nat \<Rightarrow> string \<Rightarrow> ((string \<times> pyval) list \<times> string) option" where
  "next_member fl e n q =
     (case skip_ws q of
        [] \<Rightarrow> None
      | d # q' \<Rightarrow> if d = CHR ''}'' then Some ([e], q')
                  else if d = CHR '','' then map_option (\<lambda>(m, z). (e # m, z)) (JSONObject fl n (skip_ws q'))
                  else None)"

lemma scan_member:
  assumes "reads fl (f v) v"
  shows "\<exists>n. \<forall>i \<ge> n. \<forall>q. closes q \<longrightarrow> JSONObject fl (Suc i) (member_text f (k, v) @ q) = next_member fl (k, v) i q"
proof -
  obtain n where n: "\<And>m r. n \<le> m \<Longrightarrow> closes r \<Longrightarrow> scan_once fl m (f v @ r) = Some (v, r)"
    using readsE [OF assms] by blast
  have st: "starts (f v)" using assms by (simp add: reads_def)
  have sp: "list_all json_space '' ''" by (simp add: json_space_def)
  have "scanstring (concat (map json_char k) @ CHR 0x22 # CHR '':'' # CHR '' '' # f v @ q) = Some (k, CHR '':'' # CHR '' '' # f v @ q)" for q
    by (rule scanstring_text)
  moreover have "skip_ws (CHR '':'' # u) = CHR '':'' # u" for u by (simp add: skip_ws_def json_space_def)
  moreover have "skip_ws (CHR '' '' # f v @ q) = f v @ q" for q using skip_starts [OF st sp] by simp
  ultimately show ?thesis
    using n by (intro exI [of _ n]) (simp add: member_text_def json_string_def startswith_def next_member_def)
qed

lemma members_read:
  assumes "list_all json_space w" "list_all json_space w'" "m \<noteq> []" "\<And>k v. (k, v) \<in> set m \<Longrightarrow> reads fl (f v) v"
  shows "\<exists>n. \<forall>i \<ge> n. \<forall>r. JSONObject fl i (join (CHR '','' # w) (map (member_text f) m) @ w' @ CHR ''}'' # r) = Some (m, r)"
  using assms(3,4)
proof (induction m)
  case (Cons e m)
  obtain k v where e: "e = (k, v)" by (cases e)
  have "reads fl (f v) v" by (rule Cons.prems(2) [of k]) (simp add: e)
  then obtain n where n: "\<And>i q. n \<le> i \<Longrightarrow> closes q \<Longrightarrow> JSONObject fl (Suc i) (member_text f e @ q) = next_member fl e i q"
    unfolding e using scan_member [of fl f v k] by blast
  show ?case
  proof (cases "m = []")
    case True
    have "JSONObject fl i (member_text f e @ w' @ CHR ''}'' # r) = Some ([e], r)" if "Suc n \<le> i" for i r
      using n [of "i - 1" "w' @ CHR ''}'' # r"] that closes_after [OF assms(2)] skip_close [OF assms(2)]
      by (cases i) (simp_all add: next_member_def del: JSONObject.simps)
    then show ?thesis using True by auto
  next
    case False
    let ?t = "\<lambda>r. join (CHR '','' # w) (map (member_text f) m) @ w' @ CHR ''}'' # r"
    obtain n' where n': "\<forall>i \<ge> n'. \<forall>r. JSONObject fl i (?t r) = Some (m, r)"
      using Cons.IH [OF False] Cons.prems(2) by auto
    obtain y ys where m: "m = y # ys" using False by (cases m) auto
    have j: "join (CHR '','' # w) (map (member_text f) (e # m)) @ w' @ CHR ''}'' # r = member_text f e @ CHR '','' # w @ ?t r" for r
      by (simp add: m)
    have k: "skip_ws (w @ ?t r) = ?t r" for r
    proof -
      obtain u where u: "?t r = CHR 0x22 # u" using member_head [of f y] by (cases ys) (auto simp: m)
      have "skip_ws (CHR 0x22 # u) = CHR 0x22 # u" by (rule skip_none) (simp add: json_space_def)
      then show ?thesis unfolding u skip_blank [OF assms(1)] .
    qed
    have "JSONObject fl i (member_text f e @ CHR '','' # w @ ?t r) = Some (e # m, r)" if i0: "Suc (max n n') \<le> i" for i r
    proof -
      obtain l where i: "i = Suc l" "n \<le> l" "n' \<le> l" using i0 by (cases i) auto
      have "JSONObject fl l (?t r) = Some (m, r)" using n' i(3) by blast
      then show ?thesis using n [OF i(2), of "CHR '','' # w @ ?t r"] k [of r] skip_close [of "[]" "CHR '',''"]
        by (simp add: i(1) next_member_def del: JSONObject.simps)
    qed
    then show ?thesis unfolding j by blast
  qed
qed simp

lemma dict_of_distinct: "distinct (map fst m) \<Longrightarrow> dict_of m = m"
  using fold_update_append [of "[]" m] by (simp add: dict_of_def case_prod_unfold)

lemma reads_object:
  assumes "list_all json_space w0" "list_all json_space w" "list_all json_space w'" "m \<noteq> []" "distinct (map fst m)"
    "\<And>k v. (k, v) \<in> set m \<Longrightarrow> reads fl (f v) v"
  shows "reads fl (''{'' @ w0 @ join (CHR '','' # w) (map (member_text f) m) @ w' @ ''}'') (PDict m)"
proof -
  obtain n where n: "\<forall>i \<ge> n. \<forall>r. JSONObject fl i (join (CHR '','' # w) (map (member_text f) m) @ w' @ CHR ''}'' # r) = Some (m, r)"
    using members_read [of w w' m fl f] assms(2-4,6) by blast
  obtain y ys where m: "m = y # ys" using assms(4) by (cases m) auto
  obtain u where u: "join (CHR '','' # w) (map (member_text f) m) = CHR 0x22 # u"
    using member_head [of f y "[]"] member_head [of f y] by (cases ys) (auto simp: m)
  have k: "skip_ws (w0 @ CHR 0x22 # u @ q) = CHR 0x22 # u @ q" for q
    using skip_blank [OF assms(1)] skip_none [of "CHR 0x22"] by (simp add: json_space_def)
  show ?thesis
  proof (rule readsI [where n = n])
    show "scan_once fl (Suc (i + n)) ((''{'' @ w0 @ join (CHR '','' # w) (map (member_text f) m) @ w' @ ''}'') @ r) = Some (PDict m, r)" for i r
      using n [unfolded u] by (simp add: k u startswith_def dict_of_distinct [OF assms(5)] del: JSONObject.simps)
  qed (simp add: starts_def json_space_def)
qed

section \<open>Round trips\<close>

text \<open>The values of Python: the keys of a mapping are distinct.\<close>

fun py_keys :: "pyval \<Rightarrow> bool" where
  "py_keys (PList xs) = list_all py_keys xs"
| "py_keys (PDict m) = (distinct (map fst m) \<and> list_all (\<lambda>(_, v). py_keys v) m)"
| "py_keys _ = True"

text \<open>What is assumed of \<open>float.__repr__\<close> and \<open>float\<close> on the finite floats \<open>F\<close>: the text of a float is a number with a
  fraction or an exponent, and it reads as that float.\<close>

definition float_reads :: "(real \<Rightarrow> string) \<Rightarrow> (string \<Rightarrow> real option) \<Rightarrow> real set \<Rightarrow> bool" where
  "float_reads fr fl F = (\<forall>x \<in> F. scan_number fl (fr x) = Some (PFloat x, []))"

lemma reads_float: "float_reads fr fl F \<Longrightarrow> x \<in> F \<Longrightarrow> reads fl (fr x) (PFloat x)"
proof -
  assume "float_reads fr fl F" "x \<in> F"
  then have s: "scan_number fl (fr x) = Some (PFloat x, [])" by (simp add: float_reads_def)
  then obtain ip fp ep where "match_number (fr x) = Some (ip, fp, ep, [])"
    by (auto simp: scan_number_def split: option.splits if_splits)
  from reads_number [OF this s] show ?thesis .
qed

lemma dumps_reads:
  assumes "float_reads fr fl F"
  shows "floats_in F v \<Longrightarrow> py_keys v \<Longrightarrow> reads fl (json_dumps fr v) v"
proof (induction v)
  case (PList xs)
  show ?case
  proof (cases "xs = []")
    case True
    then show ?thesis
      by (auto intro!: readsI [where n = 0] simp: starts_def json_space_def startswith_def skip_ws_def)
  next
    case False
    have "reads fl (''['' @ [] @ join (CHR '','' # '' '') (map (json_dumps fr) xs) @ [] @ '']'') (PList xs)"
      using PList False by (intro reads_array) (auto simp: list_all_iff json_space_def)
    then show ?thesis by simp
  qed
next
  case (PDict m)
  show ?case
  proof (cases "m = []")
    case True
    then show ?thesis
      by (auto intro!: readsI [where n = 0] simp: starts_def json_space_def startswith_def skip_ws_def)
  next
    case False
    have "reads fl (''{'' @ [] @ join (CHR '','' # '' '') (map (member_text (json_dumps fr)) m) @ [] @ ''}'') (PDict m)"
      using PDict False by (intro reads_object) (fastforce simp: list_all_iff json_space_def)+
    then show ?thesis by (simp add: member_text_def)
  qed
qed (use reads_words reads_int reads_string reads_float [OF assms] in auto)

lemma blank_newline: "list_all json_space (newline l)"
  by (simp add: newline_def json_space_def list_all_iff)

lemma indent_reads:
  assumes "float_reads fr fl F"
  shows "floats_in F v \<Longrightarrow> py_keys v \<Longrightarrow> reads fl (json_indent fr l v) v"
proof (induction v arbitrary: l)
  case (PList xs)
  show ?case
  proof (cases "xs = []")
    case True
    then show ?thesis
      by (auto intro!: readsI [where n = 0] simp: starts_def json_space_def startswith_def skip_ws_def)
  next
    case False
    have "reads fl (''['' @ newline (Suc l) @ join (CHR '','' # newline (Suc l)) (map (json_indent fr (Suc l)) xs) @ newline l @ '']'') (PList xs)"
      using PList False by (intro reads_array blank_newline) (auto simp: list_all_iff)
    then show ?thesis using False by simp
  qed
next
  case (PDict m)
  show ?case
  proof (cases "m = []")
    case True
    then show ?thesis
      by (auto intro!: readsI [where n = 0] simp: starts_def json_space_def startswith_def skip_ws_def)
  next
    case False
    have "reads fl (''{'' @ newline (Suc l) @ join (CHR '','' # newline (Suc l)) (map (member_text (json_indent fr (Suc l))) m)
        @ newline l @ ''}'') (PDict m)"
      using PDict False by (intro reads_object blank_newline) (fastforce simp: list_all_iff)+
    then show ?thesis using False by (simp add: member_text_def)
  qed
qed (use reads_words reads_int reads_string reads_float [OF assms] in auto)

lemma loads_dumps:
  assumes "float_reads fr fl F" "floats_in F v" "py_keys v"
  shows "json_loads fl (json_dumps fr v) = Some v" "json_loads fl (json_indent fr l v) = Some v"
  using reads_loads [OF dumps_reads [OF assms], of "[]" "[]"] reads_loads [OF indent_reads [OF assms], of "[]" "[]"] by simp_all

end
