(* ===== verification/States.thy ===== *)
theory States
  imports Errors
begin

text \<open>
  The DroidOS system state machine, \<open>core/states.py\<close>: the states, the graph of legal
  transitions, the machine with its history, and the facts that make it a guard: the states
  from which motion may begin and those that forbid it partition the states, a recorded history
  is a connected path whose unforced edges are legal, and an emergency stop can only be left
  through recovery or a fresh hardware check.
\<close>

section \<open>States and the transition graph\<close>

datatype droid_state =
    POWERED_OFF | BOOTING | HARDWARE_CHECK | SAFE_IDLE | READY | ACTIVE
  | DEGRADED | MOTION_INHIBITED | EMERGENCY_STOPPED | RECOVERY | SHUTTING_DOWN

fun state_value :: "droid_state \<Rightarrow> string" where
  "state_value POWERED_OFF = ''POWERED_OFF''"
| "state_value BOOTING = ''BOOTING''"
| "state_value HARDWARE_CHECK = ''HARDWARE_CHECK''"
| "state_value SAFE_IDLE = ''SAFE_IDLE''"
| "state_value READY = ''READY''"
| "state_value ACTIVE = ''ACTIVE''"
| "state_value DEGRADED = ''DEGRADED''"
| "state_value MOTION_INHIBITED = ''MOTION_INHIBITED''"
| "state_value EMERGENCY_STOPPED = ''EMERGENCY_STOPPED''"
| "state_value RECOVERY = ''RECOVERY''"
| "state_value SHUTTING_DOWN = ''SHUTTING_DOWN''"

definition CONVERSATIONAL :: "droid_state list" where
  "CONVERSATIONAL = [SAFE_IDLE, READY, ACTIVE, DEGRADED, MOTION_INHIBITED]"

definition MOTION_ALLOWED_FROM :: "droid_state list" where
  "MOTION_ALLOWED_FROM = [READY, DEGRADED, ACTIVE]"

definition MOTION_FORBIDDEN :: "droid_state list" where
  "MOTION_FORBIDDEN = [POWERED_OFF, BOOTING, HARDWARE_CHECK, SAFE_IDLE, MOTION_INHIBITED,
     EMERGENCY_STOPPED, RECOVERY, SHUTTING_DOWN]"

fun TRANSITIONS :: "droid_state \<Rightarrow> droid_state list" where
  "TRANSITIONS POWERED_OFF = [BOOTING]"
| "TRANSITIONS BOOTING = [HARDWARE_CHECK, RECOVERY, SHUTTING_DOWN]"
| "TRANSITIONS HARDWARE_CHECK = [SAFE_IDLE, MOTION_INHIBITED, EMERGENCY_STOPPED, RECOVERY]"
| "TRANSITIONS SAFE_IDLE = [READY, MOTION_INHIBITED, EMERGENCY_STOPPED, SHUTTING_DOWN, DEGRADED]"
| "TRANSITIONS READY = [ACTIVE, SAFE_IDLE, DEGRADED, MOTION_INHIBITED, EMERGENCY_STOPPED,
     SHUTTING_DOWN]"
| "TRANSITIONS ACTIVE = [READY, DEGRADED, MOTION_INHIBITED, EMERGENCY_STOPPED, SHUTTING_DOWN]"
| "TRANSITIONS DEGRADED = [READY, ACTIVE, SAFE_IDLE, MOTION_INHIBITED, EMERGENCY_STOPPED,
     SHUTTING_DOWN]"
| "TRANSITIONS MOTION_INHIBITED = [SAFE_IDLE, READY, EMERGENCY_STOPPED, SHUTTING_DOWN]"
| "TRANSITIONS EMERGENCY_STOPPED = [RECOVERY, SHUTTING_DOWN]"
| "TRANSITIONS RECOVERY = [SAFE_IDLE, SHUTTING_DOWN, POWERED_OFF]"
| "TRANSITIONS SHUTTING_DOWN = [POWERED_OFF]"

definition reachable_from :: "droid_state \<Rightarrow> droid_state list" where
  "reachable_from src = TRANSITIONS src"

section \<open>The machine\<close>

type_synonym hist_entry = "droid_state \<times> droid_state \<times> string"

record state_machine =
  cur_state :: droid_state
  history :: "hist_entry list"

definition init_machine :: "droid_state \<Rightarrow> state_machine" where
  "init_machine s = \<lparr>cur_state = s, history = []\<rparr>"

definition can_transition :: "state_machine \<Rightarrow> droid_state \<Rightarrow> bool" where
  "can_transition sm dst = (dst \<in> set (TRANSITIONS (cur_state sm)))"

definition transition :: "state_machine \<Rightarrow> droid_state \<Rightarrow> string \<Rightarrow> state_machine res" where
  "transition sm dst reason =
     (if dst = cur_state sm then Inr sm
      else if \<not> can_transition sm dst
        then Inl (InvalidTransition (state_value (cur_state sm)) (state_value dst))
      else Inr (sm\<lparr>history := history sm @ [(cur_state sm, dst, reason)], cur_state := dst\<rparr>))"

definition force :: "state_machine \<Rightarrow> droid_state \<Rightarrow> string \<Rightarrow> state_machine" where
  "force sm dst reason =
     sm\<lparr>history := history sm @ [(cur_state sm, dst, ''FORCED: '' @ reason)], cur_state := dst\<rparr>"

definition motion_permitted :: "state_machine \<Rightarrow> bool" where
  "motion_permitted sm = (cur_state sm \<in> set MOTION_ALLOWED_FROM)"

definition is_conversational :: "state_machine \<Rightarrow> bool" where
  "is_conversational sm = (cur_state sm \<in> set CONVERSATIONAL)"

section \<open>Steps and histories\<close>

text \<open>A client of the machine changes it only by \<open>transition\<close> and \<open>force\<close>.\<close>

inductive sm_step :: "state_machine \<Rightarrow> state_machine \<Rightarrow> bool" where
  legal: "transition sm dst reason = Inr sm' \<Longrightarrow> sm_step sm sm'"
| forced: "sm_step sm (force sm dst reason)"

inductive_cases sm_stepE: "sm_step sm sm'"

fun connected :: "droid_state \<Rightarrow> hist_entry list \<Rightarrow> droid_state \<Rightarrow> bool" where
  "connected s [] t = (s = t)"
| "connected s ((a, b, r) # es) t = (s = a \<and> connected b es t)"

definition legal_or_forced :: "hist_entry \<Rightarrow> bool" where
  "legal_or_forced e = (case e of (a, b, r) \<Rightarrow> b \<in> set (TRANSITIONS a) \<or> startswith ''FORCED: '' r)"

definition history_ok :: "droid_state \<Rightarrow> state_machine \<Rightarrow> bool" where
  "history_ok s0 sm = (connected s0 (history sm) (cur_state sm) \<and> list_all legal_or_forced (history sm))"

text \<open>A run of \<open>transition\<close> calls that stops at the first exception.\<close>

fun run_transitions :: "state_machine \<Rightarrow> (droid_state \<times> string) list \<Rightarrow> state_machine res" where
  "run_transitions sm [] = Inr sm"
| "run_transitions sm ((dst, r) # ops) =
     (case transition sm dst r of Inl e \<Rightarrow> Inl e | Inr sm' \<Rightarrow> run_transitions sm' ops)"

section \<open>Facts\<close>

lemma transition_Inr_iff:
  "transition sm dst r = Inr sm' \<longleftrightarrow>
     (dst = cur_state sm \<and> sm' = sm) \<or>
     (dst \<noteq> cur_state sm \<and> dst \<in> set (TRANSITIONS (cur_state sm)) \<and>
      sm' = sm\<lparr>history := history sm @ [(cur_state sm, dst, r)], cur_state := dst\<rparr>)"
  by (auto simp: transition_def can_transition_def)

lemma transition_cases [consumes 1, case_names same edge]:
  assumes "transition sm dst r = Inr sm'"
  obtains (same) "dst = cur_state sm" "sm' = sm"
  | (edge) "dst \<in> set (TRANSITIONS (cur_state sm))"
      "sm' = sm\<lparr>history := history sm @ [(cur_state sm, dst, r)], cur_state := dst\<rparr>"
  using assms unfolding transition_Inr_iff by blast

lemma transition_state: "transition sm dst r = Inr sm' \<Longrightarrow> cur_state sm' = dst"
  by (erule transition_cases) simp_all

lemma transition_raises_iff:
  "(\<exists>e. transition sm dst r = Inl e) \<longleftrightarrow> dst \<noteq> cur_state sm \<and> dst \<notin> set (TRANSITIONS (cur_state sm))"
  by (simp add: transition_def can_transition_def)

lemma force_simps [simp]:
  "cur_state (force sm dst r) = dst"
  "history (force sm dst r) = history sm @ [(cur_state sm, dst, ''FORCED: '' @ r)]"
  by (simp_all add: force_def)

lemma no_self_loop: "s \<notin> set (TRANSITIONS s)"
  by (cases s) simp_all

lemma connected_snoc [simp]:
  "connected s (es @ [(a, b, r)]) t \<longleftrightarrow> connected s es a \<and> b = t"
  by (induction s es a rule: connected.induct) auto

lemma startswith_append [simp]: "startswith p (p @ t)"
  by (simp add: startswith_def)

lemma sm_step_history_ok: "sm_step sm sm' \<Longrightarrow> history_ok s0 sm \<Longrightarrow> history_ok s0 sm'"
proof (erule sm_stepE)
  fix dst r
  assume "transition sm dst r = Inr sm'" "history_ok s0 sm"
  then show ?thesis
    by (cases rule: transition_cases) (simp_all add: history_ok_def legal_or_forced_def)
next
  fix dst r
  assume "sm' = force sm dst r" "history_ok s0 sm"
  then show ?thesis
    using startswith_append [of "''FORCED: ''" r] by (simp add: history_ok_def legal_or_forced_def)
qed

interpretation machine: invariant_system sm_step "history_ok s0"
  by unfold_locales (rule sm_step_history_ok)

text \<open>Without forcing, the states reached from an emergency stop before any recovery or
  hardware check are a closed set that allows no motion.\<close>

definition stopped_closure :: "droid_state set" where
  "stopped_closure = {EMERGENCY_STOPPED, SHUTTING_DOWN, POWERED_OFF, BOOTING}"

lemma stopped_closure_step:
  "s \<in> stopped_closure \<Longrightarrow> t \<in> set (TRANSITIONS s) \<Longrightarrow>
     t \<in> stopped_closure \<or> t = RECOVERY \<or> t = HARDWARE_CHECK"
  by (auto simp: stopped_closure_def)

lemma run_transitions_history:
  "run_transitions sm ops = Inr sm' \<Longrightarrow> \<exists>es. history sm' = history sm @ es"
proof (induction sm ops rule: run_transitions.induct)
  case (2 sm dst r ops)
  then obtain sm1 where t: "transition sm dst r = Inr sm1" and run: "run_transitions sm1 ops = Inr sm'"
    by (cases "transition sm dst r") simp_all
  then obtain es where "history sm' = history sm1 @ es" using 2 by blast
  with t show ?case by (cases rule: transition_cases) simp_all
qed simp

lemma run_from_stopped:
  "run_transitions sm ops = Inr sm' \<Longrightarrow> cur_state sm \<in> stopped_closure \<Longrightarrow>
     cur_state sm' \<in> stopped_closure \<or>
     (\<exists>(a, b, r) \<in> set (history sm'). b = RECOVERY \<or> b = HARDWARE_CHECK)"
proof (induction sm ops rule: run_transitions.induct)
  case (2 sm dst r ops)
  then obtain sm1 where t: "transition sm dst r = Inr sm1" and run: "run_transitions sm1 ops = Inr sm'"
    by (cases "transition sm dst r") simp_all
  from t show ?case
  proof (cases rule: transition_cases)
    case same
    with 2 t run show ?thesis by simp
  next
    case edge
    show ?thesis
    proof (cases "dst \<in> stopped_closure")
      case True
      with 2 t run edge show ?thesis by simp
    next
      case False
      with edge stopped_closure_step 2 have "dst = RECOVERY \<or> dst = HARDWARE_CHECK" by blast
      moreover have "(cur_state sm, dst, r) \<in> set (history sm')"
        using run_transitions_history [OF run] edge by auto
      ultimately show ?thesis by blast
    qed
  qed
qed simp

lemma history_ok_init: "history_ok s (init_machine s)"
  by (simp add: history_ok_def init_machine_def)

section \<open>Properties\<close>

text \<open>The states from which motion may begin and the states that forbid motion partition
  the states: every state is in exactly one of the two sets of the source.\<close>

theorem motion_states_partition:
  "motion_permitted sm \<longleftrightarrow> cur_state sm \<notin> set MOTION_FORBIDDEN"
  by (cases "cur_state sm") (simp_all add: motion_permitted_def MOTION_ALLOWED_FROM_def MOTION_FORBIDDEN_def)

text \<open>The history of a machine is an audit trail: after any sequence of \<open>transition\<close> and
  \<open>force\<close> calls it is a connected path from the initial state to the current one, and every edge
  on it is an edge of the transition graph or is marked as forced.\<close>

theorem history_is_audit_trail:
  assumes "sm_step\<^sup>*\<^sup>* (init_machine s) sm"
  shows "connected s (history sm) (cur_state sm)
    \<and> (\<forall>(a, b, r) \<in> set (history sm). b \<in> set (TRANSITIONS a) \<or> startswith ''FORCED: '' r)"
proof -
  have "history_ok s sm" by (rule machine.steps_inv [OF assms history_ok_init])
  then show ?thesis by (auto simp: history_ok_def list_all_iff legal_or_forced_def)
qed

theorem history_is_audit_trail_witness:
  "connected POWERED_OFF
     (history (force (init_machine POWERED_OFF) EMERGENCY_STOPPED ''x''))
     (cur_state (force (init_machine POWERED_OFF) EMERGENCY_STOPPED ''x''))"
proof -
  have "sm_step\<^sup>*\<^sup>* (init_machine POWERED_OFF) (force (init_machine POWERED_OFF) EMERGENCY_STOPPED ''x'')"
    by (rule r_into_rtranclp) (rule sm_step.forced)
  from history_is_audit_trail [OF this] show ?thesis by blast
qed

text \<open>An emergency stop is left only through recovery or a fresh hardware check: if a run of
  \<open>transition\<close> calls starting in EMERGENCY_STOPPED ends in a state that permits motion, then the
  history records that RECOVERY or HARDWARE_CHECK was entered.\<close>

theorem motion_after_estop_needs_recovery:
  assumes "cur_state sm = EMERGENCY_STOPPED" "run_transitions sm ops = Inr sm'" "motion_permitted sm'"
  shows "\<exists>(a, b, r) \<in> set (history sm'). b = RECOVERY \<or> b = HARDWARE_CHECK"
proof -
  have "cur_state sm' \<notin> stopped_closure"
    using assms(3) by (auto simp: motion_permitted_def MOTION_ALLOWED_FROM_def stopped_closure_def)
  then show ?thesis using run_from_stopped [OF assms(2)] assms(1) by (simp add: stopped_closure_def)
qed

theorem motion_after_estop_needs_recovery_witness:
  "\<exists>sm'. run_transitions (init_machine EMERGENCY_STOPPED) [(RECOVERY, ''a''), (SAFE_IDLE, ''b''), (READY, ''c'')] = Inr sm'
     \<and> (\<exists>(a, b, r) \<in> set (history sm'). b = RECOVERY \<or> b = HARDWARE_CHECK)"
proof -
  let ?ops = "[(RECOVERY, ''a''), (SAFE_IDLE, ''b''), (READY, ''c'')]"
  obtain sm' where run: "run_transitions (init_machine EMERGENCY_STOPPED) ?ops = Inr sm'"
    and st: "cur_state sm' = READY"
    by (simp add: transition_def can_transition_def init_machine_def)
  have "motion_permitted sm'" by (simp add: motion_permitted_def MOTION_ALLOWED_FROM_def st)
  with run motion_after_estop_needs_recovery [OF _ run] show ?thesis by (simp add: init_machine_def)
qed

end
