(* ===== verification/SafetyController.thy ===== *)
theory SafetyController
  imports Errors
begin

text \<open>
  The simulated independent safety controller, \<open>backends/safety_controller.py\<close>: the device
  that owns the motor-power contactor. Its state is a record, its methods are functions on the
  record, and a method that reads \<open>time.time()\<close> takes the reading as an argument. The Python
  set of faults is a list without repetitions; every reader of it tests membership or
  emptiness, or sorts it.

  The facts: the contactor is closed only while the controller is alive, linked, fault free and
  not stopped, whatever sequence of calls is made; a status report says that movement is
  permitted exactly when the contactor is closed; and an engaged emergency stop stays engaged,
  with power off, until it is reset.
\<close>

section \<open>The reported state\<close>

record safety_status =
  st_alive :: bool
  st_estop_engaged :: bool
  st_power_enabled :: bool
  st_watchdog_ok :: bool
  st_faults :: "string list"
  st_last_host_contact_age_s :: real

definition movement_permitted :: "safety_status \<Rightarrow> bool" where
  "movement_permitted st = (st_alive st \<and> st_watchdog_ok st \<and> \<not> st_estop_engaged st
     \<and> st_faults st = [] \<and> st_power_enabled st)"

definition status_healthy :: "safety_status \<Rightarrow> bool" where
  "status_healthy st = (st_alive st \<and> st_watchdog_ok st \<and> \<not> st_estop_engaged st \<and> st_faults st = [])"

definition status_to_dict :: "safety_status \<Rightarrow> pydict" where
  "status_to_dict st =
     [(''alive'', PBool (st_alive st)),
      (''estop_engaged'', PBool (st_estop_engaged st)),
      (''power_enabled'', PBool (st_power_enabled st)),
      (''watchdog_ok'', PBool (st_watchdog_ok st)),
      (''faults'', PList (map PStr (st_faults st))),
      (''movement_permitted'', PBool (movement_permitted st)),
      (''last_host_contact_age_s'', PFloat (py_round (st_last_host_contact_age_s st) 3))]"

section \<open>The controller\<close>

record controller =
  c_alive :: bool
  c_estop :: bool
  c_power :: bool
  c_faults :: "string list"
  c_watchdog_timeout :: real
  c_last_contact :: real
  c_link_up :: bool

definition init_controller :: "real \<Rightarrow> real \<Rightarrow> controller" where
  "init_controller watchdog_timeout_s t =
     \<lparr>c_alive = True, c_estop = False, c_power = False, c_faults = [],
      c_watchdog_timeout = watchdog_timeout_s, c_last_contact = t, c_link_up = True\<rparr>"

definition ctl_heartbeat :: "real \<Rightarrow> controller \<Rightarrow> controller" where
  "ctl_heartbeat t c = c\<lparr>c_last_contact := t\<rparr>"

text \<open>\<open>now = now or time.time()\<close>: a missing or zero argument falls back to the clock.\<close>

definition pick_now :: "real option \<Rightarrow> real \<Rightarrow> real" where
  "pick_now now t = (case now of None \<Rightarrow> t | Some n \<Rightarrow> if n = 0 then t else n)"

definition check_watchdog :: "real option \<Rightarrow> real \<Rightarrow> controller \<Rightarrow> controller" where
  "check_watchdog now t c =
     (let age = pick_now now t - c_last_contact c in
      if \<not> c_link_up c \<or> age > c_watchdog_timeout c then c\<lparr>c_power := False\<rparr> else c)"

definition set_link :: "bool \<Rightarrow> controller \<Rightarrow> controller" where
  "set_link up c = (let c1 = c\<lparr>c_link_up := up\<rparr> in if \<not> up then c1\<lparr>c_power := False\<rparr> else c1)"

definition link_up :: "controller \<Rightarrow> bool" where
  "link_up c = c_link_up c"

definition ctl_engage_estop :: "string \<Rightarrow> controller \<Rightarrow> controller" where
  "ctl_engage_estop reason c =
     (let c1 = c\<lparr>c_estop := True, c_power := False\<rparr> in
      if reason \<noteq> [] then c1\<lparr>c_faults := List.insert (''estop:'' @ reason) (c_faults c1)\<rparr> else c1)"

definition ctl_reset_estop :: "controller \<Rightarrow> controller" where
  "ctl_reset_estop c =
     c\<lparr>c_estop := False, c_faults := filter (\<lambda>f. \<not> startswith ''estop:'' f) (c_faults c)\<rparr>"

definition request_power_enable :: "controller \<Rightarrow> bool \<times> controller" where
  "request_power_enable c =
     (if c_estop c \<or> \<not> c_alive c \<or> c_faults c \<noteq> [] \<or> \<not> c_link_up c then (False, c)
      else (True, c\<lparr>c_power := True\<rparr>))"

definition disable_power :: "controller \<Rightarrow> controller" where
  "disable_power c = c\<lparr>c_power := False\<rparr>"

definition ctl_report_fault :: "string \<Rightarrow> controller \<Rightarrow> controller" where
  "ctl_report_fault name c = c\<lparr>c_faults := List.insert name (c_faults c), c_power := False\<rparr>"

definition clear_fault :: "string \<Rightarrow> controller \<Rightarrow> controller" where
  "clear_fault name c = c\<lparr>c_faults := removeAll name (c_faults c)\<rparr>"

definition clear_all_faults :: "controller \<Rightarrow> controller" where
  "clear_all_faults c = c\<lparr>c_faults := filter (startswith ''estop:'') (c_faults c)\<rparr>"

definition ctl_status :: "real option \<Rightarrow> real \<Rightarrow> controller \<Rightarrow> safety_status \<times> controller" where
  "ctl_status now t c =
     (let n = pick_now now t;
          c1 = check_watchdog (Some n) t c
      in (\<lparr>st_alive = c_alive c1 \<and> c_link_up c1,
           st_estop_engaged = c_estop c1,
           st_power_enabled = c_power c1,
           st_watchdog_ok = (n - c_last_contact c1 \<le> c_watchdog_timeout c1 \<and> c_link_up c1),
           st_faults = sort (c_faults c1),
           st_last_host_contact_age_s = n - c_last_contact c1\<rparr>, c1))"

section \<open>Sequences of calls\<close>

datatype ctl_op =
    Heartbeat real
  | CheckWatchdog "real option" real
  | SetLink bool
  | EngageEstop string
  | ResetEstop
  | RequestPowerEnable
  | DisablePower
  | ReportFault string
  | ClearFault string
  | ClearAllFaults
  | QueryStatus "real option" real

fun ctl_exec :: "ctl_op \<Rightarrow> controller \<Rightarrow> controller" where
  "ctl_exec (Heartbeat t) c = ctl_heartbeat t c"
| "ctl_exec (CheckWatchdog now t) c = check_watchdog now t c"
| "ctl_exec (SetLink up) c = set_link up c"
| "ctl_exec (EngageEstop r) c = ctl_engage_estop r c"
| "ctl_exec ResetEstop c = ctl_reset_estop c"
| "ctl_exec RequestPowerEnable c = snd (request_power_enable c)"
| "ctl_exec DisablePower c = disable_power c"
| "ctl_exec (ReportFault n) c = ctl_report_fault n c"
| "ctl_exec (ClearFault n) c = clear_fault n c"
| "ctl_exec ClearAllFaults c = clear_all_faults c"
| "ctl_exec (QueryStatus now t) c = snd (ctl_status now t c)"

definition ctl_run :: "ctl_op list \<Rightarrow> controller \<Rightarrow> controller" where
  "ctl_run ops c = fold ctl_exec ops c"

definition ctl_step :: "controller \<Rightarrow> controller \<Rightarrow> bool" where
  "ctl_step c c' = (\<exists>op. c' = ctl_exec op c)"

text \<open>The contactor invariant.\<close>

definition power_safe :: "controller \<Rightarrow> bool" where
  "power_safe c = (c_power c \<longrightarrow> c_alive c \<and> \<not> c_estop c \<and> c_faults c = [] \<and> c_link_up c)"

section \<open>Facts\<close>

lemmas ctl_defs [record_defs] =
  ctl_heartbeat_def check_watchdog_def set_link_def ctl_engage_estop_def ctl_reset_estop_def
  request_power_enable_def disable_power_def ctl_report_fault_def clear_fault_def
  clear_all_faults_def ctl_status_def

lemma sort_eq_Nil [simp]: "sort xs = [] \<longleftrightarrow> xs = []"
  by (metis set_empty set_sort)

lemma insert_neq_Nil [simp]: "List.insert x xs \<noteq> []"
  by (auto simp: List.insert_def)

lemma power_safe_init: "power_safe (init_controller w t)"
  by (simp add: power_safe_def init_controller_def)

lemma ctl_exec_power_safe: "power_safe c \<Longrightarrow> power_safe (ctl_exec op c)"
  by (cases op) (auto simp: power_safe_def ctl_defs Let_def)

interpretation controller: invariant_system ctl_step power_safe
  by unfold_locales (auto simp: ctl_step_def intro: ctl_exec_power_safe)

lemma ctl_run_steps: "ctl_step\<^sup>*\<^sup>* c (ctl_run ops c)"
proof (induction ops arbitrary: c)
  case Nil
  then show ?case by (simp add: ctl_run_def)
next
  case (Cons op ops)
  have "ctl_step c (ctl_exec op c)" by (auto simp: ctl_step_def)
  moreover have "ctl_run (op # ops) c = ctl_run ops (ctl_exec op c)" by (simp add: ctl_run_def)
  ultimately show ?case using Cons by (metis converse_rtranclp_into_rtranclp)
qed

lemma ctl_run_power_safe: "power_safe c \<Longrightarrow> power_safe (ctl_run ops c)"
  by (rule controller.steps_inv [OF ctl_run_steps])

lemma check_watchdog_fields [simp, keeps]:
  "c_alive (check_watchdog n t c) = c_alive c"
  "c_estop (check_watchdog n t c) = c_estop c"
  "c_faults (check_watchdog n t c) = c_faults c"
  "c_watchdog_timeout (check_watchdog n t c) = c_watchdog_timeout c"
  "c_last_contact (check_watchdog n t c) = c_last_contact c"
  "c_link_up (check_watchdog n t c) = c_link_up c"
  by (simp_all add: check_watchdog_def Let_def)

lemma ctl_status_state [simp]: "snd (ctl_status now t c) = check_watchdog (Some (pick_now now t)) t c"
  by (simp add: ctl_status_def Let_def)

lemma pick_now_idem [simp]: "pick_now (Some (pick_now now t)) t = pick_now now t"
  by (auto simp: pick_now_def split: option.splits)

text \<open>After a status query the contactor is open unless the watchdog is satisfied.\<close>

lemma ctl_status_power_watchdog:
  "st_power_enabled (fst (ctl_status now t c)) \<Longrightarrow> st_watchdog_ok (fst (ctl_status now t c))"
  by (auto simp: ctl_status_def check_watchdog_def Let_def split: if_splits)

lemma engaged_stays:
  "c_estop c \<Longrightarrow> \<not> c_power c \<Longrightarrow> op \<noteq> ResetEstop \<Longrightarrow>
     c_estop (ctl_exec op c) \<and> \<not> c_power (ctl_exec op c)"
  by (cases op) (auto simp: ctl_defs Let_def)

lemma engaged_stays_run:
  "c_estop c \<Longrightarrow> \<not> c_power c \<Longrightarrow> ResetEstop \<notin> set ops \<Longrightarrow>
     c_estop (ctl_run ops c) \<and> \<not> c_power (ctl_run ops c)"
proof (induction ops arbitrary: c)
  case Nil
  then show ?case by (simp add: ctl_run_def)
next
  case (Cons op ops)
  then have "c_estop (ctl_exec op c) \<and> \<not> c_power (ctl_exec op c)"
    by (intro engaged_stays) auto
  with Cons show ?case by (simp add: ctl_run_def)
qed

section \<open>Properties\<close>

text \<open>C1. The motor-power contactor is closed only in a safe controller: from the freshly
  constructed controller, after any sequence of calls, power on implies that the controller is
  alive, its host link is up, no emergency stop is engaged and no fault is latched.\<close>

theorem contactor_closed_only_when_safe:
  "c_power (ctl_run ops (init_controller w t)) \<longrightarrow>
     c_alive (ctl_run ops (init_controller w t)) \<and> \<not> c_estop (ctl_run ops (init_controller w t))
     \<and> c_faults (ctl_run ops (init_controller w t)) = [] \<and> c_link_up (ctl_run ops (init_controller w t))"
  using ctl_run_power_safe [OF power_safe_init, of ops w t] by (simp add: power_safe_def)

theorem contactor_closed_only_when_safe_witness:
  "c_power (ctl_run [Heartbeat 5, RequestPowerEnable] (init_controller 1 0)) \<and>
   c_faults (ctl_run [Heartbeat 5, RequestPowerEnable] (init_controller 1 0)) = []"
proof -
  have "c_power (ctl_run [Heartbeat 5, RequestPowerEnable] (init_controller 1 0))"
    by (simp add: ctl_run_def ctl_defs init_controller_def)
  then show ?thesis
    using contactor_closed_only_when_safe [of "[Heartbeat 5, RequestPowerEnable]" 1 0] by simp
qed

text \<open>A status report of a controller whose contactor invariant holds says that movement is
  permitted exactly when the contactor is (still) closed: the five conditions of
  \<open>movement_permitted\<close> never disagree with the power state the report carries.\<close>

theorem movement_permitted_iff_power:
  assumes "power_safe c"
  shows "movement_permitted (fst (ctl_status now t c)) \<longleftrightarrow> st_power_enabled (fst (ctl_status now t c))"
proof
  assume "st_power_enabled (fst (ctl_status now t c))"
  then show "movement_permitted (fst (ctl_status now t c))"
    using assms ctl_status_power_watchdog [of now t c]
    by (auto simp: movement_permitted_def ctl_status_def Let_def power_safe_def check_watchdog_def
        split: if_splits)
qed (simp add: movement_permitted_def)

theorem movement_permitted_iff_power_witness:
  "power_safe (snd (request_power_enable (init_controller 1 0))) \<and>
   movement_permitted (fst (ctl_status None (1/2) (snd (request_power_enable (init_controller 1 0)))))"
proof -
  let ?c = "snd (request_power_enable (init_controller 1 0))"
  have safe: "power_safe ?c"
    by (simp add: power_safe_def request_power_enable_def init_controller_def)
  have "st_power_enabled (fst (ctl_status None (1/2) ?c))"
    by (simp add: ctl_status_def check_watchdog_def request_power_enable_def init_controller_def
        pick_now_def Let_def)
  then show ?thesis using safe movement_permitted_iff_power [OF safe] by blast
qed

text \<open>C12. An emergency stop latches: after \<open>engage_estop\<close>, any sequence of calls that does not
  contain \<open>reset_estop\<close> (heartbeats, fault clearing, link changes, power requests) leaves the
  stop engaged and the contactor open.\<close>

theorem estop_latches:
  assumes "ResetEstop \<notin> set ops"
  shows "c_estop (ctl_run ops (ctl_engage_estop reason c)) \<and>
         \<not> c_power (ctl_run ops (ctl_engage_estop reason c))"
  by (rule engaged_stays_run [OF _ _ assms]) (simp_all add: ctl_engage_estop_def Let_def)

theorem estop_latches_witness:
  "\<not> c_power (ctl_run [ClearAllFaults, ClearFault ''estop:x'', RequestPowerEnable]
       (ctl_engage_estop ''x'' (init_controller 1 0)))"
  using estop_latches [of "[ClearAllFaults, ClearFault ''estop:x'', RequestPowerEnable]" "''x''"
      "init_controller 1 0"] by simp

end
