(* ===== verification/Lifecycle.thy ===== *)
theory Lifecycle
  imports Models
begin

text \<open>
  The managed-service lifecycle, \<open>services/lifecycle.py\<close>. A service is its lifecycle record;
  what its four hooks do to the rest of the system is a function on a world \<open>'w\<close>, so that the
  base class is modelled once and each concrete service supplies its hooks. A hook returns a
  boolean or raises; \<open>guard\<close> turns the raise into \<open>False\<close>, \<open>last_error\<close> and an error line.
\<close>

section \<open>The base class\<close>

datatype lifecycle_state = LC_UNCONFIGURED | LC_INACTIVE | LC_ACTIVE | LC_FINALIZED

fun lifecycle_value :: "lifecycle_state \<Rightarrow> string" where
  "lifecycle_value LC_UNCONFIGURED = ''UNCONFIGURED''"
| "lifecycle_value LC_INACTIVE = ''INACTIVE''"
| "lifecycle_value LC_ACTIVE = ''ACTIVE''"
| "lifecycle_value LC_FINALIZED = ''FINALIZED''"

record managed_service =
  svc_name :: string
  svc_state :: lifecycle_state
  restart_count :: nat
  last_error :: string

definition new_service :: "string \<Rightarrow> managed_service" where
  "new_service name = \<lparr>svc_name = name, svc_state = LC_UNCONFIGURED, restart_count = 0, last_error = []\<rparr>"

type_synonym 'w hook = "'w \<Rightarrow> bool res \<times> 'w"

record 'w hooks =
  on_configure :: "'w hook"
  on_activate :: "'w hook"
  on_deactivate :: "'w hook"
  on_cleanup :: "'w hook"
  log_error :: "string \<Rightarrow> 'w \<Rightarrow> 'w"

text \<open>The hooks of the base class all return \<open>True\<close>.\<close>

definition trivial_hook :: "'w hook" where
  "trivial_hook w = (Inr True, w)"

definition guard :: "'w hooks \<Rightarrow> 'w hook \<Rightarrow> managed_service \<Rightarrow> 'w \<Rightarrow> bool \<times> managed_service \<times> 'w" where
  "guard h fn s w =
     (case fn w of
        (Inr b, w1) \<Rightarrow> (b, s\<lparr>last_error := []\<rparr>, w1)
      | (Inl e, w1) \<Rightarrow>
          (False, s\<lparr>last_error := exn_report e\<rparr>, log_error h (svc_name s @ '': '' @ exn_report e) w1))"

definition configure :: "'w hooks \<Rightarrow> managed_service \<Rightarrow> 'w \<Rightarrow> bool \<times> managed_service \<times> 'w" where
  "configure h s w =
     (if svc_state s \<notin> {LC_UNCONFIGURED, LC_INACTIVE} then (svc_state s = LC_INACTIVE, s, w)
      else case guard h (on_configure h) s w of
        (ok, s1, w1) \<Rightarrow> (ok, if ok then s1\<lparr>svc_state := LC_INACTIVE\<rparr> else s1, w1))"

definition activate :: "'w hooks \<Rightarrow> managed_service \<Rightarrow> 'w \<Rightarrow> bool \<times> managed_service \<times> 'w" where
  "activate h s w =
     (if svc_state s = LC_ACTIVE then (True, s, w)
      else case (if svc_state s \<noteq> LC_INACTIVE then configure h s w else (True, s, w)) of
        (conf, s1, w1) \<Rightarrow>
          if \<not> conf then (False, s1, w1)
          else case guard h (on_activate h) s1 w1 of
            (ok, s2, w2) \<Rightarrow> (ok, if ok then s2\<lparr>svc_state := LC_ACTIVE\<rparr> else s2, w2))"

definition deactivate :: "'w hooks \<Rightarrow> managed_service \<Rightarrow> 'w \<Rightarrow> bool \<times> managed_service \<times> 'w" where
  "deactivate h s w =
     (if svc_state s \<noteq> LC_ACTIVE then (True, s, w)
      else case guard h (on_deactivate h) s w of
        (ok, s1, w1) \<Rightarrow> (ok, if ok then s1\<lparr>svc_state := LC_INACTIVE\<rparr> else s1, w1))"

definition cleanup :: "'w hooks \<Rightarrow> managed_service \<Rightarrow> 'w \<Rightarrow> bool \<times> managed_service \<times> 'w" where
  "cleanup h s w =
     (case guard h (on_cleanup h) s w of (_, s1, w1) \<Rightarrow> (True, s1\<lparr>svc_state := LC_UNCONFIGURED\<rparr>, w1))"

text \<open>\<open>shutdown\<close> calls the cleanup hook unguarded: a raise propagates, after the \<open>finally\<close>.\<close>

definition shutdown_service :: "'w hooks \<Rightarrow> managed_service \<Rightarrow> 'w \<Rightarrow> unit res \<times> managed_service \<times> 'w" where
  "shutdown_service h s w =
     (case (if svc_state s = LC_ACTIVE then deactivate h s w else (True, s, w)) of
        (_, s1, w1) \<Rightarrow>
          (case on_cleanup h w1 of
             (r, w2) \<Rightarrow> (map_sum id (\<lambda>_. ()) r, s1\<lparr>svc_state := LC_FINALIZED\<rparr>, w2)))"

definition restart :: "'w hooks \<Rightarrow> managed_service \<Rightarrow> 'w \<Rightarrow> bool \<times> managed_service \<times> 'w" where
  "restart h s w =
     (case cleanup h (s\<lparr>restart_count := restart_count s + 1\<rparr>) w of (_, s1, w1) \<Rightarrow> activate h s1 w1)"

definition service_diagnostics :: "managed_service \<Rightarrow> diagnostic_status list" where
  "service_diagnostics s =
     (let level = (if svc_state s = LC_ACTIVE then OK else WARN);
          msg = lifecycle_value (svc_state s)
                  @ (if last_error s \<noteq> [] then '' ('' @ last_error s @ '')'' else [])
      in [\<lparr>d_name = ''service/'' @ svc_name s,
           d_level = (if svc_state s \<noteq> LC_UNCONFIGURED then level else WARN),
           d_message = msg, d_hardware_id = [],
           d_values = [(''state'', PStr (lifecycle_value (svc_state s))),
                       (''restart_count'', PInt (int (restart_count s)))]\<rparr>])"

section \<open>The hook contract\<close>

text \<open>What the lifecycle needs of a service's hooks to keep a property \<open>P\<close> of the world: each
  hook keeps it, whether it returns or raises, and so does writing an error line. Every
  lifecycle operation then keeps it.\<close>

locale hook_contract =
  fixes h :: "'w hooks" and P :: "'w \<Rightarrow> bool"
  assumes configure_keeps: "P w \<Longrightarrow> P (snd (on_configure h w))"
    and activate_keeps: "P w \<Longrightarrow> P (snd (on_activate h w))"
    and deactivate_keeps: "P w \<Longrightarrow> P (snd (on_deactivate h w))"
    and cleanup_keeps: "P w \<Longrightarrow> P (snd (on_cleanup h w))"
    and log_keeps: "P w \<Longrightarrow> P (log_error h msg w)"
begin

lemma guard_keeps: "P (snd (fn w)) \<Longrightarrow> P (snd (snd (guard h fn s w)))"
  by (cases "fn w"; cases "fst (fn w)") (simp_all add: guard_def log_keeps)

lemma configure_svc_keeps: "P w \<Longrightarrow> P (snd (snd (configure h s w)))"
  by (simp add: configure_def case_prod_beta guard_keeps configure_keeps)

lemma activate_svc_keeps: "P w \<Longrightarrow> P (snd (snd (activate h s w)))"
  by (simp add: activate_def case_prod_beta guard_keeps activate_keeps configure_svc_keeps)

lemma deactivate_svc_keeps: "P w \<Longrightarrow> P (snd (snd (deactivate h s w)))"
  by (simp add: deactivate_def case_prod_beta guard_keeps deactivate_keeps)

lemma cleanup_svc_keeps: "P w \<Longrightarrow> P (snd (snd (cleanup h s w)))"
  by (simp add: cleanup_def case_prod_beta guard_keeps cleanup_keeps)

lemma shutdown_svc_keeps: "P w \<Longrightarrow> P (snd (snd (shutdown_service h s w)))"
  by (simp add: shutdown_service_def case_prod_beta cleanup_keeps deactivate_svc_keeps)

lemma restart_svc_keeps: "P w \<Longrightarrow> P (snd (snd (restart h s w)))"
  by (simp add: restart_def case_prod_beta activate_svc_keeps cleanup_svc_keeps)

end

section \<open>Facts\<close>

lemma guard_service [keeps]:
  "svc_state (fst (snd (guard h fn s w))) = svc_state s"
  "svc_name (fst (snd (guard h fn s w))) = svc_name s"
  "restart_count (fst (snd (guard h fn s w))) = restart_count s"
  by (cases "fn w"; cases "fst (fn w)"; simp add: guard_def)+

lemma configure_service [keeps]:
  "svc_state (fst (snd (configure h s w))) = (if fst (configure h s w) then LC_INACTIVE else svc_state s)"
  "svc_name (fst (snd (configure h s w))) = svc_name s"
  "restart_count (fst (snd (configure h s w))) = restart_count s"
  by (cases "svc_state s"; simp add: configure_def case_prod_beta guard_service)+

lemma activate_service [keeps]:
  "svc_name (fst (snd (activate h s w))) = svc_name s"
  "restart_count (fst (snd (activate h s w))) = restart_count s"
  by (simp_all add: activate_def case_prod_beta guard_service configure_service)

lemma activate_active: "svc_state s = LC_ACTIVE \<Longrightarrow> activate h s w = (True, s, w)"
  by (simp add: activate_def)

lemma restart_service [keeps]:
  "svc_name (fst (snd (restart h s w))) = svc_name s"
  "restart_count (fst (snd (restart h s w))) = Suc (restart_count s)"
  by (simp_all add: restart_def cleanup_def case_prod_beta guard_service activate_service)

section \<open>Properties\<close>

text \<open>Activation reports the truth: \<open>activate\<close> returns \<open>True\<close> exactly when the service is
  ACTIVE afterwards, whatever its hooks do (return False, raise, or succeed) and whatever state
  it started from.\<close>

theorem activate_reports_state:
  "fst (activate h s w) \<longleftrightarrow> svc_state (fst (snd (activate h s w))) = LC_ACTIVE"
  by (cases "svc_state s")
    (simp_all add: activate_def case_prod_beta guard_service configure_service)

text \<open>A finalized service stays finalized: once shut down, \<open>configure\<close>, \<open>activate\<close> and
  \<open>deactivate\<close> leave it FINALIZED and run no hook; and \<open>shutdown\<close> finalizes it even when its
  cleanup hook raises.\<close>

theorem shutdown_finalizes:
  "svc_state (fst (snd (shutdown_service h s w))) = LC_FINALIZED \<and>
   configure h (fst (snd (shutdown_service h s w))) w1 = (False, fst (snd (shutdown_service h s w)), w1) \<and>
   activate h (fst (snd (shutdown_service h s w))) w1 = (False, fst (snd (shutdown_service h s w)), w1) \<and>
   deactivate h (fst (snd (shutdown_service h s w))) w1 = (True, fst (snd (shutdown_service h s w)), w1)"
proof -
  have "svc_state (fst (snd (shutdown_service h s w))) = LC_FINALIZED"
    by (simp add: shutdown_service_def case_prod_beta)
  then show ?thesis by (simp add: configure_def activate_def deactivate_def)
qed

end
