(* ===== verification/Body.thy ===== *)
theory Body
  imports Models
begin

text \<open>
  Body packages: the capability registry (\<open>body/capabilities.py\<close>), limits, sensors and manifest
  (\<open>body/manifest.py\<close>) and the loaded body with its static validation (\<open>body/loader.py\<close>).

  The values are those of a loaded package: a capability is a boolean, a number or the literal
  \<open>experimental\<close> (the three kinds the source names), the leaves of the limits are numbers, and
  the signature is a dictionary of dynamic values. Reading a package from its YAML files is not
  modelled here.
\<close>

section \<open>Capabilities\<close>

datatype cap_value = CapBool bool | CapNum real | CapExperimental

type_synonym cap_category = "(string \<times> cap_value) list"

record capabilities =
  caps_raw :: "(string \<times> cap_category) list"

definition category :: "capabilities \<Rightarrow> string \<Rightarrow> cap_category" where
  "category c name = dict_get (caps_raw c) name []"

definition cap_get :: "capabilities \<Rightarrow> string \<Rightarrow> string \<Rightarrow> cap_value \<Rightarrow> cap_value" where
  "cap_get c cat key dflt = dict_get (category c cat) key dflt"

definition locomotion_mode :: "capabilities \<Rightarrow> string \<Rightarrow> cap_value" where
  "locomotion_mode c mode = cap_get c ''locomotion'' mode (CapBool False)"

definition can_do :: "capabilities \<Rightarrow> string \<Rightarrow> bool" where
  "can_do c mode = (locomotion_mode c mode = CapBool True)"

definition is_experimental :: "capabilities \<Rightarrow> string \<Rightarrow> bool" where
  "is_experimental c mode = (locomotion_mode c mode = CapExperimental)"

definition supports_motion :: "capabilities \<Rightarrow> bool" where
  "supports_motion c = (can_do c ''walk'' \<or> can_do c ''roll'')"

fun cap_truthy :: "cap_value \<Rightarrow> bool" where
  "cap_truthy (CapBool b) = b"
| "cap_truthy (CapNum r) = (r \<noteq> 0)"
| "cap_truthy CapExperimental = True"

text \<open>\<open>float(v or 0.0)\<close>: the literal \<open>experimental\<close> does not convert.\<close>

fun cap_float :: "cap_value \<Rightarrow> real res" where
  "cap_float (CapBool b) = Inr (if b then 1 else 0)"
| "cap_float (CapNum r) = Inr r"
| "cap_float CapExperimental = Inl (ValueError (''could not convert string to float: '' @ repr_str ''experimental''))"

definition max_speed :: "capabilities \<Rightarrow> real res" where
  "max_speed c = cap_float (cap_get c ''locomotion'' ''maximum_speed_mps'' (CapNum 0))"

definition has_perception :: "capabilities \<Rightarrow> string \<Rightarrow> bool" where
  "has_perception c key = cap_truthy (cap_get c ''perception'' key (CapBool False))"

definition has_manipulation :: "capabilities \<Rightarrow> string \<Rightarrow> bool" where
  "has_manipulation c key = cap_truthy (cap_get c ''manipulation'' key (CapBool False))"

definition max_payload_kg :: "capabilities \<Rightarrow> real res" where
  "max_payload_kg c = cap_float (cap_get c ''manipulation'' ''maximum_payload_kg'' (CapNum 0))"

definition posture :: "capabilities \<Rightarrow> string \<Rightarrow> bool" where
  "posture c key = cap_truthy (cap_get c ''posture'' key (CapBool False))"

definition locomotion_summary :: "capabilities \<Rightarrow> string res" where
  "locomotion_summary c =
     (let loco = category c ''locomotion'' in
      if loco = [] then Inr ''no locomotion''
      else
        let modes = filter (\<lambda>m. map_of loco m = Some (CapBool True))
                      [''walk'', ''roll'', ''reverse'', ''turn_in_place''];
            ex = filter (\<lambda>m. map_of loco m = Some CapExperimental) (map fst loco);
            parts = (if modes \<noteq> [] then [join '', '' modes] else [])
                      @ (if ex \<noteq> [] then [''experimental: '' @ join '', '' ex] else [])
        in case max_speed c of
             Inl e \<Rightarrow> Inl e
           | Inr speed \<Rightarrow>
               let parts2 = (if speed \<noteq> 0 then parts @ [''up to '' @ fmt_fixed 2 speed @ '' m/s''] else parts)
               in Inr (if parts2 \<noteq> [] then join ''; '' parts2 else ''no locomotion''))"

section \<open>Limits, sensors, gait policy, manifest\<close>

record sensor_spec =
  s_id :: string
  s_type :: string
  s_topic :: string
  s_rate_hz :: real
  s_required :: bool
  s_extra :: pydict

record body_limits =
  l_battery :: "(string \<times> real) list"
  l_thermal :: "(string \<times> real) list"
  l_velocity :: "(string \<times> real) list"
  l_payload :: "(string \<times> real) list"
  l_joints :: pydict

definition battery_motion_minimum :: "body_limits \<Rightarrow> real" where
  "battery_motion_minimum l = dict_get (l_battery l) ''motion_minimum_percent'' 20"

definition motor_fault_temp :: "body_limits \<Rightarrow> real" where
  "motor_fault_temp l = dict_get (l_thermal l) ''motor_fault_temp_c'' 85"

definition motor_warn_temp :: "body_limits \<Rightarrow> real" where
  "motor_warn_temp l = dict_get (l_thermal l) ''motor_warn_temp_c'' 70"

definition max_linear :: "body_limits \<Rightarrow> real" where
  "max_linear l = dict_get (l_velocity l) ''max_linear_mps'' 0"

definition max_angular :: "body_limits \<Rightarrow> real" where
  "max_angular l = dict_get (l_velocity l) ''max_angular_rps'' 0"

record gait_policy_spec =
  g_file :: string
  g_checksum :: string
  g_format :: string
  g_control_rate_hz :: real
  g_supported_body_revision :: string
  g_approved_for_physical :: bool

record body_manifest =
  body_id :: string
  m_name :: string
  model_family :: string
  revision :: string
  interface_revision :: string
  locomotion_type :: string
  description :: string
  hardware_profile :: string
  m_files :: "(string \<times> string) list"
  required_sensors :: "string list"
  required_actuators :: "string list"
  m_gait_policy :: "gait_policy_spec option"
  signature :: pydict
  directory :: "string option"

definition VALID_LOCOMOTION :: "string list" where
  "VALID_LOCOMOTION = [''biped'', ''differential'', ''omni'', ''tracked'', ''stationary'', ''manipulator'']"

text \<open>\<open>directory / name\<close>: an absolute name replaces the directory.\<close>

definition path_join :: "string \<Rightarrow> string \<Rightarrow> string" where
  "path_join dir name = (if startswith [CHR 0x2F] name then name else dir @ [CHR 0x2F] @ name)"

definition file_path :: "body_manifest \<Rightarrow> string \<Rightarrow> string option" where
  "file_path m key =
     (case map_of (m_files m) key of
        None \<Rightarrow> None
      | Some name \<Rightarrow>
          if name = [] then None
          else (case directory m of None \<Rightarrow> None | Some dir \<Rightarrow> Some (path_join dir name)))"

section \<open>The loaded body and its static validation\<close>

record loaded_body =
  manifest :: body_manifest
  caps :: capabilities
  limits :: body_limits
  sensors :: "sensor_spec list"
  backend_kind :: string
  issues :: "string list"

definition sensor_ids :: "loaded_body \<Rightarrow> string list" where
  "sensor_ids b = map s_id (sensors b)"

text \<open>\<open>str(m.signature.get("value", "")).startswith("PLACEHOLDER")\<close>: only a string prints with
  that prefix.\<close>

definition placeholder_signature :: "pydict \<Rightarrow> bool" where
  "placeholder_signature sig =
     (sig = [] \<or> (case dict_get sig ''value'' (PStr []) of
                    PStr s \<Rightarrow> startswith ''PLACEHOLDER'' s | _ \<Rightarrow> False))"

definition gait_spec_issues :: "loaded_body \<Rightarrow> string list" where
  "gait_spec_issues b =
     (case m_gait_policy (manifest b) of
        None \<Rightarrow> [''biped body has no gait_policy declared'']
      | Some gp \<Rightarrow>
          (if g_checksum gp = [] then [''gait policy has no checksum''] else [])
          @ (if g_supported_body_revision gp \<noteq> [] \<and> g_supported_body_revision gp \<noteq> revision (manifest b)
             then [''gait policy is for revision '' @ repr_str (g_supported_body_revision gp)
                   @ '', body is '' @ repr_str (revision (manifest b))] else [])
          @ (if backend_kind b = ''physical'' \<and> \<not> g_approved_for_physical gp
             then [''gait policy is not approved for physical operation''] else []))"

definition static_validate :: "loaded_body \<Rightarrow> string list" where
  "static_validate b =
     (let m = manifest b;
          loco = category (caps b) ''locomotion''
      in map (\<lambda>req. ''required sensor '' @ repr_str req @ '' is not declared in sensors.yaml'')
           (filter (\<lambda>req. req \<notin> set (sensor_ids b)) (required_sensors m))
         @ (if locomotion_type m = ''biped'' \<and> map_of loco ''walk'' = Some (CapBool False)
            then [''biped locomotion_type but capabilities.locomotion.walk is false''] else [])
         @ (if locomotion_type m \<in> {''differential'', ''omni'', ''tracked''}
               \<and> map_of loco ''roll'' = Some (CapBool False)
            then [locomotion_type m @ '' locomotion_type but capabilities.roll is false''] else [])
         @ (if locomotion_type m = ''biped'' then gait_spec_issues b else [])
         @ (if placeholder_signature (signature m)
            then [''body signature is a placeholder (not verified in reference build)''] else []))"

text \<open>The supervisor treats an issue as fatal unless its text contains \<open>placeholder\<close>.\<close>

definition is_fatal :: "string \<Rightarrow> bool" where
  "is_fatal issue = (\<not> contains ''placeholder'' issue)"

definition fatal_issues :: "string list \<Rightarrow> string list" where
  "fatal_issues xs = filter is_fatal xs"

section \<open>An example body\<close>

text \<open>A differential-drive body with one required sensor and a placeholder signature, as the
  packages under \<open>bodies/\<close> declare them. It is the concrete input of the witnesses below and in
  later theories.\<close>

definition example_caps :: capabilities where
  "example_caps = \<lparr>caps_raw =
     [(''locomotion'', [(''walk'', CapBool False), (''roll'', CapBool True), (''stairs'', CapBool False),
                       (''maximum_speed_mps'', CapNum (1/2))]),
      (''perception'', [(''front_camera'', CapBool True)])]\<rparr>"

definition example_limits :: body_limits where
  "example_limits = \<lparr>l_battery = [(''motion_minimum_percent'', 20)], l_thermal = [],
     l_velocity = [(''max_linear_mps'', 1/2), (''max_angular_rps'', 1)], l_payload = [], l_joints = []\<rparr>"

definition example_manifest :: body_manifest where
  "example_manifest = \<lparr>body_id = ''r2'', m_name = ''R2'', model_family = ''r2'', revision = ''1'',
     interface_revision = ''1'', locomotion_type = ''differential'', description = [],
     hardware_profile = [], m_files = [], required_sensors = [''imu/base''],
     required_actuators = [''drive_left'', ''drive_right''], m_gait_policy = None,
     signature = [(''value'', PStr ''PLACEHOLDER'')], directory = None\<rparr>"

definition example_body :: loaded_body where
  "example_body = \<lparr>manifest = example_manifest, caps = example_caps, limits = example_limits,
     sensors = [\<lparr>s_id = ''imu/base'', s_type = ''imu'', s_topic = [], s_rate_hz = 100, s_required = True, s_extra = []\<rparr>,
                \<lparr>s_id = ''camera/front'', s_type = ''camera'', s_topic = [], s_rate_hz = 10, s_required = False, s_extra = []\<rparr>],
     backend_kind = ''simulation'', issues = [''body signature is a placeholder (not verified in reference build)'']\<rparr>"

lemmas example_body_defs = example_body_def example_manifest_def example_limits_def example_caps_def

section \<open>Facts\<close>

lemma fatal_issues_append [simp]: "fatal_issues (a @ b) = fatal_issues a @ fatal_issues b"
  by (simp add: fatal_issues_def)

lemma placeholder_issue_not_fatal:
  "\<not> is_fatal ''body signature is a placeholder (not verified in reference build)''"
  by (simp add: is_fatal_def startswith_def)

lemma gait_issues_fatal:
  "is_fatal ''biped body has no gait_policy declared''"
  "is_fatal ''gait policy has no checksum''"
  "is_fatal ''gait policy is not approved for physical operation''"
  by (simp_all add: is_fatal_def startswith_def)

lemma biped_walk_fatal:
  "is_fatal ''biped locomotion_type but capabilities.locomotion.walk is false''"
  by (simp add: is_fatal_def startswith_def)

lemma startswith_before:
  "c \<notin> set p \<Longrightarrow> startswith p (u @ c # b) = startswith p u"
proof (induction p arbitrary: u)
  case Nil
  then show ?case by (simp add: startswith_def)
next
  case (Cons x p)
  then show ?case by (cases u) (auto simp: startswith_def)
qed

text \<open>A pattern that does not contain a character cannot straddle it.\<close>

lemma contains_separator:
  "c \<notin> set p \<Longrightarrow> p \<noteq> [] \<Longrightarrow> contains p (a @ c # b) \<longleftrightarrow> contains p a \<or> contains p b"
proof (induction a)
  case Nil
  then show ?case using startswith_before [of c p "[]" b] by (simp add: startswith_def)
next
  case (Cons x a)
  then show ?case using startswith_before [of c p "x # a" b] by simp
qed

lemma repr_str_quoted:
  "\<exists>q mid. (q = CHR 0x27 \<or> q = CHR 0x22) \<and> repr_str s = q # mid @ [q]"
  unfolding repr_str_def Let_def by auto

text \<open>Whether a missing sensor is fatal depends on its printed name alone.\<close>

lemma sensor_issue_fatal_iff:
  "is_fatal (''required sensor '' @ repr_str req @ '' is not declared in sensors.yaml'')
     \<longleftrightarrow> \<not> contains ''placeholder'' (repr_str req)"
proof -
  obtain q mid where q: "q = CHR 0x27 \<or> q = CHR 0x22" and r: "repr_str req = q # mid @ [q]"
    using repr_str_quoted [of req] by (elim exE conjE)
  let ?p = "''placeholder''"
  have qp: "q \<notin> set ?p" using q by auto
  have pre: "\<not> contains ?p ''required sensor ''" "\<not> contains ?p '' is not declared in sensors.yaml''"
    "\<not> contains ?p []"
    by (simp_all add: startswith_def)
  have "contains ?p (''required sensor '' @ q # (mid @ q # '' is not declared in sensors.yaml''))
          \<longleftrightarrow> contains ?p mid"
    using contains_separator [OF qp, of "''required sensor ''" "mid @ q # '' is not declared in sensors.yaml''"]
      contains_separator [OF qp, of mid "'' is not declared in sensors.yaml''"] pre by blast
  moreover have "contains ?p (repr_str req) \<longleftrightarrow> contains ?p mid"
    using contains_separator [OF qp, of "[]" "mid @ [q]"] contains_separator [OF qp, of mid "[]"] pre
    by (simp add: r)
  ultimately show ?thesis unfolding is_fatal_def r by simp
qed

lemma drive_roll_fatal:
  "l \<in> {''differential'', ''omni'', ''tracked''} \<Longrightarrow>
     is_fatal (l @ '' locomotion_type but capabilities.roll is false'')"
  by (auto simp: is_fatal_def startswith_def)

lemma fatal_issues_Nil_iff: "fatal_issues xs = [] \<longleftrightarrow> (\<forall>i \<in> set xs. \<not> is_fatal i)"
  by (simp add: fatal_issues_def filter_empty_conv)

section \<open>Properties\<close>

text \<open>A body with no fatal issue is fit to move: every required sensor (whose printed name
  does not itself contain the word the supervisor searches for) is declared, a rolling body does
  not deny \<open>roll\<close>, and a biped does not deny \<open>walk\<close>, declares a gait policy with a checksum, and
  on the physical backend a policy approved for physical operation.\<close>

theorem no_fatal_issue_sound:
  assumes "fatal_issues (static_validate b) = []"
  shows "(\<forall>req \<in> set (required_sensors (manifest b)).
            contains ''placeholder'' (repr_str req) \<or> req \<in> set (sensor_ids b))
    \<and> (locomotion_type (manifest b) \<in> {''differential'', ''omni'', ''tracked''} \<longrightarrow>
          map_of (category (caps b) ''locomotion'') ''roll'' \<noteq> Some (CapBool False))
    \<and> (locomotion_type (manifest b) = ''biped'' \<longrightarrow>
          map_of (category (caps b) ''locomotion'') ''walk'' \<noteq> Some (CapBool False) \<and>
          (\<exists>gp. m_gait_policy (manifest b) = Some gp \<and> g_checksum gp \<noteq> [] \<and>
             (backend_kind b = ''physical'' \<longrightarrow> g_approved_for_physical gp)))"
proof (intro conjI impI ballI)
  note none = assms [unfolded fatal_issues_Nil_iff static_validate_def Let_def]
  {
    fix req
    assume "req \<in> set (required_sensors (manifest b))"
    then have "req \<notin> set (sensor_ids b) \<Longrightarrow>
        \<not> is_fatal (''required sensor '' @ repr_str req @ '' is not declared in sensors.yaml'')"
      using none by (simp only: set_append set_map set_filter) blast
    then show "contains ''placeholder'' (repr_str req) \<or> req \<in> set (sensor_ids b)"
      unfolding sensor_issue_fatal_iff by blast
  next
    assume l: "locomotion_type (manifest b) \<in> {''differential'', ''omni'', ''tracked''}"
    then show "map_of (category (caps b) ''locomotion'') ''roll'' \<noteq> Some (CapBool False)"
      using none drive_roll_fatal [OF l] by auto
  next
    assume l: "locomotion_type (manifest b) = ''biped''"
    then show "map_of (category (caps b) ''locomotion'') ''walk'' \<noteq> Some (CapBool False)"
      using none biped_walk_fatal by auto
  next
    assume l: "locomotion_type (manifest b) = ''biped''"
    then have g: "\<forall>i \<in> set (gait_spec_issues b). \<not> is_fatal i" using none by auto
    show "\<exists>gp. m_gait_policy (manifest b) = Some gp \<and> g_checksum gp \<noteq> [] \<and>
             (backend_kind b = ''physical'' \<longrightarrow> g_approved_for_physical gp)"
    proof (cases "m_gait_policy (manifest b)")
      case None
      then show ?thesis using g gait_issues_fatal by (simp add: gait_spec_issues_def)
    next
      case (Some gp)
      have "g_checksum gp \<noteq> []"
      proof
        assume "g_checksum gp = []"
        then have "''gait policy has no checksum'' \<in> set (gait_spec_issues b)"
          by (simp add: gait_spec_issues_def Some)
        from bspec [OF g this] gait_issues_fatal(2) show False by (rule notE)
      qed
      moreover have "backend_kind b = ''physical'' \<longrightarrow> g_approved_for_physical gp"
      proof (rule impI, rule ccontr)
        assume "backend_kind b = ''physical''" "\<not> g_approved_for_physical gp"
        then have "''gait policy is not approved for physical operation'' \<in> set (gait_spec_issues b)"
          by (simp add: gait_spec_issues_def Some)
        from bspec [OF g this] gait_issues_fatal(3) show False by (rule notE)
      qed
      ultimately show ?thesis using Some by simp
    qed
  }
qed

theorem no_fatal_issue_sound_witness:
  "fatal_issues (static_validate example_body) = [] \<and> static_validate example_body = issues example_body \<and>
   ''imu/base'' \<in> set (sensor_ids example_body)"
proof -
  have v: "static_validate example_body = issues example_body"
    by (simp add: static_validate_def example_body_defs sensor_ids_def category_def dict_get_def
        placeholder_signature_def startswith_def Let_def)
  then have f: "fatal_issues (static_validate example_body) = []"
    using placeholder_issue_not_fatal by (simp add: fatal_issues_def example_body_def)
  have "\<not> contains ''placeholder'' (repr_str ''imu/base'')" by code_simp
  moreover have "''imu/base'' \<in> set (required_sensors (manifest example_body))"
    by (simp add: example_body_defs)
  ultimately have "''imu/base'' \<in> set (sensor_ids example_body)"
    using no_fatal_issue_sound [OF f] by blast
  with v f show ?thesis by simp
qed

text \<open>The test for a fatal issue is a substring test on the issue's text, so a required sensor
  that is missing from the package is not fatal when its own name contains \<open>placeholder\<close>.\<close>

theorem missing_sensor_can_be_nonfatal:
  "fatal_issues (static_validate
     (example_body\<lparr>manifest := example_manifest\<lparr>required_sensors := [''lidar/placeholder'']\<rparr>\<rparr>)) = []
   \<and> ''lidar/placeholder'' \<notin> set (sensor_ids
     (example_body\<lparr>manifest := example_manifest\<lparr>required_sensors := [''lidar/placeholder'']\<rparr>\<rparr>))"
proof -
  let ?b = "example_body\<lparr>manifest := example_manifest\<lparr>required_sensors := [''lidar/placeholder'']\<rparr>\<rparr>"
  have "static_validate ?b =
      [''required sensor '' @ repr_str ''lidar/placeholder'' @ '' is not declared in sensors.yaml'',
       ''body signature is a placeholder (not verified in reference build)'']"
    by (simp add: static_validate_def example_body_defs sensor_ids_def category_def dict_get_def
        placeholder_signature_def startswith_def Let_def)
  moreover have "contains ''placeholder'' (repr_str ''lidar/placeholder'')" by code_simp
  ultimately have "fatal_issues (static_validate ?b) = []"
    using placeholder_issue_not_fatal sensor_issue_fatal_iff [of "''lidar/placeholder''"]
    by (simp only: fatal_issues_def filter.simps if_False not_True_eq_False)
  then show ?thesis by (simp add: sensor_ids_def example_body_defs)
qed

end
