(* ===== verification/Simulation.thy ===== *)
theory Simulation
  imports Body
begin

text \<open>
  The hardware backends: the interface of \<open>backends/base.py\<close>, the simulation of
  \<open>backends/simulation.py\<close> and the physical mock of \<open>backends/mock_hardware.py\<close>.

  The mock is a subclass of the simulation with one more attribute, so both are one record: the
  field \<open>sim_bus\<close> is \<open>None\<close> for a simulation and \<open>Some online\<close> for the mock, and the methods
  the mock overrides dispatch on it. Poses, temperatures and the charge are real numbers. A
  velocity command and a joint target are floats that may be NaN or infinite, and so are the last
  command and the joint positions the backend keeps; where a pose or a reading needs the number of
  such a float, \<open>fin\<close> reads it. An
  injected fault carries the parameters the code reads, each present or absent.

  The laws the rest of the brain relies on are the locale \<open>hardware_backend\<close>: power defaults to
  off on connect, and without motor power no command moves the body.
\<close>

section \<open>Readings\<close>

record actuator_state =
  a_name :: string
  a_position :: pyfloat
  a_velocity :: real
  a_effort :: real
  a_current_a :: real
  a_temperature_c :: real
  a_controller_temp_c :: real
  a_voltage :: real
  a_limit_state :: string
  a_fault_code :: string
  a_comm_errors :: int
  a_encoder_ok :: bool

definition actuator_to_dict :: "actuator_state \<Rightarrow> pydict" where
  "actuator_to_dict a =
     [(''name'', PStr (a_name a)),
      (''position'', PFloat (py_round (fin (a_position a)) 4)),
      (''velocity'', PFloat (py_round (a_velocity a) 4)),
      (''effort'', PFloat (py_round (a_effort a) 3)),
      (''current_a'', PFloat (py_round (a_current_a a) 3)),
      (''temperature_c'', PFloat (py_round (a_temperature_c a) 2)),
      (''controller_temp_c'', PFloat (py_round (a_controller_temp_c a) 2)),
      (''limit_state'', PStr (a_limit_state a)),
      (''fault_code'', PStr (a_fault_code a)),
      (''comm_errors'', PInt (a_comm_errors a)),
      (''encoder_ok'', PBool (a_encoder_ok a))]"

record sensor_reading =
  sr_sensor_id :: string
  sr_type :: string
  sr_ok :: bool
  sr_rate_hz :: real
  sr_age_s :: real
  sr_confidence :: real
  sr_values :: pydict

definition reading_to_dict :: "sensor_reading \<Rightarrow> pydict" where
  "reading_to_dict r =
     [(''sensor_id'', PStr (sr_sensor_id r)), (''type'', PStr (sr_type r)),
      (''ok'', PBool (sr_ok r)), (''rate_hz'', PFloat (sr_rate_hz r)),
      (''age_s'', PFloat (py_round (sr_age_s r) 3)),
      (''confidence'', PFloat (py_round (sr_confidence r) 3)),
      (''values'', PDict (sr_values r))]"

record battery_state =
  bt_percent :: real
  bt_voltage :: real
  bt_charging :: bool
  bt_current_a :: real

definition battery_to_dict :: "battery_state \<Rightarrow> pydict" where
  "battery_to_dict b =
     [(''percent'', PFloat (py_round (bt_percent b) 1)),
      (''voltage'', PFloat (py_round (bt_voltage b) 2)),
      (''charging'', PBool (bt_charging b)),
      (''current_a'', PFloat (py_round (bt_current_a b) 2))]"

record pose =
  pose_x :: real
  pose_y :: real
  pose_theta :: real

definition pose_to_dict :: "pose \<Rightarrow> pydict" where
  "pose_to_dict p =
     [(''x'', PFloat (py_round (pose_x p) 3)), (''y'', PFloat (py_round (pose_y p) 3)),
      (''theta'', PFloat (py_round (pose_theta p) 4))]"

section \<open>The simulated world\<close>

definition AMBIENT_C :: real where "AMBIENT_C = 25"
definition MOVING_MOTOR_EQUILIBRIUM_C :: real where "MOVING_MOTOR_EQUILIBRIUM_C = 62"
definition COOL_RATE :: real where "COOL_RATE = 4 / 100"
definition HEAT_RATE :: real where "HEAT_RATE = 8 / 100"

lemmas thermal_consts = AMBIENT_C_def MOVING_MOTOR_EQUILIBRIUM_C_def COOL_RATE_def HEAT_RATE_def

record fault_params =
  fp_joint :: "string option"
  fp_temp :: "real option"
  fp_sensor :: "string option"
  fp_count :: "int option"
  fp_distance :: "real option"

definition no_params :: fault_params where
  "no_params = \<lparr>fp_joint = None, fp_temp = None, fp_sensor = None, fp_count = None, fp_distance = None\<rparr>"

record indicators =
  green :: nat
  amber :: nat
  red :: nat

record scene_object =
  o_label :: string
  o_distance_m :: real
  o_indicators :: "indicators option"
  o_open_cabinet_door :: "bool option"

record scene =
  sc_camera_ok :: bool
  sc_objects :: "scene_object list"
  sc_people :: "real list"
  sc_confidence :: real

record sim_backend =
  sim_body :: loaded_body
  sim_pose :: pose
  sim_power :: bool
  sim_battery :: real
  sim_charging :: bool
  sim_actuators :: "string list"
  sim_temps :: "(string \<times> real) list"
  sim_positions :: "(string \<times> pyfloat) list"
  sim_last_cmd :: body_velocity
  sim_time_since_cmd :: real
  sim_faults :: "(string \<times> fault_params) list"
  sim_connected :: bool
  sim_bus :: "bool option"

definition init_sim :: "bool option \<Rightarrow> loaded_body \<Rightarrow> sim_backend" where
  "init_sim bus body =
     (let acts = (if required_actuators (manifest body) = [] then [''drive'']
                  else required_actuators (manifest body))
      in \<lparr>sim_body = body, sim_pose = \<lparr>pose_x = 0, pose_y = 0, pose_theta = 0\<rparr>, sim_power = False,
          sim_battery = 78, sim_charging = False, sim_actuators = acts,
          sim_temps = dict_of (map (\<lambda>n. (n, AMBIENT_C)) acts),
          sim_positions = dict_of (map (\<lambda>n. (n, Fin 0)) acts),
          sim_last_cmd = zero_velocity, sim_time_since_cmd = 999, sim_faults = [],
          sim_connected = False, sim_bus = bus\<rparr>)"

definition SimulationBackend :: "loaded_body \<Rightarrow> sim_backend" where
  "SimulationBackend body = init_sim None body"

definition MockHardwareBackend :: "loaded_body \<Rightarrow> sim_backend" where
  "MockHardwareBackend body = init_sim (Some True) body"

definition backend_kind_of :: "sim_backend \<Rightarrow> string" where
  "backend_kind_of s = (if sim_bus s = None then ''simulation'' else ''physical'')"

section \<open>Operations\<close>

definition sim_connect :: "sim_backend \<Rightarrow> sim_backend" where
  "sim_connect s = s\<lparr>sim_connected := True, sim_power := False\<rparr>"

definition mock_connect :: "sim_backend \<Rightarrow> sim_backend" where
  "mock_connect s =
     (let s1 = sim_connect s in
      if map_of (sim_faults s1) ''bus_offline'' \<noteq> None then s1\<lparr>sim_bus := Some False\<rparr> else s1)"

definition backend_connect :: "sim_backend \<Rightarrow> sim_backend" where
  "backend_connect s = (if sim_bus s = None then sim_connect s else mock_connect s)"

definition backend_shutdown :: "sim_backend \<Rightarrow> sim_backend" where
  "backend_shutdown s = s\<lparr>sim_power := False, sim_connected := False\<rparr>"

definition actuator_names :: "sim_backend \<Rightarrow> string list" where
  "actuator_names s = sim_actuators s"

definition sim_sensor_ids :: "sim_backend \<Rightarrow> string list" where
  "sim_sensor_ids s = map s_id (sensors (sim_body s))"

definition set_power :: "bool \<Rightarrow> sim_backend \<Rightarrow> sim_backend" where
  "set_power enabled s = s\<lparr>sim_power := enabled\<rparr>"

definition power_enabled :: "sim_backend \<Rightarrow> bool" where
  "power_enabled s = sim_power s"

text \<open>\<open>limits.max_linear() or capabilities.max_speed() or 0.3\<close>: the second operand is evaluated,
  and may raise, only when the first is zero.\<close>

definition effective_linear :: "loaded_body \<Rightarrow> real res" where
  "effective_linear body =
     (if max_linear (limits body) \<noteq> 0 then Inr (max_linear (limits body))
      else case max_speed (caps body) of
        Inl e \<Rightarrow> Inl e
      | Inr v \<Rightarrow> Inr (if v \<noteq> 0 then v else 3 / 10))"

definition effective_angular :: "loaded_body \<Rightarrow> real" where
  "effective_angular body = (if max_angular (limits body) \<noteq> 0 then max_angular (limits body) else 8 / 10)"

definition sim_clamp :: "sim_backend \<Rightarrow> body_velocity \<Rightarrow> (pyfloat \<times> pyfloat \<times> pyfloat) res" where
  "sim_clamp s vel =
     (case effective_linear (sim_body s) of
        Inl e \<Rightarrow> Inl e
      | Inr max_lin \<Rightarrow>
          (let max_ang = effective_angular (sim_body s)
           in Inr (clamp (linear_x vel) max_lin, clamp (linear_y vel) max_lin, clamp (angular_z vel) max_ang)))"

definition command_velocity :: "body_velocity \<Rightarrow> real \<Rightarrow> sim_backend \<Rightarrow> unit res \<times> sim_backend" where
  "command_velocity vel dt s =
     (if \<not> sim_power s then (Inr (), s)
      else case sim_clamp s vel of
        Inl e \<Rightarrow> (Inl e, s)
      | Inr (vx, vy, wz) \<Rightarrow>
          let p = sim_pose s in
          (Inr (), s\<lparr>sim_pose :=
              \<lparr>pose_x = pose_x p + (fin vx * cos (pose_theta p) - fin vy * sin (pose_theta p)) * dt,
               pose_y = pose_y p + (fin vx * sin (pose_theta p) + fin vy * cos (pose_theta p)) * dt,
               pose_theta = wrap (pose_theta p + fin wz * dt)\<rparr>,
            sim_last_cmd := \<lparr>linear_x = vx, linear_y = vy, angular_z = wz\<rparr>,
            sim_time_since_cmd := 0\<rparr>))"

definition command_joints :: "(string \<times> pyfloat) list \<Rightarrow> sim_backend \<Rightarrow> sim_backend" where
  "command_joints targets s =
     (if \<not> sim_power s then s
      else s\<lparr>sim_positions :=
        fold (\<lambda>(j, v) ps. if map_of ps j \<noteq> None then AList.update j v ps else ps) targets (sim_positions s)\<rparr>)"

definition sim_moving :: "sim_backend \<Rightarrow> bool" where
  "sim_moving s = (sim_power s \<and> sim_time_since_cmd s < 1 / 2 \<and> \<not> is_zero (sim_last_cmd s))"

definition heat_one :: "bool \<Rightarrow> real \<Rightarrow> string \<Rightarrow> (string \<times> real) list \<Rightarrow> (string \<times> real) list" where
  "heat_one moving dt name temps =
     (let target = (if moving then MOVING_MOTOR_EQUILIBRIUM_C else AMBIENT_C);
          rate = (if moving then HEAT_RATE else COOL_RATE);
          t = dict_get temps name AMBIENT_C
      in AList.update name (t + (target - t) * min 1 (rate * dt)) temps)"

definition overheat_joint :: "sim_backend \<Rightarrow> fault_params \<Rightarrow> string" where
  "overheat_joint s f = (case fp_joint f of Some j \<Rightarrow> j | None \<Rightarrow> hd (sim_actuators s))"

definition overheat_temp :: "fault_params \<Rightarrow> real" where
  "overheat_temp f = (case fp_temp f of Some t \<Rightarrow> t | None \<Rightarrow> 88)"

definition step :: "real \<Rightarrow> sim_backend \<Rightarrow> sim_backend" where
  "step dt s0 =
     (let s = s0\<lparr>sim_time_since_cmd := sim_time_since_cmd s0 + dt\<rparr>;
          moving = sim_moving s;
          temps1 = fold (heat_one moving dt) (sim_actuators s) (sim_temps s);
          temps2 = (case map_of (sim_faults s) ''motor_overheat'' of
                      None \<Rightarrow> temps1
                    | Some f \<Rightarrow> AList.update (overheat_joint s f) (overheat_temp f) temps1);
          drain = (if moving then 2 / 100 else 4 / 1000) * dt
      in s\<lparr>sim_temps := temps2,
           sim_battery := (if sim_charging s then min 100 (sim_battery s + 5 / 10 * dt)
                           else max 0 (sim_battery s - drain))\<rparr>)"

section \<open>Reads\<close>

definition nominal_voltage :: "sim_backend \<Rightarrow> real" where
  "nominal_voltage s = dict_get (l_battery (limits (sim_body s))) ''nominal_voltage'' 36"

definition read_temp :: "sim_backend \<Rightarrow> string \<Rightarrow> real" where
  "read_temp s name =
     (case map_of (sim_faults s) ''motor_overheat'' of
        Some f \<Rightarrow> if overheat_joint s f = name then overheat_temp f else dict_get (sim_temps s) name AMBIENT_C
      | None \<Rightarrow> dict_get (sim_temps s) name AMBIENT_C)"

definition read_actuator :: "sim_backend \<Rightarrow> string \<Rightarrow> actuator_state" where
  "read_actuator s name =
     (let temp = read_temp s name;
          moving = sim_moving s
      in \<lparr>a_name = name,
          a_position = dict_get (sim_positions s) name (Fin 0),
          a_velocity = (if moving then fin (linear_x (sim_last_cmd s)) else 0),
          a_effort = (if moving then 8 else 0),
          a_current_a = (if moving then 6 else 2 / 10),
          a_temperature_c = temp,
          a_controller_temp_c = temp - 8,
          a_voltage = nominal_voltage s,
          a_limit_state = ''ok'',
          a_fault_code = (if temp \<ge> motor_fault_temp (limits (sim_body s)) then ''OVERTEMP'' else []),
          a_comm_errors = (case map_of (sim_faults s) ''comm_error'' of
              None \<Rightarrow> 0
            | Some f \<Rightarrow> if fp_joint f = Some name
                        then (case fp_count f of Some n \<Rightarrow> n | None \<Rightarrow> 5) else 0),
          a_encoder_ok = True\<rparr>)"

definition read_all_actuators :: "sim_backend \<Rightarrow> (string \<times> actuator_state) list" where
  "read_all_actuators s = dict_of (map (\<lambda>n. (n, read_actuator s n)) (actuator_names s))"

definition battery :: "sim_backend \<Rightarrow> battery_state" where
  "battery s =
     \<lparr>bt_percent = sim_battery s,
      bt_voltage = nominal_voltage s * (9 / 10 + sim_battery s / 1000),
      bt_charging = sim_charging s,
      bt_current_a = (if sim_moving s then 4 else 3 / 10)\<rparr>"

definition get_pose :: "sim_backend \<Rightarrow> pose" where
  "get_pose s = sim_pose s"

definition dropout :: "sim_backend \<Rightarrow> string option" where
  "dropout s = (case map_of (sim_faults s) ''sensor_dropout'' of None \<Rightarrow> None | Some f \<Rightarrow> fp_sensor f)"

definition lidar_scan :: "sim_backend \<Rightarrow> real list option" where
  "lidar_scan s =
     (if \<not> list_ex (\<lambda>sp. startswith ''lidar'' (s_type sp)) (sensors (sim_body s)) then None
      else if dropout s = Some ''lidar/2d'' \<or> dropout s = Some ''*'' then None
      else Some (replicate 180 4 @ replicate 10 (11 / 10) @ replicate 170 4))"

definition sensor_values :: "sim_backend \<Rightarrow> string \<Rightarrow> pydict" where
  "sensor_values s stype =
     (if stype = ''imu'' then
        [(''orientation_yaw'', PFloat (py_round (pose_theta (sim_pose s)) 3)), (''acc_z'', PFloat (981 / 100))]
      else if stype = ''battery'' then battery_to_dict (battery s)
      else if startswith ''lidar'' stype then
        (let scan = (case lidar_scan s of None \<Rightarrow> [] | Some xs \<Rightarrow> xs)
         in [(''ranges'', PInt (int (length scan))),
             (''min_range_m'', if scan = [] then PNone else PFloat (py_round (Min (set scan)) 2))])
      else if stype = ''contact'' then [(''in_contact'', PBool True)]
      else [])"

definition read_sensor :: "sim_backend \<Rightarrow> string \<Rightarrow> sensor_reading" where
  "read_sensor s sensor_id =
     (let spec = List.find (\<lambda>sp. s_id sp = sensor_id) (sensors (sim_body s));
          stype = (case spec of None \<Rightarrow> ''unknown'' | Some sp \<Rightarrow> s_type sp);
          rate = (case spec of None \<Rightarrow> 0 | Some sp \<Rightarrow> s_rate_hz sp)
      in if dropout s = Some sensor_id \<or> dropout s = Some ''*''
         then \<lparr>sr_sensor_id = sensor_id, sr_type = stype, sr_ok = False, sr_rate_hz = 0,
               sr_age_s = 5, sr_confidence = 0, sr_values = []\<rparr>
         else \<lparr>sr_sensor_id = sensor_id, sr_type = stype, sr_ok = True, sr_rate_hz = rate,
               sr_age_s = (if rate \<noteq> 0 then 1 / rate else 5 / 100),
               sr_confidence = 95 / 100, sr_values = sensor_values s stype\<rparr>)"

definition describe_scene :: "sim_backend \<Rightarrow> scene" where
  "describe_scene s =
     (if dropout s = Some ''camera/front'' \<or> dropout s = Some ''*''
      then \<lparr>sc_camera_ok = False, sc_objects = [], sc_people = [], sc_confidence = 0\<rparr>
      else \<lparr>sc_camera_ok = True,
            sc_objects =
              [\<lparr>o_label = ''workbench'', o_distance_m = 12 / 10, o_indicators = None, o_open_cabinet_door = None\<rparr>,
               \<lparr>o_label = ''two monitors'', o_distance_m = 15 / 10, o_indicators = None, o_open_cabinet_door = None\<rparr>,
               \<lparr>o_label = ''closed door'', o_distance_m = 41 / 10, o_indicators = None, o_open_cabinet_door = None\<rparr>,
               \<lparr>o_label = ''server rack'', o_distance_m = 24 / 10,
                o_indicators = Some \<lparr>green = 8, amber = 1, red = 0\<rparr>, o_open_cabinet_door = Some True\<rparr>],
            sc_people = [3], sc_confidence = 87 / 100\<rparr>)"

section \<open>Fault injection\<close>

definition sim_inject_fault :: "string \<Rightarrow> fault_params \<Rightarrow> sim_backend \<Rightarrow> sim_backend" where
  "sim_inject_fault kind params s = s\<lparr>sim_faults := AList.update kind params (sim_faults s)\<rparr>"

definition mock_inject_fault :: "string \<Rightarrow> fault_params \<Rightarrow> sim_backend \<Rightarrow> sim_backend" where
  "mock_inject_fault kind params s =
     (let s1 = sim_inject_fault kind params s in
      if kind = ''bus_offline'' then s1\<lparr>sim_bus := Some False\<rparr> else s1)"

definition backend_inject_fault :: "string \<Rightarrow> fault_params \<Rightarrow> sim_backend \<Rightarrow> sim_backend" where
  "backend_inject_fault kind params s =
     (if sim_bus s = None then sim_inject_fault kind params s else mock_inject_fault kind params s)"

definition sim_clear_faults :: "sim_backend \<Rightarrow> sim_backend" where
  "sim_clear_faults s = s\<lparr>sim_faults := []\<rparr>"

definition mock_clear_faults :: "sim_backend \<Rightarrow> sim_backend" where
  "mock_clear_faults s = (sim_clear_faults s)\<lparr>sim_bus := Some True\<rparr>"

definition backend_clear_faults :: "sim_backend \<Rightarrow> sim_backend" where
  "backend_clear_faults s = (if sim_bus s = None then sim_clear_faults s else mock_clear_faults s)"

definition set_charging :: "bool \<Rightarrow> sim_backend \<Rightarrow> sim_backend" where
  "set_charging c s = s\<lparr>sim_charging := c\<rparr>"

section \<open>The backend interface\<close>

text \<open>The contract of \<open>HardwareBackend\<close> that the safety gateway, the motion service and the
  executive rely on. Of every backend: the contactor reads back what was set, and shutting down opens it. Of
  the backends without a bus also: connecting opens it, no other operation closes it, and motion has no effect while it is open.\<close>

locale power_contactor =
  fixes shut :: "'s \<Rightarrow> 's"
    and setp :: "bool \<Rightarrow> 's \<Rightarrow> 's"
    and powered :: "'s \<Rightarrow> bool"
  assumes shutdown_off: "\<not> powered (shut s)"
    and set_power_reads: "powered (setp b s) = b"
begin

text \<open>The last request decides, however many there were, and a shutdown ends with the contactor open.\<close>

lemma last_request: "bs \<noteq> [] \<Longrightarrow> powered (fold setp bs s) = last bs"
  by (induction bs arbitrary: s) (auto simp: set_power_reads)

lemma requests_then_shutdown: "\<not> powered (shut (fold setp bs s))"
  by (rule shutdown_off)

end

locale hardware_backend = power_contactor shut setp powered
  for shut :: "'s \<Rightarrow> 's" and setp :: "bool \<Rightarrow> 's \<Rightarrow> 's" and powered :: "'s \<Rightarrow> bool" +
  fixes connect :: "'s \<Rightarrow> 's"
    and posn :: "'s \<Rightarrow> pose"
    and cmd :: "body_velocity \<Rightarrow> real \<Rightarrow> 's \<Rightarrow> unit res \<times> 's"
    and joints :: "(string \<times> pyfloat) list \<Rightarrow> 's \<Rightarrow> 's"
    and stp :: "real \<Rightarrow> 's \<Rightarrow> 's"
  assumes connect_off: "\<not> powered (connect s)"
    and set_power_pose: "posn (setp b s) = posn s"
    and cmd_power: "powered (snd (cmd v dt s)) = powered s"
    and joints_power: "powered (joints ts s) = powered s"
    and step_power: "powered (stp dt s) = powered s"
    and cmd_unpowered: "\<not> powered s \<Longrightarrow> posn (snd (cmd v dt s)) = posn s"
    and joints_pose: "posn (joints ts s) = posn s"
    and step_pose: "posn (stp dt s) = posn s"
begin

text \<open>One control tick sends joint targets and a velocity and steps the model.\<close>

lemma tick_power: "powered (stp dt (snd (cmd v dt (joints ts s)))) = powered s"
  by (simp add: step_power cmd_power joints_power)

lemma tick_unpowered: "\<not> powered s \<Longrightarrow> posn (stp dt (snd (cmd v dt (joints ts s)))) = posn s"
  by (simp add: step_pose cmd_unpowered joints_power joints_pose)

lemma ticks_unpowered:
  "\<not> powered s \<Longrightarrow>
     posn (fold (\<lambda>(v, ts, dt) s. stp dt (snd (cmd v dt (joints ts s)))) cmds s) = posn s"
  by (induction cmds arbitrary: s) (auto simp: tick_power tick_unpowered)

text \<open>Whatever drives the body after a reconnect, it stays where it is until power is set.\<close>

lemma reconnect_then_ticks:
  "posn (fold (\<lambda>(v, ts, dt) s. stp dt (snd (cmd v dt (joints ts s)))) cmds (connect s)) = posn (connect s)"
  by (rule ticks_unpowered) (rule connect_off)

end

section \<open>Facts\<close>

lemma backend_connect_keeps [simp, keeps]:
  "sim_pose (backend_connect s) = sim_pose s"
  "sim_body (backend_connect s) = sim_body s"
  "sim_power (backend_connect s) = False"
  "sim_battery (backend_connect s) = sim_battery s"
  "sim_faults (backend_connect s) = sim_faults s"
  "sim_actuators (backend_connect s) = sim_actuators s"
  "sim_temps (backend_connect s) = sim_temps s"
  "sim_charging (backend_connect s) = sim_charging s"
  by (simp_all add: backend_connect_def sim_connect_def mock_connect_def Let_def)

lemma set_power_keeps [simp, keeps]:
  "sim_pose (set_power b s) = sim_pose s"
  "sim_body (set_power b s) = sim_body s"
  "sim_power (set_power b s) = b"
  "sim_battery (set_power b s) = sim_battery s"
  "sim_faults (set_power b s) = sim_faults s"
  "sim_actuators (set_power b s) = sim_actuators s"
  "sim_temps (set_power b s) = sim_temps s"
  "sim_bus (set_power b s) = sim_bus s"
  by (simp_all add: set_power_def)

lemma command_velocity_keeps [simp, keeps]:
  "sim_body (snd (command_velocity v dt s)) = sim_body s"
  "sim_power (snd (command_velocity v dt s)) = sim_power s"
  "sim_battery (snd (command_velocity v dt s)) = sim_battery s"
  "sim_faults (snd (command_velocity v dt s)) = sim_faults s"
  "sim_actuators (snd (command_velocity v dt s)) = sim_actuators s"
  "sim_temps (snd (command_velocity v dt s)) = sim_temps s"
  "sim_bus (snd (command_velocity v dt s)) = sim_bus s"
  by (auto simp: command_velocity_def Let_def split: sum.splits)

lemma command_joints_keeps [simp, keeps]:
  "sim_pose (command_joints ts s) = sim_pose s"
  "sim_body (command_joints ts s) = sim_body s"
  "sim_power (command_joints ts s) = sim_power s"
  "sim_battery (command_joints ts s) = sim_battery s"
  "sim_faults (command_joints ts s) = sim_faults s"
  "sim_actuators (command_joints ts s) = sim_actuators s"
  "sim_temps (command_joints ts s) = sim_temps s"
  "sim_bus (command_joints ts s) = sim_bus s"
  by (simp_all add: command_joints_def)

lemma step_keeps [simp, keeps]:
  "sim_pose (step dt s) = sim_pose s"
  "sim_body (step dt s) = sim_body s"
  "sim_power (step dt s) = sim_power s"
  "sim_faults (step dt s) = sim_faults s"
  "sim_actuators (step dt s) = sim_actuators s"
  "sim_bus (step dt s) = sim_bus s"
  by (simp_all add: step_def Let_def)

lemma command_velocity_unpowered: "\<not> sim_power s \<Longrightarrow> command_velocity v dt s = (Inr (), s)"
  by (simp add: command_velocity_def)

interpretation sim: hardware_backend backend_shutdown set_power power_enabled sim_connect get_pose
  command_velocity command_joints step
  by unfold_locales
    (simp_all add: power_enabled_def get_pose_def sim_connect_def backend_shutdown_def
      command_velocity_unpowered)

interpretation device: hardware_backend backend_shutdown set_power power_enabled backend_connect get_pose
  command_velocity command_joints step
  by unfold_locales
    (simp_all add: power_enabled_def get_pose_def backend_shutdown_def command_velocity_unpowered)

subsection \<open>Any sequence of backend calls\<close>

datatype bk_op =
    Connect | Shutdown | SetPower bool | Velocity body_velocity real
  | Joints "(string \<times> pyfloat) list" | Step real
  | InjectFault string fault_params | ClearFaults | SetCharging bool

fun bk_exec :: "bk_op \<Rightarrow> sim_backend \<Rightarrow> sim_backend" where
  "bk_exec Connect s = backend_connect s"
| "bk_exec Shutdown s = backend_shutdown s"
| "bk_exec (SetPower b) s = set_power b s"
| "bk_exec (Velocity v dt) s = snd (command_velocity v dt s)"
| "bk_exec (Joints ts) s = command_joints ts s"
| "bk_exec (Step dt) s = step dt s"
| "bk_exec (InjectFault k p) s = backend_inject_fault k p s"
| "bk_exec ClearFaults s = backend_clear_faults s"
| "bk_exec (SetCharging c) s = set_charging c s"

definition bk_run :: "bk_op list \<Rightarrow> sim_backend \<Rightarrow> sim_backend" where
  "bk_run ops s = fold bk_exec ops s"

text \<open>What telemetry shows of the body's configuration: where it is, and where each joint is.\<close>

definition same_stance :: "sim_backend \<Rightarrow> sim_backend \<Rightarrow> bool" where
  "same_stance s s' = (get_pose s' = get_pose s \<and> sim_positions s' = sim_positions s)"

lemma same_stance_refl [simp]: "same_stance s s"
  by (simp add: same_stance_def)

lemma same_stance_trans: "same_stance s t \<Longrightarrow> same_stance t u \<Longrightarrow> same_stance s u"
  by (simp add: same_stance_def)

lemma bk_exec_unpowered:
  "\<not> sim_power s \<Longrightarrow> op \<noteq> SetPower True \<Longrightarrow> \<not> sim_power (bk_exec op s) \<and> same_stance s (bk_exec op s)"
  by (cases op)
    (auto simp: same_stance_def get_pose_def backend_shutdown_def command_velocity_unpowered command_joints_def
      backend_connect_def sim_connect_def mock_connect_def set_power_def step_def backend_inject_fault_def
      sim_inject_fault_def mock_inject_fault_def backend_clear_faults_def sim_clear_faults_def
      mock_clear_faults_def set_charging_def Let_def)

lemma bk_run_unpowered:
  "\<not> sim_power s \<Longrightarrow> SetPower True \<notin> set ops \<Longrightarrow> \<not> sim_power (bk_run ops s) \<and> same_stance s (bk_run ops s)"
proof (induction ops arbitrary: s)
  case Nil
  then show ?case by (simp add: bk_run_def)
next
  case (Cons op ops)
  then have o: "\<not> sim_power (bk_exec op s)" "same_stance s (bk_exec op s)"
    using bk_exec_unpowered [of s op] by auto
  with Cons have "\<not> sim_power (bk_run ops (bk_exec op s)) \<and> same_stance (bk_exec op s) (bk_run ops (bk_exec op s))"
    by simp
  with o show ?case by (auto simp: bk_run_def intro: same_stance_trans)
qed

subsection \<open>Battery and temperatures\<close>

definition op_dt_ok :: "bk_op \<Rightarrow> bool" where
  "op_dt_ok op = (case op of Step dt \<Rightarrow> 0 \<le> dt | _ \<Rightarrow> True)"

definition charge_ok :: "sim_backend \<Rightarrow> bool" where
  "charge_ok s = (0 \<le> sim_battery s \<and> sim_battery s \<le> 100)"

lemma step_charge_ok: "0 \<le> dt \<Longrightarrow> charge_ok s \<Longrightarrow> charge_ok (step dt s)"
  by (auto simp: charge_ok_def step_def Let_def min_def max_def)

lemma bk_exec_charge_ok: "op_dt_ok op \<Longrightarrow> charge_ok s \<Longrightarrow> charge_ok (bk_exec op s)"
  using step_charge_ok
  by (cases op)
    (auto simp: charge_ok_def op_dt_ok_def backend_shutdown_def backend_inject_fault_def
      sim_inject_fault_def mock_inject_fault_def backend_clear_faults_def sim_clear_faults_def
      mock_clear_faults_def set_charging_def Let_def)

definition bk_step :: "sim_backend \<Rightarrow> sim_backend \<Rightarrow> bool" where
  "bk_step s s' = (\<exists>op. op_dt_ok op \<and> s' = bk_exec op s)"

interpretation charge: invariant_system bk_step charge_ok
  by unfold_locales (auto simp: bk_step_def intro: bk_exec_charge_ok)

lemma bk_run_steps: "list_all op_dt_ok ops \<Longrightarrow> bk_step\<^sup>*\<^sup>* s (bk_run ops s)"
proof (induction ops arbitrary: s)
  case Nil
  then show ?case by (simp add: bk_run_def)
next
  case (Cons op ops)
  then have "bk_step s (bk_exec op s)" by (auto simp: bk_step_def)
  with Cons show ?case
    by (simp add: bk_run_def converse_rtranclp_into_rtranclp)
qed

definition temps_between :: "real \<Rightarrow> real \<Rightarrow> (string \<times> real) list \<Rightarrow> bool" where
  "temps_between lo hi ts = (\<forall>n t. map_of ts n = Some t \<longrightarrow> lo \<le> t \<and> t \<le> hi)"

lemma convex_step:
  fixes t g lo hi w :: real
  assumes "lo \<le> t" "t \<le> hi" "lo \<le> g" "g \<le> hi" "0 \<le> w" "w \<le> 1"
  shows "lo \<le> t + (g - t) * w \<and> t + (g - t) * w \<le> hi"
proof -
  have e: "t + (g - t) * w = (1 - w) * t + w * g" by (simp add: algebra_simps)
  have "(1 - w) * lo + w * lo \<le> (1 - w) * t + w * g"
    using assms by (intro add_mono mult_left_mono) auto
  moreover have "(1 - w) * t + w * g \<le> (1 - w) * hi + w * hi"
    using assms by (intro add_mono mult_left_mono) auto
  ultimately show ?thesis unfolding e by (simp add: algebra_simps)
qed

lemma heat_one_between:
  assumes "0 \<le> dt" "temps_between AMBIENT_C MOVING_MOTOR_EQUILIBRIUM_C ts"
  shows "temps_between AMBIENT_C MOVING_MOTOR_EQUILIBRIUM_C (heat_one moving dt n ts)"
proof -
  have "AMBIENT_C \<le> dict_get ts n AMBIENT_C \<and> dict_get ts n AMBIENT_C \<le> MOVING_MOTOR_EQUILIBRIUM_C"
    using assms(2) by (auto simp: dict_get_def temps_between_def thermal_consts split: option.splits)
  then have "AMBIENT_C \<le> the (map_of (heat_one moving dt n ts) n) \<and>
      the (map_of (heat_one moving dt n ts) n) \<le> MOVING_MOTOR_EQUILIBRIUM_C"
    using assms(1)
      convex_step [of AMBIENT_C "dict_get ts n AMBIENT_C" MOVING_MOTOR_EQUILIBRIUM_C
        "if moving then MOVING_MOTOR_EQUILIBRIUM_C else AMBIENT_C"
        "min 1 ((if moving then HEAT_RATE else COOL_RATE) * dt)"]
    by (simp add: heat_one_def Let_def thermal_consts)
  then show ?thesis using assms(2) by (auto simp: temps_between_def heat_one_def Let_def)
qed

lemma heat_fold_between:
  "0 \<le> dt \<Longrightarrow> temps_between AMBIENT_C MOVING_MOTOR_EQUILIBRIUM_C ts \<Longrightarrow>
     temps_between AMBIENT_C MOVING_MOTOR_EQUILIBRIUM_C (fold (heat_one moving dt) ns ts)"
  by (induction ns arbitrary: ts) (simp_all add: heat_one_between)

subsection \<open>Displacement\<close>



section \<open>Properties\<close>

text \<open>C16. On the simulated and the mock backend, without motor power nothing moves: from a backend whose contactor
  is open, a sequence of calls in which \<open>set_power(True)\<close> does not occur (velocity and joint commands,
  reconnects, fault injection, time steps, in any order) leaves the pose, the position of every
  joint and the joint positions that telemetry reads unchanged, and the contactor open.\<close>

theorem no_motion_without_power:
  assumes "\<not> power_enabled s" "SetPower True \<notin> set ops"
  shows "get_pose (bk_run ops s) = get_pose s \<and> sim_positions (bk_run ops s) = sim_positions s
    \<and> a_position (read_actuator (bk_run ops s) n) = a_position (read_actuator s n)
    \<and> \<not> power_enabled (bk_run ops s)"
  using bk_run_unpowered assms
  by (simp add: same_stance_def power_enabled_def read_actuator_def Let_def)

theorem no_motion_without_power_witness:
  "get_pose (bk_run [Connect, Velocity \<lparr>linear_x = NaN, linear_y = PosInf, angular_z = Fin 9\<rparr> 1,
        Joints [(''drive_left'', Fin 1)], Step 1] (SimulationBackend example_body))
     = \<lparr>pose_x = 0, pose_y = 0, pose_theta = 0\<rparr>
   \<and> map_of (sim_positions (bk_run [Connect, Velocity \<lparr>linear_x = NaN, linear_y = PosInf, angular_z = Fin 9\<rparr> 1,
        Joints [(''drive_left'', Fin 1)], Step 1] (SimulationBackend example_body))) ''drive_left'' = Some (Fin 0)"
  using no_motion_without_power
    [of "SimulationBackend example_body"
        "[Connect, Velocity \<lparr>linear_x = NaN, linear_y = PosInf, angular_z = Fin 9\<rparr> 1,
          Joints [(''drive_left'', Fin 1)], Step 1]"]
  by (simp add: SimulationBackend_def init_sim_def Let_def power_enabled_def get_pose_def example_body_defs dict_of_def)



text \<open>The charge stays a percentage: from a fresh backend, after any sequence of calls whose
  time steps are non-negative, the battery reads between 0 and 100.\<close>

theorem battery_is_percentage:
  assumes "list_all op_dt_ok ops"
  shows "0 \<le> bt_percent (battery (bk_run ops (init_sim bus b)))
       \<and> bt_percent (battery (bk_run ops (init_sim bus b))) \<le> 100"
proof -
  have "charge_ok (init_sim bus b)" by (simp add: charge_ok_def init_sim_def Let_def)
  then have "charge_ok (bk_run ops (init_sim bus b))"
    by (rule charge.steps_inv [OF bk_run_steps [OF assms]])
  then show ?thesis by (simp add: charge_ok_def battery_def)
qed

theorem battery_is_percentage_witness:
  "0 \<le> bt_percent (battery (bk_run [Step 1000000] (init_sim None example_body)))"
  using battery_is_percentage [of "[Step 1000000]"] by (simp add: op_dt_ok_def)

text \<open>The thermal model is stable: without an injected overheat fault, a non-negative time
  step keeps every motor temperature between ambient and the moving equilibrium.\<close>

theorem temperatures_bounded:
  assumes "0 \<le> dt" "map_of (sim_faults s) ''motor_overheat'' = None"
    "temps_between AMBIENT_C MOVING_MOTOR_EQUILIBRIUM_C (sim_temps s)"
  shows "temps_between AMBIENT_C MOVING_MOTOR_EQUILIBRIUM_C (sim_temps (step dt s))"
  using assms heat_fold_between by (simp add: step_def Let_def)

theorem temperatures_bounded_witness:
  "temps_between AMBIENT_C MOVING_MOTOR_EQUILIBRIUM_C (sim_temps (step 3 (SimulationBackend example_body)))"
proof -
  have "temps_between AMBIENT_C MOVING_MOTOR_EQUILIBRIUM_C (sim_temps (SimulationBackend example_body))"
    by (simp add: SimulationBackend_def init_sim_def example_body_defs dict_of_def temps_between_def
        thermal_consts Let_def)
  then show ?thesis
    using temperatures_bounded [of 3 "SimulationBackend example_body"]
    by (simp add: SimulationBackend_def init_sim_def Let_def)
qed

end
