(* ===== verification/Storage.thy ===== *)
theory Storage
  imports Errors
begin

text \<open>
  Persisted JSON files, as \<open>Path.exists\<close>, \<open>read_text\<close>, \<open>json.loads\<close> and \<open>write_text\<close> see them.
  A file is missing, unreadable (reading raises \<open>OSError\<close>), not UTF-8 (reading raises
  \<open>UnicodeDecodeError\<close>, which no caller catches), not JSON, or it holds a document. A file that
  cannot be written keeps its old contents. A service's document type is \<open>'a option\<close> where the
  code checks the document's shape: \<open>None\<close> is a JSON value of another shape.
\<close>

datatype 'a file_content = Missing | Unreadable | BadUtf8 | BadJson string | Doc 'a

record 'a json_file =
  contents :: "'a file_content"
  writable :: bool

definition write_doc :: "'a \<Rightarrow> 'a json_file \<Rightarrow> 'a json_file" where
  "write_doc d f = (if writable f then f\<lparr>contents := Doc d\<rparr> else f)"

definition fresh_file :: "'a json_file" where
  "fresh_file = \<lparr>contents = Missing, writable = True\<rparr>"

text \<open>\<open>if path.exists(): try: json.loads(path.read_text()) except (OSError, JSONDecodeError)\<close>:
  a document, nothing, or the uncaught decoding error.\<close>

definition read_doc :: "'a json_file \<Rightarrow> 'a option res" where
  "read_doc f =
     (case contents f of
        Missing \<Rightarrow> Inr None
      | Unreadable \<Rightarrow> Inr None
      | BadUtf8 \<Rightarrow> Inl (UnicodeDecodeError ''invalid utf-8'')
      | BadJson _ \<Rightarrow> Inr None
      | Doc d \<Rightarrow> Inr (Some d))"

lemma write_doc_writable [simp, keeps]: "writable (write_doc d f) = writable f"
  by (simp add: write_doc_def)

lemma read_write [simp]: "writable f \<Longrightarrow> read_doc (write_doc d f) = Inr (Some d)"
  by (simp add: read_doc_def write_doc_def)

lemma write_doc_readonly [simp]: "\<not> writable f \<Longrightarrow> write_doc d f = f"
  by (simp add: write_doc_def)

text \<open>What a store that saves after each change and loads at start-up promises.\<close>

locale persistent_store =
  fixes load :: "'s \<Rightarrow> unit res \<times> 's"
    and save :: "'s \<Rightarrow> 's"
    and fresh :: "'f json_file \<Rightarrow> 's"
    and file_of :: "'s \<Rightarrow> 'f json_file"
    and view :: "'s \<Rightarrow> 'v"
  assumes save_view: "view (save s) = view s"
    and save_writable: "writable (file_of (save s)) = writable (file_of s)"
    and load_saved: "writable (file_of s) \<Longrightarrow> view (snd (load (fresh (file_of (save s))))) = view s"
    and load_saved_ok: "writable (file_of s) \<Longrightarrow> fst (load (fresh (file_of (save s)))) = Inr ()"
begin

text \<open>A restart after a save loads what was saved, and saving twice changes nothing more.\<close>

lemma restart_view:
  "writable (file_of s) \<Longrightarrow>
     load (fresh (file_of (save s))) = (Inr (), snd (load (fresh (file_of (save s)))))
     \<and> view (snd (load (fresh (file_of (save (save s)))))) = view s"
  using load_saved [of "save s"] load_saved_ok [of s]
  by (cases "load (fresh (file_of (save s)))") (simp add: save_view save_writable)

end

end
