(* ===== verification/WorldModel.thy ===== *)
theory WorldModel
  imports Storage
begin

text \<open>
  The world model, \<open>services/world_model.py\<close>: named places, restricted areas, obstacles and
  last-seen objects, saved after every change and merged from the file at configuration. Names
  are normalised by \<open>norm_words\<close> (lower case, single blanks) on every access to places and
  restricted areas. Observation time stamps are not modelled.

  The laws that navigation and the command broker use are the locale \<open>place_map\<close>.
\<close>

section \<open>State\<close>

record place =
  pl_x :: real
  pl_y :: real
  pl_kind :: string

record seen_object =
  so_x :: real
  so_y :: real
  so_confidence :: real

record world_data =
  w_places :: "(string \<times> place) list"
  w_restricted :: "string list"
  w_obstacles :: "(real \<times> real) list"
  w_last_seen :: "(string \<times> seen_object) list"

text \<open>The keys of a loaded document may each be absent.\<close>

record world_doc =
  wd_places :: "(string \<times> place) list option"
  wd_restricted :: "string list option"
  wd_obstacles :: "(real \<times> real) list option"
  wd_last_seen :: "(string \<times> seen_object) list option"

record world_store =
  w_data :: world_data
  w_file :: "world_doc option json_file"

definition DEFAULT_WORLD :: world_data where
  "DEFAULT_WORLD =
     \<lparr>w_places =
        [(''charging station'', \<lparr>pl_x = 0, pl_y = 0, pl_kind = ''charge''\<rparr>),
         (''hallway'', \<lparr>pl_x = 2, pl_y = 0, pl_kind = ''passage''\<rparr>),
         (''workshop'', \<lparr>pl_x = 4, pl_y = 1, pl_kind = ''room''\<rparr>),
         (''stairs'', \<lparr>pl_x = 3, pl_y = -2, pl_kind = ''stairs''\<rparr>)],
      w_restricted = [], w_obstacles = [], w_last_seen = []\<rparr>"

definition init_world :: "world_doc option json_file \<Rightarrow> world_store" where
  "init_world f = \<lparr>w_data = DEFAULT_WORLD, w_file = f\<rparr>"

section \<open>Persistence\<close>

definition to_doc :: "world_data \<Rightarrow> world_doc" where
  "to_doc d = \<lparr>wd_places = Some (w_places d), wd_restricted = Some (w_restricted d),
     wd_obstacles = Some (w_obstacles d), wd_last_seen = Some (w_last_seen d)\<rparr>"

definition or_else :: "'a option \<Rightarrow> 'a \<Rightarrow> 'a" where
  "or_else v d = (case v of None \<Rightarrow> d | Some x \<Rightarrow> x)"

text \<open>\<open>self.data.update(loaded)\<close>\<close>

definition merge_doc :: "world_doc \<Rightarrow> world_data \<Rightarrow> world_data" where
  "merge_doc l d = \<lparr>w_places = or_else (wd_places l) (w_places d),
     w_restricted = or_else (wd_restricted l) (w_restricted d),
     w_obstacles = or_else (wd_obstacles l) (w_obstacles d),
     w_last_seen = or_else (wd_last_seen l) (w_last_seen d)\<rparr>"

definition world_load :: "world_store \<Rightarrow> unit res \<times> world_store" where
  "world_load s =
     (case read_doc (w_file s) of
        Inl e \<Rightarrow> (Inl e, s)
      | Inr (Some (Some l)) \<Rightarrow> (Inr (), s\<lparr>w_data := merge_doc l (w_data s)\<rparr>)
      | Inr _ \<Rightarrow> (Inr (), s))"

definition world_save :: "world_store \<Rightarrow> world_store" where
  "world_save s = s\<lparr>w_file := write_doc (Some (to_doc (w_data s))) (w_file s)\<rparr>"

section \<open>Operations\<close>

definition places :: "world_store \<Rightarrow> (string \<times> place) list" where
  "places s = w_places (w_data s)"

definition place_names :: "world_store \<Rightarrow> string list" where
  "place_names s = sort (map fst (w_places (w_data s)))"

definition get_place :: "world_store \<Rightarrow> string \<Rightarrow> place option" where
  "get_place s name = map_of (w_places (w_data s)) (norm_words name)"

definition add_place :: "string \<Rightarrow> real \<Rightarrow> real \<Rightarrow> string \<Rightarrow> world_store \<Rightarrow> world_store" where
  "add_place name x y kind s =
     world_save (s\<lparr>w_data := (w_data s)\<lparr>w_places :=
       AList.update (norm_words name) \<lparr>pl_x = x, pl_y = y, pl_kind = kind\<rparr> (w_places (w_data s))\<rparr>\<rparr>)"

definition remove_place :: "string \<Rightarrow> world_store \<Rightarrow> bool \<times> world_store" where
  "remove_place name s =
     (if map_of (w_places (w_data s)) (norm_words name) \<noteq> None
      then (True, world_save (s\<lparr>w_data := (w_data s)\<lparr>w_places :=
              AList.delete (norm_words name) (w_places (w_data s))\<rparr>\<rparr>))
      else (False, s))"

definition is_restricted :: "world_store \<Rightarrow> string \<Rightarrow> bool" where
  "is_restricted s name = (norm_words name \<in> norm_words ` set (w_restricted (w_data s)))"

definition add_restricted :: "string \<Rightarrow> world_store \<Rightarrow> world_store" where
  "add_restricted name s =
     world_save (s\<lparr>w_data := (w_data s)\<lparr>w_restricted := w_restricted (w_data s) @ [norm_words name]\<rparr>\<rparr>)"

definition note_object :: "string \<Rightarrow> real \<Rightarrow> real \<Rightarrow> real \<Rightarrow> world_store \<Rightarrow> world_store" where
  "note_object label x y confidence s =
     world_save (s\<lparr>w_data := (w_data s)\<lparr>w_last_seen :=
       AList.update label \<lparr>so_x = x, so_y = y, so_confidence = confidence\<rparr> (w_last_seen (w_data s))\<rparr>\<rparr>)"

definition set_obstacle :: "real \<Rightarrow> real \<Rightarrow> world_store \<Rightarrow> world_store" where
  "set_obstacle x y s =
     world_save (s\<lparr>w_data := (w_data s)\<lparr>w_obstacles := w_obstacles (w_data s) @ [(x, y)]\<rparr>\<rparr>)"

definition clear_obstacles :: "world_store \<Rightarrow> world_store" where
  "clear_obstacles s = world_save (s\<lparr>w_data := (w_data s)\<lparr>w_obstacles := []\<rparr>\<rparr>)"

section \<open>The place map\<close>

locale place_map =
  fixes lookup :: "'s \<Rightarrow> string \<Rightarrow> place option"
    and insert :: "string \<Rightarrow> place \<Rightarrow> 's \<Rightarrow> 's"
    and remove :: "string \<Rightarrow> 's \<Rightarrow> bool \<times> 's"
    and key :: "string \<Rightarrow> string"
  assumes lookup_key: "lookup s (key n) = lookup s n"
    and lookup_insert: "lookup (insert n p s) m = (if key n = key m then Some p else lookup s m)"
    and lookup_remove: "lookup (snd (remove n s)) m = (if key n = key m then None else lookup s m)"
    and remove_result: "fst (remove n s) \<longleftrightarrow> lookup s n \<noteq> None"
begin

lemma insert_remove: "lookup (snd (remove n (insert n p s))) m = (if key n = key m then None else lookup s m)"
  by (simp add: lookup_insert lookup_remove)

lemma remove_twice: "\<not> fst (remove n (snd (remove n s)))"
  by (simp add: remove_result lookup_remove)

lemma same_key_same_place: "key n = key m \<Longrightarrow> lookup s n = lookup s m"
  by (metis lookup_key)

end

definition put_place :: "string \<Rightarrow> place \<Rightarrow> world_store \<Rightarrow> world_store" where
  "put_place n p s = add_place n (pl_x p) (pl_y p) (pl_kind p) s"

section \<open>Facts\<close>

lemma world_save_data [simp, keeps]: "w_data (world_save s) = w_data s"
  by (simp add: world_save_def)

lemma world_save_writable [simp, keeps]: "writable (w_file (world_save s)) = writable (w_file s)"
  by (simp add: world_save_def)

lemma merge_to_doc [simp]: "merge_doc (to_doc d) d0 = d"
  by (simp add: merge_doc_def to_doc_def or_else_def)

lemma world_load_saved:
  "writable (w_file s) \<Longrightarrow> world_load (init_world (w_file (world_save s))) =
     (Inr (), \<lparr>w_data = w_data s, w_file = w_file (world_save s)\<rparr>)"
  by (simp add: world_load_def init_world_def world_save_def)

interpretation world: persistent_store world_load world_save init_world w_file w_data
  by unfold_locales (simp_all add: world_load_saved)

lemma get_place_put [simp]:
  "get_place (put_place n p s) m = (if norm_words n = norm_words m then Some p else get_place s m)"
  by (simp add: get_place_def put_place_def add_place_def)

interpretation place: place_map get_place put_place remove_place norm_words
  by unfold_locales (simp_all add: get_place_def [of _ "norm_words _"] get_place_def remove_place_def
      put_place_def add_place_def delete_conv')

lemma add_restricted_is [simp]:
  "is_restricted (add_restricted n s) m \<longleftrightarrow> norm_words n = norm_words m \<or> is_restricted s m"
  by (auto simp: is_restricted_def add_restricted_def)

lemma world_ops_restricted [simp, keeps]:
  "is_restricted (add_place n x y k s) m = is_restricted s m"
  "is_restricted (snd (remove_place n s)) m = is_restricted s m"
  "is_restricted (set_obstacle x y s) m = is_restricted s m"
  "is_restricted (note_object l x y c s) m = is_restricted s m"
  by (simp_all add: is_restricted_def add_place_def remove_place_def set_obstacle_def note_object_def)

lemma get_place_frame [simp, keeps]:
  "get_place (set_obstacle x y s) m = get_place s m"
  "get_place (add_restricted n s) m = get_place s m"
  "get_place (clear_obstacles s) m = get_place s m"
  "get_place (note_object l x y c s) m = get_place s m"
  by (simp_all add: get_place_def set_obstacle_def add_restricted_def clear_obstacles_def note_object_def)

lemma add_place_put: "add_place n x y k s = put_place n \<lparr>pl_x = x, pl_y = y, pl_kind = k\<rparr> s"
  by (simp add: put_place_def)

section \<open>Properties\<close>

text \<open>The world model is a map from normalised names: a stored place is found under every
  spelling with the same normal form and no other lookup changes; removing it (again under any
  such spelling) succeeds, and afterwards it is not found while all other places are as before.\<close>

theorem place_round_trip:
  "get_place (add_place n x y k s) m =
     (if norm_words n = norm_words m then Some \<lparr>pl_x = x, pl_y = y, pl_kind = k\<rparr> else get_place s m)
   \<and> fst (remove_place n (add_place n x y k s))
   \<and> get_place (snd (remove_place n (add_place n x y k s))) m =
     (if norm_words n = norm_words m then None else get_place s m)"
  unfolding add_place_put
  by (simp add: place.insert_remove place.remove_result)

text \<open>Named places survive a restart: after \<open>add_place\<close> with a writable state file, a new
  world model that configures itself from that file holds exactly the same data.\<close>

theorem world_survives_restart:
  assumes "writable (w_file s)"
  shows "fst (world_load (init_world (w_file (add_place n x y k s)))) = Inr ()
    \<and> w_data (snd (world_load (init_world (w_file (add_place n x y k s))))) = w_data (add_place n x y k s)"
  using assms unfolding add_place_def
  by (simp add: world.load_saved world.load_saved_ok)

theorem world_survives_restart_witness:
  "get_place (snd (world_load (init_world (w_file (add_place ''  The  LAB '' 1 2 ''room'' (init_world fresh_file))))))
     ''the lab'' = Some \<lparr>pl_x = 1, pl_y = 2, pl_kind = ''room''\<rparr>"
proof -
  let ?s = "add_place ''  The  LAB '' 1 2 ''room'' (init_world fresh_file)"
  have w: "writable (w_file (init_world fresh_file))" by (simp add: init_world_def fresh_file_def)
  have "w_data (snd (world_load (init_world (w_file ?s)))) = w_data ?s"
    using world_survives_restart [OF w] by blast
  moreover have "norm_words ''  The  LAB '' = norm_words ''the lab''" by code_simp
  then have "get_place ?s ''the lab'' = Some \<lparr>pl_x = 1, pl_y = 2, pl_kind = ''room''\<rparr>"
    by (simp add: add_place_put)
  ultimately show ?thesis unfolding get_place_def by simp
qed

end
