(* ===== verification/MemoryStore.thy ===== *)
theory MemoryStore
  imports Storage Events
begin

text \<open>
  Long-term memory, \<open>services/memory.py\<close>: a list of categorised entries saved after every change.
  The safety-relevant contract is that conversation can never store a safety rule, a limit, an
  authorization or a capability. Entry time stamps are not modelled.
\<close>

section \<open>State and operations\<close>

record mem_entry =
  e_text :: string
  e_category :: string
  e_meta :: pydict

record memory_store =
  entries :: "mem_entry list"
  m_file :: "mem_entry list option json_file"

definition ALLOWED_CATEGORIES :: "string list" where
  "ALLOWED_CATEGORIES = [''fact'', ''place'', ''preference'', ''person'', ''task'', ''maintenance'', ''summary'']"

definition FORBIDDEN_CATEGORIES :: "string list" where
  "FORBIDDEN_CATEGORIES = [''safety'', ''limit'', ''authorization'', ''capability'']"

definition init_memory :: "mem_entry list option json_file \<Rightarrow> memory_store" where
  "init_memory f = \<lparr>entries = [], m_file = f\<rparr>"

definition memory_load :: "memory_store \<Rightarrow> unit res \<times> memory_store" where
  "memory_load s =
     (case read_doc (m_file s) of
        Inl e \<Rightarrow> (Inl e, s)
      | Inr (Some (Some es)) \<Rightarrow> (Inr (), s\<lparr>entries := es\<rparr>)
      | Inr _ \<Rightarrow> (Inr (), s))"

definition memory_save :: "memory_store \<Rightarrow> memory_store" where
  "memory_save s = s\<lparr>m_file := write_doc (Some (entries s)) (m_file s)\<rparr>"

definition remember :: "string \<Rightarrow> string \<Rightarrow> pydict \<Rightarrow> memory_store \<Rightarrow> mem_entry res \<times> memory_store" where
  "remember text category0 meta s =
     (let cat = lower category0 in
      if cat \<in> set FORBIDDEN_CATEGORIES
      then (Inl (DroidError (''refusing to store '' @ repr_str cat @ '' in conversational memory; ''
                 @ ''safety rules and hardware limits are not editable memory'')), s)
      else
        let entry = \<lparr>e_text = strip text,
                     e_category = (if cat \<in> set ALLOWED_CATEGORIES then cat else ''fact''),
                     e_meta = meta\<rparr>
        in (Inr entry, memory_save (s\<lparr>entries := entries s @ [entry]\<rparr>)))"

definition recall :: "string \<Rightarrow> int \<Rightarrow> memory_store \<Rightarrow> mem_entry list" where
  "recall query limit s =
     (let q = lower (strip query) in
      last_items limit (if q = [] then entries s else filter (\<lambda>e. contains q (lower (e_text e))) (entries s)))"

definition forget :: "string \<Rightarrow> memory_store \<Rightarrow> nat \<times> memory_store" where
  "forget query s =
     (let q = lower (strip query);
          kept = filter (\<lambda>e. \<not> contains q (lower (e_text e))) (entries s);
          removed = length (entries s) - length kept;
          s1 = s\<lparr>entries := kept\<rparr>
      in (removed, if removed \<noteq> 0 then memory_save s1 else s1))"

definition mem_count :: "memory_store \<Rightarrow> nat" where
  "mem_count s = length (entries s)"

definition memory_diagnostics :: "memory_store \<Rightarrow> diagnostic_status list" where
  "memory_diagnostics s =
     [\<lparr>d_name = ''memory/store'', d_level = OK,
       d_message = show_nat (length (entries s)) @ '' remembered items'',
       d_hardware_id = [], d_values = [(''count'', PInt (int (length (entries s))))]\<rparr>]"

section \<open>Sequences of calls\<close>

datatype mem_op = Remember string string pydict | Forget string

fun mem_exec :: "mem_op \<Rightarrow> memory_store \<Rightarrow> memory_store" where
  "mem_exec (Remember t c m) s = snd (remember t c m s)"
| "mem_exec (Forget q) s = snd (forget q s)"

definition mem_run :: "mem_op list \<Rightarrow> memory_store \<Rightarrow> memory_store" where
  "mem_run ops s = fold mem_exec ops s"

definition mem_step :: "memory_store \<Rightarrow> memory_store \<Rightarrow> bool" where
  "mem_step s s' = (\<exists>op. s' = mem_exec op s)"

definition categories_ok :: "memory_store \<Rightarrow> bool" where
  "categories_ok s = (\<forall>e \<in> set (entries s). e_category e \<in> set ALLOWED_CATEGORIES)"

section \<open>Facts\<close>

lemma memory_save_keeps [simp, keeps]:
  "entries (memory_save s) = entries s"
  "writable (m_file (memory_save s)) = writable (m_file s)"
  by (simp_all add: memory_save_def)

lemma memory_load_saved:
  "writable (m_file s) \<Longrightarrow> memory_load (init_memory (m_file (memory_save s))) =
     (Inr (), \<lparr>entries = entries s, m_file = m_file (memory_save s)\<rparr>)"
  by (simp add: memory_load_def init_memory_def memory_save_def)

interpretation mem: persistent_store memory_load memory_save init_memory m_file entries
  by unfold_locales (simp_all add: memory_load_saved)

lemma allowed_not_forbidden: "c \<in> set ALLOWED_CATEGORIES \<Longrightarrow> c \<notin> set FORBIDDEN_CATEGORIES"
  by (auto simp: ALLOWED_CATEGORIES_def FORBIDDEN_CATEGORIES_def)

lemma remember_entries:
  "entries (snd (remember t c m s)) =
     entries s @ (if lower c \<in> set FORBIDDEN_CATEGORIES then []
       else [\<lparr>e_text = strip t, e_category = (if lower c \<in> set ALLOWED_CATEGORIES then lower c else ''fact''),
              e_meta = m\<rparr>])"
  by (simp add: remember_def Let_def)

lemma forget_entries:
  "entries (snd (forget q s)) = filter (\<lambda>e. \<not> contains (lower (strip q)) (lower (e_text e))) (entries s)"
  by (simp add: forget_def Let_def)

lemma fact_allowed: "''fact'' \<in> set ALLOWED_CATEGORIES"
  by (simp add: ALLOWED_CATEGORIES_def)

lemma mem_exec_categories: "categories_ok s \<Longrightarrow> categories_ok (mem_exec op s)"
  using fact_allowed by (cases op) (auto simp: categories_ok_def remember_entries forget_entries)

interpretation memory: invariant_system mem_step categories_ok
  by unfold_locales (auto simp: mem_step_def intro: mem_exec_categories)

lemma mem_run_steps: "mem_step\<^sup>*\<^sup>* s (mem_run ops s)"
proof (induction ops arbitrary: s)
  case Nil
  then show ?case by (simp add: mem_run_def)
next
  case (Cons op ops)
  have "mem_step s (mem_exec op s)" by (auto simp: mem_step_def)
  with Cons [of "mem_exec op s"] show ?case
    by (simp add: mem_run_def converse_rtranclp_into_rtranclp)
qed

lemma last_items_Nil [simp]: "last_items n [] = []"
  by (simp add: last_items_def)

lemma filter_not_filter [simp]: "filter P (filter (\<lambda>x. \<not> P x) xs) = []"
  by (simp add: filter_empty_conv)

section \<open>Properties\<close>

text \<open>C37. Safety rules are never editable memory: after any sequence of \<open>remember\<close> and \<open>forget\<close>
  calls on a store that holds only allowed categories, every entry still has an allowed category
  and none is a forbidden one, whatever category (in any letter case) the caller asked for; and a
  request for a forbidden category is refused with the store unchanged.\<close>

theorem no_safety_rule_in_memory:
  assumes "categories_ok s"
  shows "(\<forall>e \<in> set (entries (mem_run ops s)).
            e_category e \<in> set ALLOWED_CATEGORIES \<and> e_category e \<notin> set FORBIDDEN_CATEGORIES)
    \<and> (lower c \<in> set FORBIDDEN_CATEGORIES \<longrightarrow>
         (\<exists>msg. remember t c m s = (Inl (DroidError msg), s)))"
proof -
  have "categories_ok (mem_run ops s)" by (rule memory.steps_inv [OF mem_run_steps assms])
  then show ?thesis
    using allowed_not_forbidden by (auto simp: categories_ok_def remember_def Let_def)
qed

theorem no_safety_rule_in_memory_witness:
  "(\<exists>msg. remember ''speed limit is 9'' ''SAFETY'' [] (init_memory fresh_file) =
            (Inl (DroidError msg), init_memory fresh_file))
   \<and> e_category ` set (entries (mem_run [Remember ''x'' ''Limit'' [], Remember ''y'' ''odd'' []] (init_memory fresh_file)))
       \<subseteq> set ALLOWED_CATEGORIES"
proof -
  have ok: "categories_ok (init_memory fresh_file)" by (simp add: categories_ok_def init_memory_def)
  have "lower ''SAFETY'' \<in> set FORBIDDEN_CATEGORIES" by code_simp
  then show ?thesis
    using no_safety_rule_in_memory [OF ok, of "[Remember ''x'' ''Limit'' [], Remember ''y'' ''odd'' []]"
        "''SAFETY''" "''speed limit is 9''" "[]"]
    by blast
qed

text \<open>Forgetting is complete and exact: after \<open>forget q\<close>, a non-blank query \<open>q\<close> recalls
  nothing, every entry that did not match is kept in order, and the number returned is the number
  of entries that disappeared.\<close>

theorem forget_is_exact:
  assumes "lower (strip q) \<noteq> []"
  shows "recall q n (snd (forget q s)) = []
    \<and> entries (snd (forget q s)) = filter (\<lambda>e. \<not> contains (lower (strip q)) (lower (e_text e))) (entries s)
    \<and> mem_count s = fst (forget q s) + mem_count (snd (forget q s))"
proof -
  let ?P = "\<lambda>e. contains (lower (strip q)) (lower (e_text e))"
  have "recall q n (snd (forget q s)) = last_items n (filter ?P (filter (\<lambda>e. \<not> ?P e) (entries s)))"
    using assms by (simp only: recall_def forget_entries Let_def if_False)
  moreover have "length (filter (\<lambda>e. \<not> ?P e) (entries s)) \<le> length (entries s)" by simp
  ultimately show ?thesis
    by (simp only: forget_entries mem_count_def filter_not_filter last_items_Nil)
      (simp add: forget_def Let_def)
qed

theorem forget_is_exact_witness:
  "recall ''Lab'' 20 (snd (forget ''Lab'' (snd (remember ''the LAB code'' ''fact'' [] (init_memory fresh_file))))) = []"
proof -
  have "lower (strip ''Lab'') \<noteq> []" by code_simp
  from forget_is_exact [OF this] show ?thesis by blast
qed

end
