(* ===== verification/UpdateSlots.thy ===== *)
theory UpdateSlots
  imports Storage Events
begin

text \<open>
  The A/B update service, \<open>services/update.py\<close>: bundle verification, installation into the
  inactive slot, boot-health confirmation with automatic rollback, and manual rollback, saved
  after every change.

  A bundle is what reading its path gives: unreadable, not a JSON document, or a dictionary. The
  digest of a payload (\<open>sha256\<close> of its canonical JSON text) is the parameter \<open>digest\<close>, and
  \<open>fr\<close> prints floats. The state file, when it is JSON, is assumed to have the shape the service
  writes. The service reports what it emits to the audit log as a list of records.
  \<open>RaucAdapter\<close>, which only spawns processes, is not modelled.
\<close>

section \<open>State\<close>

datatype slot = SlotA | SlotB

fun slot_name :: "slot \<Rightarrow> string" where
  "slot_name SlotA = ''A''"
| "slot_name SlotB = ''B''"

fun other_slot :: "slot \<Rightarrow> slot" where
  "other_slot SlotA = SlotB"
| "other_slot SlotB = SlotA"

record slot_info =
  sl_version :: pyval
  sl_healthy :: bool

record update_info =
  running_version :: pyval
  active_slot :: slot
  slots :: "slot \<Rightarrow> slot_info"
  next_boot :: slot
  last_result :: string

record update_store =
  uinfo :: update_info
  u_file :: "update_info json_file"

definition version_string :: pyval where
  "version_string = PStr ''1.0.0''"

definition default_state :: update_info where
  "default_state =
     \<lparr>running_version = version_string, active_slot = SlotA,
      slots = (\<lambda>s. case s of SlotA \<Rightarrow> \<lparr>sl_version = version_string, sl_healthy = True\<rparr>
                           | SlotB \<Rightarrow> \<lparr>sl_version = PNone, sl_healthy = False\<rparr>),
      next_boot = SlotA, last_result = ''none''\<rparr>"

definition init_update :: "update_info json_file \<Rightarrow> update_store" where
  "init_update f = \<lparr>uinfo = default_state, u_file = f\<rparr>"

section \<open>Persistence and queries\<close>

text \<open>An existing file that cannot be read or parsed resets the state to the default.\<close>

definition update_load :: "update_store \<Rightarrow> unit res \<times> update_store" where
  "update_load s =
     (case contents (u_file s) of
        Missing \<Rightarrow> (Inr (), s)
      | Unreadable \<Rightarrow> (Inr (), s\<lparr>uinfo := default_state\<rparr>)
      | BadUtf8 \<Rightarrow> (Inl (UnicodeDecodeError ''invalid utf-8''), s)
      | BadJson _ \<Rightarrow> (Inr (), s\<lparr>uinfo := default_state\<rparr>)
      | Doc u \<Rightarrow> (Inr (), s\<lparr>uinfo := u\<rparr>))"

definition update_save :: "update_store \<Rightarrow> update_store" where
  "update_save s = s\<lparr>u_file := write_doc (uinfo s) (u_file s)\<rparr>"

definition inactive :: "update_info \<Rightarrow> slot" where
  "inactive u = (if active_slot u = SlotA then SlotB else SlotA)"

definition slot_to_val :: "slot_info \<Rightarrow> pyval" where
  "slot_to_val i = PDict [(''version'', sl_version i), (''healthy'', PBool (sl_healthy i))]"

definition update_status :: "update_info \<Rightarrow> pydict" where
  "update_status u =
     [(''running_version'', running_version u),
      (''active_slot'', PStr (slot_name (active_slot u))),
      (''inactive_slot'', PStr (slot_name (inactive u))),
      (''next_boot'', PStr (slot_name (next_boot u))),
      (''slots'', PDict [(''A'', slot_to_val (slots u SlotA)), (''B'', slot_to_val (slots u SlotB))]),
      (''update_available'', PBool False),
      (''last_result'', PStr (last_result u))]"

section \<open>Verification and installation\<close>

datatype bundle_file =
    BundleUnreadable string
  | BundleNotJson string
  | BundleOther
  | Bundle pydict

definition verify_bundle :: "(pyval \<Rightarrow> string) \<Rightarrow> bundle_file \<Rightarrow> (bool \<times> pydict \<times> string) res" where
  "verify_bundle digest f =
     (case f of
        BundleUnreadable exc \<Rightarrow> Inr (False, [], ''cannot read bundle: '' @ exc)
      | BundleNotJson exc \<Rightarrow> Inr (False, [], ''bundle is not a valid DroidOS bundle: '' @ exc)
      | BundleOther \<Rightarrow> Inl (AttributeError ''get'')
      | Bundle doc \<Rightarrow>
          if dict_get doc ''compatible'' PNone \<noteq> PStr ''droidos''
          then Inr (False, [], ''bundle is not compatible with DroidOS'')
          else if dict_get doc ''payload_checksum'' PNone
                    \<notin> {PNone, PStr (''sha256:'' @ digest (dict_get doc ''payload'' (PDict [])))}
          then Inr (False, doc, ''bundle checksum mismatch'')
          else if \<not> truthy (dict_get doc ''signature'' PNone)
          then Inr (False, doc, ''bundle is not signed'')
          else Inr (True, doc, ''verified''))"

definition install ::
  "(real \<Rightarrow> string) \<Rightarrow> (pyval \<Rightarrow> string) \<Rightarrow> bundle_file \<Rightarrow> update_store
     \<Rightarrow> (pydict \<times> audit_record list) res \<times> update_store" where
  "install fr digest f s =
     (case verify_bundle digest f of
        Inl e \<Rightarrow> (Inl e, s)
      | Inr (ok, doc, reason) \<Rightarrow>
          if \<not> ok then
            (Inr ([(''ok'', PBool False), (''reason'', PStr reason)], []),
             update_save (s\<lparr>uinfo := (uinfo s)\<lparr>last_result := ''verify_failed: '' @ reason\<rparr>\<rparr>))
          else
            let target = inactive (uinfo s);
                version = dict_get doc ''version'' (PStr ''unknown'');
                u = (uinfo s)\<lparr>slots := (slots (uinfo s))(target := \<lparr>sl_version = version, sl_healthy = False\<rparr>),
                              next_boot := target,
                              last_result := ''installed:'' @ py_str fr version @ ''->'' @ slot_name target\<rparr>
            in (Inr ([(''ok'', PBool True), (''slot'', PStr (slot_name target)), (''version'', version),
                      (''reboot_required'', PBool True)],
                     [(blank_record ''update'')\<lparr>au_outcome := Some ''installed'',
                        au_detail := Some [(''version'', version), (''slot'', PStr (slot_name target))]\<rparr>]),
                update_save (s\<lparr>uinfo := u\<rparr>)))"

section \<open>Boot health and rollback\<close>

definition confirm_boot_health :: "bool \<Rightarrow> update_store \<Rightarrow> (pydict \<times> audit_record list) \<times> update_store" where
  "confirm_boot_health healthy s =
     (let booted = next_boot (uinfo s);
          u = (if healthy then
                 (uinfo s)\<lparr>active_slot := booted,
                   slots := (slots (uinfo s))(booted := (slots (uinfo s) booted)\<lparr>sl_healthy := True\<rparr>),
                   running_version := (if truthy (sl_version (slots (uinfo s) booted))
                                       then sl_version (slots (uinfo s) booted) else version_string),
                   last_result := ''boot_ok:'' @ slot_name booted\<rparr>
               else
                 (let previous = (if booted = SlotB then SlotA else SlotB) in
                  (uinfo s)\<lparr>next_boot := previous, active_slot := previous,
                    last_result := ''rolled_back_from:'' @ slot_name booted\<rparr>));
          result = (if healthy then [(''ok'', PBool True), (''active_slot'', PStr (slot_name booted))]
                    else [(''ok'', PBool False),
                          (''rolled_back_to'', PStr (slot_name (if booted = SlotB then SlotA else SlotB)))])
      in ((result, [(blank_record ''update'')\<lparr>au_outcome := Some (last_result u)\<rparr>]),
          update_save (s\<lparr>uinfo := u\<rparr>)))"

definition rollback :: "update_store \<Rightarrow> pydict \<times> update_store" where
  "rollback s =
     (let target = inactive (uinfo s) in
      if \<not> truthy (sl_version (slots (uinfo s) target))
      then ([(''ok'', PBool False), (''reason'', PStr ''no alternative slot to roll back to'')], s)
      else ([(''ok'', PBool True), (''active_slot'', PStr (slot_name target))],
            update_save (s\<lparr>uinfo := (uinfo s)\<lparr>active_slot := target, next_boot := target,
              running_version := sl_version (slots (uinfo s) target),
              last_result := ''manual_rollback:'' @ slot_name target\<rparr>\<rparr>)))"

definition update_diagnostics :: "(real \<Rightarrow> string) \<Rightarrow> update_store \<Rightarrow> diagnostic_status list" where
  "update_diagnostics fr s =
     [\<lparr>d_name = ''update/slots'', d_level = OK,
       d_message = ''running '' @ py_str fr (running_version (uinfo s)) @ '' on slot ''
                     @ slot_name (active_slot (uinfo s)),
       d_hardware_id = [], d_values = update_status (uinfo s)\<rparr>]"

section \<open>Facts\<close>

lemma update_save_keeps [simp, keeps]:
  "uinfo (update_save s) = uinfo s"
  "writable (u_file (update_save s)) = writable (u_file s)"
  by (simp_all add: update_save_def)

lemma update_load_saved:
  "writable (u_file s) \<Longrightarrow> update_load (init_update (u_file (update_save s))) =
     (Inr (), \<lparr>uinfo = uinfo s, u_file = u_file (update_save s)\<rparr>)"
  by (simp add: update_load_def init_update_def update_save_def write_doc_def)

interpretation upd: persistent_store update_load update_save init_update u_file uinfo
  by unfold_locales (simp_all add: update_load_saved)

lemma inactive_neq [simp]: "inactive u \<noteq> active_slot u"
  by (cases "active_slot u") (simp_all add: inactive_def)

lemma other_of_inactive: "(if inactive u = SlotB then SlotA else SlotB) = active_slot u"
  by (cases "active_slot u") (simp_all add: inactive_def)

lemma other_eq_active: "sl \<noteq> inactive u \<Longrightarrow> sl = active_slot u"
  by (cases sl; cases "active_slot u") (simp_all add: inactive_def)

lemma verify_ok_iff:
  "verify_bundle digest f = Inr (True, doc, reason) \<longleftrightarrow>
     f = Bundle doc \<and> reason = ''verified'' \<and> dict_get doc ''compatible'' PNone = PStr ''droidos''
     \<and> dict_get doc ''payload_checksum'' PNone
          \<in> {PNone, PStr (''sha256:'' @ digest (dict_get doc ''payload'' (PDict [])))}
     \<and> truthy (dict_get doc ''signature'' PNone)"
  by (cases f) (auto simp: verify_bundle_def)

definition installs :: "(pyval \<Rightarrow> string) \<Rightarrow> bundle_file \<Rightarrow> pydict \<Rightarrow> bool" where
  "installs digest f doc = (\<exists>reason. verify_bundle digest f = Inr (True, doc, reason))"

lemma install_ok:
  assumes "installs digest f doc"
  shows "uinfo (snd (install fr digest f s)) = (uinfo s)
      \<lparr>slots := (slots (uinfo s))(inactive (uinfo s) :=
                  \<lparr>sl_version = dict_get doc ''version'' (PStr ''unknown''), sl_healthy = False\<rparr>),
       next_boot := inactive (uinfo s),
       last_result := ''installed:'' @ py_str fr (dict_get doc ''version'' (PStr ''unknown''))
                        @ ''->'' @ slot_name (inactive (uinfo s))\<rparr>"
  using assms by (auto simp: installs_def install_def Let_def)

lemma install_cases:
  "(\<exists>doc. installs digest f doc) \<or>
   (\<exists>r. uinfo (snd (install fr digest f s)) = (uinfo s)\<lparr>last_result := r\<rparr>)"
proof (cases "verify_bundle digest f")
  case (Inl e)
  then have "uinfo (snd (install fr digest f s)) = (uinfo s)\<lparr>last_result := last_result (uinfo s)\<rparr>"
    by (simp add: install_def)
  then show ?thesis by blast
next
  case (Inr p)
  then show ?thesis by (cases p) (auto simp: installs_def install_def)
qed

section \<open>Properties\<close>

text \<open>The running slot is never modified by an installation: whatever the bundle is and
  whether it verifies or not, the active slot, its recorded contents and the running version are
  the same afterwards; and the next boot target changes only if the bundle is a dictionary marked
  compatible, signed, and with no checksum or the right one.\<close>

theorem install_keeps_active_slot:
  "active_slot (uinfo (snd (install fr digest f s))) = active_slot (uinfo s)
   \<and> slots (uinfo (snd (install fr digest f s))) (active_slot (uinfo s)) = slots (uinfo s) (active_slot (uinfo s))
   \<and> running_version (uinfo (snd (install fr digest f s))) = running_version (uinfo s)
   \<and> (next_boot (uinfo (snd (install fr digest f s))) = next_boot (uinfo s) \<or>
      (\<exists>doc. f = Bundle doc \<and> dict_get doc ''compatible'' PNone = PStr ''droidos''
         \<and> truthy (dict_get doc ''signature'' PNone)
         \<and> dict_get doc ''payload_checksum'' PNone
             \<in> {PNone, PStr (''sha256:'' @ digest (dict_get doc ''payload'' (PDict [])))}))"
  using install_cases [of digest f fr s]
proof
  assume "\<exists>doc. installs digest f doc"
  then obtain doc where d: "installs digest f doc" ..
  then have "f = Bundle doc \<and> dict_get doc ''compatible'' PNone = PStr ''droidos''
      \<and> truthy (dict_get doc ''signature'' PNone)
      \<and> dict_get doc ''payload_checksum'' PNone
          \<in> {PNone, PStr (''sha256:'' @ digest (dict_get doc ''payload'' (PDict [])))}"
    unfolding installs_def verify_ok_iff by blast
  moreover have "active_slot (uinfo s) \<noteq> inactive (uinfo s)" by (metis inactive_neq)
  ultimately show ?thesis using install_ok [OF d, of fr s] by simp
next
  assume "\<exists>r. uinfo (snd (install fr digest f s)) = (uinfo s)\<lparr>last_result := r\<rparr>"
  then obtain r where r: "uinfo (snd (install fr digest f s)) = (uinfo s)\<lparr>last_result := r\<rparr>" ..
  show ?thesis unfolding r by simp
qed

text \<open>C20. A failed update rolls back: when an installed bundle fails its boot check, the droid is
  on the slot it ran before, with that slot's contents and the running version unchanged and set
  to boot again; when the check passes, it runs the new slot.\<close>

theorem failed_update_rolls_back:
  assumes "installs digest f doc"
  shows "let u0 = uinfo s; u1 = snd (install fr digest f s) in
      active_slot (uinfo (snd (confirm_boot_health False u1))) = active_slot u0
    \<and> next_boot (uinfo (snd (confirm_boot_health False u1))) = active_slot u0
    \<and> slots (uinfo (snd (confirm_boot_health False u1))) (active_slot u0) = slots u0 (active_slot u0)
    \<and> running_version (uinfo (snd (confirm_boot_health False u1))) = running_version u0
    \<and> active_slot (uinfo (snd (confirm_boot_health True u1))) = inactive u0
    \<and> sl_healthy (slots (uinfo (snd (confirm_boot_health True u1))) (inactive u0))"
proof -
  have "active_slot (uinfo s) \<noteq> inactive (uinfo s)" by (metis inactive_neq)
  then show ?thesis
    using install_ok [OF assms, of fr s]
    by (simp add: confirm_boot_health_def Let_def other_of_inactive)
qed

definition example_bundle :: bundle_file where
  "example_bundle = Bundle [(''compatible'', PStr ''droidos''), (''version'', PStr ''2.0''),
     (''signature'', PStr ''sig'')]"

theorem failed_update_rolls_back_witness:
  "running_version (uinfo (snd (confirm_boot_health False
      (snd (install (\<lambda>_. []) (\<lambda>_. []) example_bundle (init_update fresh_file)))))) = PStr ''1.0.0''"
proof -
  have "installs (\<lambda>_. []) example_bundle
      [(''compatible'', PStr ''droidos''), (''version'', PStr ''2.0''), (''signature'', PStr ''sig'')]"
    by (simp add: installs_def verify_bundle_def example_bundle_def dict_get_def)
  note rolled = failed_update_rolls_back [OF this, of "init_update fresh_file" "\<lambda>_. []", unfolded Let_def]
  have "running_version (uinfo (init_update fresh_file)) = PStr ''1.0.0''"
    by (simp add: init_update_def default_state_def version_string_def)
  with rolled show ?thesis by (elim conjE) (simp only:)
qed

text \<open>Automatic rollback does not check that there is something to roll back to: a failed boot
  check on a droid that never installed an update makes the empty slot B active, although manual
  rollback refuses that slot.\<close>

theorem failed_check_selects_empty_slot:
  "active_slot (uinfo (snd (confirm_boot_health False (init_update ff)))) = SlotB
   \<and> sl_version (slots (uinfo (snd (confirm_boot_health False (init_update ff)))) SlotB) = PNone
   \<and> fst (rollback (init_update ff)) =
       [(''ok'', PBool False), (''reason'', PStr ''no alternative slot to roll back to'')]"
  by (simp add: confirm_boot_health_def rollback_def init_update_def default_state_def inactive_def Let_def)

end
