(* ===== verification/Gait.thy ===== *)
theory Gait
  imports Body Storage
begin

text \<open>
  Gait policies, \<open>gait/policy.py\<close>: validation of a body's policy file and inference of joint
  targets with the central-pattern-generator fallback, clamped to the policy's safety envelope.

  The file system is a parameter \<open>gait_fs\<close>: the content of a path as a descriptor document, the
  \<open>sha256\<close> digest of its bytes, and the network session \<open>onnxruntime\<close> gives for it, if any. The
  leaves of \<open>safety_envelope\<close> and \<open>gait\<close> are numbers. A network's output may be NaN or infinite.
\<close>

section \<open>The policy\<close>

record gait_policy =
  gp_body_id :: string
  gp_supported_body_revision :: string
  gp_control_rate_hz :: real
  gp_observation :: "string list"
  gp_action :: "string list"
  gp_safety_envelope :: "(string \<times> real) list"
  gp_runtime :: string
  gp_checksum :: string
  gp_approved_for_physical :: bool
  gp_params :: "(string \<times> real) list"
  gp_phase :: real
  gp_onnx :: "(real list \<Rightarrow> pyfloat list) option"

definition step_freq :: "gait_policy \<Rightarrow> real" where
  "step_freq g = dict_get (gp_params g) ''step_freq_hz'' (14 / 10)"

definition cpg_gain :: "real \<Rightarrow> real" where
  "cpg_gain vx = (if \<bar>vx\<bar> < 1 / 1000 then 0 else min 1 (\<bar>vx\<bar> / (35 / 100)))"

definition leg_targets :: "gait_policy \<Rightarrow> real \<Rightarrow> string \<Rightarrow> real \<Rightarrow> (string \<times> real) list" where
  "leg_targets g gain side off =
     (let hip = dict_get (gp_params g) ''hip_amp'' (35 / 100) * gain;
          knee = dict_get (gp_params g) ''knee_amp'' (6 / 10) * gain;
          ankle = dict_get (gp_params g) ''ankle_amp'' (2 / 10) * gain;
          s = sin (gp_phase g + off);
          c = cos (gp_phase g + off)
      in [(side @ ''_hip_pitch'', hip * s),
          (side @ ''_knee'', max 0 (knee * (5 / 10 - 5 / 10 * c))),
          (side @ ''_ankle'', ankle * - s)])"

definition infer_cpg :: "gait_policy \<Rightarrow> (string \<times> real) list \<Rightarrow> (string \<times> pyfloat) list" where
  "infer_cpg g obs =
     (let gain = cpg_gain (dict_get obs ''cmd_vx'' 0);
          targets = leg_targets g gain ''left'' 0 @ leg_targets g gain ''right'' pi
      in dict_of (map (\<lambda>j. (j, Fin (dict_get targets j 0))) (gp_action g)))"

definition infer_onnx :: "gait_policy \<Rightarrow> (real list \<Rightarrow> pyfloat list) \<Rightarrow> (string \<times> real) list \<Rightarrow> (string \<times> pyfloat) list" where
  "infer_onnx g net obs =
     dict_of (zip (gp_action g) (net (map (\<lambda>n. dict_get obs n 0) (gp_observation g))))"

definition envelope_limit :: "gait_policy \<Rightarrow> real" where
  "envelope_limit g = dict_get (gp_safety_envelope g) ''max_action'' (15 / 10)"

definition apply_envelope :: "gait_policy \<Rightarrow> (string \<times> pyfloat) list \<Rightarrow> (string \<times> pyfloat) list" where
  "apply_envelope g action = map (\<lambda>(j, v). (j, clamp v (envelope_limit g))) action"

definition infer :: "(string \<times> real) list \<Rightarrow> real \<Rightarrow> gait_policy \<Rightarrow> (string \<times> pyfloat) list \<times> gait_policy" where
  "infer obs dt g0 =
     (let g = g0\<lparr>gp_phase := py_fmod (gp_phase g0 + 2 * pi * step_freq g0 * dt) (2 * pi)\<rparr>;
          action = (case gp_onnx g of
                      Some net \<Rightarrow> if gp_runtime g = ''onnx'' then infer_onnx g net obs else infer_cpg g obs
                    | None \<Rightarrow> infer_cpg g obs)
      in (apply_envelope g action, g))"

section \<open>Loading\<close>

record gait_doc =
  gd_body_id :: "string option"
  gd_supported_body_revision :: "string option"
  gd_control_rate_hz :: "real option"
  gd_observation :: "string list option"
  gd_action :: "string list option"
  gd_safety_envelope :: "(string \<times> real) list option"
  gd_gait :: "(string \<times> real) list option"

definition empty_doc :: gait_doc where
  "empty_doc = \<lparr>gd_body_id = None, gd_supported_body_revision = None, gd_control_rate_hz = None,
     gd_observation = None, gd_action = None, gd_safety_envelope = None, gd_gait = None\<rparr>"

record gait_fs =
  gf_content :: "string \<Rightarrow> gait_doc option file_content"
  gf_digest :: "string \<Rightarrow> string"
  gf_session :: "string \<Rightarrow> (real list \<Rightarrow> pyfloat list) option"

definition opt :: "'a \<Rightarrow> 'a option \<Rightarrow> 'a" where
  "opt d v = (case v of None \<Rightarrow> d | Some x \<Rightarrow> x)"

definition load_cpg :: "gait_doc \<Rightarrow> gait_policy_spec \<Rightarrow> string \<Rightarrow> gait_policy" where
  "load_cpg doc spec chk =
     \<lparr>gp_body_id = opt [] (gd_body_id doc),
      gp_supported_body_revision = opt [] (gd_supported_body_revision doc),
      gp_control_rate_hz = opt 0 (gd_control_rate_hz doc),
      gp_observation = opt [] (gd_observation doc),
      gp_action = opt [] (gd_action doc),
      gp_safety_envelope = opt [] (gd_safety_envelope doc),
      gp_runtime = ''cpg'', gp_checksum = chk,
      gp_approved_for_physical = g_approved_for_physical spec,
      gp_params = opt [] (gd_gait doc), gp_phase = 0, gp_onnx = None\<rparr>"

text \<open>\<open>path.suffix == ".onnx"\<close>: the last component ends with it and has a stem before it.\<close>

definition last_component :: "string \<Rightarrow> string" where
  "last_component p = rev (takeWhile (\<lambda>c. c \<noteq> CHR 0x2F) (rev p))"

definition is_onnx :: "string \<Rightarrow> bool" where
  "is_onnx p = (let n = last_component p in length n > 5 \<and> drop (length n - 5) n = ''.onnx'')"

definition sidecar :: "string \<Rightarrow> string" where
  "sidecar p = take (length p - 5) p @ ''.json''"

definition load_onnx :: "gait_fs \<Rightarrow> string \<Rightarrow> gait_policy_spec \<Rightarrow> string \<Rightarrow> gait_policy res" where
  "load_onnx fs path spec chk =
     (case (case gf_content fs (sidecar path) of
              Missing \<Rightarrow> Inr empty_doc
            | Unreadable \<Rightarrow> Inl (OSError (sidecar path))
            | BadUtf8 \<Rightarrow> Inl (UnicodeDecodeError ''invalid utf-8'')
            | BadJson m \<Rightarrow> Inl (JSONDecodeError m)
            | Doc None \<Rightarrow> Inl (AttributeError ''get'')
            | Doc (Some d) \<Rightarrow> Inr d) of
        Inl e \<Rightarrow> Inl e
      | Inr doc \<Rightarrow> Inr
          \<lparr>gp_body_id = opt [] (gd_body_id doc),
           gp_supported_body_revision = opt (g_supported_body_revision spec) (gd_supported_body_revision doc),
           gp_control_rate_hz = g_control_rate_hz spec,
           gp_observation = opt [] (gd_observation doc),
           gp_action = opt [] (gd_action doc),
           gp_safety_envelope = opt [] (gd_safety_envelope doc),
           gp_runtime = ''onnx'', gp_checksum = chk,
           gp_approved_for_physical = g_approved_for_physical spec,
           gp_params = opt [] (gd_gait doc), gp_phase = 0, gp_onnx = gf_session fs path\<rparr>)"

text \<open>Steps 3 to 6: a policy for another body is refused, the rest are issues.\<close>

definition check_policy :: "loaded_body \<Rightarrow> gait_policy \<Rightarrow> gait_policy option \<times> string list" where
  "check_policy body p =
     (let m = manifest body;
          missing = filter (\<lambda>j. j \<notin> set (required_actuators m)) (gp_action p)
      in if gp_body_id p \<noteq> [] \<and> gp_body_id p \<noteq> body_id m
         then (None, [''gait policy is for body '' @ repr_str (gp_body_id p) @ '', not '' @ repr_str (body_id m)])
         else (Some p,
           (if gp_supported_body_revision p \<noteq> [] \<and> gp_supported_body_revision p \<noteq> revision m
            then [''gait policy revision '' @ repr_str (gp_supported_body_revision p)
                  @ '' != body '' @ repr_str (revision m)] else [])
           @ (if missing \<noteq> [] then [''gait policy drives unknown joints: '' @ join '', '' missing] else [])
           @ (if ''base_lin_vel'' \<in> set (gp_observation p) \<and> ''imu'' \<notin> s_type ` set (sensors body)
              then [''gait policy needs an IMU but none is declared''] else [])
           @ (if backend_kind body = ''physical'' \<and> \<not> gp_approved_for_physical p
              then [''gait policy is not approved for physical operation''] else [])))"

definition read_policy :: "gait_fs \<Rightarrow> string \<Rightarrow> gait_policy_spec \<Rightarrow> string \<Rightarrow> (string + gait_policy) res" where
  "read_policy fs path spec actual =
     (if is_onnx path then (case load_onnx fs path spec actual of Inl e \<Rightarrow> Inl e | Inr p \<Rightarrow> Inr (Inr p))
      else case gf_content fs path of
        BadUtf8 \<Rightarrow> Inl (UnicodeDecodeError ''invalid utf-8'')
      | BadJson m \<Rightarrow> Inr (Inl (''gait policy is not valid JSON: '' @ m))
      | Doc None \<Rightarrow> Inl (AttributeError ''get'')
      | Doc (Some d) \<Rightarrow> Inr (Inr (load_cpg d spec actual))
      | _ \<Rightarrow> Inl (OSError path))"

definition load_for_body :: "gait_fs \<Rightarrow> loaded_body \<Rightarrow> (gait_policy option \<times> string list) res" where
  "load_for_body fs body =
     (case m_gait_policy (manifest body) of
        None \<Rightarrow> Inr (None, [''body declares no gait policy''])
      | Some spec \<Rightarrow>
          let path = map_option (\<lambda>d. path_join d (g_file spec)) (directory (manifest body)) in
          (case path of
             None \<Rightarrow> Inr (None, [''gait policy file not found: '' @ g_file spec])
           | Some p \<Rightarrow>
               if gf_content fs p = Missing then Inr (None, [''gait policy file not found: '' @ g_file spec])
               else if gf_content fs p = Unreadable then Inl (OSError p)
               else
                 let actual = ''sha256:'' @ gf_digest fs p in
                 if g_checksum spec \<noteq> [] \<and> g_checksum spec \<noteq> actual
                 then Inr (None, [''gait policy checksum mismatch (expected '' @ g_checksum spec
                                  @ '', got '' @ actual @ '')''])
                 else (case read_policy fs p spec actual of
                         Inl e \<Rightarrow> Inl e
                       | Inr (Inl issue) \<Rightarrow> Inr (None, [issue])
                       | Inr (Inr policy) \<Rightarrow> Inr (check_policy body policy))))"

section \<open>Facts\<close>

lemma keys_dict_of: "fst ` set (dict_of kvs) = fst ` set kvs"
proof -
  have "fst ` set (fold (\<lambda>(k, v) d. AList.update k v d) kvs d) = fst ` set kvs \<union> fst ` set d" for d
  proof (induction kvs arbitrary: d)
    case (Cons kv kvs)
    then show ?case by (cases kv) (simp add: dom_update)
  qed simp
  from this [of "[]"] show ?thesis by (simp add: dict_of_def)
qed

lemma apply_envelope_bounded:
  "0 \<le> envelope_limit g \<Longrightarrow> (j, v) \<in> set (apply_envelope g a) \<Longrightarrow>
     \<exists>r. v = Fin r \<and> \<bar>r\<bar> \<le> envelope_limit g"
  by (auto simp: apply_envelope_def intro: clamp_within)

lemma apply_envelope_keys: "fst ` set (apply_envelope g a) = fst ` set a"
  by (force simp: apply_envelope_def image_iff)

lemma infer_policy [simp, keeps]:
  "envelope_limit (snd (infer obs dt g)) = envelope_limit g"
  "gp_action (snd (infer obs dt g)) = gp_action g"
  by (simp_all add: infer_def Let_def envelope_limit_def)

lemma infer_onnx_keys: "fst ` set (infer_onnx g net obs) \<subseteq> set (gp_action g)"
  by (auto simp: infer_onnx_def keys_dict_of dest: set_zip_leftD)

lemma infer_cpg_keys: "fst ` set (infer_cpg g obs) = set (gp_action g)"
  by (simp add: infer_cpg_def keys_dict_of Let_def image_image)

lemma leg_targets_idle: "leg_targets g 0 side off = [(side @ ''_hip_pitch'', 0), (side @ ''_knee'', 0), (side @ ''_ankle'', 0)]"
  by (simp add: leg_targets_def Let_def)

lemma check_policy_clean:
  assumes "check_policy body p = (Some q, [])"
  shows "q = p \<and> (gp_body_id p = [] \<or> gp_body_id p = body_id (manifest body))
    \<and> (gp_supported_body_revision p = [] \<or> gp_supported_body_revision p = revision (manifest body))
    \<and> set (gp_action p) \<subseteq> set (required_actuators (manifest body))
    \<and> (''base_lin_vel'' \<in> set (gp_observation p) \<longrightarrow> ''imu'' \<in> s_type ` set (sensors body))
    \<and> (backend_kind body = ''physical'' \<longrightarrow> gp_approved_for_physical p)"
  using assms unfolding check_policy_def Let_def
  by (auto simp: filter_empty_conv split: if_splits)

lemma load_for_body_clean:
  assumes "load_for_body fs body = Inr (Some p, [])"
  shows "\<exists>spec dir. m_gait_policy (manifest body) = Some spec \<and> directory (manifest body) = Some dir
    \<and> (g_checksum spec = [] \<or> g_checksum spec = ''sha256:'' @ gf_digest fs (path_join dir (g_file spec)))
    \<and> check_policy body p = (Some p, [])"
proof -
  from assms obtain spec where spec: "m_gait_policy (manifest body) = Some spec"
    by (cases "m_gait_policy (manifest body)") (simp_all add: load_for_body_def)
  from assms spec obtain dir where dir: "directory (manifest body) = Some dir"
    by (cases "directory (manifest body)") (simp_all add: load_for_body_def)
  let ?path = "path_join dir (g_file spec)"
  let ?chk = "''sha256:'' @ gf_digest fs ?path"
  have content: "gf_content fs ?path \<noteq> Missing" "gf_content fs ?path \<noteq> Unreadable"
    using assms by (auto simp: load_for_body_def spec dir)
  have chk: "g_checksum spec = [] \<or> g_checksum spec = ?chk"
    using assms content unfolding load_for_body_def spec dir Let_def by (auto split: if_splits)
  have "(case read_policy fs ?path spec ?chk of Inl e \<Rightarrow> Inl e | Inr (Inl issue) \<Rightarrow> Inr (None, [issue])
      | Inr (Inr policy) \<Rightarrow> Inr (check_policy body policy)) = Inr (Some p, [])"
    using assms content chk unfolding load_for_body_def spec dir Let_def
    by (simp only: option.case option.map if_False) (auto split: if_splits)
  then obtain q where "check_policy body q = (Some p, [])"
    by (auto split: sum.splits)
  then have "check_policy body p = (Some p, [])" using check_policy_clean by metis
  with spec dir chk show ?thesis by blast
qed

section \<open>Properties\<close>

text \<open>C22. Joint targets stay inside the safety envelope: every target of one inference step is for
  a joint the policy declares and is a finite float whose magnitude is at most the envelope limit, for every
  observation, even when a network returns NaN or an infinity.\<close>

theorem infer_within_envelope:
  assumes "0 \<le> envelope_limit g"
  shows "\<forall>(j, v) \<in> set (fst (infer obs dt g)). j \<in> set (gp_action g) \<and> (\<exists>r. v = Fin r \<and> \<bar>r\<bar> \<le> envelope_limit g)"
proof -
  obtain g' a where r: "fst (infer obs dt g) = apply_envelope g' a" and l: "envelope_limit g' = envelope_limit g"
    and keys: "fst ` set a \<subseteq> set (gp_action g)"
  proof -
    let ?g = "g\<lparr>gp_phase := py_fmod (gp_phase g + 2 * pi * step_freq g * dt) (2 * pi)\<rparr>"
    let ?a = "case gp_onnx ?g of
                Some net \<Rightarrow> if gp_runtime ?g = ''onnx'' then infer_onnx ?g net obs else infer_cpg ?g obs
              | None \<Rightarrow> infer_cpg ?g obs"
    have "fst ` set ?a \<subseteq> set (gp_action g)"
      using infer_onnx_keys [of ?g _ obs] infer_cpg_keys [of ?g obs] by (simp split: option.split)
    then show ?thesis by (intro that [of ?g ?a]) (simp_all add: infer_def Let_def envelope_limit_def)
  qed
  show ?thesis
  proof (clarify, intro conjI)
    fix j v
    assume jv: "(j, v) \<in> set (fst (infer obs dt g))"
    then have "j \<in> fst ` set (apply_envelope g' a)" unfolding r by force
    then show "j \<in> set (gp_action g)" using keys by (auto simp: apply_envelope_keys)
    show "\<exists>r. v = Fin r \<and> \<bar>r\<bar> \<le> envelope_limit g"
      using apply_envelope_bounded [of g' j v a] assms jv unfolding r l by simp
  qed
qed

definition example_policy :: gait_policy where
  "example_policy = \<lparr>gp_body_id = ''ig'', gp_supported_body_revision = [], gp_control_rate_hz = 50,
     gp_observation = [''cmd_vx''], gp_action = [''left_knee''], gp_safety_envelope = [(''max_action'', 1)],
     gp_runtime = ''onnx'', gp_checksum = [], gp_approved_for_physical = True, gp_params = [],
     gp_phase = 0, gp_onnx = Some (\<lambda>_. [NaN])\<rparr>"

theorem infer_within_envelope_witness:
  "\<exists>r. fst (infer [] 1 example_policy) = [(''left_knee'', Fin r)] \<and> \<bar>r\<bar> \<le> 1"
proof -
  have l: "envelope_limit example_policy = 1"
    by (simp add: envelope_limit_def example_policy_def dict_get_def)
  have "\<exists>v. fst (infer [] 1 example_policy) = [(''left_knee'', v)]"
    by (simp add: infer_def Let_def example_policy_def infer_onnx_def dict_of_def apply_envelope_def
        envelope_limit_def dict_get_def)
  then show ?thesis using infer_within_envelope [of example_policy "[]" 1] l by auto
qed

text \<open>A policy that loads without issues is cleared for its body: its file matches the
  declared checksum (if one is declared), it names this body or none, its revision matches or is
  open, it drives only joints the body has, its IMU requirement is met, and on the physical
  backend it is approved for physical operation.\<close>

theorem clean_policy_is_cleared:
  assumes "load_for_body fs body = Inr (Some p, [])"
  shows "(\<exists>spec dir. m_gait_policy (manifest body) = Some spec \<and> directory (manifest body) = Some dir
            \<and> (g_checksum spec = [] \<or> g_checksum spec = ''sha256:'' @ gf_digest fs (path_join dir (g_file spec))))
    \<and> (gp_body_id p = [] \<or> gp_body_id p = body_id (manifest body))
    \<and> (gp_supported_body_revision p = [] \<or> gp_supported_body_revision p = revision (manifest body))
    \<and> set (gp_action p) \<subseteq> set (required_actuators (manifest body))
    \<and> (''base_lin_vel'' \<in> set (gp_observation p) \<longrightarrow> ''imu'' \<in> s_type ` set (sensors body))
    \<and> (backend_kind body = ''physical'' \<longrightarrow> gp_approved_for_physical p)"
proof -
  from load_for_body_clean [OF assms] have c: "check_policy body p = (Some p, [])" by blast
  from load_for_body_clean [OF assms] check_policy_clean [OF c] show ?thesis by blast
qed

definition example_biped :: loaded_body where
  "example_biped = example_body\<lparr>manifest := example_manifest\<lparr>locomotion_type := ''biped'',
     directory := Some ''/b'',
     m_gait_policy := Some \<lparr>g_file = ''gait.json'', g_checksum = ''sha256:d'', g_format = ''json'',
       g_control_rate_hz = 50, g_supported_body_revision = ''1'', g_approved_for_physical = True\<rparr>\<rparr>,
     backend_kind := ''physical''\<rparr>"

definition example_fs :: gait_fs where
  "example_fs = \<lparr>gf_content = (\<lambda>_. Doc (Some (empty_doc\<lparr>gd_action := Some [''drive_left'']\<rparr>))),
     gf_digest = (\<lambda>_. ''d''), gf_session = (\<lambda>_. None)\<rparr>"

theorem clean_policy_is_cleared_witness:
  "\<exists>p. load_for_body example_fs example_biped = Inr (Some p, []) \<and> gp_approved_for_physical p
     \<and> set (gp_action p) \<subseteq> {''drive_left'', ''drive_right''}"
proof -
  have "\<exists>p. load_for_body example_fs example_biped = Inr (Some p, [])"
    by (simp add: load_for_body_def example_fs_def example_biped_def example_body_defs Let_def
        path_join_def startswith_def read_policy_def is_onnx_def last_component_def load_cpg_def
        check_policy_def empty_doc_def opt_def)
  then obtain p where p: "load_for_body example_fs example_biped = Inr (Some p, [])" ..
  have "required_actuators (manifest example_biped) = [''drive_left'', ''drive_right'']"
    "backend_kind example_biped = ''physical''"
    by (simp_all add: example_biped_def example_body_defs)
  with clean_policy_is_cleared [OF p] p show ?thesis by auto
qed

text \<open>A commanded standstill produces no leg motion: when the commanded forward speed is below
  one millimetre per second, every target of the pattern generator is zero.\<close>

theorem standstill_is_zero:
  assumes "\<bar>dict_get obs ''cmd_vx'' 0\<bar> < 1 / 1000" "gp_onnx g = None" "0 \<le> envelope_limit g"
  shows "\<forall>(j, v) \<in> set (fst (infer obs dt g)). v = Fin 0"
proof -
  let ?g = "g\<lparr>gp_phase := py_fmod (gp_phase g + 2 * pi * step_freq g * dt) (2 * pi)\<rparr>"
  have gain: "cpg_gain (dict_get obs ''cmd_vx'' 0) = 0" using assms(1) by (simp add: cpg_gain_def)
  have t: "dict_get (leg_targets ?g 0 ''left'' 0 @ leg_targets ?g 0 ''right'' pi) j 0 = 0" for j
    by (simp add: leg_targets_idle dict_get_def)
  have vals: "snd ` set (dict_of (map (\<lambda>j. (j, Fin 0)) js)) \<subseteq> {Fin 0}" for js :: "string list"
  proof -
    have "snd ` set (fold (\<lambda>(k, v) d. AList.update k v d) (map (\<lambda>j. (j, Fin 0)) js) d) \<subseteq> {Fin 0}"
      if "snd ` set d \<subseteq> {Fin 0}" for d
      using that
    proof (induction js arbitrary: d)
      case (Cons j js)
      have "snd ` set (AList.update j (Fin 0) d) \<subseteq> {Fin 0}"
        using Cons.prems by (induction d) auto
      with Cons.IH show ?case by simp
    qed simp
    from this [of "[]"] show ?thesis by (simp add: dict_of_def)
  qed
  have "fst (infer obs dt g) = apply_envelope ?g (dict_of (map (\<lambda>j. (j, Fin 0)) (gp_action ?g)))"
    using assms(2) by (simp add: infer_def Let_def infer_cpg_def gain t)
  then show ?thesis
    using vals [of "gp_action ?g"] assms(3) by (auto simp: apply_envelope_def clamp_Fin envelope_limit_def)
qed

theorem standstill_is_zero_witness:
  "\<forall>(j, v) \<in> set (fst (infer [(''cmd_vx'', 0)] 1 (example_policy\<lparr>gp_onnx := None\<rparr>))). v = Fin 0"
  by (rule standstill_is_zero) (simp_all add: dict_get_def envelope_limit_def example_policy_def)

end
