(* ===== verification/BodyManager.thy ===== *)
theory BodyManager
  imports Body Storage YamlRoundTrip
begin

text \<open>
  Discovery, loading and selection of body packages: the \<open>from_dict\<close> and \<open>load\<close> constructors of
  \<open>body/manifest.py\<close> and \<open>body/capabilities.py\<close>, and \<open>BodyManager\<close> of \<open>body/loader.py\<close>.

  The files of a package are given as parsed YAML documents whose leaves have the types the
  loader expects; every key may be absent. A file can also be missing, unreadable, not UTF-8 or
  not YAML, and each of those raises what the parser raises. The two selection files are modelled as
  characters: \<open>set_active\<close> writes the text that \<open>miniyaml.dump\<close> prints, and a selection is
  what \<open>miniyaml.load\<close> parses from that text, so an identifier that YAML reads as something else is
  lost here as it is in the code (the parser of the repository; PyYAML, which replaces it when it is installed, is
  not modelled). The components \<open>controllers\<close> and
  \<open>diagnostic_rules\<close> are read, so that a broken file raises, and their contents are dropped: no
  modelled code uses them.
\<close>

section \<open>Documents\<close>

text \<open>\<open>miniyaml.load_file\<close> on an existing path.\<close>

definition yaml_read :: "string \<Rightarrow> 'a file_content \<Rightarrow> 'a res" where
  "yaml_read path c =
     (case c of
        Doc d \<Rightarrow> Inr d
      | BadJson m \<Rightarrow> Inl (MiniYamlError m)
      | BadUtf8 \<Rightarrow> Inl (UnicodeDecodeError ''invalid utf-8'')
      | _ \<Rightarrow> Inl (OSError path))"

record gait_spec_doc =
  gs_file :: "string option"
  gs_checksum :: "string option"
  gs_format :: "string option"
  gs_control_rate_hz :: "real option"
  gs_supported_body_revision :: "string option"
  gs_approved_for_physical :: "bool option"

definition or_default :: "'a \<Rightarrow> 'a option \<Rightarrow> 'a" where
  "or_default d v = (case v of None \<Rightarrow> d | Some x \<Rightarrow> x)"

definition gait_spec_from_dict :: "gait_spec_doc \<Rightarrow> gait_policy_spec" where
  "gait_spec_from_dict d =
     \<lparr>g_file = or_default [] (gs_file d), g_checksum = or_default [] (gs_checksum d),
      g_format = or_default ''onnx'' (gs_format d),
      g_control_rate_hz = or_default 0 (gs_control_rate_hz d),
      g_supported_body_revision = or_default [] (gs_supported_body_revision d),
      g_approved_for_physical = or_default False (gs_approved_for_physical d)\<rparr>"

record manifest_doc =
  md_body_id :: "string option"
  md_name :: "string option"
  md_model_family :: "string option"
  md_revision :: "string option"
  md_interface_revision :: "string option"
  md_locomotion_type :: "string option"
  md_description :: "string option"
  md_hardware_profile :: "string option"
  md_files :: "(string \<times> string) list option"
  md_required_sensors :: "string list option"
  md_required_actuators :: "string list option"
  md_gait_policy :: "gait_spec_doc option"
  md_signature :: "pydict option"

record sensor_doc =
  sd_id :: "string option"
  sd_type :: "string option"
  sd_topic :: "string option"
  sd_rate_hz :: "real option"
  sd_required :: "bool option"
  sd_extra :: pydict

definition sensor_from_dict :: "sensor_doc \<Rightarrow> sensor_spec res" where
  "sensor_from_dict d =
     (case sd_id d of
        None \<Rightarrow> Inl (KeyError ''id'')
      | Some i \<Rightarrow> Inr \<lparr>s_id = i, s_type = or_default ''unknown'' (sd_type d), s_topic = or_default [] (sd_topic d),
                       s_rate_hz = or_default 0 (sd_rate_hz d), s_required = or_default False (sd_required d),
                       s_extra = sd_extra d\<rparr>)"

fun sensors_from_list :: "sensor_doc list \<Rightarrow> sensor_spec list res" where
  "sensors_from_list [] = Inr []"
| "sensors_from_list (d # ds) =
     (case sensor_from_dict d of
        Inl e \<Rightarrow> Inl e
      | Inr s \<Rightarrow> (case sensors_from_list ds of Inl e \<Rightarrow> Inl e | Inr ss \<Rightarrow> Inr (s # ss)))"

record limits_doc =
  ld_battery :: "(string \<times> real) list option"
  ld_thermal :: "(string \<times> real) list option"
  ld_velocity :: "(string \<times> real) list option"
  ld_payload :: "(string \<times> real) list option"
  ld_joints :: "pydict option"

definition limits_from_dict :: "limits_doc option \<Rightarrow> body_limits" where
  "limits_from_dict d =
     (case d of
        None \<Rightarrow> \<lparr>l_battery = [], l_thermal = [], l_velocity = [], l_payload = [], l_joints = []\<rparr>
      | Some l \<Rightarrow> \<lparr>l_battery = or_default [] (ld_battery l), l_thermal = or_default [] (ld_thermal l),
                    l_velocity = or_default [] (ld_velocity l), l_payload = or_default [] (ld_payload l),
                    l_joints = or_default [] (ld_joints l)\<rparr>)"

text \<open>Capabilities come bare or under the key \<open>capabilities\<close>.\<close>

datatype caps_doc = BareCaps "(string \<times> cap_category) list" | WrappedCaps "(string \<times> cap_category) list option"

definition caps_from_dict :: "caps_doc option \<Rightarrow> capabilities" where
  "caps_from_dict d =
     (case d of
        None \<Rightarrow> \<lparr>caps_raw = []\<rparr>
      | Some (BareCaps raw) \<Rightarrow> \<lparr>caps_raw = raw\<rparr>
      | Some (WrappedCaps raw) \<Rightarrow> \<lparr>caps_raw = or_default [] raw\<rparr>)"

text \<open>A package directory. \<open>Doc None\<close> is a document that is not a mapping; for the sensors file
  it is a document without a sensor list.\<close>

record package =
  pk_dir :: string
  pk_manifest :: "manifest_doc option file_content"
  pk_capabilities :: "caps_doc option file_content"
  pk_limits :: "limits_doc option file_content"
  pk_sensors :: "sensor_doc list option file_content"
  pk_controllers :: "unit file_content"
  pk_diagnostic_rules :: "unit file_content"

section \<open>Loading\<close>

definition manifest_from_dict :: "string \<Rightarrow> manifest_doc \<Rightarrow> body_manifest res" where
  "manifest_from_dict dir d =
     (case md_body_id d of
        None \<Rightarrow> Inl (BodyError (''manifest.yaml missing required field: '' @ repr_str ''body_id''))
      | Some bid \<Rightarrow>
        (case md_locomotion_type d of
           None \<Rightarrow> Inl (BodyError (''manifest.yaml missing required field: '' @ repr_str ''locomotion_type''))
         | Some loco \<Rightarrow>
             if loco \<notin> set VALID_LOCOMOTION
             then Inl (BodyError (''unknown locomotion_type '' @ repr_str loco @ ''; expected one of ''
                    @ py_repr (\<lambda>_. []) (PList (map PStr (sort VALID_LOCOMOTION)))))
             else Inr
               \<lparr>body_id = bid, m_name = or_default bid (md_name d),
                model_family = or_default ''unknown'' (md_model_family d),
                revision = or_default [] (md_revision d),
                interface_revision = or_default [] (md_interface_revision d),
                locomotion_type = loco,
                description = strip (or_default [] (md_description d)),
                hardware_profile = or_default [] (md_hardware_profile d),
                m_files = or_default [] (md_files d),
                required_sensors = or_default [] (md_required_sensors d),
                required_actuators = or_default [] (md_required_actuators d),
                m_gait_policy = map_option gait_spec_from_dict (md_gait_policy d),
                signature = or_default [] (md_signature d),
                directory = Some dir\<rparr>))"

definition manifest_load :: "package \<Rightarrow> body_manifest res" where
  "manifest_load p =
     (let path = pk_dir p @ ''/manifest.yaml'' in
      if pk_manifest p = Missing then Inl (BodyError (''body package has no manifest.yaml: '' @ pk_dir p))
      else case yaml_read path (pk_manifest p) of
        Inl e \<Rightarrow> Inl e
      | Inr None \<Rightarrow> Inl (BodyError (''manifest.yaml is not a mapping: '' @ path))
      | Inr (Some d) \<Rightarrow> manifest_from_dict (pk_dir p) d)"

text \<open>\<open>load_component\<close>: \<open>None\<close> when the manifest names no such file or the file does not exist.\<close>

definition load_component :: "body_manifest \<Rightarrow> string \<Rightarrow> 'a file_content \<Rightarrow> 'a option res" where
  "load_component m key c =
     (case file_path m key of
        None \<Rightarrow> Inr None
      | Some path \<Rightarrow> if c = Missing then Inr None else map_sum id Some (yaml_read path c))"

definition flat :: "'a option option \<Rightarrow> 'a option" where
  "flat v = (case v of None \<Rightarrow> None | Some x \<Rightarrow> x)"

definition load_body :: "package option \<Rightarrow> string \<Rightarrow> string \<Rightarrow> loaded_body res" where
  "load_body pkg dir kind =
     (case pkg of
        None \<Rightarrow> Inl (BodyError (''body package not found: '' @ dir))
      | Some p \<Rightarrow>
        (case manifest_load p of Inl e \<Rightarrow> Inl e | Inr m \<Rightarrow>
         (case load_component m ''capabilities'' (pk_capabilities p) of Inl e \<Rightarrow> Inl e | Inr cd \<Rightarrow>
          (case load_component m ''limits'' (pk_limits p) of Inl e \<Rightarrow> Inl e | Inr ldoc \<Rightarrow>
           (case load_component m ''sensors'' (pk_sensors p) of Inl e \<Rightarrow> Inl e | Inr sd \<Rightarrow>
            (case sensors_from_list (or_default [] (flat sd)) of Inl e \<Rightarrow> Inl e | Inr ss \<Rightarrow>
             (case load_component m ''controllers'' (pk_controllers p) of Inl e \<Rightarrow> Inl e | Inr _ \<Rightarrow>
              (case load_component m ''diagnostic_rules'' (pk_diagnostic_rules p) of Inl e \<Rightarrow> Inl e | Inr _ \<Rightarrow>
                 let body = \<lparr>manifest = m, caps = caps_from_dict (flat cd),
                             limits = limits_from_dict (flat ldoc), sensors = ss,
                             backend_kind = kind, issues = []\<rparr>
                 in Inr (body\<lparr>issues := static_validate body\<rparr>)))))))))"

section \<open>Selection\<close>

definition DEFAULT_BODY_SELECTION :: pydict where
  "DEFAULT_BODY_SELECTION =
     [(''body_id'', PStr ''ig-mk1''), (''backend'', PStr ''simulation''),
      (''simulation_engine'', PStr ''mujoco''), (''hardware_profile'', PStr ''canfd-v1'')]"

text \<open>The two selection files hold text. Python's reading and printing of floats are parameters.\<close>

record body_manager =
  bm_dir :: string
  bm_packages :: "(string \<times> package) list"
  bm_float :: "string \<Rightarrow> real option"
  bm_float_repr :: "real \<Rightarrow> string"
  bm_state_file :: "string json_file"
  bm_default_file :: "string json_file"

definition available_bodies :: "body_manager \<Rightarrow> string list" where
  "available_bodies bm = sort (map fst (filter (\<lambda>(n, p). pk_manifest p \<noteq> Missing) (bm_packages bm)))"

text \<open>\<open>miniyaml.load_file\<close> on a text file that exists. The parser never runs out of fuel (\<open>parse_yaml_total\<close>).\<close>

definition load_text :: "(string \<Rightarrow> real option) \<Rightarrow> string \<Rightarrow> string file_content \<Rightarrow> pyval res" where
  "load_text pf path c =
     (case yaml_read path c of
        Inl e \<Rightarrow> Inl e
      | Inr text \<Rightarrow> (case parse_yaml pf text of Some r \<Rightarrow> r | None \<Rightarrow> Inl (MiniYamlError ''out of fuel'')))"

fun first_selection :: "(string \<Rightarrow> real option) \<Rightarrow> string json_file list \<Rightarrow> pydict res" where
  "first_selection pf [] = Inr DEFAULT_BODY_SELECTION"
| "first_selection pf (f # fs) =
     (if contents f = Missing then first_selection pf fs
      else case load_text pf ''body.yaml'' (contents f) of
        Inl e \<Rightarrow> Inl e
      | Inr (PDict data) \<Rightarrow>
          if truthy (dict_get data ''body_id'' PNone)
          then Inr (fold (\<lambda>(k, v) d. AList.update k v d) data DEFAULT_BODY_SELECTION)
          else first_selection pf fs
      | Inr _ \<Rightarrow> first_selection pf fs)"

definition selection :: "body_manager \<Rightarrow> pydict res" where
  "selection bm = first_selection (bm_float bm) [bm_state_file bm, bm_default_file bm]"

text \<open>\<open>load(body_id, kind)\<close> for a selection whose values are strings; another type of value has no
  package directory.\<close>

definition load_selected :: "body_manager \<Rightarrow> pyval \<Rightarrow> pyval \<Rightarrow> loaded_body res" where
  "load_selected bm bid kind =
     (case (bid, kind) of
        (PStr b, PStr k) \<Rightarrow> load_body (map_of (bm_packages bm) b) (bm_dir bm @ ''/'' @ b) k
      | _ \<Rightarrow> Inl (TypeError ''unsupported operand''))"

definition load_active :: "body_manager \<Rightarrow> loaded_body res" where
  "load_active bm =
     (case selection bm of
        Inl e \<Rightarrow> Inl e
      | Inr sel \<Rightarrow> load_selected bm (dict_get sel ''body_id'' PNone) (dict_get sel ''backend'' (PStr ''simulation'')))"

text \<open>The requested identifier and backend written into the current selection.\<close>

definition new_selection :: "string \<Rightarrow> string \<Rightarrow> pydict \<Rightarrow> pydict res" where
  "new_selection bid b sel0 =
     (let sel1 = AList.update ''body_id'' (PStr bid) sel0 in
      if b = [] then Inr sel1
      else if b \<notin> {''simulation'', ''physical''}
      then Inl (BodyError (''backend must be '' @ repr_str ''simulation'' @ '' or ''
             @ repr_str ''physical'' @ '', got '' @ repr_str b))
      else Inr (AList.update ''backend'' (PStr b) sel1))"

text \<open>The text of the new selection is written; the write is not guarded, and an unwritable file raises.\<close>

definition set_active :: "string \<Rightarrow> string option \<Rightarrow> body_manager \<Rightarrow> pydict res \<times> body_manager" where
  "set_active bid backend bm =
     (if bid \<notin> set (available_bodies bm)
      then (Inl (BodyError (''unknown body '' @ repr_str bid @ ''; available: ''
              @ (if available_bodies bm = [] then ''none'' else join '', '' (available_bodies bm)))), bm)
      else case selection bm of
        Inl e \<Rightarrow> (Inl e, bm)
      | Inr sel0 \<Rightarrow>
          (case new_selection bid (or_default [] backend) sel0 of
             Inl e \<Rightarrow> (Inl e, bm)
           | Inr sel \<Rightarrow>
               (case load_selected bm (PStr bid) (dict_get sel ''backend'' PNone) of
                  Inl e \<Rightarrow> (Inl e, bm)
                | Inr _ \<Rightarrow>
                    if writable (bm_state_file bm)
                    then (Inr sel, bm\<lparr>bm_state_file := write_doc (dump (bm_float_repr bm) 0 (PDict sel)) (bm_state_file bm)\<rparr>)
                    else (Inl (OSError ''body.yaml''), bm))))"

section \<open>Facts\<close>

lemma gait_spec_issues_issues [simp]: "gait_spec_issues (b\<lparr>issues := xs\<rparr>) = gait_spec_issues b"
  by (simp add: gait_spec_issues_def split: option.split)

lemma static_validate_issues: "static_validate (b\<lparr>issues := xs\<rparr>) = static_validate b"
  by (simp add: static_validate_def sensor_ids_def Let_def)

lemma static_validate_issues_field:
  "static_validate \<lparr>manifest = m, caps = c, limits = l, sensors = s, backend_kind = k, issues = xs\<rparr> =
   static_validate \<lparr>manifest = m, caps = c, limits = l, sensors = s, backend_kind = k, issues = ys\<rparr>"
  using static_validate_issues
    [of xs "\<lparr>manifest = m, caps = c, limits = l, sensors = s, backend_kind = k, issues = ys\<rparr>"] by simp

lemma load_body_issues: "load_body pkg dir kind = Inr b \<Longrightarrow> issues b = static_validate b"
  by (auto simp: load_body_def Let_def split: option.splits sum.splits intro: static_validate_issues_field)

lemma load_body_kind: "load_body pkg dir kind = Inr b \<Longrightarrow> backend_kind b = kind"
  by (auto simp: load_body_def Let_def split: option.splits sum.splits)

lemma distinct_fold_update:
  "distinct (map fst d) \<Longrightarrow> distinct (map fst (fold (\<lambda>(k, v) d. AList.update k v d) kvs d))"
  by (induction kvs arbitrary: d) (auto intro: distinct_update)

lemma map_of_fold_update:
  "distinct (map fst kvs) \<Longrightarrow> map_of kvs k = Some v \<Longrightarrow>
     map_of (fold (\<lambda>(k, v) d. AList.update k v d) kvs d) k = Some v"
proof (induction kvs arbitrary: d)
  case (Cons kv kvs)
  obtain a b where kv: "kv = (a, b)" by (cases kv)
  have frame: "k \<notin> fst ` set kvs \<Longrightarrow>
      map_of (fold (\<lambda>(k, v) d. AList.update k v d) kvs d) k = map_of d k" for d
    by (induction kvs arbitrary: d) auto
  show ?case
  proof (cases "k = a")
    case True
    with Cons.prems kv frame show ?thesis by auto
  next
    case False
    with Cons kv show ?thesis by auto
  qed
qed simp

lemma first_selection_distinct: "first_selection pf fs = Inr sel \<Longrightarrow> distinct (map fst sel)"
proof (induction fs)
  case Nil
  then show ?case by (auto simp: DEFAULT_BODY_SELECTION_def)
next
  case (Cons f fs)
  have "distinct (map fst DEFAULT_BODY_SELECTION)" by (simp add: DEFAULT_BODY_SELECTION_def)
  with Cons show ?case
    by (auto split: if_splits sum.splits pyval.splits intro: distinct_fold_update)
qed

lemma new_selection_facts:
  assumes "new_selection bid b sel0 = Inr sel" "distinct (map fst sel0)"
  shows "distinct (map fst sel) \<and> map_of sel ''body_id'' = Some (PStr bid)"
  using assms by (auto simp: new_selection_def Let_def distinct_update split: if_splits)

lemma set_active_ok:
  assumes "set_active bid backend bm = (Inr sel, bm')"
  shows "bid \<in> set (available_bodies bm) \<and> writable (bm_state_file bm)
    \<and> bm' = bm\<lparr>bm_state_file := write_doc (dump (bm_float_repr bm) 0 (PDict sel)) (bm_state_file bm)\<rparr>
    \<and> distinct (map fst sel) \<and> map_of sel ''body_id'' = Some (PStr bid)
    \<and> (\<exists>b. load_selected bm (PStr bid) (dict_get sel ''backend'' PNone) = Inr b)"
proof -
  have avail: "bid \<in> set (available_bodies bm)" using assms by (auto simp: set_active_def split: if_splits)
  obtain sel0 where s0: "selection bm = Inr sel0"
    using assms avail by (cases "selection bm") (simp_all add: set_active_def)
  obtain sel1 where s1: "new_selection bid (or_default [] backend) sel0 = Inr sel1"
    using assms avail s0 by (cases "new_selection bid (or_default [] backend) sel0") (simp_all add: set_active_def)
  obtain b where ld: "load_selected bm (PStr bid) (dict_get sel1 ''backend'' PNone) = Inr b"
    using assms avail s0 s1
    by (cases "load_selected bm (PStr bid) (dict_get sel1 ''backend'' PNone)") (simp_all add: set_active_def)
  have w: "writable (bm_state_file bm)"
    using assms avail s0 s1 ld by (simp add: set_active_def split: if_splits)
  have "sel = sel1" "bm' = bm\<lparr>bm_state_file := write_doc (dump (bm_float_repr bm) 0 (PDict sel1)) (bm_state_file bm)\<rparr>"
    using assms avail s0 s1 ld w by (auto simp: set_active_def)
  moreover have "distinct (map fst sel0)" using s0 unfolding selection_def by (rule first_selection_distinct)
  ultimately show ?thesis using new_selection_facts [OF s1] avail w ld by blast
qed

lemma load_selected_string: "load_selected bm (PStr bid) k = Inr b \<Longrightarrow> \<exists>s. k = PStr s"
  by (cases k) (simp_all add: load_selected_def)

section \<open>Properties\<close>

text \<open>What the text of a document is read back as decides what the next start selects.\<close>

lemma load_text_doc: "parse_yaml pf text = Some r \<Longrightarrow> load_text pf path (Doc text) = r"
  by (simp add: load_text_def yaml_read_def)

lemma selection_written:
  assumes "parse_yaml (bm_float bm) text = Some (Inr (PDict data))" "truthy (dict_get data ''body_id'' PNone)"
    "contents (bm_state_file bm) = Doc text"
  shows "selection bm = Inr (fold (\<lambda>(k, v) d. AList.update k v d) data DEFAULT_BODY_SELECTION)"
  using assms by (simp add: selection_def load_text_doc)

text \<open>An identifier that YAML reads as another scalar is committed and then lost: when the selection consists of bare
  strings and the identifier comes back as a value that is not a string (\<open>007\<close> is the number 7), the next start
  cannot load any body.\<close>

lemma misread_body_is_lost:
  assumes "set_active bid backend bm = (Inr sel, bm')"
    "sel = map (\<lambda>(k, s). (k, PStr s)) m" "list_all bare_ok m"
    "truthy (scalar (bm_float bm) bid)" "\<nexists>s. scalar (bm_float bm) bid = PStr s"
  shows "load_active bm' = Inl (TypeError ''unsupported operand'')"
proof -
  note ok = set_active_ok [OF assms(1)]
  let ?pf = "bm_float bm"
  let ?data = "map (\<lambda>(k, s). (k, scalar ?pf s)) m"
  have keys: "map fst sel = map fst m" "map fst ?data = map fst m" using assms(2) by (simp_all add: comp_def case_prod_beta)
  have dist: "distinct (map fst m)" using ok keys by simp
  have "map_of sel ''body_id'' = Some (PStr bid)" using ok by blast
  moreover have "map_of sel ''body_id'' = map_option PStr (map_of m ''body_id'')"
    unfolding assms(2) by (simp add: map_of_map)
  ultimately have mid: "map_of m ''body_id'' = Some bid" by (cases "map_of m ''body_id''") simp_all
  then have data: "map_of ?data ''body_id'' = Some (scalar ?pf bid)" by (simp add: map_of_map)
  have "m \<noteq> []" using mid by auto
  have "fold (\<lambda>(k, s). AList.update k (scalar ?pf s)) m [] = fold (\<lambda>(k, v). AList.update k v) ?data []"
    by (simp add: fold_map comp_def case_prod_unfold)
  also have "\<dots> = [] @ ?data" by (rule fold_update_append) (simp only: append_Nil keys(2) dist)
  finally have all: "fold (\<lambda>(k, s). AList.update k (scalar ?pf s)) m [] = ?data" by simp
  have "parse_yaml ?pf (dump (bm_float_repr bm) 0 (PDict sel)) = Some (Inr (PDict ?data))"
    unfolding assms(2) all [symmetric] by (rule bare_mapping [OF assms(3) \<open>m \<noteq> []\<close>])
  then have "selection bm' = Inr (fold (\<lambda>(k, v) d. AList.update k v d) ?data DEFAULT_BODY_SELECTION)"
    using ok data assms(4) by (intro selection_written) (auto simp: write_doc_def dict_get_def simp del: dump.simps)
  moreover have "map_of (fold (\<lambda>(k, v) d. AList.update k v d) ?data DEFAULT_BODY_SELECTION) ''body_id'' = Some (scalar ?pf bid)"
    by (rule map_of_fold_update [OF _ data]) (simp only: keys(2) dist)
  ultimately obtain k where "load_active bm' = load_selected bm' (scalar ?pf bid) k"
    by (simp add: load_active_def dict_get_def)
  then show ?thesis using assms(5) by (auto simp: load_selected_def split: pyval.split)
qed

text \<open>C38. A new body selection is committed only if it loads, and then takes effect: when \<open>set_active\<close> returns a
  selection, the package is installed and loads with the selected backend; the state file holds the dumped
  selection; and when the values of the selection print as YAML that reads back (\<open>yaml_ok\<close>, which excludes an
  identifier such as \<open>007\<close>, \<open>true\<close> or \<open>null\<close>), the next \<open>load_active\<close>, which parses that text, loads
  exactly that body, whose issues are those of the static validation.\<close>

theorem set_active_takes_effect:
  assumes "set_active bid backend bm = (Inr sel, bm')" "bid \<noteq> []"
  shows "bid \<in> set (available_bodies bm)
    \<and> contents (bm_state_file bm') = Doc (dump (bm_float_repr bm) 0 (PDict sel))
    \<and> (\<exists>b. load_selected bm (PStr bid) (dict_get sel ''backend'' PNone) = Inr b \<and> issues b = static_validate b
         \<and> (yaml_ok (bm_float bm) (PDict sel) \<longrightarrow> load_active bm' = Inr b))"
proof -
  note ok = set_active_ok [OF assms(1)]
  from ok obtain b where b: "load_selected bm (PStr bid) (dict_get sel ''backend'' PNone) = Inr b" by blast
  from ok have bm': "bm' = bm\<lparr>bm_state_file := write_doc (dump (bm_float_repr bm) 0 (PDict sel)) (bm_state_file bm)\<rparr>"
    and w: "writable (bm_state_file bm)" and id: "map_of sel ''body_id'' = Some (PStr bid)"
    and dist: "distinct (map fst sel)" by blast+
  have doc: "contents (bm_state_file bm') = Doc (dump (bm_float_repr bm) 0 (PDict sel))"
    using w by (simp add: bm' write_doc_def)
  from load_selected_string [OF b] obtain k where k: "map_of sel ''backend'' = Some (PStr k)"
    by (auto simp: dict_get_def split: option.splits)
  have "load_active bm' = Inr b" if y: "yaml_ok (bm_float bm) (PDict sel)"
  proof -
    let ?merged = "fold (\<lambda>(k, v) d. AList.update k v d) sel DEFAULT_BODY_SELECTION"
    have "is_block (PDict sel)" using id by auto
    from yaml_read_back [OF y this] have "selection bm' = Inr ?merged"
      using id assms(2) doc by (intro selection_written) (simp_all add: bm' dict_get_def)
    moreover have "map_of ?merged ''body_id'' = Some (PStr bid)" "map_of ?merged ''backend'' = Some (PStr k)"
      using map_of_fold_update [OF dist id] map_of_fold_update [OF dist k] by blast+
    ultimately have "load_active bm' = load_selected bm' (PStr bid) (PStr k)"
      by (simp add: load_active_def dict_get_def)
    also have "\<dots> = Inr b" using b k by (simp add: load_selected_def bm' dict_get_def)
    finally show ?thesis .
  qed
  moreover have "issues b = static_validate b"
    using b k by (auto simp: load_selected_def dict_get_def intro: load_body_issues)
  ultimately show ?thesis using ok b doc by blast
qed

definition example_package :: package where
  "example_package = \<lparr>pk_dir = ''/b/r2'',
     pk_manifest = Doc (Some \<lparr>md_body_id = Some ''r2'', md_name = None, md_model_family = None,
       md_revision = None, md_interface_revision = None, md_locomotion_type = Some ''differential'',
       md_description = None, md_hardware_profile = None, md_files = None, md_required_sensors = None,
       md_required_actuators = None, md_gait_policy = None, md_signature = None\<rparr>),
     pk_capabilities = Missing, pk_limits = Missing, pk_sensors = Missing,
     pk_controllers = Missing, pk_diagnostic_rules = Missing\<rparr>"

definition example_bodies :: body_manager where
  "example_bodies = \<lparr>bm_dir = ''/b'', bm_packages = [(''r2'', example_package)],
     bm_float = (\<lambda>_. None), bm_float_repr = (\<lambda>_. []),
     bm_state_file = fresh_file, bm_default_file = fresh_file\<rparr>"

lemma example_selection_ok:
  "yaml_ok (\<lambda>_. None) (PDict (AList.update ''backend'' (PStr ''physical'')
     (AList.update ''body_id'' (PStr ''r2'') DEFAULT_BODY_SELECTION)))"
  by code_simp

theorem set_active_takes_effect_witness:
  "\<exists>sel bm' b. set_active ''r2'' (Some ''physical'') example_bodies = (Inr sel, bm') \<and> load_active bm' = Inr b"
proof -
  let ?sel = "AList.update ''backend'' (PStr ''physical'') (AList.update ''body_id'' (PStr ''r2'') DEFAULT_BODY_SELECTION)"
  have ld: "\<exists>b. load_body (Some example_package) ''/b/r2'' ''physical'' = Inr b"
    by (simp add: load_body_def example_package_def manifest_load_def yaml_read_def manifest_from_dict_def
        VALID_LOCOMOTION_def load_component_def file_path_def or_default_def flat_def Let_def)
  have "\<exists>bm'. set_active ''r2'' (Some ''physical'') example_bodies = (Inr ?sel, bm')"
    using ld
    by (auto simp: set_active_def example_bodies_def available_bodies_def selection_def fresh_file_def
        new_selection_def or_default_def load_selected_def dict_get_def Let_def example_package_def)
  then obtain bm' where s: "set_active ''r2'' (Some ''physical'') example_bodies = (Inr ?sel, bm')" by blast
  have "yaml_ok (bm_float example_bodies) (PDict ?sel)"
    using example_selection_ok by (simp add: example_bodies_def)
  with set_active_takes_effect [OF s] s show ?thesis by auto
qed

text \<open>A body installed as \<open>007\<close> is selected, and then no body loads.\<close>

definition example_selection_007 :: "(string \<times> string) list" where
  "example_selection_007 = [(''body_id'', ''007''), (''backend'', ''simulation''), (''simulation_engine'', ''mujoco''),
     (''hardware_profile'', ''canfd-v1'')]"

lemma misread_body_is_lost_example:
  "\<exists>sel bm'. set_active ''007'' None (example_bodies\<lparr>bm_packages := [(''007'', example_package)]\<rparr>) = (Inr sel, bm')
     \<and> load_active bm' = Inl (TypeError ''unsupported operand'')"
proof -
  let ?bm = "example_bodies\<lparr>bm_packages := [(''007'', example_package)]\<rparr>"
  let ?sel = "map (\<lambda>(k, s). (k, PStr s)) example_selection_007"
  have "list_all (\<lambda>(k, d). plain_key k \<and> d \<noteq> [] \<and> \<not> is_space (hd d) \<and> \<not> is_space (last d) \<and> no_quote_break d \<and> CHR '':'' \<notin> set d
      \<and> CHR ''#'' \<notin> set d \<and> block_scalar_kind d = None \<and> \<not> needs_quotes d) example_selection_007" by code_simp
  then have ok: "list_all bare_ok example_selection_007"
    by (rule list.pred_mono_strong) (auto simp: bare_ok_def intro!: good_bare)
  have "py_int ''007'' = Some 7" "strip ''007'' = ''007''" by code_simp+
  then have v: "scalar pf ''007'' = PInt 7" for pf by (subst scalar.simps) (simp add: Let_def is_quote_def)
  have "\<exists>b. load_body (Some example_package) ''/b/007'' ''simulation'' = Inr b"
    by (simp add: load_body_def example_package_def manifest_load_def yaml_read_def manifest_from_dict_def
        VALID_LOCOMOTION_def load_component_def file_path_def or_default_def flat_def Let_def)
  then have "\<exists>bm'. set_active ''007'' None ?bm = (Inr ?sel, bm')"
    by (auto simp: set_active_def example_bodies_def available_bodies_def selection_def fresh_file_def
        new_selection_def or_default_def load_selected_def dict_get_def Let_def example_package_def
        example_selection_007_def DEFAULT_BODY_SELECTION_def)
  then obtain bm' where s: "set_active ''007'' None ?bm = (Inr ?sel, bm')" by blast
  from misread_body_is_lost [OF s refl ok] s v show ?thesis by auto
qed

end
