(* ===== verification/Tasks.thy ===== *)
theory Tasks
  imports Errors
begin

text \<open>
  Tasks and task results, \<open>executive/tasks.py\<close>, and structured intents, \<open>language/intent.py\<close>. Task
  identifiers come from a counter that the executive's state carries; start and finish times are
  not modelled.
\<close>

datatype task_state = CREATED | TASK_RUNNING | SUCCEEDED | FAILED | CANCELLED

fun task_state_value :: "task_state \<Rightarrow> string" where
  "task_state_value CREATED = ''created''"
| "task_state_value TASK_RUNNING = ''running''"
| "task_state_value SUCCEEDED = ''succeeded''"
| "task_state_value FAILED = ''failed''"
| "task_state_value CANCELLED = ''cancelled''"

record task =
  t_intent :: string
  t_user :: string
  t_arguments :: pydict
  t_task_id :: string
  t_state :: task_state
  t_steps :: "string list"

text \<open>\<open>f"task-{next(_counter):04d}"\<close>\<close>

definition task_id_of :: "nat \<Rightarrow> string" where
  "task_id_of n = ''task-'' @ zero_pad 4 (show_nat n)"

definition new_task :: "string \<Rightarrow> string \<Rightarrow> pydict \<Rightarrow> nat \<Rightarrow> task" where
  "new_task intent user args n = \<lparr>t_intent = intent, t_user = user, t_arguments = args,
     t_task_id = task_id_of n, t_state = CREATED, t_steps = []\<rparr>"

definition task_start :: "task \<Rightarrow> task" where
  "task_start t = t\<lparr>t_state := TASK_RUNNING\<rparr>"

definition task_step :: "string \<Rightarrow> task \<Rightarrow> task" where
  "task_step label t = t\<lparr>t_steps := t_steps t @ [label]\<rparr>"

definition task_finish :: "task_state \<Rightarrow> task \<Rightarrow> task" where
  "task_finish st t = t\<lparr>t_state := st\<rparr>"

definition task_to_dict :: "task \<Rightarrow> pydict" where
  "task_to_dict t =
     [(''task_id'', PStr (t_task_id t)), (''intent'', PStr (t_intent t)), (''user'', PStr (t_user t)),
      (''arguments'', PDict (t_arguments t)), (''state'', PStr (task_state_value (t_state t))),
      (''steps'', PList (map PStr (t_steps t)))]"

record task_result =
  tr_ok :: bool
  tr_kind :: string
  tr_data :: pydict
  tr_error :: string
  tr_task_id :: string

definition mk_result :: "bool \<Rightarrow> string \<Rightarrow> pydict \<Rightarrow> string \<Rightarrow> task_result" where
  "mk_result ok kind data err = \<lparr>tr_ok = ok, tr_kind = kind, tr_data = data, tr_error = err, tr_task_id = []\<rparr>"

definition result_to_dict :: "task_result \<Rightarrow> pydict" where
  "result_to_dict r =
     [(''ok'', PBool (tr_ok r)), (''kind'', PStr (tr_kind r)), (''data'', PDict (tr_data r)),
      (''error'', PStr (tr_error r)), (''task_id'', PStr (tr_task_id r))]"

record structured_intent =
  i_intent :: string
  i_arguments :: pydict
  i_requires_motion :: bool
  i_requested_speed :: string
  i_requested_output :: string
  i_raw_text :: string
  i_source :: string
  i_confidence :: real

definition mk_intent :: "string \<Rightarrow> pydict \<Rightarrow> structured_intent" where
  "mk_intent name args = \<lparr>i_intent = name, i_arguments = args, i_requires_motion = False,
     i_requested_speed = ''normal'', i_requested_output = ''text'', i_raw_text = [],
     i_source = ''offline'', i_confidence = 1\<rparr>"

definition intent_to_dict :: "structured_intent \<Rightarrow> pydict" where
  "intent_to_dict i =
     [(''intent'', PStr (i_intent i)), (''arguments'', PDict (i_arguments i)),
      (''requires_motion'', PBool (i_requires_motion i)),
      (''requested_speed'', PStr (i_requested_speed i)),
      (''requested_output'', PStr (i_requested_output i)),
      (''source'', PStr (i_source i)), (''confidence'', PFloat (py_round (i_confidence i) 3))]"

end
