(* ===== verification/Tools.thy ===== *)
theory Tools
  imports Errors
begin

text \<open>
  The tool registry (\<open>language/tools.py\<close>) and users, roles and authorization
  (\<open>language/auth.py\<close>). A registry is a dictionary from names to tool specifications; the
  default tools are the table of the source. The users file is its parsed entries, each with an
  optional role and display name, or absent.
\<close>

section \<open>Tools\<close>

datatype risk = RiskNone | Motion | DataWrite | Administrative

fun risk_value :: "risk \<Rightarrow> string" where
  "risk_value RiskNone = ''none''"
| "risk_value Motion = ''motion''"
| "risk_value DataWrite = ''data_write''"
| "risk_value Administrative = ''administrative''"

datatype confirm = ConfirmNone | Conditional | Required

fun confirm_value :: "confirm \<Rightarrow> string" where
  "confirm_value ConfirmNone = ''none''"
| "confirm_value Conditional = ''conditional''"
| "confirm_value Required = ''required''"

record tool_spec =
  tool_name :: string
  risk_of :: risk
  requires_motion :: bool
  required_capability :: "string option"
  confirmation :: confirm
  min_role_rank :: nat
  always_available :: bool
  tool_description :: string

definition tool_to_dict :: "tool_spec \<Rightarrow> pydict" where
  "tool_to_dict t =
     [(''name'', PStr (tool_name t)), (''risk'', PStr (risk_value (risk_of t))),
      (''requires_motion'', PBool (requires_motion t)),
      (''required_capability'', case required_capability t of None \<Rightarrow> PNone | Some c \<Rightarrow> PStr c),
      (''confirmation'', PStr (confirm_value (confirmation t))),
      (''min_role_rank'', PInt (int (min_role_rank t))),
      (''always_available'', PBool (always_available t))]"

definition RANK_GUEST :: nat where "RANK_GUEST = 0"
definition RANK_OPERATOR :: nat where "RANK_OPERATOR = 1"
definition RANK_TECHNICIAN :: nat where "RANK_TECHNICIAN = 2"
definition RANK_OWNER :: nat where "RANK_OWNER = 3"

lemmas rank_defs = RANK_GUEST_def RANK_OPERATOR_def RANK_TECHNICIAN_def RANK_OWNER_def

text \<open>The dataclass defaults.\<close>

definition info_tool :: "string \<Rightarrow> string \<Rightarrow> tool_spec" where
  "info_tool name desc = \<lparr>tool_name = name, risk_of = RiskNone, requires_motion = False,
     required_capability = None, confirmation = ConfirmNone, min_role_rank = 0,
     always_available = False, tool_description = desc\<rparr>"

definition default_tools :: "tool_spec list" where
  "default_tools =
     [info_tool ''robot.get_status'' ''report overall status'',
      info_tool ''robot.get_battery'' ''report battery level'',
      info_tool ''robot.get_temperature'' ''report motor temperatures'',
      info_tool ''diagnostics.summary'' ''summarise health / what is wrong'',
      info_tool ''robot.explain'' ''explain last task or why motion is disabled'',
      (info_tool ''perception.describe_scene'' ''describe what the camera sees'')
        \<lparr>required_capability := Some ''front_camera''\<rparr>,
      info_tool ''navigation.list_places'' ''list known destinations'',
      (info_tool ''help'' ''list available commands'')\<lparr>always_available := True\<rparr>,
      (info_tool ''motion.stop'' ''stop immediately'')\<lparr>always_available := True\<rparr>,
      (info_tool ''motion.emergency_stop'' ''remove motor power immediately'')\<lparr>always_available := True\<rparr>,
      (info_tool ''task.cancel'' ''cancel the active task'')\<lparr>always_available := True\<rparr>,
      (info_tool ''voice.silence'' ''stop speaking'')\<lparr>always_available := True\<rparr>,
      info_tool ''robot.return_safe_idle'' ''return to safe idle'',
      \<lparr>tool_name = ''navigation.navigate_to'', risk_of = Motion, requires_motion = True,
       required_capability = Some ''locomotion'', confirmation = Conditional,
       min_role_rank = RANK_OPERATOR, always_available = False,
       tool_description = ''navigate to a named place''\<rparr>,
      \<lparr>tool_name = ''navigation.go_charge'', risk_of = Motion, requires_motion = True,
       required_capability = Some ''locomotion'', confirmation = ConfirmNone,
       min_role_rank = RANK_OPERATOR, always_available = False,
       tool_description = ''return to the charging station''\<rparr>,
      \<lparr>tool_name = ''inspect.named_target'', risk_of = Motion, requires_motion = True,
       required_capability = Some ''locomotion'', confirmation = Conditional,
       min_role_rank = RANK_OPERATOR, always_available = False,
       tool_description = ''go to a place and inspect a target''\<rparr>,
      \<lparr>tool_name = ''memory.remember'', risk_of = DataWrite, requires_motion = False,
       required_capability = None, confirmation = Conditional, min_role_rank = RANK_OPERATOR,
       always_available = False, tool_description = ''remember a fact''\<rparr>,
      \<lparr>tool_name = ''memory.store_place'', risk_of = DataWrite, requires_motion = False,
       required_capability = None, confirmation = Conditional, min_role_rank = RANK_OPERATOR,
       always_available = False, tool_description = ''remember a named place''\<rparr>,
      \<lparr>tool_name = ''memory.forget'', risk_of = DataWrite, requires_motion = False,
       required_capability = None, confirmation = Required, min_role_rank = RANK_OPERATOR,
       always_available = False, tool_description = ''delete a memory''\<rparr>,
      \<lparr>tool_name = ''system.set_body'', risk_of = Administrative, requires_motion = False,
       required_capability = None, confirmation = Required, min_role_rank = RANK_OWNER,
       always_available = False, tool_description = ''activate a different body package''\<rparr>,
      \<lparr>tool_name = ''system.install_update'', risk_of = Administrative, requires_motion = False,
       required_capability = None, confirmation = Required, min_role_rank = RANK_OWNER,
       always_available = False, tool_description = ''install a signed update''\<rparr>,
      \<lparr>tool_name = ''system.request_reboot'', risk_of = Administrative, requires_motion = False,
       required_capability = None, confirmation = Required, min_role_rank = RANK_OWNER,
       always_available = False, tool_description = ''reboot the droid''\<rparr>,
      \<lparr>tool_name = ''system.shutdown'', risk_of = Administrative, requires_motion = False,
       required_capability = None, confirmation = Required, min_role_rank = RANK_OWNER,
       always_available = False, tool_description = ''shut down the droid''\<rparr>]"

type_synonym registry = "(string \<times> tool_spec) list"

definition register_tool :: "tool_spec \<Rightarrow> registry \<Rightarrow> registry" where
  "register_tool t r = AList.update (tool_name t) t r"

definition tool_registry :: "tool_spec list option \<Rightarrow> registry" where
  "tool_registry tools = fold register_tool (case tools of None \<Rightarrow> default_tools | Some ts \<Rightarrow> ts) []"

definition get_tool :: "registry \<Rightarrow> string \<Rightarrow> tool_spec option" where
  "get_tool r name = map_of r name"

definition is_registered :: "registry \<Rightarrow> string \<Rightarrow> bool" where
  "is_registered r name = (map_of r name \<noteq> None)"

definition all_tools :: "registry \<Rightarrow> tool_spec list" where
  "all_tools r = map snd r"

definition tool_names :: "registry \<Rightarrow> string list" where
  "tool_names r = sort (map fst r)"

definition always_available_tools :: "registry \<Rightarrow> tool_spec list" where
  "always_available_tools r = filter always_available (map snd r)"

definition to_catalog :: "registry \<Rightarrow> pydict list" where
  "to_catalog r = map tool_to_dict (map snd r)"

section \<open>Roles and users\<close>

datatype role = Guest | Operator | ServiceTechnician | Owner

fun rank :: "role \<Rightarrow> nat" where
  "rank Guest = 0"
| "rank Operator = 1"
| "rank ServiceTechnician = 2"
| "rank Owner = 3"

fun role_value :: "role \<Rightarrow> string" where
  "role_value Guest = ''guest''"
| "role_value Operator = ''operator''"
| "role_value ServiceTechnician = ''service_technician''"
| "role_value Owner = ''owner''"

text \<open>\<open>role.value.title()\<close>\<close>

fun role_title :: "role \<Rightarrow> string" where
  "role_title Guest = ''Guest''"
| "role_title Operator = ''Operator''"
| "role_title ServiceTechnician = ''Service_Technician''"
| "role_title Owner = ''Owner''"

definition all_roles :: "role list" where
  "all_roles = [Guest, Operator, ServiceTechnician, Owner]"

text \<open>\<open>Role(value)\<close> raises for an unknown value, and the loader falls back to a guest.\<close>

definition parse_role :: "string \<Rightarrow> role" where
  "parse_role v = (case List.find (\<lambda>r. role_value r = v) all_roles of None \<Rightarrow> Guest | Some r \<Rightarrow> r)"

record user =
  user_name :: string
  user_role :: role
  display_name :: string

record user_entry =
  ue_name :: string
  ue_role :: "string option"
  ue_display_name :: "string option"

type_synonym users = "(string \<times> user) list"

definition load_user :: "user_entry \<Rightarrow> users \<Rightarrow> users" where
  "load_user e us = AList.update (ue_name e)
     \<lparr>user_name = ue_name e,
      user_role = parse_role (case ue_role e of None \<Rightarrow> ''guest'' | Some r \<Rightarrow> r),
      display_name = (case ue_display_name e of None \<Rightarrow> [] | Some d \<Rightarrow> d)\<rparr> us"

definition set_default_user :: "role \<Rightarrow> users \<Rightarrow> users" where
  "set_default_user r us =
     (if map_of us (role_value r) = None
      then AList.update (role_value r) \<lparr>user_name = role_value r, user_role = r, display_name = role_title r\<rparr> us
      else us)"

definition load_users :: "user_entry list \<Rightarrow> users" where
  "load_users entries = fold set_default_user all_roles (fold load_user entries [])"

record authorizer =
  auth_users :: users
  default_user :: string

definition resolve_user :: "authorizer \<Rightarrow> string option \<Rightarrow> user" where
  "resolve_user a name =
     (case (case name of None \<Rightarrow> None | Some n \<Rightarrow> if n = [] then None else map_of (auth_users a) n) of
        Some u \<Rightarrow> u
      | None \<Rightarrow> (case map_of (auth_users a) (default_user a) of
                   Some u \<Rightarrow> u
                 | None \<Rightarrow> \<lparr>user_name = ''operator'', user_role = Operator, display_name = []\<rparr>))"

definition rank_name :: "nat \<Rightarrow> string" where
  "rank_name r = (if r = 0 then ''guest'' else if r = 1 then ''operator''
     else if r = 2 then ''service technician'' else ''owner'')"

definition authorize :: "user \<Rightarrow> nat \<Rightarrow> bool \<times> string" where
  "authorize u min_rank =
     (if rank (user_role u) \<ge> min_rank then (True, ''authorized'')
      else (False, ''requires '' @ rank_name min_rank @ '' authorization; '' @ user_name u @ '' is ''
                   @ role_value (user_role u)))"

lemma rank_inj: "rank a = rank b \<Longrightarrow> a = b"
  by (cases a; cases b) simp_all

instantiation role :: linorder
begin

definition less_eq_role :: "role \<Rightarrow> role \<Rightarrow> bool" where
  "less_eq_role a b = (rank a \<le> rank b)"

definition less_role :: "role \<Rightarrow> role \<Rightarrow> bool" where
  "less_role a b = (rank a < rank b)"

instance
  by standard (auto simp: less_eq_role_def less_role_def rank_inj)

end

section \<open>Facts\<close>

lemma authorize_iff: "fst (authorize u n) \<longleftrightarrow> n \<le> rank (user_role u)"
  by (simp add: authorize_def)

lemma rank_le_owner: "rank r \<le> 3"
  by (cases r) simp_all

text \<open>Each tool of a registry built from a list is registered under its own name.\<close>

definition names_match :: "registry \<Rightarrow> bool" where
  "names_match r = (\<forall>n t. map_of r n = Some t \<longrightarrow> tool_name t = n)"

lemma names_match_register: "names_match r \<Longrightarrow> names_match (register_tool t r)"
  by (simp add: names_match_def register_tool_def)

lemma names_match_fold: "names_match r \<Longrightarrow> names_match (fold register_tool ts r)"
  by (induction ts arbitrary: r) (simp_all add: names_match_register)

lemma names_match_registry: "names_match (tool_registry ts)"
  unfolding tool_registry_def by (rule names_match_fold) (simp add: names_match_def)

lemma distinct_default_names: "distinct (map tool_name default_tools)"
  by (simp add: default_tools_def info_tool_def)

lemma fold_register_distinct:
  "distinct (map tool_name ts) \<Longrightarrow> set (map tool_name ts) \<inter> fst ` set r = {} \<Longrightarrow>
     fold register_tool ts r = r @ map (\<lambda>t. (tool_name t, t)) ts"
proof (induction ts arbitrary: r)
  case (Cons t ts)
  have "register_tool t r = r @ [(tool_name t, t)]"
    using Cons.prems(2) by (induction r) (auto simp: register_tool_def)
  moreover have "fold register_tool ts (r @ [(tool_name t, t)]) =
      (r @ [(tool_name t, t)]) @ map (\<lambda>t. (tool_name t, t)) ts"
    using Cons.prems by (intro Cons.IH) auto
  ultimately show ?case by simp
qed simp

lemma default_registry: "tool_registry None = map (\<lambda>t. (tool_name t, t)) default_tools"
  unfolding tool_registry_def using fold_register_distinct [OF distinct_default_names, of "[]"] by simp

lemma get_default_tool:
  assumes "t \<in> set default_tools"
  shows "get_tool (tool_registry None) (tool_name t) = Some t"
proof -
  have "distinct (map fst (map (\<lambda>t. (tool_name t, t)) default_tools))"
    using distinct_default_names by (simp add: comp_def)
  moreover have "(tool_name t, t) \<in> set (map (\<lambda>t. (tool_name t, t)) default_tools)" using assms by simp
  ultimately show ?thesis unfolding get_tool_def default_registry by (rule map_of_is_SomeI)
qed

lemma default_tool_mem:
  assumes "get_tool (tool_registry None) n = Some t"
  shows "t \<in> set default_tools \<and> tool_name t = n"
proof
  have "(n, t) \<in> set (tool_registry None)" using assms unfolding get_tool_def by (rule map_of_SomeD)
  then show "t \<in> set default_tools" unfolding default_registry by (simp only: set_map) blast
  show "tool_name t = n"
    using names_match_registry [of None] assms unfolding names_match_def get_tool_def by blast
qed

text \<open>The shape of the default table, checked row by row.\<close>

lemma default_tools_shape:
  "list_all (\<lambda>t. (requires_motion t \<longrightarrow> required_capability t = Some ''locomotion'' \<and> 1 \<le> min_role_rank t
                     \<and> \<not> always_available t \<and> risk_of t = Motion)
               \<and> (risk_of t = Administrative \<longrightarrow> confirmation t = Required \<and> min_role_rank t = 3
                     \<and> \<not> always_available t)
               \<and> (always_available t \<longrightarrow> risk_of t = RiskNone \<and> min_role_rank t = 0)) default_tools"
  by (simp add: default_tools_def info_tool_def rank_defs)

lemma role_value_inj: "role_value a = role_value b \<Longrightarrow> a = b"
  by (cases a; cases b) simp_all

lemma set_default_user_Some: "map_of us n = Some u \<Longrightarrow> map_of (set_default_user r us) n = Some u"
  by (auto simp: set_default_user_def)

lemma map_of_fold_default:
  "map_of us n = Some u \<Longrightarrow> map_of (fold set_default_user rs us) n = Some u"
  by (induction rs arbitrary: us) (simp_all add: set_default_user_Some)

lemma map_of_fold_default_role:
  "r \<in> set rs \<Longrightarrow> map_of us (role_value r) = None \<Longrightarrow>
     map_of (fold set_default_user rs us) (role_value r) =
       Some \<lparr>user_name = role_value r, user_role = r, display_name = role_title r\<rparr>"
proof (induction rs arbitrary: us)
  case (Cons r' rs)
  show ?case
  proof (cases "r = r'")
    case True
    with Cons.prems have "map_of (set_default_user r us) (role_value r) =
        Some \<lparr>user_name = role_value r, user_role = r, display_name = role_title r\<rparr>"
      by (simp add: set_default_user_def)
    from map_of_fold_default [OF this, of rs] True show ?thesis by simp
  next
    case False
    then have "map_of (set_default_user r' us) (role_value r) = None"
      using Cons.prems role_value_inj [of r r'] by (auto simp: set_default_user_def)
    with False Cons show ?thesis by simp
  qed
qed simp

lemma fold_load_user_None: "n \<notin> ue_name ` set es \<Longrightarrow> map_of (fold load_user es us) n = map_of us n"
  by (induction es arbitrary: us) (auto simp: load_user_def)

section \<open>Properties\<close>

text \<open>An unlisted identity gets no privilege: a user resolved from a name that is not in the
  users file and is not one of the four role names has the rights of the configured default
  user; in particular, when that default user is not listed in the file either and is one of the
  role names, the rights are those of that role and no more.\<close>

theorem unknown_user_gets_default_role:
  assumes "n \<notin> ue_name ` set entries" "n \<notin> role_value ` set all_roles"
    "role_value r \<notin> ue_name ` set entries"
  shows "user_role (resolve_user \<lparr>auth_users = load_users entries, default_user = role_value r\<rparr> (Some n)) = r"
proof -
  have none: "map_of (load_users entries) n = None"
  proof -
    have "map_of (fold set_default_user rs us) n = map_of us n" if "n \<notin> role_value ` set rs" for rs us
      using that by (induction rs arbitrary: us) (auto simp: set_default_user_def)
    with assms(1,2) show ?thesis
      by (simp add: load_users_def fold_load_user_None)
  qed
  have base: "map_of (fold load_user entries []) (role_value r) = None"
    using assms(3) by (simp add: fold_load_user_None)
  have "r \<in> set all_roles" by (cases r) (simp_all add: all_roles_def)
  then have "map_of (load_users entries) (role_value r) =
      Some \<lparr>user_name = role_value r, user_role = r, display_name = role_title r\<rparr>"
    unfolding load_users_def using base by (rule map_of_fold_default_role)
  with none show ?thesis by (simp add: resolve_user_def)
qed

theorem unknown_user_gets_default_role_witness:
  "user_role (resolve_user \<lparr>auth_users = load_users [\<lparr>ue_name = ''ada'', ue_role = Some ''owner'', ue_display_name = None\<rparr>],
      default_user = ''operator''\<rparr> (Some ''mallory'')) = Operator"
  using unknown_user_gets_default_role
    [of "''mallory''" "[\<lparr>ue_name = ''ada'', ue_role = Some ''owner'', ue_display_name = None\<rparr>]" Operator]
  by (simp add: all_roles_def)

end
