(* ===== verification/Runtime.thy ===== *)
theory Runtime
  imports States SafetyController Lifecycle Events Simulation WorldModel MemoryStore UpdateSlots
    Gait BodyManager Tasks Tools
begin

text \<open>
  The shared context every service receives, \<open>Runtime\<close> of \<open>system.py\<close>: one record that holds the
  state machine, the logs, the body and backend, the service registry and, because the model has
  one store, the attributes of the service objects themselves (the gateway's controller and
  token, the motion service's gait policy, the executive's task list, the supervisor's report).

  \<^item> \<open>clk\<close> gives the successive readings of \<open>time.time()\<close>; \<open>ticks\<close> counts those made so far. Only
    readings whose value reaches a decision are counted: heartbeats, controller status queries
    and permission tokens.
  \<^item> \<open>has_safety\<close> is \<open>rt.safety is not None\<close>; the presence of another service is its entry in
    the registry \<open>svcs\<close>, in registration order.
  \<^item> \<open>float_repr\<close>, \<open>payload_digest\<close>, \<open>bundle_at\<close> and \<open>gait_files\<close> stand for float printing,
    \<open>hashlib\<close>, the file system under a bundle path and the policy files.
\<close>

section \<open>State\<close>

record boot_step =
  bs_name :: string
  bs_ok :: bool
  bs_detail :: string

record readiness =
  r_state :: droid_state
  inhibit_reasons :: "string list"
  degraded_reasons :: "string list"

record latch_doc =
  latch_estop :: bool
  latch_reason :: "string option"

record runtime =
  clk :: "nat \<Rightarrow> real"
  ticks :: nat
  float_repr :: "real \<Rightarrow> string"
  payload_digest :: "pyval \<Rightarrow> string"
  bundle_at :: "string \<Rightarrow> bundle_file"
  gait_files :: gait_fs
  rt_log :: logger
  rt_audit :: audit_log
  rt_bus :: event_bus
  rt_state :: state_machine
  bodies :: body_manager
  rt_body :: "loaded_body option"
  rt_backend :: "sim_backend option"
  has_safety :: bool
  svcs :: "(string \<times> managed_service) list"
  ctl :: controller
  token :: string
  latch_file :: "latch_doc option json_file"
  rt_world :: world_store
  rt_memory :: memory_store
  rt_update :: update_store
  controller_name :: string
  gait_pol :: "gait_policy option"
  gait_issues :: "string list"
  last_joint_targets :: "(string \<times> pyfloat) list"
  fan_speed :: real
  lights :: "(string \<times> bool) list"
  current_task :: "task option"
  task_history :: "task list"
  cancel_flag :: bool
  task_counter :: nat
  has_supervisor :: bool
  boot_report :: "boot_step list"
  rt_readiness :: readiness
  failed_services :: "string list"
  droid_name :: string
  rt_tools :: "registry option"
  rt_auth :: authorizer
  language_degraded :: bool

section \<open>Generic operations\<close>

definition now :: "runtime \<Rightarrow> real \<times> runtime" where
  "now rt = (clk rt (ticks rt), rt\<lparr>ticks := Suc (ticks rt)\<rparr>)"

definition emit_audit :: "audit_record \<Rightarrow> runtime \<Rightarrow> runtime" where
  "emit_audit r rt = rt\<lparr>rt_audit := audit_append r (rt_audit rt)\<rparr>"

definition publish_event :: "string \<Rightarrow> pyval \<Rightarrow> string \<Rightarrow> runtime \<Rightarrow> runtime" where
  "publish_event topic payload source rt = rt\<lparr>rt_bus := snd (publish topic payload source (rt_bus rt))\<rparr>"

definition rt_log_error :: "string \<Rightarrow> runtime \<Rightarrow> runtime" where
  "rt_log_error msg rt = rt\<lparr>rt_log := emit_line [] LError msg (rt_log rt)\<rparr>"

definition register_service :: "string \<Rightarrow> runtime \<Rightarrow> runtime" where
  "register_service name rt = rt\<lparr>svcs := AList.update name (new_service name) (svcs rt)\<rparr>"

definition has_service :: "runtime \<Rightarrow> string \<Rightarrow> bool" where
  "has_service rt name = (map_of (svcs rt) name \<noteq> None)"

definition service :: "runtime \<Rightarrow> string \<Rightarrow> managed_service" where
  "service rt name = dict_get (svcs rt) name (new_service name)"

definition put_service :: "managed_service \<Rightarrow> runtime \<Rightarrow> runtime" where
  "put_service s rt = rt\<lparr>svcs := AList.update (svc_name s) s (svcs rt)\<rparr>"

definition all_services :: "runtime \<Rightarrow> managed_service list" where
  "all_services rt = map snd (svcs rt)"

text \<open>\<open>if rt.backend is not None: rt.backend.f()\<close>\<close>

definition on_backend :: "(sim_backend \<Rightarrow> sim_backend) \<Rightarrow> runtime \<Rightarrow> runtime" where
  "on_backend f rt = rt\<lparr>rt_backend := map_option f (rt_backend rt)\<rparr>"

text \<open>The two contactors a motion command passes: the controller's and the backend's.\<close>

definition backend_power :: "runtime \<Rightarrow> bool" where
  "backend_power rt = (case rt_backend rt of None \<Rightarrow> False | Some b \<Rightarrow> power_enabled b)"

definition powers_off :: "runtime \<Rightarrow> bool" where
  "powers_off rt = (\<not> c_power (ctl rt) \<and> \<not> backend_power rt)"

section \<open>Construction\<close>

text \<open>What the process finds when it starts: the clock, the files and the configuration.\<close>

record environment =
  env_clk :: "nat \<Rightarrow> real"
  env_float_repr :: "real \<Rightarrow> string"
  env_digest :: "pyval \<Rightarrow> string"
  env_bundle_at :: "string \<Rightarrow> bundle_file"
  env_gait_files :: gait_fs
  env_log :: logger
  env_audit :: audit_log
  env_bodies :: body_manager
  env_latch_file :: "latch_doc option json_file"
  env_world_file :: "world_doc option json_file"
  env_memory_file :: "mem_entry list option json_file"
  env_update_file :: "update_info json_file"
  env_name :: string
  env_users :: "user_entry list"
  env_default_user :: string
  env_degraded :: bool

text \<open>\<open>Runtime(config)\<close> with the attribute defaults of the service constructors. The controller's
  constructor takes the first clock reading.\<close>

definition new_runtime :: "environment \<Rightarrow> runtime" where
  "new_runtime env =
     \<lparr>clk = env_clk env, ticks = 1, float_repr = env_float_repr env, payload_digest = env_digest env,
      bundle_at = env_bundle_at env, gait_files = env_gait_files env, rt_log = env_log env,
      rt_audit = (env_audit env)\<lparr>records := []\<rparr>, rt_bus = init_bus,
      rt_state = init_machine POWERED_OFF, bodies = env_bodies env, rt_body = None, rt_backend = None,
      has_safety = False, svcs = [], ctl = init_controller 1 (env_clk env 0), token = [],
      latch_file = env_latch_file env, rt_world = init_world (env_world_file env),
      rt_memory = init_memory (env_memory_file env), rt_update = init_update (env_update_file env),
      controller_name = ''unconfigured'', gait_pol = None, gait_issues = [], last_joint_targets = [],
      fan_speed = 0, lights = [(''status'', True), (''signal'', False)],
      current_task = None, task_history = [], cancel_flag = False, task_counter = 1,
      has_supervisor = False, boot_report = [],
      rt_readiness = \<lparr>r_state = POWERED_OFF, inhibit_reasons = [], degraded_reasons = []\<rparr>,
      failed_services = [], droid_name = env_name env, rt_tools = None,
      rt_auth = \<lparr>auth_users = load_users (env_users env), default_user = env_default_user env\<rparr>,
      language_degraded = False\<rparr>"

text \<open>\<open>make_backend\<close>: \<open>None\<close> is the CAN-FD transport, which is outside the model.\<close>

definition make_backend :: "loaded_body \<Rightarrow> string \<Rightarrow> pyval \<Rightarrow> sim_backend option" where
  "make_backend body kind transport =
     (if kind = ''physical'' then
        (if transport = PStr ''canfd'' then None else Some (MockHardwareBackend body))
      else Some (SimulationBackend body))"

definition SERVICE_NAMES :: "string list" where
  "SERVICE_NAMES = [''safety_gateway'', ''hardware'', ''diagnostics'', ''state_estimator'', ''world_model'',
     ''memory'', ''perception'', ''navigation'', ''motion'', ''update'', ''executive'', ''voice'']"

text \<open>The object graph around a loaded body and its backend: the gateway, the robot services in
  order, the language layer, the voice service and the supervisor.\<close>

definition wire :: "bool \<Rightarrow> loaded_body \<Rightarrow> sim_backend \<Rightarrow> runtime \<Rightarrow> runtime" where
  "wire degraded body backend rt =
     (fold register_service SERVICE_NAMES
        (rt\<lparr>rt_body := Some body, rt_backend := Some backend, has_safety := True\<rparr>))
     \<lparr>rt_tools := Some (tool_registry None), language_degraded := degraded, has_supervisor := True\<rparr>"

definition build_system :: "environment \<Rightarrow> runtime option res" where
  "build_system env =
     (let rt = new_runtime env in
      case load_active (bodies rt) of
        Inl e \<Rightarrow> Inl e
      | Inr body \<Rightarrow>
        (case selection (bodies rt) of
           Inl e \<Rightarrow> Inl e
         | Inr sel \<Rightarrow>
             Inr (map_option (\<lambda>b. wire (env_degraded env) body b rt)
                    (make_backend body (backend_kind body) (dict_get sel ''hardware_backend'' PNone)))))"

text \<open>A system around the example body with empty writable files and a clock that advances by a
  tenth of a second, the concrete input of witnesses.\<close>

definition example_env :: environment where
  "example_env = \<lparr>env_clk = (\<lambda>n. 1 + real n / 10), env_float_repr = (\<lambda>_. ''0.0''), env_digest = (\<lambda>_. []),
     env_bundle_at = (\<lambda>_. BundleUnreadable []), env_gait_files = example_fs,
     env_log = \<lparr>lg_name = ''droidos'', lg_level = 20, lg_quiet = True, lg_has_file = False,
                lg_file_writable = False, lg_stderr = [], lg_file = []\<rparr>,
     env_audit = \<lparr>au_has_path = False, au_writable = False, au_file = [], records = []\<rparr>,
     env_bodies = example_bodies, env_latch_file = fresh_file, env_world_file = fresh_file,
     env_memory_file = fresh_file, env_update_file = fresh_file, env_name = ''R2'', env_users = [],
     env_default_user = ''operator'', env_degraded = False\<rparr>"

definition example_rt :: runtime where
  "example_rt = wire False example_body (SimulationBackend example_body) (new_runtime example_env)"

section \<open>Facts\<close>

lemma now_keeps [simp, keeps]:
  "ctl (snd (now rt)) = ctl rt"
  "rt_backend (snd (now rt)) = rt_backend rt"
  "rt_state (snd (now rt)) = rt_state rt"
  "rt_body (snd (now rt)) = rt_body rt"
  "svcs (snd (now rt)) = svcs rt"
  "has_safety (snd (now rt)) = has_safety rt"
  by (simp_all add: now_def)

lemma emit_audit_keeps [simp, keeps]:
  "ctl (emit_audit r rt) = ctl rt"
  "rt_backend (emit_audit r rt) = rt_backend rt"
  "rt_state (emit_audit r rt) = rt_state rt"
  "rt_body (emit_audit r rt) = rt_body rt"
  "svcs (emit_audit r rt) = svcs rt"
  "has_safety (emit_audit r rt) = has_safety rt"
  "latch_file (emit_audit r rt) = latch_file rt"
  "rt_world (emit_audit r rt) = rt_world rt"
  "clk (emit_audit r rt) = clk rt"
  "ticks (emit_audit r rt) = ticks rt"
  by (simp_all add: emit_audit_def)

lemma publish_event_keeps [simp, keeps]:
  "ctl (publish_event t p s rt) = ctl rt"
  "rt_backend (publish_event t p s rt) = rt_backend rt"
  "rt_state (publish_event t p s rt) = rt_state rt"
  "rt_body (publish_event t p s rt) = rt_body rt"
  "svcs (publish_event t p s rt) = svcs rt"
  "has_safety (publish_event t p s rt) = has_safety rt"
  "latch_file (publish_event t p s rt) = latch_file rt"
  "rt_world (publish_event t p s rt) = rt_world rt"
  "clk (publish_event t p s rt) = clk rt"
  "ticks (publish_event t p s rt) = ticks rt"
  by (simp_all add: publish_event_def)

lemma rt_log_error_keeps [simp, keeps]:
  "ctl (rt_log_error m rt) = ctl rt"
  "rt_backend (rt_log_error m rt) = rt_backend rt"
  "rt_state (rt_log_error m rt) = rt_state rt"
  "rt_body (rt_log_error m rt) = rt_body rt"
  "svcs (rt_log_error m rt) = svcs rt"
  "has_safety (rt_log_error m rt) = has_safety rt"
  "latch_file (rt_log_error m rt) = latch_file rt"
  by (simp_all add: rt_log_error_def)

lemma on_backend_keeps [simp, keeps]:
  "ctl (on_backend f rt) = ctl rt"
  "rt_state (on_backend f rt) = rt_state rt"
  "rt_body (on_backend f rt) = rt_body rt"
  "svcs (on_backend f rt) = svcs rt"
  "has_safety (on_backend f rt) = has_safety rt"
  "rt_backend (on_backend f rt) = map_option f (rt_backend rt)"
  "latch_file (on_backend f rt) = latch_file rt"
  "rt_world (on_backend f rt) = rt_world rt"
  "clk (on_backend f rt) = clk rt"
  "ticks (on_backend f rt) = ticks rt"
  by (simp_all add: on_backend_def)

lemma put_service_keeps [simp, keeps]:
  "ctl (put_service s rt) = ctl rt"
  "rt_backend (put_service s rt) = rt_backend rt"
  "rt_state (put_service s rt) = rt_state rt"
  "rt_body (put_service s rt) = rt_body rt"
  "has_safety (put_service s rt) = has_safety rt"
  "latch_file (put_service s rt) = latch_file rt"
  by (simp_all add: put_service_def)

lemma service_put [simp]: "service (put_service s rt) n = (if svc_name s = n then s else service rt n)"
  by (simp add: service_def put_service_def)

lemma has_service_put [simp]: "has_service (put_service s rt) n \<longleftrightarrow> svc_name s = n \<or> has_service rt n"
  by (simp add: has_service_def put_service_def)

lemma backend_power_set_power [simp]:
  "backend_power (on_backend (set_power b) rt) \<longleftrightarrow> b \<and> rt_backend rt \<noteq> None"
  by (cases "rt_backend rt") (simp_all add: backend_power_def power_enabled_def)

lemma backend_power_cong: "rt_backend rt = rt_backend rt' \<Longrightarrow> backend_power rt = backend_power rt'"
  by (simp add: backend_power_def)

lemma register_service_keeps [simp, keeps]:
  "clk (register_service n rt) = clk rt" "ticks (register_service n rt) = ticks rt"
  "rt_state (register_service n rt) = rt_state rt" "rt_body (register_service n rt) = rt_body rt"
  "rt_backend (register_service n rt) = rt_backend rt" "has_safety (register_service n rt) = has_safety rt"
  "ctl (register_service n rt) = ctl rt" "token (register_service n rt) = token rt"
  "latch_file (register_service n rt) = latch_file rt" "rt_world (register_service n rt) = rt_world rt"
  "svcs (register_service n rt) = AList.update n (new_service n) (svcs rt)"
  by (simp_all add: register_service_def)

lemma fold_register_keeps:
  "clk (fold register_service ns rt) = clk rt \<and> ticks (fold register_service ns rt) = ticks rt
   \<and> rt_state (fold register_service ns rt) = rt_state rt \<and> rt_body (fold register_service ns rt) = rt_body rt
   \<and> rt_backend (fold register_service ns rt) = rt_backend rt
   \<and> has_safety (fold register_service ns rt) = has_safety rt \<and> ctl (fold register_service ns rt) = ctl rt
   \<and> token (fold register_service ns rt) = token rt \<and> latch_file (fold register_service ns rt) = latch_file rt
   \<and> rt_world (fold register_service ns rt) = rt_world rt"
  by (induction ns arbitrary: rt) simp_all

lemma wire_fields [simp]:
  "clk (wire d body b rt) = clk rt" "ticks (wire d body b rt) = ticks rt"
  "rt_state (wire d body b rt) = rt_state rt" "rt_body (wire d body b rt) = Some body"
  "rt_backend (wire d body b rt) = Some b" "has_safety (wire d body b rt)"
  "ctl (wire d body b rt) = ctl rt" "token (wire d body b rt) = token rt"
  "latch_file (wire d body b rt) = latch_file rt" "rt_world (wire d body b rt) = rt_world rt"
  "has_supervisor (wire d body b rt)" "rt_tools (wire d body b rt) = Some (tool_registry None)"
  by (simp_all add: wire_def fold_register_keeps)

lemma new_runtime_fields [simp]:
  "clk (new_runtime env) = env_clk env" "ticks (new_runtime env) = 1"
  "rt_state (new_runtime env) = init_machine POWERED_OFF"
  "ctl (new_runtime env) = init_controller 1 (env_clk env 0)" "token (new_runtime env) = []"
  "latch_file (new_runtime env) = env_latch_file env" "rt_world (new_runtime env) = init_world (env_world_file env)"
  by (simp_all add: new_runtime_def)

lemma svcs_wire: "svcs (wire d body b (new_runtime env)) = map (\<lambda>n. (n, new_service n)) SERVICE_NAMES"
  by (simp add: wire_def new_runtime_def SERVICE_NAMES_def)

end
