(* ===== verification/SafetyGateway.thy ===== *)
theory SafetyGateway
  imports Runtime
begin

text \<open>
  The safety gateway, \<open>services/safety_gateway.py\<close>: the host side of the independent safety
  controller. Its methods act on the controller, the backend's power, the latch file, the audit
  log, the event bus and the system state; its lifecycle hooks load the persisted latch and open
  both contactors.

  The facts: permission is granted only by a healthy controller, and closes both contactors;
  release, emergency stop and fault reports open both; the emergency stop survives a restart
  through the latch file.
\<close>

section \<open>Operations\<close>

definition gw_heartbeat :: "runtime \<Rightarrow> runtime" where
  "gw_heartbeat rt = (case now rt of (t, rt1) \<Rightarrow> rt1\<lparr>ctl := ctl_heartbeat t (ctl rt1)\<rparr>)"

text \<open>\<open>self.controller.status()\<close>\<close>

definition gw_ctl_status :: "runtime \<Rightarrow> safety_status \<times> runtime" where
  "gw_ctl_status rt =
     (case now rt of (t, rt1) \<Rightarrow>
        case ctl_status None t (ctl rt1) of (st, c) \<Rightarrow> (st, rt1\<lparr>ctl := c\<rparr>))"

definition gw_status :: "runtime \<Rightarrow> pydict \<times> runtime" where
  "gw_status rt = (case gw_ctl_status (gw_heartbeat rt) of (st, rt1) \<Rightarrow> (status_to_dict st, rt1))"

definition gw_healthy :: "runtime \<Rightarrow> bool \<times> runtime" where
  "gw_healthy rt = (case gw_ctl_status (gw_heartbeat rt) of (st, rt1) \<Rightarrow> (status_healthy st, rt1))"

definition gw_link_up :: "runtime \<Rightarrow> bool" where
  "gw_link_up rt = link_up (ctl rt)"

definition save_latch :: "bool \<Rightarrow> string \<Rightarrow> runtime \<Rightarrow> runtime" where
  "save_latch estop reason rt =
     rt\<lparr>latch_file := write_doc (Some \<lparr>latch_estop = estop, latch_reason = Some reason\<rparr>) (latch_file rt)\<rparr>"

definition log_safety_event :: "string \<Rightarrow> string \<Rightarrow> runtime \<Rightarrow> runtime" where
  "log_safety_event ev detail rt =
     (case gw_ctl_status rt of (st, rt1) \<Rightarrow>
        publish_event ''safety/event'' (PDict [(''event'', PStr ev), (''detail'', PStr detail)]) ''safety_gateway''
          (emit_audit ((blank_record ''safety'')\<lparr>au_reason := Some ev,
             au_detail := Some [(''detail'', PStr detail)],
             au_safety_state := Some (if st_estop_engaged st then ''EMERGENCY_STOPPED'' else ''ok'')\<rparr>) rt1))"

definition engage_estop :: "string \<Rightarrow> runtime \<Rightarrow> runtime" where
  "engage_estop reason rt =
     (let rt1 = rt\<lparr>ctl := ctl_engage_estop reason (ctl rt)\<rparr>;
          rt2 = on_backend (set_power False) rt1;
          rt3 = save_latch True reason rt2;
          rt4 = log_safety_event ''emergency_stop'' reason rt3
      in rt4\<lparr>rt_state := force (rt_state rt4) EMERGENCY_STOPPED (''estop: '' @ reason)\<rparr>)"

definition reset_estop :: "runtime \<Rightarrow> bool \<times> runtime" where
  "reset_estop rt =
     (let rt1 = rt\<lparr>ctl := ctl_reset_estop (ctl rt)\<rparr>;
          rt2 = save_latch False [] rt1
      in (True, log_safety_event ''estop_reset'' ''recovery_complete'' rt2))"

definition estop_engaged :: "runtime \<Rightarrow> bool \<times> runtime" where
  "estop_engaged rt = (case gw_ctl_status rt of (st, rt1) \<Rightarrow> (st_estop_engaged st, rt1))"

definition unhealthy_reasons :: "safety_status \<Rightarrow> string list" where
  "unhealthy_reasons st =
     (if st_estop_engaged st then [''emergency stop engaged''] else [])
     @ (if \<not> st_alive st \<or> \<not> st_watchdog_ok st then [''safety controller link unhealthy''] else [])
     @ (if st_faults st \<noteq> [] then [''active safety faults: '' @ join '', '' (st_faults st)] else [])"

definition deny :: "string \<Rightarrow> motion_permission" where
  "deny reason = \<lparr>granted = False, perm_reason = reason, perm_token = []\<rparr>"

definition request_motion_permission :: "runtime \<Rightarrow> motion_permission \<times> runtime" where
  "request_motion_permission rt0 =
     (case gw_ctl_status (gw_heartbeat rt0) of (st, rt) \<Rightarrow>
        if \<not> status_healthy st then
          (let r = join ''; '' (unhealthy_reasons st)
           in (deny (if r \<noteq> [] then r else ''safety controller not healthy''), rt))
        else
          (case request_power_enable (ctl rt) of (ok, c) \<Rightarrow>
             let rt1 = rt\<lparr>ctl := c\<rparr> in
             if \<not> ok then (deny ''safety controller refused to enable motor power'', rt1)
             else
               (case now (on_backend (set_power True) rt1) of (t, rt2) \<Rightarrow>
                  let tok = ''mp-'' @ show_int (trunc_int (t * 1000));
                      rt3 = log_safety_event ''motion_permission_granted'' tok (rt2\<lparr>token := tok\<rparr>)
                  in (\<lparr>granted = True, perm_reason = ''granted'', perm_token = tok\<rparr>, rt3))))"

definition release_motion_permission :: "runtime \<Rightarrow> runtime" where
  "release_motion_permission rt =
     (let rt1 = on_backend (set_power False) (rt\<lparr>ctl := disable_power (ctl rt)\<rparr>);
          rt2 = (if token rt1 \<noteq> [] then log_safety_event ''motion_permission_released'' (token rt1) rt1 else rt1)
      in rt2\<lparr>token := []\<rparr>)"

definition report_fault :: "string \<Rightarrow> runtime \<Rightarrow> runtime" where
  "report_fault name rt =
     log_safety_event ''fault_reported'' name
       (on_backend (set_power False) (rt\<lparr>ctl := ctl_report_fault name (ctl rt)\<rparr>))"

definition set_safety_link :: "bool \<Rightarrow> runtime \<Rightarrow> runtime" where
  "set_safety_link up rt =
     (let rt1 = rt\<lparr>ctl := set_link up (ctl rt)\<rparr>
      in if \<not> up then log_safety_event ''safety_link_lost'' [] rt1 else rt1)"

definition gw_diagnostics :: "runtime \<Rightarrow> diagnostic_status list \<times> runtime" where
  "gw_diagnostics rt =
     (case gw_ctl_status rt of (st, rt1) \<Rightarrow>
        let (level, msg) =
              (if st_estop_engaged st then (ERROR, ''EMERGENCY STOP engaged'')
               else if st_faults st \<noteq> [] then (ERROR, ''safety faults: '' @ join '', '' (st_faults st))
               else if \<not> st_alive st \<or> \<not> st_watchdog_ok st then (ERROR, ''safety controller link unhealthy'')
               else (OK, ''safety controller healthy''))
        in ([\<lparr>d_name = ''safety/controller'', d_level = level, d_message = msg,
              d_hardware_id = ''safety-mcu'', d_values = status_to_dict st\<rparr>], rt1))"

section \<open>Lifecycle hooks\<close>

definition load_latch :: "runtime \<Rightarrow> unit res \<times> runtime" where
  "load_latch rt =
     (case read_doc (latch_file rt) of
        Inl e \<Rightarrow> (Inl e, rt)
      | Inr None \<Rightarrow> (Inr (), rt)
      | Inr (Some None) \<Rightarrow> (Inl (AttributeError ''get''), rt)
      | Inr (Some (Some d)) \<Rightarrow>
          (Inr (), if latch_estop d
                   then rt\<lparr>ctl := ctl_engage_estop
                          (case latch_reason d of None \<Rightarrow> ''persisted_latch'' | Some r \<Rightarrow> r) (ctl rt)\<rparr>
                   else rt))"

definition gw_on_configure :: "runtime hook" where
  "gw_on_configure rt =
     (case load_latch rt of (Inl e, rt1) \<Rightarrow> (Inl e, rt1) | (Inr _, rt1) \<Rightarrow> (Inr True, gw_heartbeat rt1))"

definition gw_on_activate :: "runtime hook" where
  "gw_on_activate rt0 =
     (let rt = gw_heartbeat rt0;
          rt1 = rt\<lparr>ctl := disable_power (ctl rt)\<rparr>
      in (Inr True, on_backend (set_power False) rt1))"

section \<open>Frame facts\<close>

lemma pick_now_None [simp]: "pick_now None t = t"
  by (simp add: pick_now_def)

lemma gw_heartbeat_keeps [simp, keeps]:
  "rt_backend (gw_heartbeat rt) = rt_backend rt"
  "rt_state (gw_heartbeat rt) = rt_state rt"
  "rt_body (gw_heartbeat rt) = rt_body rt"
  "svcs (gw_heartbeat rt) = svcs rt"
  "has_safety (gw_heartbeat rt) = has_safety rt"
  "latch_file (gw_heartbeat rt) = latch_file rt"
  "rt_world (gw_heartbeat rt) = rt_world rt"
  "clk (gw_heartbeat rt) = clk rt"
  "has_supervisor (gw_heartbeat rt) = has_supervisor rt"
  "ticks (gw_heartbeat rt) = Suc (ticks rt)"
  "ctl (gw_heartbeat rt) = ctl_heartbeat (clk rt (ticks rt)) (ctl rt)"
  by (simp_all add: gw_heartbeat_def now_def)

lemma gw_ctl_status_keeps [simp, keeps]:
  "rt_backend (snd (gw_ctl_status rt)) = rt_backend rt"
  "rt_state (snd (gw_ctl_status rt)) = rt_state rt"
  "rt_body (snd (gw_ctl_status rt)) = rt_body rt"
  "svcs (snd (gw_ctl_status rt)) = svcs rt"
  "has_safety (snd (gw_ctl_status rt)) = has_safety rt"
  "latch_file (snd (gw_ctl_status rt)) = latch_file rt"
  "rt_world (snd (gw_ctl_status rt)) = rt_world rt"
  "clk (snd (gw_ctl_status rt)) = clk rt"
  "has_supervisor (snd (gw_ctl_status rt)) = has_supervisor rt"
  "ticks (snd (gw_ctl_status rt)) = Suc (ticks rt)"
  "ctl (snd (gw_ctl_status rt)) = check_watchdog (Some (clk rt (ticks rt))) (clk rt (ticks rt)) (ctl rt)"
  by (simp_all add: gw_ctl_status_def now_def case_prod_beta ctl_status_def Let_def pick_now_def)

lemma gw_ctl_status_fst:
  "fst (gw_ctl_status rt) = fst (ctl_status None (clk rt (ticks rt)) (ctl rt))"
  by (simp add: gw_ctl_status_def now_def case_prod_beta)

lemma ctl_status_fields:
  "st_estop_engaged (fst (ctl_status n t c)) = c_estop c"
  "st_faults (fst (ctl_status n t c)) = sort (c_faults c)"
  "st_alive (fst (ctl_status n t c)) = (c_alive c \<and> c_link_up c)"
  by (simp_all add: ctl_status_def Let_def)

lemma log_safety_event_keeps [simp, keeps]:
  "rt_backend (log_safety_event e d rt) = rt_backend rt"
  "rt_state (log_safety_event e d rt) = rt_state rt"
  "rt_body (log_safety_event e d rt) = rt_body rt"
  "svcs (log_safety_event e d rt) = svcs rt"
  "has_safety (log_safety_event e d rt) = has_safety rt"
  "latch_file (log_safety_event e d rt) = latch_file rt"
  "rt_world (log_safety_event e d rt) = rt_world rt"
  "clk (log_safety_event e d rt) = clk rt"
  "ctl (log_safety_event e d rt) = check_watchdog (Some (clk rt (ticks rt))) (clk rt (ticks rt)) (ctl rt)"
  "backend_power (log_safety_event e d rt) = backend_power rt"
  "token (log_safety_event e d rt) = token rt"
  "has_supervisor (log_safety_event e d rt) = has_supervisor rt"
  by (simp_all add: log_safety_event_def case_prod_beta backend_power_def emit_audit_def publish_event_def
      gw_ctl_status_def now_def)

lemma save_latch_keeps [simp, keeps]:
  "ctl (save_latch b r rt) = ctl rt"
  "rt_backend (save_latch b r rt) = rt_backend rt"
  "rt_state (save_latch b r rt) = rt_state rt"
  "svcs (save_latch b r rt) = svcs rt"
  "clk (save_latch b r rt) = clk rt"
  "ticks (save_latch b r rt) = ticks rt"
  by (simp_all add: save_latch_def)

lemma check_watchdog_power: "c_power (check_watchdog n t c) \<Longrightarrow> c_power c"
  by (simp add: check_watchdog_def Let_def split: if_splits)

lemma check_watchdog_off [simp]: "\<not> c_power c \<Longrightarrow> \<not> c_power (check_watchdog n t c)"
  using check_watchdog_power by blast

lemma ctl_off [simp]:
  "\<not> c_power (ctl_engage_estop r c)" "\<not> c_power (ctl_report_fault n c)" "\<not> c_power (disable_power c)"
  by (simp_all add: ctl_engage_estop_def ctl_report_fault_def disable_power_def Let_def)

lemma backend_power_update [simp]:
  "backend_power (rt\<lparr>ctl := c\<rparr>) = backend_power rt"
  "backend_power (rt\<lparr>token := tk\<rparr>) = backend_power rt"
  "backend_power (rt\<lparr>rt_state := s\<rparr>) = backend_power rt"
  "backend_power (save_latch b r rt) = backend_power rt"
  by (simp_all add: backend_power_def save_latch_def)

lemma release_keeps [simp, keeps]:
  "rt_state (release_motion_permission rt) = rt_state rt"
  "rt_body (release_motion_permission rt) = rt_body rt"
  "svcs (release_motion_permission rt) = svcs rt"
  "rt_world (release_motion_permission rt) = rt_world rt"
  "latch_file (release_motion_permission rt) = latch_file rt"
  "has_safety (release_motion_permission rt) = has_safety rt"
  by (simp_all add: release_motion_permission_def Let_def)

lemma release_backend:
  "rt_backend (release_motion_permission rt) = map_option (set_power False) (rt_backend rt)"
  by (simp add: release_motion_permission_def Let_def)

lemma release_ctl [simp]: "\<not> c_power (ctl (release_motion_permission rt))"
  by (simp add: release_motion_permission_def Let_def)

lemma release_powers_off: "powers_off (release_motion_permission rt)"
proof (unfold powers_off_def, intro conjI)
  show "\<not> c_power (ctl (release_motion_permission rt))" by simp
  show "\<not> backend_power (release_motion_permission rt)"
    by (cases "rt_backend rt") (simp_all add: backend_power_def release_backend power_enabled_def)
qed

section \<open>Permission\<close>

text \<open>A fresh heartbeat and the status query after it.\<close>

definition healthy_now :: "runtime \<Rightarrow> bool" where
  "healthy_now rt = (c_alive (ctl rt) \<and> c_link_up (ctl rt) \<and> \<not> c_estop (ctl rt) \<and> c_faults (ctl rt) = []
     \<and> clk rt (Suc (ticks rt)) - clk rt (ticks rt) \<le> c_watchdog_timeout (ctl rt))"

lemma ctl_heartbeat_fields [simp]:
  "c_alive (ctl_heartbeat t c) = c_alive c" "c_link_up (ctl_heartbeat t c) = c_link_up c"
  "c_estop (ctl_heartbeat t c) = c_estop c" "c_faults (ctl_heartbeat t c) = c_faults c"
  "c_watchdog_timeout (ctl_heartbeat t c) = c_watchdog_timeout c" "c_last_contact (ctl_heartbeat t c) = t"
  "c_power (ctl_heartbeat t c) = c_power c"
  by (simp_all add: ctl_heartbeat_def)

lemma status_healthy_after_heartbeat:
  "status_healthy (fst (gw_ctl_status (gw_heartbeat rt))) \<longleftrightarrow> healthy_now rt"
  by (auto simp: gw_ctl_status_fst ctl_status_def status_healthy_def Let_def pick_now_def healthy_now_def)

lemma gw_healthy_iff: "fst (gw_healthy rt) \<longleftrightarrow> healthy_now rt"
  by (simp add: gw_healthy_def case_prod_beta status_healthy_after_heartbeat)

lemma request_power_enable_fields:
  "c_alive c \<and> c_link_up c \<and> \<not> c_estop c \<and> c_faults c = [] \<Longrightarrow>
     request_power_enable c = (True, c\<lparr>c_power := True\<rparr>)"
  by (simp add: request_power_enable_def)

lemma request_denied:
  assumes "\<not> healthy_now rt"
  shows "\<not> granted (fst (request_motion_permission rt))
    \<and> snd (request_motion_permission rt) = snd (gw_ctl_status (gw_heartbeat rt))"
  using assms unfolding request_motion_permission_def
  by (simp add: case_prod_beta status_healthy_after_heartbeat deny_def Let_def)

lemma request_granted:
  assumes "healthy_now rt"
  shows "granted (fst (request_motion_permission rt))
    \<and> rt_backend (snd (request_motion_permission rt)) = map_option (set_power True) (rt_backend rt)
    \<and> perm_token (fst (request_motion_permission rt)) = token (snd (request_motion_permission rt))
    \<and> token (snd (request_motion_permission rt)) \<noteq> []"
proof -
  let ?rt = "snd (gw_ctl_status (gw_heartbeat rt))"
  have "request_power_enable (ctl ?rt) = (True, (ctl ?rt)\<lparr>c_power := True\<rparr>)"
    using assms by (intro request_power_enable_fields) (simp add: healthy_now_def)
  then show ?thesis
    using assms unfolding request_motion_permission_def
    by (simp add: case_prod_beta status_healthy_after_heartbeat Let_def now_def)
qed

lemma request_keeps [simp, keeps]:
  "rt_state (snd (request_motion_permission rt)) = rt_state rt"
  "rt_body (snd (request_motion_permission rt)) = rt_body rt"
  "svcs (snd (request_motion_permission rt)) = svcs rt"
  "rt_world (snd (request_motion_permission rt)) = rt_world rt"
  "latch_file (snd (request_motion_permission rt)) = latch_file rt"
  "has_safety (snd (request_motion_permission rt)) = has_safety rt"
  by (simp_all add: request_motion_permission_def case_prod_beta Let_def now_def)

section \<open>The latch\<close>

lemma engage_latch:
  "latch_file (engage_estop reason rt) =
     write_doc (Some \<lparr>latch_estop = True, latch_reason = Some reason\<rparr>) (latch_file rt)"
  by (simp add: engage_estop_def Let_def) (simp add: save_latch_def)

lemma reset_latch:
  "latch_file (snd (reset_estop rt)) =
     write_doc (Some \<lparr>latch_estop = False, latch_reason = Some []\<rparr>) (latch_file rt)"
  by (simp add: reset_estop_def Let_def) (simp add: save_latch_def)

lemma configure_from_latch:
  assumes "contents (latch_file rt) = Doc (Some d)"
  shows "fst (gw_on_configure rt) = Inr True
    \<and> c_estop (ctl (snd (gw_on_configure rt))) = (latch_estop d \<or> c_estop (ctl rt))
    \<and> (latch_estop d \<longrightarrow> \<not> c_power (ctl (snd (gw_on_configure rt))))"
  using assms
  by (simp add: gw_on_configure_def load_latch_def read_doc_def ctl_engage_estop_def Let_def)

section \<open>Properties\<close>

text \<open>C8. Motion permission is granted exactly by a healthy controller: the controller is alive and
  linked, no emergency stop is engaged, no fault is latched, and its status is read within the
  watchdog time of the heartbeat. A grant closes the backend's contactor and issues a token; a
  refusal leaves the backend untouched and enables nothing.\<close>

theorem permission_exactly_when_healthy:
  "granted (fst (request_motion_permission rt)) = healthy_now rt
   \<and> (healthy_now rt \<longrightarrow>
        rt_backend (snd (request_motion_permission rt)) = map_option (set_power True) (rt_backend rt)
        \<and> token (snd (request_motion_permission rt)) \<noteq> [])
   \<and> (\<not> healthy_now rt \<longrightarrow>
        rt_backend (snd (request_motion_permission rt)) = rt_backend rt
        \<and> (c_power (ctl (snd (request_motion_permission rt))) \<longrightarrow> c_power (ctl rt)))"
proof (cases "healthy_now rt")
  case True
  then show ?thesis using request_granted [OF True] by simp
next
  case False
  have "c_power (check_watchdog n t (ctl_heartbeat u (ctl rt))) \<longrightarrow> c_power (ctl rt)" for n t u
    using check_watchdog_power [of n t "ctl_heartbeat u (ctl rt)"] by simp
  then show ?thesis using False request_denied [OF False] by simp
qed

theorem permission_exactly_when_healthy_witness:
  "granted (fst (request_motion_permission example_rt)) \<and> backend_power (snd (request_motion_permission example_rt))"
proof -
  have "healthy_now example_rt"
    by (simp add: healthy_now_def example_rt_def example_env_def init_controller_def)
  then show ?thesis
    using permission_exactly_when_healthy [of example_rt]
    by (simp add: backend_power_def power_enabled_def example_rt_def)
qed

text \<open>Every stop path cuts both contactors at once: after releasing the permission, reporting a
  fault or engaging the emergency stop, neither the controller's nor the backend's motor power is
  on; and after an emergency stop the system state is EMERGENCY_STOPPED.\<close>

theorem stop_paths_cut_power:
  "powers_off (release_motion_permission rt) \<and> powers_off (report_fault name rt)
   \<and> powers_off (engage_estop reason rt)
   \<and> c_estop (ctl (engage_estop reason rt))
   \<and> cur_state (rt_state (engage_estop reason rt)) = EMERGENCY_STOPPED"
proof (intro conjI)
  show "powers_off (release_motion_permission rt)" by (rule release_powers_off)
  show "powers_off (report_fault name rt)" by (simp add: powers_off_def report_fault_def)
  show "powers_off (engage_estop reason rt)" by (simp add: powers_off_def engage_estop_def Let_def)
  show "c_estop (ctl (engage_estop reason rt))"
    by (simp add: engage_estop_def Let_def ctl_engage_estop_def)
  show "cur_state (rt_state (engage_estop reason rt)) = EMERGENCY_STOPPED"
    by (simp add: engage_estop_def Let_def)
qed

text \<open>The emergency stop survives a restart: with a writable latch file, a gateway that
  configures itself from the file written by \<open>engage_estop\<close> comes up with the stop engaged and
  power off, whatever its fresh controller was; after \<open>reset_estop\<close> it comes up as it was
  constructed.\<close>

theorem estop_survives_restart:
  assumes "writable (latch_file rt)"
  shows "(latch_file rt2 = latch_file (engage_estop reason rt) \<longrightarrow>
            fst (gw_on_configure rt2) = Inr True
            \<and> c_estop (ctl (snd (gw_on_configure rt2)))
            \<and> \<not> c_power (ctl (snd (gw_on_configure rt2))))
    \<and> (latch_file rt2 = latch_file (snd (reset_estop rt)) \<longrightarrow>
            fst (gw_on_configure rt2) = Inr True
            \<and> c_estop (ctl (snd (gw_on_configure rt2))) = c_estop (ctl rt2))"
proof (intro conjI impI)
  assume "latch_file rt2 = latch_file (engage_estop reason rt)"
  then have d: "contents (latch_file rt2) = Doc (Some \<lparr>latch_estop = True, latch_reason = Some reason\<rparr>)"
    using assms by (simp add: engage_latch write_doc_def)
  from configure_from_latch [OF d]
  show "fst (gw_on_configure rt2) = Inr True" "c_estop (ctl (snd (gw_on_configure rt2)))"
    "\<not> c_power (ctl (snd (gw_on_configure rt2)))" by simp_all
next
  assume "latch_file rt2 = latch_file (snd (reset_estop rt))"
  then have d: "contents (latch_file rt2) = Doc (Some \<lparr>latch_estop = False, latch_reason = Some []\<rparr>)"
    using assms by (simp add: reset_latch write_doc_def)
  from configure_from_latch [OF d]
  show "fst (gw_on_configure rt2) = Inr True"
    "c_estop (ctl (snd (gw_on_configure rt2))) = c_estop (ctl rt2)" by simp_all
qed

theorem estop_survives_restart_witness:
  "c_estop (ctl (snd (gw_on_configure (example_rt\<lparr>latch_file := latch_file (engage_estop ''x'' example_rt)\<rparr>))))"
proof -
  have "writable (latch_file example_rt)" by (simp add: example_rt_def example_env_def fresh_file_def)
  from estop_survives_restart [OF this,
      of "example_rt\<lparr>latch_file := latch_file (engage_estop ''x'' example_rt)\<rparr>" "''x''"]
  show ?thesis by simp
qed

text \<open>C40. Losing the safety link opens the controller's contactor but not the backend's: the link
  change never touches the backend, so a backend that was powered stays powered and goes on
  executing velocity commands.\<close>

theorem link_loss_leaves_backend_powered:
  "\<not> c_power (ctl (set_safety_link False rt)) \<and> backend_power (set_safety_link False rt) = backend_power rt"
proof -
  have "\<not> c_power (set_link False (ctl rt))" by (simp add: set_link_def)
  then show ?thesis by (simp add: set_safety_link_def Let_def)
qed

end
