(* ===== verification/StateFiles.thy ===== *)
theory StateFiles
  imports JsonRead SafetyGateway WorldModel MemoryStore UpdateSlots
begin

text \<open>
  The texts of the four state files: the latch of the safety gateway, the world model, the memory and the update slots.
  \<open>Storage\<close> describes such a file by the document it holds; here it is its characters, written by \<open>json_dumps\<close> or
  \<open>json_indent\<close> and read by \<open>json_loads\<close>, and writing a text is shown to refine writing the document.

  The documents of the other theories have no time stamps. The text has them, so an encoding takes the stamps of a
  document's parts as the function \<open>st\<close>. A document of a shape that the service does not write, such as a place without
  coordinates, is outside of the model, which the decoding shows by \<open>None\<close>.
\<close>

section \<open>Files of characters\<close>

datatype characters = NoFile | ReadFails | NotUtf8 | Chars string

record text_file =
  t_characters :: characters
  t_writable :: bool

text \<open>\<open>path.write_text\<close> with its \<open>OSError\<close> ignored\<close>

definition write_text :: "string \<Rightarrow> text_file \<Rightarrow> text_file" where
  "write_text s t = (if t_writable t then t\<lparr>t_characters := Chars s\<rparr> else t)"

text \<open>The document file that a text file is\<close>

definition content_of :: "(string \<Rightarrow> real option) \<Rightarrow> (pyval \<Rightarrow> 'd option) \<Rightarrow> characters \<Rightarrow> 'd file_content option" where
  "content_of fl dec c =
     (case c of
        NoFile \<Rightarrow> Some Missing
      | ReadFails \<Rightarrow> Some Unreadable
      | NotUtf8 \<Rightarrow> Some BadUtf8
      | Chars s \<Rightarrow> (case json_loads fl s of None \<Rightarrow> Some (BadJson s) | Some v \<Rightarrow> map_option Doc (dec v)))"

definition file_of_text :: "(string \<Rightarrow> real option) \<Rightarrow> (pyval \<Rightarrow> 'd option) \<Rightarrow> text_file \<Rightarrow> 'd json_file option" where
  "file_of_text fl dec t = map_option (\<lambda>c. \<lparr>contents = c, writable = t_writable t\<rparr>) (content_of fl dec (t_characters t))"

section \<open>Codecs\<close>

text \<open>What a service's documents promise: a document that fits the floats \<open>F\<close> is encoded as a value of Python
  with these floats, and its encoding decodes to it.\<close>

locale json_codec =
  fixes enc :: "(nat \<Rightarrow> real) \<Rightarrow> 'd \<Rightarrow> pyval"
    and dec :: "pyval \<Rightarrow> 'd option"
    and fits :: "real set \<Rightarrow> 'd \<Rightarrow> bool"
  assumes dec_enc: "fits F d \<Longrightarrow> dec (enc st d) = Some d"
    and enc_keys: "fits F d \<Longrightarrow> py_keys (enc st d)"
    and enc_floats: "fits F d \<Longrightarrow> range st \<subseteq> F \<Longrightarrow> floats_in F (enc st d)"
begin

lemma content_written:
  assumes "float_reads fr fl F" "fits F d" "range st \<subseteq> F" "s = json_dumps fr (enc st d) \<or> s = json_indent fr 0 (enc st d)"
  shows "content_of fl dec (Chars s) = Some (Doc d)"
  using assms(4) loads_dumps [OF assms(1) enc_floats [OF assms(2,3)] enc_keys [OF assms(2)]] dec_enc [OF assms(2)]
  by (auto simp: content_of_def)

text \<open>Writing the text refines writing the document, whatever stamps it has.\<close>

lemma write_refines:
  assumes "float_reads fr fl F" "fits F d" "range st \<subseteq> F" "s = json_dumps fr (enc st d) \<or> s = json_indent fr 0 (enc st d)"
    "file_of_text fl dec t = Some f"
  shows "file_of_text fl dec (write_text s t) = Some (write_doc d f)"
  using assms(5) content_written [OF assms(1-4)] by (auto simp: file_of_text_def write_text_def write_doc_def)

lemma read_back:
  assumes "float_reads fr fl F" "fits F d" "range st \<subseteq> F" "s = json_dumps fr (enc st d) \<or> s = json_indent fr 0 (enc st d)"
    "t_writable t"
  shows "\<exists>f. file_of_text fl dec (write_text s t) = Some f \<and> read_doc f = Inr (Some d)"
  using assms(5) content_written [OF assms(1-4)] by (simp add: file_of_text_def write_text_def read_doc_def)

end

section \<open>The latch\<close>

definition latch_json :: "(nat \<Rightarrow> real) \<Rightarrow> latch_doc option \<Rightarrow> pyval" where
  "latch_json st d =
     (case d of
        None \<Rightarrow> PNone
      | Some l \<Rightarrow> PDict
          [(''estop_engaged'', PBool (latch_estop l)),
           (''reason'', case latch_reason l of None \<Rightarrow> PNone | Some r \<Rightarrow> PStr r),
           (''stamp'', PFloat (st 0))])"

text \<open>\<open>data.get("estop_engaged")\<close> and \<open>data.get("reason", "persisted_latch")\<close>\<close>

definition latch_of_json :: "pyval \<Rightarrow> latch_doc option option" where
  "latch_of_json v =
     (case v of
        PDict m \<Rightarrow>
          (let e = truthy (dict_get m ''estop_engaged'' PNone) in
           case map_of m ''reason'' of
             None \<Rightarrow> Some (Some \<lparr>latch_estop = e, latch_reason = None\<rparr>)
           | Some (PStr r) \<Rightarrow> Some (Some \<lparr>latch_estop = e, latch_reason = Some r\<rparr>)
           | Some _ \<Rightarrow> None)
      | _ \<Rightarrow> Some None)"

text \<open>The documents that \<open>_save_latch\<close> writes\<close>

definition latch_fits :: "real set \<Rightarrow> latch_doc option \<Rightarrow> bool" where
  "latch_fits F d = (\<exists>e r. d = Some \<lparr>latch_estop = e, latch_reason = Some r\<rparr>)"

interpretation latch_codec: json_codec latch_json latch_of_json latch_fits
  by unfold_locales (auto simp: latch_fits_def latch_json_def latch_of_json_def dict_get_def range_subsetD)

section \<open>Memory\<close>

fun entries_json :: "(nat \<Rightarrow> real) \<Rightarrow> nat \<Rightarrow> mem_entry list \<Rightarrow> pyval list" where
  "entries_json st i [] = []"
| "entries_json st i (e # es) =
     PDict [(''text'', PStr (e_text e)), (''category'', PStr (e_category e)), (''meta'', PDict (e_meta e)),
            (''stamp'', PFloat (st i))] # entries_json st (Suc i) es"

definition memory_json :: "(nat \<Rightarrow> real) \<Rightarrow> mem_entry list option \<Rightarrow> pyval" where
  "memory_json st d = (case d of None \<Rightarrow> PNone | Some es \<Rightarrow> PList (entries_json st 0 es))"

definition entry_of_json :: "pyval \<Rightarrow> mem_entry option" where
  "entry_of_json v =
     (case v of
        PDict m \<Rightarrow>
          (case (map_of m ''text'', map_of m ''category'', map_of m ''meta'') of
             (Some (PStr t), Some (PStr c), Some (PDict x)) \<Rightarrow> Some \<lparr>e_text = t, e_category = c, e_meta = x\<rparr>
           | _ \<Rightarrow> None)
      | _ \<Rightarrow> None)"

fun all_of :: "('a \<Rightarrow> 'b option) \<Rightarrow> 'a list \<Rightarrow> 'b list option" where
  "all_of f [] = Some []"
| "all_of f (x # xs) =
     (case f x of None \<Rightarrow> None | Some y \<Rightarrow> map_option (Cons y) (all_of f xs))"

text \<open>\<open>if isinstance(loaded, list)\<close>\<close>

definition memory_of_json :: "pyval \<Rightarrow> mem_entry list option option" where
  "memory_of_json v = (case v of PList xs \<Rightarrow> map_option Some (all_of entry_of_json xs) | _ \<Rightarrow> Some None)"

definition memory_fits :: "real set \<Rightarrow> mem_entry list option \<Rightarrow> bool" where
  "memory_fits F d =
     (case d of None \<Rightarrow> False
      | Some es \<Rightarrow> list_all (\<lambda>e. py_keys (PDict (e_meta e)) \<and> floats_in F (PDict (e_meta e))) es)"

lemma entry_decode:
  "entry_of_json (PDict [(''text'', PStr (e_text e)), (''category'', PStr (e_category e)), (''meta'', PDict (e_meta e)), z]) = Some e"
  by (simp add: entry_of_json_def)

lemma entries_decode: "all_of entry_of_json (entries_json st i es) = Some es"
  by (induction st i es rule: entries_json.induct) (simp_all add: entry_decode)

lemma entries_value:
  "list_all (\<lambda>e. py_keys (PDict (e_meta e)) \<and> floats_in F (PDict (e_meta e))) es \<Longrightarrow> list_all py_keys (entries_json st i es)"
  "list_all (\<lambda>e. py_keys (PDict (e_meta e)) \<and> floats_in F (PDict (e_meta e))) es \<Longrightarrow> range st \<subseteq> F \<Longrightarrow>
     list_all (floats_in F) (entries_json st i es)"
  by (induction st i es rule: entries_json.induct) (auto simp: range_subsetD)

interpretation memory_codec: json_codec memory_json memory_of_json memory_fits
  by unfold_locales (auto simp: memory_fits_def memory_json_def memory_of_json_def entries_decode entries_value split: option.splits)

section \<open>The world model\<close>

definition place_json :: "string \<times> place \<Rightarrow> string \<times> pyval" where
  "place_json = (\<lambda>(n, p). (n, PDict [(''x'', PFloat (pl_x p)), (''y'', PFloat (pl_y p)), (''kind'', PStr (pl_kind p))]))"

fun obstacles_json :: "(nat \<Rightarrow> real) \<Rightarrow> nat \<Rightarrow> (real \<times> real) list \<Rightarrow> pyval list" where
  "obstacles_json st i [] = []"
| "obstacles_json st i ((x, y) # os) =
     PDict [(''x'', PFloat x), (''y'', PFloat y), (''stamp'', PFloat (st i))] # obstacles_json st (Suc i) os"

fun last_seen_json :: "(nat \<Rightarrow> real) \<Rightarrow> nat \<Rightarrow> (string \<times> seen_object) list \<Rightarrow> pydict" where
  "last_seen_json st i [] = []"
| "last_seen_json st i ((l, q) # qs) =
     (l, PDict [(''x'', PFloat (so_x q)), (''y'', PFloat (so_y q)), (''confidence'', PFloat (so_confidence q)),
                (''stamp'', PFloat (st i))]) # last_seen_json st (Suc i) qs"

definition world_json :: "(nat \<Rightarrow> real) \<Rightarrow> world_doc option \<Rightarrow> pyval" where
  "world_json st d =
     (case d of
        None \<Rightarrow> PNone
      | Some w \<Rightarrow> PDict
          (opt_field ''places'' (\<lambda>ps. PDict (map place_json ps)) (wd_places w)
           @ opt_field ''restricted'' (\<lambda>ns. PList (map PStr ns)) (wd_restricted w)
           @ opt_field ''obstacles'' (\<lambda>os. PList (obstacles_json st 0 os)) (wd_obstacles w)
           @ opt_field ''last_seen'' (\<lambda>qs. PDict (last_seen_json (\<lambda>i. st (length (or_else (wd_obstacles w) []) + i)) 0 qs))
               (wd_last_seen w)))"

fun real_of_json :: "pyval \<Rightarrow> real option" where
  "real_of_json (PFloat x) = Some x"
| "real_of_json (PInt i) = Some (real_of_int i)"
| "real_of_json _ = None"

fun string_of_json :: "pyval \<Rightarrow> string option" where
  "string_of_json (PStr s) = Some s"
| "string_of_json _ = None"

text \<open>A field of a mapping, read by \<open>f\<close>\<close>

definition field :: "pydict \<Rightarrow> string \<Rightarrow> (pyval \<Rightarrow> 'a option) \<Rightarrow> 'a option" where
  "field m k f = (case map_of m k of None \<Rightarrow> None | Some v \<Rightarrow> f v)"

definition place_of_json :: "string \<times> pyval \<Rightarrow> (string \<times> place) option" where
  "place_of_json = (\<lambda>(n, v).
     (case v of
        PDict m \<Rightarrow>
          (case (field m ''x'' real_of_json, field m ''y'' real_of_json, field m ''kind'' string_of_json) of
             (Some x, Some y, Some k) \<Rightarrow> Some (n, \<lparr>pl_x = x, pl_y = y, pl_kind = k\<rparr>)
           | _ \<Rightarrow> None)
      | _ \<Rightarrow> None))"

definition obstacle_of_json :: "pyval \<Rightarrow> (real \<times> real) option" where
  "obstacle_of_json v =
     (case v of
        PDict m \<Rightarrow>
          (case (field m ''x'' real_of_json, field m ''y'' real_of_json) of
             (Some x, Some y) \<Rightarrow> Some (x, y)
           | _ \<Rightarrow> None)
      | _ \<Rightarrow> None)"

definition seen_of_json :: "string \<times> pyval \<Rightarrow> (string \<times> seen_object) option" where
  "seen_of_json = (\<lambda>(l, v).
     (case v of
        PDict m \<Rightarrow>
          (case (field m ''x'' real_of_json, field m ''y'' real_of_json, field m ''confidence'' real_of_json) of
             (Some x, Some y, Some c) \<Rightarrow> Some (l, \<lparr>so_x = x, so_y = y, so_confidence = c\<rparr>)
           | _ \<Rightarrow> None)
      | _ \<Rightarrow> None))"

text \<open>A key of the document that may be absent\<close>

definition opt_key :: "pydict \<Rightarrow> string \<Rightarrow> (pyval \<Rightarrow> 'a option) \<Rightarrow> 'a option option" where
  "opt_key m k f = (case map_of m k of None \<Rightarrow> Some None | Some v \<Rightarrow> map_option Some (f v))"

fun dict_of_json :: "pyval \<Rightarrow> pydict option" where
  "dict_of_json (PDict m) = Some m"
| "dict_of_json _ = None"

fun list_of_json :: "pyval \<Rightarrow> pyval list option" where
  "list_of_json (PList xs) = Some xs"
| "list_of_json _ = None"

text \<open>\<open>if isinstance(loaded, dict)\<close>\<close>

definition world_of_json :: "pyval \<Rightarrow> world_doc option option" where
  "world_of_json v =
     (case v of
        PDict m \<Rightarrow>
          (case (opt_key m ''places'' (\<lambda>v. Option.bind (dict_of_json v) (all_of place_of_json)),
                 opt_key m ''restricted'' (\<lambda>v. Option.bind (list_of_json v) (all_of string_of_json)),
                 opt_key m ''obstacles'' (\<lambda>v. Option.bind (list_of_json v) (all_of obstacle_of_json)),
                 opt_key m ''last_seen'' (\<lambda>v. Option.bind (dict_of_json v) (all_of seen_of_json))) of
             (Some ps, Some ns, Some os, Some qs) \<Rightarrow>
               Some (Some \<lparr>wd_places = ps, wd_restricted = ns, wd_obstacles = os, wd_last_seen = qs\<rparr>)
           | _ \<Rightarrow> None)
      | _ \<Rightarrow> Some None)"

text \<open>The documents that \<open>_save\<close> writes: \<open>to_doc\<close> of a state with distinct names\<close>

definition place_floats :: "real set \<Rightarrow> string \<times> place \<Rightarrow> bool" where
  "place_floats F = (\<lambda>(_, p). pl_x p \<in> F \<and> pl_y p \<in> F)"

definition seen_floats :: "real set \<Rightarrow> string \<times> seen_object \<Rightarrow> bool" where
  "seen_floats F = (\<lambda>(_, q). so_x q \<in> F \<and> so_y q \<in> F \<and> so_confidence q \<in> F)"

definition world_fits :: "real set \<Rightarrow> world_doc option \<Rightarrow> bool" where
  "world_fits F d =
     (case d of
        None \<Rightarrow> False
      | Some w \<Rightarrow>
          distinct (map fst (or_else (wd_places w) [])) \<and> list_all (place_floats F) (or_else (wd_places w) [])
          \<and> list_all (\<lambda>(x, y). x \<in> F \<and> y \<in> F) (or_else (wd_obstacles w) [])
          \<and> distinct (map fst (or_else (wd_last_seen w) [])) \<and> list_all (seen_floats F) (or_else (wd_last_seen w) []))"

lemma all_of_map: "(\<And>x. g (f x) = Some x) \<Longrightarrow> all_of g (map f xs) = Some xs"
  by (induction xs) simp_all

lemma place_decode: "place_of_json (place_json e) = Some e"
  by (cases e) (simp add: place_of_json_def place_json_def field_def)

lemma obstacle_decode: "obstacle_of_json (PDict [(''x'', PFloat x), (''y'', PFloat y), z]) = Some (x, y)"
  by (simp add: obstacle_of_json_def field_def)

lemma obstacles_decode: "all_of obstacle_of_json (obstacles_json st i os) = Some os"
  by (induction st i os rule: obstacles_json.induct) (simp_all add: obstacle_decode)

lemma seen_decode:
  "seen_of_json (l, PDict [(''x'', PFloat (so_x q)), (''y'', PFloat (so_y q)), (''confidence'', PFloat (so_confidence q)), z]) = Some (l, q)"
  by (simp add: seen_of_json_def field_def)

lemma last_seen_decode: "all_of seen_of_json (last_seen_json st i qs) = Some qs"
  by (induction st i qs rule: last_seen_json.induct) (simp_all add: seen_decode)

lemma world_decode: "world_of_json (world_json st (Some w)) = Some (Some w)"
proof -
  have "all_of place_of_json (map place_json ps) = Some ps" "all_of string_of_json (map PStr ns) = Some ns" for ps ns
    using place_decode by (simp_all add: all_of_map)
  then show ?thesis
    by (cases "wd_places w"; cases "wd_restricted w"; cases "wd_obstacles w"; cases "wd_last_seen w")
      (simp_all add: world_json_def world_of_json_def opt_field_def opt_key_def obstacles_decode last_seen_decode)
qed

lemma map_fst_place: "map fst (map place_json ps) = map fst ps"
  by (simp add: place_json_def case_prod_beta)

lemma map_fst_seen: "map fst (last_seen_json st i qs) = map fst qs"
  by (induction st i qs rule: last_seen_json.induct) simp_all

lemma place_value:
  "py_keys (snd (place_json e))" "place_floats F e \<Longrightarrow> floats_in F (snd (place_json e))"
  by (cases e; simp add: place_json_def place_floats_def)+

lemma obstacles_value:
  "list_all py_keys (obstacles_json st i os)"
  "list_all (\<lambda>(x, y). x \<in> F \<and> y \<in> F) os \<Longrightarrow> range st \<subseteq> F \<Longrightarrow> list_all (floats_in F) (obstacles_json st i os)"
  by (induction st i os rule: obstacles_json.induct) (auto simp: range_subsetD)

lemma last_seen_value:
  "list_all (\<lambda>(_, v). py_keys v) (last_seen_json st i qs)"
  "list_all (seen_floats F) qs \<Longrightarrow> range st \<subseteq> F \<Longrightarrow> list_all (\<lambda>(_, v). floats_in F v) (last_seen_json st i qs)"
  by (induction st i qs rule: last_seen_json.induct) (auto simp: range_subsetD seen_floats_def)

lemma world_value:
  assumes "world_fits F (Some w)"
  shows "py_keys (world_json st (Some w))" "range st \<subseteq> F \<Longrightarrow> floats_in F (world_json st (Some w))"
proof -
  have st: "range (\<lambda>i. st (n + i)) \<subseteq> F" if "range st \<subseteq> F" for n using that by auto
  have ns: "list_all py_keys (map PStr ns)" "list_all (floats_in F) (map PStr ns)" for ns by (simp_all add: list_all_iff)
  have ps: "list_all (\<lambda>(_, v). py_keys v) (map place_json ps)"
    "list_all (place_floats F) ps \<Longrightarrow> list_all (\<lambda>(_, v). floats_in F v) (map place_json ps)" for ps
    using place_value by (auto simp: list_all_iff case_prod_beta)
  note a = assms [unfolded world_fits_def option.case]
  have p: "distinct (map fst (map place_json x))" "list_all (\<lambda>(_, v). floats_in F v) (map place_json x)" if "wd_places w = Some x" for x
    using a ps(2) [of x] that unfolding map_fst_place by (simp_all add: or_else_def)
  have os: "range st \<subseteq> F \<Longrightarrow> list_all (floats_in F) (obstacles_json st 0 x)" if "wd_obstacles w = Some x" for x
    using a obstacles_value(2) that by (simp add: or_else_def)
  have q: "distinct (map fst (last_seen_json s 0 x))" "range s \<subseteq> F \<Longrightarrow> list_all (\<lambda>(_, v). floats_in F v) (last_seen_json s 0 x)"
    if "wd_last_seen w = Some x" for x s
    using a last_seen_value(2) map_fst_seen that by (simp_all add: or_else_def)
  show "py_keys (world_json st (Some w))"
    using p(1) q(1) ps(1) ns(1) obstacles_value(1) last_seen_value(1)
    by (cases "wd_places w"; cases "wd_restricted w"; cases "wd_obstacles w"; cases "wd_last_seen w")
      (simp_all add: world_json_def opt_field_def del: map_map list.pred_map)
  show "floats_in F (world_json st (Some w))" if "range st \<subseteq> F"
    using p(2) q(2) [OF _ st [OF that]] q(2) [OF _ that] os [OF _ that] ns(2)
    by (cases "wd_places w"; cases "wd_restricted w"; cases "wd_obstacles w"; cases "wd_last_seen w")
      (simp_all add: world_json_def opt_field_def or_else_def del: map_map list.pred_map)
qed

interpretation world_codec: json_codec world_json world_of_json world_fits
proof unfold_locales
  fix F d and st :: "nat \<Rightarrow> real"
  assume f: "world_fits F d"
  then obtain w where d: "d = Some w" by (cases d) (auto simp: world_fits_def)
  show "world_of_json (world_json st d) = Some d" "py_keys (world_json st d)"
    using world_decode world_value f unfolding d by blast+
  show "range st \<subseteq> F \<Longrightarrow> floats_in F (world_json st d)" using world_value f unfolding d by blast
qed

section \<open>The update slots\<close>

definition update_json :: "update_info \<Rightarrow> pyval" where
  "update_json u = PDict
     [(''running_version'', running_version u), (''active_slot'', PStr (slot_name (active_slot u))),
      (''slots'', PDict [(''A'', slot_to_val (slots u SlotA)), (''B'', slot_to_val (slots u SlotB))]),
      (''next_boot'', PStr (slot_name (next_boot u))), (''last_result'', PStr (last_result u))]"

definition slot_of_json :: "pyval \<Rightarrow> slot option" where
  "slot_of_json v = (if v = PStr ''A'' then Some SlotA else if v = PStr ''B'' then Some SlotB else None)"

definition slot_info_of_json :: "pyval \<Rightarrow> slot_info option" where
  "slot_info_of_json v =
     (case v of
        PDict m \<Rightarrow>
          (case (map_of m ''version'', map_of m ''healthy'') of
             (Some x, Some (PBool h)) \<Rightarrow> Some \<lparr>sl_version = x, sl_healthy = h\<rparr>
           | _ \<Rightarrow> None)
      | _ \<Rightarrow> None)"

definition slots_of_json :: "pyval \<Rightarrow> (slot \<Rightarrow> slot_info) option" where
  "slots_of_json v =
     (case v of
        PDict m \<Rightarrow>
          (case (field m ''A'' slot_info_of_json, field m ''B'' slot_info_of_json) of
             (Some a, Some b) \<Rightarrow> Some (\<lambda>s. case s of SlotA \<Rightarrow> a | SlotB \<Rightarrow> b)
           | _ \<Rightarrow> None)
      | _ \<Rightarrow> None)"

definition update_of_json :: "pyval \<Rightarrow> update_info option" where
  "update_of_json v =
     (case v of
        PDict m \<Rightarrow>
          (case (map_of m ''running_version'', field m ''active_slot'' slot_of_json, field m ''slots'' slots_of_json,
                 field m ''next_boot'' slot_of_json, field m ''last_result'' string_of_json) of
             (Some r, Some a, Some s, Some n, Some l) \<Rightarrow>
               Some \<lparr>running_version = r, active_slot = a, slots = s, next_boot = n, last_result = l\<rparr>
           | _ \<Rightarrow> None)
      | _ \<Rightarrow> None)"

definition update_fits :: "real set \<Rightarrow> update_info \<Rightarrow> bool" where
  "update_fits F u =
     (py_keys (running_version u) \<and> floats_in F (running_version u)
      \<and> py_keys (sl_version (slots u SlotA)) \<and> floats_in F (sl_version (slots u SlotA))
      \<and> py_keys (sl_version (slots u SlotB)) \<and> floats_in F (sl_version (slots u SlotB)))"

lemma slots_decode:
  "slot_info_of_json (slot_to_val i) = Some i" "slot_of_json (PStr (slot_name s)) = Some s"
  "slots_of_json (PDict [(''A'', slot_to_val (f SlotA)), (''B'', slot_to_val (f SlotB))]) = Some f"
proof -
  show i: "slot_info_of_json (slot_to_val i) = Some i" for i
    by (simp add: slot_info_of_json_def slot_to_val_def)
  show "slot_of_json (PStr (slot_name s)) = Some s" by (cases s) (simp_all add: slot_of_json_def)
  have "(\<lambda>s. case s of SlotA \<Rightarrow> f SlotA | SlotB \<Rightarrow> f SlotB) = f" by (rule ext) (simp split: slot.split)
  then show "slots_of_json (PDict [(''A'', slot_to_val (f SlotA)), (''B'', slot_to_val (f SlotB))]) = Some f"
    by (simp add: slots_of_json_def field_def i)
qed

interpretation update_codec: json_codec "\<lambda>_. update_json" update_of_json update_fits
proof unfold_locales
  fix F u and st :: "nat \<Rightarrow> real"
  assume f: "update_fits F u"
  show "update_of_json (update_json u) = Some u"
    by (simp add: update_of_json_def update_json_def field_def slots_decode)
  show "py_keys (update_json u)" "floats_in F (update_json u)"
    using f by (simp_all add: update_fits_def update_json_def slot_to_val_def)
qed

section \<open>What the services write\<close>

text \<open>The texts of \<open>_save_latch\<close> and of the three methods \<open>_save\<close>\<close>

definition latch_text :: "(real \<Rightarrow> string) \<Rightarrow> (nat \<Rightarrow> real) \<Rightarrow> bool \<Rightarrow> string \<Rightarrow> string" where
  "latch_text fr st estop reason = json_dumps fr (latch_json st (Some \<lparr>latch_estop = estop, latch_reason = Some reason\<rparr>))"

definition world_text :: "(real \<Rightarrow> string) \<Rightarrow> (nat \<Rightarrow> real) \<Rightarrow> world_store \<Rightarrow> string" where
  "world_text fr st s = json_indent fr 0 (world_json st (Some (to_doc (w_data s))))"

definition memory_text :: "(real \<Rightarrow> string) \<Rightarrow> (nat \<Rightarrow> real) \<Rightarrow> memory_store \<Rightarrow> string" where
  "memory_text fr st s = json_indent fr 0 (memory_json st (Some (entries s)))"

definition update_text :: "(real \<Rightarrow> string) \<Rightarrow> update_store \<Rightarrow> string" where
  "update_text fr s = json_indent fr 0 (update_json (uinfo s))"

section \<open>Properties\<close>

text \<open>C24. The state files are exactly what the services saved: for the latch, the world model, the memory and the
  update slots, if a text file is the state file of the model, then after the service wrote its text (with any
  time stamps) it is the state file of the model after the save, so the next process reads back the same document;
  strings with quotes, line breaks or other control characters included.\<close>

theorem state_files_refine:
  assumes "float_reads fr fl F" "range st \<subseteq> F"
    "file_of_text fl latch_of_json lt = Some (latch_file rt)"
    "file_of_text fl world_of_json wt = Some (w_file w)" "world_fits F (Some (to_doc (w_data w)))"
    "file_of_text fl memory_of_json mt = Some (m_file m)" "memory_fits F (Some (entries m))"
    "file_of_text fl update_of_json ut = Some (u_file u)" "update_fits F (uinfo u)"
  shows "file_of_text fl latch_of_json (write_text (latch_text fr st estop reason) lt) = Some (latch_file (save_latch estop reason rt))
    \<and> file_of_text fl world_of_json (write_text (world_text fr st w) wt) = Some (w_file (world_save w))
    \<and> file_of_text fl memory_of_json (write_text (memory_text fr st m) mt) = Some (m_file (memory_save m))
    \<and> file_of_text fl update_of_json (write_text (update_text fr u) ut) = Some (u_file (update_save u))"
proof -
  have "latch_fits F (Some \<lparr>latch_estop = estop, latch_reason = Some reason\<rparr>)" by (simp add: latch_fits_def)
  from latch_codec.write_refines [OF assms(1) this assms(2) _ assms(3)]
    world_codec.write_refines [OF assms(1,5,2) _ assms(4)] memory_codec.write_refines [OF assms(1,7,2) _ assms(6)]
    update_codec.write_refines [OF assms(1,9,2) _ assms(8)]
  show ?thesis
    by (simp add: latch_text_def world_text_def memory_text_def update_text_def save_latch_def world_save_def memory_save_def update_save_def)
qed

text \<open>Whole numbers as floats, for concrete inputs\<close>

definition whole_repr :: "real \<Rightarrow> string" where
  "whole_repr x = show_int \<lfloor>x\<rfloor> @ ''.0''"

definition whole_read :: "string \<Rightarrow> real option" where
  "whole_read t = map_option real_of_int (py_int (takeWhile (\<lambda>c. c \<noteq> CHR ''.'') t))"

lemma match_int_point: "match_int (show_nat n @ CHR ''.'' # r) = show_nat n"
proof (cases "n = 0")
  case True
  then show ?thesis by (simp add: show_nat.simps digit_def match_int_def)
next
  case False
  have "is_digit c" if "c \<in> set (show_nat n)" for c
    using that show_nat_digits [of n] digit_facts(1) by (auto simp: is_digit_def)
  moreover have "\<not> is_digit CHR ''.''" by (simp add: is_digit_def digit_val_def)
  ultimately have "takeWhile is_digit (show_nat n @ CHR ''.'' # r) = show_nat n" by (simp add: takeWhile_append2)
  moreover obtain c cs where "show_nat n = c # cs" using show_nat_nonempty by (cases "show_nat n") auto
  ultimately show ?thesis using show_nat_start [of n] False by (simp add: match_int_def)
qed

lemma match_point: "match_number (show_int i @ ''.0'') = Some (show_int i, ''.0'', [], [])"
proof -
  have s: "match_sign {CHR ''-''} (show_nat n @ r) = []" for n r
    using show_nat_nonempty show_nat_digits [of n] digit_facts(5) by (cases "show_nat n") (auto simp: match_sign_def)
  have g: "match_sign {CHR ''-''} (CHR ''-'' # t) = ''-''" for t by (simp add: match_sign_def)
  have "match_frac ''.0'' = ''.0''" by (simp add: match_frac_def is_digit_def digit_val_def)
  moreover have "match_int (show_nat n @ ''.0'') = show_nat n" for n by (rule match_int_point)
  moreover have "match_exp [] = []" by (simp add: match_exp_def)
  ultimately show ?thesis
    unfolding match_number_def Let_def show_int_def
    by (cases "i < 0") (simp_all add: s g show_nat_nonempty)
qed

lemma whole_reads: "float_reads whole_repr whole_read (range real_of_int)"
proof -
  have "scan_number whole_read (show_int i @ ''.0'') = Some (PFloat (real_of_int i), [])" for i
  proof -
    have "takeWhile (\<lambda>c. c \<noteq> CHR ''.'') (show_int i @ ''.0'') = show_int i"
      using show_int_chars [of "CHR ''.''" i] by (subst takeWhile_append2) auto
    then show ?thesis by (simp add: scan_number_def match_point whole_read_def py_int_show)
  qed
  then show ?thesis by (auto simp: float_reads_def whole_repr_def)
qed

lemma fresh_text: "file_of_text fl dec \<lparr>t_characters = NoFile, t_writable = True\<rparr> = Some fresh_file"
  by (simp add: file_of_text_def content_of_def fresh_file_def)

theorem state_files_refine_witness:
  "file_of_text whole_read world_of_json (write_text (world_text whole_repr (\<lambda>_. 1) (init_world fresh_file)) \<lparr>t_characters = NoFile, t_writable = True\<rparr>)
     = Some (w_file (world_save (init_world fresh_file)))
   \<and> file_of_text whole_read latch_of_json (write_text (latch_text whole_repr (\<lambda>_. 1) True [CHR 0x22, CHR 0x0A]) \<lparr>t_characters = NoFile, t_writable = True\<rparr>)
     = Some (latch_file (save_latch True [CHR 0x22, CHR 0x0A] example_rt))"
proof -
  let ?t = "\<lparr>t_characters = NoFile, t_writable = True\<rparr>"
  have r: "range (\<lambda>_ :: nat. 1) \<subseteq> range real_of_int" by (auto intro: range_eqI [of _ _ 1])
  have z: "{0, 1, 2, 3, 4, -2} \<subseteq> range real_of_int"
    using range_eqI [of _ real_of_int] of_int_numeral by (metis (no_types) empty_subsetI insert_subset of_int_0 of_int_1 of_int_minus rangeI)
  have w: "world_fits (range real_of_int) (Some (to_doc (w_data (init_world fresh_file))))"
    using z by (simp add: world_fits_def to_doc_def init_world_def DEFAULT_WORLD_def or_else_def place_floats_def)
  have m: "memory_fits (range real_of_int) (Some (entries (init_memory fresh_file)))" by (simp add: memory_fits_def init_memory_def)
  have u: "update_fits (range real_of_int) (uinfo (init_update fresh_file))"
    by (simp add: update_fits_def init_update_def default_state_def version_string_def)
  have l: "file_of_text whole_read latch_of_json ?t = Some (latch_file example_rt)"
    by (simp add: fresh_text example_rt_def example_env_def new_runtime_def wire_def SERVICE_NAMES_def)
  have i: "w_file (init_world f) = f" "m_file (init_memory f') = f'" "u_file (init_update f'') = f''" for f f' f''
    by (simp_all add: init_world_def init_memory_def init_update_def)
  from state_files_refine [OF whole_reads r l _ w _ m _ u, of ?t ?t ?t True "[CHR 0x22, CHR 0x0A]"]
  show ?thesis by (simp only: fresh_text i simp_thms)
qed

end
