(* ===== verification/AuditFile.thy ===== *)
theory AuditFile
  imports JsonRead StateFiles
begin

text \<open>
  The audit file as characters: \<open>AuditLog.record\<close> appends the text of a record and a line break, and
  \<open>AuditLog.load_history\<close> of another process reads the lines back with \<open>json.loads\<close> (\<open>core/logging.py\<close>). \<open>Events\<close> describes
  the file by its lines. Here the characters are shown to read back as the records, with the stamps, whatever their
  strings hold; and a line that was cut off is shown to hide every record after it.
\<close>

section \<open>Reading\<close>

text \<open>\<open>for line in fh\<close> in text mode: a line ends at a line feed or a carriage return. The two after each other end one line;
  here an empty line is between them, which \<open>load_history\<close> passes over.\<close>

fun text_lines :: "string \<Rightarrow> string \<Rightarrow> string list" where
  "text_lines buf [] = (if buf = [] then [] else [buf])"
| "text_lines buf (c # cs) = (if c = CHR 0x0A \<or> c = CHR 0x0D then buf # text_lines [] cs else text_lines (buf @ [c]) cs)"

definition audit_line_of :: "(string \<Rightarrow> real option) \<Rightarrow> string \<Rightarrow> audit_line" where
  "audit_line_of fl line =
     (if strip line = [] then BlankLine
      else case json_loads fl (strip line) of None \<Rightarrow> BadLine | Some v \<Rightarrow> JsonLine v)"

definition load_history_text :: "(string \<Rightarrow> real option) \<Rightarrow> int \<Rightarrow> string \<Rightarrow> pyval list" where
  "load_history_text fl limit s =
     load_history limit \<lparr>au_has_path = True, au_writable = True, au_file = map (audit_line_of fl) (text_lines [] s), records = []\<rparr>"

text \<open>The record as \<open>to_dict\<close> gives it, with its stamp\<close>

definition stamped_dict :: "real \<times> audit_record \<Rightarrow> pydict" where
  "stamped_dict sr = take 1 (audit_to_dict (snd sr)) @ [(''stamp'', PFloat (fst sr))] @ drop 1 (audit_to_dict (snd sr))"

text \<open>The arguments and details are values of Python with floats of \<open>F\<close>.\<close>

definition dict_fits :: "real set \<Rightarrow> pydict option \<Rightarrow> bool" where
  "dict_fits F d = (case d of None \<Rightarrow> True | Some m \<Rightarrow> py_keys (PDict m) \<and> floats_in F (PDict m))"

definition record_fits :: "real set \<Rightarrow> real \<times> audit_record \<Rightarrow> bool" where
  "record_fits F sr = (fst sr \<in> F \<and> dict_fits F (au_arguments (snd sr)) \<and> dict_fits F (au_detail (snd sr)))"

section \<open>Facts\<close>

lemma text_lines_line:
  "list_all (\<lambda>c. c \<noteq> CHR 0x0A \<and> c \<noteq> CHR 0x0D) t \<Longrightarrow> text_lines buf (t @ CHR 0x0A # s) = (buf @ t) # text_lines [] s"
  by (induction t arbitrary: buf) simp_all

lemma opt_field_keys: "fst ` set (opt_field k f v) \<subseteq> {k}" "distinct (map fst (opt_field k f v))"
  by (cases v; simp add: opt_field_def)+

lemma stamped_keys: "distinct (map fst (stamped_dict sr))"
proof -
  have d: "distinct (map fst (opt_field k f v @ m)) \<longleftrightarrow> distinct (map fst m) \<and> (v = None \<or> k \<notin> fst ` set m)" for k f v m
    by (cases v) (auto simp: opt_field_def)
  have i: "k \<in> fst ` set (opt_field l f v @ m) \<longleftrightarrow> k = l \<and> v \<noteq> None \<or> k \<in> fst ` set m" for k l f v m
    by (cases v) (auto simp: opt_field_def)
  have n: "k \<in> fst ` set (opt_field l f v) \<longleftrightarrow> k = l \<and> v \<noteq> None" for k l f v
    by (cases v) (auto simp: opt_field_def)
  show ?thesis
    by (simp add: stamped_dict_def audit_to_dict_def d i n opt_field_keys(2) del: map_append set_append)
qed

lemma opt_field_value:
  "(\<And>x. v = Some x \<Longrightarrow> P (f x)) \<Longrightarrow> list_all (\<lambda>(_, w). P w) (opt_field k f v)"
  by (cases v) (simp_all add: opt_field_def)

lemma stamped_value:
  assumes "record_fits F sr"
  shows "py_keys (PDict (stamped_dict sr))" "floats_in F (PDict (stamped_dict sr))"
proof -
  have v: "list_all (\<lambda>(_, w). P w) (stamped_dict sr)"
    if "P (PFloat (fst sr))" "\<And>s. P (PStr s)" "\<And>m. au_arguments (snd sr) = Some m \<or> au_detail (snd sr) = Some m \<Longrightarrow> P (PDict m)" for P
    using that by (simp add: stamped_dict_def audit_to_dict_def opt_field_value)
  show "py_keys (PDict (stamped_dict sr))"
    using v [of py_keys] stamped_keys assms by (fastforce simp: record_fits_def dict_fits_def split: option.splits)
  show "floats_in F (PDict (stamped_dict sr))"
    using v [of "floats_in F"] assms by (fastforce simp: record_fits_def dict_fits_def split: option.splits)
qed

lemma audit_line_stamped: "audit_line_text fr sr = json_dumps fr (PDict (stamped_dict sr))"
  by (simp add: audit_line_text_def stamped_dict_def)

text \<open>A text in braces has no blanks around it.\<close>

lemma strip_braces: "strip (CHR ''{'' # t @ ''}'') = CHR ''{'' # t @ ''}''"
  by (simp add: strip_def lstrip_def rstrip_def is_space_def)

lemma audit_line_reads:
  assumes "float_reads fr fl F" "record_fits F sr"
  shows "audit_line_of fl (audit_line_text fr sr) = JsonLine (PDict (stamped_dict sr))"
proof -
  obtain t where t: "audit_line_text fr sr = CHR ''{'' # t @ ''}''" by (simp add: audit_line_stamped)
  have "json_loads fl (audit_line_text fr sr) = Some (PDict (stamped_dict sr))"
    unfolding audit_line_stamped by (rule loads_dumps(1) [OF assms(1) stamped_value(2,1) [OF assms(2)]])
  then show ?thesis unfolding t by (simp only: audit_line_of_def strip_braces list.simps if_False option.case)
qed

lemma audit_line_plain:
  assumes "\<forall>x. list_all printable (fr x)"
  shows "list_all (\<lambda>c. c \<noteq> CHR 0x0A \<and> c \<noteq> CHR 0x0D) (audit_line_text fr sr)"
  using json_dumps_printable [of fr] assms
  by (fastforce simp: audit_line_stamped list_all_iff printable_def simp del: json_dumps.simps)

lemma audit_text_lines:
  assumes "\<forall>x. list_all printable (fr x)"
  shows "text_lines [] (audit_text fr srs @ s) = map (audit_line_text fr) srs @ text_lines [] s"
proof (induction srs)
  case (Cons sr srs)
  then show ?case
    using text_lines_line [OF audit_line_plain [OF assms], of "[]" sr "audit_text fr srs @ s"] by (simp add: audit_text_def)
qed (simp add: audit_text_def)

lemma read_json_lines: "read_lines (map JsonLine vs @ ls) = (vs @ fst (read_lines ls), snd (read_lines ls))"
  by (induction vs) (simp_all add: case_prod_beta)

lemma audit_text_read:
  assumes "float_reads fr fl F" "\<forall>x. list_all printable (fr x)" "list_all (record_fits F) srs"
  shows "read_lines (map (audit_line_of fl) (text_lines [] (audit_text fr srs @ s)))
    = (map (\<lambda>sr. PDict (stamped_dict sr)) srs @ fst (read_lines (map (audit_line_of fl) (text_lines [] s))),
       snd (read_lines (map (audit_line_of fl) (text_lines [] s))))"
proof -
  have "map (audit_line_of fl) (map (audit_line_text fr) srs) = map JsonLine (map (\<lambda>sr. PDict (stamped_dict sr)) srs)"
    using audit_line_reads [OF assms(1)] assms(3) by (simp add: list_all_iff)
  then show ?thesis unfolding audit_text_lines [OF assms(2)] map_append by (simp only: read_json_lines)
qed

lemma whole_printable: "\<forall>x. list_all printable (whole_repr x)"
  using show_int_number number_printable by (auto simp: whole_repr_def list_all_iff printable_def)

text \<open>A request with a quote and a line break in it\<close>

definition forged_request :: audit_record where
  "forged_request = (blank_record ''command'')\<lparr>au_request_text := Some [CHR 0x22, CHR 0x0A, CHR ''{'']\<rparr>"

lemma forged_fits: "list_all (record_fits (range real_of_int)) [(2, forged_request)]"
  using range_eqI [of 2 real_of_int 2] by (simp add: record_fits_def dict_fits_def forged_request_def blank_record_def)

section \<open>Properties\<close>

text \<open>C33. The audit history reads back as it was recorded: whatever the records hold, line breaks and quotes in a request
  included, the file that they were appended to is read by a later process as exactly the last of them, in their
  order and with their stamps. So nobody can forge a record through a request.\<close>

theorem audit_history_reads_back:
  assumes "float_reads fr fl F" "\<forall>x. list_all printable (fr x)" "list_all (record_fits F) srs"
  shows "load_history_text fl limit (audit_text fr srs) = last_items limit (map (\<lambda>sr. PDict (stamped_dict sr)) srs)"
  using audit_text_read [OF assms, of "[]"] by (simp add: load_history_text_def load_history_def)

theorem audit_history_reads_back_witness:
  "load_history_text whole_read 500 (audit_text whole_repr [(2, forged_request)])
     = [PDict [(''kind'', PStr ''command''), (''stamp'', PFloat 2), (''request_text'', PStr [CHR 0x22, CHR 0x0A, CHR ''{''])]]"
  using audit_history_reads_back [OF whole_reads whole_printable forged_fits, of 500]
  by (simp add: last_items_def stamped_dict_def audit_to_dict_def forged_request_def blank_record_def opt_field_def)

text \<open>A line that was cut off hides every record after it, for good: the history then is the records before it, and not
  limited either, so the newest events are not in it.\<close>

theorem torn_line_hides_history:
  assumes "float_reads fr fl F" "\<forall>x. list_all printable (fr x)" "list_all (record_fits F) srs"
    "list_all (\<lambda>c. c \<noteq> CHR 0x0A \<and> c \<noteq> CHR 0x0D) torn" "strip torn \<noteq> []" "json_loads fl (strip torn) = None"
  shows "load_history_text fl limit (audit_text fr srs @ torn @ CHR 0x0A # later) = map (\<lambda>sr. PDict (stamped_dict sr)) srs"
  using audit_text_read [OF assms(1-3), of "torn @ CHR 0x0A # later"] assms(5,6) text_lines_line [OF assms(4), of "[]" later]
  by (simp add: load_history_text_def load_history_def audit_line_of_def)

theorem torn_line_hides_history_witness:
  "load_history_text whole_read 1 (audit_text whole_repr [(2, forged_request)] @ ''{'' @ CHR 0x0A # audit_text whole_repr [(3, forged_request)])
     = [PDict (stamped_dict (2, forged_request))]"
proof -
  have s: "strip ''{'' = ''{''" by (simp add: strip_def lstrip_def rstrip_def is_space_def)
  have l: "json_loads whole_read ''{'' = None"
    by (simp add: json_loads_def numeral_2_eq_2 skip_ws_def json_space_def startswith_def)
  show ?thesis
    using torn_line_hides_history [OF whole_reads whole_printable forged_fits, of "''{''" 1] s l by simp
qed

end
