(* ===== verification/BundleText.thy ===== *)
theory BundleText
  imports StateFiles
begin

text \<open>
  Update bundles as characters: \<open>Update.verify_bundle\<close> and \<open>Update.install\<close> (\<open>services/update.py\<close>) on the file of a bundle,
  read by \<open>json.loads\<close>, with the checksum over the text that \<open>json.dumps(payload, sort_keys=True)\<close> gives. The hash
  function (\<open>hashlib.sha256\<close>, in hexadecimal digits) is the parameter \<open>sha\<close>; nothing is assumed of it.
\<close>

section \<open>The checksum\<close>

text \<open>\<open>sort_keys=True\<close>, at every depth\<close>

fun sort_keys :: "pyval \<Rightarrow> pyval" where
  "sort_keys (PList xs) = PList (map sort_keys xs)"
| "sort_keys (PDict m) = PDict (sort_key fst (map (\<lambda>(k, v). (k, sort_keys v)) m))"
| "sort_keys v = v"

definition canonical_text :: "(real \<Rightarrow> string) \<Rightarrow> pyval \<Rightarrow> string" where
  "canonical_text fr p = json_dumps fr (sort_keys p)"

definition checksum_of :: "(string \<Rightarrow> string) \<Rightarrow> (real \<Rightarrow> string) \<Rightarrow> pyval \<Rightarrow> string" where
  "checksum_of sha fr p = sha (canonical_text fr p)"

text \<open>Opening, reading and decoding the bundle\<close>

definition bundle_of_text :: "(string \<Rightarrow> real option) \<Rightarrow> characters \<Rightarrow> bundle_file" where
  "bundle_of_text fl c =
     (case c of
        NoFile \<Rightarrow> BundleUnreadable ''No such file or directory''
      | ReadFails \<Rightarrow> BundleUnreadable ''Permission denied''
      | NotUtf8 \<Rightarrow> BundleNotJson ''invalid utf-8''
      | Chars s \<Rightarrow>
          (case json_loads fl s of
             None \<Rightarrow> BundleNotJson ''not a JSON document''
           | Some (PDict doc) \<Rightarrow> Bundle doc
           | Some _ \<Rightarrow> BundleOther))"

section \<open>What the reader returns\<close>

lemma dict_of_keys: "distinct (map fst (dict_of m))"
proof -
  have "distinct (map fst a) \<Longrightarrow> distinct (map fst (fold (\<lambda>(k, v). AList.update k v) m a))" for a
    by (induction m arbitrary: a) (auto simp: distinct_update)
  then show ?thesis by (simp add: dict_of_def case_prod_unfold)
qed

lemma update_set: "set (AList.update k v a) \<subseteq> insert (k, v) (set a)"
  by (induction a) auto

lemma dict_of_set: "set (dict_of m) \<subseteq> set m"
proof -
  have "set (fold (\<lambda>(k, v). AList.update k v) m a) \<subseteq> set m \<union> set a" for a
  proof (induction m arbitrary: a)
    case (Cons e m)
    then show ?case using update_set [of "fst e" "snd e" a] Cons [of "AList.update (fst e) (snd e) a"]
      by (auto simp: case_prod_unfold)
  qed simp
  from this [of "[]"] show ?thesis by (simp add: dict_of_def case_prod_unfold)
qed

text \<open>A value read from a text: distinct keys, and its floats are values of \<open>fl\<close>.\<close>

definition floats_of :: "(string \<Rightarrow> real option) \<Rightarrow> real set" where
  "floats_of fl = {x. \<exists>t. fl t = Some x}"

definition read_value :: "(string \<Rightarrow> real option) \<Rightarrow> pyval \<Rightarrow> bool" where
  "read_value fl v = (py_keys v \<and> floats_in (floats_of fl) v)"

lemma read_value_simps:
  "read_value fl (PList xs) \<longleftrightarrow> (\<forall>x \<in> set xs. read_value fl x)"
  "read_value fl (PDict m) \<longleftrightarrow> distinct (map fst m) \<and> (\<forall>(k, v) \<in> set m. read_value fl v)"
  "read_value fl PNone" "read_value fl (PBool b)" "read_value fl (PInt i)" "read_value fl (PStr s)"
  "read_value fl (PFloat x) \<longleftrightarrow> x \<in> floats_of fl"
  by (auto simp: read_value_def list_all_iff)

lemma scan_number_value: "scan_number fl s = Some (v, r) \<Longrightarrow> read_value fl v"
  unfolding scan_number_def by (auto simp: read_value_simps floats_of_def split: option.splits if_splits) blast+

lemma scan_value:
  "scan_once fl n s = Some (v, r) \<Longrightarrow> read_value fl v"
  "JSONArray fl n s = Some (xs, r) \<Longrightarrow> \<forall>x \<in> set xs. read_value fl x"
  "JSONObject fl n s = Some (m, r) \<Longrightarrow> \<forall>(k, v) \<in> set m. read_value fl v"
proof (induction fl n s and fl n s and fl n s arbitrary: v r and xs r and m r rule: scan_once_JSONArray_JSONObject.induct)
  case (2 fl n s)
  obtain c cs where s: "s = c # cs" using 2(3) by (cases s) auto
  have d: "read_value fl (PDict (dict_of m))" if "\<forall>(k, v) \<in> set m. read_value fl v" for m
    using that dict_of_set [of m] dict_of_keys [of m] by (auto simp: read_value_simps(2))
  consider (string) "c = CHR 0x22" | (object) "c = CHR ''{''" | (array) "c = CHR ''[''"
    | (other) "c \<noteq> CHR 0x22" "c \<noteq> CHR ''{''" "c \<noteq> CHR ''[''" by blast
  then show ?case
  proof cases
    case string
    then show ?thesis using 2(3) by (auto simp: s read_value_simps)
  next
    case object
    then show ?thesis
      using 2(3) 2(1) [OF s _ object] d by (auto simp: s read_value_simps simp del: JSONObject.simps split: if_splits)
  next
    case array
    then show ?thesis
      using 2(3) 2(2) [OF s _ _ array] by (auto simp: s read_value_simps simp del: JSONArray.simps split: if_splits)
  next
    case other
    then show ?thesis using 2(3) scan_number_value by (auto simp: s read_value_simps split: if_splits)
  qed
next
  case (4 fl n s)
  then show ?case by (fastforce split: option.splits list.splits if_splits)
next
  case (6 fl n s)
  then show ?case by (fastforce split: option.splits list.splits if_splits)
qed auto

lemma loads_value: "json_loads fl s = Some v \<Longrightarrow> read_value fl v"
  using scan_value(1) by (auto simp: json_loads_def simp del: scan_once.simps split: option.splits if_splits)

section \<open>Canonical texts\<close>

lemma sort_keys_value: "read_value fl v \<Longrightarrow> read_value fl (sort_keys v)"
proof (induction v)
  case (PDict m)
  let ?m = "map (\<lambda>(k, v). (k, sort_keys v)) m"
  have "map fst ?m = map fst m" by (simp add: case_prod_unfold)
  then have "distinct (map fst ?m)" using PDict.prems by (simp only: read_value_simps)
  then have "distinct (map fst (sort_key fst ?m))" unfolding distinct_map distinct_sort set_sort .
  moreover have "\<forall>(k, v) \<in> set ?m. read_value fl v"
    using PDict.prems PDict.IH by (fastforce simp: read_value_simps(2))
  ultimately show ?case by (simp only: sort_keys.simps read_value_simps(2) set_sort simp_thms)
qed (auto simp: read_value_simps)

text \<open>The canonical text determines the payload up to the order of keys.\<close>

lemma canonical_text_inj:
  assumes "float_reads fr fl (floats_of fl)" "read_value fl p" "read_value fl q" "canonical_text fr p = canonical_text fr q"
  shows "sort_keys p = sort_keys q"
proof -
  have r: "json_loads fl (canonical_text fr v) = Some (sort_keys v)" if "read_value fl v" for v
    unfolding canonical_text_def using sort_keys_value [OF that] loads_dumps(1) [OF assms(1)] by (simp add: read_value_def)
  show ?thesis using r [OF assms(2)] r [OF assms(3)] unfolding assms(4) by simp
qed

section \<open>Properties\<close>

text \<open>Two payloads that differ, in more than the order of keys, with the same hash\<close>

definition collision :: "(string \<Rightarrow> string) \<Rightarrow> (real \<Rightarrow> string) \<Rightarrow> pyval \<Rightarrow> pyval \<Rightarrow> bool" where
  "collision sha fr p q = (canonical_text fr p \<noteq> canonical_text fr q \<and> checksum_of sha fr p = checksum_of sha fr q)"

text \<open>C25. A bundle that carries a checksum and whose payload was changed is not installed: whatever the characters of the
  bundle file are, if an installation changes a slot, then they are a JSON document that is marked compatible and signed,
  and either the document carries no checksum, in which case nothing is claimed of its payload
  (\<open>missing_checksum_accepted\<close>), or its checksum is that of the payload it carries; then, when it is also the checksum of
  a payload \<open>p\<close>, its payload is \<open>p\<close> up to the order of keys, unless the hash function collides on the two texts. The slot
  that runs is not the one that changed.\<close>

theorem installed_bundle_is_intact:
  assumes "float_reads fr fl (floats_of fl)"
    "slots (uinfo (snd (install fr (checksum_of sha fr) (bundle_of_text fl c) s))) \<noteq> slots (uinfo s)"
  shows "\<exists>raw doc. c = Chars raw \<and> json_loads fl raw = Some (PDict doc)
    \<and> dict_get doc ''compatible'' PNone = PStr ''droidos'' \<and> truthy (dict_get doc ''signature'' PNone)
    \<and> (dict_get doc ''payload_checksum'' PNone = PNone
       \<or> dict_get doc ''payload_checksum'' PNone = PStr (''sha256:'' @ checksum_of sha fr (dict_get doc ''payload'' (PDict []))))
    \<and> (\<forall>p. read_value fl p \<and> dict_get doc ''payload_checksum'' PNone = PStr (''sha256:'' @ checksum_of sha fr p) \<longrightarrow>
          sort_keys (dict_get doc ''payload'' (PDict [])) = sort_keys p \<or> collision sha fr (dict_get doc ''payload'' (PDict [])) p)
    \<and> slots (uinfo (snd (install fr (checksum_of sha fr) (bundle_of_text fl c) s))) (active_slot (uinfo s))
        = slots (uinfo s) (active_slot (uinfo s))"
proof -
  let ?d = "checksum_of sha fr" and ?f = "bundle_of_text fl c"
  have "\<exists>doc. installs ?d ?f doc" using install_cases [of ?d ?f fr s] assms(2) by auto
  then obtain doc where i: "installs ?d ?f doc" ..
  then have v: "?f = Bundle doc" "dict_get doc ''compatible'' PNone = PStr ''droidos''" "truthy (dict_get doc ''signature'' PNone)"
    "dict_get doc ''payload_checksum'' PNone \<in> {PNone, PStr (''sha256:'' @ ?d (dict_get doc ''payload'' (PDict [])))}"
    unfolding installs_def verify_ok_iff by blast+
  from v(1) obtain raw where t: "c = Chars raw" "json_loads fl raw = Some (PDict doc)"
    by (auto simp: bundle_of_text_def split: characters.splits option.splits pyval.splits)
  have q: "read_value fl (dict_get doc ''payload'' (PDict []))"
    using loads_value [OF t(2)] by (auto simp: dict_get_def read_value_simps dest: map_of_SomeD split: option.split)
  have "sort_keys (dict_get doc ''payload'' (PDict [])) = sort_keys p \<or> collision sha fr (dict_get doc ''payload'' (PDict [])) p"
    if "read_value fl p" "dict_get doc ''payload_checksum'' PNone = PStr (''sha256:'' @ ?d p)" for p
    using v(4) that(2) canonical_text_inj [OF assms(1) q that(1)] by (auto simp: collision_def)
  moreover have "slots (uinfo (snd (install fr ?d ?f s))) (active_slot (uinfo s)) = slots (uinfo s) (active_slot (uinfo s))"
  proof -
    have "active_slot (uinfo s) \<noteq> inactive (uinfo s)" by (metis inactive_neq)
    then show ?thesis using install_ok [OF i, of fr s] by simp
  qed
  ultimately show ?thesis using t v(2,3,4) by (intro exI [of _ raw] exI [of _ doc]) blast
qed

text \<open>The concrete input: a bundle file of the format, with the identity as the hash function\<close>

definition example_payload :: pyval where
  "example_payload = PDict [(''size'', PInt 3), (''name'', PStr ''core'')]"

definition example_bundle_doc :: pydict where
  "example_bundle_doc =
     [(''compatible'', PStr ''droidos''), (''version'', PStr ''2.0''), (''signature'', PStr ''sig''), (''payload'', example_payload),
      (''payload_checksum'', PStr (''sha256:'' @ checksum_of id whole_repr example_payload))]"

lemma whole_floats: "floats_of whole_read \<subseteq> range real_of_int"
  by (auto simp: floats_of_def whole_read_def)

lemma whole_reads_all: "float_reads whole_repr whole_read (floats_of whole_read)"
  using whole_reads whole_floats by (auto simp: float_reads_def)

lemma example_bundle_text:
  "bundle_of_text whole_read (Chars (json_dumps whole_repr (PDict example_bundle_doc))) = Bundle example_bundle_doc"
proof -
  have "json_loads whole_read (json_dumps whole_repr (PDict example_bundle_doc)) = Some (PDict example_bundle_doc)"
    by (rule loads_dumps(1) [OF whole_reads]) (simp_all add: example_bundle_doc_def example_payload_def)
  then show ?thesis by (simp add: bundle_of_text_def del: json_dumps.simps)
qed

theorem installed_bundle_is_intact_witness:
  "\<exists>raw doc. json_loads whole_read raw = Some (PDict doc) \<and> truthy (dict_get doc ''signature'' PNone)
     \<and> slots (uinfo (snd (install whole_repr (checksum_of id whole_repr) (bundle_of_text whole_read (Chars raw)) (init_update fresh_file)))) SlotA
       = slots default_state SlotA"
proof -
  let ?c = "Chars (json_dumps whole_repr (PDict example_bundle_doc))"
  let ?i = "install whole_repr (checksum_of id whole_repr) (bundle_of_text whole_read ?c) (init_update fresh_file)"
  have "installs (checksum_of id whole_repr) (bundle_of_text whole_read ?c) example_bundle_doc"
    unfolding example_bundle_text by (simp add: installs_def verify_bundle_def example_bundle_doc_def dict_get_def)
  from install_ok [OF this, of whole_repr "init_update fresh_file"]
  have "sl_version (slots (uinfo (snd ?i)) SlotB) = PStr ''2.0''"
    by (simp add: init_update_def default_state_def inactive_def example_bundle_doc_def dict_get_def)
  moreover have "sl_version (slots (uinfo (init_update fresh_file)) SlotB) = PNone"
    by (simp add: init_update_def default_state_def)
  ultimately have "slots (uinfo (snd ?i)) \<noteq> slots (uinfo (init_update fresh_file))" by auto
  from installed_bundle_is_intact [OF whole_reads_all this]
  show ?thesis by (auto simp: init_update_def default_state_def)
qed

text \<open>A bundle without a checksum is verified whatever its payload is.\<close>

lemma missing_checksum_accepted:
  assumes "dict_get doc ''compatible'' PNone = PStr ''droidos''" "truthy (dict_get doc ''signature'' PNone)"
    "dict_get doc ''payload_checksum'' PNone = PNone"
  shows "verify_bundle digest (Bundle doc) = Inr (True, doc, ''verified'')"
  using assms by (simp add: verify_ok_iff)

end
