(* ===== verification/Services.thy ===== *)
theory Services
  imports SafetyGateway
begin

text \<open>
  The robot services that read and drive the body: state estimation
  (\<open>services/state_estimator.py\<close>), motion (\<open>services/motion.py\<close>), navigation
  (\<open>services/navigation.py\<close>), perception (\<open>services/perception.py\<close>) and hardware
  (\<open>services/hardware.py\<close>), as operations on the runtime.

  An attribute access on a missing body or backend is an \<open>AttributeError\<close>. The facts: a command
  that reaches the backend is finite and within the limits, and a drive without motor power
  leaves the pose alone.
\<close>

definition no_attr :: "string \<Rightarrow> exn" where
  "no_attr name = AttributeError (repr_str ''NoneType'' @ '' object has no attribute '' @ repr_str name)"

section \<open>State estimation\<close>

definition is_lidar :: "sensor_spec \<Rightarrow> bool" where
  "is_lidar s = startswith ''lidar'' (s_type s)"

definition first_lidar :: "loaded_body \<Rightarrow> string" where
  "first_lidar body = (case List.find is_lidar (sensors body) of None \<Rightarrow> [] | Some s \<Rightarrow> s_id s)"

definition localization_confidence :: "runtime \<Rightarrow> real" where
  "localization_confidence rt =
     (case rt_backend rt of
        None \<Rightarrow> 0
      | Some b \<Rightarrow>
          if map_of (sim_faults b) ''localization_loss'' \<noteq> None then 2 / 10
          else (case rt_body rt of
                  None \<Rightarrow> 8 / 10
                | Some body \<Rightarrow>
                    if list_ex is_lidar (sensors body)
                    then (if sr_ok (read_sensor b (first_lidar body)) then 92 / 100 else 55 / 100)
                    else 8 / 10))"

definition is_biped :: "runtime \<Rightarrow> bool" where
  "is_biped rt = (case rt_body rt of None \<Rightarrow> False | Some b \<Rightarrow> locomotion_type (manifest b) = ''biped'')"

definition balance_margin :: "runtime \<Rightarrow> real" where
  "balance_margin rt = (if is_biped rt then 35 / 100 else 1)"

definition support_foot :: "runtime \<Rightarrow> string" where
  "support_foot rt = (if is_biped rt then ''double'' else ''n/a'')"

definition estimate :: "runtime \<Rightarrow> pydict" where
  "estimate rt =
     (case rt_backend rt of
        None \<Rightarrow> [(''localization_confidence'', PFloat 0), (''valid'', PBool False)]
      | Some b \<Rightarrow>
          (let p = get_pose b; confidence = localization_confidence rt in
           [(''position'', PDict [(''x'', PFloat (pose_x p)), (''y'', PFloat (pose_y p))]),
            (''orientation_yaw'', PFloat (pose_theta p)),
            (''localization_confidence'', PFloat confidence),
            (''balance_margin'', PFloat (balance_margin rt)),
            (''support_foot'', PStr (support_foot rt)),
            (''valid'', PBool (confidence > 0))]))"

definition estimator_diagnostics :: "runtime \<Rightarrow> diagnostic_status list" where
  "estimator_diagnostics rt =
     (let conf = localization_confidence rt in
      [\<lparr>d_name = ''state_estimator/localization'',
        d_level = (if conf < 4 / 10 then ERROR else if conf < 6 / 10 then WARN else OK),
        d_message = ''localization confidence '' @ fmt_fixed 2 conf, d_hardware_id = [],
        d_values = [(''confidence'', PFloat (py_round conf 3)),
                    (''balance_margin'', PFloat (balance_margin rt))]\<rparr>])"

section \<open>Motion\<close>

definition CONTROLLER_BY_TYPE :: "(string \<times> string) list" where
  "CONTROLLER_BY_TYPE =
     [(''biped'', ''biped_gait_controller''), (''differential'', ''diff_drive_controller''),
      (''omni'', ''omni_drive_controller''), (''tracked'', ''track_controller''),
      (''stationary'', ''stationary_controller''), (''manipulator'', ''manipulator_controller'')]"

definition motion_on_configure :: "runtime hook" where
  "motion_on_configure rt =
     (let loco = (case rt_body rt of None \<Rightarrow> ''stationary'' | Some b \<Rightarrow> locomotion_type (manifest b));
          rt1 = rt\<lparr>controller_name := dict_get CONTROLLER_BY_TYPE loco ''stationary_controller''\<rparr>
      in case rt_body rt1 of
           None \<Rightarrow> (Inr True, rt1)
         | Some body \<Rightarrow>
             if loco = ''biped'' then
               (case load_for_body (gait_files rt1) body of
                  Inl e \<Rightarrow> (Inl e, rt1)
                | Inr (pol, iss) \<Rightarrow> (Inr True, rt1\<lparr>gait_pol := pol, gait_issues := iss\<rparr>))
             else (Inr True, rt1))"

definition can_move :: "runtime \<Rightarrow> bool" where
  "can_move rt = (case rt_body rt of None \<Rightarrow> False | Some b \<Rightarrow> supports_motion (caps b))"

text \<open>The printed value of a component that is not finite.\<close>

fun special_name :: "pyfloat \<Rightarrow> string" where
  "special_name NaN = ''nan''"
| "special_name PosInf = ''inf''"
| "special_name NegInf = ''-inf''"
| "special_name (Fin r) = []"

fun validate_velocity :: "(string \<times> pyfloat) list \<Rightarrow> unit res" where
  "validate_velocity [] = Inr ()"
| "validate_velocity ((name, v) # vs) =
     (if \<not> is_finite v
      then Inl (CapabilityError (''invalid velocity component '' @ name @ ''='' @ special_name v))
      else validate_velocity vs)"

definition components :: "body_velocity \<Rightarrow> (string \<times> pyfloat) list" where
  "components v = [(''linear_x'', linear_x v), (''linear_y'', linear_y v), (''angular_z'', angular_z v)]"

definition motion_clamp :: "loaded_body \<Rightarrow> body_velocity \<Rightarrow> body_velocity res" where
  "motion_clamp body vel =
     (case effective_linear body of
        Inl e \<Rightarrow> Inl e
      | Inr max_lin \<Rightarrow>
          let max_ang = effective_angular body in
          Inr \<lparr>linear_x = clamp (linear_x vel) max_lin,
               linear_y = (if locomotion_type (manifest body) = ''omni'' then clamp (linear_y vel) max_lin else Fin 0),
               angular_z = clamp (angular_z vel) max_ang\<rparr>)"

definition gait_step :: "body_velocity \<Rightarrow> real \<Rightarrow> runtime \<Rightarrow> runtime" where
  "gait_step v dt rt =
     (case gait_pol rt of
        None \<Rightarrow> rt
      | Some g \<Rightarrow>
          (case infer [(''cmd_vx'', fin (linear_x v)), (''cmd_wz'', fin (angular_z v)),
                       (''base_lin_vel'', fin (linear_x v)), (''base_ang_vel'', fin (angular_z v)),
                       (''gravity_z'', - 981 / 100)] dt g of
             (targets, g1) \<Rightarrow>
               on_backend (command_joints targets) (rt\<lparr>gait_pol := Some g1, last_joint_targets := targets\<rparr>)))"

definition send_velocity :: "body_velocity \<Rightarrow> real \<Rightarrow> runtime \<Rightarrow> unit res \<times> runtime" where
  "send_velocity v dt rt =
     (case rt_backend rt of
        None \<Rightarrow> (Inl (no_attr ''command_velocity''), rt)
      | Some b \<Rightarrow> (case command_velocity v dt b of (r, b1) \<Rightarrow> (r, rt\<lparr>rt_backend := Some b1\<rparr>)))"

text \<open>With a gait policy and no backend the joint command already fails.\<close>

definition drive :: "body_velocity \<Rightarrow> real \<Rightarrow> runtime \<Rightarrow> unit res \<times> runtime" where
  "drive vel dt rt =
     (case rt_body rt of
        None \<Rightarrow> (Inl (CapabilityError ''this body has no locomotion capability''), rt)
      | Some body \<Rightarrow>
          if \<not> supports_motion (caps body)
          then (Inl (CapabilityError ''this body has no locomotion capability''), rt)
          else case validate_velocity (components vel) of
            Inl e \<Rightarrow> (Inl e, rt)
          | Inr _ \<Rightarrow>
            (case motion_clamp body vel of
               Inl e \<Rightarrow> (Inl e, rt)
             | Inr v \<Rightarrow>
                 let rt1 = gait_step v dt rt in
                 if gait_pol rt \<noteq> None \<and> rt_backend rt = None then (Inl (no_attr ''command_joints''), rt1)
                 else
                   (case send_velocity v dt rt1 of
                      (Inl e, rt2) \<Rightarrow> (Inl e, rt2)
                    | (Inr _, rt2) \<Rightarrow> (Inr (), on_backend (step dt) rt2))))"

definition motion_stop :: "runtime \<Rightarrow> unit res \<times> runtime" where
  "motion_stop rt = (if rt_backend rt = None then (Inr (), rt) else send_velocity zero_velocity 0 rt)"

definition velocity_toward :: "loaded_body \<Rightarrow> pose \<Rightarrow> pose \<Rightarrow> (body_velocity \<times> real) res" where
  "velocity_toward body goal current =
     (let dx = pose_x goal - pose_x current;
          dy = pose_y goal - pose_y current;
          distance = hypot dx dy;
          yaw_err = wrap (atan2 dy dx - pose_theta current)
      in case effective_linear body of
           Inl e \<Rightarrow> Inl e
         | Inr max_lin \<Rightarrow>
             let max_ang = effective_angular body;
                 angular = fin (clamp (Fin (2 * yaw_err)) max_ang);
                 linear0 = (if \<bar>yaw_err\<bar> < 3 / 10 then max_lin else 0);
                 linear = (if distance < max_lin then min linear0 distance else linear0)
             in Inr (\<lparr>linear_x = Fin linear, linear_y = Fin 0, angular_z = Fin angular\<rparr>, distance))"

section \<open>Navigation\<close>

definition COLLISION_STOP_M :: real where "COLLISION_STOP_M = 6 / 10"
definition MIN_LOCALIZATION_CONFIDENCE :: real where "MIN_LOCALIZATION_CONFIDENCE = 4 / 10"

definition known_places :: "runtime \<Rightarrow> string list" where
  "known_places rt = (if has_service rt ''world_model'' then place_names (rt_world rt) else [])"

definition resolve :: "runtime \<Rightarrow> string \<Rightarrow> pose option" where
  "resolve rt name =
     (if \<not> has_service rt ''world_model'' then None
      else case get_place (rt_world rt) name of
        None \<Rightarrow> None
      | Some p \<Rightarrow> Some \<lparr>pose_x = pl_x p, pose_y = pl_y p, pose_theta = 0\<rparr>)"

definition traversable :: "runtime \<Rightarrow> string \<Rightarrow> bool \<times> string" where
  "traversable rt name =
     (case rt_body rt of
        None \<Rightarrow> (False, ''this body cannot move'')
      | Some body \<Rightarrow>
          if \<not> supports_motion (caps body) then (False, ''this body cannot move'')
          else if has_service rt ''world_model'' \<and> is_restricted (rt_world rt) name
          then (False, name @ '' is a restricted area'')
          else case (if has_service rt ''world_model'' then get_place (rt_world rt) name else None) of
            None \<Rightarrow> (False, repr_str name @ '' is not a known destination'')
          | Some p \<Rightarrow>
              if pl_kind p = ''stairs'' \<and> \<not> can_do (caps body) ''stairs''
              then (False, ''this body cannot traverse stairs'')
              else (True, ''reachable''))"

definition plan :: "pose \<Rightarrow> pose list" where
  "plan goal = [goal]"

definition localization_ok :: "runtime \<Rightarrow> bool" where
  "localization_ok rt =
     (has_service rt ''state_estimator'' \<and> localization_confidence rt \<ge> MIN_LOCALIZATION_CONFIDENCE)"

definition is_path_blocked :: "runtime \<Rightarrow> bool \<times> real option" where
  "is_path_blocked rt =
     (case rt_backend rt of
        None \<Rightarrow> (False, None)
      | Some b \<Rightarrow>
          (case map_of (sim_faults b) ''path_blocked'' of
             Some f \<Rightarrow> (True, Some (case fp_distance f of Some d \<Rightarrow> d | None \<Rightarrow> 24 / 10))
           | None \<Rightarrow>
               (case lidar_scan b of
                  None \<Rightarrow> (False, None)
                | Some scan \<Rightarrow>
                    let n = length scan;
                        forward = take (2 * n div 3 - n div 3) (drop (n div 3) scan)
                    in if forward \<noteq> [] \<and> Min (set forward) < COLLISION_STOP_M
                       then (True, Some (Min (set forward))) else (False, None))))"

definition navigation_diagnostics :: "runtime \<Rightarrow> diagnostic_status list" where
  "navigation_diagnostics rt =
     (let conf_ok = localization_ok rt in
      [\<lparr>d_name = ''navigation/status'', d_level = (if conf_ok then OK else WARN),
        d_message = show_nat (length (known_places rt)) @ '' destinations; localization ''
                      @ (if conf_ok then ''ok'' else ''low''),
        d_hardware_id = [],
        d_values = [(''known_places'', PList (map PStr (known_places rt))),
                    (''localization_ok'', PBool conf_ok),
                    (''path_blocked'', PBool (fst (is_path_blocked rt))),
                    (''obstacle_distance_m'', case snd (is_path_blocked rt) of None \<Rightarrow> PNone | Some d \<Rightarrow> PFloat d)]\<rparr>])"

definition navigation_report :: "runtime \<Rightarrow> pydict" where
  "navigation_report rt =
     [(''known_places'', PList (map PStr (known_places rt))), (''localization_ok'', PBool (localization_ok rt))]"

section \<open>Perception\<close>

definition has_camera :: "runtime \<Rightarrow> bool" where
  "has_camera rt = (case rt_body rt of None \<Rightarrow> False | Some b \<Rightarrow> has_perception (caps b) ''front_camera'')"

definition indicators_val :: "indicators \<Rightarrow> pyval" where
  "indicators_val i = PDict [(''green'', PInt (int (green i))), (''amber'', PInt (int (amber i))),
     (''red'', PInt (int (red i)))]"

definition object_val :: "scene_object \<Rightarrow> pyval" where
  "object_val ob = PDict ([(''label'', PStr (o_label ob)), (''distance_m'', PFloat (o_distance_m ob))]
     @ (case o_indicators ob of None \<Rightarrow> [] | Some i \<Rightarrow> [(''indicators'', indicators_val i)])
     @ (case o_open_cabinet_door ob of None \<Rightarrow> [] | Some d \<Rightarrow> [(''open_cabinet_door'', PBool d)]))"

definition describe :: "runtime \<Rightarrow> pydict res" where
  "describe rt =
     (if \<not> has_camera rt then
        Inr [(''camera_ok'', PBool False), (''summary'', PStr ''this body has no camera''), (''objects'', PList [])]
      else case rt_backend rt of
        None \<Rightarrow> Inl (no_attr ''describe_scene'')
      | Some b \<Rightarrow>
          let sc = describe_scene b in
          if \<not> sc_camera_ok sc then
            Inr [(''camera_ok'', PBool False), (''summary'', PStr ''front camera is not responding''),
                 (''objects'', PList []), (''confidence'', PFloat 0)]
          else
            let labels = map o_label (sc_objects sc);
                base = (if labels \<noteq> [] then join '', '' labels else ''nothing identifiable'');
                summary = (if sc_people sc \<noteq> [] then
                             base @ ''; '' @ show_nat (length (sc_people sc)) @ '' person(s), nearest ~''
                               @ fmt_fixed 1 (Min (set (sc_people sc))) @ '' m''
                           else base)
            in Inr [(''camera_ok'', PBool True), (''summary'', PStr summary),
                    (''objects'', PList (map object_val (sc_objects sc))),
                    (''people'', PList (map (\<lambda>d. PDict [(''distance_m'', PFloat d)]) (sc_people sc))),
                    (''confidence'', PFloat (sc_confidence sc))])"

definition inspect :: "runtime \<Rightarrow> string \<Rightarrow> pydict res" where
  "inspect rt target =
     (if \<not> has_camera rt then Inl (DroidError ''this body has no camera; cannot inspect a visual target'')
      else case rt_backend rt of
        None \<Rightarrow> Inl (no_attr ''describe_scene'')
      | Some b \<Rightarrow>
          let sc = describe_scene b in
          if \<not> sc_camera_ok sc then
            Inl (DroidError ''front camera is not responding; cannot verify the target'')
          else case List.find (\<lambda>ob. contains (lower target) (lower (o_label ob))) (sc_objects sc) of
            None \<Rightarrow> Inr [(''found'', PBool False), (''target'', PStr target),
                         (''confidence'', PFloat (sc_confidence sc)),
                         (''note'', PStr (repr_str target @ '' not currently in view''))]
          | Some ob \<Rightarrow>
              Inr ([(''found'', PBool True), (''target'', PStr (o_label ob)),
                    (''distance_m'', PFloat (o_distance_m ob)), (''confidence'', PFloat (sc_confidence sc))]
                   @ (case o_indicators ob of None \<Rightarrow> [] | Some i \<Rightarrow> [(''indicators'', indicators_val i)])
                   @ (case o_open_cabinet_door ob of None \<Rightarrow> [] | Some d \<Rightarrow> [(''open_cabinet_door'', PBool d)])))"

definition perception_diagnostics :: "runtime \<Rightarrow> diagnostic_status list res" where
  "perception_diagnostics rt =
     (if \<not> has_camera rt then
        Inr [\<lparr>d_name = ''perception/camera'', d_level = OK, d_message = ''no camera on this body'',
              d_hardware_id = [], d_values = []\<rparr>]
      else case rt_backend rt of
        None \<Rightarrow> Inl (no_attr ''describe_scene'')
      | Some b \<Rightarrow>
          let ok = sc_camera_ok (describe_scene b) in
          Inr [\<lparr>d_name = ''perception/camera/front'', d_level = (if ok then OK else ERROR),
                d_message = (if ok then ''front camera streaming'' else ''front camera not responding''),
                d_hardware_id = [], d_values = []\<rparr>])"

section \<open>Hardware\<close>

definition set_fan :: "real \<Rightarrow> runtime \<Rightarrow> runtime" where
  "set_fan speed rt = rt\<lparr>fan_speed := max 0 (min 1 speed)\<rparr>"

definition set_light :: "string \<Rightarrow> bool \<Rightarrow> runtime \<Rightarrow> runtime" where
  "set_light name on rt = rt\<lparr>lights := AList.update name on (lights rt)\<rparr>"

definition body_sensors :: "runtime \<Rightarrow> sensor_spec list" where
  "body_sensors rt = (case rt_body rt of None \<Rightarrow> [] | Some b \<Rightarrow> sensors b)"

definition sensors_by_type :: "sensor_spec list \<Rightarrow> (string \<times> string list) list" where
  "sensors_by_type ss =
     fold (\<lambda>s d. AList.update (s_type s) (dict_get d (s_type s) [] @ [s_id s]) d) ss []"

definition inventory :: "runtime \<Rightarrow> pydict" where
  "inventory rt =
     [(''actuators'', PList (map PStr (case rt_backend rt of None \<Rightarrow> [] | Some b \<Rightarrow> actuator_names b))),
      (''sensors'', PDict (map (\<lambda>(t, ids). (t, PList (map PStr ids))) (sensors_by_type (body_sensors rt)))),
      (''battery'', PBool (list_ex (\<lambda>s. s_type s = ''battery'') (body_sensors rt))),
      (''fans'', PList [PStr ''main'']),
      (''lights'', PList (map (PStr \<circ> fst) (lights rt))),
      (''speakers'', PList [PStr ''main'']),
      (''microphones'', PList (map (PStr \<circ> s_id) (filter (\<lambda>s. s_type s = ''microphone'') (body_sensors rt))))]"

definition auto_cooling :: "runtime \<Rightarrow> runtime" where
  "auto_cooling rt =
     (case (rt_backend rt, rt_body rt) of
        (Some b, Some body) \<Rightarrow>
          let acts = read_all_actuators b in
          if acts = [] then rt
          else
            let hottest = Max (set (map (a_temperature_c \<circ> snd) acts));
                warn = motor_warn_temp (limits body)
            in rt\<lparr>fan_speed := max 0 (min 1 ((hottest - (warn - 20)) / 20))\<rparr>
      | _ \<Rightarrow> rt)"

definition hardware_diagnostics :: "runtime \<Rightarrow> diagnostic_status list \<times> runtime" where
  "hardware_diagnostics rt0 =
     (let rt = auto_cooling rt0;
          n_act = (case rt_backend rt of None \<Rightarrow> 0 | Some b \<Rightarrow> length (actuator_names b));
          n_sens = sum_list (map (length \<circ> snd) (sensors_by_type (body_sensors rt)))
      in ([\<lparr>d_name = ''hardware/inventory'', d_level = OK,
            d_message = show_nat n_act @ '' actuators, '' @ show_nat n_sens @ '' sensors'',
            d_hardware_id = [], d_values = inventory rt\<rparr>,
           \<lparr>d_name = ''hardware/cooling'', d_level = OK,
            d_message = ''fan at '' @ fmt_fixed 0 (fan_speed rt * 100) @ ''%'', d_hardware_id = [],
            d_values = [(''fan_speed'', PFloat (py_round (fan_speed rt) 2)),
                        (''lights'', PDict (map (\<lambda>(k, v). (k, PBool v)) (lights rt)))]\<rparr>], rt))"

section \<open>Facts\<close>

lemma gait_step_keeps [simp, keeps]:
  "ctl (gait_step v dt rt) = ctl rt" "rt_state (gait_step v dt rt) = rt_state rt"
  "rt_body (gait_step v dt rt) = rt_body rt" "svcs (gait_step v dt rt) = svcs rt"
  "has_safety (gait_step v dt rt) = has_safety rt" "token (gait_step v dt rt) = token rt"
  "rt_world (gait_step v dt rt) = rt_world rt" "latch_file (gait_step v dt rt) = latch_file rt"
  "cancel_flag (gait_step v dt rt) = cancel_flag rt" "has_supervisor (gait_step v dt rt) = has_supervisor rt"
  by (simp_all add: gait_step_def case_prod_beta on_backend_def split: option.split)

lemma send_velocity_keeps [simp, keeps]:
  "ctl (snd (send_velocity v dt rt)) = ctl rt" "rt_state (snd (send_velocity v dt rt)) = rt_state rt"
  "rt_body (snd (send_velocity v dt rt)) = rt_body rt" "svcs (snd (send_velocity v dt rt)) = svcs rt"
  "has_safety (snd (send_velocity v dt rt)) = has_safety rt" "token (snd (send_velocity v dt rt)) = token rt"
  "rt_world (snd (send_velocity v dt rt)) = rt_world rt" "latch_file (snd (send_velocity v dt rt)) = latch_file rt"
  "cancel_flag (snd (send_velocity v dt rt)) = cancel_flag rt"
  "has_supervisor (snd (send_velocity v dt rt)) = has_supervisor rt"
  by (simp_all add: send_velocity_def case_prod_beta split: option.split)

text \<open>A drive either fails before it touches anything, or it has taken the gait step.\<close>

lemma drive_cases:
  obtains (failed) e where "drive v dt rt = (Inl e, rt)"
  | (no_backend) e v1 where "drive v dt rt = (Inl e, gait_step v1 dt rt)"
  | (refused) e v1 where "drive v dt rt = (Inl e, snd (send_velocity v1 dt (gait_step v1 dt rt)))"
  | (driven) body v1 where "rt_body rt = Some body" "supports_motion (caps body)"
      "validate_velocity (components v) = Inr ()" "motion_clamp body v = Inr v1"
      "fst (send_velocity v1 dt (gait_step v1 dt rt)) = Inr ()"
      "drive v dt rt = (Inr (), on_backend (step dt) (snd (send_velocity v1 dt (gait_step v1 dt rt))))"
proof (cases "rt_body rt")
  case None
  then show ?thesis by (intro failed) (simp add: drive_def)
next
  case (Some body)
  show ?thesis
  proof (cases "supports_motion (caps body) \<and> validate_velocity (components v) = Inr ()")
    case False
    then have "\<exists>e. drive v dt rt = (Inl e, rt)"
      using Some by (cases "validate_velocity (components v)") (auto simp: drive_def)
    then show ?thesis using failed by blast
  next
    case ok: True
    show ?thesis
    proof (cases "motion_clamp body v")
      case (Inl e)
      then show ?thesis using Some ok by (intro failed) (simp add: drive_def)
    next
      case (Inr v1)
      obtain r rt2 where s: "send_velocity v1 dt (gait_step v1 dt rt) = (r, rt2)"
        by (cases "send_velocity v1 dt (gait_step v1 dt rt)")
      have "(\<exists>e. r = Inl e) \<or> r = Inr ()" by (cases r) auto
      then consider "gait_pol rt \<noteq> None \<and> rt_backend rt = None"
        | "\<not> (gait_pol rt \<noteq> None \<and> rt_backend rt = None)" "\<exists>e. r = Inl e"
        | "\<not> (gait_pol rt \<noteq> None \<and> rt_backend rt = None)" "r = Inr ()"
        by blast
      then show ?thesis
      proof cases
        case 1
        then show ?thesis using Some ok Inr by (intro no_backend) (simp add: drive_def Let_def)
      next
        case 2
        then obtain e where "r = Inl e" by blast
        with 2 s Some ok Inr have "drive v dt rt = (Inl e, snd (send_velocity v1 dt (gait_step v1 dt rt)))"
          unfolding drive_def Let_def by auto
        then show ?thesis by (rule refused)
      next
        case 3
        with s Some ok Inr
        have "drive v dt rt = (Inr (), on_backend (step dt) (snd (send_velocity v1 dt (gait_step v1 dt rt))))"
          unfolding drive_def Let_def by auto
        with 3 s Some ok Inr show ?thesis by (intro driven [of body v1]) simp_all
      qed
    qed
  qed
qed

lemma drive_keeps [simp, keeps]:
  "ctl (snd (drive v dt rt)) = ctl rt" "rt_state (snd (drive v dt rt)) = rt_state rt"
  "rt_body (snd (drive v dt rt)) = rt_body rt" "svcs (snd (drive v dt rt)) = svcs rt"
  "has_safety (snd (drive v dt rt)) = has_safety rt" "token (snd (drive v dt rt)) = token rt"
  "rt_world (snd (drive v dt rt)) = rt_world rt" "latch_file (snd (drive v dt rt)) = latch_file rt"
  by (rule drive_cases [of v dt rt]; simp add: on_backend_def)+

lemma gait_step_backend:
  "\<exists>ts. rt_backend (gait_step v dt rt) = rt_backend rt
      \<or> rt_backend (gait_step v dt rt) = map_option (command_joints ts) (rt_backend rt)"
  by (auto simp: gait_step_def case_prod_beta split: option.split)

lemma send_velocity_backend:
  "rt_backend (snd (send_velocity v dt rt)) = map_option (\<lambda>b. snd (command_velocity v dt b)) (rt_backend rt)"
  by (simp add: send_velocity_def case_prod_beta split: option.split)

text \<open>What a drive can do to the backend: keep it, or send joints, a velocity and a step.\<close>

definition same_device :: "sim_backend \<Rightarrow> sim_backend \<Rightarrow> bool" where
  "same_device b b' = (sim_power b' = sim_power b \<and> sim_body b' = sim_body b \<and> sim_faults b' = sim_faults b
     \<and> sim_actuators b' = sim_actuators b \<and> sim_bus b' = sim_bus b
     \<and> (\<not> sim_power b \<longrightarrow> sim_pose b' = sim_pose b))"

lemma same_device_refl [simp]: "same_device b b"
  by (simp add: same_device_def)

lemma same_device_trans: "same_device a b \<Longrightarrow> same_device b c \<Longrightarrow> same_device a c"
  by (simp add: same_device_def)

lemma same_device_ops:
  "same_device b (command_joints ts b)" "same_device b (snd (command_velocity v dt b))" "same_device b (step dt b)"
  using device.cmd_unpowered [of b v dt]
  by (simp_all add: same_device_def power_enabled_def get_pose_def)

lemma same_device_gait:
  "rt_backend rt = Some b \<Longrightarrow> \<exists>b'. rt_backend (gait_step v dt rt) = Some b' \<and> same_device b b'"
  using gait_step_backend [of v dt rt] same_device_ops(1) by fastforce

lemma same_device_send:
  "rt_backend rt = Some b \<Longrightarrow>
     \<exists>b'. rt_backend (snd (send_velocity v dt (gait_step v dt rt))) = Some b' \<and> same_device b b'"
  using same_device_gait [of rt b v dt] same_device_ops(2) same_device_trans
  by (auto simp: send_velocity_backend)

lemma drive_same_device:
  assumes "rt_backend rt = Some b"
  shows "\<exists>b'. rt_backend (snd (drive v dt rt)) = Some b' \<and> same_device b b'"
proof (cases rule: drive_cases [of v dt rt])
  case (failed e)
  then show ?thesis using assms by simp
next
  case (no_backend e v1)
  then show ?thesis using same_device_gait [OF assms, of v1 dt] by simp
next
  case (refused e v1)
  then show ?thesis using same_device_send [OF assms, of v1 dt] by simp
next
  case (driven body v1)
  obtain b1 where b1: "rt_backend (snd (send_velocity v1 dt (gait_step v1 dt rt))) = Some b1" "same_device b b1"
    using same_device_send [OF assms, of v1 dt] by blast
  have "same_device b (step dt b1)" using b1(2) same_device_ops(3) by (rule same_device_trans)
  with driven b1(1) show ?thesis by simp
qed

lemma gait_step_no_backend: "rt_backend rt = None \<Longrightarrow> rt_backend (gait_step v dt rt) = None"
  using gait_step_backend [of v dt rt] by auto

lemma drive_no_backend: "rt_backend rt = None \<Longrightarrow> rt_backend (snd (drive v dt rt)) = None"
  by (rule drive_cases [of v dt rt]) (simp_all add: send_velocity_backend gait_step_no_backend)

lemma validate_finite:
  "validate_velocity (components v) = Inr () \<longleftrightarrow>
     is_finite (linear_x v) \<and> is_finite (linear_y v) \<and> is_finite (angular_z v)"
  by (simp add: components_def)

lemma motion_clamp_bounds:
  assumes "motion_clamp body v = Inr v1" "effective_linear body = Inr l" "0 \<le> l" "0 \<le> effective_angular body"
  shows "\<bar>fin (linear_x v1)\<bar> \<le> l \<and> \<bar>fin (linear_y v1)\<bar> \<le> l \<and> \<bar>fin (angular_z v1)\<bar> \<le> effective_angular body
    \<and> is_finite (linear_x v1) \<and> is_finite (linear_y v1) \<and> is_finite (angular_z v1)"
  using assms clamp_bounds by (auto simp: motion_clamp_def Let_def)

text \<open>A finite number saturated at a limit, and the velocity a finite command is turned into: lateral motion is for
  omnidirectional bodies only.\<close>

definition saturate :: "real \<Rightarrow> real \<Rightarrow> real" where
  "saturate limit x = max (- limit) (min limit x)"

definition saturated :: "loaded_body \<Rightarrow> real \<Rightarrow> real \<Rightarrow> real \<Rightarrow> real \<Rightarrow> body_velocity" where
  "saturated body l x y w =
     \<lparr>linear_x = Fin (saturate l x),
      linear_y = Fin (if locomotion_type (manifest body) = ''omni'' then saturate l y else 0),
      angular_z = Fin (saturate (effective_angular body) w)\<rparr>"

lemma motion_clamp_saturates:
  assumes "motion_clamp body v = Inr v1" "validate_velocity (components v) = Inr ()"
  shows "\<exists>l x y w. effective_linear body = Inr l \<and> v = \<lparr>linear_x = Fin x, linear_y = Fin y, angular_z = Fin w\<rparr>
    \<and> v1 = saturated body l x y w"
proof -
  obtain x y w where "linear_x v = Fin x" "linear_y v = Fin y" "angular_z v = Fin w"
    using assms(2) by (auto simp: validate_finite is_finite_iff)
  then have v: "v = \<lparr>linear_x = Fin x, linear_y = Fin y, angular_z = Fin w\<rparr>" by simp
  obtain l where l: "effective_linear body = Inr l"
    using assms(1) by (cases "effective_linear body") (simp_all add: motion_clamp_def)
  have "v1 = saturated body l x y w"
    using assms(1) by (simp add: motion_clamp_def l v clamp_Fin saturated_def saturate_def Let_def split: if_splits)
  with l v show ?thesis by blast
qed

lemma saturate_within: "0 \<le> l \<Longrightarrow> \<bar>saturate l x\<bar> \<le> l"
  by (auto simp: saturate_def)

lemma drive_sends_saturated:
  assumes "fst (drive v dt rt) = Inr ()"
  shows "can_move rt \<and> (\<exists>body l x y w. rt_body rt = Some body \<and> effective_linear body = Inr l
    \<and> v = \<lparr>linear_x = Fin x, linear_y = Fin y, angular_z = Fin w\<rparr>
    \<and> snd (drive v dt rt) = on_backend (step dt)
        (snd (send_velocity (saturated body l x y w) dt (gait_step (saturated body l x y w) dt rt))))"
proof (cases rule: drive_cases [of v dt rt])
  case (driven body v1)
  from motion_clamp_saturates [OF driven(4,3)] obtain l x y w where
    e: "effective_linear body = Inr l" "v = \<lparr>linear_x = Fin x, linear_y = Fin y, angular_z = Fin w\<rparr>"
    and v1: "v1 = saturated body l x y w" by blast
  have "snd (drive v dt rt) = on_backend (step dt)
        (snd (send_velocity (saturated body l x y w) dt (gait_step (saturated body l x y w) dt rt)))"
    using driven(6) by (simp add: v1)
  moreover have "can_move rt" using driven(1,2) by (simp add: can_move_def)
  ultimately show ?thesis using driven(1) e by blast
qed (use assms in simp_all)

lemma traversable_iff:
  "fst (traversable rt name) \<longleftrightarrow>
     (\<exists>body p. rt_body rt = Some body \<and> supports_motion (caps body) \<and> has_service rt ''world_model''
        \<and> \<not> is_restricted (rt_world rt) name \<and> get_place (rt_world rt) name = Some p
        \<and> (pl_kind p = ''stairs'' \<longrightarrow> can_do (caps body) ''stairs''))"
  by (auto simp: traversable_def split: option.splits)

lemma resolve_iff: "resolve rt name \<noteq> None \<longleftrightarrow> has_service rt ''world_model'' \<and> get_place (rt_world rt) name \<noteq> None"
  by (auto simp: resolve_def split: option.splits)

lemma ease_in:
  fixes l d :: real
  assumes "0 \<le> l" "0 \<le> d"
  shows "let v = (if d < l then min (if c then l else 0) d else if c then l else 0) in
     0 \<le> v \<and> v \<le> l \<and> (d < l \<longrightarrow> v \<le> d)"
  using assms by (auto simp: Let_def)

section \<open>Properties\<close>

text \<open>C21. Driving is safe by construction: a drive that succeeds comes from a body that can move and
  a finite command, and what it sends, first to the gait policy and then to the backend, is that command with
  each component saturated at the body's linear and angular limit and without lateral motion unless the body is
  omnidirectional; a command with NaN or an infinity is refused with nothing changed; and with
  the backend's motor power off the pose does not change, whatever the command and the gait.\<close>

theorem drive_is_guarded:
  "(fst (drive v dt rt) = Inr () \<longrightarrow>
      can_move rt \<and> (\<exists>body l x y w. rt_body rt = Some body \<and> effective_linear body = Inr l
        \<and> v = \<lparr>linear_x = Fin x, linear_y = Fin y, angular_z = Fin w\<rparr>
        \<and> snd (drive v dt rt) = on_backend (step dt)
            (snd (send_velocity (saturated body l x y w) dt (gait_step (saturated body l x y w) dt rt)))
        \<and> (0 \<le> l \<longrightarrow> \<bar>saturate l x\<bar> \<le> l \<and> \<bar>saturate l y\<bar> \<le> l)
        \<and> (0 \<le> effective_angular body \<longrightarrow> \<bar>saturate (effective_angular body) w\<bar> \<le> effective_angular body)))
   \<and> (\<not> (is_finite (linear_x v) \<and> is_finite (linear_y v) \<and> is_finite (angular_z v)) \<longrightarrow>
      (\<exists>msg. drive v dt rt = (Inl (CapabilityError msg), rt)))
   \<and> (rt_backend rt = Some b \<and> \<not> power_enabled b \<longrightarrow>
      (\<exists>b'. rt_backend (snd (drive v dt rt)) = Some b' \<and> get_pose b' = get_pose b))"
proof (intro conjI impI)
  assume "fst (drive v dt rt) = Inr ()"
  from drive_sends_saturated [OF this] saturate_within
  show "can_move rt" and "\<exists>body l x y w. rt_body rt = Some body \<and> effective_linear body = Inr l
        \<and> v = \<lparr>linear_x = Fin x, linear_y = Fin y, angular_z = Fin w\<rparr>
        \<and> snd (drive v dt rt) = on_backend (step dt)
            (snd (send_velocity (saturated body l x y w) dt (gait_step (saturated body l x y w) dt rt)))
        \<and> (0 \<le> l \<longrightarrow> \<bar>saturate l x\<bar> \<le> l \<and> \<bar>saturate l y\<bar> \<le> l)
        \<and> (0 \<le> effective_angular body \<longrightarrow> \<bar>saturate (effective_angular body) w\<bar> \<le> effective_angular body)"
    by blast+
next
  assume "\<not> (is_finite (linear_x v) \<and> is_finite (linear_y v) \<and> is_finite (angular_z v))"
  then have "\<exists>msg. validate_velocity (components v) = Inl (CapabilityError msg)"
    by (auto simp: components_def)
  then obtain msg where "validate_velocity (components v) = Inl (CapabilityError msg)" ..
  then show "\<exists>msg. drive v dt rt = (Inl (CapabilityError msg), rt)"
    by (auto simp: drive_def split: option.split)
next
  assume "rt_backend rt = Some b \<and> \<not> power_enabled b"
  then show "\<exists>b'. rt_backend (snd (drive v dt rt)) = Some b' \<and> get_pose b' = get_pose b"
    using drive_same_device [of rt b v dt] by (auto simp: same_device_def power_enabled_def get_pose_def)
qed

theorem drive_is_guarded_witness:
  "(\<exists>msg. drive \<lparr>linear_x = NaN, linear_y = Fin 0, angular_z = Fin 0\<rparr> 1 example_rt = (Inl (CapabilityError msg), example_rt))
   \<and> (\<exists>b'. rt_backend (snd (drive \<lparr>linear_x = Fin 1, linear_y = Fin 0, angular_z = Fin 0\<rparr> 1 example_rt)) = Some b'
        \<and> get_pose b' = \<lparr>pose_x = 0, pose_y = 0, pose_theta = 0\<rparr>)
   \<and> (\<exists>body l. snd (drive \<lparr>linear_x = Fin 1, linear_y = Fin 0, angular_z = Fin 0\<rparr> 1 example_rt) = on_backend (step 1)
        (snd (send_velocity (saturated body l 1 0 0) 1 (gait_step (saturated body l 1 0 0) 1 example_rt))))"
proof -
  let ?v = "\<lparr>linear_x = Fin 1, linear_y = Fin 0, angular_z = Fin 0\<rparr>"
  have b: "rt_backend example_rt = Some (SimulationBackend example_body) \<and> \<not> power_enabled (SimulationBackend example_body)"
    by (simp add: example_rt_def power_enabled_def SimulationBackend_def init_sim_def Let_def)
  have p: "get_pose (SimulationBackend example_body) = \<lparr>pose_x = 0, pose_y = 0, pose_theta = 0\<rparr>"
    by (simp add: get_pose_def SimulationBackend_def init_sim_def Let_def)
  have d: "fst (drive ?v 1 example_rt) = Inr ()"
  proof -
    have rt: "rt_body example_rt = Some example_body" "gait_pol example_rt = None"
      by (simp_all add: example_rt_def wire_def SERVICE_NAMES_def register_service_def new_runtime_def)
    have "effective_linear example_body = Inr (1/2)" "supports_motion (caps example_body)"
      by (simp_all add: effective_linear_def max_linear_def supports_motion_def can_do_def locomotion_mode_def
          cap_get_def category_def
          example_body_defs dict_get_def)
    moreover have "\<not> sim_power (SimulationBackend example_body)" using b by (simp add: power_enabled_def)
    ultimately show ?thesis
      using rt b by (simp add: drive_def components_def motion_clamp_def gait_step_def send_velocity_def
          command_velocity_unpowered Let_def)
  qed
  from drive_is_guarded [of "\<lparr>linear_x = NaN, linear_y = Fin 0, angular_z = Fin 0\<rparr>" 1 example_rt]
    drive_is_guarded [of ?v 1 example_rt "SimulationBackend example_body"] b p d
  show ?thesis by auto
qed

text \<open>Steering toward a goal respects the limits and never overshoots at full speed: the
  commanded forward speed is between zero and the linear limit, the turn rate is within the
  angular limit, the reported distance is the Euclidean one, and closer than the limit the speed
  is at most the remaining distance.\<close>

theorem velocity_toward_bounds:
  assumes "velocity_toward body goal current = Inr (v, d)" "effective_linear body = Inr l"
    "0 \<le> l" "0 \<le> effective_angular body"
  shows "d = sqrt ((pose_x goal - pose_x current)\<^sup>2 + (pose_y goal - pose_y current)\<^sup>2)
    \<and> 0 \<le> fin (linear_x v) \<and> fin (linear_x v) \<le> l \<and> \<bar>fin (angular_z v)\<bar> \<le> effective_angular body
    \<and> linear_y v = Fin 0 \<and> (d < l \<longrightarrow> fin (linear_x v) \<le> d)"
proof -
  let ?d = "hypot (pose_x goal - pose_x current) (pose_y goal - pose_y current)"
  let ?y = "wrap (atan2 (pose_y goal - pose_y current) (pose_x goal - pose_x current) - pose_theta current)"
  have "0 \<le> ?d" by (simp add: hypot_def)
  note ease = ease_in [OF assms(3) this, of "\<bar>?y\<bar> < 3 / 10", unfolded Let_def]
  obtain L where v: "v = \<lparr>linear_x = Fin L, linear_y = Fin 0,
                           angular_z = Fin (fin (clamp (Fin (2 * ?y)) (effective_angular body)))\<rparr>"
    and L: "0 \<le> L" "L \<le> l" "?d < l \<longrightarrow> L \<le> ?d" and d: "d = ?d"
  proof (rule that)
    show "v = \<lparr>linear_x = Fin (if ?d < l then min (if \<bar>?y\<bar> < 3 / 10 then l else 0) ?d
                               else if \<bar>?y\<bar> < 3 / 10 then l else 0),
               linear_y = Fin 0, angular_z = Fin (fin (clamp (Fin (2 * ?y)) (effective_angular body)))\<rparr>"
      and "d = ?d"
      using assms(1,2) by (auto simp: velocity_toward_def Let_def)
  qed (use ease in blast)+
  show ?thesis
    using L clamp_bounds [OF assms(4), of "Fin (2 * ?y)"] unfolding v d by (simp add: hypot_def)
qed

theorem velocity_toward_bounds_witness:
  "\<exists>v. velocity_toward example_body \<lparr>pose_x = 3, pose_y = 4, pose_theta = 0\<rparr> \<lparr>pose_x = 0, pose_y = 0, pose_theta = 0\<rparr>
         = Inr (v, 5) \<and> fin (linear_x v) \<le> 1 / 2"
proof -
  have l: "effective_linear example_body = Inr (1 / 2)"
    by (simp add: effective_linear_def max_linear_def example_body_defs dict_get_def)
  have a: "0 \<le> effective_angular example_body"
    by (simp add: effective_angular_def max_angular_def example_body_defs dict_get_def)
  obtain v d where v: "velocity_toward example_body \<lparr>pose_x = 3, pose_y = 4, pose_theta = 0\<rparr>
      \<lparr>pose_x = 0, pose_y = 0, pose_theta = 0\<rparr> = Inr (v, d)"
    by (simp add: velocity_toward_def l Let_def)
  from velocity_toward_bounds [OF v l _ a]
  have "d = sqrt (3\<^sup>2 + 4\<^sup>2)" "fin (linear_x v) \<le> 1 / 2" by simp_all
  moreover have "sqrt ((3::real)\<^sup>2 + 4\<^sup>2) = 5" by (rule real_sqrt_unique) simp_all
  ultimately show ?thesis using v by simp
qed

end
