(* ===== verification/Supervisor.thy ===== *)
theory Supervisor
  imports Services
begin

text \<open>
  The supervisor and the boot sequence, \<open>services/supervisor.py\<close>, with the registry of concrete
  services: each service name has its lifecycle hooks and its dependencies.

  The facts: activation keeps both contactors open; boot from POWERED_OFF never raises, leaves
  power off and settles in the state of its readiness assessment; readiness permits motion
  exactly when every check of the assessment passes.
\<close>

section \<open>The services\<close>

definition world_on_configure :: "runtime hook" where
  "world_on_configure rt =
     (case world_load (rt_world rt) of (r, w) \<Rightarrow> (map_sum id (\<lambda>_. True) r, rt\<lparr>rt_world := w\<rparr>))"

definition memory_on_configure :: "runtime hook" where
  "memory_on_configure rt =
     (case memory_load (rt_memory rt) of (r, m) \<Rightarrow> (map_sum id (\<lambda>_. True) r, rt\<lparr>rt_memory := m\<rparr>))"

definition update_on_configure :: "runtime hook" where
  "update_on_configure rt =
     (case update_load (rt_update rt) of (r, u) \<Rightarrow> (map_sum id (\<lambda>_. True) r, rt\<lparr>rt_update := u\<rparr>))"

definition base_hooks :: "runtime hooks" where
  "base_hooks = \<lparr>on_configure = trivial_hook, on_activate = trivial_hook, on_deactivate = trivial_hook,
     on_cleanup = trivial_hook, log_error = rt_log_error\<rparr>"

definition service_hooks :: "string \<Rightarrow> runtime hooks" where
  "service_hooks name =
     (if name = ''safety_gateway''
      then base_hooks\<lparr>on_configure := gw_on_configure, on_activate := gw_on_activate\<rparr>
      else if name = ''world_model'' then base_hooks\<lparr>on_configure := world_on_configure\<rparr>
      else if name = ''memory'' then base_hooks\<lparr>on_configure := memory_on_configure\<rparr>
      else if name = ''update'' then base_hooks\<lparr>on_configure := update_on_configure\<rparr>
      else if name = ''motion'' then base_hooks\<lparr>on_configure := motion_on_configure\<rparr>
      else base_hooks)"

definition requires :: "string \<Rightarrow> string list" where
  "requires name =
     (if name \<in> {''hardware'', ''diagnostics'', ''state_estimator'', ''perception'', ''motion'', ''update'', ''voice''}
      then [''safety_gateway'']
      else if name = ''navigation'' then [''safety_gateway'', ''state_estimator'', ''world_model'']
      else if name = ''executive'' then [''safety_gateway'', ''motion'', ''navigation'', ''state_estimator'']
      else [])"

text \<open>A lifecycle operation on the service object of a name.\<close>

definition svc_activate :: "string \<Rightarrow> runtime \<Rightarrow> bool \<times> runtime" where
  "svc_activate name rt =
     (case activate (service_hooks name) (service rt name) rt of (ok, s, rt1) \<Rightarrow> (ok, put_service s rt1))"

definition svc_restart :: "string \<Rightarrow> runtime \<Rightarrow> bool \<times> runtime" where
  "svc_restart name rt =
     (case restart (service_hooks name) (service rt name) rt of (ok, s, rt1) \<Rightarrow> (ok, put_service s rt1))"

definition svc_shutdown :: "string \<Rightarrow> runtime \<Rightarrow> unit res \<times> runtime" where
  "svc_shutdown name rt =
     (case shutdown_service (service_hooks name) (service rt name) rt of (r, s, rt1) \<Rightarrow> (r, put_service s rt1))"

section \<open>Activation in dependency order\<close>

definition dep_rank :: "string \<Rightarrow> nat" where
  "dep_rank name = (if name = ''executive'' then 3 else if name = ''navigation'' then 2
     else if requires name = [] then 0 else 1)"

lemma dep_rank_less: "dep \<in> set (requires name) \<Longrightarrow> dep_rank dep < dep_rank name"
  by (auto simp: dep_rank_def requires_def split: if_splits)

function activate_with_deps :: "string \<Rightarrow> runtime \<Rightarrow> bool \<times> runtime" where
  "activate_with_deps name rt =
     svc_activate name
       (fold (\<lambda>dep rt1. if has_service rt1 dep then snd (activate_with_deps dep rt1) else rt1) (requires name) rt)"
  by pat_completeness auto
termination
  by (relation "measure (\<lambda>(name, rt). dep_rank name)") (auto simp: dep_rank_less)

declare activate_with_deps.simps [simp del]

section \<open>Readiness\<close>

definition MOTION_CRITICAL :: "string list" where
  "MOTION_CRITICAL = [''safety_gateway'', ''state_estimator'', ''motion'', ''navigation'']"

definition critical_reasons :: "runtime \<Rightarrow> string list" where
  "critical_reasons rt =
     map (\<lambda>name. name @ '' service is not active'')
       (filter (\<lambda>name. has_service rt name \<and> svc_state (service rt name) \<noteq> LC_ACTIVE) MOTION_CRITICAL)"

definition battery_reasons :: "loaded_body \<Rightarrow> sim_backend \<Rightarrow> string list" where
  "battery_reasons body b =
     (let pct = bt_percent (battery b); m = battery_motion_minimum (limits body) in
      if pct < m then [''battery '' @ fmt_fixed 0 pct @ ''% is below the motion minimum '' @ fmt_fixed 0 m @ ''%'']
      else [])"

definition hardware_reasons :: "loaded_body \<Rightarrow> sim_backend \<Rightarrow> string list" where
  "hardware_reasons body b =
     battery_reasons body b
     @ map (\<lambda>act. ''required actuator '' @ repr_str act @ '' not detected'')
         (filter (\<lambda>act. act \<notin> set (actuator_names b)) (required_actuators (manifest body)))
     @ map (\<lambda>sid. ''required sensor '' @ repr_str sid @ '' not responding'')
         (filter (\<lambda>sid. \<not> sr_ok (read_sensor b sid)) (required_sensors (manifest body)))
     @ map (\<lambda>a. ''actuator '' @ a_name a @ '' fault: '' @ a_fault_code a)
         (filter (\<lambda>a. a_fault_code a \<noteq> []) (map snd (read_all_actuators b)))
     @ (if sim_bus b = Some False then [''physical hardware bus is offline''] else [])"

definition optional_sensor_reasons :: "loaded_body \<Rightarrow> sim_backend \<Rightarrow> string list" where
  "optional_sensor_reasons body b =
     map (\<lambda>s. ''optional sensor '' @ s_id s @ '' unavailable'')
       (filter (\<lambda>s. s_id s \<notin> set (required_sensors (manifest body)) \<and> \<not> sr_ok (read_sensor b (s_id s)))
         (sensors body))"

definition body_reasons :: "runtime \<Rightarrow> string list \<times> string list" where
  "body_reasons rt =
     (case rt_body rt of
        None \<Rightarrow> ([], [])
      | Some body \<Rightarrow>
          (case rt_backend rt of
             None \<Rightarrow> (fatal_issues (issues body), [])
           | Some b \<Rightarrow> (fatal_issues (issues body) @ hardware_reasons body b, optional_sensor_reasons body b)))"

text \<open>The emergency stop short-circuits; otherwise the reasons are collected and classified.\<close>

definition classify :: "string list \<Rightarrow> string list \<Rightarrow> readiness" where
  "classify inhibit degraded =
     (if inhibit \<noteq> [] then \<lparr>r_state = MOTION_INHIBITED, inhibit_reasons = inhibit, degraded_reasons = degraded\<rparr>
      else if degraded \<noteq> [] then \<lparr>r_state = DEGRADED, inhibit_reasons = [], degraded_reasons = degraded\<rparr>
      else \<lparr>r_state = READY, inhibit_reasons = [], degraded_reasons = degraded\<rparr>)"

definition assess_readiness :: "runtime \<Rightarrow> readiness \<times> runtime" where
  "assess_readiness rt0 =
     (case (if has_safety rt0 then estop_engaged rt0 else (False, rt0)) of (engaged, rt1) \<Rightarrow>
        if engaged then
          (\<lparr>r_state = EMERGENCY_STOPPED, inhibit_reasons = [''emergency stop engaged''], degraded_reasons = []\<rparr>, rt1)
        else
          (case (if has_safety rt1 then gw_healthy rt1 else (False, rt1)) of (healthy, rt2) \<Rightarrow>
             (classify ((if healthy then [] else [''safety controller is not healthy''])
                          @ critical_reasons rt2 @ fst (body_reasons rt2))
                       (snd (body_reasons rt2)), rt2)))"

definition settle :: "droid_state \<Rightarrow> runtime \<Rightarrow> runtime" where
  "settle target rt =
     (let st = rt_state rt in
      if cur_state st = target then rt
      else if can_transition st target then
        (case transition st target ''readiness settle'' of Inl _ \<Rightarrow> rt | Inr st1 \<Rightarrow> rt\<lparr>rt_state := st1\<rparr>)
      else rt\<lparr>rt_state := force st target ''readiness settle''\<rparr>)"

definition refresh :: "runtime \<Rightarrow> readiness \<times> runtime" where
  "refresh rt =
     (case assess_readiness rt of (r, rt1) \<Rightarrow> (r, settle (r_state r) (rt1\<lparr>rt_readiness := r\<rparr>)))"

section \<open>Boot\<close>

definition rt_transition :: "droid_state \<Rightarrow> string \<Rightarrow> runtime \<Rightarrow> unit res \<times> runtime" where
  "rt_transition dst reason rt =
     (case transition (rt_state rt) dst reason of
        Inl e \<Rightarrow> (Inl e, rt) | Inr st \<Rightarrow> (Inr (), rt\<lparr>rt_state := st\<rparr>))"

definition report :: "string \<Rightarrow> bool \<Rightarrow> string \<Rightarrow> runtime \<Rightarrow> runtime" where
  "report name ok detail rt =
     rt\<lparr>boot_report := boot_report rt @ [\<lparr>bs_name = name, bs_ok = ok, bs_detail = detail\<rparr>]\<rparr>"

definition ACTIVATION_ORDER :: "string list" where
  "ACTIVATION_ORDER = [''safety_gateway'', ''hardware'', ''diagnostics'', ''state_estimator'', ''world_model'',
     ''memory'', ''perception'', ''navigation'', ''motion'', ''update'', ''executive'', ''voice'', ''language'']"

definition boot_service :: "string \<Rightarrow> runtime \<Rightarrow> runtime" where
  "boot_service name rt =
     (if name = ''safety_gateway'' \<or> \<not> has_service rt name then rt
      else case activate_with_deps name rt of (ok, rt1) \<Rightarrow>
        let rt2 = report (''start_'' @ name) ok (if ok then [] else last_error (service rt1 name)) rt1
        in if \<not> ok then rt2\<lparr>failed_services := failed_services rt2 @ [name]\<rparr> else rt2)"

definition check_body :: "runtime \<Rightarrow> runtime" where
  "check_body rt =
     (case rt_body rt of
        None \<Rightarrow> report ''load_body_manifest'' False ''no body loaded'' rt
      | Some body \<Rightarrow>
          let fatal = fatal_issues (issues body) in
          report ''validate_body'' (fatal = []) (if fatal \<noteq> [] then join ''; '' fatal else ''ok'')
            (report ''load_body_manifest'' True (body_id (manifest body)) rt))"

text \<open>Connecting the modelled backends does not raise.\<close>

definition start_drivers :: "runtime \<Rightarrow> runtime" where
  "start_drivers rt =
     (case rt_backend rt of
        None \<Rightarrow> rt
      | Some b \<Rightarrow> report ''start_device_drivers'' True (backend_kind_of b) (on_backend backend_connect rt))"

definition power_report :: "runtime \<Rightarrow> runtime" where
  "power_report rt =
     (let power_off = (case rt_backend rt of None \<Rightarrow> True | Some b \<Rightarrow> \<not> power_enabled b)
      in report ''confirm_power_disabled'' power_off
           (if power_off then [] else ''power was unexpectedly enabled'') rt)"

definition boot_prologue :: "runtime \<Rightarrow> runtime" where
  "boot_prologue rt =
     report ''start_logging'' True []
       (report ''mount_readonly_rootfs'' True []
         (report ''start_kernel'' True []
           (report ''verify_os_image'' True ''signature verification (stub in reference)'' rt)))"

text \<open>Steps 5 to 8: contact the safety controller and confirm that power is off.\<close>

definition contact_safety :: "runtime \<Rightarrow> runtime" where
  "contact_safety rt =
     (case svc_activate ''safety_gateway'' rt of (ok, rt1) \<Rightarrow>
        power_report (report ''contact_safety_controller'' ok
          (if ok then [] else last_error (service rt1 ''safety_gateway''))
          (report ''start_watchdog'' ok [] rt1)))"

definition boot_without_safety :: "runtime \<Rightarrow> readiness res \<times> runtime" where
  "boot_without_safety rt =
     (case rt_transition HARDWARE_CHECK [] (report ''contact_safety_controller'' False ''no safety gateway'' rt) of
        (Inl e, rt1) \<Rightarrow> (Inl e, rt1)
      | (Inr _, rt1) \<Rightarrow>
        (case rt_transition MOTION_INHIBITED ''safety gateway missing'' rt1 of
           (Inl e, rt2) \<Rightarrow> (Inl e, rt2)
         | (Inr _, rt2) \<Rightarrow>
             let r = \<lparr>r_state = MOTION_INHIBITED, inhibit_reasons = [''safety gateway missing''], degraded_reasons = []\<rparr>
             in (Inr r, rt2\<lparr>rt_readiness := r\<rparr>)))"

definition boot_epilogue :: "runtime \<Rightarrow> readiness \<times> runtime" where
  "boot_epilogue rt =
     (case refresh (report ''enter_safe_idle'' True [] rt) of (r, rt1) \<Rightarrow>
        (r, report ''assess_readiness'' True (state_value (r_state r)) rt1))"

definition boot :: "runtime \<Rightarrow> readiness res \<times> runtime" where
  "boot rt0 =
     (case rt_transition BOOTING ''boot start'' (rt0\<lparr>boot_report := []\<rparr>) of
        (Inl e, rt) \<Rightarrow> (Inl e, rt)
      | (Inr _, rt) \<Rightarrow>
          let rt1 = boot_prologue rt in
          if \<not> has_safety rt1 then boot_without_safety rt1
          else
            (case rt_transition HARDWARE_CHECK ''safety contacted'' (contact_safety rt1) of
               (Inl e, rt2) \<Rightarrow> (Inl e, rt2)
             | (Inr _, rt2) \<Rightarrow>
                 (case rt_transition SAFE_IDLE ''boot checks complete''
                         (fold boot_service ACTIVATION_ORDER (start_drivers (check_body rt2))) of
                    (Inl e, rt3) \<Rightarrow> (Inl e, rt3)
                  | (Inr _, rt3) \<Rightarrow> (case boot_epilogue rt3 of (r, rt4) \<Rightarrow> (Inr r, rt4)))))"

section \<open>Shutdown and restart\<close>

fun shutdown_all :: "string list \<Rightarrow> runtime \<Rightarrow> unit res \<times> runtime" where
  "shutdown_all [] rt = (Inr (), rt)"
| "shutdown_all (n # ns) rt =
     (case svc_shutdown n rt of (Inl e, rt1) \<Rightarrow> (Inl e, rt1) | (Inr _, rt1) \<Rightarrow> shutdown_all ns rt1)"

definition request_shutdown :: "runtime \<Rightarrow> unit res \<times> runtime" where
  "request_shutdown rt =
     (let rt1 = (if cur_state (rt_state rt) \<noteq> SHUTTING_DOWN
                 then rt\<lparr>rt_state := force (rt_state rt) SHUTTING_DOWN ''shutdown requested''\<rparr> else rt)
      in case shutdown_all (rev (map fst (svcs rt1))) rt1 of
           (Inl e, rt2) \<Rightarrow> (Inl e, rt2)
         | (Inr _, rt2) \<Rightarrow>
             let rt3 = on_backend backend_shutdown rt2
             in (Inr (), rt3\<lparr>rt_state := force (rt_state rt3) POWERED_OFF ''shutdown complete''\<rparr>))"

definition restart_one :: "string \<Rightarrow> string list \<times> runtime \<Rightarrow> string list \<times> runtime" where
  "restart_one name acc =
     (case acc of (restarted, rt) \<Rightarrow>
        (case svc_restart name rt of (ok, rt1) \<Rightarrow>
           if ok then (restarted @ [name], rt1\<lparr>failed_services := remove1 name (failed_services rt1)\<rparr>)
           else (restarted, rt1)))"

definition restart_failed :: "runtime \<Rightarrow> string list \<times> runtime" where
  "restart_failed rt = fold restart_one (failed_services rt) ([], rt)"

section \<open>What the hooks keep\<close>

definition sys_view :: "runtime \<Rightarrow> state_machine \<times> loaded_body option \<times> bool \<times> bool" where
  "sys_view rt = (rt_state rt, rt_body rt, has_safety rt, has_supervisor rt)"

lemma store_hooks_frame:
  "sys_view (snd (world_on_configure rt)) = sys_view rt" "svcs (snd (world_on_configure rt)) = svcs rt"
  "powers_off (snd (world_on_configure rt)) = powers_off rt"
  "sys_view (snd (memory_on_configure rt)) = sys_view rt" "svcs (snd (memory_on_configure rt)) = svcs rt"
  "powers_off (snd (memory_on_configure rt)) = powers_off rt"
  "sys_view (snd (update_on_configure rt)) = sys_view rt" "svcs (snd (update_on_configure rt)) = svcs rt"
  "powers_off (snd (update_on_configure rt)) = powers_off rt"
  by (simp_all add: world_on_configure_def memory_on_configure_def update_on_configure_def case_prod_beta
      sys_view_def powers_off_def backend_power_def)

lemma motion_hook_frame:
  "sys_view (snd (motion_on_configure rt)) = sys_view rt" "svcs (snd (motion_on_configure rt)) = svcs rt"
  "powers_off (snd (motion_on_configure rt)) = powers_off rt"
  by (auto simp: motion_on_configure_def Let_def sys_view_def powers_off_def backend_power_def
      split: option.split sum.split)

lemma load_latch_frame:
  "sys_view (snd (load_latch rt)) = sys_view rt" "svcs (snd (load_latch rt)) = svcs rt"
  "powers_off rt \<Longrightarrow> powers_off (snd (load_latch rt))"
  by (auto simp: load_latch_def sys_view_def powers_off_def split: sum.split option.split)

lemma gw_configure_snd:
  "snd (gw_on_configure rt) = snd (load_latch rt) \<or> snd (gw_on_configure rt) = gw_heartbeat (snd (load_latch rt))"
  by (cases "load_latch rt"; cases "fst (load_latch rt)") (simp_all add: gw_on_configure_def)

lemma heartbeat_frame:
  "sys_view (gw_heartbeat rt) = sys_view rt" "powers_off (gw_heartbeat rt) = powers_off rt"
  by (simp_all add: sys_view_def powers_off_def backend_power_def)

lemma gw_configure_frame:
  "sys_view (snd (gw_on_configure rt)) = sys_view rt" "svcs (snd (gw_on_configure rt)) = svcs rt"
  "powers_off rt \<Longrightarrow> powers_off (snd (gw_on_configure rt))"
  using gw_configure_snd [of rt] load_latch_frame [of rt] heartbeat_frame [of "snd (load_latch rt)"] by auto

lemma gw_activate_frame:
  "sys_view (snd (gw_on_activate rt)) = sys_view rt" "svcs (snd (gw_on_activate rt)) = svcs rt"
  "powers_off (snd (gw_on_activate rt))"
  by (simp_all add: gw_on_activate_def Let_def sys_view_def powers_off_def on_backend_def)
    (simp add: backend_power_def power_enabled_def split: option.split)

lemma log_error_frame:
  "sys_view (rt_log_error m rt) = sys_view rt" "powers_off (rt_log_error m rt) = powers_off rt"
  by (simp_all add: sys_view_def powers_off_def backend_power_def rt_log_error_def)

lemmas hook_frames = store_hooks_frame motion_hook_frame gw_configure_frame gw_activate_frame log_error_frame

lemma base_hooks_simps [simp]:
  "on_configure base_hooks = trivial_hook" "on_activate base_hooks = trivial_hook"
  "on_deactivate base_hooks = trivial_hook" "on_cleanup base_hooks = trivial_hook"
  "log_error base_hooks = rt_log_error" "snd (trivial_hook rt) = rt"
  by (simp_all add: base_hooks_def trivial_hook_def)

text \<open>The hooks of every concrete service satisfy the lifecycle's hook contract for the two
  properties the boot sequence relies on.\<close>

interpretation hook_power: hook_contract "service_hooks name" powers_off for name
  by unfold_locales (auto simp: service_hooks_def hook_frames)

interpretation hook_view: hook_contract "service_hooks name" "\<lambda>rt. sys_view rt = f" for name f
  by unfold_locales (auto simp: service_hooks_def hook_frames)

interpretation hook_svcs: hook_contract "service_hooks name" "\<lambda>rt. svcs rt = f" for name f
  by unfold_locales (auto simp: service_hooks_def hook_frames)

lemma put_service_frame [simp]:
  "sys_view (put_service s rt) = sys_view rt" "powers_off (put_service s rt) = powers_off rt"
  by (simp_all add: sys_view_def powers_off_def backend_power_def put_service_def)

lemma svc_activate_frame:
  "sys_view (snd (svc_activate n rt)) = sys_view rt"
  "powers_off rt \<Longrightarrow> powers_off (snd (svc_activate n rt))"
  using hook_view.activate_svc_keeps [of rt "sys_view rt" n "service rt n"]
    hook_power.activate_svc_keeps [of rt n "service rt n"]
  by (simp_all add: svc_activate_def case_prod_beta)

lemma svc_shutdown_frame: "sys_view (snd (svc_shutdown n rt)) = sys_view rt"
  "powers_off rt \<Longrightarrow> powers_off (snd (svc_shutdown n rt))"
  using hook_view.shutdown_svc_keeps [of rt "sys_view rt" n "service rt n"]
    hook_power.shutdown_svc_keeps [of rt n "service rt n"]
  by (simp_all add: svc_shutdown_def case_prod_beta)

lemma svc_restart_frame: "sys_view (snd (svc_restart n rt)) = sys_view rt"
  "powers_off rt \<Longrightarrow> powers_off (snd (svc_restart n rt))"
  using hook_view.restart_svc_keeps [of rt "sys_view rt" n "service rt n"]
    hook_power.restart_svc_keeps [of rt n "service rt n"]
  by (simp_all add: svc_restart_def case_prod_beta)

lemma fold_keeps:
  assumes "\<And>x s. x \<in> set xs \<Longrightarrow> P s \<Longrightarrow> P (f x s)" "P s"
  shows "P (fold f xs s)"
  using assms by (induction xs arbitrary: s) simp_all

text \<open>What every single activation keeps is kept by activation in dependency order.\<close>

lemma activate_with_deps_keeps:
  assumes "\<And>n rt. P rt \<Longrightarrow> P (snd (svc_activate n rt))"
  shows "P rt \<Longrightarrow> P (snd (activate_with_deps name rt))"
proof (induction "dep_rank name" arbitrary: name rt rule: less_induct)
  case less
  have "P (fold (\<lambda>dep rt1. if has_service rt1 dep then snd (activate_with_deps dep rt1) else rt1) (requires name) rt)"
    by (rule fold_keeps) (simp_all add: less dep_rank_less)
  then show ?case by (subst activate_with_deps.simps) (rule assms)
qed

lemma report_frame [simp]:
  "sys_view (report n ok d rt) = sys_view rt" "powers_off (report n ok d rt) = powers_off rt"
  "svcs (report n ok d rt) = svcs rt" "ctl (report n ok d rt) = ctl rt"
  "rt_backend (report n ok d rt) = rt_backend rt" "rt_state (report n ok d rt) = rt_state rt"
  "rt_body (report n ok d rt) = rt_body rt" "has_safety (report n ok d rt) = has_safety rt"
  "clk (report n ok d rt) = clk rt" "ticks (report n ok d rt) = ticks rt"
  by (simp_all add: report_def sys_view_def powers_off_def backend_power_def)

lemma boot_service_keeps:
  assumes "\<And>n rt. P rt \<Longrightarrow> P (snd (svc_activate n rt))"
    "\<And>n ok d rt. P rt \<Longrightarrow> P (report n ok d rt)" "\<And>fs rt. P rt \<Longrightarrow> P (rt\<lparr>failed_services := fs\<rparr>)"
  shows "P rt \<Longrightarrow> P (boot_service name rt)"
  using activate_with_deps_keeps [of P, OF assms(1)] assms(2,3)
  by (simp add: boot_service_def case_prod_beta Let_def)

lemma failed_services_frame [simp]:
  "sys_view (rt\<lparr>failed_services := fs\<rparr>) = sys_view rt" "powers_off (rt\<lparr>failed_services := fs\<rparr>) = powers_off rt"
  by (simp_all add: sys_view_def powers_off_def backend_power_def)

lemma boot_services_frame:
  "sys_view (fold boot_service ns rt) = sys_view rt"
  "powers_off rt \<Longrightarrow> powers_off (fold boot_service ns rt)"
proof -
  have "sys_view (boot_service n rt1) = f" if "sys_view rt1 = f" for n rt1 f
    by (rule boot_service_keeps [of "\<lambda>r. sys_view r = f"]) (simp_all add: svc_activate_frame that)
  then show "sys_view (fold boot_service ns rt) = sys_view rt"
    by (intro fold_keeps [of ns "\<lambda>r. sys_view r = sys_view rt"]) auto
  have "powers_off (boot_service n rt1)" if "powers_off rt1" for n rt1
    by (rule boot_service_keeps [of powers_off]) (simp_all add: svc_activate_frame that)
  then show "powers_off rt \<Longrightarrow> powers_off (fold boot_service ns rt)"
    by (intro fold_keeps [of ns powers_off]) auto
qed

section \<open>What the assessment decides\<close>

lemma estop_engaged_fst [simp]: "fst (estop_engaged rt) = c_estop (ctl rt)"
  by (simp add: estop_engaged_def case_prod_beta gw_ctl_status_fst ctl_status_fields)

lemma estop_engaged_snd [simp]: "snd (estop_engaged rt) = snd (gw_ctl_status rt)"
  by (simp add: estop_engaged_def case_prod_beta)

lemma gw_healthy_snd [simp]: "snd (gw_healthy rt) = snd (gw_ctl_status (gw_heartbeat rt))"
  by (simp add: gw_healthy_def case_prod_beta)

text \<open>The checks of the assessment, each in its declarative form.\<close>

definition body_fit :: "loaded_body \<Rightarrow> sim_backend option \<Rightarrow> bool" where
  "body_fit body backend =
     (fatal_issues (issues body) = [] \<and>
      (case backend of None \<Rightarrow> True | Some b \<Rightarrow>
         battery_motion_minimum (limits body) \<le> bt_percent (battery b)
         \<and> set (required_actuators (manifest body)) \<subseteq> set (actuator_names b)
         \<and> (\<forall>sid \<in> set (required_sensors (manifest body)). sr_ok (read_sensor b sid))
         \<and> (\<forall>a \<in> snd ` set (read_all_actuators b). a_fault_code a = [])
         \<and> sim_bus b \<noteq> Some False))"

definition motion_ready :: "runtime \<Rightarrow> bool" where
  "motion_ready rt =
     (has_safety rt \<and> \<not> c_estop (ctl rt) \<and> healthy_now (snd (estop_engaged rt))
      \<and> (\<forall>n \<in> set MOTION_CRITICAL. has_service rt n \<longrightarrow> svc_state (service rt n) = LC_ACTIVE)
      \<and> (case rt_body rt of None \<Rightarrow> True | Some body \<Rightarrow> body_fit body (rt_backend rt)))"

lemma hardware_reasons_Nil:
  "hardware_reasons body b = [] \<longleftrightarrow>
     battery_motion_minimum (limits body) \<le> bt_percent (battery b)
     \<and> set (required_actuators (manifest body)) \<subseteq> set (actuator_names b)
     \<and> (\<forall>sid \<in> set (required_sensors (manifest body)). sr_ok (read_sensor b sid))
     \<and> (\<forall>a \<in> snd ` set (read_all_actuators b). a_fault_code a = [])
     \<and> sim_bus b \<noteq> Some False"
  by (auto simp: hardware_reasons_def battery_reasons_def Let_def filter_empty_conv)

lemma body_reasons_Nil:
  "fst (body_reasons rt) = [] \<longleftrightarrow> (case rt_body rt of None \<Rightarrow> True | Some body \<Rightarrow> body_fit body (rt_backend rt))"
  by (auto simp: body_reasons_def body_fit_def hardware_reasons_Nil split: option.split)

lemma critical_reasons_Nil:
  "critical_reasons rt = [] \<longleftrightarrow>
     (\<forall>n \<in> set MOTION_CRITICAL. has_service rt n \<longrightarrow> svc_state (service rt n) = LC_ACTIVE)"
  by (auto simp: critical_reasons_def filter_empty_conv)

lemma reasons_cong:
  "svcs rt = svcs rt' \<Longrightarrow> critical_reasons rt = critical_reasons rt'"
  "rt_body rt = rt_body rt' \<Longrightarrow> rt_backend rt = rt_backend rt' \<Longrightarrow> body_reasons rt = body_reasons rt'"
  by (simp_all add: critical_reasons_def has_service_def service_def body_reasons_def split: option.split)

lemma classify_state:
  "r_state (classify i d) = (if i \<noteq> [] then MOTION_INHIBITED else if d \<noteq> [] then DEGRADED else READY)"
  "inhibit_reasons (classify i d) = i"
  by (simp_all add: classify_def)

lemma assess_stopped:
  "has_safety rt \<Longrightarrow> c_estop (ctl rt) \<Longrightarrow> assess_readiness rt =
     (\<lparr>r_state = EMERGENCY_STOPPED, inhibit_reasons = [''emergency stop engaged''], degraded_reasons = []\<rparr>,
      snd (gw_ctl_status rt))"
  by (simp add: assess_readiness_def case_prod_beta)

lemma assess_running:
  assumes "has_safety rt" "\<not> c_estop (ctl rt)"
  shows "assess_readiness rt =
     (classify ((if healthy_now (snd (estop_engaged rt)) then [] else [''safety controller is not healthy''])
                 @ critical_reasons rt @ fst (body_reasons rt)) (snd (body_reasons rt)),
      snd (gw_ctl_status (gw_heartbeat (snd (gw_ctl_status rt)))))"
  using assms reasons_cong(1) [of "snd (gw_ctl_status (gw_heartbeat (snd (gw_ctl_status rt))))" rt]
    reasons_cong(2) [of "snd (gw_ctl_status (gw_heartbeat (snd (gw_ctl_status rt))))" rt]
  by (simp add: assess_readiness_def case_prod_beta gw_healthy_iff)

lemma assess_no_safety:
  assumes "\<not> has_safety rt"
  shows "assess_readiness rt =
     (classify (''safety controller is not healthy'' # critical_reasons rt @ fst (body_reasons rt))
        (snd (body_reasons rt)), rt)"
  using assms by (simp add: assess_readiness_def)

lemma assess_cases:
  obtains (none) "\<not> has_safety rt" "snd (assess_readiness rt) = rt"
  | (stopped) "has_safety rt" "c_estop (ctl rt)" "snd (assess_readiness rt) = snd (gw_ctl_status rt)"
  | (running) "has_safety rt" "\<not> c_estop (ctl rt)"
      "snd (assess_readiness rt) = snd (gw_ctl_status (gw_heartbeat (snd (gw_ctl_status rt))))"
  using assess_no_safety [of rt] assess_stopped [of rt] assess_running [of rt]
  by (cases "has_safety rt"; cases "c_estop (ctl rt)") simp_all

lemma assess_keeps [simp, keeps]:
  "rt_backend (snd (assess_readiness rt)) = rt_backend rt"
  "rt_state (snd (assess_readiness rt)) = rt_state rt"
  "rt_body (snd (assess_readiness rt)) = rt_body rt"
  "svcs (snd (assess_readiness rt)) = svcs rt"
  "has_safety (snd (assess_readiness rt)) = has_safety rt"
  "rt_world (snd (assess_readiness rt)) = rt_world rt"
  "latch_file (snd (assess_readiness rt)) = latch_file rt"
  "has_supervisor (snd (assess_readiness rt)) = has_supervisor rt"
  "c_estop (ctl (snd (assess_readiness rt))) = c_estop (ctl rt)"
  "c_faults (ctl (snd (assess_readiness rt))) = c_faults (ctl rt)"
  by (rule assess_cases [of rt]; simp)+

lemma assess_power: "c_power (ctl (snd (assess_readiness rt))) \<Longrightarrow> c_power (ctl rt)"
  by (rule assess_cases [of rt]) (auto dest!: check_watchdog_power)

lemma assess_powers_off: "powers_off rt \<Longrightarrow> powers_off (snd (assess_readiness rt))"
  using assess_power [of rt] by (auto simp: powers_off_def backend_power_def)

lemma assess_allowed_iff: "r_state (fst (assess_readiness rt)) \<in> set MOTION_ALLOWED_FROM \<longleftrightarrow> motion_ready rt"
proof (cases "has_safety rt")
  case False
  then show ?thesis
    by (simp add: assess_no_safety classify_state motion_ready_def MOTION_ALLOWED_FROM_def)
next
  case True
  then show ?thesis
    by (cases "c_estop (ctl rt)")
      (simp_all add: assess_stopped assess_running classify_state motion_ready_def MOTION_ALLOWED_FROM_def
        critical_reasons_Nil body_reasons_Nil)
qed

lemma assess_state_range:
  "r_state (fst (assess_readiness rt)) \<in> {READY, DEGRADED, MOTION_INHIBITED, EMERGENCY_STOPPED}"
  by (cases "has_safety rt"; cases "c_estop (ctl rt)")
    (simp_all add: assess_stopped assess_running assess_no_safety classify_state)

lemma settle_state [simp]: "cur_state (rt_state (settle target rt)) = target"
  by (auto simp: settle_def Let_def transition_def can_transition_def)

lemma settle_keeps [simp, keeps]:
  "rt_backend (settle t rt) = rt_backend rt" "ctl (settle t rt) = ctl rt" "svcs (settle t rt) = svcs rt"
  "rt_body (settle t rt) = rt_body rt" "has_safety (settle t rt) = has_safety rt"
  "powers_off (settle t rt) = powers_off rt"
  by (auto simp: settle_def Let_def powers_off_def backend_power_def split: sum.split)

lemma refresh_facts:
  "fst (refresh rt) = fst (assess_readiness rt)"
  "cur_state (rt_state (snd (refresh rt))) = r_state (fst (assess_readiness rt))"
  "powers_off rt \<Longrightarrow> powers_off (snd (refresh rt))"
  using assess_powers_off [of rt]
  by (simp_all add: refresh_def case_prod_beta) (simp add: powers_off_def backend_power_def)

section \<open>What boot does\<close>

lemma rt_transition_ok:
  "dst \<in> set (TRANSITIONS (cur_state (rt_state rt))) \<Longrightarrow>
     fst (rt_transition dst r rt) = Inr () \<and> cur_state (rt_state (snd (rt_transition dst r rt))) = dst"
  by (auto simp: rt_transition_def transition_def can_transition_def no_self_loop)

lemma rt_transition_keeps [simp, keeps]:
  "ctl (snd (rt_transition d r rt)) = ctl rt" "rt_backend (snd (rt_transition d r rt)) = rt_backend rt"
  "rt_body (snd (rt_transition d r rt)) = rt_body rt" "svcs (snd (rt_transition d r rt)) = svcs rt"
  "has_safety (snd (rt_transition d r rt)) = has_safety rt"
  "powers_off (snd (rt_transition d r rt)) = powers_off rt"
  "latch_file (snd (rt_transition d r rt)) = latch_file rt"
  by (simp_all add: rt_transition_def powers_off_def backend_power_def split: sum.split)

lemma boot_prologue_frame [simp]:
  "sys_view (boot_prologue rt) = sys_view rt" "powers_off (boot_prologue rt) = powers_off rt"
  "has_safety (boot_prologue rt) = has_safety rt"
  by (simp_all add: boot_prologue_def)

lemma contact_safety_frame:
  "sys_view (contact_safety rt) = sys_view rt" "powers_off rt \<Longrightarrow> powers_off (contact_safety rt)"
  by (simp_all add: contact_safety_def power_report_def case_prod_beta Let_def svc_activate_frame)

lemma check_body_frame [simp]:
  "sys_view (check_body rt) = sys_view rt" "powers_off (check_body rt) = powers_off rt"
  by (simp_all add: check_body_def Let_def split: option.split)

lemma start_drivers_frame:
  "sys_view (start_drivers rt) = sys_view rt" "powers_off rt \<Longrightarrow> powers_off (start_drivers rt)"
proof -
  have "sys_view (on_backend f rt) = sys_view rt" for f by (simp add: sys_view_def on_backend_def)
  then show "sys_view (start_drivers rt) = sys_view rt" by (simp add: start_drivers_def split: option.split)
  have "powers_off rt \<Longrightarrow> powers_off (on_backend backend_connect rt)"
    by (auto simp: powers_off_def backend_power_def power_enabled_def split: option.split)
  then show "powers_off rt \<Longrightarrow> powers_off (start_drivers rt)"
    by (simp add: start_drivers_def split: option.split)
qed

lemma boot_epilogue_facts:
  "cur_state (rt_state (snd (boot_epilogue rt))) = r_state (fst (boot_epilogue rt))"
  "r_state (fst (boot_epilogue rt)) \<in> {READY, DEGRADED, MOTION_INHIBITED, EMERGENCY_STOPPED}"
  "powers_off rt \<Longrightarrow> powers_off (snd (boot_epilogue rt))"
  using assess_state_range [of "report ''enter_safe_idle'' True [] rt"]
  by (simp_all add: boot_epilogue_def case_prod_beta refresh_facts)

subsection \<open>The latched emergency stop through boot\<close>

lemma estop_hooks:
  "c_estop (ctl rt) \<Longrightarrow> c_estop (ctl (snd (world_on_configure rt)))"
  "c_estop (ctl rt) \<Longrightarrow> c_estop (ctl (snd (memory_on_configure rt)))"
  "c_estop (ctl rt) \<Longrightarrow> c_estop (ctl (snd (update_on_configure rt)))"
  "c_estop (ctl rt) \<Longrightarrow> c_estop (ctl (snd (motion_on_configure rt)))"
  "c_estop (ctl rt) \<Longrightarrow> c_estop (ctl (snd (gw_on_configure rt)))"
  "c_estop (ctl rt) \<Longrightarrow> c_estop (ctl (snd (gw_on_activate rt)))"
  by (simp_all add: world_on_configure_def memory_on_configure_def update_on_configure_def case_prod_beta
      motion_on_configure_def gw_on_configure_def gw_on_activate_def load_latch_def Let_def disable_power_def
      ctl_engage_estop_def split: option.split sum.split)

interpretation hook_estop: hook_contract "service_hooks name" "\<lambda>rt. c_estop (ctl rt)" for name
  by unfold_locales (auto simp: service_hooks_def estop_hooks)

lemma svc_activate_estop: "c_estop (ctl rt) \<Longrightarrow> c_estop (ctl (snd (svc_activate n rt)))"
  using hook_estop.activate_svc_keeps [of rt n "service rt n"] by (simp add: svc_activate_def case_prod_beta)

lemma boot_services_estop: "c_estop (ctl rt) \<Longrightarrow> c_estop (ctl (fold boot_service ns rt))"
proof (rule fold_keeps)
  fix n and rt1 :: runtime
  assume "c_estop (ctl rt1)"
  then show "c_estop (ctl (boot_service n rt1))"
    by (rule boot_service_keeps [of "\<lambda>rt. c_estop (ctl rt)", rotated -1]) (simp_all add: svc_activate_estop)
qed

lemma gateway_activation_loads_latch:
  assumes "contents (latch_file rt) = Doc (Some d)" "latch_estop d"
    "svc_state (service rt ''safety_gateway'') = LC_UNCONFIGURED"
  shows "c_estop (ctl (snd (svc_activate ''safety_gateway'' rt)))"
proof -
  let ?h = "service_hooks ''safety_gateway''" and ?s = "service rt ''safety_gateway''"
  have h: "on_configure ?h = gw_on_configure" "on_activate ?h = gw_on_activate"
    by (simp_all add: service_hooks_def)
  obtain rt1 where c: "gw_on_configure rt = (Inr True, rt1)" and e: "c_estop (ctl rt1)"
    using configure_from_latch [OF assms(1)] assms(2) by (cases "gw_on_configure rt") auto
  obtain rt2 where a: "gw_on_activate rt1 = (Inr True, rt2)"
    by (simp add: gw_on_activate_def Let_def)
  have "c_estop (ctl rt2)" using estop_hooks(6) [OF e] a by simp
  then show ?thesis
    using assms(3) by (simp add: svc_activate_def activate_def configure_def guard_def h c a)
qed

lemma boot_ok:
  assumes "cur_state (rt_state rt) = POWERED_OFF" "has_safety rt"
  obtains rt1 rt2 rt3 where
    "rt_transition BOOTING ''boot start'' (rt\<lparr>boot_report := []\<rparr>) = (Inr (), rt1)"
    "rt_transition HARDWARE_CHECK ''safety contacted'' (contact_safety (boot_prologue rt1)) = (Inr (), rt2)"
    "rt_transition SAFE_IDLE ''boot checks complete''
       (fold boot_service ACTIVATION_ORDER (start_drivers (check_body rt2))) = (Inr (), rt3)"
    "boot rt = (Inr (fst (boot_epilogue rt3)), snd (boot_epilogue rt3))"
proof -
  let ?rt = "rt\<lparr>boot_report := []\<rparr>"
  obtain rt1 where t1: "rt_transition BOOTING ''boot start'' ?rt = (Inr (), rt1)"
    and s1: "cur_state (rt_state rt1) = BOOTING"
    using rt_transition_ok [of BOOTING ?rt "''boot start''"] assms(1)
    by (cases "rt_transition BOOTING ''boot start'' ?rt") simp
  have hs1: "has_safety rt1" using rt_transition_keeps(5) [of BOOTING "''boot start''" ?rt] t1 assms(2) by simp
  let ?c = "contact_safety (boot_prologue rt1)"
  have v1: "sys_view ?c = sys_view rt1" by (simp add: contact_safety_frame)
  obtain rt2 where t2: "rt_transition HARDWARE_CHECK ''safety contacted'' ?c = (Inr (), rt2)"
    and s2: "cur_state (rt_state rt2) = HARDWARE_CHECK"
    using rt_transition_ok [of HARDWARE_CHECK ?c "''safety contacted''"] s1 v1
    by (cases "rt_transition HARDWARE_CHECK ''safety contacted'' ?c") (simp add: sys_view_def)
  let ?f = "fold boot_service ACTIVATION_ORDER (start_drivers (check_body rt2))"
  have v2: "sys_view ?f = sys_view rt2" by (simp add: boot_services_frame start_drivers_frame)
  obtain rt3 where t3: "rt_transition SAFE_IDLE ''boot checks complete'' ?f = (Inr (), rt3)"
    using rt_transition_ok [of SAFE_IDLE ?f "''boot checks complete''"] s2 v2
    by (cases "rt_transition SAFE_IDLE ''boot checks complete'' ?f") (simp add: sys_view_def)
  have "boot rt = (Inr (fst (boot_epilogue rt3)), snd (boot_epilogue rt3))"
    unfolding boot_def t1 using hs1 t2 t3 by (simp add: Let_def case_prod_beta)
  with t1 t2 t3 show thesis by (rule that)
qed

lemma boot_powers_off_aux:
  assumes "rt_transition d r rt = (x, rt')" "powers_off rt"
  shows "powers_off rt'"
  using rt_transition_keeps(6) [of d r rt] assms by simp

lemma boot_latched:
  assumes "cur_state (rt_state rt) = POWERED_OFF" "has_safety rt"
    "contents (latch_file rt) = Doc (Some d)" "latch_estop d"
    "svc_state (service rt ''safety_gateway'') = LC_UNCONFIGURED"
  shows "\<exists>r. fst (boot rt) = Inr r \<and> r_state r = EMERGENCY_STOPPED"
proof (rule boot_ok [OF assms(1,2)])
  fix rt1 rt2 rt3
  assume t1: "rt_transition BOOTING ''boot start'' (rt\<lparr>boot_report := []\<rparr>) = (Inr (), rt1)"
    and t2: "rt_transition HARDWARE_CHECK ''safety contacted'' (contact_safety (boot_prologue rt1)) = (Inr (), rt2)"
    and t3: "rt_transition SAFE_IDLE ''boot checks complete''
       (fold boot_service ACTIVATION_ORDER (start_drivers (check_body rt2))) = (Inr (), rt3)"
    and b: "boot rt = (Inr (fst (boot_epilogue rt3)), snd (boot_epilogue rt3))"
  have latch: "contents (latch_file rt1) = Doc (Some d)" and sv: "svcs rt1 = svcs rt"
    using rt_transition_keeps(4,7) [of BOOTING "''boot start''" "rt\<lparr>boot_report := []\<rparr>"] t1 assms(3) by simp_all
  let ?p = "boot_prologue rt1"
  have "latch_file ?p = latch_file rt1" "svcs ?p = svcs rt"
    by (simp_all add: boot_prologue_def report_def sv)
  then have "c_estop (ctl (snd (svc_activate ''safety_gateway'' ?p)))"
    using latch assms(4,5) by (intro gateway_activation_loads_latch [of _ d]) (simp_all add: service_def)
  then have "c_estop (ctl (contact_safety ?p))"
    by (simp add: contact_safety_def power_report_def case_prod_beta Let_def)
  then have "c_estop (ctl rt2)"
    using rt_transition_keeps(1) [of HARDWARE_CHECK "''safety contacted''" "contact_safety ?p"] t2 by simp
  then have "c_estop (ctl (start_drivers (check_body rt2)))"
    by (simp add: start_drivers_def check_body_def Let_def split: option.split)
  then have "c_estop (ctl (fold boot_service ACTIVATION_ORDER (start_drivers (check_body rt2))))"
    by (rule boot_services_estop)
  then have e3: "c_estop (ctl rt3)"
    using rt_transition_keeps(1) [of SAFE_IDLE "''boot checks complete''"] t3 by (metis snd_conv)
  have "sys_view (fold boot_service ACTIVATION_ORDER (start_drivers (check_body rt2))) = sys_view rt2"
    by (simp add: boot_services_frame start_drivers_frame)
  moreover have "has_safety rt2 = has_safety rt"
    using rt_transition_keeps(5) [of HARDWARE_CHECK "''safety contacted''" "contact_safety ?p"] t2
      rt_transition_keeps(5) [of BOOTING "''boot start''" "rt\<lparr>boot_report := []\<rparr>"] t1
      contact_safety_frame(1) [of ?p] by (simp add: sys_view_def)
  ultimately have "has_safety rt3"
    using rt_transition_keeps(5) [of SAFE_IDLE "''boot checks complete''"] t3 assms(2)
    by (metis snd_conv sys_view_def fst_conv)
  with e3 have "r_state (fst (boot_epilogue rt3)) = EMERGENCY_STOPPED"
    by (simp add: boot_epilogue_def case_prod_beta refresh_facts assess_stopped)
  with b show ?thesis by simp
qed

subsection \<open>Shutdown\<close>

definition names_ok :: "runtime \<Rightarrow> bool" where
  "names_ok rt = (\<forall>n s. map_of (svcs rt) n = Some s \<longrightarrow> svc_name s = n)"

lemma service_name: "names_ok rt \<Longrightarrow> svc_name (service rt n) = n"
  by (auto simp: names_ok_def service_def dict_get_def new_service_def split: option.split)

lemma service_cong: "svcs rt = svcs rt' \<Longrightarrow> service rt n = service rt' n"
  by (simp add: service_def)

lemma shutdown_svc_state:
  "svc_state (fst (snd (shutdown_service h s w))) = LC_FINALIZED"
  "svc_name (fst (snd (shutdown_service h s w))) = svc_name s"
  by (simp_all add: shutdown_service_def deactivate_def case_prod_beta guard_service)

lemma svc_shutdown_facts:
  assumes "names_ok rt"
  shows "fst (svc_shutdown n rt) = Inr ()"
    "service (snd (svc_shutdown n rt)) m = (if m = n then service (snd (svc_shutdown n rt)) n else service rt m)"
    "svc_state (service (snd (svc_shutdown n rt)) n) = LC_FINALIZED"
    "names_ok (snd (svc_shutdown n rt))"
proof -
  let ?s = "service rt n" and ?h = "service_hooks n"
  let ?s1 = "fst (snd (shutdown_service ?h ?s rt))" and ?rt1 = "snd (snd (shutdown_service ?h ?s rt))"
  have sh: "snd (svc_shutdown n rt) = put_service ?s1 ?rt1"
    by (simp add: svc_shutdown_def case_prod_beta)
  have sv: "svcs ?rt1 = svcs rt"
    using hook_svcs.shutdown_svc_keeps [of rt "svcs rt" n ?s] by simp
  have nm: "svc_name ?s1 = n" by (simp add: shutdown_svc_state service_name [OF assms])
  have "on_cleanup ?h = trivial_hook" by (simp add: service_hooks_def)
  then show "fst (svc_shutdown n rt) = Inr ()"
    by (simp add: svc_shutdown_def shutdown_service_def case_prod_beta trivial_hook_def)
  show "service (snd (svc_shutdown n rt)) m = (if m = n then service (snd (svc_shutdown n rt)) n else service rt m)"
    using service_cong [OF sv, of m] by (simp add: sh nm)
  show "svc_state (service (snd (svc_shutdown n rt)) n) = LC_FINALIZED"
    by (simp add: sh nm shutdown_svc_state(1))
  show "names_ok (snd (svc_shutdown n rt))"
    using assms nm by (simp add: sh names_ok_def put_service_def sv)
qed

lemma shutdown_all_facts:
  assumes "names_ok rt"
  shows "fst (shutdown_all ns rt) = Inr () \<and> sys_view (snd (shutdown_all ns rt)) = sys_view rt
    \<and> (\<forall>n. (n \<in> set ns \<or> svc_state (service rt n) = LC_FINALIZED) \<longrightarrow>
         svc_state (service (snd (shutdown_all ns rt)) n) = LC_FINALIZED)"
  using assms
proof (induction ns arbitrary: rt)
  case (Cons n ns)
  let ?rt1 = "snd (svc_shutdown n rt)"
  note f = svc_shutdown_facts [OF Cons.prems, of n]
  have all: "shutdown_all (n # ns) rt = shutdown_all ns ?rt1"
    using f(1) by (cases "svc_shutdown n rt") simp
  note ih = Cons.IH [OF f(4)]
  have "svc_state (service ?rt1 m) = LC_FINALIZED"
    if "m = n \<or> svc_state (service rt m) = LC_FINALIZED" for m
    using that f(2) [of m] f(3) by (cases "m = n") simp_all
  with ih show ?case unfolding all by (auto simp: svc_shutdown_frame)
qed simp

section \<open>An active example system\<close>

text \<open>The example system with every service ACTIVE, as after a successful boot.\<close>

definition active_rt :: runtime where
  "active_rt = example_rt\<lparr>svcs := map (\<lambda>n. (n, (new_service n)\<lparr>svc_state := LC_ACTIVE\<rparr>)) SERVICE_NAMES,
     rt_state := init_machine READY\<rparr>"

lemma active_services: "has_service active_rt n \<Longrightarrow> svc_state (service active_rt n) = LC_ACTIVE"
  by (auto simp: has_service_def service_def active_rt_def map_of_map_restrict restrict_map_def dict_get_def
      split: if_splits)

lemma active_fields [simp]:
  "ctl active_rt = init_controller 1 1" "rt_backend active_rt = Some (SimulationBackend example_body)"
  "rt_body active_rt = Some example_body" "has_safety active_rt" "has_supervisor active_rt"
  "clk active_rt = (\<lambda>n. 1 + real n / 10)" "ticks active_rt = 1" "rt_state active_rt = init_machine READY"
  "rt_world active_rt = init_world fresh_file"
  by (simp_all add: active_rt_def example_rt_def example_env_def)

lemma active_has_service: "n \<in> set SERVICE_NAMES \<Longrightarrow> has_service active_rt n"
  by (simp add: has_service_def active_rt_def map_of_map_restrict)

lemma example_no_fatal: "fatal_issues (issues example_body) = []"
  using placeholder_issue_not_fatal by (simp add: fatal_issues_def example_body_def)

lemma example_body_fit: "body_fit example_body (Some (SimulationBackend example_body))"
proof -
  have "sr_ok (read_sensor (SimulationBackend example_body) sid)" for sid
    by (simp add: read_sensor_def dropout_def SimulationBackend_def init_sim_def Let_def)
  moreover have "\<forall>a \<in> snd ` set (read_all_actuators (SimulationBackend example_body)). a_fault_code a = []"
    by (simp add: read_all_actuators_def dict_of_def actuator_names_def SimulationBackend_def init_sim_def
        Let_def example_body_defs read_actuator_def read_temp_def motor_fault_temp_def dict_get_def AMBIENT_C_def)
  moreover have "battery_motion_minimum (limits example_body) \<le> bt_percent (battery (SimulationBackend example_body))"
    by (simp add: battery_motion_minimum_def battery_def SimulationBackend_def init_sim_def Let_def
        example_body_defs dict_get_def)
  moreover have "set (required_actuators (manifest example_body)) \<subseteq> set (actuator_names (SimulationBackend example_body))"
    "sim_bus (SimulationBackend example_body) = None"
    by (simp_all add: actuator_names_def SimulationBackend_def init_sim_def Let_def)
  ultimately show ?thesis using example_no_fatal by (simp add: body_fit_def)
qed

lemma active_ready: "motion_ready (active_rt\<lparr>rt_state := st\<rparr>)"
proof -
  let ?rt = "active_rt\<lparr>rt_state := st\<rparr>"
  have "healthy_now (snd (estop_engaged ?rt))"
    by (simp add: healthy_now_def init_controller_def)
  moreover have "\<forall>n. has_service ?rt n \<longrightarrow> svc_state (service ?rt n) = LC_ACTIVE"
    using active_services by (simp add: has_service_def service_def)
  ultimately show ?thesis
    by (simp add: motion_ready_def init_controller_def example_body_fit)
qed

section \<open>Properties\<close>

text \<open>C10. Readiness permits motion exactly when every check passes: the safety gateway exists, no
  emergency stop is engaged, the controller is healthy, every registered motion-critical service
  is ACTIVE, and the loaded body has no fatal issue and, with a backend, enough charge, all
  required actuators, responding required sensors, no actuator fault and an online bus. In every
  other case the assessment names at least one reason.\<close>

theorem readiness_exact:
  "(r_state (fst (assess_readiness rt)) \<in> set MOTION_ALLOWED_FROM \<longleftrightarrow> motion_ready rt)
   \<and> (inhibit_reasons (fst (assess_readiness rt)) = [] \<longleftrightarrow> motion_ready rt)"
proof -
  have "inhibit_reasons (fst (assess_readiness rt)) = [] \<longleftrightarrow> motion_ready rt"
    by (cases "has_safety rt"; cases "c_estop (ctl rt)")
      (auto simp: assess_stopped assess_running assess_no_safety classify_state motion_ready_def
        critical_reasons_Nil body_reasons_Nil)
  with assess_allowed_iff show ?thesis by blast
qed

lemma boot_settles:
  assumes "cur_state (rt_state rt) = POWERED_OFF" "has_safety rt" "powers_off rt"
  shows "\<exists>r. fst (boot rt) = Inr r \<and> cur_state (rt_state (snd (boot rt))) = r_state r
    \<and> r_state r \<in> {READY, DEGRADED, MOTION_INHIBITED, EMERGENCY_STOPPED} \<and> powers_off (snd (boot rt))"
proof (rule boot_ok [OF assms(1,2)])
  fix rt1 rt2 rt3
  assume t1: "rt_transition BOOTING ''boot start'' (rt\<lparr>boot_report := []\<rparr>) = (Inr (), rt1)"
    and t2: "rt_transition HARDWARE_CHECK ''safety contacted'' (contact_safety (boot_prologue rt1)) = (Inr (), rt2)"
    and t3: "rt_transition SAFE_IDLE ''boot checks complete''
       (fold boot_service ACTIVATION_ORDER (start_drivers (check_body rt2))) = (Inr (), rt3)"
    and b: "boot rt = (Inr (fst (boot_epilogue rt3)), snd (boot_epilogue rt3))"
  have "powers_off (rt\<lparr>boot_report := []\<rparr>)" using assms(3) by (simp add: powers_off_def backend_power_def)
  then have "powers_off rt1" by (rule boot_powers_off_aux [OF t1])
  then have "powers_off rt2" by (intro boot_powers_off_aux [OF t2] contact_safety_frame) simp
  then have "powers_off rt3"
    by (intro boot_powers_off_aux [OF t3] boot_services_frame start_drivers_frame) simp
  with b boot_epilogue_facts [of rt3] show ?thesis by simp
qed

text \<open>C9. Boot never enables movement: from POWERED_OFF with both contactors open, the boot sequence
  does not raise, ends in exactly the state its readiness assessment names (one of READY,
  DEGRADED, MOTION_INHIBITED, EMERGENCY_STOPPED), and leaves both contactors open.\<close>

theorem boot_settles_with_power_off:
  assumes "cur_state (rt_state rt) = POWERED_OFF" "has_safety rt" "powers_off rt"
  shows "\<exists>r. fst (boot rt) = Inr r \<and> cur_state (rt_state (snd (boot rt))) = r_state r
    \<and> r_state r \<in> {READY, DEGRADED, MOTION_INHIBITED, EMERGENCY_STOPPED} \<and> powers_off (snd (boot rt))"
  using assms by (rule boot_settles)

theorem boot_settles_with_power_off_witness:
  "\<exists>r. fst (boot example_rt) = Inr r \<and> cur_state (rt_state (snd (boot example_rt))) = r_state r
    \<and> powers_off (snd (boot example_rt))"
proof -
  have "cur_state (rt_state example_rt) = POWERED_OFF" "has_safety example_rt" "powers_off example_rt"
    by (simp_all add: example_rt_def init_machine_def powers_off_def backend_power_def power_enabled_def
        init_controller_def SimulationBackend_def init_sim_def Let_def)
  from boot_settles_with_power_off [OF this] show ?thesis by blast
qed

text \<open>C23. Shutdown is complete: it never raises, finalizes every registered service, opens the
  backend's contactor and ends in POWERED_OFF.\<close>

theorem shutdown_completes:
  assumes "names_ok rt"
  shows "fst (request_shutdown rt) = Inr () \<and> \<not> backend_power (snd (request_shutdown rt))
    \<and> cur_state (rt_state (snd (request_shutdown rt))) = POWERED_OFF
    \<and> (\<forall>n. has_service rt n \<longrightarrow> svc_state (service (snd (request_shutdown rt)) n) = LC_FINALIZED)"
proof -
  let ?rt1 = "if cur_state (rt_state rt) \<noteq> SHUTTING_DOWN
              then rt\<lparr>rt_state := force (rt_state rt) SHUTTING_DOWN ''shutdown requested''\<rparr> else rt"
  let ?ns = "rev (map fst (svcs ?rt1))"
  have names: "names_ok ?rt1" using assms by (simp add: names_ok_def)
  note all = shutdown_all_facts [OF names, of ?ns]
  let ?rt2 = "snd (shutdown_all ?ns ?rt1)"
  let ?rt3 = "(on_backend backend_shutdown ?rt2)"
  have req: "request_shutdown rt = (Inr (), ?rt3\<lparr>rt_state := force (rt_state ?rt3) POWERED_OFF ''shutdown complete''\<rparr>)"
    using all unfolding request_shutdown_def Let_def by (cases "shutdown_all ?ns ?rt1") simp
  have "\<not> backend_power (?rt3\<lparr>rt_state := st\<rparr>)" for st
    by (cases "rt_backend ?rt2") (simp_all add: backend_power_def power_enabled_def backend_shutdown_def)
  moreover have "svc_state (service ?rt2 n) = LC_FINALIZED" if "has_service rt n" for n
  proof -
    have "n \<in> set ?ns" using that by (auto simp: has_service_def map_of_eq_None_iff)
    then show ?thesis using all by blast
  qed
  then have "svc_state (service (?rt3\<lparr>rt_state := st\<rparr>) n) = LC_FINALIZED" if "has_service rt n" for n st
    using that by (simp add: service_def)
  ultimately show ?thesis unfolding req by simp
qed

theorem shutdown_completes_witness:
  "svc_state (service (snd (request_shutdown active_rt)) ''motion'') = LC_FINALIZED
   \<and> \<not> backend_power (snd (request_shutdown active_rt))"
proof -
  have "names_ok active_rt"
    by (auto simp: names_ok_def active_rt_def map_of_map_restrict restrict_map_def new_service_def split: if_splits)
  moreover have "has_service active_rt ''motion''"
    by (rule active_has_service) (simp add: SERVICE_NAMES_def)
  ultimately show ?thesis using shutdown_completes [of active_rt] by blast
qed

text \<open>A readiness refresh can leave an emergency stop without recovery: when the checks pass while
  the system state is still EMERGENCY_STOPPED (the latch was reset), \<open>refresh\<close> forces the state
  straight to READY or DEGRADED, an edge the transition graph does not have.\<close>

theorem refresh_bypasses_recovery:
  assumes "cur_state (rt_state rt) = EMERGENCY_STOPPED" "motion_ready rt"
  shows "\<exists>dst \<in> {READY, DEGRADED}. cur_state (rt_state (snd (refresh rt))) = dst
    \<and> last (history (rt_state (snd (refresh rt)))) = (EMERGENCY_STOPPED, dst, ''FORCED: readiness settle'')
    \<and> dst \<notin> set (TRANSITIONS EMERGENCY_STOPPED)"
proof -
  let ?dst = "r_state (fst (assess_readiness rt))"
  have d: "?dst \<in> {READY, DEGRADED}"
    using assess_allowed_iff [of rt] assess_state_range [of rt] assms(2) by (auto simp: MOTION_ALLOWED_FROM_def)
  have "cur_state (rt_state (snd (refresh rt))) = ?dst" by (rule refresh_facts)
  moreover have "last (history (rt_state (snd (refresh rt)))) = (EMERGENCY_STOPPED, ?dst, ''FORCED: readiness settle'')"
    using d assms(1)
    by (auto simp: refresh_def case_prod_beta settle_def Let_def can_transition_def force_def)
  ultimately show ?thesis using d by auto
qed

theorem refresh_bypasses_recovery_witness:
  "cur_state (rt_state (snd (refresh (active_rt\<lparr>rt_state := init_machine EMERGENCY_STOPPED\<rparr>)))) \<in> {READY, DEGRADED}"
proof -
  have "cur_state (rt_state (active_rt\<lparr>rt_state := init_machine EMERGENCY_STOPPED\<rparr>)) = EMERGENCY_STOPPED"
    by (simp add: init_machine_def)
  from refresh_bypasses_recovery [OF this active_ready] show ?thesis by blast
qed

end
