(* ===== verification/Broker.thy ===== *)
theory Broker
  imports Supervisor
begin

text \<open>
  The command broker, \<open>language/broker.py\<close>: the single gate between a proposed intent and the
  executive. A decision records the checks in order; validation threads the runtime because the
  readiness assessment contacts the safety controller.

  Argument values are dynamic; a destination is looked up by its printed form, as \<open>_norm\<close> does.
  The facts: what an approval implies for motion and for administrative tools, that validation
  changes nothing but the controller's clock and can only open its contactor, and that the
  decision does not look at the system state.
\<close>

section \<open>Decisions\<close>

datatype outcome = APPROVED | REJECTED | CONFIRM

fun outcome_value :: "outcome \<Rightarrow> string" where
  "outcome_value APPROVED = ''approved''"
| "outcome_value REJECTED = ''rejected''"
| "outcome_value CONFIRM = ''confirmation_required''"

record check =
  ck_name :: string
  ck_ok :: bool
  ck_detail :: string

record decision =
  dec_outcome :: outcome
  dec_intent :: structured_intent
  dec_tool :: "tool_spec option"
  dec_reason :: string
  dec_prompt :: string
  dec_checks :: "check list"

definition approved :: "decision \<Rightarrow> bool" where
  "approved d = (dec_outcome d = APPROVED)"

definition decision_to_dict :: "decision \<Rightarrow> pydict" where
  "decision_to_dict d =
     [(''outcome'', PStr (outcome_value (dec_outcome d))), (''intent'', PStr (i_intent (dec_intent d))),
      (''reason'', PStr (dec_reason d)),
      (''checks'', PList (map (\<lambda>c. PDict [(''name'', PStr (ck_name c)), (''ok'', PBool (ck_ok c)),
                                         (''detail'', PStr (ck_detail c))]) (dec_checks d)))]"

section \<open>The gates\<close>

definition spaced :: "string \<Rightarrow> string" where
  "spaced s = map (\<lambda>c. if c = CHR ''_'' then CHR '' '' else c) s"

definition capability_ok :: "runtime \<Rightarrow> tool_spec \<Rightarrow> bool \<times> string" where
  "capability_ok rt tool =
     (case rt_body rt of
        None \<Rightarrow> (False, ''no body is loaded'')
      | Some body \<Rightarrow>
          (case required_capability tool of
             None \<Rightarrow> (True, ''no capability required'')
           | Some cap \<Rightarrow>
               if cap = ''locomotion'' then
                 (if \<not> supports_motion (caps body)
                  then (False, ''this body ('' @ m_name (manifest body) @ '') cannot move; it has no locomotion capability'')
                  else (True, ''locomotion available''))
               else if has_perception (caps body) cap then (True, cap @ '' available'')
               else if has_manipulation (caps body) cap then (True, cap @ '' available'')
               else (False, ''this body does not have '' @ spaced cap)))"

definition destination_of :: "structured_intent \<Rightarrow> tool_spec \<Rightarrow> pyval" where
  "destination_of intent tool =
     (if tool_name tool = ''navigation.go_charge'' then PStr ''charging station''
      else dict_get (i_arguments intent) ''destination'' PNone)"

definition destination_ok :: "runtime \<Rightarrow> structured_intent \<Rightarrow> tool_spec \<Rightarrow> bool \<times> string" where
  "destination_ok rt intent tool =
     (if \<not> has_service rt ''navigation'' then (False, ''navigation service unavailable'')
      else
        let dest = destination_of intent tool;
            name = py_str (float_repr rt) dest
        in if \<not> truthy dest then
             (if tool_name tool = ''inspect.named_target'' then (True, ''inspect in current position'')
              else (False, ''no destination was specified''))
           else if resolve rt name = None then
             (False, py_repr (float_repr rt) dest @ '' is not a known destination. Known places: ''
                @ (let known = join '', '' (known_places rt) in if known \<noteq> [] then known else ''none''))
           else if \<not> fst (traversable rt name) then (False, snd (traversable rt name))
           else (True, name @ '' is reachable''))"

definition motion_permitted_check :: "runtime \<Rightarrow> (bool \<times> string) \<times> runtime" where
  "motion_permitted_check rt =
     (if has_supervisor rt then
        (case assess_readiness rt of (r, rt1) \<Rightarrow>
           if r_state r \<in> set MOTION_ALLOWED_FROM then ((True, ''motion permitted''), rt1)
           else ((False, join ''; '' (if inhibit_reasons r \<noteq> [] then inhibit_reasons r
                                      else [''state is '' @ state_value (r_state r)])), rt1))
      else if motion_permitted (rt_state rt) then ((True, ''motion permitted''), rt)
      else ((False, ''motion not permitted in state '' @ state_value (cur_state (rt_state rt))), rt))"

definition confirm_prompt :: "(real \<Rightarrow> string) \<Rightarrow> tool_spec \<Rightarrow> structured_intent \<Rightarrow> string" where
  "confirm_prompt fr tool intent =
     (let args = join '', '' (map (\<lambda>(k, v). k @ ''='' @ py_str fr v) (i_arguments intent));
          detail = (if args \<noteq> [] then '' ('' @ args @ '')'' else [])
      in ''This will '' @ (if tool_description tool \<noteq> [] then tool_description tool else tool_name tool)
           @ detail @ ''. Confirm? [yes/no]'')"

definition PERSONAL_WORDS :: "string list" where
  "PERSONAL_WORDS = [''my name'', ''i am '', ''person'', ''phone'', ''address'', ''password'']"

definition needs_confirmation :: "runtime \<Rightarrow> tool_spec \<Rightarrow> structured_intent \<Rightarrow> bool \<times> string" where
  "needs_confirmation rt tool intent =
     (let fr = float_repr rt; prompt = confirm_prompt fr tool intent in
      case confirmation tool of
        ConfirmNone \<Rightarrow> (False, [])
      | Required \<Rightarrow> (True, prompt)
      | Conditional \<Rightarrow>
          if risk_of tool = Motion then
            (let dest = dict_get (i_arguments intent) ''destination'' (PStr []);
                 near_stairs = contains ''stair'' (lower (py_str fr dest));
                 newly = (truthy dest \<and> has_service rt ''navigation'' \<and> resolve rt (py_str fr dest) = None)
             in if near_stairs \<or> newly \<or> i_requested_speed intent \<noteq> ''cautious'' then (True, prompt)
                else (False, []))
          else if tool_name tool \<in> {''memory.remember'', ''memory.store_place''} then
            (let text = lower (join '' '' (map (py_str fr \<circ> snd) (i_arguments intent)))
             in if list_ex (\<lambda>w. contains w text) PERSONAL_WORDS then (True, prompt) else (False, []))
          else (False, []))"

definition mk_check :: "string \<Rightarrow> bool \<Rightarrow> string \<Rightarrow> check" where
  "mk_check n ok d = \<lparr>ck_name = n, ck_ok = ok, ck_detail = d\<rparr>"

definition decide ::
  "outcome \<Rightarrow> structured_intent \<Rightarrow> tool_spec option \<Rightarrow> string \<Rightarrow> string \<Rightarrow> check list \<Rightarrow> decision" where
  "decide oc intent tool reason prompt checks =
     \<lparr>dec_outcome = oc, dec_intent = intent, dec_tool = tool, dec_reason = reason,
      dec_prompt = prompt, dec_checks = checks\<rparr>"

text \<open>Gate 7, confirmation, after all the others have passed.\<close>

definition confirm_gate ::
  "structured_intent \<Rightarrow> tool_spec \<Rightarrow> bool \<Rightarrow> check list \<Rightarrow> runtime \<Rightarrow> decision \<times> runtime" where
  "confirm_gate intent tool confirmed cs rt =
     (case needs_confirmation rt tool intent of (need, cprompt) \<Rightarrow>
        let cs1 = cs @ [mk_check ''confirmation'' (\<not> need) (if need then cprompt else ''not required'')]
        in if need \<and> \<not> confirmed
           then (decide CONFIRM intent (Some tool) ''confirmation required'' cprompt cs1, rt)
           else (decide APPROVED intent (Some tool) ''approved'' [] cs1, rt))"

text \<open>Gates 4 to 6, for a tool that requires motion.\<close>

definition motion_gate ::
  "structured_intent \<Rightarrow> tool_spec \<Rightarrow> bool \<Rightarrow> check list \<Rightarrow> runtime \<Rightarrow> decision \<times> runtime" where
  "motion_gate intent tool confirmed cs rt =
     (case destination_ok rt intent tool of (dest_ok, dest_reason) \<Rightarrow>
        let cs1 = cs @ [mk_check ''destination'' dest_ok dest_reason] in
        if \<not> dest_ok then (decide REJECTED intent (Some tool) dest_reason [] cs1, rt)
        else
          (case motion_permitted_check rt of ((move_ok, move_reason), rt1) \<Rightarrow>
             let cs2 = cs1 @ [mk_check ''motion_permitted'' move_ok move_reason] in
             if \<not> move_ok then (decide REJECTED intent (Some tool) move_reason [] cs2, rt1)
             else confirm_gate intent tool confirmed cs2 rt1))"

definition validate ::
  "registry \<Rightarrow> structured_intent \<Rightarrow> user \<Rightarrow> bool \<Rightarrow> runtime \<Rightarrow> decision \<times> runtime" where
  "validate reg intent user confirmed rt =
     (case get_tool reg (i_intent intent) of
        None \<Rightarrow>
          (decide REJECTED intent None
             (if i_intent intent \<noteq> ''unknown'' then ''I do not have a registered action for that request.''
              else ''I did not understand that request.'') []
             [mk_check ''registered'' False (i_intent intent)], rt)
      | Some tool \<Rightarrow>
          let cs1 = [mk_check ''registered'' True (tool_name tool)] in
          if always_available tool then
            (decide APPROVED intent (Some tool) ''approved'' [] (cs1 @ [mk_check ''always_available'' True []]), rt)
          else
            (case authorize user (min_role_rank tool) of (ok, detail) \<Rightarrow>
               let cs2 = cs1 @ [mk_check ''authorization'' ok detail] in
               if \<not> ok then (decide REJECTED intent (Some tool) detail [] cs2, rt)
               else
                 (case capability_ok rt tool of (cap_ok, cap_reason) \<Rightarrow>
                    let cs3 = cs2 @ [mk_check ''capability'' cap_ok cap_reason] in
                    if \<not> cap_ok then (decide REJECTED intent (Some tool) cap_reason [] cs3, rt)
                    else if requires_motion tool then motion_gate intent tool confirmed cs3 rt
                    else confirm_gate intent tool confirmed cs3 rt)))"

section \<open>Facts\<close>

lemma dec_outcome_decide [simp]: "dec_outcome (decide oc i t r p cs) = oc"
  by (simp add: decide_def)

lemma confirm_gate_facts:
  "snd (confirm_gate i t c cs rt) = rt"
  "dec_outcome (fst (confirm_gate i t c cs rt)) = APPROVED \<longleftrightarrow> (fst (needs_confirmation rt t i) \<longrightarrow> c)"
  by (simp_all add: confirm_gate_def case_prod_beta Let_def)

lemma permitted_snd:
  "snd (motion_permitted_check rt) = (if has_supervisor rt then snd (assess_readiness rt) else rt)"
  by (simp add: motion_permitted_check_def case_prod_beta)

lemma permitted_ready:
  "has_supervisor rt \<Longrightarrow> fst (fst (motion_permitted_check rt)) \<longleftrightarrow> motion_ready rt"
  using assess_allowed_iff [of rt] by (simp add: motion_permitted_check_def case_prod_beta)

lemma motion_gate_snd:
  "snd (motion_gate i t c cs rt) = rt \<or> snd (motion_gate i t c cs rt) = snd (motion_permitted_check rt)"
  by (simp add: motion_gate_def case_prod_beta Let_def confirm_gate_facts)

lemma motion_gate_approved:
  "dec_outcome (fst (motion_gate i t c cs rt)) = APPROVED \<longleftrightarrow>
     fst (destination_ok rt i t) \<and> fst (fst (motion_permitted_check rt))
     \<and> (fst (needs_confirmation (snd (motion_permitted_check rt)) t i) \<longrightarrow> c)"
  by (simp add: motion_gate_def case_prod_beta Let_def confirm_gate_facts)

lemma validate_snd:
  "snd (validate reg i u c rt) = rt \<or> snd (validate reg i u c rt) = snd (motion_permitted_check rt)"
  using motion_gate_snd [of i _ c _ rt]
  by (auto simp: validate_def case_prod_beta Let_def confirm_gate_facts split: option.split)

lemma validate_approved_iff:
  assumes "get_tool reg (i_intent i) = Some tool"
  shows "dec_outcome (fst (validate reg i u c rt)) = APPROVED \<longleftrightarrow>
     always_available tool \<or>
     (min_role_rank tool \<le> rank (user_role u) \<and> fst (capability_ok rt tool) \<and>
      (if requires_motion tool
       then fst (destination_ok rt i tool) \<and> fst (fst (motion_permitted_check rt))
            \<and> (fst (needs_confirmation (snd (motion_permitted_check rt)) tool i) \<longrightarrow> c)
       else fst (needs_confirmation rt tool i) \<longrightarrow> c))"
  using assms
  by (auto simp: validate_def case_prod_beta Let_def confirm_gate_facts motion_gate_approved authorize_iff)

lemma capability_locomotion:
  "required_capability tool = Some ''locomotion'' \<Longrightarrow>
     fst (capability_ok rt tool) \<longleftrightarrow> (\<exists>body. rt_body rt = Some body \<and> supports_motion (caps body))"
  by (auto simp: capability_ok_def split: option.split)

lemma destination_ok_iff:
  "fst (destination_ok rt i tool) \<longleftrightarrow> has_service rt ''navigation'' \<and>
     (if truthy (destination_of i tool)
      then resolve rt (py_str (float_repr rt) (destination_of i tool)) \<noteq> None
           \<and> fst (traversable rt (py_str (float_repr rt) (destination_of i tool)))
      else tool_name tool = ''inspect.named_target'')"
  by (auto simp: destination_ok_def Let_def)

lemma needs_confirmation_required: "confirmation tool = Required \<Longrightarrow> fst (needs_confirmation rt tool i)"
  by (simp add: needs_confirmation_def Let_def)

lemma default_shape:
  assumes "get_tool (tool_registry None) n = Some t"
  shows "(requires_motion t \<longrightarrow> required_capability t = Some ''locomotion'' \<and> 1 \<le> min_role_rank t
            \<and> \<not> always_available t \<and> risk_of t = Motion)
    \<and> (risk_of t = Administrative \<longrightarrow> confirmation t = Required \<and> min_role_rank t = 3 \<and> \<not> always_available t)
    \<and> (always_available t \<longrightarrow> risk_of t = RiskNone \<and> min_role_rank t = 0)"
  using default_tools_shape default_tool_mem [OF assms] unfolding list_all_iff by blast

lemma operator_rank: "1 \<le> rank r \<longleftrightarrow> Operator \<le> r"
  by (cases r) (simp_all add: less_eq_role_def)

lemma owner_rank: "3 \<le> rank r \<longleftrightarrow> r = Owner"
  by (cases r) simp_all

text \<open>The system state is invisible to the assessment and hence to the broker.\<close>

lemma healthy_now_state [simp]: "healthy_now (rt\<lparr>rt_state := st\<rparr>) = healthy_now rt"
  by (simp add: healthy_now_def)

lemma gw_ctl_status_state: "snd (gw_ctl_status (rt\<lparr>rt_state := st\<rparr>)) = (snd (gw_ctl_status rt))\<lparr>rt_state := st\<rparr>"
  by (simp add: gw_ctl_status_def now_def case_prod_beta)

lemma reasons_state [simp]:
  "critical_reasons (rt\<lparr>rt_state := st\<rparr>) = critical_reasons rt"
  "body_reasons (rt\<lparr>rt_state := st\<rparr>) = body_reasons rt"
  by (rule reasons_cong; simp)+

lemma assess_state_independent:
  "fst (assess_readiness (rt\<lparr>rt_state := st\<rparr>)) = fst (assess_readiness rt)"
proof (cases "has_safety rt \<and> \<not> c_estop (ctl rt)")
  case True
  then show ?thesis
    using assess_running [of rt] assess_running [of "rt\<lparr>rt_state := st\<rparr>"]
    by (simp add: gw_ctl_status_state)
next
  case False
  then show ?thesis
    using assess_stopped [of rt] assess_stopped [of "rt\<lparr>rt_state := st\<rparr>"]
      assess_no_safety [of rt] assess_no_safety [of "rt\<lparr>rt_state := st\<rparr>"]
    by (cases "has_safety rt") simp_all
qed

section \<open>Properties\<close>

text \<open>C6. An approved motion request has passed every gate: with the default tools and a supervisor,
  an approval of a tool that requires motion implies that the user is at least an operator, the
  loaded body has locomotion, the readiness assessment permits motion (no emergency stop, healthy
  controller, active critical services, fit body), the destination (if one is needed) is a known,
  traversable and unrestricted place, and a confirmation was given where one is needed.\<close>

theorem approved_motion_passed_all_gates:
  assumes "dec_outcome (fst (validate (tool_registry None) i u c rt)) = APPROVED"
    "get_tool (tool_registry None) (i_intent i) = Some tool" "requires_motion tool" "has_supervisor rt"
  shows "Operator \<le> user_role u \<and> motion_ready rt
    \<and> (\<exists>body. rt_body rt = Some body \<and> supports_motion (caps body))
    \<and> (let dest = destination_of i tool; name = py_str (float_repr rt) dest in
         if truthy dest then get_place (rt_world rt) name \<noteq> None \<and> \<not> is_restricted (rt_world rt) name
         else tool_name tool = ''inspect.named_target'')
    \<and> (c \<or> \<not> fst (needs_confirmation (snd (motion_permitted_check rt)) tool i))"
proof -
  note shape = default_shape [OF assms(2)]
  have all: "min_role_rank tool \<le> rank (user_role u)" "fst (capability_ok rt tool)"
    "fst (destination_ok rt i tool)" "fst (fst (motion_permitted_check rt))"
    "fst (needs_confirmation (snd (motion_permitted_check rt)) tool i) \<longrightarrow> c"
    using assms(1,3) shape unfolding validate_approved_iff [OF assms(2)] by auto
  have "Operator \<le> user_role u" using all(1) shape assms(3) operator_rank [of "user_role u"] by linarith
  moreover have "\<exists>body. rt_body rt = Some body \<and> supports_motion (caps body)"
    using all(2) shape assms(3) capability_locomotion [of tool rt] by blast
  moreover have "motion_ready rt" using all(4) permitted_ready [OF assms(4)] by blast
  moreover have "let dest = destination_of i tool; name = py_str (float_repr rt) dest in
         if truthy dest then get_place (rt_world rt) name \<noteq> None \<and> \<not> is_restricted (rt_world rt) name
         else tool_name tool = ''inspect.named_target''"
    using all(3) by (auto simp: destination_ok_iff resolve_iff traversable_iff Let_def split: if_splits)
  ultimately show ?thesis using all(5) by blast
qed

definition example_operator :: user where
  "example_operator = \<lparr>user_name = ''op'', user_role = Operator, display_name = []\<rparr>"

definition example_navigate :: structured_intent where
  "example_navigate = (mk_intent ''navigation.navigate_to'' [(''destination'', PStr ''Workshop'')])
     \<lparr>i_requested_speed := ''cautious''\<rparr>"

definition navigate_tool :: tool_spec where
  "navigate_tool =
     \<lparr>tool_name = ''navigation.navigate_to'', risk_of = Motion, requires_motion = True,
      required_capability = Some ''locomotion'', confirmation = Conditional,
      min_role_rank = RANK_OPERATOR, always_available = False,
      tool_description = ''navigate to a named place''\<rparr>"

lemma navigate_tool_mem: "navigate_tool \<in> set default_tools"
  by (simp add: navigate_tool_def default_tools_def)

lemma get_navigate_tool: "get_tool (tool_registry None) ''navigation.navigate_to'' = Some navigate_tool"
  using get_default_tool [OF navigate_tool_mem] by (simp add: navigate_tool_def)

lemma workshop_place: "get_place (init_world f) ''Workshop'' = Some \<lparr>pl_x = 4, pl_y = 1, pl_kind = ''room''\<rparr>"
proof -
  have "norm_words ''Workshop'' = ''workshop''" by code_simp
  then show ?thesis by (simp add: get_place_def init_world_def DEFAULT_WORLD_def)
qed

lemma example_caps_motion: "supports_motion (caps example_body)"
  by (simp add: example_body_defs supports_motion_def can_do_def locomotion_mode_def
      cap_get_def category_def dict_get_def)

lemma active_service_mem:
  "has_service (active_rt\<lparr>rt_state := st\<rparr>) ''navigation''" "has_service (active_rt\<lparr>rt_state := st\<rparr>) ''world_model''"
  using active_has_service [of "''navigation''"] active_has_service [of "''world_model''"]
  by (simp_all add: SERVICE_NAMES_def has_service_def)

lemma navigate_destination: "fst (destination_ok (active_rt\<lparr>rt_state := st\<rparr>) example_navigate navigate_tool)"
proof -
  let ?rt = "active_rt\<lparr>rt_state := st\<rparr>"
  have d: "destination_of example_navigate navigate_tool = PStr ''Workshop''"
    by (simp add: destination_of_def example_navigate_def navigate_tool_def mk_intent_def dict_get_def)
  have "get_place (rt_world ?rt) ''Workshop'' = Some \<lparr>pl_x = 4, pl_y = 1, pl_kind = ''room''\<rparr>"
    by (simp add: workshop_place)
  moreover have "\<not> is_restricted (rt_world ?rt) ''Workshop''"
    by (simp add: is_restricted_def init_world_def DEFAULT_WORLD_def)
  ultimately show ?thesis
    using active_service_mem [of st] example_caps_motion
    by (simp add: destination_ok_iff d py_str_def resolve_def traversable_iff)
qed

lemma navigate_no_confirmation:
  assumes "has_service rt ''world_model''" "get_place (rt_world rt) ''Workshop'' \<noteq> None"
  shows "\<not> fst (needs_confirmation rt navigate_tool example_navigate)"
proof -
  have d: "dict_get (i_arguments example_navigate) ''destination'' (PStr []) = PStr ''Workshop''"
    by (simp add: example_navigate_def mk_intent_def dict_get_def)
  have s: "i_requested_speed example_navigate = ''cautious''" by (simp add: example_navigate_def)
  have c: "\<not> contains ''stair'' (lower ''Workshop'')" by code_simp
  have r: "resolve rt ''Workshop'' \<noteq> None" using assms resolve_iff by blast
  show ?thesis unfolding needs_confirmation_def using r c by (simp add: navigate_tool_def d s Let_def py_str_def)
qed

lemma navigate_approved:
  "dec_outcome (fst (validate (tool_registry None) example_navigate example_operator False
     (active_rt\<lparr>rt_state := st\<rparr>))) = APPROVED"
proof -
  let ?rt = "active_rt\<lparr>rt_state := st\<rparr>"
  have g: "get_tool (tool_registry None) (i_intent example_navigate) = Some navigate_tool"
    using get_navigate_tool by (simp add: example_navigate_def mk_intent_def)
  have "fst (capability_ok ?rt navigate_tool)"
    using example_caps_motion capability_locomotion [of navigate_tool ?rt] by (simp add: navigate_tool_def)
  moreover have "fst (fst (motion_permitted_check ?rt))"
    using permitted_ready [of ?rt] active_ready [of st] by simp
  moreover have "\<not> fst (needs_confirmation (snd (motion_permitted_check ?rt)) navigate_tool example_navigate)"
    using active_service_mem(2) [of st]
    by (intro navigate_no_confirmation) (simp_all add: permitted_snd has_service_def workshop_place)
  moreover have "min_role_rank navigate_tool \<le> rank (user_role example_operator)" "requires_motion navigate_tool"
    by (simp_all add: navigate_tool_def example_operator_def rank_defs)
  ultimately show ?thesis unfolding validate_approved_iff [OF g] using navigate_destination [of st] by simp
qed

theorem approved_motion_passed_all_gates_witness:
  "Operator \<le> user_role example_operator \<and> motion_ready (active_rt\<lparr>rt_state := init_machine READY\<rparr>)"
proof -
  have g: "get_tool (tool_registry None) (i_intent example_navigate) = Some navigate_tool"
    using get_navigate_tool by (simp add: example_navigate_def mk_intent_def)
  have "requires_motion navigate_tool" by (simp add: navigate_tool_def)
  from approved_motion_passed_all_gates [OF navigate_approved g this] show ?thesis by simp
qed

text \<open>C26. Administrative tools need the owner and an explicit confirmation: with the default tools,
  an approval of an administrative tool (body change, update, reboot, shutdown) implies that the
  user is an owner, that the request was confirmed, and that the tool does not move the droid.\<close>

theorem administrative_needs_confirmed_owner:
  assumes "dec_outcome (fst (validate (tool_registry None) i u c rt)) = APPROVED"
    "get_tool (tool_registry None) (i_intent i) = Some tool" "risk_of tool = Administrative"
  shows "user_role u = Owner \<and> c \<and> \<not> requires_motion tool"
proof -
  note shape = default_shape [OF assms(2)]
  then have nm: "\<not> requires_motion tool" "\<not> always_available tool" "min_role_rank tool = 3" "confirmation tool = Required"
    using assms(3) by auto
  then show ?thesis
    using assms(1) needs_confirmation_required [of tool rt i] owner_rank [of "user_role u"]
    unfolding validate_approved_iff [OF assms(2)] by simp
qed

definition shutdown_tool :: tool_spec where
  "shutdown_tool =
     \<lparr>tool_name = ''system.shutdown'', risk_of = Administrative, requires_motion = False,
      required_capability = None, confirmation = Required, min_role_rank = RANK_OWNER,
      always_available = False, tool_description = ''shut down the droid''\<rparr>"

lemma get_shutdown_tool: "get_tool (tool_registry None) ''system.shutdown'' = Some shutdown_tool"
  using get_default_tool [of shutdown_tool] by (simp add: shutdown_tool_def default_tools_def info_tool_def)

lemma shutdown_outcome:
  assumes "i_intent i = ''system.shutdown''" "rt_body rt \<noteq> None"
  shows "dec_outcome (fst (validate (tool_registry None) i u c rt))
    = (if user_role u \<noteq> Owner then REJECTED else if c then APPROVED else CONFIRM)"
  using assms get_shutdown_tool owner_rank [of "user_role u"]
  by (auto simp: validate_def shutdown_tool_def authorize_def capability_ok_def confirm_gate_def
      needs_confirmation_def rank_defs case_prod_beta Let_def)

definition example_owner :: user where
  "example_owner = \<lparr>user_name = ''ann'', user_role = Owner, display_name = []\<rparr>"

theorem administrative_needs_confirmed_owner_witness:
  "user_role example_owner = Owner \<and> \<not> requires_motion shutdown_tool"
proof -
  have "dec_outcome (fst (validate (tool_registry None) (mk_intent ''system.shutdown'' []) example_owner True active_rt))
      = APPROVED"
    using shutdown_outcome [of "mk_intent ''system.shutdown'' []" active_rt example_owner True] active_fields
    by (simp add: mk_intent_def example_owner_def)
  moreover have "get_tool (tool_registry None) (i_intent (mk_intent ''system.shutdown'' [])) = Some shutdown_tool"
    using get_shutdown_tool by (simp add: mk_intent_def)
  moreover have "risk_of shutdown_tool = Administrative" by (simp add: shutdown_tool_def)
  ultimately show ?thesis using administrative_needs_confirmed_owner by blast
qed

text \<open>The stop commands are always accepted and nothing unregistered ever is: a request for an
  always-available tool (stop, emergency stop, cancel, silence, help) is approved for every user
  in every state of the system, without confirmation, and a request that names no registered tool
  is rejected.\<close>

theorem stop_always_accepted:
  "(case get_tool reg (i_intent i) of
      None \<Rightarrow> dec_outcome (fst (validate reg i u c rt)) = REJECTED
    | Some tool \<Rightarrow> if always_available tool then dec_outcome (fst (validate reg i u c rt)) = APPROVED else True)
   \<and> (\<exists>tool. get_tool (tool_registry None) ''motion.emergency_stop'' = Some tool \<and> always_available tool)"
proof -
  let ?t = "(info_tool ''motion.emergency_stop'' ''remove motor power immediately'')\<lparr>always_available := True\<rparr>"
  have "?t \<in> set default_tools" by (simp add: default_tools_def info_tool_def)
  from get_default_tool [OF this]
  have "get_tool (tool_registry None) ''motion.emergency_stop'' = Some ?t" by (simp add: info_tool_def)
  moreover have "always_available ?t" by simp
  moreover have "case get_tool reg (i_intent i) of
      None \<Rightarrow> dec_outcome (fst (validate reg i u c rt)) = REJECTED
    | Some tool \<Rightarrow> if always_available tool then dec_outcome (fst (validate reg i u c rt)) = APPROVED else True"
    by (simp add: validate_def Let_def split: option.split)
  ultimately show ?thesis by blast
qed

text \<open>Validation has no authority of its own: whatever the request, it never raises the system
  state, never touches the backend, the services or the latch file, and never closes a contactor.\<close>

theorem validation_has_no_authority:
  "rt_state (snd (validate reg i u c rt)) = rt_state rt
   \<and> rt_backend (snd (validate reg i u c rt)) = rt_backend rt
   \<and> svcs (snd (validate reg i u c rt)) = svcs rt
   \<and> latch_file (snd (validate reg i u c rt)) = latch_file rt
   \<and> c_estop (ctl (snd (validate reg i u c rt))) = c_estop (ctl rt)
   \<and> c_power (ctl (snd (validate reg i u c rt))) \<le> c_power (ctl rt)"
proof -
  have "snd (validate reg i u c rt) = rt \<or> snd (validate reg i u c rt) = snd (assess_readiness rt)"
    using validate_snd [of reg i u c rt] permitted_snd [of rt] by (cases "has_supervisor rt") auto
  then show ?thesis using assess_power [of rt] by auto
qed

text \<open>The broker does not look at the system state: with a supervisor, the outcome of a request
  is the same in every state, so a motion request is still approved after the operator asked for
  SAFE_IDLE or while the state machine is in EMERGENCY_STOPPED with the latch already reset.\<close>

theorem broker_ignores_system_state:
  "dec_outcome (fst (validate (tool_registry None) example_navigate example_operator False
     (active_rt\<lparr>rt_state := init_machine SAFE_IDLE\<rparr>))) = APPROVED
   \<and> dec_outcome (fst (validate (tool_registry None) example_navigate example_operator False
     (active_rt\<lparr>rt_state := init_machine EMERGENCY_STOPPED\<rparr>))) = APPROVED
   \<and> \<not> motion_permitted (init_machine SAFE_IDLE) \<and> \<not> motion_permitted (init_machine EMERGENCY_STOPPED)"
  using navigate_approved
  by (simp add: motion_permitted_def init_machine_def MOTION_ALLOWED_FROM_def)

end
