(* ===== verification/Diagnostics.thy ===== *)
theory Diagnostics
  imports Supervisor
begin

text \<open>
  The diagnostics service, \<open>services/diagnostics.py\<close>, with the \<open>diagnostics\<close> methods of the motion,
  world model and voice services. A collection runs through the sources in order and then asks
  every registered service; it threads the runtime because the gateway reads its controller and
  the hardware service sets its fan.

  What the operating system and the configuration report (load average, disk usage, the
  configured \<open>primary_provider\<close>, voice engine) is the argument \<open>host\<close>, which also carries the reading of a decimal numeral
  that the executive uses.
\<close>

section \<open>Number formatting\<close>

text \<open>The decimal exponent of a positive number; 400 steps cover the range of a double.\<close>

fun decade :: "nat \<Rightarrow> real \<Rightarrow> int" where
  "decade 0 x = 0"
| "decade (Suc n) x = (if x \<ge> 10 then 1 + decade n (x / 10) else if x < 1 then decade n (x * 10) - 1 else 0)"

definition strip_zeros :: "string \<Rightarrow> string" where
  "strip_zeros s =
     (if CHR ''.'' \<in> set s then
        (let r = dropWhile (\<lambda>c. c = CHR ''0'') (rev s) in rev (if r \<noteq> [] \<and> hd r = CHR ''.'' then tl r else r))
      else s)"

text \<open>\<open>f"{x:g}"\<close>: six significant digits, trailing zeros removed.\<close>

definition scale10 :: "real \<Rightarrow> int \<Rightarrow> real" where
  "scale10 x e = (if e \<ge> 0 then x * 10 ^ nat e else x / 10 ^ nat (- e))"

definition fmt_g :: "real \<Rightarrow> string" where
  "fmt_g x =
     (if x = 0 then ''0''
      else
        let a = \<bar>x\<bar>; e0 = decade 400 a;
            m0 = round_half_even (scale10 a (5 - e0));
            e = (if m0 \<ge> 1000000 then e0 + 1 else e0);
            m = (if m0 \<ge> 1000000 then 100000 else m0);
            body = (if -4 \<le> e \<and> e < 6 then strip_zeros (fmt_fixed (nat (5 - e)) (scale10 (of_int m) (e - 5)))
                    else strip_zeros (fmt_fixed 5 (of_int m / 100000))
                           @ ''e'' @ (if e < 0 then ''-'' else ''+'') @ zero_pad 2 (show_nat (nat \<bar>e\<bar>)))
        in if x < 0 then ''-'' @ body else body)"

section \<open>What the host reports\<close>

record host =
  load1 :: "real option"
  disk_used :: real
  disk_total :: real
  provider :: string
  voice_engine :: string
  wake_names :: "string list"
  require_wake :: bool
  voice_speaking :: bool
  parse_float :: "string \<Rightarrow> real option"

section \<open>Service diagnostics\<close>

definition motion_diagnostics :: "runtime \<Rightarrow> diagnostic_status list" where
  "motion_diagnostics rt =
     [\<lparr>d_name = ''motion/controller'', d_level = OK,
       d_message = controller_name rt @ '' ('' @ (if can_move rt then ''mobile'' else ''stationary'') @ '')'',
       d_hardware_id = [], d_values = [(''controller'', PStr (controller_name rt))]\<rparr>]
     @ (if is_biped rt then
          (let ok = (gait_pol rt \<noteq> None \<and> gait_issues rt = []) in
           [\<lparr>d_name = ''motion/gait_policy'', d_level = (if ok then OK else WARN),
             d_message =
               (case gait_pol rt of
                  Some g \<Rightarrow> gp_runtime g @ '' policy, rate '' @ fmt_g (gp_control_rate_hz g) @ '' Hz''
                | None \<Rightarrow> ''no gait policy loaded'')
               @ (if ok then [] else ''; issues: '' @ join '', '' (gait_issues rt)),
             d_hardware_id = [],
             d_values = [(''loaded'', PBool (gait_pol rt \<noteq> None)),
                         (''issues'', PList (map PStr (gait_issues rt)))]\<rparr>])
        else [])"

definition world_diagnostics :: "world_store \<Rightarrow> diagnostic_status list" where
  "world_diagnostics w =
     [\<lparr>d_name = ''world_model/places'', d_level = OK,
       d_message = show_nat (length (w_places (w_data w))) @ '' known places'',
       d_hardware_id = [], d_values = [(''places'', PList (map PStr (place_names w)))]\<rparr>]"

definition voice_diagnostics :: "host \<Rightarrow> diagnostic_status list" where
  "voice_diagnostics h =
     [\<lparr>d_name = ''voice/engine'', d_level = OK,
       d_message = voice_engine h @ ''; wake='' @ join ''/'' (wake_names h),
       d_hardware_id = [],
       d_values = [(''engine'', PStr (voice_engine h)), (''require_wake_word'', PBool (require_wake h)),
                   (''speaking'', PBool (voice_speaking h))]\<rparr>]"

text \<open>\<open>svc.diagnostics()\<close>, by the class of the service.\<close>

definition diagnostics_of :: "host \<Rightarrow> string \<times> managed_service \<Rightarrow> runtime \<Rightarrow> diagnostic_status list res \<times> runtime" where
  "diagnostics_of h ns rt =
     (let name = fst ns in
      if name = ''safety_gateway'' then (case gw_diagnostics rt of (ds, rt1) \<Rightarrow> (Inr ds, rt1))
      else if name = ''hardware'' then (case hardware_diagnostics rt of (ds, rt1) \<Rightarrow> (Inr ds, rt1))
      else if name = ''state_estimator'' then (Inr (estimator_diagnostics rt), rt)
      else if name = ''world_model'' then (Inr (world_diagnostics (rt_world rt)), rt)
      else if name = ''memory'' then (Inr (memory_diagnostics (rt_memory rt)), rt)
      else if name = ''perception'' then (perception_diagnostics rt, rt)
      else if name = ''navigation'' then (Inr (navigation_diagnostics rt), rt)
      else if name = ''motion'' then (Inr (motion_diagnostics rt), rt)
      else if name = ''update'' then (Inr (update_diagnostics (float_repr rt) (rt_update rt)), rt)
      else if name = ''voice'' then (Inr (voice_diagnostics h), rt)
      else (Inr (service_diagnostics (snd ns)), rt))"

fun collect_services ::
  "host \<Rightarrow> (string \<times> managed_service) list \<Rightarrow> runtime \<Rightarrow> diagnostic_status list res \<times> runtime" where
  "collect_services h [] rt = (Inr [], rt)"
| "collect_services h (s # ss) rt =
     (case diagnostics_of h s rt of
        (Inl e, rt1) \<Rightarrow> (Inl e, rt1)
      | (Inr ds, rt1) \<Rightarrow>
          (case collect_services h ss rt1 of (Inl e, rt2) \<Rightarrow> (Inl e, rt2) | (Inr ds2, rt2) \<Rightarrow> (Inr (ds @ ds2), rt2)))"

section \<open>Sources\<close>

definition diag_computer :: "host \<Rightarrow> diagnostic_status list" where
  "diag_computer h =
     (let load = (case load1 h of None \<Rightarrow> 0 | Some l \<Rightarrow> l);
          disk_pct = (if disk_total h \<noteq> 0 then disk_used h / disk_total h * 100 else 0)
      in [\<lparr>d_name = ''computer/cpu'', d_level = OK, d_message = ''load '' @ fmt_fixed 2 load,
           d_hardware_id = [], d_values = [(''load1'', PFloat (py_round load 2))]\<rparr>,
          \<lparr>d_name = ''computer/storage'', d_level = (if disk_pct > 90 then WARN else OK),
           d_message = ''disk '' @ fmt_fixed 0 disk_pct @ ''% used'',
           d_hardware_id = [], d_values = [(''used_percent'', PFloat (py_round disk_pct 1))]\<rparr>])"

definition diag_network :: "host \<Rightarrow> diagnostic_status list" where
  "diag_network h =
     [\<lparr>d_name = ''network/llm_provider'', d_level = OK, d_message = ''language provider: '' @ provider h,
       d_hardware_id = [], d_values = [(''provider'', PStr (provider h))]\<rparr>]"

definition actuator_level :: "body_limits \<Rightarrow> actuator_state \<Rightarrow> diagnostic_level \<times> string" where
  "actuator_level l a =
     (if a_fault_code a \<noteq> [] then (ERROR, a_fault_code a)
      else if a_temperature_c a \<ge> motor_fault_temp l then (ERROR, ''over fault temperature'')
      else if a_temperature_c a \<ge> motor_warn_temp l then (WARN, ''warm'')
      else if a_comm_errors a \<noteq> 0 then (WARN, show_int (a_comm_errors a) @ '' comm errors'')
      else (OK, ''nominal''))"

definition diag_actuators :: "runtime \<Rightarrow> diagnostic_status list" where
  "diag_actuators rt =
     (case (rt_backend rt, rt_body rt) of
        (Some b, Some body) \<Rightarrow>
          map (\<lambda>(name, a). \<lparr>d_name = ''actuator/'' @ name, d_level = fst (actuator_level (limits body) a),
                 d_message = snd (actuator_level (limits body) a), d_hardware_id = name,
                 d_values = actuator_to_dict a\<rparr>) (read_all_actuators b)
      | _ \<Rightarrow> [])"

definition diag_sensors :: "runtime \<Rightarrow> diagnostic_status list" where
  "diag_sensors rt =
     (case (rt_backend rt, rt_body rt) of
        (Some b, Some body) \<Rightarrow>
          map (\<lambda>s. let r = read_sensor b (s_id s) in
                 \<lparr>d_name = ''sensor/'' @ s_id s,
                  d_level = (if sr_ok r then OK
                             else if s_id s \<in> set (required_sensors (manifest body)) then ERROR else WARN),
                  d_message = (if sr_ok r then fmt_g (sr_rate_hz r) @ '' Hz'' else ''not responding''),
                  d_hardware_id = [], d_values = reading_to_dict r\<rparr>) (sensors body)
      | _ \<Rightarrow> [])"

definition diag_battery :: "runtime \<Rightarrow> diagnostic_status list" where
  "diag_battery rt =
     (case (rt_backend rt, rt_body rt) of
        (Some b, Some body) \<Rightarrow>
          let bt = battery b;
              warn = dict_get (l_battery (limits body)) ''warn_percent'' 30;
              crit = dict_get (l_battery (limits body)) ''critical_percent'' 10
          in [\<lparr>d_name = ''battery/main'',
               d_level = (if bt_percent bt \<le> crit then ERROR else if bt_percent bt \<le> warn then WARN else OK),
               d_message = fmt_fixed 0 (bt_percent bt) @ ''%'' @ (if bt_charging bt then '' charging'' else []),
               d_hardware_id = [], d_values = battery_to_dict bt\<rparr>]
      | _ \<Rightarrow> [])"

definition diag_robot_level :: "runtime \<Rightarrow> diagnostic_status list" where
  "diag_robot_level rt =
     (let st = state_value (cur_state (rt_state rt));
          conf = (if has_service rt ''state_estimator'' then localization_confidence rt else 0)
      in [\<lparr>d_name = ''robot/state'', d_level = OK, d_message = st, d_hardware_id = [],
           d_values = [(''droid_state'', PStr st),
                       (''body'', case rt_body rt of None \<Rightarrow> PNone | Some b \<Rightarrow> PStr (body_id (manifest b))),
                       (''localization_confidence'', PFloat (py_round conf 3))]\<rparr>])"

section \<open>Aggregation\<close>

definition collect :: "host \<Rightarrow> runtime \<Rightarrow> diagnostic_status list res \<times> runtime" where
  "collect h rt =
     (let own = diag_computer h @ diag_network h @ diag_actuators rt @ diag_sensors rt @ diag_battery rt
                  @ diag_robot_level rt
      in case collect_services h (svcs rt) rt of
           (Inl e, rt1) \<Rightarrow> (Inl e, rt1)
         | (Inr ds, rt1) \<Rightarrow> (Inr (own @ ds), rt1))"

text \<open>\<open>max(levels, default=OK)\<close>\<close>

definition worst :: "diagnostic_status list \<Rightarrow> diagnostic_level" where
  "worst ds = foldr (max \<circ> d_level) ds OK"

definition is_problem :: "diagnostic_status \<Rightarrow> bool" where
  "is_problem d = (d_level d \<ge> WARN)"

definition summary :: "host \<Rightarrow> runtime \<Rightarrow> pydict res \<times> runtime" where
  "summary h rt =
     (case collect h rt of
        (Inl e, rt1) \<Rightarrow> (Inl e, rt1)
      | (Inr items, rt1) \<Rightarrow>
          let faults = filter is_problem items in
          (Inr [(''overall'', PStr (level_label (worst items))),
                (''fault_count'', PInt (int (length faults))),
                (''faults'', PList (map (PDict \<circ> diag_to_dict) faults))], rt1))"

definition problems :: "host \<Rightarrow> runtime \<Rightarrow> diagnostic_status list res \<times> runtime" where
  "problems h rt =
     (case collect h rt of (Inl e, rt1) \<Rightarrow> (Inl e, rt1) | (Inr items, rt1) \<Rightarrow> (Inr (filter is_problem items), rt1))"

text \<open>\<open>max(acts.values(), key=temperature)\<close>: the first of the hottest.\<close>

fun hottest_of :: "actuator_state \<Rightarrow> actuator_state list \<Rightarrow> actuator_state" where
  "hottest_of a [] = a"
| "hottest_of a (x # xs) = hottest_of (if a_temperature_c x > a_temperature_c a then x else a) xs"

definition hottest_actuator :: "runtime \<Rightarrow> diagnostic_status option" where
  "hottest_actuator rt =
     (case rt_backend rt of
        None \<Rightarrow> None
      | Some b \<Rightarrow>
          (case map snd (read_all_actuators b) of
             [] \<Rightarrow> None
           | a # as \<Rightarrow>
               let hot = hottest_of a as;
                   warn = (case rt_body rt of None \<Rightarrow> 70 | Some body \<Rightarrow> motor_warn_temp (limits body));
                   fault = (case rt_body rt of None \<Rightarrow> 85 | Some body \<Rightarrow> motor_fault_temp (limits body));
                   t = a_temperature_c hot
               in Some \<lparr>d_name = ''actuator/'' @ a_name hot @ ''/temperature'',
                        d_level = (if t \<ge> fault then ERROR else if t \<ge> warn then WARN else OK),
                        d_message = a_name hot @ '' at '' @ fmt_fixed 1 t @ '' C'',
                        d_hardware_id = [], d_values = [(''temperature_c'', PFloat (py_round t 1))]\<rparr>))"

section \<open>Observation\<close>

text \<open>What a command that only reports may do to the system: read the safety controller, which
  moves its clock and may trip its watchdog, and set the fan. Everything the motion path depends
  on stays, and no contactor closes.\<close>

definition observes :: "runtime \<Rightarrow> runtime \<Rightarrow> bool" where
  "observes rt rt' =
     (rt_state rt' = rt_state rt \<and> rt_backend rt' = rt_backend rt \<and> rt_body rt' = rt_body rt
      \<and> svcs rt' = svcs rt \<and> latch_file rt' = latch_file rt \<and> rt_world rt' = rt_world rt
      \<and> c_estop (ctl rt') = c_estop (ctl rt) \<and> c_faults (ctl rt') = c_faults (ctl rt)
      \<and> (c_power (ctl rt') \<longrightarrow> c_power (ctl rt)))"

lemma observes_refl [simp, intro]: "observes rt rt"
  by (simp add: observes_def)

lemma observes_trans: "observes a b \<Longrightarrow> observes b c \<Longrightarrow> observes a c"
  by (simp add: observes_def)

lemma observes_gw [intro]:
  "observes rt (gw_heartbeat rt)" "observes rt (snd (gw_ctl_status rt))"
  by (simp_all add: observes_def) (auto dest: check_watchdog_power)

lemma observes_assess [intro]: "observes rt (snd (assess_readiness rt))"
  using assess_power [of rt] by (simp add: observes_def)

lemma observes_status [intro]:
  "observes rt (snd (gw_status rt))" "observes rt (snd (estop_engaged rt))" "observes rt (snd (gw_diagnostics rt))"
  using observes_trans [OF observes_gw(1) observes_gw(2)] observes_gw(2) [of rt]
  by (simp_all add: gw_status_def estop_engaged_def gw_diagnostics_def case_prod_beta Let_def)

lemma observes_hardware [intro]: "observes rt (snd (hardware_diagnostics rt))"
  by (simp add: hardware_diagnostics_def auto_cooling_def Let_def observes_def split: option.split)

lemma observes_diagnostics_of: "observes rt (snd (diagnostics_of h ns rt))"
  using observes_hardware [of rt] observes_status(3) [of rt]
  by (simp add: diagnostics_of_def Let_def case_prod_beta)

lemma observes_collect_services: "observes rt (snd (collect_services h ss rt))"
proof (induction ss arbitrary: rt)
  case (Cons s ss)
  obtain r rt1 where d: "diagnostics_of h s rt = (r, rt1)" by (cases "diagnostics_of h s rt")
  have "observes rt rt1" using observes_diagnostics_of [of rt h s] d by simp
  then show ?case using Cons [of rt1] d
    by (cases r) (auto simp: case_prod_beta split: sum.split intro: observes_trans)
qed simp

lemma observes_collect: "observes rt (snd (collect h rt))"
  using observes_collect_services [of rt h "svcs rt"]
  by (simp add: collect_def case_prod_beta Let_def split: sum.split)

lemma observes_summary: "observes rt (snd (summary h rt))"
  using observes_collect [of rt h] by (simp add: summary_def case_prod_beta Let_def split: sum.split)

section \<open>Facts\<close>

lemma collect_own:
  assumes "fst (collect h rt) = Inr items"
  shows "set (diag_computer h @ diag_network h @ diag_actuators rt @ diag_sensors rt @ diag_battery rt
              @ diag_robot_level rt) \<subseteq> set items"
  using assms by (auto simp: collect_def case_prod_beta Let_def split: sum.splits)

lemma worst_le: "worst ds \<le> l \<longleftrightarrow> (\<forall>d \<in> set ds. d_level d \<le> l) \<and> OK \<le> l"
  by (induction ds) (auto simp: worst_def)

lemma OK_least [simp]: "OK \<le> l"
  by (cases l) (simp_all add: less_eq_diagnostic_level_def)

lemma level_OK_iff: "l \<le> OK \<longleftrightarrow> l = OK" "l = OK \<longleftrightarrow> \<not> WARN \<le> l"
  by (cases l; simp add: less_eq_diagnostic_level_def)+

lemma worst_OK: "worst ds = OK \<longleftrightarrow> filter is_problem ds = []"
  using worst_le [of ds OK] by (simp add: level_OK_iff filter_empty_conv is_problem_def)

lemma hottest_of_mem: "hottest_of a as \<in> set (a # as)"
  by (induction as arbitrary: a) auto

lemma hottest_of_max: "x \<in> set (a # as) \<Longrightarrow> a_temperature_c x \<le> a_temperature_c (hottest_of a as)"
proof (induction as arbitrary: a x)
  case (Cons y as)
  let ?m = "if a_temperature_c y > a_temperature_c a then y else a"
  have m: "a_temperature_c ?m \<le> a_temperature_c (hottest_of ?m as)" using Cons.IH [of ?m ?m] by simp
  consider "x = a" | "x = y" | "x \<in> set as" using Cons.prems by auto
  then show ?case
  proof cases
    case 3
    then show ?thesis using Cons.IH [of x ?m] by simp
  qed (use m in \<open>auto split: if_splits\<close>)
qed simp

lemma collect_services_total:
  "rt_backend rt \<noteq> None \<Longrightarrow> \<exists>ds. fst (collect_services h ss rt) = Inr ds"
proof (induction ss arbitrary: rt)
  case (Cons s ss)
  obtain r rt1 where d: "diagnostics_of h s rt = (r, rt1)" by (cases "diagnostics_of h s rt")
  have "\<exists>ds. fst (diagnostics_of h s rt) = Inr ds"
    using Cons.prems by (auto simp: diagnostics_of_def perception_diagnostics_def case_prod_beta Let_def)
  with d obtain ds where r: "r = Inr ds" by auto
  have "rt_backend rt1 = rt_backend rt"
    using observes_diagnostics_of [of rt h s] d by (simp add: observes_def)
  with Cons obtain ds2 where "fst (collect_services h ss rt1) = Inr ds2" by metis
  with d r show ?case by (cases "collect_services h ss rt1") auto
qed simp

lemma collect_total:
  assumes "rt_backend rt \<noteq> None"
  obtains items where "fst (collect h rt) = Inr items"
  using collect_services_total [OF assms, of h "svcs rt"]
  by (auto simp: collect_def case_prod_beta Let_def split: sum.splits)

lemma problems_collect: "fst (collect h rt) = Inr items \<Longrightarrow> fst (problems h rt) = Inr (filter is_problem items)"
  by (cases "collect h rt") (simp add: problems_def)

section \<open>Properties\<close>

text \<open>Faults are reported: with a body and a backend a collection never fails, and the problem
  list names every actuator with a fault code, every required sensor that does not respond and a
  battery at or below its critical level, each at level ERROR.\<close>

theorem faults_are_reported:
  assumes "rt_backend rt = Some b" "rt_body rt = Some body"
  shows "\<exists>ps. fst (problems h rt) = Inr ps
    \<and> (\<forall>(n, a) \<in> set (read_all_actuators b). a_fault_code a \<noteq> [] \<longrightarrow>
         (\<exists>d \<in> set ps. d_name d = ''actuator/'' @ n \<and> d_level d = ERROR \<and> d_message d = a_fault_code a))
    \<and> (\<forall>s \<in> set (sensors body). s_id s \<in> set (required_sensors (manifest body)) \<and> \<not> sr_ok (read_sensor b (s_id s)) \<longrightarrow>
         (\<exists>d \<in> set ps. d_name d = ''sensor/'' @ s_id s \<and> d_level d = ERROR))
    \<and> (bt_percent (battery b) \<le> dict_get (l_battery (limits body)) ''critical_percent'' 10 \<longrightarrow>
         (\<exists>d \<in> set ps. d_name d = ''battery/main'' \<and> d_level d = ERROR))"
proof -
  obtain items where c: "fst (collect h rt) = Inr items" using assms(1) collect_total [of rt h] by auto
  note own = collect_own [OF c]
  have p: "d \<in> set (filter is_problem items)"
    if "d \<in> set (diag_actuators rt @ diag_sensors rt @ diag_battery rt)" "d_level d = ERROR" for d
    using that own by (auto simp: is_problem_def less_eq_diagnostic_level_def)
  have "\<exists>d \<in> set (filter is_problem items). d_name d = ''actuator/'' @ n \<and> d_level d = ERROR \<and> d_message d = a_fault_code a"
    if "(n, a) \<in> set (read_all_actuators b)" "a_fault_code a \<noteq> []" for n a
  proof (rule bexI [OF _ p])
    let ?d = "\<lparr>d_name = ''actuator/'' @ n, d_level = ERROR, d_message = a_fault_code a, d_hardware_id = n,
               d_values = actuator_to_dict a\<rparr>"
    show "?d \<in> set (diag_actuators rt @ diag_sensors rt @ diag_battery rt)"
      using that assms by (force simp: diag_actuators_def actuator_level_def)
  qed simp_all
  moreover have "\<exists>d \<in> set (filter is_problem items). d_name d = ''sensor/'' @ s_id s \<and> d_level d = ERROR"
    if "s \<in> set (sensors body)" "s_id s \<in> set (required_sensors (manifest body))" "\<not> sr_ok (read_sensor b (s_id s))" for s
  proof (rule bexI [OF _ p])
    let ?d = "\<lparr>d_name = ''sensor/'' @ s_id s, d_level = ERROR, d_message = ''not responding'', d_hardware_id = [],
               d_values = reading_to_dict (read_sensor b (s_id s))\<rparr>"
    show "?d \<in> set (diag_actuators rt @ diag_sensors rt @ diag_battery rt)"
      using that assms by (force simp: diag_sensors_def Let_def)
  qed simp_all
  moreover have "\<exists>d \<in> set (filter is_problem items). d_name d = ''battery/main'' \<and> d_level d = ERROR"
    if "bt_percent (battery b) \<le> dict_get (l_battery (limits body)) ''critical_percent'' 10"
  proof (rule bexI [OF _ p])
    show "hd (diag_battery rt) \<in> set (diag_actuators rt @ diag_sensors rt @ diag_battery rt)"
      using assms by (simp add: diag_battery_def Let_def)
  qed (use that assms in \<open>simp_all add: diag_battery_def Let_def\<close>)
  ultimately show ?thesis using problems_collect [OF c] by blast
qed

definition example_host :: host where
  "example_host = \<lparr>load1 = Some 1, disk_used = 1, disk_total = 2, provider = ''offline'',
     voice_engine = ''TextModeEngine'', wake_names = [''r2''], require_wake = False, voice_speaking = False,
     parse_float = (\<lambda>_. None)\<rparr>"

theorem faults_are_reported_witness:
  "\<exists>ps. fst (problems example_host (active_rt\<lparr>rt_backend := Some ((SimulationBackend example_body)
       \<lparr>sim_faults := [(''sensor_dropout'', no_params\<lparr>fp_sensor := Some ''*''\<rparr>)]\<rparr>)\<rparr>)) = Inr ps
     \<and> (\<exists>d \<in> set ps. d_name d = ''sensor/imu/base'' \<and> d_level d = ERROR)"
proof -
  let ?b = "(SimulationBackend example_body)\<lparr>sim_faults := [(''sensor_dropout'', no_params\<lparr>fp_sensor := Some ''*''\<rparr>)]\<rparr>"
  let ?rt = "active_rt\<lparr>rt_backend := Some ?b\<rparr>"
  let ?s = "\<lparr>s_id = ''imu/base'', s_type = ''imu'', s_topic = [], s_rate_hz = 100, s_required = True, s_extra = []\<rparr>"
  have "rt_backend ?rt = Some ?b" "rt_body ?rt = Some example_body" by simp_all
  note f = faults_are_reported [OF this, of example_host]
  have s: "?s \<in> set (sensors example_body)" "s_id ?s \<in> set (required_sensors (manifest example_body))"
    by (simp_all add: example_body_defs)
  have r: "\<not> sr_ok (read_sensor ?b (s_id ?s))" by (simp add: read_sensor_def dropout_def Let_def)
  from f s r show ?thesis by fastforce
qed

text \<open>A summary is as bad as its worst item: when a collection returns, the overall label is
  \<open>OK\<close> exactly when the fault list is empty, no item is worse than the reported level, and some
  item has that level unless it is \<open>OK\<close>.\<close>

theorem summary_reports_worst:
  assumes "rt_backend rt \<noteq> None"
  shows "\<exists>items. fst (collect h rt) = Inr items
    \<and> fst (summary h rt) = Inr [(''overall'', PStr (level_label (worst items))),
         (''fault_count'', PInt (int (length (filter is_problem items)))),
         (''faults'', PList (map (PDict \<circ> diag_to_dict) (filter is_problem items)))]
    \<and> (worst items = OK \<longleftrightarrow> filter is_problem items = [])
    \<and> (\<forall>d \<in> set items. d_level d \<le> worst items)
    \<and> (worst items \<noteq> OK \<longrightarrow> (\<exists>d \<in> set items. d_level d = worst items))"
proof -
  obtain items where c: "fst (collect h rt) = Inr items" using collect_total [OF assms] by blast
  have "fst (summary h rt) = Inr [(''overall'', PStr (level_label (worst items))),
         (''fault_count'', PInt (int (length (filter is_problem items)))),
         (''faults'', PList (map (PDict \<circ> diag_to_dict) (filter is_problem items)))]"
    using c by (cases "collect h rt") (simp add: summary_def Let_def)
  moreover have "worst items \<noteq> OK \<longrightarrow> (\<exists>d \<in> set items. d_level d = worst items)"
    by (induction items) (auto simp: worst_def max_def)
  moreover have "\<forall>d \<in> set items. d_level d \<le> worst items" using worst_le [of items "worst items"] by simp
  ultimately show ?thesis using c worst_OK [of items] by blast
qed

theorem summary_reports_worst_witness:
  "\<exists>items. fst (collect example_host active_rt) = Inr items \<and> (worst items = OK \<longleftrightarrow> filter is_problem items = [])"
proof -
  have "rt_backend active_rt \<noteq> None" by simp
  from summary_reports_worst [OF this, of example_host] show ?thesis by blast
qed

text \<open>The hottest motor is the hottest: with a backend that has actuators, the report carries the
  temperature of an actuator that no other exceeds, and its level compares that temperature with
  the body's warning and fault limits.\<close>

theorem hottest_actuator_correct:
  assumes "rt_backend rt = Some b" "rt_body rt = Some body" "read_all_actuators b \<noteq> []"
  shows "\<exists>a d. a \<in> snd ` set (read_all_actuators b) \<and> hottest_actuator rt = Some d
    \<and> (\<forall>x \<in> snd ` set (read_all_actuators b). a_temperature_c x \<le> a_temperature_c a)
    \<and> d_values d = [(''temperature_c'', PFloat (py_round (a_temperature_c a) 1))]
    \<and> d_level d = (if a_temperature_c a \<ge> motor_fault_temp (limits body) then ERROR
                   else if a_temperature_c a \<ge> motor_warn_temp (limits body) then WARN else OK)"
proof -
  obtain x xs where as: "map snd (read_all_actuators b) = x # xs"
    using assms(3) by (cases "read_all_actuators b") simp_all
  then have set: "set (x # xs) = snd ` set (read_all_actuators b)" by (metis list.set_map)
  have d: "d_values (the (hottest_actuator rt)) = [(''temperature_c'', PFloat (py_round (a_temperature_c (hottest_of x xs)) 1))]"
    "d_level (the (hottest_actuator rt)) =
       (if a_temperature_c (hottest_of x xs) \<ge> motor_fault_temp (limits body) then ERROR
        else if a_temperature_c (hottest_of x xs) \<ge> motor_warn_temp (limits body) then WARN else OK)"
    "hottest_actuator rt = Some (the (hottest_actuator rt))"
    using assms(1,2) as by (simp_all add: hottest_actuator_def Let_def)
  show ?thesis
    by (rule exI [of _ "hottest_of x xs"], rule exI [of _ "the (hottest_actuator rt)"])
      (use d set hottest_of_mem [of x xs] hottest_of_max [of _ x xs] in auto)
qed

theorem hottest_actuator_correct_witness:
  "\<exists>d. hottest_actuator active_rt = Some d \<and> d_level d = OK"
proof -
  have r: "map snd (read_all_actuators (SimulationBackend example_body)) =
      [read_actuator (SimulationBackend example_body) ''drive_left'',
       read_actuator (SimulationBackend example_body) ''drive_right'']"
    by (simp add: read_all_actuators_def dict_of_def actuator_names_def SimulationBackend_def init_sim_def
        Let_def example_body_defs)
  then have ne: "read_all_actuators (SimulationBackend example_body) \<noteq> []" by auto
  have img: "snd ` set (read_all_actuators (SimulationBackend example_body)) =
      {read_actuator (SimulationBackend example_body) ''drive_left'',
       read_actuator (SimulationBackend example_body) ''drive_right''}"
    using arg_cong [OF r, of set] by simp
  have cool: "a_temperature_c x = 25" if "x \<in> snd ` set (read_all_actuators (SimulationBackend example_body))" for x
    using that unfolding img
    by (auto simp: read_actuator_def Let_def read_temp_def SimulationBackend_def init_sim_def AMBIENT_C_def
        example_body_defs dict_of_def dict_get_def)
  have lim: "motor_fault_temp (limits example_body) = 85" "motor_warn_temp (limits example_body) = 70"
    by (simp_all add: motor_fault_temp_def motor_warn_temp_def example_body_defs dict_get_def)
  obtain a d where "a \<in> snd ` set (read_all_actuators (SimulationBackend example_body))"
    "hottest_actuator active_rt = Some d"
    "d_level d = (if a_temperature_c a \<ge> motor_fault_temp (limits example_body) then ERROR
                   else if a_temperature_c a \<ge> motor_warn_temp (limits example_body) then WARN else OK)"
    using hottest_actuator_correct [of active_rt "SimulationBackend example_body" example_body, OF _ _ ne] by auto
  with cool lim show ?thesis by auto
qed

end
