(* ===== verification/BehaviourTree.thy ===== *)
theory BehaviourTree
  imports Errors
begin

text \<open>
  Behaviour trees, \<open>executive/behaviour_tree.py\<close>. An action is a function on a world \<open>'w\<close> that
  returns a status or a boolean, or raises; \<open>Condition\<close> is an action. A tick returns the status,
  the node with its updated \<open>last_failed\<close> attributes, and the world.
\<close>

section \<open>Nodes and ticks\<close>

datatype bt_status = SUCCESS | FAILURE | RUNNING

datatype bt_result = Status bt_status | Flag bool

datatype 'w node =
    Action string "'w \<Rightarrow> bt_result res \<times> 'w"
  | Sequence string "'w node list" string
  | Selector string "'w node list"

fun node_name :: "'w node \<Rightarrow> string" where
  "node_name (Action n f) = n"
| "node_name (Sequence n cs lf) = n"
| "node_name (Selector n cs) = n"

fun as_status :: "bt_result \<Rightarrow> bt_status" where
  "as_status (Status s) = s"
| "as_status (Flag b) = (if b then SUCCESS else FAILURE)"

fun tick :: "'w node \<Rightarrow> 'w \<Rightarrow> bt_status res \<times> 'w node \<times> 'w"
  and tick_seq :: "'w node list \<Rightarrow> 'w \<Rightarrow> bt_status res \<times> string option \<times> 'w node list \<times> 'w"
  and tick_sel :: "'w node list \<Rightarrow> 'w \<Rightarrow> bt_status res \<times> 'w node list \<times> 'w" where
  "tick (Action n f) w =
     (case f w of (Inl e, w1) \<Rightarrow> (Inl e, Action n f, w1) | (Inr r, w1) \<Rightarrow> (Inr (as_status r), Action n f, w1))"
| "tick (Sequence n cs lf) w =
     (case tick_seq cs w of (r, failed, cs1, w1) \<Rightarrow>
        (r, Sequence n cs1 (case failed of None \<Rightarrow> lf | Some c \<Rightarrow> c), w1))"
| "tick (Selector n cs) w = (case tick_sel cs w of (r, cs1, w1) \<Rightarrow> (r, Selector n cs1, w1))"
| "tick_seq [] w = (Inr SUCCESS, None, [], w)"
| "tick_seq (c # cs) w =
     (case tick c w of
        (Inr SUCCESS, c1, w1) \<Rightarrow>
          (case tick_seq cs w1 of (r, failed, cs1, w2) \<Rightarrow> (r, failed, c1 # cs1, w2))
      | (Inr FAILURE, c1, w1) \<Rightarrow> (Inr FAILURE, Some (node_name c), c1 # cs, w1)
      | (r, c1, w1) \<Rightarrow> (r, None, c1 # cs, w1))"
| "tick_sel [] w = (Inr FAILURE, [], w)"
| "tick_sel (c # cs) w =
     (case tick c w of
        (Inr FAILURE, c1, w1) \<Rightarrow> (case tick_sel cs w1 of (r, cs1, w2) \<Rightarrow> (r, c1 # cs1, w2))
      | (r, c1, w1) \<Rightarrow> (r, c1 # cs, w1))"

text \<open>\<open>run\<close> ticks the root until it settles or the budget is spent.\<close>

fun run :: "nat \<Rightarrow> 'w node \<Rightarrow> 'w \<Rightarrow> bt_status res \<times> 'w node \<times> 'w" where
  "run 0 t w = (Inr FAILURE, t, w)"
| "run (Suc n) t w =
     (case tick t w of (Inr RUNNING, t1, w1) \<Rightarrow> run n t1 w1 | r \<Rightarrow> r)"

definition last_failed :: "'w node \<Rightarrow> string" where
  "last_failed t = (case t of Sequence n cs lf \<Rightarrow> lf | _ \<Rightarrow> [])"

section \<open>Facts\<close>

text \<open>A sequence of actions, with the world threaded through the actions in order: what the list
  of actions does on its own.\<close>

fun all_succeed :: "('w \<Rightarrow> bt_result res \<times> 'w) list \<Rightarrow> 'w \<Rightarrow> bool" where
  "all_succeed [] w = True"
| "all_succeed (f # fs) w =
     (case f w of (Inr r, w1) \<Rightarrow> as_status r = SUCCESS \<and> all_succeed fs w1 | _ \<Rightarrow> False)"

fun some_succeeds :: "('w \<Rightarrow> bt_result res \<times> 'w) list \<Rightarrow> 'w \<Rightarrow> bool" where
  "some_succeeds [] w = False"
| "some_succeeds (f # fs) w =
     (case f w of (Inr r, w1) \<Rightarrow> as_status r = SUCCESS \<or> (as_status r = FAILURE \<and> some_succeeds fs w1)
      | _ \<Rightarrow> False)"

lemma tick_seq_actions:
  "fst (tick_seq (map (\<lambda>(n, f). Action n f) acts) w) = Inr SUCCESS \<longleftrightarrow> all_succeed (map snd acts) w"
proof (induction acts arbitrary: w)
  case (Cons a acts)
  obtain n f where a: "a = (n, f)" by (cases a)
  obtain r w1 where f: "f w = (r, w1)" by (cases "f w")
  show ?case
  proof (cases r)
    case (Inr x)
    then show ?thesis using Cons [of w1]
      by (cases "as_status x") (simp_all add: a f case_prod_beta)
  qed (simp add: a f)
qed simp

lemma tick_sel_actions:
  "fst (tick_sel (map (\<lambda>(n, f). Action n f) acts) w) = Inr SUCCESS \<longleftrightarrow> some_succeeds (map snd acts) w"
proof (induction acts arbitrary: w)
  case (Cons a acts)
  obtain n f where a: "a = (n, f)" by (cases a)
  obtain r w1 where f: "f w = (r, w1)" by (cases "f w")
  show ?case
  proof (cases r)
    case (Inr x)
    then show ?thesis using Cons [of w1]
      by (cases "as_status x") (simp_all add: a f case_prod_beta)
  qed (simp add: a f)
qed simp

lemma run_not_running: "fst (run n t w) \<noteq> Inr RUNNING"
proof (induction n arbitrary: t w)
  case (Suc n)
  obtain r t1 w1 where "tick t w = (r, t1, w1)" by (cases "tick t w")
  then show ?case using Suc [of t1 w1] by (auto split: sum.split bt_status.split)
qed simp

text \<open>A property that every action keeps is kept by a run of the tree.\<close>

fun actions_keep :: "('w \<Rightarrow> bool) \<Rightarrow> 'w node \<Rightarrow> bool" where
  "actions_keep P (Action n f) = (\<forall>w. P w \<longrightarrow> P (snd (f w)))"
| "actions_keep P (Sequence n cs lf) = (\<forall>c \<in> set cs. actions_keep P c)"
| "actions_keep P (Selector n cs) = (\<forall>c \<in> set cs. actions_keep P c)"

lemma tick_keeps:
  "actions_keep P t \<Longrightarrow> P w \<Longrightarrow> P (snd (snd (tick t w))) \<and> actions_keep P (fst (snd (tick t w)))"
  "\<forall>c \<in> set cs. actions_keep P c \<Longrightarrow> P w \<Longrightarrow>
     P (snd (snd (snd (tick_seq cs w)))) \<and> (\<forall>c \<in> set (fst (snd (snd (tick_seq cs w)))). actions_keep P c)"
  "\<forall>c \<in> set cs. actions_keep P c \<Longrightarrow> P w \<Longrightarrow>
     P (snd (snd (tick_sel cs w))) \<and> (\<forall>c \<in> set (fst (snd (tick_sel cs w))). actions_keep P c)"
proof (induction t w and cs w and cs w rule: tick_tick_seq_tick_sel.induct)
  case (1 n f w)
  then show ?case by (cases "f w"; cases "fst (f w)") auto
next
  case (2 n cs lf w)
  then show ?case by (simp add: case_prod_beta)
next
  case (3 n cs w)
  then show ?case by (simp add: case_prod_beta)
next
  case (4 w)
  then show ?case by simp
next
  case (5 c cs w)
  obtain r c1 w1 where t: "tick c w = (r, c1, w1)" by (cases "tick c w")
  have k: "P w1" "actions_keep P c1" using 5(1,3,4) t by simp_all
  show ?case
  proof (cases "r = Inr SUCCESS")
    case True
    then have "P (snd (snd (snd (tick_seq cs w1))))
        \<and> (\<forall>c \<in> set (fst (snd (snd (tick_seq cs w1)))). actions_keep P c)"
      using 5(2) [of r "(c1, w1)" _ c1 w1] 5(3) t k by simp
    with True t k show ?thesis by (simp add: case_prod_beta)
  next
    case False
    with t k 5(3) show ?thesis by (auto split: sum.splits bt_status.splits)
  qed
next
  case (6 w)
  then show ?case by simp
next
  case (7 c cs w)
  obtain r c1 w1 where t: "tick c w = (r, c1, w1)" by (cases "tick c w")
  have k: "P w1" "actions_keep P c1" using 7(1,3,4) t by simp_all
  show ?case
  proof (cases "r = Inr FAILURE")
    case True
    then have "P (snd (snd (tick_sel cs w1)))
        \<and> (\<forall>c \<in> set (fst (snd (tick_sel cs w1))). actions_keep P c)"
      using 7(2) [of r "(c1, w1)" _ c1 w1] 7(3) t k by simp
    with True t k show ?thesis by (simp add: case_prod_beta)
  next
    case False
    with t k 7(3) show ?thesis by (auto split: sum.splits bt_status.splits)
  qed
qed

lemma run_keeps: "actions_keep P t \<Longrightarrow> P w \<Longrightarrow> P (snd (snd (run n t w)))"
proof (induction n arbitrary: t w)
  case (Suc n)
  obtain r t1 w1 where t: "tick t w = (r, t1, w1)" by (cases "tick t w")
  have "P w1" "actions_keep P t1" using tick_keeps(1) [OF Suc.prems] t by simp_all
  then show ?case using Suc.IH t by (auto split: sum.split bt_status.split)
qed simp

section \<open>Properties\<close>

text \<open>A sequence succeeds exactly when all its actions succeed in order, each on the world the
  previous ones left; a selector succeeds exactly when some action succeeds after all earlier
  ones failed; and a run of any tree settles: it never returns RUNNING, whatever the budget.\<close>

theorem sequence_selector_laws:
  "(fst (tick (Sequence n (map (\<lambda>(n, f). Action n f) acts) lf) w) = Inr SUCCESS \<longleftrightarrow> all_succeed (map snd acts) w)
   \<and> (fst (tick (Selector n (map (\<lambda>(n, f). Action n f) acts)) w) = Inr SUCCESS \<longleftrightarrow> some_succeeds (map snd acts) w)
   \<and> fst (run budget t w) \<noteq> Inr RUNNING"
  using tick_seq_actions [of acts w] tick_sel_actions [of acts w] run_not_running [of budget t w]
  by (simp add: case_prod_beta)

end
