(* ===== verification/Executive.thy ===== *)
theory Executive
  imports Broker Diagnostics BehaviourTree
begin

text \<open>
  The executive, \<open>executive/executive.py\<close>: it runs an approved intent through its handler and
  keeps the task history. Every handler is a function on the runtime that returns a task result
  or raises; \<open>run_intent\<close> turns a raise into a failed result. The drive of \<open>_drive_to\<close> is a
  behaviour tree over the runtime, the result dictionary and the permission flag.

  Argument values are dynamic. A numeral that \<open>float()\<close> reads as NaN or an infinity is outside
  the model (\<open>parse_float\<close> yields real numbers), and a place kind that is not a string is stored
  by its printed form.
\<close>

section \<open>Dynamic arguments\<close>

text \<open>A method of \<open>str\<close> called on an argument.\<close>

definition str_method :: "string \<Rightarrow> pyval \<Rightarrow> string res" where
  "str_method meth v =
     (case v of PStr s \<Rightarrow> Inr s
      | _ \<Rightarrow> Inl (AttributeError (repr_str (py_type_name v) @ '' object has no attribute '' @ repr_str meth)))"

text \<open>\<open>float(v)\<close>\<close>

definition to_float :: "host \<Rightarrow> pyval \<Rightarrow> real res" where
  "to_float h v =
     (case v of
        PFloat r \<Rightarrow> Inr r
      | PInt i \<Rightarrow> Inr (of_int i)
      | PBool b \<Rightarrow> Inr (if b then 1 else 0)
      | PStr s \<Rightarrow> (case parse_float h s of
                    Some r \<Rightarrow> Inr r | None \<Rightarrow> Inl (ValueError (''could not convert string to float: '' @ repr_str s)))
      | _ \<Rightarrow> Inl (TypeError (''float() argument must be a string or a real number, not '' @ repr_str (py_type_name v))))"

type_synonym handler = "host \<Rightarrow> task \<Rightarrow> runtime \<Rightarrow> task_result res \<times> runtime"

definition t_arg :: "task \<Rightarrow> string \<Rightarrow> pyval \<Rightarrow> pyval" where
  "t_arg t k d = dict_get (t_arguments t) k d"

definition rt_task_step :: "string \<Rightarrow> runtime \<Rightarrow> runtime" where
  "rt_task_step label rt = rt\<lparr>current_task := map_option (task_step label) (current_task rt)\<rparr>"

definition exec_cancel :: "runtime \<Rightarrow> runtime" where
  "exec_cancel rt = rt\<lparr>cancel_flag := True\<rparr>"

definition last_task :: "runtime \<Rightarrow> task option" where
  "last_task rt = (if task_history rt = [] then None else Some (last (task_history rt)))"

section \<open>Information handlers\<close>

definition opt_val :: "('a \<Rightarrow> pyval) \<Rightarrow> 'a option \<Rightarrow> pyval" where
  "opt_val f v = (case v of None \<Rightarrow> PNone | Some x \<Rightarrow> f x)"

definition state_val :: "runtime \<Rightarrow> pyval" where
  "state_val rt = PStr (state_value (cur_state (rt_state rt)))"

definition reasons_now :: "runtime \<Rightarrow> string list \<times> runtime" where
  "reasons_now rt =
     (if has_supervisor rt then (case assess_readiness rt of (r, rt1) \<Rightarrow> (inhibit_reasons r, rt1)) else ([], rt))"

definition h_status :: handler where
  "h_status h t rt =
     (case reasons_now rt of (reasons, rt1) \<Rightarrow>
        let hottest = (if has_service rt1 ''diagnostics'' then hottest_actuator rt1 else None) in
        case (if has_safety rt1 then gw_status rt1 else ([], rt1)) of (safety, rt2) \<Rightarrow>
          (Inr (mk_result True ''robot.get_status''
             [(''name'', PStr (droid_name rt)),
              (''state'', state_val rt1),
              (''body'', opt_val (\<lambda>b. PStr (body_id (manifest b))) (rt_body rt1)),
              (''battery_percent'', opt_val (\<lambda>b. PFloat (bt_percent (battery b))) (rt_backend rt)),
              (''motion_permitted'', PBool (motion_permitted (rt_state rt1))),
              (''inhibit_reasons'', PList (map PStr reasons)),
              (''safety'', PDict safety),
              (''hottest_motor'', opt_val (PDict \<circ> diag_to_dict) hottest),
              (''language_degraded'', PBool (language_degraded rt))] []), rt2))"

definition h_battery :: handler where
  "h_battery h t rt =
     (case rt_backend rt of
        None \<Rightarrow> (Inl (no_attr ''battery''), rt)
      | Some b \<Rightarrow>
          (case rt_body rt of
             None \<Rightarrow> (Inl (no_attr ''limits''), rt)
           | Some body \<Rightarrow>
               let p = bt_percent (battery b); minimum = battery_motion_minimum (limits body) in
               (Inr (mk_result True ''robot.get_battery''
                  [(''percent'', PFloat p), (''charging'', PBool (bt_charging (battery b))),
                   (''motion_minimum'', PFloat minimum), (''safe_to_move'', PBool (p \<ge> minimum))] []), rt)))"

text \<open>\<open>sorted(..., reverse=True)\<close> is stable, as is sorting by the negated key.\<close>

definition temps_of :: "sim_backend \<Rightarrow> (string \<times> real) list" where
  "temps_of b = sort_key (\<lambda>d. - snd d)
     (map (\<lambda>(_, a). (a_name a, py_round (a_temperature_c a) 1)) (read_all_actuators b))"

definition temp_val :: "string \<times> real \<Rightarrow> pyval" where
  "temp_val d = PDict [(''name'', PStr (fst d)), (''temp_c'', PFloat (snd d))]"

definition h_temperature :: handler where
  "h_temperature h t rt =
     (case rt_backend rt of
        None \<Rightarrow> (Inl (no_attr ''read_all_actuators''), rt)
      | Some b \<Rightarrow>
          (case rt_body rt of
             None \<Rightarrow> (Inl (no_attr ''limits''), rt)
           | Some body \<Rightarrow>
               let temps = map temp_val (temps_of b) in
               (Inr (mk_result True ''robot.get_temperature''
                  [(''hottest'', if temps \<noteq> [] then hd temps else PNone), (''all'', PList temps),
                   (''warn_c'', PFloat (motor_warn_temp (limits body))),
                   (''fault_c'', PFloat (motor_fault_temp (limits body)))] []), rt)))"

definition h_diagnostics :: handler where
  "h_diagnostics h t rt =
     (if \<not> has_service rt ''diagnostics'' then (Inl (no_attr ''summary''), rt)
      else case summary h rt of
        (Inl e, rt1) \<Rightarrow> (Inl e, rt1)
      | (Inr d, rt1) \<Rightarrow> (Inr (mk_result True ''diagnostics.summary'' d []), rt1))"

definition h_explain :: handler where
  "h_explain h t rt =
     (if t_arg t ''topic'' (PStr ''why'') = PStr ''current_task'' then
        (Inr (mk_result True ''robot.explain''
           [(''topic'', PStr ''current_task''),
            (''last_task'', opt_val (PDict \<circ> task_to_dict) (last_task rt))] []), rt)
      else case reasons_now rt of (reasons, rt1) \<Rightarrow>
        case (if has_safety rt1 then estop_engaged rt1 else (False, rt1)) of (estop, rt2) \<Rightarrow>
          (Inr (mk_result True ''robot.explain''
             [(''topic'', PStr ''why''), (''state'', state_val rt1),
              (''inhibit_reasons'', PList (map PStr reasons)), (''estop'', PBool estop)] []), rt2))"

definition h_describe :: handler where
  "h_describe h t rt =
     (if \<not> has_service rt ''perception'' then (Inl (no_attr ''describe''), rt)
      else case describe rt of
        Inl e \<Rightarrow> (Inl e, rt)
      | Inr scene \<Rightarrow>
          (Inr (mk_result (truthy (dict_get scene ''camera_ok'' (PBool False)) \<or> map_of scene ''summary'' \<noteq> None)
             ''perception.describe_scene'' scene []), rt))"

definition place_val :: "place \<Rightarrow> pyval" where
  "place_val p = PDict [(''x'', PFloat (pl_x p)), (''y'', PFloat (pl_y p)), (''kind'', PStr (pl_kind p))]"

definition h_list_places :: handler where
  "h_list_places h t rt =
     (let wm = has_service rt ''world_model'' in
      (Inr (mk_result True ''navigation.list_places''
         [(''places'', PList (if wm then map PStr (place_names (rt_world rt)) else [])),
          (''detail'', PDict (if wm then map (\<lambda>(k, p). (k, place_val p)) (places (rt_world rt)) else []))] []), rt))"

definition h_help :: handler where
  "h_help h t rt =
     (let tools = (case rt_tools rt of None \<Rightarrow> [] | Some reg \<Rightarrow> all_tools reg) in
      (Inr (mk_result True ''help''
         [(''tools'', PList (map (\<lambda>s. PDict [(''name'', PStr (tool_name s)),
             (''description'', PStr (tool_description s)), (''risk'', PStr (risk_value (risk_of s)))]) tools))] []), rt))"

section \<open>Safety and control handlers\<close>

definition h_stop :: handler where
  "h_stop h t rt =
     (if \<not> has_service rt ''motion'' then (Inl (no_attr ''stop''), rt)
      else case motion_stop rt of
        (Inl e, rt1) \<Rightarrow> (Inl e, rt1)
      | (Inr _, rt1) \<Rightarrow> (Inr (mk_result True ''motion.stop'' [(''stopped'', PBool True)] []), rt1))"

definition h_estop :: handler where
  "h_estop h t rt =
     (if \<not> has_safety rt then (Inl (no_attr ''engage_estop''), rt)
      else (Inr (mk_result True ''motion.emergency_stop'' [(''estop'', PBool True)] []),
            engage_estop ''voice_or_text_command'' rt))"

definition h_cancel :: handler where
  "h_cancel h t rt0 =
     (let rt = exec_cancel rt0 in
      if \<not> has_service rt ''motion'' then (Inl (no_attr ''stop''), rt)
      else case motion_stop rt of
        (Inl e, rt1) \<Rightarrow> (Inl e, rt1)
      | (Inr _, rt1) \<Rightarrow> (Inr (mk_result True ''task.cancel'' [(''cancelled'', PBool True)] []), rt1))"

definition h_silence :: handler where
  "h_silence h t rt = (Inr (mk_result True ''voice.silence'' [(''silenced'', PBool True)] []), rt)"

definition h_safe_idle :: handler where
  "h_safe_idle h t rt0 =
     (let rt = (if has_safety rt0 then release_motion_permission rt0 else rt0) in
      case (if cur_state (rt_state rt) \<in> {READY, ACTIVE, DEGRADED}
            then rt_transition SAFE_IDLE ''operator requested safe idle'' rt else (Inr (), rt)) of
        (Inl e, rt1) \<Rightarrow> (Inl e, rt1)
      | (Inr _, rt1) \<Rightarrow> (Inr (mk_result True ''robot.return_safe_idle'' [(''state'', state_val rt1)] []), rt1))"

section \<open>The drive\<close>

definition DRIVE_DT :: real where "DRIVE_DT = 1 / 10"
definition ARRIVAL_M :: real where "ARRIVAL_M = 15 / 100"
definition MAX_DRIVE_TICKS :: nat where "MAX_DRIVE_TICKS = 3000"

text \<open>The runtime, the result dictionary and \<open>permission["held"]\<close>.\<close>

type_synonym drive_world = "runtime \<times> pydict \<times> bool"

definition bt_acquire :: "drive_world \<Rightarrow> bt_result res \<times> drive_world" where
  "bt_acquire w =
     (case w of (rt, data, held) \<Rightarrow>
        if \<not> has_safety rt then (Inl (no_attr ''request_motion_permission''), w)
        else case request_motion_permission rt of (perm, rt1) \<Rightarrow>
          (Inr (Flag (granted perm)),
           (rt1, AList.update ''motion_permission'' (PDict (permission_to_dict perm)) data, granted perm)))"

definition bt_enter_active :: "string \<Rightarrow> drive_world \<Rightarrow> bt_result res \<times> drive_world" where
  "bt_enter_active label w =
     (case w of (rt, data, held) \<Rightarrow>
        if cur_state (rt_state rt) \<in> {READY, DEGRADED} then
          (case rt_transition ACTIVE (''navigate to '' @ label) rt of
             (Inl e, rt1) \<Rightarrow> (Inl e, (rt1, data, held))
           | (Inr _, rt1) \<Rightarrow> (Inr (Flag True), (rt1, data, held)))
        else (Inr (Flag True), w))"

text \<open>An obstacle ends the drive; its position is noted in the world model.\<close>

definition drive_blocked :: "real option \<Rightarrow> runtime \<times> pydict \<Rightarrow> bt_status option res \<times> runtime \<times> pydict" where
  "drive_blocked gap w =
     (case w of (rt, data) \<Rightarrow>
        let data1 = AList.update ''stopped_distance_m''
              (case gap of Some d \<Rightarrow> if d \<noteq> 0 then PFloat (py_round d 1) else PNone | None \<Rightarrow> PNone)
              (AList.update ''result'' (PStr ''blocked'') data)
        in case gap of
             None \<Rightarrow> (Inr (Some FAILURE), rt, data1)
           | Some d \<Rightarrow>
               if has_service rt ''world_model'' then
                 (case rt_backend rt of
                    None \<Rightarrow> (Inl (no_attr ''pose''), rt, data1)
                  | Some b \<Rightarrow> (Inr (Some FAILURE),
                      rt\<lparr>rt_world := set_obstacle (pose_x (get_pose b) + d) (pose_y (get_pose b)) (rt_world rt)\<rparr>, data1))
               else (Inr (Some FAILURE), rt, data1))"

definition drive_toward :: "pose \<Rightarrow> runtime \<times> pydict \<Rightarrow> bt_status option res \<times> runtime \<times> pydict" where
  "drive_toward goal w =
     (case w of (rt, data) \<Rightarrow>
        if \<not> has_service rt ''motion'' then (Inl (no_attr ''velocity_toward''), rt, data)
        else case rt_backend rt of
          None \<Rightarrow> (Inl (no_attr ''pose''), rt, data)
        | Some b \<Rightarrow>
            (case rt_body rt of
               None \<Rightarrow> (Inl (no_attr ''limits''), rt, data)
             | Some body \<Rightarrow>
                 (case velocity_toward body goal (get_pose b) of
                    Inl e \<Rightarrow> (Inl e, rt, data)
                  | Inr (vel, remaining) \<Rightarrow>
                      let data1 = AList.update ''remaining_m'' (PFloat (py_round remaining 2)) data in
                      if remaining \<le> ARRIVAL_M
                      then (Inr (Some SUCCESS), rt, AList.update ''result'' (PStr ''arrived'') data1)
                      else case drive vel DRIVE_DT rt of
                        (Inl e, rt1) \<Rightarrow> (Inl e, rt1, data1)
                      | (Inr _, rt1) \<Rightarrow> (Inr None, rt1, data1))))"

text \<open>One round of the loop: \<open>Some status\<close> returns, \<open>None\<close> goes on.\<close>

definition drive_tick :: "pose \<Rightarrow> runtime \<times> pydict \<Rightarrow> bt_status option res \<times> runtime \<times> pydict" where
  "drive_tick goal w =
     (case w of (rt, data) \<Rightarrow>
        if cancel_flag rt then (Inr (Some FAILURE), rt, AList.update ''result'' (PStr ''cancelled'') data)
        else if \<not> has_service rt ''navigation'' then (Inl (no_attr ''localization_ok''), rt, data)
        else if \<not> localization_ok rt
        then (Inr (Some FAILURE), rt, AList.update ''result'' (PStr ''localization_lost'') data)
        else if fst (is_path_blocked rt) then drive_blocked (snd (is_path_blocked rt)) w
        else drive_toward goal w)"

fun drive_loop :: "nat \<Rightarrow> pose \<Rightarrow> runtime \<times> pydict \<Rightarrow> bt_status res \<times> runtime \<times> pydict" where
  "drive_loop 0 goal (rt, data) = (Inr FAILURE, rt, AList.update ''result'' (PStr ''timeout'') data)"
| "drive_loop (Suc n) goal w =
     (case drive_tick goal w of
        (Inl e, w1) \<Rightarrow> (Inl e, w1)
      | (Inr (Some st), w1) \<Rightarrow> (Inr st, w1)
      | (Inr None, w1) \<Rightarrow> drive_loop n goal w1)"

definition bt_drive :: "pose \<Rightarrow> drive_world \<Rightarrow> bt_result res \<times> drive_world" where
  "bt_drive goal w =
     (case w of (rt, data, held) \<Rightarrow>
        (case drive_loop MAX_DRIVE_TICKS goal (rt, data) of
           (Inl e, rt1, data1) \<Rightarrow> (Inl e, (rt1, data1, held))
         | (Inr st, rt1, data1) \<Rightarrow> (Inr (Status st), (rt1, data1, held))))"

definition navigate_tree :: "pose \<Rightarrow> string \<Rightarrow> drive_world node" where
  "navigate_tree goal label =
     Sequence ''navigate''
       [Action ''acquire_motion_permission'' bt_acquire,
        Action ''enter_active'' (bt_enter_active label),
        Action ''drive_to_goal'' (bt_drive goal)] []"

definition failure_reason :: "(real \<Rightarrow> string) \<Rightarrow> string \<Rightarrow> pydict \<Rightarrow> bool \<Rightarrow> string \<Rightarrow> string" where
  "failure_reason fr label data held failed =
     (let reason = dict_get
            [(''blocked'', ''the route to '' @ label @ '' is blocked; I stopped ''
                @ py_str fr (dict_get data ''stopped_distance_m'' (PStr ''?'')) @ '' m from the obstruction''),
             (''localization_lost'', ''I am no longer sufficiently certain of my position to continue''),
             (''cancelled'', ''the task was cancelled''),
             (''timeout'', ''I could not reach '' @ label @ '' within the movement budget'')]
            (py_str fr (dict_get data ''result'' (PStr [])))
            (if failed \<noteq> [] then failed else ''navigation failed'')
      in if \<not> held then
           (case dict_get data ''motion_permission'' (PDict []) of
              PDict d \<Rightarrow> py_str fr (dict_get d ''reason'' (PStr reason)) | _ \<Rightarrow> reason)
         else reason)"

text \<open>After the tree: power is released when it was held, and ACTIVE settles to READY.\<close>

definition drive_release :: "bool \<Rightarrow> runtime \<Rightarrow> unit res \<times> runtime" where
  "drive_release held rt =
     (let rt1 = (if held then release_motion_permission rt else rt) in
      if cur_state (rt_state rt1) = ACTIVE then rt_transition READY ''task complete'' rt1 else (Inr (), rt1))"

definition drive_to :: "pose \<Rightarrow> pyval \<Rightarrow> runtime \<Rightarrow> (bool \<times> pydict \<times> string) res \<times> runtime" where
  "drive_to goal label_val rt =
     (let fr = float_repr rt;
          label = py_str fr label_val;
          rt1 = rt_task_step (''navigate to '' @ label) (rt_task_step ''check health'' rt)
      in case run 10000 (navigate_tree goal label) (rt1, [(''label'', label_val)], False) of
           (Inl e, _, (rt2, _, _)) \<Rightarrow> (Inl e, rt2)
         | (Inr status, tree, (rt2, data, held)) \<Rightarrow>
             (case drive_release held rt2 of
                (Inl e, rt3) \<Rightarrow> (Inl e, rt3)
              | (Inr _, rt3) \<Rightarrow>
                  if status = SUCCESS then (Inr (True, data, []), rt3)
                  else (Inr (False, data, failure_reason fr label data held (last_failed tree)), rt3)))"

section \<open>Motion handlers\<close>

definition h_navigate :: handler where
  "h_navigate h t rt =
     (let dest = t_arg t ''destination'' (PStr []) in
      if \<not> has_service rt ''navigation'' then (Inl (no_attr ''resolve''), rt)
      else case resolve rt (py_str (float_repr rt) dest) of
        None \<Rightarrow> (Inr (mk_result False ''navigation.navigate_to'' []
                   (py_repr (float_repr rt) dest @ '' is not a known place'')), rt)
      | Some goal \<Rightarrow>
          (case drive_to goal dest rt of
             (Inl e, rt1) \<Rightarrow> (Inl e, rt1)
           | (Inr (ok, data, err), rt1) \<Rightarrow>
               (Inr (mk_result ok ''navigation.navigate_to'' (AList.update ''destination'' dest data) err), rt1)))"

definition h_go_charge :: handler where
  "h_go_charge h t rt =
     (if \<not> has_service rt ''navigation'' then (Inl (no_attr ''resolve''), rt)
      else case resolve rt ''charging station'' of
        None \<Rightarrow> (Inr (mk_result False ''navigation.go_charge'' [] ''no charging station is known''), rt)
      | Some goal \<Rightarrow>
          (case drive_to goal (PStr ''charging station'') rt of
             (Inl e, rt1) \<Rightarrow> (Inl e, rt1)
           | (Inr (ok, data, err), rt1) \<Rightarrow>
               if ok \<and> rt_backend rt1 \<noteq> None
               then (Inr (mk_result ok ''navigation.go_charge'' (AList.update ''docked'' (PBool True) data) err),
                     on_backend (set_charging True) rt1)
               else (Inr (mk_result ok ''navigation.go_charge'' data err), rt1)))"

text \<open>\<open>perception.inspect(target)\<close>: the target must be a string once a scene has objects.\<close>

definition inspect_arg :: "runtime \<Rightarrow> pyval \<Rightarrow> pydict res" where
  "inspect_arg rt target =
     (case target of
        PStr s \<Rightarrow> inspect rt s
      | _ \<Rightarrow>
          (case inspect rt [] of
             Inl e \<Rightarrow> Inl e
           | Inr _ \<Rightarrow>
               (case rt_backend rt of
                  None \<Rightarrow> Inl (no_attr ''describe_scene'')
                | Some b \<Rightarrow>
                    if sc_objects (describe_scene b) = [] then
                      Inr [(''found'', PBool False), (''target'', target),
                           (''confidence'', PFloat (sc_confidence (describe_scene b))),
                           (''note'', PStr (py_repr (float_repr rt) target @ '' not currently in view''))]
                    else map_sum id (\<lambda>_. []) (str_method ''lower'' target))))"

text \<open>The inspection after the drive, with the drive's data.\<close>

definition inspect_here :: "pyval \<Rightarrow> pyval \<Rightarrow> pydict \<Rightarrow> runtime \<Rightarrow> task_result res \<times> runtime" where
  "inspect_here dest target drive_data rt0 =
     (let rt = rt_task_step (''inspect '' @ py_str (float_repr rt0) target) rt0 in
      case (if has_service rt ''perception'' then inspect_arg rt target else Inl (no_attr ''inspect'')) of
        Inl e \<Rightarrow> (Inr (mk_result False ''inspect.named_target'' drive_data (exn_str e)), rt)
      | Inr findings \<Rightarrow>
          let f1 = AList.update ''destination'' dest findings;
              f2 = (if drive_data \<noteq> [] then AList.update ''drive'' (PDict drive_data) f1 else f1)
          in (Inr (mk_result True ''inspect.named_target'' f2 []), rt))"

definition h_inspect :: handler where
  "h_inspect h t rt =
     (let dest = t_arg t ''destination'' PNone; target = t_arg t ''target'' (PStr []) in
      if \<not> truthy dest then inspect_here dest target [] rt
      else if \<not> has_service rt ''navigation'' then (Inl (no_attr ''resolve''), rt)
      else case resolve rt (py_str (float_repr rt) dest) of
        None \<Rightarrow> (Inr (mk_result False ''inspect.named_target'' []
                   (py_repr (float_repr rt) dest @ '' is not a known place'')), rt)
      | Some goal \<Rightarrow>
          (case drive_to goal dest rt of
             (Inl e, rt1) \<Rightarrow> (Inl e, rt1)
           | (Inr (ok, data, err), rt1) \<Rightarrow>
               if \<not> ok then (Inr (mk_result False ''inspect.named_target'' data err), rt1)
               else inspect_here dest target data rt1))"

section \<open>Memory handlers\<close>

definition no_service :: "string \<Rightarrow> string \<Rightarrow> runtime \<Rightarrow> unit res" where
  "no_service name meth rt = (if has_service rt name then Inr () else Inl (no_attr meth))"

definition h_remember :: handler where
  "h_remember h t rt =
     (let text = t_arg t ''text'' (PStr []) in
      if \<not> truthy text then (Inr (mk_result False ''memory.remember'' [] ''nothing to remember''), rt)
      else case no_service ''memory'' ''remember'' rt of
        Inl e \<Rightarrow> (Inl e, rt)
      | Inr _ \<Rightarrow>
          (case str_method ''strip'' text of
             Inl e \<Rightarrow> (Inl e, rt)
           | Inr s \<Rightarrow>
               (case remember s ''fact'' [] (rt_memory rt) of
                  (Inl e, m) \<Rightarrow> (Inl e, rt\<lparr>rt_memory := m\<rparr>)
                | (Inr entry, m) \<Rightarrow>
                    (Inr (mk_result True ''memory.remember'' [(''remembered'', PStr (e_text entry))] []),
                     rt\<lparr>rt_memory := m\<rparr>))))"

definition store_place_at :: "pyval \<Rightarrow> real \<Rightarrow> real \<Rightarrow> pyval \<Rightarrow> runtime \<Rightarrow> task_result res \<times> runtime" where
  "store_place_at name x y kind rt =
     (let fr = float_repr rt; n = py_str fr name in
      case no_service ''world_model'' ''add_place'' rt of
        Inl e \<Rightarrow> (Inl e, rt)
      | Inr _ \<Rightarrow>
          let rt1 = rt\<lparr>rt_world := add_place n x y (py_str fr kind) (rt_world rt)\<rparr> in
          (case no_service ''memory'' ''remember'' rt1 of
             Inl e \<Rightarrow> (Inl e, rt1)
           | Inr _ \<Rightarrow>
               (case remember (n @ '' is a place at ('' @ fmt_fixed 1 x @ '', '' @ fmt_fixed 1 y @ '')'') ''place'' []
                       (rt_memory rt1) of
                  (Inl e, m) \<Rightarrow> (Inl e, rt1\<lparr>rt_memory := m\<rparr>)
                | (Inr _, m) \<Rightarrow>
                    (Inr (mk_result True ''memory.store_place''
                       [(''place'', name), (''x'', PFloat x), (''y'', PFloat y)] []),
                     rt1\<lparr>rt_memory := m\<rparr>))))"

definition h_store_place :: handler where
  "h_store_place h t rt =
     (let name = t_arg t ''name'' PNone in
      if \<not> truthy name then (Inr (mk_result False ''memory.store_place'' [] ''no place name given''), rt)
      else case rt_backend rt of
        None \<Rightarrow> (Inl (no_attr ''pose''), rt)
      | Some b \<Rightarrow>
          (case (to_float h (t_arg t ''x'' (PFloat (pose_x (get_pose b)))),
                 to_float h (t_arg t ''y'' (PFloat (pose_y (get_pose b))))) of
             (Inl e, _) \<Rightarrow> (Inl e, rt)
           | (_, Inl e) \<Rightarrow> (Inl e, rt)
           | (Inr x, Inr y) \<Rightarrow> store_place_at name x y (t_arg t ''kind'' (PStr ''room'')) rt))"

definition h_forget :: handler where
  "h_forget h t rt =
     (let query = t_arg t ''query'' (PStr []) in
      case no_service ''memory'' ''forget'' rt of
        Inl e \<Rightarrow> (Inl e, rt)
      | Inr _ \<Rightarrow>
          (case str_method ''strip'' query of
             Inl e \<Rightarrow> (Inl e, rt)
           | Inr q \<Rightarrow>
               (case forget q (rt_memory rt) of (removed, m) \<Rightarrow>
                  let rt1 = rt\<lparr>rt_memory := m\<rparr> in
                  case (if has_service rt1 ''world_model'' then remove_place q (rt_world rt1)
                        else (False, rt_world rt1)) of (also_place, w) \<Rightarrow>
                    (Inr (mk_result True ''memory.forget''
                       [(''removed'', PInt (int removed)), (''place_removed'', PBool also_place)] []),
                     rt1\<lparr>rt_world := w\<rparr>))))"

section \<open>Administrative handlers\<close>

text \<open>\<open>body_manager.set_active(body_id, backend)\<close> on argument values: a body identifier that is not
  a string is never available, and a backend that is neither falsy nor a string is refused after
  the selection was read.\<close>

definition set_active_arg :: "(real \<Rightarrow> string) \<Rightarrow> pyval \<Rightarrow> pyval \<Rightarrow> body_manager \<Rightarrow> pydict res \<times> body_manager" where
  "set_active_arg fr bid backend bm =
     (case bid of
        PStr s \<Rightarrow>
          (case backend of
             PStr b \<Rightarrow> set_active s (Some b) bm
           | v \<Rightarrow>
               if truthy v \<and> s \<in> set (available_bodies bm) then
                 (case selection bm of
                    Inl e \<Rightarrow> (Inl e, bm)
                  | Inr _ \<Rightarrow> (Inl (BodyError (''backend must be '' @ repr_str ''simulation'' @ '' or ''
                                @ repr_str ''physical'' @ '', got '' @ py_repr fr v)), bm))
               else set_active s None bm)
      | v \<Rightarrow> (Inl (BodyError (''unknown body '' @ py_repr fr v @ ''; available: ''
              @ (if available_bodies bm = [] then ''none'' else join '', '' (available_bodies bm)))), bm))"

definition h_set_body :: handler where
  "h_set_body h t rt =
     (case set_active_arg (float_repr rt) (t_arg t ''body_id'' (PStr [])) (t_arg t ''backend'' PNone) (bodies rt) of
        (Inl e, bm) \<Rightarrow> (Inr (mk_result False ''system.set_body'' [] (exn_str e)), rt\<lparr>bodies := bm\<rparr>)
      | (Inr sel, bm) \<Rightarrow>
          (Inr (mk_result True ''system.set_body''
             [(''selection'', PDict sel), (''applies'', PStr ''next boot'')] []), rt\<lparr>bodies := bm\<rparr>))"

text \<open>\<open>open(bundle, "rb")\<close>: a path or a file descriptor; its content is a parameter.\<close>

definition bundle_of_arg :: "runtime \<Rightarrow> pyval \<Rightarrow> bundle_file res" where
  "bundle_of_arg rt v =
     (case v of
        PStr s \<Rightarrow> Inr (bundle_at rt s)
      | PInt i \<Rightarrow> Inr (bundle_at rt (show_int i))
      | PBool b \<Rightarrow> Inr (bundle_at rt (if b then ''1'' else ''0''))
      | _ \<Rightarrow> Inl (TypeError (''expected str, bytes or os.PathLike object, not '' @ py_type_name v)))"

definition h_install_update :: handler where
  "h_install_update h t rt =
     (let bundle = t_arg t ''bundle'' PNone in
      if \<not> has_service rt ''update''
      then (Inr (mk_result False ''system.install_update'' [] ''update service unavailable''), rt)
      else if \<not> truthy bundle then
        (Inr (mk_result True ''system.install_update''
           [(''note'', PStr ''no update bundle specified''),
            (''status'', PDict (update_status (uinfo (rt_update rt))))] []), rt)
      else case bundle_of_arg rt bundle of
        Inl e \<Rightarrow> (Inl e, rt)
      | Inr f \<Rightarrow>
          (case install (float_repr rt) (payload_digest rt) f (rt_update rt) of
             (Inl e, u) \<Rightarrow> (Inl e, rt\<lparr>rt_update := u\<rparr>)
           | (Inr (result, recs), u) \<Rightarrow>
               let ok = truthy (dict_get result ''ok'' (PBool False)) in
               (Inr (mk_result ok ''system.install_update'' result
                  (if ok then [] else py_str (float_repr rt) (dict_get result ''reason'' (PStr ''install failed'')))),
                fold emit_audit recs (rt\<lparr>rt_update := u\<rparr>))))"

definition h_reboot :: handler where
  "h_reboot h t rt =
     (Inr (mk_result True ''system.request_reboot'' [(''note'', PStr ''reboot requested (reference stub)'')] []), rt)"

definition h_shutdown :: handler where
  "h_shutdown h t rt =
     (if has_supervisor rt then
        (case request_shutdown rt of
           (Inl e, rt1) \<Rightarrow> (Inl e, rt1)
         | (Inr _, rt1) \<Rightarrow> (Inr (mk_result True ''system.shutdown'' [(''state'', state_val rt1)] []), rt1))
      else (Inr (mk_result True ''system.shutdown'' [(''state'', state_val rt)] []), rt))"

definition h_unhandled :: handler where
  "h_unhandled h t rt = (Inr (mk_result False (t_intent t) [] ''no executive handler for this intent''), rt)"

section \<open>Running an intent\<close>

definition HANDLERS :: "(string \<times> handler) list" where
  "HANDLERS =
     [(''robot.get_status'', h_status), (''robot.get_battery'', h_battery),
      (''robot.get_temperature'', h_temperature), (''diagnostics.summary'', h_diagnostics),
      (''robot.explain'', h_explain), (''perception.describe_scene'', h_describe),
      (''navigation.list_places'', h_list_places), (''help'', h_help), (''motion.stop'', h_stop),
      (''motion.emergency_stop'', h_estop), (''task.cancel'', h_cancel), (''voice.silence'', h_silence),
      (''robot.return_safe_idle'', h_safe_idle), (''navigation.navigate_to'', h_navigate),
      (''navigation.go_charge'', h_go_charge), (''inspect.named_target'', h_inspect),
      (''memory.remember'', h_remember), (''memory.store_place'', h_store_place),
      (''memory.forget'', h_forget), (''system.set_body'', h_set_body),
      (''system.install_update'', h_install_update), (''system.request_reboot'', h_reboot),
      (''system.shutdown'', h_shutdown)]"

definition handler_for :: "string \<Rightarrow> handler" where
  "handler_for name = dict_get HANDLERS name h_unhandled"

text \<open>Before the handler: the task is created and started, and the start is audited.\<close>

definition begin_task :: "structured_intent \<Rightarrow> string \<Rightarrow> runtime \<Rightarrow> task \<times> runtime" where
  "begin_task intent user rt =
     (let t = task_start (new_task (i_intent intent) user (i_arguments intent) (task_counter rt))
      in (t, emit_audit ((blank_record ''task'')\<lparr>au_user := Some user, au_request_text := Some (i_raw_text intent),
               au_intent := Some (i_intent intent), au_arguments := Some (i_arguments intent),
               au_approval := Some ''approved'', au_task_id := Some (t_task_id t), au_outcome := Some ''started''\<rparr>)
             (rt\<lparr>current_task := Some t, task_counter := Suc (task_counter rt), cancel_flag := False\<rparr>)))"

text \<open>After the handler: the task is finished, stored and audited.\<close>

definition end_task :: "structured_intent \<Rightarrow> string \<Rightarrow> task \<Rightarrow> task_result \<Rightarrow> runtime \<Rightarrow> runtime" where
  "end_task intent user t0 result rt =
     (let t = (case current_task rt of None \<Rightarrow> t0 | Some t \<Rightarrow> t);
          st = (if tr_ok result then SUCCEEDED
                else if tr_kind result = ''task.cancel'' \<and> tr_ok result then CANCELLED else FAILED);
          done_t = task_finish st t;
          rt1 = rt\<lparr>task_history := task_history rt @ [done_t]\<rparr>
      in (emit_audit ((blank_record ''task'')\<lparr>au_user := Some user, au_intent := Some (i_intent intent),
            au_task_id := Some (t_task_id t), au_outcome := Some (task_state_value st),
            au_reason := Some (tr_error result),
            au_safety_state := Some (state_value (cur_state (rt_state rt)))\<rparr>) rt1)\<lparr>current_task := None\<rparr>)"

definition run_intent :: "host \<Rightarrow> decision \<Rightarrow> string \<Rightarrow> runtime \<Rightarrow> task_result \<times> runtime" where
  "run_intent h dec user rt =
     (let intent = dec_intent dec in
      case begin_task intent user rt of (t, rt1) \<Rightarrow>
        (case handler_for (i_intent intent) h t rt1 of (r, rt2) \<Rightarrow>
           let result = (case r of Inr x \<Rightarrow> x | Inl e \<Rightarrow> mk_result False (i_intent intent) [] (exn_report e));
               result1 = result\<lparr>tr_task_id := t_task_id t\<rparr>
           in (result1, end_task intent user t result1 rt2)))"

end
