(* ===== verification/ExecutiveDrive.thy ===== *)
theory ExecutiveDrive
  imports Executive
begin

text \<open>
  What \<open>_drive_to\<close> of \<open>executive/executive.py\<close> guarantees: the drive loop changes nothing but the
  device's motion state and the noted obstacles; the tree settles in one tick; a refused
  permission moves nothing; success means arrival; and a drive that returns has released the
  motor power. The one way around the release is an exception inside the loop.
\<close>

section \<open>Facts about the drive\<close>

lemma rt_task_step_keeps [simp, keeps]:
  "ctl (rt_task_step l rt) = ctl rt" "rt_backend (rt_task_step l rt) = rt_backend rt"
  "rt_state (rt_task_step l rt) = rt_state rt" "rt_body (rt_task_step l rt) = rt_body rt"
  "svcs (rt_task_step l rt) = svcs rt" "has_safety (rt_task_step l rt) = has_safety rt"
  "latch_file (rt_task_step l rt) = latch_file rt" "rt_world (rt_task_step l rt) = rt_world rt"
  "cancel_flag (rt_task_step l rt) = cancel_flag rt" "healthy_now (rt_task_step l rt) = healthy_now rt"
  by (simp_all add: rt_task_step_def healthy_now_def)

text \<open>What the drive loop may change: the pose, temperatures and charge of the backend, the gait
  state and the noted obstacles.\<close>

definition drives :: "runtime \<Rightarrow> runtime \<Rightarrow> bool" where
  "drives rt rt' =
     (ctl rt' = ctl rt \<and> rt_state rt' = rt_state rt \<and> rt_body rt' = rt_body rt \<and> svcs rt' = svcs rt
      \<and> latch_file rt' = latch_file rt
      \<and> (case rt_backend rt of None \<Rightarrow> rt_backend rt' = None
         | Some b \<Rightarrow> \<exists>b'. rt_backend rt' = Some b' \<and> same_device b b'))"

lemma drives_refl [simp, intro]: "drives rt rt"
  by (simp add: drives_def split: option.split)

lemma drives_trans: "drives a b \<Longrightarrow> drives b c \<Longrightarrow> drives a c"
  by (auto simp: drives_def split: option.splits intro: same_device_trans)

lemma drives_drive: "drives rt (snd (drive v dt rt))"
  using drive_same_device [of rt _ v dt] drive_no_backend [of rt v dt]
  by (simp add: drives_def split: option.split)

lemma drives_power: "drives rt rt' \<Longrightarrow> powers_off rt' = powers_off rt"
  by (auto simp: drives_def powers_off_def backend_power_def power_enabled_def same_device_def split: option.splits)

lemma drives_blocked: "drives rt (fst (snd (drive_blocked d (rt, data))))"
  by (simp add: drive_blocked_def Let_def drives_def split: option.split)

lemma drives_toward: "drives rt (fst (snd (drive_toward goal (rt, data))))"
  using drives_drive [of rt _ DRIVE_DT]
  by (simp add: drive_toward_def Let_def case_prod_beta split: option.split sum.split)

lemma drives_tick: "drives rt (fst (snd (drive_tick goal (rt, data))))"
  using drives_blocked [of rt _ data] drives_toward [of rt goal data]
  by (simp add: drive_tick_def)

lemma drives_loop: "drives rt (fst (snd (drive_loop n goal (rt, data))))"
proof (induction n arbitrary: rt data)
  case (Suc n)
  obtain r rt1 data1 where t: "drive_tick goal (rt, data) = (r, rt1, data1)"
    by (cases "drive_tick goal (rt, data)")
  have d: "drives rt rt1" using drives_tick [of rt goal data] t by simp
  show ?case
    using t d drives_trans [OF d Suc [of rt1 data1]] by (simp split: sum.split option.split)
qed simp

text \<open>A drive that succeeds has arrived.\<close>

definition near :: "pose \<Rightarrow> runtime \<Rightarrow> bool" where
  "near goal rt =
     (case rt_backend rt of None \<Rightarrow> False
      | Some b \<Rightarrow> hypot (pose_x goal - pose_x (get_pose b)) (pose_y goal - pose_y (get_pose b)) \<le> ARRIVAL_M)"

lemma velocity_toward_distance:
  "velocity_toward body goal p = Inr (v, d) \<Longrightarrow> d = hypot (pose_x goal - pose_x p) (pose_y goal - pose_y p)"
  by (auto simp: velocity_toward_def Let_def split: sum.splits)

lemma blocked_not_success: "fst (drive_blocked d w) \<noteq> Inr (Some SUCCESS)"
  by (cases w) (simp add: drive_blocked_def Let_def split: option.split)

lemma toward_success:
  assumes "drive_toward goal (rt, data) = (Inr (Some SUCCESS), rt1, data1)"
  shows "near goal rt1 \<and> map_of data1 ''result'' = Some (PStr ''arrived'')"
  using assms
  by (auto simp: drive_toward_def Let_def near_def case_prod_beta dest!: velocity_toward_distance
      split: option.splits sum.splits if_splits)

lemma tick_success:
  assumes "drive_tick goal (rt, data) = (Inr (Some SUCCESS), rt1, data1)"
  shows "near goal rt1 \<and> map_of data1 ''result'' = Some (PStr ''arrived'')"
  using assms toward_success [of goal rt data rt1 data1] blocked_not_success [of "snd (is_path_blocked rt)" "(rt, data)"]
  by (auto simp: drive_tick_def split: if_splits)

lemma loop_success:
  "drive_loop n goal (rt, data) = (Inr SUCCESS, rt1, data1) \<Longrightarrow>
     near goal rt1 \<and> map_of data1 ''result'' = Some (PStr ''arrived'')"
proof (induction n arbitrary: rt data)
  case (Suc n)
  obtain r rt2 data2 where t: "drive_tick goal (rt, data) = (r, rt2, data2)"
    by (cases "drive_tick goal (rt, data)")
  show ?case
    using Suc.prems Suc.IH [of rt2 data2] tick_success [of goal rt data rt2 data2] t
    by (auto split: sum.splits option.splits)
qed simp

section \<open>Facts about the tree\<close>

lemma drive_transition_ok:
  assumes "dst \<in> set (TRANSITIONS (cur_state (rt_state rt)))"
  obtains st where "rt_transition dst reason rt = (Inr (), rt\<lparr>rt_state := st\<rparr>)" "cur_state st = dst"
proof -
  have "\<exists>st. transition (rt_state rt) dst reason = Inr st \<and> cur_state st = dst"
    using assms by (auto simp: transition_def can_transition_def)
  then show ?thesis using that by (auto simp: rt_transition_def)
qed

lemma enter_active_ok:
  obtains st where "bt_enter_active label (rt, data, held) = (Inr (Flag True), rt\<lparr>rt_state := st\<rparr>, data, held)"
    "cur_state (rt_state rt) \<in> {READY, DEGRADED} \<Longrightarrow> cur_state st = ACTIVE"
proof (cases "cur_state (rt_state rt) \<in> {READY, DEGRADED}")
  case True
  then have "ACTIVE \<in> set (TRANSITIONS (cur_state (rt_state rt)))" by auto
  then obtain st where "rt_transition ACTIVE (''navigate to '' @ label) rt = (Inr (), rt\<lparr>rt_state := st\<rparr>)" "cur_state st = ACTIVE"
    by (rule drive_transition_ok)
  with True show ?thesis by (intro that [of st]) (simp_all add: bt_enter_active_def)
next
  case False
  then show ?thesis by (intro that [of "rt_state rt"]) (simp_all add: bt_enter_active_def)
qed

lemma drive_release_ok:
  obtains rt1 where "drive_release held rt = (Inr (), rt1)" "cur_state (rt_state rt1) \<noteq> ACTIVE"
    "held \<Longrightarrow> powers_off rt1" "\<not> held \<Longrightarrow> powers_off rt1 = powers_off rt"
    "rt_backend rt1 = (if held then map_option (set_power False) (rt_backend rt) else rt_backend rt)"
proof -
  let ?r = "if held then release_motion_permission rt else rt"
  have p: "held \<Longrightarrow> powers_off ?r" "\<not> held \<Longrightarrow> powers_off ?r = powers_off rt"
    by (simp_all add: release_powers_off)
  have b: "rt_backend ?r = (if held then map_option (set_power False) (rt_backend rt) else rt_backend rt)"
    by (simp add: release_backend)
  show ?thesis
  proof (cases "cur_state (rt_state ?r) = ACTIVE")
    case True
    then have "READY \<in> set (TRANSITIONS (cur_state (rt_state ?r)))" by (simp only: True) simp
    then obtain st where "rt_transition READY ''task complete'' ?r = (Inr (), ?r\<lparr>rt_state := st\<rparr>)" "cur_state st = READY"
      by (rule drive_transition_ok)
    moreover have "powers_off (?r\<lparr>rt_state := st\<rparr>) = powers_off ?r" by (simp add: powers_off_def)
    ultimately show ?thesis using True p b
      by (intro that [of "?r\<lparr>rt_state := st\<rparr>"]) (simp_all add: drive_release_def Let_def)
  next
    case False
    then show ?thesis using p b by (intro that [of ?r]) (simp_all add: drive_release_def Let_def)
  qed
qed

lemma tick_navigate:
  assumes "bt_acquire w = (Inr (Flag True), w1)" "bt_enter_active label w1 = (Inr (Flag True), w2)"
    "bt_drive goal w2 = (r, w3)"
  shows "tick (navigate_tree goal label) w =
     (map_sum id as_status r,
      Sequence ''navigate'' [Action ''acquire_motion_permission'' bt_acquire,
        Action ''enter_active'' (bt_enter_active label), Action ''drive_to_goal'' (bt_drive goal)]
        (if map_sum id as_status r = Inr FAILURE then ''drive_to_goal'' else []), w3)"
proof (cases r)
  case (Inl e)
  then show ?thesis using assms by (simp add: navigate_tree_def)
next
  case (Inr x)
  then show ?thesis using assms by (cases "as_status x") (simp_all add: navigate_tree_def)
qed

lemma tick_refused:
  assumes "bt_acquire w = (Inr (Flag False), w1)"
  shows "tick (navigate_tree goal label) w =
     (Inr FAILURE, Sequence ''navigate'' [Action ''acquire_motion_permission'' bt_acquire,
        Action ''enter_active'' (bt_enter_active label), Action ''drive_to_goal'' (bt_drive goal)]
        ''acquire_motion_permission'', w1)"
  using assms by (simp add: navigate_tree_def)

lemma run_settled: "0 < n \<Longrightarrow> fst (tick t w) \<noteq> Inr RUNNING \<Longrightarrow> run n t w = tick t w"
  by (cases n; cases "tick t w") (auto split: sum.split bt_status.split)

lemma drive_loop_settled: "fst (drive_loop n goal w) \<noteq> Inr RUNNING"
proof (induction n arbitrary: w)
  case 0
  then show ?case by (cases w) simp
next
  case (Suc n)
  obtain rt data where w: "w = (rt, data)" by (cases w)
  have "fst (drive_tick goal w) \<noteq> Inr (Some RUNNING)"
    by (simp add: w drive_tick_def drive_blocked_def drive_toward_def Let_def case_prod_beta
        split: option.split sum.split)
  then show ?case using Suc by (cases "drive_tick goal w") (auto split: sum.split option.split)
qed

text \<open>The two ways a drive can go once there is a safety gateway.\<close>

definition stepped :: "pyval \<Rightarrow> runtime \<Rightarrow> runtime" where
  "stepped label_val rt =
     rt_task_step (''navigate to '' @ py_str (float_repr rt) label_val) (rt_task_step ''check health'' rt)"

lemma drive_to_refused:
  assumes "has_safety rt" "\<not> healthy_now rt"
  shows "\<exists>data reason rt1. drive_to goal l rt = (Inr (False, data, reason), rt1)
    \<and> rt_backend rt1 = rt_backend rt \<and> cur_state (rt_state rt1) \<noteq> ACTIVE
    \<and> (powers_off rt \<longrightarrow> powers_off rt1)"
proof -
  let ?label = "py_str (float_repr rt) l" and ?rt1 = "stepped l rt"
  let ?w = "(?rt1, [(''label'', l)], False)" and ?req = "request_motion_permission ?rt1"
  have h: "\<not> healthy_now ?rt1" "has_safety ?rt1" using assms by (simp_all add: stepped_def)
  note req = request_denied [OF h(1)]
  then obtain data where "bt_acquire ?w = (Inr (Flag False), snd ?req, data, False)"
    using h(2) by (simp add: bt_acquire_def case_prod_beta)
  from run_settled [of 10000 "navigate_tree goal ?label" ?w] tick_refused [OF this, of goal ?label]
  obtain tree where run: "run 10000 (navigate_tree goal ?label) ?w = (Inr FAILURE, tree, snd ?req, data, False)"
    by auto
  obtain rt3 where rel: "drive_release False (snd ?req) = (Inr (), rt3)" "cur_state (rt_state rt3) \<noteq> ACTIVE"
    "powers_off rt3 = powers_off (snd ?req)" "rt_backend rt3 = rt_backend (snd ?req)"
    by (rule drive_release_ok [of False "snd ?req"]) simp
  have "drive_to goal l rt = (Inr (False, data, failure_reason (float_repr rt) ?label data False (last_failed tree)), rt3)"
    using run rel(1) by (simp add: drive_to_def Let_def stepped_def)
  moreover have "observes ?rt1 (snd ?req)"
    using req observes_trans [OF observes_gw(1) observes_gw(2)] by simp
  then have "rt_backend (snd ?req) = rt_backend rt" "powers_off rt \<longrightarrow> powers_off (snd ?req)"
    by (auto simp: observes_def powers_off_def backend_power_def stepped_def)
  ultimately show ?thesis using rel by simp
qed

lemma drive_to_granted:
  assumes "has_safety rt" "healthy_now rt"
  obtains st rt3 data3 r where
    "drive_loop MAX_DRIVE_TICKS goal ((snd (request_motion_permission (stepped l rt)))\<lparr>rt_state := st\<rparr>,
       [(''label'', l), (''motion_permission'',
          PDict (permission_to_dict (fst (request_motion_permission (stepped l rt)))))]) = (r, rt3, data3)"
    "cur_state (rt_state rt) \<in> {READY, DEGRADED} \<Longrightarrow> cur_state st = ACTIVE"
    "\<And>e. r = Inl e \<Longrightarrow> drive_to goal l rt = (Inl e, rt3)"
    "\<And>x. r = Inr x \<Longrightarrow> \<exists>reason rt4. drive_to goal l rt = (Inr (x = SUCCESS, data3, reason), rt4)
        \<and> drive_release True rt3 = (Inr (), rt4) \<and> powers_off rt4 \<and> cur_state (rt_state rt4) \<noteq> ACTIVE
        \<and> rt_backend rt4 = map_option (set_power False) (rt_backend rt3)"
proof -
  let ?label = "py_str (float_repr rt) l" and ?rt1 = "stepped l rt"
  let ?w = "(?rt1, [(''label'', l)], False)" and ?req = "request_motion_permission ?rt1"
  let ?data = "[(''label'', l), (''motion_permission'', PDict (permission_to_dict (fst ?req)))]"
  have h: "healthy_now ?rt1" "has_safety ?rt1" using assms by (simp_all add: stepped_def)
  have acq: "bt_acquire ?w = (Inr (Flag True), snd ?req, ?data, True)"
    using h(2) request_granted [OF h(1)] by (simp add: bt_acquire_def case_prod_beta)
  obtain st where ent: "bt_enter_active ?label (snd ?req, ?data, True) = (Inr (Flag True), (snd ?req)\<lparr>rt_state := st\<rparr>, ?data, True)"
    and st: "cur_state (rt_state (snd ?req)) \<in> {READY, DEGRADED} \<Longrightarrow> cur_state st = ACTIVE"
    by (rule enter_active_ok [of ?label "snd ?req" ?data True]) blast
  obtain r rt3 data3 where loop: "drive_loop MAX_DRIVE_TICKS goal ((snd ?req)\<lparr>rt_state := st\<rparr>, ?data) = (r, rt3, data3)"
    by (cases "drive_loop MAX_DRIVE_TICKS goal ((snd ?req)\<lparr>rt_state := st\<rparr>, ?data)")
  have drv: "bt_drive goal ((snd ?req)\<lparr>rt_state := st\<rparr>, ?data, True) = (map_sum id Status r, rt3, data3, True)"
    using loop by (cases r) (simp_all add: bt_drive_def)
  note tick = tick_navigate [OF acq ent drv]
  have "r \<noteq> Inr RUNNING" using drive_loop_settled [of MAX_DRIVE_TICKS goal "((snd ?req)\<lparr>rt_state := st\<rparr>, ?data)"] loop by simp
  then have "fst (tick (navigate_tree goal ?label) ?w) \<noteq> Inr RUNNING" unfolding tick by (cases r) simp_all
  then have run: "run 10000 (navigate_tree goal ?label) ?w = tick (navigate_tree goal ?label) ?w"
    by (intro run_settled) simp_all
  obtain rt4 where rel: "drive_release True rt3 = (Inr (), rt4)" "cur_state (rt_state rt4) \<noteq> ACTIVE" "powers_off rt4"
    "rt_backend rt4 = map_option (set_power False) (rt_backend rt3)"
    by (rule drive_release_ok [of True rt3]) simp
  show ?thesis
  proof (rule that [OF loop])
    show "cur_state st = ACTIVE" if "cur_state (rt_state rt) \<in> {READY, DEGRADED}"
      using st that by (simp add: stepped_def)
    show "drive_to goal l rt = (Inl e, rt3)" if "r = Inl e" for e
      using run tick that by (simp add: drive_to_def Let_def stepped_def)
    fix x assume "r = Inr x"
    then show "\<exists>reason rt4. drive_to goal l rt = (Inr (x = SUCCESS, data3, reason), rt4)
        \<and> drive_release True rt3 = (Inr (), rt4) \<and> powers_off rt4 \<and> cur_state (rt_state rt4) \<noteq> ACTIVE
        \<and> rt_backend rt4 = map_option (set_power False) (rt_backend rt3)"
      using run tick rel by (simp add: drive_to_def Let_def stepped_def)
  qed
qed

lemma drive_to_no_safety: "\<not> has_safety rt \<Longrightarrow> \<exists>e. fst (drive_to goal l rt) = Inl e"
  by (simp add: drive_to_def Let_def navigate_tree_def bt_acquire_def run_settled)

text \<open>The way is clear: the conditions under which a round of the loop heads for the goal. They
  survive the grant of a permission.\<close>

definition clear_to_drive :: "runtime \<Rightarrow> bool" where
  "clear_to_drive rt = (\<not> cancel_flag rt \<and> has_service rt ''navigation'' \<and> has_service rt ''motion''
     \<and> localization_ok rt \<and> \<not> fst (is_path_blocked rt))"

lemma tick_clear: "clear_to_drive rt \<Longrightarrow> drive_tick goal (rt, data) = drive_toward goal (rt, data)"
  by (simp add: clear_to_drive_def drive_tick_def)

lemma power_readings [simp]:
  "sr_ok (read_sensor (set_power p b) i) = sr_ok (read_sensor b i)" "sim_faults (set_power p b) = sim_faults b"
  "lidar_scan (set_power p b) = lidar_scan b" "get_pose (set_power p b) = get_pose b"
  by (simp_all add: set_power_def read_sensor_def dropout_def lidar_scan_def get_pose_def Let_def)

lemma request_cancel [simp]: "cancel_flag (snd (request_motion_permission rt)) = cancel_flag rt"
  by (simp add: request_motion_permission_def case_prod_beta Let_def now_def log_safety_event_def emit_audit_def
      publish_event_def gw_ctl_status_def gw_heartbeat_def on_backend_def)

lemma clear_cong:
  assumes "cancel_flag rt' = cancel_flag rt" "svcs rt' = svcs rt" "rt_body rt' = rt_body rt"
    "rt_backend rt' = map_option (set_power p) (rt_backend rt)"
  shows "clear_to_drive rt' = clear_to_drive rt"
proof -
  have "localization_confidence rt' = localization_confidence rt" "is_path_blocked rt' = is_path_blocked rt"
    using assms by (simp_all add: localization_confidence_def is_path_blocked_def split: option.split)
  then show ?thesis using assms by (simp add: clear_to_drive_def localization_ok_def has_service_def)
qed

lemma clear_granted:
  assumes "healthy_now rt"
  shows "clear_to_drive ((snd (request_motion_permission (stepped l rt)))\<lparr>rt_state := st\<rparr>) = clear_to_drive rt"
proof (rule clear_cong [where p = True])
  have "healthy_now (stepped l rt)" using assms by (simp add: stepped_def)
  from request_granted [OF this]
  show "rt_backend ((snd (request_motion_permission (stepped l rt)))\<lparr>rt_state := st\<rparr>) =
      map_option (set_power True) (rt_backend rt)" by (simp add: stepped_def)
qed (simp_all add: stepped_def)

text \<open>Two first rounds: a goal that is already reached, and a body whose speed limit is malformed.\<close>

lemma loop_arrives:
  assumes "clear_to_drive rt" "rt_backend rt = Some b" "rt_body rt = Some body" "effective_linear body = Inr v"
    "near goal rt"
  shows "fst (drive_loop (Suc n) goal (rt, data)) = Inr SUCCESS"
proof -
  obtain vel d where vt: "velocity_toward body goal (get_pose b) = Inr (vel, d)"
    using assms(4) by (simp add: velocity_toward_def Let_def)
  have "d \<le> ARRIVAL_M" using velocity_toward_distance [OF vt] assms(2,5) by (simp add: near_def)
  then show ?thesis
    using assms(1-3) vt by (simp add: tick_clear drive_toward_def clear_to_drive_def Let_def)
qed

lemma loop_raises:
  assumes "clear_to_drive rt" "rt_backend rt = Some b" "rt_body rt = Some body" "effective_linear body = Inl e"
  shows "drive_loop (Suc n) goal (rt, data) = (Inl e, rt, data)"
  using assms by (simp add: tick_clear drive_toward_def clear_to_drive_def velocity_toward_def Let_def)

lemma granted_world:
  assumes "healthy_now rt" "rt_backend rt = Some b"
  shows "rt_backend ((snd (request_motion_permission (stepped l rt)))\<lparr>rt_state := st\<rparr>) = Some (set_power True b)"
    "rt_body ((snd (request_motion_permission (stepped l rt)))\<lparr>rt_state := st\<rparr>) = rt_body rt"
proof -
  have "healthy_now (stepped l rt)" using assms by (simp add: stepped_def)
  from request_granted [OF this] assms(2)
  show "rt_backend ((snd (request_motion_permission (stepped l rt)))\<lparr>rt_state := st\<rparr>) = Some (set_power True b)"
    by (simp add: stepped_def)
qed (simp add: stepped_def)

lemma drive_to_arrives:
  assumes "has_safety rt" "healthy_now rt" "clear_to_drive rt" "rt_backend rt = Some b" "rt_body rt = Some body"
    "effective_linear body = Inr v" "near goal rt"
  shows "\<exists>data reason. fst (drive_to goal l rt) = Inr (True, data, reason)"
proof -
  obtain st rt3 data3 r data where loop:
    "drive_loop MAX_DRIVE_TICKS goal ((snd (request_motion_permission (stepped l rt)))\<lparr>rt_state := st\<rparr>, data) = (r, rt3, data3)"
    and ret: "\<And>x. r = Inr x \<Longrightarrow> \<exists>reason rt4. drive_to goal l rt = (Inr (x = SUCCESS, data3, reason), rt4)"
    by (rule drive_to_granted [OF assms(1,2), of goal l]) blast
  let ?g = "(snd (request_motion_permission (stepped l rt)))\<lparr>rt_state := st\<rparr>"
  have n: "MAX_DRIVE_TICKS = Suc 2999" by (simp add: MAX_DRIVE_TICKS_def)
  have "near goal ?g" using assms(4,7) granted_world [OF assms(2,4)] by (simp add: near_def)
  moreover have "clear_to_drive ?g" using assms(2,3) clear_granted by simp
  ultimately have "fst (drive_loop MAX_DRIVE_TICKS goal (?g, data)) = Inr SUCCESS"
    unfolding n using assms(5,6) granted_world [OF assms(2,4)] by (intro loop_arrives) simp_all
  with loop ret show ?thesis by fastforce
qed

lemma active_clear: "clear_to_drive active_rt"
proof -
  have s: "has_service active_rt ''navigation''" "has_service active_rt ''motion''" "has_service active_rt ''state_estimator''"
    by (rule active_has_service; simp add: SERVICE_NAMES_def)+
  have "localization_confidence active_rt = 8 / 10"
    by (simp add: localization_confidence_def SimulationBackend_def init_sim_def Let_def example_body_defs is_lidar_def
        startswith_def)
  moreover have "is_path_blocked active_rt = (False, None)"
    by (simp add: is_path_blocked_def lidar_scan_def SimulationBackend_def init_sim_def Let_def example_body_defs
        startswith_def)
  moreover have "\<not> cancel_flag active_rt"
    by (simp add: active_rt_def example_rt_def wire_def SERVICE_NAMES_def register_service_def new_runtime_def)
  ultimately show ?thesis using s
    by (simp add: clear_to_drive_def localization_ok_def MIN_LOCALIZATION_CONFIDENCE_def)
qed

lemma active_healthy: "healthy_now active_rt"
  by (simp add: healthy_now_def init_controller_def)

lemma active_powers_off: "powers_off active_rt"
  by (simp add: powers_off_def backend_power_def power_enabled_def init_controller_def SimulationBackend_def
      init_sim_def Let_def)

definition origin :: pose where
  "origin = \<lparr>pose_x = 0, pose_y = 0, pose_theta = 0\<rparr>"

lemma active_arrives: "\<exists>data reason. fst (drive_to origin (PStr ''home'') active_rt) = Inr (True, data, reason)"
proof (rule drive_to_arrives [OF _ active_healthy active_clear])
  show "near origin active_rt"
    by (simp add: near_def origin_def get_pose_def SimulationBackend_def init_sim_def Let_def ARRIVAL_M_def hypot_def)
  show "effective_linear example_body = Inr (1 / 2)"
    by (simp add: effective_linear_def max_linear_def example_body_defs dict_get_def)
qed simp_all

lemma drive_released:
  assumes "powers_off rt" "fst (drive_to goal l rt) = Inr r"
  shows "powers_off (snd (drive_to goal l rt)) \<and> cur_state (rt_state (snd (drive_to goal l rt))) \<noteq> ACTIVE"
proof (cases "has_safety rt \<and> healthy_now rt")
  case True
  then have hs: "has_safety rt" "healthy_now rt" by simp_all
  obtain rr rt3 where "\<And>e. rr = Inl e \<Longrightarrow> drive_to goal l rt = (Inl e, rt3)"
    "\<And>x. rr = Inr x \<Longrightarrow> \<exists>d reason rt4. drive_to goal l rt = (Inr (x = SUCCESS, d, reason), rt4)
        \<and> powers_off rt4 \<and> cur_state (rt_state rt4) \<noteq> ACTIVE"
    by (rule drive_to_granted [OF hs, of goal l]) blast
  with assms(2) show ?thesis by (cases rr) auto
next
  case False
  have s: "has_safety rt" using assms(2) drive_to_no_safety [of rt goal l] by fastforce
  with False have "\<not> healthy_now rt" by simp
  from drive_to_refused [OF s this, of goal l] assms(1) show ?thesis by auto
qed

lemma stop_state_estop: "c_estop (ctl (engage_estop reason rt))"
  by (simp add: engage_estop_def Let_def ctl_engage_estop_def)

section \<open>Properties\<close>

text \<open>C5. Power is always released after a drive: when \<open>_drive_to\<close> returns, successfully or not,
  from a system with both contactors open, both contactors are open again and the state is not
  ACTIVE.\<close>

theorem drive_releases_power:
  assumes "fst (drive_to goal l rt) = Inr r" "powers_off rt"
  shows "powers_off (snd (drive_to goal l rt)) \<and> cur_state (rt_state (snd (drive_to goal l rt))) \<noteq> ACTIVE"
  using assms(2,1) by (rule drive_released)

theorem drive_releases_power_witness:
  "powers_off (snd (drive_to origin (PStr ''home'') active_rt))"
proof -
  obtain r where "fst (drive_to origin (PStr ''home'') active_rt) = Inr r" using active_arrives by blast
  from drive_releases_power [OF this active_powers_off] show ?thesis by blast
qed

text \<open>C17. Success means arrival: when \<open>_drive_to\<close> reports success, the safety controller had granted
  the permission, and the body is within the arrival distance of the goal.\<close>

theorem drive_success_is_arrival:
  assumes "fst (drive_to goal l rt) = Inr (True, data, err)"
  shows "has_safety rt \<and> healthy_now rt \<and> near goal (snd (drive_to goal l rt))
    \<and> map_of data ''result'' = Some (PStr ''arrived'')"
proof -
  have s: "has_safety rt" using assms drive_to_no_safety [of rt goal l] by fastforce
  moreover have h: "healthy_now rt" using assms drive_to_refused [OF s, of goal l] by fastforce
  moreover obtain st rt3 data3 r d0 where
    loop: "drive_loop MAX_DRIVE_TICKS goal ((snd (request_motion_permission (stepped l rt)))\<lparr>rt_state := st\<rparr>, d0) = (r, rt3, data3)"
    and inl: "\<And>e. r = Inl e \<Longrightarrow> drive_to goal l rt = (Inl e, rt3)"
    and inr: "\<And>x. r = Inr x \<Longrightarrow> \<exists>reason rt4. drive_to goal l rt = (Inr (x = SUCCESS, data3, reason), rt4)
        \<and> rt_backend rt4 = map_option (set_power False) (rt_backend rt3)"
    by (rule drive_to_granted [OF s h, of goal l]) blast
  moreover obtain x where x: "r = Inr x" using assms inl by (cases r) auto
  from inr [OF this] obtain reason rt4 where d: "drive_to goal l rt = (Inr (x = SUCCESS, data3, reason), rt4)"
    and b: "rt_backend rt4 = map_option (set_power False) (rt_backend rt3)" by blast
  have "x = SUCCESS" "data3 = data" using assms d by simp_all
  with loop x have "near goal rt3" "map_of data ''result'' = Some (PStr ''arrived'')"
    using loop_success [of MAX_DRIVE_TICKS goal] by blast+
  moreover have "near goal rt4" using \<open>near goal rt3\<close> b by (cases "rt_backend rt3") (simp_all add: near_def)
  ultimately show ?thesis using d by simp
qed

theorem drive_success_is_arrival_witness:
  "near origin (snd (drive_to origin (PStr ''home'') active_rt))"
proof -
  obtain data err where "fst (drive_to origin (PStr ''home'') active_rt) = Inr (True, data, err)"
    using active_arrives by blast
  from drive_success_is_arrival [OF this] show ?thesis by blast
qed

text \<open>Without permission nothing moves: when the controller is not healthy (stop engaged, fault
  latched, link down or watchdog expired) a drive fails without an exception, the backend is
  untouched, and the state is not ACTIVE.\<close>

theorem refused_drive_moves_nothing:
  assumes "has_safety rt" "\<not> healthy_now rt"
  shows "\<exists>data reason. fst (drive_to goal l rt) = Inr (False, data, reason)
    \<and> rt_backend (snd (drive_to goal l rt)) = rt_backend rt
    \<and> cur_state (rt_state (snd (drive_to goal l rt))) \<noteq> ACTIVE"
  using drive_to_refused [OF assms, of goal l] by auto

theorem refused_drive_moves_nothing_witness:
  "\<exists>data reason. fst (drive_to origin (PStr ''home'') (engage_estop ''x'' active_rt)) = Inr (False, data, reason)"
proof -
  have "has_safety (engage_estop ''x'' active_rt)" by (simp add: engage_estop_def save_latch_def on_backend_def Let_def)
  moreover have "\<not> healthy_now (engage_estop ''x'' active_rt)"
    using stop_state_estop [of "''x''" active_rt] by (simp add: healthy_now_def)
  ultimately show ?thesis using refused_drive_moves_nothing [of "engage_estop ''x'' active_rt"] by blast
qed

text \<open>C39. An exception in the drive skips the release: when the body's speed limit cannot be read
  (\<open>effective_linear\<close> raises), a drive that was granted permission propagates the exception with
  the backend's contactor still closed and, from READY or DEGRADED, the state still ACTIVE.\<close>

theorem drive_exception_leaves_power_on:
  assumes "has_safety rt" "healthy_now rt" "clear_to_drive rt" "rt_backend rt = Some b" "rt_body rt = Some body"
    "effective_linear body = Inl e" "cur_state (rt_state rt) \<in> {READY, DEGRADED}"
  shows "fst (drive_to goal l rt) = Inl e \<and> backend_power (snd (drive_to goal l rt))
    \<and> cur_state (rt_state (snd (drive_to goal l rt))) = ACTIVE"
proof -
  obtain st rt3 data3 r d0 where
    loop: "drive_loop MAX_DRIVE_TICKS goal ((snd (request_motion_permission (stepped l rt)))\<lparr>rt_state := st\<rparr>, d0) = (r, rt3, data3)"
    and st: "cur_state (rt_state rt) \<in> {READY, DEGRADED} \<Longrightarrow> cur_state st = ACTIVE"
    and inl: "\<And>e. r = Inl e \<Longrightarrow> drive_to goal l rt = (Inl e, rt3)"
    by (rule drive_to_granted [OF assms(1,2), of goal l]) blast
  let ?g = "(snd (request_motion_permission (stepped l rt)))\<lparr>rt_state := st\<rparr>"
  have n: "MAX_DRIVE_TICKS = Suc 2999" by (simp add: MAX_DRIVE_TICKS_def)
  have "drive_loop MAX_DRIVE_TICKS goal (?g, d0) = (Inl e, ?g, d0)"
    unfolding n using assms(2-6) granted_world [OF assms(2,4)] clear_granted
    by (intro loop_raises [of ?g "set_power True b" body]) simp_all
  with loop inl have d: "drive_to goal l rt = (Inl e, ?g)" by simp
  then show ?thesis
    using st [OF assms(7)] granted_world [OF assms(2,4)] by (simp add: backend_power_def power_enabled_def)
qed

definition odd_body :: loaded_body where
  "odd_body = example_body
     \<lparr>caps := \<lparr>caps_raw = [(''locomotion'', [(''roll'', CapBool True), (''maximum_speed_mps'', CapExperimental)])]\<rparr>,
      limits := example_limits\<lparr>l_velocity := []\<rparr>\<rparr>"

theorem drive_exception_leaves_power_on_witness:
  "backend_power (snd (drive_to origin (PStr ''home'') (active_rt\<lparr>rt_body := Some odd_body\<rparr>)))
   \<and> cur_state (rt_state (snd (drive_to origin (PStr ''home'') (active_rt\<lparr>rt_body := Some odd_body\<rparr>)))) = ACTIVE"
proof -
  let ?rt = "active_rt\<lparr>rt_body := Some odd_body\<rparr>"
  have "healthy_now ?rt" using active_healthy by (simp add: healthy_now_def)
  moreover have "clear_to_drive ?rt"
  proof -
    have "sensors odd_body = sensors example_body" by (simp add: odd_body_def)
    then have "localization_confidence ?rt = localization_confidence active_rt" "is_path_blocked ?rt = is_path_blocked active_rt"
      by (simp_all add: localization_confidence_def is_path_blocked_def first_lidar_def)
    then show ?thesis using active_clear by (simp add: clear_to_drive_def localization_ok_def has_service_def)
  qed
  moreover have "\<exists>e. effective_linear odd_body = Inl e"
    by (simp add: effective_linear_def odd_body_def max_linear_def example_limits_def dict_get_def max_speed_def
        cap_get_def category_def)
  moreover have "cur_state (rt_state ?rt) \<in> {READY, DEGRADED}" by (simp add: init_machine_def)
  ultimately show ?thesis
    using drive_exception_leaves_power_on [of ?rt "SimulationBackend example_body" odd_body _ origin "PStr ''home''"] by auto
qed

end
