(* ===== verification/ExecutiveTasks.thy ===== *)
theory ExecutiveTasks
  imports ExecutiveDrive
begin

text \<open>
  What \<open>run_intent\<close> of \<open>executive/executive.py\<close> guarantees for every handler: the information
  handlers only observe, the memory and administrative handlers never reach the controller or
  the backend, no command leaves the motors powered, and the task history and the audit log
  account for every run. The handlers are covered together through \<open>handler_for_all\<close>, and the
  shutdown path through the lifecycle's hook contract.
\<close>

section \<open>What a command leaves behind\<close>

lemma observes_powers_off: "observes rt rt' \<Longrightarrow> powers_off rt \<Longrightarrow> powers_off rt'"
  by (auto simp: observes_def powers_off_def backend_power_def)

lemma observes_reasons: "observes rt (snd (reasons_now rt))"
  using observes_assess [of rt] by (simp add: reasons_now_def case_prod_beta)

lemma observes_h_status: "observes rt (snd (h_status h t rt))"
proof -
  let ?rt1 = "snd (reasons_now rt)"
  have "observes ?rt1 (snd (if has_safety ?rt1 then gw_status ?rt1 else ([], ?rt1)))" by auto
  from observes_trans [OF observes_reasons this] show ?thesis by (simp add: h_status_def case_prod_beta Let_def)
qed

lemma observes_h_explain: "observes rt (snd (h_explain h t rt))"
proof -
  let ?rt1 = "snd (reasons_now rt)"
  have "observes ?rt1 (snd (if has_safety ?rt1 then estop_engaged ?rt1 else (False, ?rt1)))" by auto
  from observes_trans [OF observes_reasons this] show ?thesis by (simp add: h_explain_def case_prod_beta)
qed

lemma observes_h_diagnostics: "observes rt (snd (h_diagnostics h t rt))"
  using observes_summary [of rt h] by (simp add: h_diagnostics_def case_prod_beta split: sum.split)

lemma pure_handlers:
  "snd (h_battery h t rt) = rt" "snd (h_temperature h t rt) = rt" "snd (h_describe h t rt) = rt"
  "snd (h_list_places h t rt) = rt" "snd (h_help h t rt) = rt" "snd (h_silence h t rt) = rt"
  "snd (h_reboot h t rt) = rt" "snd (h_unhandled h t rt) = rt"
  by (simp_all add: h_battery_def h_temperature_def h_describe_def h_list_places_def h_help_def h_silence_def
      h_reboot_def h_unhandled_def Let_def split: option.split sum.split)

text \<open>A backend whose contactor is open ignores the stop command.\<close>

lemma motion_stop_drives: "drives rt (snd (motion_stop rt))"
  using same_device_ops(2)
  by (auto simp: motion_stop_def drives_def send_velocity_backend split: option.split)

lemma stop_handlers_drive:
  "drives rt (snd (h_stop h t rt))" "drives rt (snd (h_cancel h t rt))"
proof -
  show "drives rt (snd (h_stop h t rt))"
    using motion_stop_drives [of rt] by (simp add: h_stop_def case_prod_beta split: sum.split)
  have "drives rt (exec_cancel rt)" by (simp add: exec_cancel_def drives_def split: option.split)
  from drives_trans [OF this motion_stop_drives] this show "drives rt (snd (h_cancel h t rt))"
    by (simp add: h_cancel_def Let_def case_prod_beta split: sum.split)
qed

text \<open>The memory and administrative handlers never reach the controller or the backend.\<close>

definition data_only :: "runtime \<Rightarrow> runtime \<Rightarrow> bool" where
  "data_only rt rt' =
     (ctl rt' = ctl rt \<and> rt_backend rt' = rt_backend rt \<and> rt_state rt' = rt_state rt \<and> svcs rt' = svcs rt
      \<and> rt_body rt' = rt_body rt \<and> latch_file rt' = latch_file rt)"

lemma data_only_powers_off: "data_only rt rt' \<Longrightarrow> powers_off rt' = powers_off rt"
  by (simp add: data_only_def powers_off_def backend_power_def)

lemma fold_emit_audit: "data_only rt (fold emit_audit recs rt)"
  by (induction recs arbitrary: rt) (simp_all add: data_only_def)

lemma data_handlers:
  "data_only rt (snd (h_remember h t rt))" "data_only rt (snd (h_store_place h t rt))"
  "data_only rt (snd (h_forget h t rt))" "data_only rt (snd (h_set_body h t rt))"
proof -
  show "data_only rt (snd (h_remember h t rt))"
    by (simp add: h_remember_def Let_def case_prod_beta data_only_def split: sum.split)
  show "data_only rt (snd (h_forget h t rt))"
    by (simp add: h_forget_def Let_def case_prod_beta data_only_def split: sum.split)
  show "data_only rt (snd (h_set_body h t rt))"
    by (simp add: h_set_body_def case_prod_beta data_only_def split: sum.split)
  have "data_only rt (snd (store_place_at name x y kind rt))" for name x y kind
    by (simp add: store_place_at_def Let_def case_prod_beta data_only_def split: sum.split)
  then show "data_only rt (snd (h_store_place h t rt))"
    by (simp add: h_store_place_def Let_def split: option.split sum.split) (simp add: data_only_def)
qed

lemma data_only_install: "data_only rt (snd (h_install_update h t rt))"
proof -
  have "data_only rt (fold emit_audit recs (rt\<lparr>rt_update := u\<rparr>))" for recs u
    using fold_emit_audit [of "rt\<lparr>rt_update := u\<rparr>" recs] by (simp add: data_only_def)
  then show ?thesis
    by (simp add: h_install_update_def Let_def case_prod_beta split: sum.split) (simp add: data_only_def)
qed

lemma shutdown_all_powers_off: "powers_off rt \<Longrightarrow> powers_off (snd (shutdown_all ns rt))"
proof (induction ns arbitrary: rt)
  case (Cons n ns)
  have "powers_off (snd (svc_shutdown n rt))"
    using hook_power.shutdown_svc_keeps [OF Cons.prems] by (simp add: svc_shutdown_def case_prod_beta)
  then show ?case using Cons.IH
    by (cases "svc_shutdown n rt"; cases "fst (svc_shutdown n rt)") simp_all
qed simp

lemma request_shutdown_powers_off:
  assumes "powers_off rt"
  shows "powers_off (snd (request_shutdown rt))"
proof -
  define rt1 where "rt1 = (if cur_state (rt_state rt) \<noteq> SHUTTING_DOWN
              then rt\<lparr>rt_state := force (rt_state rt) SHUTTING_DOWN ''shutdown requested''\<rparr> else rt)"
  obtain r rt2 where sh: "shutdown_all (rev (map fst (svcs rt1))) rt1 = (r, rt2)"
    by (cases "shutdown_all (rev (map fst (svcs rt1))) rt1")
  have "powers_off rt1" using assms by (simp add: rt1_def powers_off_def)
  then have p: "powers_off rt2" using shutdown_all_powers_off [of rt1] sh by (metis snd_conv)
  then have "powers_off ((on_backend backend_shutdown rt2)\<lparr>rt_state := st\<rparr>)" for st
    by (simp add: powers_off_def) (simp add: backend_power_def backend_shutdown_def power_enabled_def split: option.split)
  with p show ?thesis
    unfolding request_shutdown_def rt1_def [symmetric] Let_def sh by (cases r) simp_all
qed

lemma engage_powers_off: "powers_off (engage_estop reason rt)"
  by (simp add: powers_off_def engage_estop_def Let_def)

text \<open>A property of named handlers that holds of every registered one and of the fallback holds of
  the handler that an intent selects.\<close>

lemma handler_for_all:
  assumes "list_all (\<lambda>(n, f). Q n f) HANDLERS" "\<And>n. Q n h_unhandled"
  shows "Q name (handler_for name)"
proof (cases "map_of HANDLERS name")
  case None
  then show ?thesis using assms(2) by (simp add: handler_for_def dict_get_def)
next
  case (Some f)
  then have "(name, f) \<in> set HANDLERS" by (rule map_of_SomeD)
  then have "Q name f" using assms(1) by (auto simp: list_all_iff)
  then show ?thesis using Some by (simp add: handler_for_def dict_get_def)
qed

definition MOTION_INTENTS :: "string list" where
  "MOTION_INTENTS = [''navigation.navigate_to'', ''navigation.go_charge'', ''inspect.named_target'']"

definition leaves_power_off :: "host \<Rightarrow> task \<Rightarrow> runtime \<Rightarrow> string \<Rightarrow> handler \<Rightarrow> bool" where
  "leaves_power_off h t rt n f =
     (powers_off rt \<longrightarrow> (n \<in> set MOTION_INTENTS \<longrightarrow> (\<exists>x. fst (f h t rt) = Inr x)) \<longrightarrow> powers_off (snd (f h t rt)))"

lemma inspect_here_power: "powers_off (snd (inspect_here d tg dd rt)) = powers_off rt"
  by (simp add: inspect_here_def Let_def powers_off_def backend_power_def split: sum.split)

lemma motion_handlers_power:
  assumes "powers_off rt"
  shows "fst (h_navigate h t rt) = Inr x \<Longrightarrow> powers_off (snd (h_navigate h t rt))"
    "fst (h_go_charge h t rt) = Inr x \<Longrightarrow> powers_off (snd (h_go_charge h t rt))"
    "fst (h_inspect h t rt) = Inr x \<Longrightarrow> powers_off (snd (h_inspect h t rt))"
proof -
  have dr: "powers_off rt1" if "drive_to goal l rt = (Inr r, rt1)" for goal l r rt1
    using drive_released [OF assms, of goal l r] that by simp
  show "powers_off (snd (h_navigate h t rt))" if "fst (h_navigate h t rt) = Inr x"
    using that assms dr by (auto simp: h_navigate_def Let_def split: if_splits option.splits sum.splits prod.splits)
  have c: "powers_off (on_backend (set_charging True) rt1) = powers_off rt1" for rt1
    by (simp add: powers_off_def) (simp add: backend_power_def set_charging_def power_enabled_def split: option.split)
  show "powers_off (snd (h_go_charge h t rt))" if "fst (h_go_charge h t rt) = Inr x"
    using that assms dr c by (auto simp: h_go_charge_def Let_def split: if_splits option.splits sum.splits prod.splits)
  show "powers_off (snd (h_inspect h t rt))" if "fst (h_inspect h t rt) = Inr x"
    using that assms dr inspect_here_power
    by (auto simp: h_inspect_def Let_def split: if_splits option.splits sum.splits prod.splits)
qed

lemma safe_idle_power: "powers_off rt \<Longrightarrow> powers_off (snd (h_safe_idle h t rt))"
proof -
  assume p: "powers_off rt"
  let ?r = "if has_safety rt then release_motion_permission rt else rt"
  have r: "powers_off ?r" using p release_powers_off by simp
  have "powers_off (snd (rt_transition d m ?r))" for d m using r by (simp add: rt_transition_keeps)
  with r show ?thesis by (auto simp: h_safe_idle_def Let_def case_prod_beta split: sum.split)
qed

lemma handlers_power_off: "leaves_power_off h t rt name (handler_for name)"
proof (rule handler_for_all)
  show "leaves_power_off h t rt n h_unhandled" for n by (simp add: leaves_power_off_def pure_handlers)
  have ob: "leaves_power_off h t rt n f" if "observes rt (snd (f h t rt))" for n and f :: handler
    using observes_powers_off [OF that] by (simp add: leaves_power_off_def)
  have dr: "leaves_power_off h t rt n f" if "drives rt (snd (f h t rt))" for n and f :: handler
    using drives_power [OF that] by (simp add: leaves_power_off_def)
  have da: "leaves_power_off h t rt n f" if "data_only rt (snd (f h t rt))" for n and f :: handler
    using data_only_powers_off [OF that] by (simp add: leaves_power_off_def)
  have mo: "leaves_power_off h t rt ''navigation.navigate_to'' h_navigate"
    "leaves_power_off h t rt ''navigation.go_charge'' h_go_charge"
    "leaves_power_off h t rt ''inspect.named_target'' h_inspect"
    using motion_handlers_power [of rt h t] by (auto simp: leaves_power_off_def MOTION_INTENTS_def)
  have ot: "leaves_power_off h t rt n h_estop" "leaves_power_off h t rt n h_safe_idle"
    "leaves_power_off h t rt n h_shutdown" for n
    using safe_idle_power [of rt h t] request_shutdown_powers_off [of rt] engage_powers_off
    by (simp_all add: leaves_power_off_def h_estop_def h_shutdown_def case_prod_beta split: sum.split)
  show "list_all (\<lambda>(n, f). leaves_power_off h t rt n f) HANDLERS"
    unfolding HANDLERS_def
    using mo ot
    by (simp add: ob [of h_status] ob [of h_explain] ob [of h_diagnostics] observes_h_status observes_h_explain
        observes_h_diagnostics dr [of h_stop] dr [of h_cancel] stop_handlers_drive
        da [of h_remember] da [of h_store_place] da [of h_forget] da [of h_set_body] da [of h_install_update]
        data_handlers data_only_install
        ob [of h_battery] ob [of h_temperature] ob [of h_describe] ob [of h_list_places] ob [of h_help]
        ob [of h_silence] ob [of h_reboot] pure_handlers)
qed


lemma begin_task_keeps [simp]:
  "data_only rt (snd (begin_task i u rt))"
  by (simp add: begin_task_def Let_def data_only_def)

lemma end_task_keeps [simp]: "data_only rt (end_task i u t r rt)"
  by (simp add: end_task_def Let_def data_only_def)

lemma run_intent_unfold:
  "run_intent h dec user rt =
     (let b = begin_task (dec_intent dec) user rt; o1 = handler_for (i_intent (dec_intent dec)) h (fst b) (snd b);
          res = (case fst o1 of Inr x \<Rightarrow> x | Inl e \<Rightarrow> mk_result False (i_intent (dec_intent dec)) [] (exn_report e))
                  \<lparr>tr_task_id := t_task_id (fst b)\<rparr>
      in (res, end_task (dec_intent dec) user (fst b) res (snd o1)))"
  by (simp add: run_intent_def case_prod_beta Let_def)

lemma run_intent_data:
  "\<exists>t rt1. data_only rt rt1 \<and> has_safety rt1 = has_safety rt
     \<and> data_only (snd (handler_for (i_intent (dec_intent dec)) h t rt1)) (snd (run_intent h dec user rt))
     \<and> tr_ok (fst (run_intent h dec user rt)) =
         (case fst (handler_for (i_intent (dec_intent dec)) h t rt1) of Inl e \<Rightarrow> False | Inr x \<Rightarrow> tr_ok x)
     \<and> (\<forall>x. fst (handler_for (i_intent (dec_intent dec)) h t rt1) = Inr x
           \<longrightarrow> tr_kind (fst (run_intent h dec user rt)) = tr_kind x)"
proof -
  let ?b = "begin_task (dec_intent dec) user rt"
  have "has_safety (snd ?b) = has_safety rt" by (simp add: begin_task_def Let_def)
  moreover have "data_only rt (snd ?b)" by simp
  ultimately show ?thesis
    by (intro exI [of _ "fst ?b"] exI [of _ "snd ?b"])
      (simp add: run_intent_unfold Let_def mk_result_def split: sum.split)
qed

text \<open>The handlers leave the executive's books alone: the history, the counter and the identity of
  the running task.\<close>

definition same_books :: "runtime \<Rightarrow> runtime \<Rightarrow> bool" where
  "same_books rt rt' =
     (task_history rt' = task_history rt \<and> task_counter rt' = task_counter rt
      \<and> map_option (\<lambda>t. t\<lparr>t_steps := []\<rparr>) (current_task rt') = map_option (\<lambda>t. t\<lparr>t_steps := []\<rparr>) (current_task rt))"

lemma same_books_refl [simp, intro]: "same_books rt rt"
  by (simp add: same_books_def)

lemma same_books_trans: "same_books a b \<Longrightarrow> same_books b c \<Longrightarrow> same_books a c"
  by (simp add: same_books_def)

lemma books_basic:
  "same_books rt (snd (now rt))" "same_books rt (emit_audit r rt)" "same_books rt (publish_event tp pl src rt)"
  "same_books rt (on_backend f rt)" "same_books rt (gw_heartbeat rt)" "same_books rt (snd (gw_ctl_status rt))"
  "same_books rt (save_latch b m rt)" "same_books rt (rt_log_error m rt)" "same_books rt (put_service sv rt)"
  "same_books rt (snd (rt_transition d m rt))" "same_books rt (rt_task_step m rt)"
  by (auto simp: same_books_def now_def emit_audit_def publish_event_def on_backend_def gw_heartbeat_def
      gw_ctl_status_def save_latch_def rt_log_error_def put_service_def rt_transition_def case_prod_beta
      rt_task_step_def option.map_comp comp_def task_step_def split: sum.split)

lemma books_log: "same_books rt (log_safety_event ev d rt)"
  unfolding log_safety_event_def case_prod_beta
  by (intro same_books_trans [OF same_books_trans [OF books_basic(6) books_basic(2)] books_basic(3)])

lemma books_field [simp]:
  "same_books rt (rt'\<lparr>ctl := c\<rparr>) = same_books rt rt'" "same_books rt (rt'\<lparr>rt_state := st\<rparr>) = same_books rt rt'"
  "same_books rt (rt'\<lparr>token := tk\<rparr>) = same_books rt rt'" "same_books rt (rt'\<lparr>rt_world := w\<rparr>) = same_books rt rt'"
  "same_books rt (rt'\<lparr>rt_memory := m\<rparr>) = same_books rt rt'" "same_books rt (rt'\<lparr>rt_update := u\<rparr>) = same_books rt rt'"
  "same_books rt (rt'\<lparr>bodies := bm\<rparr>) = same_books rt rt'" "same_books rt (rt'\<lparr>fan_speed := fs\<rparr>) = same_books rt rt'"
  "same_books rt (rt'\<lparr>rt_backend := bk\<rparr>) = same_books rt rt'" "same_books rt (rt'\<lparr>cancel_flag := cf\<rparr>) = same_books rt rt'"
  "same_books rt (rt'\<lparr>gait_pol := gp, last_joint_targets := jt\<rparr>) = same_books rt rt'"
  by (simp_all add: same_books_def)

lemma books_field_left [simp]:
  "same_books (rt\<lparr>ctl := c\<rparr>) rt' = same_books rt rt'" "same_books (rt\<lparr>token := tk\<rparr>) rt' = same_books rt rt'"
  by (simp_all add: same_books_def)

lemma books_engage: "same_books rt (engage_estop reason rt)"
proof -
  let ?a = "on_backend (set_power False) (rt\<lparr>ctl := ctl_engage_estop reason (ctl rt)\<rparr>)"
  have "same_books rt ?a" using books_basic(4) [of "rt\<lparr>ctl := ctl_engage_estop reason (ctl rt)\<rparr>"] by simp
  then have "same_books rt (log_safety_event ''emergency_stop'' reason (save_latch True reason ?a))"
    by (rule same_books_trans [OF same_books_trans [OF _ books_basic(7)] books_log])
  then show ?thesis by (simp add: engage_estop_def Let_def)
qed

lemma books_release: "same_books rt (release_motion_permission rt)"
proof -
  let ?a = "on_backend (set_power False) (rt\<lparr>ctl := disable_power (ctl rt)\<rparr>)"
  have a: "same_books rt ?a" using books_basic(4) [of "rt\<lparr>ctl := disable_power (ctl rt)\<rparr>"] by simp
  from same_books_trans [OF a books_log] a show ?thesis by (simp add: release_motion_permission_def Let_def)
qed

lemma books_request: "same_books rt (snd (request_motion_permission rt))"
proof -
  let ?a = "snd (gw_ctl_status (gw_heartbeat rt))"
  have a: "same_books rt ?a" by (rule same_books_trans [OF books_basic(5) books_basic(6)])
  have "same_books rt (snd (now (on_backend (set_power True) (?a\<lparr>ctl := c\<rparr>))))" for c
    using same_books_trans [OF a same_books_trans [OF _ books_basic(1)]]
      books_basic(4) [of "?a\<lparr>ctl := c\<rparr>"] by simp
  then have "same_books rt (log_safety_event e d ((snd (now (on_backend (set_power True) (?a\<lparr>ctl := c\<rparr>))))\<lparr>token := tk\<rparr>))" for c e d tk
    by (intro same_books_trans [OF _ books_log]) simp
  with a show ?thesis by (simp add: request_motion_permission_def case_prod_beta Let_def)
qed

lemma books_assess: "same_books rt (snd (assess_readiness rt))"
proof (cases rule: assess_cases [of rt])
  case running
  then show ?thesis
    using same_books_trans [OF books_basic(6) same_books_trans [OF books_basic(5) books_basic(6)]] by simp
qed (use books_basic(6) in simp_all)

lemma books_gateway:
  "same_books rt (snd (gw_status rt))" "same_books rt (snd (estop_engaged rt))" "same_books rt (snd (gw_diagnostics rt))"
  using same_books_trans [OF books_basic(5) books_basic(6)] books_basic(6)
  by (simp_all add: gw_status_def estop_engaged_def gw_diagnostics_def case_prod_beta Let_def)

lemma books_collect_services: "same_books rt (snd (collect_services h ss rt))"
proof (induction ss arbitrary: rt)
  case (Cons s ss)
  obtain r rt1 where d: "diagnostics_of h s rt = (r, rt1)" by (cases "diagnostics_of h s rt")
  have "same_books rt (snd (hardware_diagnostics rt))"
    by (simp add: hardware_diagnostics_def auto_cooling_def Let_def split: option.split)
  then have "same_books rt rt1"
    using books_gateway(3) [of rt] arg_cong [OF d, of snd]
    by (auto simp: diagnostics_of_def Let_def case_prod_beta split: if_splits)
  then show ?case using Cons [of rt1] d
    by (cases r) (auto simp: case_prod_beta split: sum.split intro: same_books_trans)
qed simp

lemma books_summary: "same_books rt (snd (summary h rt))"
  using books_collect_services [of rt h "svcs rt"]
  by (simp add: summary_def collect_def case_prod_beta Let_def split: sum.split)

lemma books_send: "same_books rt (snd (send_velocity v dt rt))"
  by (simp add: send_velocity_def case_prod_beta split: option.split)

lemma books_gait: "same_books rt (gait_step v dt rt)"
  using books_basic(4) by (simp add: gait_step_def case_prod_beta same_books_def split: option.split)

lemma books_drive: "same_books rt (snd (drive v dt rt))"
proof (cases rule: drive_cases [of v dt rt])
  case (driven body v1)
  then show ?thesis
    using same_books_trans [OF same_books_trans [OF books_gait books_send] books_basic(4)] by simp
qed (use same_books_trans [OF books_gait books_send] books_gait in simp_all)

lemma books_loop: "same_books rt (fst (snd (drive_loop n goal (rt, data))))"
proof (induction n arbitrary: rt data)
  case (Suc n)
  obtain r rt1 data1 where t: "drive_tick goal (rt, data) = (r, rt1, data1)"
    by (cases "drive_tick goal (rt, data)")
  have "same_books rt (fst (snd (drive_blocked d (rt, data))))" for d
    by (simp add: drive_blocked_def Let_def split: option.split)
  moreover have "same_books rt (fst (snd (drive_toward goal (rt, data))))"
    using books_drive [of rt _ DRIVE_DT]
    by (simp add: drive_toward_def Let_def case_prod_beta split: option.split sum.split)
  ultimately have "same_books rt (fst (snd (drive_tick goal (rt, data))))" by (simp add: drive_tick_def)
  then have d: "same_books rt rt1" using t by simp
  show ?case
    using t d same_books_trans [OF d Suc [of rt1 data1]] by (simp split: sum.split option.split)
qed simp

lemma books_drive_to: "same_books rt (snd (drive_to goal l rt))"
proof -
  let ?P = "\<lambda>w :: drive_world. same_books rt (fst w)"
  let ?label = "py_str (float_repr rt) l"
  have s: "same_books rt (stepped l rt)"
    unfolding stepped_def by (rule same_books_trans [OF books_basic(11) books_basic(11)])
  have "actions_keep ?P (navigate_tree goal ?label)"
    unfolding navigate_tree_def
  proof (simp, intro conjI allI impI)
    fix rt1 data held assume p: "same_books rt rt1"
    show "same_books rt (fst (snd (bt_acquire (rt1, data, held))))"
      using p same_books_trans [OF p books_request] by (simp add: bt_acquire_def case_prod_beta)
    show "same_books rt (fst (snd (bt_enter_active ?label (rt1, data, held))))"
      using p same_books_trans [OF p books_basic(10)]
      by (simp add: bt_enter_active_def case_prod_beta split: sum.split)
    show "same_books rt (fst (snd (bt_drive goal (rt1, data, held))))"
      using same_books_trans [OF p books_loop] by (simp add: bt_drive_def case_prod_beta split: sum.split)
  qed
  from run_keeps [OF this, of "(stepped l rt, [(''label'', l)], False)" 10000] s
  have r: "same_books rt (fst (snd (snd (run 10000 (navigate_tree goal ?label) (stepped l rt, [(''label'', l)], False)))))"
    by simp
  have "same_books rt (snd (drive_release held rt2))" if "same_books rt rt2" for held rt2
    using that same_books_trans [OF that books_release] same_books_trans [OF that books_basic(10)]
      same_books_trans [OF same_books_trans [OF that books_release] books_basic(10)]
    by (simp add: drive_release_def Let_def)
  with r show ?thesis
    unfolding drive_to_def Let_def stepped_def [symmetric]
    by (simp add: case_prod_beta split: sum.split)
qed

interpretation hook_books: hook_contract "service_hooks name" "same_books f" for name f
proof unfold_locales
  fix rt :: runtime and m assume p: "same_books f rt"
  have "same_books f (snd (load_latch rt))" using p by (auto simp: load_latch_def split: sum.split option.split)
  then have gc: "same_books f (snd (gw_on_configure rt))"
    using gw_configure_snd [of rt] same_books_trans [OF _ books_basic(5)] by metis
  have ga: "same_books f (snd (gw_on_activate rt))"
    using same_books_trans [OF p books_basic(5)] by (simp add: gw_on_activate_def Let_def on_backend_def)
  have mo: "same_books f (snd (motion_on_configure rt))"
    using p by (simp add: motion_on_configure_def Let_def same_books_def split: option.split sum.split)
  have st: "same_books f (snd (world_on_configure rt))" "same_books f (snd (memory_on_configure rt))"
    "same_books f (snd (update_on_configure rt))"
    using p by (simp_all add: world_on_configure_def memory_on_configure_def update_on_configure_def case_prod_beta)
  show "same_books f (snd (on_configure (service_hooks name) rt))"
    using p gc mo st by (simp add: service_hooks_def)
  show "same_books f (snd (on_activate (service_hooks name) rt))"
    using p ga by (simp add: service_hooks_def)
  show "same_books f (snd (on_deactivate (service_hooks name) rt))" "same_books f (snd (on_cleanup (service_hooks name) rt))"
    using p by (simp_all add: service_hooks_def)
  show "same_books f (log_error (service_hooks name) m rt)"
    using same_books_trans [OF p books_basic(8)] by (simp add: service_hooks_def)
qed

lemma books_shutdown_all: "same_books f rt \<Longrightarrow> same_books f (snd (shutdown_all ns rt))"
proof (induction ns arbitrary: rt)
  case (Cons n ns)
  have "same_books f (snd (svc_shutdown n rt))"
    using same_books_trans [OF hook_books.shutdown_svc_keeps [OF Cons.prems] books_basic(9)]
    by (simp add: svc_shutdown_def case_prod_beta)
  then show ?case using Cons.IH by (cases "svc_shutdown n rt"; cases "fst (svc_shutdown n rt)") simp_all
qed simp

lemma books_shutdown: "same_books rt (snd (request_shutdown rt))"
proof -
  define rt1 where "rt1 = (if cur_state (rt_state rt) \<noteq> SHUTTING_DOWN
              then rt\<lparr>rt_state := force (rt_state rt) SHUTTING_DOWN ''shutdown requested''\<rparr> else rt)"
  obtain r rt2 where sh: "shutdown_all (rev (map fst (svcs rt1))) rt1 = (r, rt2)"
    by (cases "shutdown_all (rev (map fst (svcs rt1))) rt1")
  have "same_books rt rt1" by (simp add: rt1_def)
  then have p: "same_books rt rt2" using books_shutdown_all [of rt rt1] sh by (metis snd_conv)
  with same_books_trans [OF p books_basic(4)] show ?thesis
    unfolding request_shutdown_def rt1_def [symmetric] Let_def sh by (cases r) simp_all
qed

lemma books_handler: "same_books rt (snd (handler_for name h t rt))"
proof (rule handler_for_all [where Q = "\<lambda>n f. same_books rt (snd (f h t rt))"])
  show "same_books rt (snd (h_unhandled h t rt))" by (simp add: pure_handlers)
  have rs: "same_books rt (snd (reasons_now rt))"
    using books_assess [of rt] by (simp add: reasons_now_def case_prod_beta)
  have info: "same_books rt (snd (h_status h t rt))" "same_books rt (snd (h_explain h t rt))"
    "same_books rt (snd (h_diagnostics h t rt))"
    using rs same_books_trans [OF rs books_gateway(1)] same_books_trans [OF rs books_gateway(2)] books_summary [of rt h]
    by (simp_all add: h_status_def h_explain_def h_diagnostics_def case_prod_beta Let_def split: sum.split)
  have stop: "same_books rt (snd (h_stop h t rt))" "same_books rt (snd (h_cancel h t rt))" "same_books rt (snd (h_estop h t rt))"
    using books_send [of rt] books_send [of "exec_cancel rt"] books_engage [of rt]
    by (simp_all add: h_stop_def h_cancel_def h_estop_def motion_stop_def case_prod_beta Let_def same_books_def
        exec_cancel_def split: sum.split)
  have idle: "same_books rt (snd (h_safe_idle h t rt))"
    using books_release [of rt] books_basic(10) [of rt] same_books_trans [OF books_release books_basic(10)]
    by (simp add: h_safe_idle_def Let_def case_prod_beta split: sum.split)
  have ih: "same_books rt1 (snd (inspect_here d tg dd rt1))" for rt1 d tg dd
    using books_basic(11) [of rt1] by (simp add: inspect_here_def Let_def split: sum.split)
  have dt: "same_books rt rt1" if "drive_to goal l rt = (r, rt1)" for goal l r rt1
    using books_drive_to [of rt goal l] that by simp
  have move: "same_books rt (snd (h_navigate h t rt))" "same_books rt (snd (h_go_charge h t rt))"
    "same_books rt (snd (h_inspect h t rt))"
    using dt ih same_books_trans [OF dt books_basic(4)] same_books_trans [OF dt ih]
    by (auto simp: h_navigate_def h_go_charge_def h_inspect_def Let_def split: option.split sum.split prod.split)
  have mem: "same_books rt (snd (h_remember h t rt))" "same_books rt (snd (h_store_place h t rt))"
    "same_books rt (snd (h_forget h t rt))" "same_books rt (snd (h_set_body h t rt))"
    by (simp_all add: h_remember_def h_store_place_def store_place_at_def h_forget_def h_set_body_def Let_def
        case_prod_beta split: option.split sum.split)
  have au: "same_books rt1 (fold emit_audit recs rt1)" for recs rt1
    by (induction recs arbitrary: rt1) (auto intro: same_books_trans books_basic(2))
  have upd: "same_books rt (snd (h_install_update h t rt))"
    using au by (auto simp: h_install_update_def Let_def case_prod_beta same_books_def split: sum.split)
  have shut: "same_books rt (snd (h_shutdown h t rt))"
    using books_shutdown [of rt] by (simp add: h_shutdown_def case_prod_beta split: sum.split)
  show "list_all (\<lambda>(n, f). same_books rt (snd (f h t rt))) HANDLERS"
    unfolding HANDLERS_def using info stop idle move mem upd shut by (simp add: pure_handlers)
qed

section \<open>Properties\<close>

text \<open>\<open>robot.return_safe_idle\<close> fails while a task is active: from ACTIVE the handler releases the
  permission, then attempts the transition to SAFE_IDLE, which the graph does not have, so it
  raises and the state stays ACTIVE.\<close>

theorem safe_idle_from_active_raises:
  assumes "cur_state (rt_state rt) = ACTIVE"
  shows "fst (h_safe_idle h t rt) = Inl (InvalidTransition ''ACTIVE'' ''SAFE_IDLE'')
    \<and> rt_state (snd (h_safe_idle h t rt)) = rt_state rt"
  using assms
  by (simp add: h_safe_idle_def Let_def rt_transition_def transition_def can_transition_def)

theorem safe_idle_from_active_raises_witness:
  "fst (h_safe_idle example_host (new_task [] [] [] 1) (active_rt\<lparr>rt_state := init_machine ACTIVE\<rparr>))
     = Inl (InvalidTransition ''ACTIVE'' ''SAFE_IDLE'')"
  using safe_idle_from_active_raises [of "active_rt\<lparr>rt_state := init_machine ACTIVE\<rparr>"]
  by (simp add: init_machine_def)

text \<open>C11. No command leaves the motors powered: from a system with both contactors open, running any
  intent whatsoever ends with both contactors open, provided that, for the three motion intents,
  the run reports success.\<close>

theorem no_command_leaves_power_on:
  assumes "powers_off rt"
    "i_intent (dec_intent dec) \<in> set MOTION_INTENTS \<longrightarrow> tr_ok (fst (run_intent h dec user rt))"
  shows "powers_off (snd (run_intent h dec user rt))"
proof -
  let ?n = "i_intent (dec_intent dec)"
  obtain t rt1 where d1: "data_only rt rt1"
    and d2: "data_only (snd (handler_for ?n h t rt1)) (snd (run_intent h dec user rt))"
    and ok: "tr_ok (fst (run_intent h dec user rt)) =
         (case fst (handler_for ?n h t rt1) of Inl e \<Rightarrow> False | Inr x \<Rightarrow> tr_ok x)"
    using run_intent_data [of rt dec h user] by blast
  have "?n \<in> set MOTION_INTENTS \<longrightarrow> (\<exists>x. fst (handler_for ?n h t rt1) = Inr x)"
    using assms(2) ok by (cases "fst (handler_for ?n h t rt1)") auto
  moreover have "powers_off rt1" using assms(1) data_only_powers_off [OF d1] by simp
  ultimately have "powers_off (snd (handler_for ?n h t rt1))"
    using handlers_power_off [of h t rt1 ?n] unfolding leaves_power_off_def by blast
  then show ?thesis using data_only_powers_off [OF d2] by simp
qed

definition example_decision :: "string \<Rightarrow> decision" where
  "example_decision name = decide APPROVED (mk_intent name []) None [] [] []"

theorem no_command_leaves_power_on_witness:
  "powers_off (snd (run_intent example_host (example_decision ''system.shutdown'') ''owner'' active_rt))"
proof -
  have "i_intent (dec_intent (example_decision ''system.shutdown'')) \<notin> set MOTION_INTENTS"
    by (simp add: example_decision_def decide_def mk_intent_def MOTION_INTENTS_def)
  then show ?thesis
    using no_command_leaves_power_on [OF active_powers_off, of "example_decision ''system.shutdown''" example_host "''owner''"]
    by blast
qed

lemma run_estop:
  assumes "has_safety rt" "i_intent (dec_intent dec) = ''motion.emergency_stop''"
  shows "tr_ok (fst (run_intent h dec user rt)) \<and> tr_kind (fst (run_intent h dec user rt)) = ''motion.emergency_stop''
    \<and> powers_off (snd (run_intent h dec user rt))
    \<and> c_estop (ctl (snd (run_intent h dec user rt)))
    \<and> cur_state (rt_state (snd (run_intent h dec user rt))) = EMERGENCY_STOPPED
    \<and> latch_file (snd (run_intent h dec user rt)) =
        write_doc (Some \<lparr>latch_estop = True, latch_reason = Some ''voice_or_text_command''\<rparr>) (latch_file rt)"
proof -
  have hf: "handler_for ''motion.emergency_stop'' = h_estop"
    by (simp add: handler_for_def HANDLERS_def dict_get_def)
  obtain t rt1 where d1: "data_only rt rt1" and s: "has_safety rt1"
    and d2: "data_only (snd (h_estop h t rt1)) (snd (run_intent h dec user rt))"
    and ok: "tr_ok (fst (run_intent h dec user rt)) =
         (case fst (h_estop h t rt1) of Inl e \<Rightarrow> False | Inr x \<Rightarrow> tr_ok x)"
    and kd: "\<forall>x. fst (h_estop h t rt1) = Inr x \<longrightarrow> tr_kind (fst (run_intent h dec user rt)) = tr_kind x"
    using run_intent_data [of rt dec h user] assms unfolding assms(2) hf by blast
  have e: "h_estop h t rt1 = (Inr (mk_result True ''motion.emergency_stop'' [(''estop'', PBool True)] []),
      engage_estop ''voice_or_text_command'' rt1)" using s by (simp add: h_estop_def)
  have "cur_state (rt_state (engage_estop ''voice_or_text_command'' rt1)) = EMERGENCY_STOPPED"
    by (simp add: engage_estop_def Let_def)
  then show ?thesis
    using ok kd d1 d2 data_only_powers_off [OF d2] engage_powers_off [of "''voice_or_text_command''" rt1] stop_state_estop [of "''voice_or_text_command''" rt1]
      engage_latch [of "''voice_or_text_command''" rt1]
    unfolding e by (simp add: data_only_def mk_result_def)
qed

text \<open>The emergency-stop command works from every state: with a safety gateway, running
  \<open>motion.emergency_stop\<close> succeeds, engages the stop, opens both contactors, forces
  EMERGENCY_STOPPED and writes the latch, whatever the system was doing.\<close>

theorem estop_command_always_works:
  assumes "has_safety rt" "i_intent (dec_intent dec) = ''motion.emergency_stop''"
  shows "tr_ok (fst (run_intent h dec user rt)) \<and> powers_off (snd (run_intent h dec user rt))
    \<and> c_estop (ctl (snd (run_intent h dec user rt)))
    \<and> cur_state (rt_state (snd (run_intent h dec user rt))) = EMERGENCY_STOPPED
    \<and> latch_file (snd (run_intent h dec user rt)) =
        write_doc (Some \<lparr>latch_estop = True, latch_reason = Some ''voice_or_text_command''\<rparr>) (latch_file rt)"
  using run_estop [OF assms, of h user] by blast

theorem estop_command_always_works_witness:
  "cur_state (rt_state (snd (run_intent example_host (example_decision ''motion.emergency_stop'') ''guest'' active_rt)))
     = EMERGENCY_STOPPED"
proof -
  have "i_intent (dec_intent (example_decision ''motion.emergency_stop'')) = ''motion.emergency_stop''"
    by (simp add: example_decision_def decide_def mk_intent_def)
  from estop_command_always_works [OF active_fields(4) this] show ?thesis by blast
qed

text \<open>C18. Every run is accounted for: running an intent, whatever its handler does, appends exactly
  one task to the history, with the request's intent, user and arguments, a fresh identifier that
  the result carries too, and state SUCCEEDED exactly when the result is ok and FAILED otherwise;
  no task stays current, and the last audit record states the outcome.\<close>

theorem every_run_is_accounted_for:
  "\<exists>t. task_history (snd (run_intent h dec user rt)) = task_history rt @ [t]
     \<and> t_intent t = i_intent (dec_intent dec) \<and> t_user t = user \<and> t_arguments t = i_arguments (dec_intent dec)
     \<and> t_task_id t = task_id_of (task_counter rt) \<and> tr_task_id (fst (run_intent h dec user rt)) = t_task_id t
     \<and> t_state t = (if tr_ok (fst (run_intent h dec user rt)) then SUCCEEDED else FAILED)
     \<and> current_task (snd (run_intent h dec user rt)) = None
     \<and> task_counter (snd (run_intent h dec user rt)) = Suc (task_counter rt)
     \<and> au_task_id (last (records (rt_audit (snd (run_intent h dec user rt))))) = Some (t_task_id t)
     \<and> au_outcome (last (records (rt_audit (snd (run_intent h dec user rt))))) = Some (task_state_value (t_state t))"
proof -
  let ?i = "dec_intent dec" and ?b = "begin_task (dec_intent dec) user rt"
  let ?o = "handler_for (i_intent ?i) h (fst ?b) (snd ?b)"
  define res where "res = (case fst ?o of Inr x \<Rightarrow> x | Inl e \<Rightarrow> mk_result False (i_intent ?i) [] (exn_report e))
                  \<lparr>tr_task_id := t_task_id (fst ?b)\<rparr>"
  have run: "run_intent h dec user rt = (res, end_task ?i user (fst ?b) res (snd ?o))"
    by (simp add: run_intent_unfold Let_def res_def)
  have cur: "current_task (snd ?b) = Some (fst ?b)" "task_history (snd ?b) = task_history rt"
    "task_counter (snd ?b) = Suc (task_counter rt)"
    by (simp_all add: begin_task_def Let_def emit_audit_def)
  have bk: "same_books (snd ?b) (snd ?o)" by (rule books_handler)
  then obtain t where t: "current_task (snd ?o) = Some t" "t\<lparr>t_steps := []\<rparr> = (fst ?b)\<lparr>t_steps := []\<rparr>"
    using cur(1) by (auto simp: same_books_def)
  have id: "t_intent t = i_intent ?i \<and> t_user t = user \<and> t_arguments t = i_arguments ?i \<and> t_task_id t = task_id_of (task_counter rt)"
  proof -
    have "t_intent (t\<lparr>t_steps := []\<rparr>) = i_intent ?i \<and> t_user (t\<lparr>t_steps := []\<rparr>) = user
      \<and> t_arguments (t\<lparr>t_steps := []\<rparr>) = i_arguments ?i \<and> t_task_id (t\<lparr>t_steps := []\<rparr>) = task_id_of (task_counter rt)"
      unfolding t(2) by (simp add: begin_task_def Let_def task_start_def new_task_def)
    then show ?thesis by simp
  qed
  have rid: "tr_task_id res = task_id_of (task_counter rt)"
    by (simp add: res_def begin_task_def Let_def task_start_def new_task_def)
  let ?st = "if tr_ok res then SUCCEEDED else FAILED"
  show ?thesis
    by (rule exI [of _ "task_finish ?st t"])
      (use run cur bk t(1) id rid in \<open>simp add: end_task_def Let_def same_books_def task_finish_def emit_audit_def audit_append_def\<close>)
qed

definition INFO_INTENTS :: "string list" where
  "INFO_INTENTS = [''robot.get_status'', ''robot.get_battery'', ''robot.get_temperature'', ''diagnostics.summary'',
     ''robot.explain'', ''perception.describe_scene'', ''navigation.list_places'', ''help'', ''voice.silence'',
     ''system.request_reboot'']"

lemma info_handlers_observe:
  "n \<in> set INFO_INTENTS \<longrightarrow> observes rt (snd (handler_for n h t rt))"
proof (rule handler_for_all [where Q = "\<lambda>n f. n \<in> set INFO_INTENTS \<longrightarrow> observes rt (snd (f h t rt))"])
  show "list_all (\<lambda>(n, f). n \<in> set INFO_INTENTS \<longrightarrow> observes rt (snd (f h t rt))) HANDLERS"
    unfolding HANDLERS_def INFO_INTENTS_def
    using observes_h_status [of rt h t] observes_h_explain [of rt h t] observes_h_diagnostics [of rt h t]
    by (simp add: pure_handlers)
qed (simp add: pure_handlers)

text \<open>Questions only observe: an information request (status, battery, temperature, diagnostics,
  explanation, scene, places, help) changes neither the system state, the backend, the services
  nor the latch, and closes no contactor.\<close>

theorem questions_only_observe:
  assumes "i_intent (dec_intent dec) \<in> set INFO_INTENTS"
  shows "rt_state (snd (run_intent h dec user rt)) = rt_state rt
    \<and> rt_backend (snd (run_intent h dec user rt)) = rt_backend rt
    \<and> svcs (snd (run_intent h dec user rt)) = svcs rt
    \<and> latch_file (snd (run_intent h dec user rt)) = latch_file rt
    \<and> c_estop (ctl (snd (run_intent h dec user rt))) = c_estop (ctl rt)
    \<and> (c_power (ctl (snd (run_intent h dec user rt))) \<longrightarrow> c_power (ctl rt))"
proof -
  obtain t rt1 where d1: "data_only rt rt1"
    and d2: "data_only (snd (handler_for (i_intent (dec_intent dec)) h t rt1)) (snd (run_intent h dec user rt))"
    using run_intent_data [of rt dec h user] by blast
  have "observes rt1 (snd (handler_for (i_intent (dec_intent dec)) h t rt1))"
    using info_handlers_observe assms(1) by blast
  with d1 d2 show ?thesis by (simp add: data_only_def observes_def)
qed

theorem questions_only_observe_witness:
  "rt_backend (snd (run_intent example_host (example_decision ''robot.get_status'') ''guest'' active_rt)) = rt_backend active_rt"
proof -
  have "i_intent (dec_intent (example_decision ''robot.get_status'')) \<in> set INFO_INTENTS"
    by (simp add: example_decision_def decide_def mk_intent_def INFO_INTENTS_def)
  from questions_only_observe [OF this] show ?thesis by blast
qed

text \<open>Every registered tool has a handler: each of the default tools that the broker can approve
  is in the executive's handler table, so an approved intent is never answered by the fallback.\<close>

theorem every_tool_has_a_handler:
  "list_all (\<lambda>t. map_of HANDLERS (tool_name t) \<noteq> None) default_tools"
  by (simp add: default_tools_def info_tool_def HANDLERS_def)

end
