(* ===== verification/Regex.thy ===== *)
theory Regex
  imports Prelude
begin

text \<open>
  The part of Python's \<open>re\<close> module that the sources use: literals, alternation, optional parts, word
  boundaries, numbered groups and repetitions of the dot, with \<open>search\<close>, \<open>match\<close>, \<open>fullmatch\<close> and the
  deletion form of \<open>sub\<close>.

  A subject string is read at a position: the character before it and the characters after it, which
  is what a word boundary looks at. The matcher returns all ways to match in the order in which the
  backtracking engine tries them, so the first one is the match that Python reports. The relation
  \<open>matches\<close> says which ways there are without an order, and the matcher finds exactly those.
\<close>

section \<open>Patterns\<close>

datatype rx =
    Str string
  | Bnd
  | Cat rx rx
  | Alt rx rx
  | Opt rx
  | Dots bool nat
  | Grp nat rx

text \<open>\<open>Dots True n\<close> is the greedy \<open>.*\<close> or \<open>.+\<close> (at least \<open>n\<close> characters), \<open>Dots False n\<close> the lazy form.\<close>

fun alts :: "string \<Rightarrow> string list \<Rightarrow> rx" where
  "alts w [] = Str w"
| "alts w (v # vs) = Alt (Str w) (alts v vs)"

definition words :: "string \<Rightarrow> string list \<Rightarrow> rx" where
  "words w ws = Cat Bnd (Cat (Grp 1 (alts w ws)) Bnd)"

type_synonym pos = "char option \<times> string"
type_synonym caps = "(nat \<times> string) list"

text \<open>\<open>\w\<close> on Latin-1: letters, digits, the underscore, and the superscript and vulgar-fraction characters
  that \<open>str.isalnum\<close> accepts.\<close>

definition word_char :: "char \<Rightarrow> bool" where
  "word_char c = (let n = (of_char c :: nat) in
     (48 \<le> n \<and> n \<le> 57) \<or> (65 \<le> n \<and> n \<le> 90) \<or> n = 95 \<or> (97 \<le> n \<and> n \<le> 122)
     \<or> n \<in> {170, 178, 179, 181, 185, 186, 188, 189, 190}
     \<or> (192 \<le> n \<and> n \<noteq> 215 \<and> n \<noteq> 247))"

definition word_opt :: "char option \<Rightarrow> bool" where
  "word_opt c = (case c of None \<Rightarrow> False | Some c \<Rightarrow> word_char c)"

definition first_char :: "string \<Rightarrow> char option" where
  "first_char s = (case s of [] \<Rightarrow> None | c # _ \<Rightarrow> Some c)"

definition at_boundary :: "pos \<Rightarrow> bool" where
  "at_boundary p = (word_opt (fst p) \<noteq> word_opt (first_char (snd p)))"

definition advance :: "nat \<Rightarrow> pos \<Rightarrow> pos" where
  "advance n p = (if n = 0 then fst p else Some (snd p ! (n - 1)), drop n (snd p))"

text \<open>Case folding of a match with \<open>re.IGNORECASE\<close> compares lower-case characters.\<close>

definition same_text :: "bool \<Rightarrow> string \<Rightarrow> string \<Rightarrow> bool" where
  "same_text ic a b = (if ic then lower a = lower b else a = b)"

section \<open>The matcher\<close>

definition dot_run :: "string \<Rightarrow> nat" where
  "dot_run s = length (takeWhile (\<lambda>c. c \<noteq> CHR 0x0A) s)"

definition dot_counts :: "bool \<Rightarrow> nat \<Rightarrow> string \<Rightarrow> nat list" where
  "dot_counts greedy n s = (let ks = [n ..< Suc (dot_run s)] in if greedy then rev ks else ks)"

text \<open>The text a part of the match has consumed, between two positions of the same subject.\<close>

definition consumed :: "pos \<Rightarrow> pos \<Rightarrow> string" where
  "consumed p q = take (length (snd p) - length (snd q)) (snd p)"

fun rx_match :: "bool \<Rightarrow> rx \<Rightarrow> pos \<Rightarrow> caps \<Rightarrow> (pos \<times> caps) list" where
  "rx_match ic (Str s) p g =
     (if length s \<le> length (snd p) \<and> same_text ic (take (length s) (snd p)) s then [(advance (length s) p, g)] else [])"
| "rx_match ic Bnd p g = (if at_boundary p then [(p, g)] else [])"
| "rx_match ic (Cat a b) p g = concat (map (\<lambda>(q, g'). rx_match ic b q g') (rx_match ic a p g))"
| "rx_match ic (Alt a b) p g = rx_match ic a p g @ rx_match ic b p g"
| "rx_match ic (Opt a) p g = rx_match ic a p g @ [(p, g)]"
| "rx_match ic (Dots greedy n) p g = map (\<lambda>k. (advance k p, g)) (dot_counts greedy n (snd p))"
| "rx_match ic (Grp k a) p g = map (\<lambda>(q, g'). (q, AList.update k (consumed p q) g')) (rx_match ic a p g)"

text \<open>\<open>re.match\<close> at a position, \<open>re.search\<close> from it, \<open>re.fullmatch\<close>; each returns the groups of the match.\<close>

definition match_at :: "bool \<Rightarrow> rx \<Rightarrow> pos \<Rightarrow> (pos \<times> caps) option" where
  "match_at ic r p = (case rx_match ic r p [] of [] \<Rightarrow> None | m # _ \<Rightarrow> Some m)"

fun search_from :: "bool \<Rightarrow> rx \<Rightarrow> char option \<Rightarrow> string \<Rightarrow> caps option" where
  "search_from ic r prev [] = map_option snd (match_at ic r (prev, []))"
| "search_from ic r prev (c # cs) =
     (case match_at ic r (prev, c # cs) of Some m \<Rightarrow> Some (snd m) | None \<Rightarrow> search_from ic r (Some c) cs)"

definition re_search :: "rx \<Rightarrow> string \<Rightarrow> caps option" where
  "re_search r s = search_from False r None s"

definition re_match :: "bool \<Rightarrow> rx \<Rightarrow> string \<Rightarrow> caps option" where
  "re_match ic r s = map_option snd (match_at ic r (None, s))"

definition re_fullmatch :: "rx \<Rightarrow> string \<Rightarrow> bool" where
  "re_fullmatch r s = (\<exists>m \<in> set (rx_match False r (None, s) []). snd (fst m) = [])"

definition group :: "caps \<Rightarrow> nat \<Rightarrow> string" where
  "group g k = dict_get g k []"

text \<open>\<open>re.sub(r, "", s, flags=re.IGNORECASE)\<close>: every leftmost match that consumes something is deleted and
  the scan goes on after it; an empty match deletes nothing.\<close>

function delete_from :: "rx \<Rightarrow> char option \<Rightarrow> string \<Rightarrow> string" where
  "delete_from r prev s =
     (case s of
        [] \<Rightarrow> []
      | c # cs \<Rightarrow>
          (case match_at True r (prev, s) of
             Some (q, _) \<Rightarrow> if length (snd q) < length s then delete_from r (fst q) (snd q)
                            else c # delete_from r (Some c) cs
           | None \<Rightarrow> c # delete_from r (Some c) cs))"
  by pat_completeness auto
termination
  by (relation "measure (\<lambda>(r, prev, s). length s)") auto

declare delete_from.simps [simp del]

definition re_delete :: "rx \<Rightarrow> string \<Rightarrow> string" where
  "re_delete r s = delete_from r None s"

section \<open>The ways to match\<close>

inductive matches :: "bool \<Rightarrow> rx \<Rightarrow> pos \<Rightarrow> nat \<Rightarrow> bool" where
  m_str: "length s \<le> length (snd p) \<Longrightarrow> same_text ic (take (length s) (snd p)) s \<Longrightarrow> matches ic (Str s) p (length s)"
| m_bnd: "at_boundary p \<Longrightarrow> matches ic Bnd p 0"
| m_cat: "matches ic a p m \<Longrightarrow> matches ic b (advance m p) n \<Longrightarrow> matches ic (Cat a b) p (m + n)"
| m_alt1: "matches ic a p n \<Longrightarrow> matches ic (Alt a b) p n"
| m_alt2: "matches ic b p n \<Longrightarrow> matches ic (Alt a b) p n"
| m_opt: "matches ic a p n \<Longrightarrow> matches ic (Opt a) p n"
| m_skip: "matches ic (Opt a) p 0"
| m_dots: "n \<le> k \<Longrightarrow> k \<le> dot_run (snd p) \<Longrightarrow> matches ic (Dots greedy n) p k"
| m_grp: "matches ic a p n \<Longrightarrow> matches ic (Grp k a) p n"

inductive_simps matches_simps:
  "matches ic (Str s) p n" "matches ic Bnd p n" "matches ic (Cat a b) p n" "matches ic (Alt a b) p n"
  "matches ic (Opt a) p n" "matches ic (Dots greedy m) p n" "matches ic (Grp k a) p n"

section \<open>Facts\<close>

lemma advance_0 [simp]: "advance 0 p = p"
  by (simp add: advance_def)

lemma snd_advance [simp]: "snd (advance n p) = drop n (snd p)"
  by (simp add: advance_def)

lemma advance_advance: "m + n \<le> length (snd p) \<Longrightarrow> advance n (advance m p) = advance (m + n) p"
  by (auto simp: advance_def add.commute nth_append intro!: prod_eqI)

lemma dot_run_le: "dot_run s \<le> length s"
  by (simp add: dot_run_def length_takeWhile_le)

lemma matches_length: "matches ic r p n \<Longrightarrow> n \<le> length (snd p)"
proof (induction rule: matches.induct)
  case (m_dots n k p ic greedy)
  then show ?case using dot_run_le [of "snd p"] by simp
qed simp_all

lemma matches_sets:
  "Collect (matches ic (Str s) p)
     = (if length s \<le> length (snd p) \<and> same_text ic (take (length s) (snd p)) s then {length s} else {})"
  "Collect (matches ic Bnd p) = (if at_boundary p then {0} else {})"
  "Collect (matches ic (Alt a b) p) = Collect (matches ic a p) \<union> Collect (matches ic b p)"
  "Collect (matches ic (Opt a) p) = insert 0 (Collect (matches ic a p))"
  "Collect (matches ic (Dots greedy n) p) = {n ..< Suc (dot_run (snd p))}"
  "Collect (matches ic (Grp k a) p) = Collect (matches ic a p)"
  by (auto simp: matches_simps)

lemma rx_match_matches:
  "fst ` set (rx_match ic r p g) = (\<lambda>n. advance n p) ` {n. matches ic r p n}"
proof (induction r arbitrary: p g)
  case (Cat a b)
  have "fst ` set (rx_match ic (Cat a b) p g)
      = (\<Union>x \<in> set (rx_match ic a p g). fst ` set (rx_match ic b (fst x) (snd x)))"
    by (simp add: image_UN case_prod_beta)
  also have "\<dots> = (\<Union>q \<in> fst ` set (rx_match ic a p g). (\<lambda>n. advance n q) ` {n. matches ic b q n})"
    by (simp add: Cat.IH(2))
  also have "\<dots> = (\<Union>m \<in> {m. matches ic a p m}. (\<lambda>n. advance n (advance m p)) ` {n. matches ic b (advance m p) n})"
    by (simp add: Cat.IH(1))
  also have "\<dots> = (\<Union>m \<in> {m. matches ic a p m}. (\<lambda>n. advance (m + n) p) ` {n. matches ic b (advance m p) n})"
  proof (intro SUP_cong image_cong refl)
    fix m n assume "m \<in> {m. matches ic a p m}" "n \<in> {n. matches ic b (advance m p) n}"
    then have "m + n \<le> length (snd p)"
      using matches_length [of ic a p m] matches_length [of ic b "advance m p" n] by simp
    then show "advance n (advance m p) = advance (m + n) p" by (rule advance_advance)
  qed
  also have "\<dots> = (\<lambda>n. advance n p) ` {n. matches ic (Cat a b) p n}"
    by (auto simp: matches_simps)
  finally show ?case .
next
  case (Grp k a)
  then show ?case by (simp add: image_image case_prod_beta matches_sets)
next
  case (Dots greedy n)
  have "set (dot_counts greedy n (snd p)) = {n ..< Suc (dot_run (snd p))}"
    by (simp only: dot_counts_def Let_def set_rev set_upt split: if_split) simp
  then show ?case by (simp only: rx_match.simps set_map image_image fst_conv matches_sets)
qed (simp_all add: matches_sets image_Un)

text \<open>The word lists of the parsers: a search for \<open>\b(w|v|...)\b\<close> finds exactly a whole-word occurrence.\<close>

lemma matches_alts: "matches ic (alts w ws) p n \<longleftrightarrow> (\<exists>v \<in> set (w # ws). matches ic (Str v) p n)"
  by (induction w ws rule: alts.induct) (auto simp: matches_simps)

lemma match_at_None: "match_at ic r p = None \<longleftrightarrow> (\<forall>n. \<not> matches ic r p n)"
proof -
  have "rx_match ic r p [] = [] \<longleftrightarrow> {n. matches ic r p n} = {}"
    using rx_match_matches [of ic r p "[]"] by (metis image_is_empty set_empty)
  then show ?thesis by (auto simp: match_at_def split: list.split)
qed

definition before_char :: "char option \<Rightarrow> string \<Rightarrow> char option" where
  "before_char prev a = (if a = [] then prev else Some (last a))"

lemma search_from_iff:
  "search_from ic r prev s \<noteq> None \<longleftrightarrow> (\<exists>a b n. s = a @ b \<and> matches ic r (before_char prev a, b) n)"
proof (induction ic r prev s rule: search_from.induct)
  case (1 ic r prev)
  then show ?case using match_at_None [of ic r "(prev, [])"] by (simp add: before_char_def)
next
  case (2 ic r prev c cs)
  have split: "(\<exists>a b n. c # cs = a @ b \<and> matches ic r (before_char prev a, b) n)
      \<longleftrightarrow> (\<exists>n. matches ic r (prev, c # cs) n) \<or> (\<exists>a b n. cs = a @ b \<and> matches ic r (before_char (Some c) a, b) n)"
    (is "?l \<longleftrightarrow> ?r")
  proof
    assume ?l
    then obtain a b n where "c # cs = a @ b" "matches ic r (before_char prev a, b) n" by blast
    then show ?r by (cases a) (auto simp: before_char_def split: if_splits)
  next
    assume ?r
    then show ?l
    proof
      assume "\<exists>n. matches ic r (prev, c # cs) n"
      then obtain n where "matches ic r (prev, c # cs) n" ..
      then show ?l by (intro exI [of _ "[]"] exI [of _ "c # cs"] exI [of _ n]) (simp add: before_char_def)
    next
      assume "\<exists>a b n. cs = a @ b \<and> matches ic r (before_char (Some c) a, b) n"
      then obtain a b n where "cs = a @ b" "matches ic r (before_char (Some c) a, b) n" by blast
      then show ?l by (intro exI [of _ "c # a"] exI [of _ b] exI [of _ n]) (auto simp: before_char_def)
    qed
  qed
  show ?case
  proof (cases "match_at ic r (prev, c # cs)")
    case None
    then show ?thesis using 2 [OF None] split match_at_None [of ic r "(prev, c # cs)"] by simp
  next
    case (Some m)
    then have "\<exists>n. matches ic r (prev, c # cs) n" using match_at_None [of ic r "(prev, c # cs)"] by auto
    then show ?thesis using Some split by simp
  qed
qed

lemma matches_words:
  "matches False (words w ws) p n \<longleftrightarrow>
     at_boundary p \<and> (\<exists>v \<in> set (w # ws). startswith v (snd p) \<and> n = length v \<and> at_boundary (advance (length v) p))"
proof -
  have "startswith v s \<longleftrightarrow> length v \<le> length s \<and> take (length v) s = v" for v s :: string
    unfolding startswith_iff by (metis append_eq_conv_conj append_take_drop_id le_add1 length_append)
  then have "matches False (Str v) p m \<longleftrightarrow> startswith v (snd p) \<and> m = length v" for v m
    by (auto simp: matches_simps same_text_def)
  then show ?thesis
    by (auto simp: words_def matches_simps(2,3,7) matches_alts)
qed

lemma advance_before: "advance (length v) (before_char prev a, v @ b) = (before_char prev (a @ v), b)"
  by (cases v rule: rev_cases) (auto simp: advance_def before_char_def nth_append)

lemma search_words:
  "re_search (words w ws) s \<noteq> None \<longleftrightarrow>
     (\<exists>a v b. s = a @ v @ b \<and> v \<in> set (w # ws)
        \<and> at_boundary (before_char None a, v @ b) \<and> at_boundary (before_char None (a @ v), b))"
proof -
  have key: "(\<exists>n. matches False (words w ws) (before_char None a, x) n)
      \<longleftrightarrow> (\<exists>v b. x = v @ b \<and> v \<in> set (w # ws)
             \<and> at_boundary (before_char None a, v @ b) \<and> at_boundary (before_char None (a @ v), b))" (is "?l \<longleftrightarrow> ?r") for a x
  proof
    assume ?l
    then obtain v where v: "v \<in> set (w # ws)" "startswith v x" "at_boundary (before_char None a, x)"
      "at_boundary (advance (length v) (before_char None a, x))" by (auto simp: matches_words)
    obtain b where "x = v @ b" using v(2) by (auto simp: startswith_iff)
    then show ?r using v advance_before [of v None a b] by auto
  next
    assume ?r
    then obtain v b where v: "x = v @ b" "v \<in> set (w # ws)" "at_boundary (before_char None a, v @ b)"
      "at_boundary (before_char None (a @ v), b)" by blast
    then show ?l using advance_before [of v None a b]
      by (intro exI [of _ "length v"]) (auto simp: matches_words startswith_def)
  qed
  have "re_search (words w ws) s \<noteq> None
      \<longleftrightarrow> (\<exists>a x. s = a @ x \<and> (\<exists>n. matches False (words w ws) (before_char None a, x) n))"
    unfolding re_search_def search_from_iff by simp
  also have "\<dots> \<longleftrightarrow> (\<exists>a v b. s = a @ v @ b \<and> v \<in> set (w # ws)
        \<and> at_boundary (before_char None a, v @ b) \<and> at_boundary (before_char None (a @ v), b))"
    unfolding key by (simp only: ex_simps [symmetric] conj_assoc) auto
  finally show ?thesis .
qed

end
