(* ===== verification/OfflineParser.thy ===== *)
theory OfflineParser
  imports Regex Tasks Tools
begin

text \<open>
  The deterministic offline command parser, \<open>language/offline_parser.py\<close>: the confirmation words, the
  slot cleaning, the speed words and \<open>parse\<close>, a cascade of rules tried in the order of the source. Each
  regular expression of the source is a value of \<open>rx\<close>, grouped as the source groups them.
\<close>

section \<open>Confirmation words\<close>

definition AFFIRM :: "string list" where
  "AFFIRM = [''yes'', ''y'', ''confirm'', ''confirmed'', ''do it'', ''go ahead'', ''affirmative'', ''proceed'']"

definition NEGATIVE :: "string list" where
  "NEGATIVE = [''no'', ''n'', ''cancel'', ''cancel that'', ''stop'', ''negative'', ''abort'',
     ''don'' @ [CHR 0x27] @ ''t'', ''dont'']"

definition is_affirmative :: "string \<Rightarrow> bool" where
  "is_affirmative text = (rstrip_chars ''.!'' (lower (strip text)) \<in> set AFFIRM)"

definition is_negative :: "string \<Rightarrow> bool" where
  "is_negative text = (rstrip_chars ''.!'' (lower (strip text)) \<in> set NEGATIVE)"

section \<open>Slots\<close>

definition cautious :: "string \<Rightarrow> string" where
  "cautious t = (if list_ex (\<lambda>w. contains w t) [''careful'', ''carefully'', ''slow'', ''slowly'', ''cautious'']
                 then ''cautious'' else ''normal'')"

text \<open>The first article that the slot starts with is removed, and the loop ends.\<close>

fun drop_article :: "string list \<Rightarrow> string \<Rightarrow> string" where
  "drop_article [] s = s"
| "drop_article (a # as) s = (if startswith a (lower s) then drop (length a) s else drop_article as s)"

definition clean :: "string \<Rightarrow> string" where
  "clean s = drop_article [''the '', ''a '', ''an ''] (strip (rstrip_chars '' .?!,'' (strip s)))"

section \<open>Patterns\<close>

fun cat :: "rx list \<Rightarrow> rx" where
  "cat [] = Str []"
| "cat [r] = r"
| "cat (r # rs) = Cat r (cat rs)"

fun alt :: "rx list \<Rightarrow> rx" where
  "alt [] = Str []"
| "alt [r] = r"
| "alt (r # rs) = Alt r (alt rs)"

definition word_rx :: "rx \<Rightarrow> rx" where
  "word_rx r = cat [Bnd, r, Bnd]"

definition SILENCE_RX :: rx where
  "SILENCE_RX = words ''silence'' [''be quiet'', ''stop talking'', ''shush'']"

definition STOP_RX :: rx where
  "STOP_RX = cat [Grp 1 (alts ''stop'' [''halt'', ''freeze'', ''stop moving'', ''stop now'']), Opt (Str ''.'')]"

definition CANCEL_RX :: rx where
  "CANCEL_RX = cat [Bnd, Grp 1 (alts ''cancel'' [''abort'']), Bnd, Dots True 0, Bnd,
     Opt (Grp 2 (alts ''task'' [''it'', ''that'', ''action''])), Bnd]"

definition SHUTDOWN_RX :: rx where
  "SHUTDOWN_RX = word_rx (Grp 1 (alt [cat [Str ''shut'', Opt (Str '' ''), Str ''down''], Str ''power off'', Str ''turn off'']))"

definition REBOOT_RX :: rx where
  "REBOOT_RX = words ''reboot'' [''restart'']"

definition SAFE_IDLE_RX :: rx where
  "SAFE_IDLE_RX = words ''safe idle'' [''stand down'', ''return to idle'', ''safe mode'']"

definition BATTERY_RX :: rx where
  "BATTERY_RX = word_rx (Grp 1 (alt [Str ''battery'', Str ''charge level'', Str ''power level'',
     cat [Str ''how much '', Grp 2 (alts ''power'' [''charge''])]]))"

definition TEMPERATURE_RX :: rx where
  "TEMPERATURE_RX = words ''temperature'' [''how hot'', ''motor temp'', ''too hot'', ''overheat'']"

definition DIAGNOSTICS_RX :: rx where
  "DIAGNOSTICS_RX = word_rx (Grp 1 (alt
     [cat [Str ''what'', Opt (Grp 2 (alts [CHR 0x27] ['' i''])), Str ''s wrong''],
      cat [Str ''any '', Grp 3 (alts ''faults'' [''problems''])],
      cat [Str ''report '', Opt (Grp 4 (Str ''active '')), Str ''faults''],
      cat [Str ''diagnostic'', Opt (Str ''s'')], Str ''health'']))"

definition CURRENT_TASK_RX :: rx where
  "CURRENT_TASK_RX = word_rx (Grp 1 (alt [Str ''current task'', Str ''what are you doing'',
     cat [Str ''report '', Opt (Grp 2 (Str ''current '')), Str ''task'']]))"

definition WHY_RX :: rx where
  "WHY_RX = word_rx (Str ''why'')"

definition PREVENTED_RX :: rx where
  "PREVENTED_RX = cat [Bnd, Grp 1 (alt [cat [Str ''can'', Opt (Str [CHR 0x27]), Str ''t''], Str ''cannot'', Str ''stop'',
     Str ''stopped'', Str ''disabled'', Str ''inhibit'', Str ''fail''])]"

definition HELP_RX :: rx where
  "HELP_RX = words ''help'' [''what can you do'', ''commands'']"

definition SCENE_RX :: rx where
  "SCENE_RX = word_rx (Grp 1 (alt [cat [Str ''what '', Grp 2 (alts ''can'' [''do'']), Str '' you see''],
     cat [Str ''describe '', Opt (Grp 3 (Str ''the '')), Grp 4 (alts ''scene'' [''room'', ''surroundings''])],
     Str ''look around'']))"

definition PLACES_RX :: rx where
  "PLACES_RX = cat [Bnd, Grp 1 (alts ''list'' [''known'', ''what'']), Str '' '',
     Grp 2 (alts ''places'' [''destinations'', ''rooms'']), Bnd]"

definition STATUS_RX :: rx where
  "STATUS_RX = word_rx (Grp 1 (alt [Str ''status'', Str ''how are you'', Str ''report status'',
     cat [Str ''are you '', Grp 2 (alts ''ok'' [''safe''])]]))"

definition FORGET_RX :: rx where
  "FORGET_RX = cat [Opt (Str ''please ''), Str ''forget '', Opt (Str ''about ''), Grp 1 (Dots True 1)]"

definition REMEMBER_RX :: rx where
  "REMEMBER_RX = cat [Opt (Str ''please ''), Str ''remember '', Opt (Str ''that ''), Grp 1 (Dots True 1)]"

definition GO_INSPECT_RX :: rx where
  "GO_INSPECT_RX = cat [alts ''go to'' [''navigate to'', ''walk to'', ''drive to''], Str '' '', Opt (Str ''the ''),
     Grp 1 (Dots False 1), Str '' and '', alts ''inspect'' [''look at'', ''check''], Str '' '', Opt (Str ''the ''),
     Grp 2 (Dots True 1)]"

definition INSPECT_RX :: rx where
  "INSPECT_RX = cat [alts ''inspect'' [''look at'', ''check''], Str '' '', Opt (Str ''the ''), Grp 1 (Dots True 1)]"

definition CHARGE_RX :: rx where
  "CHARGE_RX = word_rx (Grp 1 (alt [cat [Str ''charg'', Grp 2 (alts ''e'' [''ing''])], Str ''dock'']))"

definition GO_RX :: rx where
  "GO_RX = words ''go'' [''return'', ''navigate'', ''to'']"

definition STAIRS_RX :: rx where
  "STAIRS_RX = cat [Bnd, Grp 1 (alts ''walk'' [''climb'']), Bnd, Dots True 0, Bnd,
     Grp 2 (alts ''stairs'' [''upstairs'']), Bnd]"

definition NAVIGATE_RX :: rx where
  "NAVIGATE_RX = cat [Opt (Str ''please ''),
     alts ''go'' [''navigate'', ''walk'', ''drive'', ''move'', ''proceed'', ''head''],
     Opt (alts '' to'' ['' toward'', '' towards'', '' back to'']), Str '' '', Opt (Str ''the ''), Grp 1 (Dots True 1)]"

section \<open>The parser\<close>

text \<open>\<open>si(intent, ...)\<close> with the raw text and the source filled in.\<close>

definition si :: "string \<Rightarrow> string \<Rightarrow> pydict \<Rightarrow> structured_intent" where
  "si raw intent args = (mk_intent intent args)\<lparr>i_raw_text := raw, i_source := ''offline''\<rparr>"

definition si_motion :: "string \<Rightarrow> string \<Rightarrow> string \<Rightarrow> pydict \<Rightarrow> structured_intent" where
  "si_motion raw intent speed args = (si raw intent args)\<lparr>i_requires_motion := True, i_requested_speed := speed\<rparr>"

definition found :: "rx \<Rightarrow> string \<Rightarrow> bool" where
  "found r t = (re_search r t \<noteq> None)"

definition parse_safety :: "string \<Rightarrow> string \<Rightarrow> structured_intent option" where
  "parse_safety raw t =
     (if contains ''emergency stop'' t \<or> t \<in> set [''e-stop'', ''estop'', ''kill power'']
      then Some (si raw ''motion.emergency_stop'' [])
      else if found SILENCE_RX t then Some (si raw ''voice.silence'' [])
      else if re_fullmatch STOP_RX t then Some (si raw ''motion.stop'' [])
      else if found CANCEL_RX t \<and> \<not> contains (''don'' @ [CHR 0x27] @ ''t'') t then Some (si raw ''task.cancel'' [])
      else if found SHUTDOWN_RX t then Some (si raw ''system.shutdown'' [])
      else if found REBOOT_RX t then Some (si raw ''system.request_reboot'' [])
      else if found SAFE_IDLE_RX t then Some (si raw ''robot.return_safe_idle'' [])
      else None)"

definition parse_information :: "string \<Rightarrow> string \<Rightarrow> structured_intent option" where
  "parse_information raw t =
     (if found BATTERY_RX t then Some (si raw ''robot.get_battery'' [])
      else if found TEMPERATURE_RX t then Some (si raw ''robot.get_temperature'' [])
      else if found DIAGNOSTICS_RX t then Some (si raw ''diagnostics.summary'' [])
      else if found CURRENT_TASK_RX t then Some (si raw ''robot.explain'' [(''topic'', PStr ''current_task'')])
      else if found WHY_RX t \<and> found PREVENTED_RX t then Some (si raw ''robot.explain'' [(''topic'', PStr ''why'')])
      else if found HELP_RX t then Some (si raw ''help'' [])
      else if found SCENE_RX t then Some (si raw ''perception.describe_scene'' [])
      else if found PLACES_RX t \<or> contains ''where can you go'' t then Some (si raw ''navigation.list_places'' [])
      else if found STATUS_RX t then Some (si raw ''robot.get_status'' [])
      else None)"

definition parse_memory :: "string \<Rightarrow> string \<Rightarrow> structured_intent option" where
  "parse_memory raw t =
     (case re_match False FORGET_RX t of
        Some g \<Rightarrow> Some (si raw ''memory.forget'' [(''query'', PStr (clean (group g 1)))])
      | None \<Rightarrow>
          (case re_match True REMEMBER_RX raw of
             Some g \<Rightarrow> Some (si raw ''memory.remember'' [(''text'', PStr (rstrip_chars '' .'' (strip (group g 1))))])
           | None \<Rightarrow> None))"

definition parse_inspection :: "string \<Rightarrow> string \<Rightarrow> structured_intent option" where
  "parse_inspection raw t =
     (case re_search GO_INSPECT_RX t of
        Some g \<Rightarrow> Some ((si_motion raw ''inspect.named_target'' (cautious t)
           [(''destination'', PStr (clean (group g 1))), (''target'', PStr (clean (group g 2)))])
             \<lparr>i_requested_output := ''spoken summary''\<rparr>)
      | None \<Rightarrow>
          (case re_match False INSPECT_RX t of
             Some g \<Rightarrow> Some ((si_motion raw ''inspect.named_target'' (cautious t)
                [(''target'', PStr (clean (group g 1)))])\<lparr>i_requested_output := ''spoken summary''\<rparr>)
           | None \<Rightarrow> None))"

definition parse_navigation :: "string \<Rightarrow> string \<Rightarrow> structured_intent option" where
  "parse_navigation raw t =
     (if found CHARGE_RX t \<and> found GO_RX t then Some (si_motion raw ''navigation.go_charge'' (cautious t) [])
      else if found STAIRS_RX t
      then Some (si_motion raw ''navigation.navigate_to'' ''normal'' [(''destination'', PStr ''stairs'')])
      else case re_match False NAVIGATE_RX t of
        Some g \<Rightarrow> Some (si_motion raw ''navigation.navigate_to'' (cautious t)
           [(''destination'', PStr (clean (group g 1)))])
      | None \<Rightarrow> None)"

fun first_some :: "'a option list \<Rightarrow> 'a option" where
  "first_some [] = None"
| "first_some (x # xs) = (case x of None \<Rightarrow> first_some xs | Some y \<Rightarrow> Some y)"

definition parse :: "string \<Rightarrow> structured_intent" where
  "parse text =
     (let raw = strip text; t = join '' '' (split (lower raw)) in
      case first_some [parse_safety raw t, parse_information raw t, parse_memory raw t,
                       parse_inspection raw t, parse_navigation raw t] of
        Some i \<Rightarrow> i
      | None \<Rightarrow> (si raw ''unknown'' [(''text'', PStr raw)])\<lparr>i_confidence := 0\<rparr>)"

section \<open>Facts\<close>

text \<open>The normal form of a text: lower case, single blanks.\<close>

definition normal_text :: "string \<Rightarrow> string" where
  "normal_text s = join '' '' (split (lower (strip s)))"

text \<open>What every rule yields: a registered tool whose need for motion is the one the intent states,
  string arguments, the raw text and the offline source.\<close>

definition well_typed :: "string \<Rightarrow> structured_intent \<Rightarrow> bool" where
  "well_typed raw i =
     ((\<exists>t \<in> set default_tools. tool_name t = i_intent i \<and> requires_motion t = i_requires_motion i)
      \<and> i_raw_text i = raw \<and> i_source i = ''offline'' \<and> i_confidence i = 1
      \<and> i_requested_speed i \<in> {''normal'', ''cautious''}
      \<and> list_all (\<lambda>(k, v). \<exists>x. v = PStr x) (i_arguments i))"

lemma si_well_typed:
  assumes "(n, False) \<in> set (map (\<lambda>t. (tool_name t, requires_motion t)) default_tools)"
    "list_all (\<lambda>(k, v). \<exists>x. v = PStr x) args"
  shows "well_typed raw (si raw n args)"
  using assms by (auto simp: well_typed_def si_def mk_intent_def)

lemma si_motion_well_typed:
  assumes "(n, True) \<in> set (map (\<lambda>t. (tool_name t, requires_motion t)) default_tools)"
    "list_all (\<lambda>(k, v). \<exists>x. v = PStr x) args" "sp \<in> {''normal'', ''cautious''}"
  shows "well_typed raw (si_motion raw n sp args)" "well_typed raw ((si_motion raw n sp args)\<lparr>i_requested_output := o'\<rparr>)"
  using assms by (auto simp: well_typed_def si_motion_def si_def mk_intent_def)

lemma tool_shapes: "set (map (\<lambda>t. (tool_name t, requires_motion t)) default_tools) = set
    [(''robot.get_status'', False), (''robot.get_battery'', False), (''robot.get_temperature'', False),
     (''diagnostics.summary'', False), (''robot.explain'', False), (''perception.describe_scene'', False),
     (''navigation.list_places'', False), (''help'', False), (''motion.stop'', False), (''motion.emergency_stop'', False),
     (''task.cancel'', False), (''voice.silence'', False), (''robot.return_safe_idle'', False),
     (''navigation.navigate_to'', True), (''navigation.go_charge'', True), (''inspect.named_target'', True),
     (''memory.remember'', False), (''memory.store_place'', False), (''memory.forget'', False),
     (''system.set_body'', False), (''system.install_update'', False), (''system.request_reboot'', False),
     (''system.shutdown'', False)]"
  by (simp add: default_tools_def info_tool_def insert_commute)

lemma cautious_cases: "cautious t \<in> {''normal'', ''cautious''}"
  by (simp add: cautious_def)

lemma si_rules: "n \<in> {''motion.emergency_stop'', ''voice.silence'', ''motion.stop'', ''task.cancel'', ''system.shutdown'',
      ''system.request_reboot'', ''robot.return_safe_idle'', ''robot.get_battery'', ''robot.get_temperature'',
      ''diagnostics.summary'', ''help'', ''perception.describe_scene'', ''navigation.list_places'', ''robot.get_status''}
    \<Longrightarrow> well_typed raw (si raw n [])"
  by (rule si_well_typed) (auto simp: tool_shapes simp del: set_map)

lemma si_arg_rules: "n \<in> {''robot.explain'', ''memory.forget'', ''memory.remember''}
    \<Longrightarrow> well_typed raw (si raw n [(k, PStr x)])"
  by (rule si_well_typed) (auto simp: tool_shapes simp del: set_map)

lemma parse_safety_typed: "parse_safety raw t = Some i \<Longrightarrow> well_typed raw i"
  unfolding parse_safety_def by (auto split: if_splits intro!: si_rules)

lemma parse_information_typed: "parse_information raw t = Some i \<Longrightarrow> well_typed raw i"
  unfolding parse_information_def by (auto split: if_splits intro!: si_rules si_arg_rules)

lemma parse_memory_typed: "parse_memory raw t = Some i \<Longrightarrow> well_typed raw i"
  unfolding parse_memory_def by (auto split: option.splits intro!: si_arg_rules)

lemma motion_shapes:
  "(''inspect.named_target'', True) \<in> set (map (\<lambda>t. (tool_name t, requires_motion t)) default_tools)"
  "(''navigation.navigate_to'', True) \<in> set (map (\<lambda>t. (tool_name t, requires_motion t)) default_tools)"
  "(''navigation.go_charge'', True) \<in> set (map (\<lambda>t. (tool_name t, requires_motion t)) default_tools)"
  by (simp_all add: tool_shapes del: set_map)

lemma parse_inspection_typed: "parse_inspection raw t = Some i \<Longrightarrow> well_typed raw i"
  unfolding parse_inspection_def
  using si_motion_well_typed(2) [OF motion_shapes(1) _ cautious_cases [of t]]
  by (auto split: option.splits)

lemma parse_navigation_typed: "parse_navigation raw t = Some i \<Longrightarrow> well_typed raw i"
  unfolding parse_navigation_def
  using si_motion_well_typed(1) [OF motion_shapes(2) _ cautious_cases [of t]]
    si_motion_well_typed(1) [OF motion_shapes(3) _ cautious_cases [of t]]
    si_motion_well_typed(1) [OF motion_shapes(2), of _ "''normal''"]
  by (auto split: option.splits if_splits)

lemmas rules_well_typed =
  parse_safety_typed parse_information_typed parse_memory_typed parse_inspection_typed parse_navigation_typed

lemma first_some_Some: "first_some xs = Some y \<Longrightarrow> Some y \<in> set xs"
  by (induction xs rule: first_some.induct) (auto split: option.splits)

lemma parse_cases:
  obtains (rule) "well_typed (strip s) (parse s)"
  | (unknown) "parse s = (si (strip s) ''unknown'' [(''text'', PStr (strip s))])\<lparr>i_confidence := 0\<rparr>"
proof -
  define rules where "rules = [parse_safety (strip s) (normal_text s), parse_information (strip s) (normal_text s),
    parse_memory (strip s) (normal_text s), parse_inspection (strip s) (normal_text s),
    parse_navigation (strip s) (normal_text s)]"
  have p: "parse s = (case first_some rules of Some i \<Rightarrow> i
      | None \<Rightarrow> (si (strip s) ''unknown'' [(''text'', PStr (strip s))])\<lparr>i_confidence := 0\<rparr>)"
    by (simp only: parse_def Let_def rules_def normal_text_def)
  show thesis
  proof (cases "first_some rules")
    case None
    then show ?thesis using p by (intro unknown) simp
  next
    case (Some i)
    then have "well_typed (strip s) i"
      using first_some_Some [OF Some] rules_well_typed unfolding rules_def by auto
    then show ?thesis using p Some by (intro rule) simp
  qed
qed

lemma fullmatch_iff: "re_fullmatch r t \<longleftrightarrow> (\<exists>n. matches False r (None, t) n \<and> drop n t = [])"
proof -
  have "re_fullmatch r t \<longleftrightarrow> (\<exists>q \<in> fst ` set (rx_match False r (None, t) []). snd q = [])"
    by (simp add: re_fullmatch_def)
  also have "\<dots> \<longleftrightarrow> (\<exists>n. matches False r (None, t) n \<and> drop n t = [])"
    unfolding rx_match_matches by simp
  finally show ?thesis .
qed

lemma matches_Str: "matches False (Str v) p n \<longleftrightarrow> (\<exists>b. snd p = v @ b) \<and> n = length v"
  by (auto simp: matches_simps same_text_def) (metis append_take_drop_id)+

lemma fullmatch_alts:
  "re_fullmatch (cat [Grp k (alts w ws), Opt (Str e)]) t \<longleftrightarrow> (\<exists>v \<in> set (w # ws). t = v \<or> t = v @ e)"
proof -
  define S where "S = set (w # ws)"
  have opt: "matches False (Opt (Str e)) p n \<longleftrightarrow> n = 0 \<or> (\<exists>c. snd p = e @ c) \<and> n = length e" for p n
    by (auto simp: matches_simps(5) matches_Str)
  have m: "matches False (cat [Grp k (alts w ws), Opt (Str e)]) (None, t) n
     \<longleftrightarrow> (\<exists>v \<in> S. (\<exists>b. t = v @ b) \<and> (n = length v \<or> (\<exists>c. drop (length v) t = e @ c) \<and> n = length v + length e))" for n
  proof -
    have "matches False (cat [Grp k (alts w ws), Opt (Str e)]) (None, t) n
      \<longleftrightarrow> (\<exists>i j. n = i + j \<and> (\<exists>v \<in> S. (\<exists>b. t = v @ b) \<and> i = length v)
             \<and> (j = 0 \<or> (\<exists>c. drop i t = e @ c) \<and> j = length e))"
      unfolding cat.simps matches_simps(3,7) matches_alts matches_Str opt S_def snd_advance snd_conv ..
    also have "\<dots> \<longleftrightarrow> (\<exists>v \<in> S. (\<exists>b. t = v @ b) \<and> (n = length v \<or> (\<exists>c. drop (length v) t = e @ c) \<and> n = length v + length e))"
      by (metis add_0_right)
    finally show ?thesis .
  qed
  show ?thesis unfolding fullmatch_iff m S_def [symmetric]
  proof
    assume "\<exists>n. (\<exists>v \<in> S. (\<exists>b. t = v @ b) \<and> (n = length v \<or> (\<exists>c. drop (length v) t = e @ c) \<and> n = length v + length e)) \<and> drop n t = []"
    then show "\<exists>v \<in> S. t = v \<or> t = v @ e" by auto
  next
    assume "\<exists>v \<in> S. t = v \<or> t = v @ e"
    then obtain v where "v \<in> S" "t = v \<or> t = v @ e" by blast
    then show "\<exists>n. (\<exists>v \<in> S. (\<exists>b. t = v @ b) \<and> (n = length v \<or> (\<exists>c. drop (length v) t = e @ c) \<and> n = length v + length e)) \<and> drop n t = []"
      by (intro exI [of _ "length t"] conjI bexI [of _ v]) auto
  qed
qed

lemma parse_emergency:
  "contains ''emergency stop'' (normal_text s) \<Longrightarrow> i_intent (parse s) = ''motion.emergency_stop''"
  by (simp add: parse_def Let_def normal_text_def parse_safety_def si_def mk_intent_def)

section \<open>Properties\<close>

text \<open>The parser only proposes what exists: for every text the proposed intent is either \<open>unknown\<close>
  (with the raw text as argument and zero confidence) or the name of a registered tool, with the tool's
  own need for motion, string arguments only, a speed of \<open>normal\<close> or \<open>cautious\<close>, and the offline source.\<close>

theorem parse_proposes_registered_tools:
  "(if i_intent (parse s) = ''unknown'' then i_arguments (parse s) = [(''text'', PStr (strip s))] \<and> i_confidence (parse s) = 0
    else \<exists>t. get_tool (tool_registry None) (i_intent (parse s)) = Some t \<and> requires_motion t = i_requires_motion (parse s))
   \<and> i_raw_text (parse s) = strip s \<and> i_source (parse s) = ''offline''
   \<and> i_requested_speed (parse s) \<in> {''normal'', ''cautious''}
   \<and> list_all (\<lambda>(k, v). \<exists>x. v = PStr x) (i_arguments (parse s))"
proof (cases rule: parse_cases [of s])
  case rule
  then obtain t where t: "t \<in> set default_tools" "tool_name t = i_intent (parse s)"
      "requires_motion t = i_requires_motion (parse s)" by (auto simp: well_typed_def)
  have "i_intent (parse s) \<noteq> ''unknown''"
  proof
    assume "i_intent (parse s) = ''unknown''"
    moreover have "(tool_name t, requires_motion t) \<in> set (map (\<lambda>t. (tool_name t, requires_motion t)) default_tools)"
      using t(1) by simp
    ultimately show False by (simp add: t(2) tool_shapes del: set_map)
  qed
  then show ?thesis using rule t get_default_tool [OF t(1)] by (auto simp: well_typed_def)
next
  case unknown
  then show ?thesis by (simp add: si_def mk_intent_def)
qed

text \<open>The safety words are recognised first, in any letter case and spacing: a text that contains
  ``emergency stop'' (or is one of the short forms) is the emergency stop, and one of the five stop
  phrases, with or without a full stop, is the motion stop.\<close>

theorem safety_words_recognised:
  "(contains ''emergency stop'' (normal_text s) \<or> normal_text s \<in> {''e-stop'', ''estop'', ''kill power''}
      \<longrightarrow> i_intent (parse s) = ''motion.emergency_stop'')
   \<and> ((\<exists>w \<in> {''stop'', ''halt'', ''freeze'', ''stop moving'', ''stop now''}. normal_text s \<in> {w, w @ ''.''})
      \<longrightarrow> i_intent (parse s) = ''motion.stop'')"
proof -
  let ?t = "normal_text s"
  have p: "i_intent (parse s) = n" if "parse_safety (strip s) ?t = Some (si (strip s) n [])" for n
    using that by (simp add: parse_def Let_def normal_text_def si_def mk_intent_def)
  have e: "parse_safety (strip s) ?t = Some (si (strip s) ''motion.emergency_stop'' [])"
    if "contains ''emergency stop'' ?t \<or> ?t \<in> {''e-stop'', ''estop'', ''kill power''}"
    using that by (simp only: parse_safety_def) simp
  define W where "W = [''stop'', ''halt'', ''freeze'', ''stop moving'', ''stop now'',
    ''stop.'', ''halt.'', ''freeze.'', ''stop moving.'', ''stop now.'']"
  have "list_all (\<lambda>t. \<not> contains ''emergency stop'' t \<and> t \<notin> set [''e-stop'', ''estop'', ''kill power''] \<and> \<not> found SILENCE_RX t) W"
    unfolding W_def by code_simp
  then have q: "\<not> contains ''emergency stop'' t \<and> t \<notin> set [''e-stop'', ''estop'', ''kill power''] \<and> \<not> found SILENCE_RX t"
    if "t \<in> set W" for t using that unfolding list_all_iff by blast
  have "parse_safety (strip s) ?t = Some (si (strip s) ''motion.stop'' [])"
    if "\<exists>w \<in> {''stop'', ''halt'', ''freeze'', ''stop moving'', ''stop now''}. ?t \<in> {w, w @ ''.''}"
  proof -
    have "?t \<in> set W" using that unfolding W_def by auto
    moreover have "re_fullmatch STOP_RX ?t" unfolding STOP_RX_def fullmatch_alts using that by auto
    ultimately show ?thesis using q [of ?t] unfolding parse_safety_def by simp
  qed
  from p [OF this] p [OF e] show ?thesis by (intro conjI impI)
qed

theorem safety_words_recognised_witness:
  "i_intent (parse ''  EMERGENCY  Stop!'') = ''motion.emergency_stop'' \<and> i_intent (parse ''Halt.'') = ''motion.stop''"
proof -
  have "contains ''emergency stop'' (normal_text ''  EMERGENCY  Stop!'')" "normal_text ''Halt.'' = ''halt.''" by code_simp+
  then show ?thesis
    using safety_words_recognised [of "''  EMERGENCY  Stop!''"] safety_words_recognised [of "''Halt.''"] by auto
qed

end
