(* ===== verification/Language.thy ===== *)
theory Language
  imports ExecutiveTasks OfflineParser
begin

text \<open>
  The language service, \<open>language/service.py\<close>, with the personality of \<open>language/personality.py\<close>: a proposed intent is validated by the
  broker, an approved one is run by the executive, and the result is rendered into English.

  What the provider chain proposes for a text (a language model or the offline parser) the name of
  its active provider and whether it is degraded are parameters; whatever they are, the broker decides. A result is
  rendered from its dictionary with Python's dynamic rules, so rendering may raise.
\<close>

section \<open>Dynamic values\<close>

text \<open>\<open>v[k]\<close>\<close>

definition item :: "pydict \<Rightarrow> string \<Rightarrow> pyval res" where
  "item m k = (case map_of m k of Some v \<Rightarrow> Inr v | None \<Rightarrow> Inl (KeyError k))"

definition val_item :: "pyval \<Rightarrow> string \<Rightarrow> pyval res" where
  "val_item v k =
     (case v of PDict m \<Rightarrow> item m k
      | PList _ \<Rightarrow> Inl (TypeError ''list indices must be integers or slices, not str'')
      | PStr _ \<Rightarrow> Inl (TypeError (''string indices must be integers, not '' @ repr_str ''str''))
      | _ \<Rightarrow> Inl (TypeError (repr_str (py_type_name v) @ '' object is not subscriptable'')))"

text \<open>\<open>f"{v:.nf}"\<close>\<close>

definition fmt_val :: "nat \<Rightarrow> pyval \<Rightarrow> string res" where
  "fmt_val n v =
     (case v of
        PFloat r \<Rightarrow> Inr (fmt_fixed n r)
      | PInt i \<Rightarrow> Inr (fmt_fixed n (of_int i))
      | PBool b \<Rightarrow> Inr (fmt_fixed n (if b then 1 else 0))
      | PStr _ \<Rightarrow> Inl (ValueError (''Unknown format code '' @ repr_str ''f'' @ '' for object of type '' @ repr_str ''str''))
      | _ \<Rightarrow> Inl (TypeError (''unsupported format string passed to '' @ py_type_name v @ ''.__format__'')))"

text \<open>\<open>a >= b\<close>, for numbers and for strings; the code compares no lists.\<close>

fun val_num :: "pyval \<Rightarrow> real option" where
  "val_num (PFloat r) = Some r"
| "val_num (PInt i) = Some (of_int i)"
| "val_num (PBool b) = Some (if b then 1 else 0)"
| "val_num _ = None"

definition val_ge :: "pyval \<Rightarrow> pyval \<Rightarrow> bool res" where
  "val_ge a b =
     (case (val_num a, val_num b) of
        (Some x, Some y) \<Rightarrow> Inr (x \<ge> y)
      | _ \<Rightarrow>
          (case (a, b) of
             (PStr s, PStr t) \<Rightarrow> Inr (s \<ge> t)
           | _ \<Rightarrow> Inl (TypeError (repr_str ''>='' @ '' not supported between instances of '' @ repr_str (py_type_name a)
                        @ '' and '' @ repr_str (py_type_name b)))))"

text \<open>The elements of a list of strings, as \<open>str.join\<close> requires, and of any list, as a loop requires.\<close>

fun strings_of :: "nat \<Rightarrow> pyval list \<Rightarrow> string list res" where
  "strings_of n [] = Inr []"
| "strings_of n (v # vs) =
     (case v of PStr s \<Rightarrow> and_then (strings_of (Suc n) vs) (\<lambda>ss. Inr (s # ss))
      | _ \<Rightarrow> Inl (TypeError (''sequence item '' @ show_nat n @ '': expected str instance, '' @ py_type_name v @ '' found'')))"

definition list_items :: "pyval \<Rightarrow> pyval list res" where
  "list_items v = (case v of PList vs \<Rightarrow> Inr vs
     | _ \<Rightarrow> Inl (TypeError (repr_str (py_type_name v) @ '' object is not iterable'')))"

definition join_val :: "string \<Rightarrow> pyval \<Rightarrow> string res" where
  "join_val sep v = and_then (list_items v) (\<lambda>vs. and_then (strings_of 0 vs) (\<lambda>ss. Inr (join sep ss)))"

fun map_res :: "('a \<Rightarrow> 'b res) \<Rightarrow> 'a list \<Rightarrow> 'b list res" where
  "map_res f [] = Inr []"
| "map_res f (x # xs) = and_then (f x) (\<lambda>y. and_then (map_res f xs) (\<lambda>ys. Inr (y # ys)))"

section \<open>Personality\<close>

record personality =
  pn_profile :: string
  pn_verbosity :: string

record flavor =
  fl_ack :: string
  fl_refuse_prefix :: string
  fl_greeting :: string
  fl_tone :: string

definition FLAVOR :: "(string \<times> flavor) list" where
  "FLAVOR =
     [(''dry_literal'', \<lparr>fl_ack = [], fl_refuse_prefix = [], fl_greeting = ''Ready.'', fl_tone = ''dry''\<rparr>),
      (''cheerful'', \<lparr>fl_ack = ''On it!'', fl_refuse_prefix = ''Sorry, '', fl_greeting = ''Hello! Standing by.'', fl_tone = ''warm''\<rparr>),
      (''formal'', \<lparr>fl_ack = ''Acknowledged.'', fl_refuse_prefix = ''Regretfully, '', fl_greeting = ''At your service.'', fl_tone = ''formal''\<rparr>),
      (''terse'', \<lparr>fl_ack = [], fl_refuse_prefix = [], fl_greeting = ''Ready.'', fl_tone = ''terse''\<rparr>)]"

text \<open>\<open>_FLAVOR.get(self.profile, _FLAVOR["dry_literal"])\<close>\<close>

definition flavor_of :: "personality \<Rightarrow> flavor" where
  "flavor_of p = dict_get FLAVOR (pn_profile p) (snd (hd FLAVOR))"

definition greeting :: "personality \<Rightarrow> string" where
  "greeting p = fl_greeting (flavor_of p)"

definition flavor_ack :: "personality \<Rightarrow> string" where
  "flavor_ack p = fl_ack (flavor_of p)"

definition refuse_prefix :: "personality \<Rightarrow> string" where
  "refuse_prefix p = fl_refuse_prefix (flavor_of p)"

definition acknowledge :: "personality \<Rightarrow> string \<Rightarrow> string" where
  "acknowledge p text = (if flavor_ack p \<noteq> [] then strip (flavor_ack p @ '' '' @ text) else text)"

definition refuse :: "personality \<Rightarrow> string \<Rightarrow> string" where
  "refuse p reason = (if refuse_prefix p \<noteq> [] then refuse_prefix p @ reason else reason)"

text \<open>\<open>s.split(sep, 1)[0]\<close>\<close>

fun before :: "string \<Rightarrow> string \<Rightarrow> string" where
  "before sep [] = []"
| "before sep (c # cs) = (if startswith sep (c # cs) then [] else c # before sep cs)"

definition trim :: "personality \<Rightarrow> string \<Rightarrow> string" where
  "trim p text =
     (if pn_verbosity p = ''verbose'' then text
      else if pn_verbosity p = ''terse'' then
        (let first = before [CHR 0x0A] (strip text)
         in rstrip_chars ''.'' (before ''. '' first) @ (if first \<noteq> [] then ''.'' else []))
      else text)"

section \<open>Rendering\<close>

type_synonym renderer = "personality \<Rightarrow> (real \<Rightarrow> string) \<Rightarrow> task_result \<Rightarrow> string res"

definition NL :: string where "NL = [CHR 0x0A]"

text \<open>\<open>d.get(k) or []\<close>\<close>

definition or_empty :: "pyval \<Rightarrow> pyval" where
  "or_empty v = (if truthy v then v else PList [])"

definition status_motion_line :: "pydict \<Rightarrow> string res" where
  "status_motion_line d =
     (if truthy (dict_get d ''motion_permitted'' PNone)
      then Inr ''All required systems are responding; I am currently safe to move.''
      else
        let reasons = or_empty (dict_get d ''inhibit_reasons'' PNone) in
        if truthy reasons
        then and_then (join_val ''; '' reasons) (\<lambda>rs. Inr (''Movement is disabled: '' @ rs @ ''.''))
        else Inr ''Movement is not currently permitted.'')"

definition r_robot_get_status :: renderer where
  "r_robot_get_status p fr r =
     (let d = tr_data r;
          l1 = ''I am '' @ py_str fr (dict_get d ''name'' (PStr ''the droid'')) @ ''. Current state: ''
                 @ py_str fr (dict_get d ''state'' PNone) @ ''.'';
          b = dict_get d ''battery_percent'' PNone
      in and_then (if b \<noteq> PNone then and_then (fmt_val 0 b) (\<lambda>s. Inr [''Battery charge is '' @ s @ '' percent.'']) else Inr [])
           (\<lambda>l2. and_then (status_motion_line d) (\<lambda>l3.
              let hm = dict_get d ''hottest_motor'' PNone in
              and_then (if truthy hm then
                          and_then (val_get hm ''level'' PNone) (\<lambda>lv.
                            if lv \<noteq> PStr ''OK''
                            then and_then (val_get hm ''message'' PNone) (\<lambda>m. Inr [''Note: '' @ py_str fr m @ ''.''])
                            else Inr [])
                        else Inr [])
                (\<lambda>l4. Inr (join '' '' ([l1] @ l2 @ [l3] @ l4))))))"

definition r_robot_get_battery :: renderer where
  "r_robot_get_battery p fr r =
     (let d = tr_data r in
      and_then (and_then (item d ''percent'') (fmt_val 0)) (\<lambda>pc.
        let s = ''Battery charge is '' @ pc @ '' percent''
                  @ (if truthy (dict_get d ''charging'' PNone) then '' and charging.'' else ''.'')
        in if \<not> truthy (dict_get d ''safe_to_move'' PNone)
           then and_then (and_then (item d ''motion_minimum'') (fmt_val 0)) (\<lambda>mm.
                  Inr (s @ '' That is below the '' @ mm @ '' percent motion minimum, so movement is inhibited.''))
           else Inr s))"

definition r_robot_get_temperature :: renderer where
  "r_robot_get_temperature p fr r =
     (let d = tr_data r; hot = dict_get d ''hottest'' PNone in
      if \<not> truthy hot then Inr ''I have no motor temperature readings.''
      else
        and_then (val_item hot ''name'') (\<lambda>n. and_then (val_item hot ''temp_c'') (\<lambda>tv. and_then (fmt_val 1 tv) (\<lambda>t.
        and_then (item d ''warn_c'') (\<lambda>wv. and_then (fmt_val 0 wv) (\<lambda>w.
        and_then (item d ''fault_c'') (\<lambda>fv. and_then (fmt_val 0 fv) (\<lambda>f.
          let s = ''The warmest joint is '' @ py_str fr n @ '' at '' @ t @ '' C (warning at '' @ w
                    @ '' C, fault at '' @ f @ '' C).''
          in and_then (val_ge tv fv) (\<lambda>over.
               if over then Inr (s @ '' It has exceeded its fault threshold.'')
               else and_then (val_ge tv wv) (\<lambda>warm.
                 Inr (if warm then s @ '' It is warmer than normal but below the warning threshold.'' else s)))))))))))"

definition r_diagnostics_summary :: renderer where
  "r_diagnostics_summary p fr r =
     (let d = tr_data r; n = dict_get d ''fault_count'' (PInt 0) in
      if val_num n = Some 0 then Inr ''All monitored systems are nominal. Nothing is wrong.''
      else
        and_then (item d ''fault_count'') (\<lambda>c.
        and_then (list_items (dict_get d ''faults'' (PList []))) (\<lambda>fs.
        and_then (map_res (\<lambda>f. and_then (val_item f ''name'') (\<lambda>nm. and_then (val_item f ''level'') (\<lambda>lv.
                             and_then (val_item f ''message'') (\<lambda>m.
                               Inr (''  - '' @ py_str fr nm @ '' ['' @ py_str fr lv @ '']: '' @ py_str fr m))))) fs)
          (\<lambda>ls. Inr (join NL ((''I have '' @ py_str fr c @ '' issue(s):'') # ls))))))"

definition r_robot_explain :: renderer where
  "r_robot_explain p fr r =
     (let d = tr_data r in
      if dict_get d ''topic'' PNone = PStr ''current_task'' then
        (let lt = dict_get d ''last_task'' PNone in
         if \<not> truthy lt then Inr ''I have not performed any task yet.''
         else and_then (val_item lt ''intent'') (\<lambda>i. and_then (val_item lt ''state'') (\<lambda>st.
                and_then (and_then (val_item lt ''steps'') (join_val '', '')) (\<lambda>steps.
                  Inr (''My last task was '' @ py_str fr i @ '' ('' @ py_str fr st @ ''); steps: ''
                       @ (if steps \<noteq> [] then steps else ''none'') @ ''.'')))))
      else if truthy (dict_get d ''estop'' PNone)
      then Inr ''Movement is disabled because an emergency stop is engaged. Motor power has been removed.''
      else
        let reasons = or_empty (dict_get d ''inhibit_reasons'' PNone) in
        if truthy reasons
        then and_then (join_val ''; '' reasons) (\<lambda>rs. Inr (''Movement is disabled because: '' @ rs @ ''.''))
        else Inr ''Movement is currently permitted; there is nothing preventing me from moving.'')"

definition r_perception_describe_scene :: renderer where
  "r_perception_describe_scene p fr r =
     (let d = tr_data r in
      if \<not> truthy (dict_get d ''camera_ok'' (PBool False))
      then Inr (py_str fr (dict_get d ''summary'' (PStr ''My camera is not available, so I cannot describe the scene.'')))
      else and_then (fmt_val 2 (dict_get d ''confidence'' (PFloat 0))) (\<lambda>c.
             Inr (''I can see '' @ py_str fr (dict_get d ''summary'' PNone) @ ''. (visual confidence '' @ c @ '')'')))"

definition r_navigation_list_places :: renderer where
  "r_navigation_list_places p fr r =
     (let places = dict_get (tr_data r) ''places'' (PList []) in
      if \<not> truthy places then Inr ''I do not have any named destinations yet.''
      else and_then (join_val '', '' places) (\<lambda>ps. Inr (''I know these places: '' @ ps @ ''.'')))"

definition r_help :: renderer where
  "r_help p fr r =
     and_then (list_items (dict_get (tr_data r) ''tools'' (PList []))) (\<lambda>ts.
     and_then (map_res (\<lambda>t. and_then (val_item t ''name'') (\<lambda>n. and_then (val_item t ''description'') (\<lambda>d.
                          and_then (val_item t ''risk'') (\<lambda>k.
                            Inr (''  - '' @ py_str fr n @ '': '' @ py_str fr d @ '' ['' @ py_str fr k @ '']''))))) ts)
       (\<lambda>ls. Inr (join NL (''I understand commands such as:'' # ls))))"

definition r_text :: "string \<Rightarrow> renderer" where
  "r_text s p fr r = Inr s"

definition r_robot_return_safe_idle :: renderer where
  "r_robot_return_safe_idle p fr r =
     Inr (''Returning to safe idle. State is now '' @ py_str fr (dict_get (tr_data r) ''state'' PNone) @ ''.'')"

text \<open>\<open>self.p.refuse(r.error or default)\<close>\<close>

definition refuse_or :: "personality \<Rightarrow> task_result \<Rightarrow> string \<Rightarrow> string" where
  "refuse_or p r dflt = refuse p (if tr_error r \<noteq> [] then tr_error r else dflt)"

definition r_navigation_navigate_to :: renderer where
  "r_navigation_navigate_to p fr r =
     Inr (if tr_ok r then ''I have arrived at '' @ py_str fr (dict_get (tr_data r) ''destination'' PNone) @ ''.''
          else refuse_or p r ''I could not reach the destination.'')"

definition r_navigation_go_charge :: renderer where
  "r_navigation_go_charge p fr r =
     Inr (if tr_ok r then ''I have returned to the charging station and started docking.''
          else refuse_or p r ''I could not return to the charging station.'')"

definition indicator_line :: "(real \<Rightarrow> string) \<Rightarrow> pyval \<Rightarrow> string list res" where
  "indicator_line fr ind =
     (if truthy ind then
        and_then (val_get ind ''amber'' (PInt 0)) (\<lambda>a. and_then (val_get ind ''red'' (PInt 0)) (\<lambda>rd.
        and_then (val_get ind ''green'' (PInt 0)) (\<lambda>g.
          Inr [''I found '' @ py_str fr a @ '' amber and '' @ py_str fr rd @ '' red indicators, with ''
               @ py_str fr g @ '' green.''])))
      else Inr [])"

definition r_inspect_named_target :: renderer where
  "r_inspect_named_target p fr r =
     (let d = tr_data r in
      if \<not> tr_ok r then Inr (refuse_or p r ''I could not complete the inspection.'')
      else if \<not> truthy (dict_get d ''found'' (PBool False)) then
        Inr (strip (''I did not see '' @ py_str fr (dict_get d ''target'' (PStr ''the target'')) @ '' from here. (''
                    @ py_str fr (dict_get d ''note'' (PStr [])) @ '')''))
      else
        and_then (indicator_line fr (dict_get d ''indicators'' PNone)) (\<lambda>l2.
        and_then (fmt_val 2 (dict_get d ''confidence'' (PInt 0))) (\<lambda>c.
          Inr (join '' ''
            ([''I inspected the '' @ py_str fr (dict_get d ''target'' PNone) @ ''.''] @ l2
             @ (if truthy (dict_get d ''open_cabinet_door'' PNone) then [''The cabinet door is open.''] else [])
             @ [''(observation only; visual confidence '' @ c @ ''). I can report what I see but not diagnose ''
                  @ ''the cause without a reference.''])))))"

definition r_memory_remember :: renderer where
  "r_memory_remember p fr r =
     Inr (if tr_ok r then ''Noted: '' @ [CHR 0x22] @ py_str fr (dict_get (tr_data r) ''remembered'' PNone) @ [CHR 0x22] @ ''.''
          else refuse p (tr_error r))"

definition r_memory_store_place :: renderer where
  "r_memory_store_place p fr r =
     (let d = tr_data r in
      and_then (fmt_val 1 (dict_get d ''x'' PNone)) (\<lambda>x. and_then (fmt_val 1 (dict_get d ''y'' PNone)) (\<lambda>y.
        Inr (''I have remembered '' @ py_str fr (dict_get d ''place'' PNone) @ '' at ('' @ x @ '', '' @ y @ '').''))))"

definition r_memory_forget :: renderer where
  "r_memory_forget p fr r =
     (let n = dict_get (tr_data r) ''removed'' (PInt 0) in
      Inr (if truthy n then ''I removed '' @ py_str fr n @ '' remembered item(s).''
           else ''I had nothing matching to forget.''))"

definition r_system_set_body :: renderer where
  "r_system_set_body p fr r =
     (if \<not> tr_ok r then Inr (refuse p (tr_error r))
      else
        let sel = dict_get (tr_data r) ''selection'' (PDict []) in
        and_then (val_get sel ''body_id'' PNone) (\<lambda>b. and_then (val_get sel ''backend'' PNone) (\<lambda>k.
          Inr (''Body '' @ py_str fr b @ '' ('' @ py_str fr k @ '') will activate on next boot.''))))"

definition r_system_install_update :: renderer where
  "r_system_install_update p fr r =
     Inr (py_str fr (dict_get (tr_data r) ''note'' (PStr ''Update handled.'')))"

definition r_fallback :: renderer where
  "r_fallback p fr r = Inr (if tr_ok r then ''Done.'' else refuse_or p r ''The task did not succeed.'')"

text \<open>The methods that \<open>getattr\<close> finds, under the part of their name after \<open>_r_\<close>.\<close>

definition RENDERERS :: "(string \<times> renderer) list" where
  "RENDERERS =
     [(''robot_get_status'', r_robot_get_status), (''robot_get_battery'', r_robot_get_battery),
      (''robot_get_temperature'', r_robot_get_temperature), (''diagnostics_summary'', r_diagnostics_summary),
      (''robot_explain'', r_robot_explain), (''perception_describe_scene'', r_perception_describe_scene),
      (''navigation_list_places'', r_navigation_list_places), (''help'', r_help),
      (''motion_stop'', r_text ''Stopped.''),
      (''motion_emergency_stop'', r_text ''Emergency stop engaged. Motor power has been removed.''),
      (''task_cancel'', r_text ''The active task has been cancelled and I have stopped.''),
      (''voice_silence'', r_text []), (''robot_return_safe_idle'', r_robot_return_safe_idle),
      (''navigation_navigate_to'', r_navigation_navigate_to), (''navigation_go_charge'', r_navigation_go_charge),
      (''inspect_named_target'', r_inspect_named_target), (''memory_remember'', r_memory_remember),
      (''memory_store_place'', r_memory_store_place), (''memory_forget'', r_memory_forget),
      (''system_set_body'', r_system_set_body), (''system_install_update'', r_system_install_update),
      (''system_request_reboot'', r_text ''Reboot requested.''), (''system_shutdown'', r_text ''Shutting down.'')]"

definition undotted :: "string \<Rightarrow> string" where
  "undotted s = map (\<lambda>c. if c = CHR ''.'' then CHR ''_'' else c) s"

definition render :: renderer where
  "render p fr r =
     and_then ((dict_get RENDERERS (undotted (tr_kind r)) r_fallback) p fr r) (\<lambda>text. Inr (trim p text))"

section \<open>Requests\<close>

record response =
  rp_text :: string
  rp_outcome :: string
  rp_needs_confirmation :: bool
  rp_pending :: "structured_intent option"
  rp_degraded :: bool
  rp_decision :: "decision option"

definition mk_response :: "string \<Rightarrow> string \<Rightarrow> bool \<Rightarrow> decision option \<Rightarrow> response" where
  "mk_response text oc degraded dec = \<lparr>rp_text = text, rp_outcome = oc, rp_needs_confirmation = False,
     rp_pending = None, rp_degraded = degraded, rp_decision = dec\<rparr>"

definition response_to_dict :: "response \<Rightarrow> pydict" where
  "response_to_dict r = [(''text'', PStr (rp_text r)), (''outcome'', PStr (rp_outcome r)),
     (''degraded'', PBool (rp_degraded r))]"

text \<open>The language side of the system: its personality, what the provider chain proposes for a text,
  the name of its active provider and whether the chain is degraded.\<close>

record language =
  lg_personality :: personality
  proposal :: "string \<Rightarrow> structured_intent res"
  chain_active :: string
  chain_degraded :: bool

text \<open>The broker's decision, with its audit record.\<close>

definition decide_request :: "structured_intent \<Rightarrow> user \<Rightarrow> bool \<Rightarrow> runtime \<Rightarrow> decision \<times> runtime" where
  "decide_request intent u confirmed rt =
     (case validate (tool_registry None) intent u confirmed rt of (dec, rt1) \<Rightarrow>
        (dec, emit_audit ((blank_record ''approval'')\<lparr>au_user := Some (user_name u), au_intent := Some (i_intent intent),
                au_approval := Some (outcome_value (dec_outcome dec)), au_reason := Some (dec_reason dec)\<rparr>) rt1))"

definition dispatch ::
  "language \<Rightarrow> host \<Rightarrow> structured_intent \<Rightarrow> user \<Rightarrow> bool \<Rightarrow> bool \<Rightarrow> runtime \<Rightarrow> response res \<times> runtime" where
  "dispatch lang h intent u confirmed degraded rt =
     (let p = lg_personality lang in
      case decide_request intent u confirmed rt of (dec, rt1) \<Rightarrow>
        case dec_outcome dec of
          CONFIRM \<Rightarrow>
            (Inr \<lparr>rp_text = refuse p (dec_prompt dec), rp_outcome = ''confirmation_required'',
                  rp_needs_confirmation = True, rp_pending = Some intent, rp_degraded = degraded,
                  rp_decision = Some dec\<rparr>, rt1)
        | REJECTED \<Rightarrow>
            (Inr (mk_response
               (if i_intent intent = ''unknown'' \<and> degraded
                then ''My advanced language service is unavailable. Basic status, stop, cancel, return and ''
                       @ ''shutdown commands remain available.''
                else refuse p (dec_reason dec)) ''rejected'' degraded (Some dec)), rt1)
        | APPROVED \<Rightarrow>
            if \<not> has_service rt1 ''executive''
            then (Inr (mk_response ''Executive service is unavailable.'' ''error'' degraded None), rt1)
            else
              (case run_intent h dec (user_name u) rt1 of (result, rt2) \<Rightarrow>
                 (and_then (render p (float_repr rt2) result) (\<lambda>text.
                    Inr (mk_response text (if tr_ok result then ''approved'' else ''failed'') degraded (Some dec))), rt2)))"

definition log_command :: "user \<Rightarrow> string \<Rightarrow> structured_intent \<Rightarrow> runtime \<Rightarrow> runtime" where
  "log_command u text intent rt =
     emit_audit ((blank_record ''command'')\<lparr>au_user := Some (user_name u), au_request_text := Some text,
       au_intent := Some (i_intent intent), au_arguments := Some (i_arguments intent),
       au_detail := Some [(''source'', PStr (i_source intent))]\<rparr>) rt"

definition process ::
  "language \<Rightarrow> host \<Rightarrow> string \<Rightarrow> string option \<Rightarrow> bool \<Rightarrow> structured_intent option \<Rightarrow> runtime \<Rightarrow> response res \<times> runtime" where
  "process lang h text uname confirmed pending rt =
     (let u = resolve_user (rt_auth rt) uname;
          degraded = chain_degraded lang;
          fresh = (case proposal lang text of
             Inl e \<Rightarrow> (Inl e, rt)
           | Inr intent \<Rightarrow>
               dispatch lang h intent u confirmed degraded (log_command u text intent rt))
      in case pending of
           None \<Rightarrow> fresh
         | Some intent \<Rightarrow>
             if is_affirmative text then dispatch lang h intent u True degraded rt
             else if is_negative text then (Inr (mk_response ''Understood, cancelled.'' ''cancelled'' degraded None), rt)
             else fresh)"

section \<open>Facts\<close>

lemma observes_emit [intro]: "observes rt (emit_audit r rt)"
  by (simp add: observes_def)

lemma validate_snd_cases:
  "snd (validate reg i u c rt) = rt \<or> snd (validate reg i u c rt) = snd (assess_readiness rt)"
  using validate_snd [of reg i u c rt] permitted_snd [of rt] by (cases "has_supervisor rt") auto

lemma observes_validate: "observes rt (snd (validate reg i u c rt))"
  using validate_snd_cases [of reg i u c rt] observes_assess [of rt] by auto

lemma books_validate: "same_books rt (snd (validate reg i u c rt))"
  using validate_snd_cases [of reg i u c rt] books_assess [of rt] by auto

lemma dec_intent_gates:
  "dec_intent (decide oc i mt r p cs) = i"
  "dec_intent (fst (confirm_gate i t c cs rt)) = i"
  "dec_intent (fst (motion_gate i t c cs rt)) = i"
  by (simp_all add: decide_def confirm_gate_def motion_gate_def case_prod_beta Let_def)

lemma dec_intent_validate: "dec_intent (fst (validate reg i u c rt)) = i"
  by (cases "get_tool reg (i_intent i)") (simp_all add: validate_def case_prod_beta Let_def dec_intent_gates)

lemma decide_request_facts:
  "fst (decide_request i u c rt) = fst (validate (tool_registry None) i u c rt)"
  "observes rt (snd (decide_request i u c rt))" "same_books rt (snd (decide_request i u c rt))"
  "has_safety (snd (decide_request i u c rt)) = has_safety rt"
  using observes_trans [OF observes_validate observes_emit] same_books_trans [OF books_validate books_basic(2)]
    validate_snd_cases [of "tool_registry None" i u c rt]
  by (auto simp: decide_request_def case_prod_beta)

lemma log_command_facts:
  "observes rt (log_command u s i rt)" "same_books rt (log_command u s i rt)"
  "svcs (log_command u s i rt) = svcs rt" "has_safety (log_command u s i rt) = has_safety rt"
  using books_basic(2) by (auto simp: log_command_def)

text \<open>A request that is not approved only observes, and runs no task.\<close>

lemma dispatch_unapproved:
  assumes "dec_outcome (fst (validate (tool_registry None) i u c rt)) \<noteq> APPROVED"
  shows "observes rt (snd (dispatch lang h i u c dg rt)) \<and> same_books rt (snd (dispatch lang h i u c dg rt))
    \<and> (\<exists>r. fst (dispatch lang h i u c dg rt) = Inr r
          \<and> rp_outcome r = outcome_value (dec_outcome (fst (validate (tool_registry None) i u c rt)))
          \<and> (rp_pending r = Some i \<longleftrightarrow> dec_outcome (fst (validate (tool_registry None) i u c rt)) = CONFIRM))"
proof -
  obtain dec rt1 where d: "decide_request i u c rt = (dec, rt1)" by (cases "decide_request i u c rt")
  note f = decide_request_facts [where i = i and u = u and c = c and rt = rt, unfolded d fst_conv snd_conv]
  have "dec_outcome dec \<noteq> APPROVED" using assms f(1) by simp
  then consider "dec_outcome dec = CONFIRM" | "dec_outcome dec = REJECTED" by (cases "dec_outcome dec") auto
  then show ?thesis using f d by cases (simp_all add: dispatch_def mk_response_def f(1) [symmetric])
qed

lemma dispatch_approved:
  assumes "dec_outcome (fst (validate (tool_registry None) i u c rt)) = APPROVED" "has_service rt ''executive''"
  obtains dec rt1 where "decide_request i u c rt = (dec, rt1)" "dec_intent dec = i" "dec_outcome dec = APPROVED"
    "snd (dispatch lang h i u c dg rt) = snd (run_intent h dec (user_name u) rt1)"
    "fst (dispatch lang h i u c dg rt) = and_then (render (lg_personality lang)
        (float_repr (snd (run_intent h dec (user_name u) rt1))) (fst (run_intent h dec (user_name u) rt1)))
        (\<lambda>text. Inr (mk_response text (if tr_ok (fst (run_intent h dec (user_name u) rt1)) then ''approved'' else ''failed'')
                 dg (Some dec)))"
proof -
  obtain dec rt1 where d: "decide_request i u c rt = (dec, rt1)" by (cases "decide_request i u c rt")
  note f = decide_request_facts [where i = i and u = u and c = c and rt = rt, unfolded d fst_conv snd_conv]
  have a: "dec_outcome dec = APPROVED" using assms(1) f(1) by simp
  have e: "has_service rt1 ''executive''" using assms(2) f(2) by (simp add: observes_def has_service_def)
  have i: "dec_intent dec = i"
    by (simp add: f(1) dec_intent_validate)
  show ?thesis by (rule that [OF d i a]) (simp_all add: dispatch_def d a e case_prod_beta Let_def)
qed

lemma dispatch_unavailable:
  assumes "\<not> has_service rt ''executive''" "dec_outcome (fst (validate (tool_registry None) i u c rt)) = APPROVED"
  shows "observes rt (snd (dispatch lang h i u c dg rt)) \<and> same_books rt (snd (dispatch lang h i u c dg rt))
    \<and> fst (dispatch lang h i u c dg rt) = Inr (mk_response ''Executive service is unavailable.'' ''error'' dg None)"
proof -
  obtain dec rt1 where d: "decide_request i u c rt = (dec, rt1)" by (cases "decide_request i u c rt")
  note f = decide_request_facts [where i = i and u = u and c = c and rt = rt, unfolded d fst_conv snd_conv]
  have "dec_outcome dec = APPROVED" using assms(2) f(1) by simp
  moreover have "\<not> has_service rt1 ''executive''" using assms(1) f(2) by (simp add: observes_def has_service_def)
  ultimately show ?thesis using f d by (simp add: dispatch_def)
qed


lemma dispatch_question:
  assumes "fst (dispatch lang h i u c dg rt) = Inr r" "rp_needs_confirmation r"
  shows "dec_outcome (fst (validate (tool_registry None) i u c rt)) = CONFIRM \<and> rp_pending r = Some i"
proof -
  have f: "dec_outcome (fst (decide_request i u c rt)) = dec_outcome (fst (validate (tool_registry None) i u c rt))"
    by (simp add: decide_request_facts)
  show ?thesis
  proof (cases "dec_outcome (fst (decide_request i u c rt))")
    case APPROVED
    then show ?thesis using assms
      by (auto simp: dispatch_def case_prod_beta Let_def and_then_def mk_response_def split: if_splits sum.splits)
  qed (use assms f in \<open>auto simp: dispatch_def case_prod_beta Let_def mk_response_def\<close>)
qed

lemma process_cases:
  obtains (dispatched) i c' rt1 where "process lang h s uname c pend rt
       = dispatch lang h i (resolve_user (rt_auth rt) uname) c' (chain_degraded lang) rt1"
     "observes rt rt1" "same_books rt rt1"
     "has_service rt1 = has_service rt" "has_safety rt1 = has_safety rt"
     "pend = Some i \<and> is_affirmative s \<and> c' \<and> rt1 = rt \<or> proposal lang s = Inr i \<and> c' = c"
  | (idle) r where "process lang h s uname c pend rt = (r, rt)"
proof -
  define fresh where "fresh = process lang h s uname c None rt"
  have fr: thesis if "process lang h s uname c pend rt = fresh"
  proof (cases "proposal lang s")
    case (Inl e)
    then have "process lang h s uname c pend rt = (Inl e, rt)"
      using that by (simp add: fresh_def process_def Let_def)
    then show ?thesis by (rule idle)
  next
    case (Inr i)
    then show ?thesis
      using that by (intro dispatched [of i c "log_command (resolve_user (rt_auth rt) uname) s i rt"])
        (simp_all add: fresh_def process_def Let_def fun_eq_iff has_service_def log_command_facts)
  qed
  show thesis
  proof (cases pend)
    case None
    then show ?thesis using fr by (simp add: fresh_def)
  next
    case (Some i)
    consider "is_affirmative s" | "\<not> is_affirmative s" "is_negative s"
      | "\<not> is_affirmative s" "\<not> is_negative s" by blast
    then show ?thesis
    proof cases
      case 1
      then show ?thesis using Some
        by (intro dispatched [of i True rt]) (simp_all add: process_def Let_def)
    next
      case 2
      then show ?thesis using Some by (intro idle) (simp add: process_def Let_def)
    next
      case 3
      then show ?thesis using Some fr by (simp add: fresh_def process_def Let_def)
    qed
  qed
qed

lemma estop_approved:
  assumes "i_intent i = ''motion.emergency_stop''"
  shows "dec_outcome (fst (validate (tool_registry None) i u c rt)) = APPROVED"
proof -
  let ?t = "(info_tool ''motion.emergency_stop'' ''remove motor power immediately'')\<lparr>always_available := True\<rparr>"
  have "?t \<in> set default_tools" by (simp add: default_tools_def info_tool_def)
  from get_default_tool [OF this] have "get_tool (tool_registry None) (i_intent i) = Some ?t"
    using assms by (simp add: info_tool_def)
  then show ?thesis by (simp add: validate_def Let_def)
qed

lemma render_estop:
  assumes "tr_kind r = ''motion.emergency_stop''"
  shows "render p fr r = Inr (trim p ''Emergency stop engaged. Motor power has been removed.'')"
  using assms by (simp add: render_def RENDERERS_def undotted_def dict_get_def r_text_def and_then_def)

section \<open>Properties\<close>

text \<open>C7. Nothing happens without the broker's approval: whatever the text, the pending intent and the
  proposal of the language model, either the request only observes (no state change, no contactor
  closed, no task run) or it is for an intent that the broker approved for this user: the pending one,
  with an affirmative answer, or the one the provider chain proposed for this text.\<close>

theorem nothing_runs_without_approval:
  "(observes rt (snd (process lang h s uname c pend rt)) \<and> same_books rt (snd (process lang h s uname c pend rt)))
   \<or> (\<exists>i c' rt1. observes rt rt1 \<and> same_books rt rt1
        \<and> dec_outcome (fst (validate (tool_registry None) i (resolve_user (rt_auth rt) uname) c' rt1)) = APPROVED
        \<and> (pend = Some i \<and> is_affirmative s \<and> c' \<or> proposal lang s = Inr i \<and> c' = c))"
proof (cases rule: process_cases [of lang h s uname c pend rt])
  case (dispatched i c' rt1)
  let ?u = "resolve_user (rt_auth rt) uname" and ?rt' = "snd (process lang h s uname c pend rt)"
  show ?thesis
  proof (cases "dec_outcome (fst (validate (tool_registry None) i ?u c' rt1)) = APPROVED")
    case True
    then show ?thesis using dispatched by blast
  next
    case False
    from dispatch_unapproved [OF this, of lang h "chain_degraded lang"]
    have "observes rt1 ?rt'" "same_books rt1 ?rt'" unfolding dispatched(1) by blast+
    then show ?thesis using dispatched(2,3) observes_trans same_books_trans by blast
  qed
next
  case (idle r)
  then show ?thesis by simp
qed

lemma process_estop:
  assumes "has_safety rt" "has_service rt ''executive''" "proposal lang s = Inr i"
    "i_intent i = ''motion.emergency_stop''"
  shows "case process lang h s uname c None rt of (r, rt') \<Rightarrow>
     powers_off rt' \<and> c_estop (ctl rt') \<and> cur_state (rt_state rt') = EMERGENCY_STOPPED
     \<and> latch_file rt' = write_doc (Some \<lparr>latch_estop = True, latch_reason = Some ''voice_or_text_command''\<rparr>) (latch_file rt)
     \<and> (\<exists>resp. r = Inr resp \<and> rp_outcome resp = ''approved''
          \<and> (pn_verbosity (lg_personality lang) \<noteq> ''terse''
             \<longrightarrow> rp_text resp = ''Emergency stop engaged. Motor power has been removed.''))"
proof -
  let ?u = "resolve_user (rt_auth rt) uname" and ?dg = "chain_degraded lang"
  let ?rt1 = "log_command ?u s i rt"
  have pr: "process lang h s uname c None rt = dispatch lang h i ?u c ?dg ?rt1"
    using assms by (simp add: process_def Let_def)
  have ex: "has_service ?rt1 ''executive''" using assms(2) by (simp add: has_service_def log_command_facts)
  have ap: "dec_outcome (fst (validate (tool_registry None) i ?u c ?rt1)) = APPROVED"
    using estop_approved [OF assms(4)] .
  obtain dec rt2 where d: "decide_request i ?u c ?rt1 = (dec, rt2)" "dec_intent dec = i"
    and out: "snd (dispatch lang h i ?u c ?dg ?rt1) = snd (run_intent h dec (user_name ?u) rt2)"
      "fst (dispatch lang h i ?u c ?dg ?rt1) = and_then (render (lg_personality lang)
        (float_repr (snd (run_intent h dec (user_name ?u) rt2))) (fst (run_intent h dec (user_name ?u) rt2)))
        (\<lambda>text. Inr (mk_response text
           (if tr_ok (fst (run_intent h dec (user_name ?u) rt2)) then ''approved'' else ''failed'') ?dg (Some dec)))"
    by (rule dispatch_approved [OF ap ex, of lang h ?dg]) blast
  note f = decide_request_facts [where i = i and u = ?u and c = c and rt = ?rt1, unfolded d fst_conv snd_conv]
  have "has_safety rt2" using f(4) assms(1) by (simp add: log_command_facts)
  note run = run_estop [OF this, of dec h "user_name ?u", unfolded d(2), OF assms(4)]
  have "latch_file rt2 = latch_file rt"
    using f(2) log_command_facts(1) [of rt ?u s i] by (simp add: observes_def)
  then show ?thesis
    using run out render_estop [of "fst (run_intent h dec (user_name ?u) rt2)"] unfolding pr
    by (simp add: case_prod_beta and_then_def mk_response_def trim_def)
qed

text \<open>C13. A spoken or typed emergency stop always works: if the provider chain proposes the emergency
  stop for a text that answers no pending question, then with a safety gateway and an executive
  the request is approved whoever asks, the stop is engaged and latched, both contactors are open
  and the state is EMERGENCY_STOPPED; the answer says so unless the personality is terse.\<close>

theorem estop_request_end_to_end:
  assumes "has_safety rt" "has_service rt ''executive''" "proposal lang s = Inr i"
    "i_intent i = ''motion.emergency_stop''" "pend = None"
  shows "case process lang h s uname c pend rt of (r, rt') \<Rightarrow>
     powers_off rt' \<and> c_estop (ctl rt') \<and> cur_state (rt_state rt') = EMERGENCY_STOPPED
     \<and> latch_file rt' = write_doc (Some \<lparr>latch_estop = True, latch_reason = Some ''voice_or_text_command''\<rparr>) (latch_file rt)
     \<and> (\<exists>resp. r = Inr resp \<and> rp_outcome resp = ''approved''
          \<and> (pn_verbosity (lg_personality lang) \<noteq> ''terse''
             \<longrightarrow> rp_text resp = ''Emergency stop engaged. Motor power has been removed.''))"
  using process_estop [OF assms(1-4), of h uname c] unfolding assms(5) .

definition example_language :: language where
  "example_language =
     \<lparr>lg_personality = \<lparr>pn_profile = ''dry_literal'', pn_verbosity = ''normal''\<rparr>,
      proposal = (\<lambda>s. Inr (mk_intent (if s = ''emergency stop'' then ''motion.emergency_stop'' else ''system.shutdown'') [])),
      chain_active = ''offline'', chain_degraded = False\<rparr>"

lemma active_has_executive: "has_service active_rt ''executive''"
  using active_has_service [of "''executive''"] by (simp add: SERVICE_NAMES_def has_service_def)

theorem estop_request_end_to_end_witness:
  "cur_state (rt_state (snd (process example_language example_host ''emergency stop'' None False None active_rt)))
     = EMERGENCY_STOPPED
   \<and> powers_off (snd (process example_language example_host ''emergency stop'' None False None active_rt))"
  using estop_request_end_to_end [OF active_fields(4) active_has_executive, of example_language "''emergency stop''"
      "mk_intent ''motion.emergency_stop'' []" None example_host None False]
  by (simp add: example_language_def mk_intent_def case_prod_beta)

text \<open>A refusal tells the user why: a rejected request that was understood is answered with the
  broker's reason, after the personality's prefix only, and asks for no confirmation.\<close>

theorem refusal_states_the_reason:
  assumes "dec_outcome (fst (validate (tool_registry None) i u c rt)) = REJECTED" "i_intent i \<noteq> ''unknown''"
  shows "\<exists>r pre. fst (dispatch lang h i u c dg rt) = Inr r \<and> rp_outcome r = ''rejected''
    \<and> rp_text r = pre @ dec_reason (fst (validate (tool_registry None) i u c rt))
    \<and> pre \<in> {[], ''Sorry, '', ''Regretfully, ''} \<and> \<not> rp_needs_confirmation r \<and> rp_pending r = None"
proof -
  have "refuse_prefix p \<in> {[], ''Sorry, '', ''Regretfully, ''}" for p
    by (simp add: refuse_prefix_def flavor_of_def FLAVOR_def dict_get_def)
  then have "\<exists>pre \<in> {[], ''Sorry, '', ''Regretfully, ''}. refuse p x = pre @ x" for p x
    by (intro bexI [of _ "refuse_prefix p"]) (simp_all add: refuse_def)
  from this [of "lg_personality lang" "dec_reason (fst (validate (tool_registry None) i u c rt))"]
  obtain pre where "pre \<in> {[], ''Sorry, '', ''Regretfully, ''}"
    "refuse (lg_personality lang) (dec_reason (fst (validate (tool_registry None) i u c rt)))
       = pre @ dec_reason (fst (validate (tool_registry None) i u c rt))" by blast
  then show ?thesis
    using assms decide_request_facts(1) [of i u c rt]
    by (intro exI [of _ "mk_response (refuse (lg_personality lang) (dec_reason (fst (validate (tool_registry None) i u c rt))))
         ''rejected'' dg (Some (fst (decide_request i u c rt)))"] exI [of _ pre])
      (simp add: dispatch_def case_prod_beta Let_def mk_response_def)
qed

theorem refusal_states_the_reason_witness:
  "\<exists>r. fst (dispatch example_language example_host (mk_intent ''system.shutdown'' []) example_operator True False active_rt) = Inr r
     \<and> rp_outcome r = ''rejected''"
proof -
  have "dec_outcome (fst (validate (tool_registry None) (mk_intent ''system.shutdown'' []) example_operator True active_rt))
      = REJECTED"
    using shutdown_outcome [of "mk_intent ''system.shutdown'' []" active_rt example_operator True]
    by (simp add: mk_intent_def example_operator_def)
  moreover have "i_intent (mk_intent ''system.shutdown'' []) \<noteq> ''unknown''" by (simp add: mk_intent_def)
  ultimately show ?thesis
    using refusal_states_the_reason [of "mk_intent ''system.shutdown'' []" example_operator True active_rt
        example_language example_host False] by blast
qed

text \<open>C32. A confirmation is asked for before, and given for exactly, the pending intent: if a fresh
  request answers with a question, nothing was done and the answer carries the intent; ``yes'' to
  that answer dispatches this very intent as confirmed, for the user who says it, and ``no'' does
  nothing at all.\<close>

theorem confirmation_round_trip:
  assumes "process lang h s uname c None rt = (Inr r, rt1)" "rp_needs_confirmation r"
  shows "observes rt rt1 \<and> same_books rt rt1 \<and> proposal lang s = Inr (the (rp_pending r)) \<and> rp_pending r \<noteq> None
    \<and> process lang h ''Yes.'' uname' c' (rp_pending r) rt2
        = dispatch lang h (the (rp_pending r)) (resolve_user (rt_auth rt2) uname') True (chain_degraded lang) rt2
    \<and> process lang h ''No'' uname' c' (rp_pending r) rt2
        = (Inr (mk_response ''Understood, cancelled.'' ''cancelled'' (chain_degraded lang) None), rt2)"
proof -
  obtain i where i: "proposal lang s = Inr i" and d: "dispatch lang h i (resolve_user (rt_auth rt) uname) c
      (chain_degraded lang) (log_command (resolve_user (rt_auth rt) uname) s i rt) = (Inr r, rt1)"
    using assms(1) by (auto simp: process_def Let_def split: sum.splits)
  let ?u = "resolve_user (rt_auth rt) uname" and ?rt0 = "log_command (resolve_user (rt_auth rt) uname) s i rt"
  have c: "dec_outcome (fst (validate (tool_registry None) i ?u c ?rt0)) = CONFIRM \<and> rp_pending r = Some i"
    using dispatch_question [of lang h i ?u c _ ?rt0 r] d assms(2) by (metis fst_conv)
  have "observes ?rt0 rt1 \<and> same_books ?rt0 rt1"
    using dispatch_unapproved [of i ?u c ?rt0 lang h "chain_degraded lang"] c d by simp
  then have "observes rt rt1 \<and> same_books rt rt1"
    using log_command_facts(1,2) [of rt ?u s i] observes_trans same_books_trans by blast
  moreover have "is_affirmative ''Yes.''" "\<not> is_affirmative ''No''" "is_negative ''No''"
    by code_simp+
  ultimately show ?thesis using c i by (simp add: process_def)
qed

definition owner_rt :: runtime where
  "owner_rt = active_rt\<lparr>rt_auth := \<lparr>auth_users = [(''ann'', example_owner)], default_user = ''ann''\<rparr>\<rparr>"

theorem confirmation_round_trip_witness:
  "process example_language example_host ''No'' None False (Some (mk_intent ''system.shutdown'' [])) owner_rt
     = (Inr (mk_response ''Understood, cancelled.'' ''cancelled'' False None), owner_rt)"
proof -
  let ?i = "mk_intent ''system.shutdown'' []" and ?o = "process example_language example_host ''shut down'' None False None owner_rt"
  let ?rt = "log_command example_owner ''shut down'' ?i owner_rt"
  have u: "resolve_user (rt_auth owner_rt) None = example_owner" by (simp add: owner_rt_def resolve_user_def)
  have d: "?o = dispatch example_language example_host ?i example_owner False False ?rt"
    by (simp add: process_def Let_def u example_language_def)
  have "dec_outcome (fst (decide_request ?i example_owner False ?rt)) = CONFIRM"
    using shutdown_outcome [of ?i ?rt example_owner False]
    by (simp add: decide_request_facts mk_intent_def example_owner_def log_command_def owner_rt_def)
  then have "\<exists>r. ?o = (Inr r, snd ?o) \<and> rp_needs_confirmation r \<and> rp_pending r = Some ?i"
    unfolding d by (simp add: dispatch_def case_prod_beta Let_def)
  then obtain r where "?o = (Inr r, snd ?o)" "rp_needs_confirmation r" "rp_pending r = Some ?i" by blast
  from confirmation_round_trip [OF this(1,2), of None False owner_rt] this(3)
  show ?thesis by (simp add: example_language_def)
qed

text \<open>Some failures are reported as success: a failed diagnosis is rendered as an all-clear, a failed
  emergency stop as an engaged one, a failed update as handled, and a failed battery or place request
  makes the rendering itself raise, so that the user gets no answer.\<close>

theorem failures_rendered_as_success:
  "render p fr (mk_result False ''diagnostics.summary'' [] err)
     = Inr (trim p ''All monitored systems are nominal. Nothing is wrong.'')
   \<and> render p fr (mk_result False ''motion.emergency_stop'' [] err)
     = Inr (trim p ''Emergency stop engaged. Motor power has been removed.'')
   \<and> render p fr (mk_result False ''system.install_update'' [] err) = Inr (trim p ''Update handled.'')
   \<and> render p fr (mk_result False ''robot.get_battery'' [] err) = Inl (KeyError ''percent'')
   \<and> render p fr (mk_result False ''memory.store_place'' [] err)
     = Inl (TypeError ''unsupported format string passed to NoneType.__format__'')"
  by (simp add: render_def RENDERERS_def undotted_def mk_result_def dict_get_def r_text_def and_then_def
      r_diagnostics_summary_def r_system_install_update_def r_robot_get_battery_def r_memory_store_place_def
      item_def fmt_val_def Let_def py_str_def)

end
