(* ===== verification/Providers.thy ===== *)
theory Providers
  imports Language
begin

text \<open>
  The language-model providers, \<open>language/providers.py\<close>: the offline, disabled and HTTP providers, the
  chain that tries them in order and ends in the offline parser, and the extraction of an intent from
  a model's reply.

  The network is a parameter, the record \<open>network\<close>: whether a server answers its model list, what a
  chat request returns (a decoded JSON body or an exception), the credentials in the environment, and
  the decoding of a text that begins with a brace (an object, or nothing for malformed JSON). Its
  answers are fixed during one request. An intent's arguments are a dictionary and its speed a
  string; a reply that gives them other types is outside the model, which ends such a request with a
  \<open>TypeError\<close>.
\<close>

section \<open>Providers\<close>

record http_provider =
  hp_name :: string
  hp_endpoint :: string
  hp_model :: string
  hp_api_key_ref :: pyval
  hp_timeout :: real

datatype provider = OfflineProvider | DisabledProvider | OpenAICompatibleProvider http_provider

record network =
  serves_models :: "string \<Rightarrow> string option \<Rightarrow> bool"
  chat :: "string \<Rightarrow> string option \<Rightarrow> string \<Rightarrow> string \<Rightarrow> string list \<Rightarrow> pyval res"
  credential :: "string \<Rightarrow> string option"
  json_object :: "string \<Rightarrow> pydict option"
  net_float_repr :: "real \<Rightarrow> string"

definition provider_name :: "provider \<Rightarrow> string" where
  "provider_name p = (case p of OfflineProvider \<Rightarrow> ''offline'' | DisabledProvider \<Rightarrow> ''disabled''
     | OpenAICompatibleProvider q \<Rightarrow> hp_name q)"

definition upper_char :: "char \<Rightarrow> char" where
  "upper_char c = (let n = (of_char c :: nat) in if 97 \<le> n \<and> n \<le> 122 then char_of (n - 32) else c)"

text \<open>\<open>str.upper\<close> on the ASCII names of the credentials.\<close>

definition api_key :: "network \<Rightarrow> http_provider \<Rightarrow> string option" where
  "api_key net p =
     (if \<not> truthy (hp_api_key_ref p) then None
      else credential net (''DROIDOS_LLM_KEY_'' @ map upper_char (py_str (net_float_repr net) (hp_api_key_ref p))))"

definition http_base :: "http_provider \<Rightarrow> string option" where
  "http_base p = (if startswith ''http://'' (hp_endpoint p) \<or> startswith ''https://'' (hp_endpoint p)
     then Some (rstrip_chars ''/'' (hp_endpoint p)) else None)"

definition available :: "network \<Rightarrow> provider \<Rightarrow> bool" where
  "available net p =
     (case p of
        OfflineProvider \<Rightarrow> True
      | DisabledProvider \<Rightarrow> False
      | OpenAICompatibleProvider q \<Rightarrow>
          (case http_base q of None \<Rightarrow> False | Some base \<Rightarrow> serves_models net base (api_key net q)))"

section \<open>Replies\<close>

text \<open>The prefix of a text up to the brace that closes its first one.\<close>

fun balanced :: "nat \<Rightarrow> string \<Rightarrow> string option" where
  "balanced depth [] = None"
| "balanced depth (c # cs) =
     (if c = CHR ''{'' then map_option (Cons c) (balanced (Suc depth) cs)
      else if c = CHR ''}'' then
        (if depth \<le> 1 then Some [c] else map_option (Cons c) (balanced (depth - 1) cs))
      else map_option (Cons c) (balanced depth cs))"

fun first_json_object :: "(string \<Rightarrow> pydict option) \<Rightarrow> string \<Rightarrow> pydict option" where
  "first_json_object loads [] = None"
| "first_json_object loads (c # cs) =
     (if c = CHR ''{'' then
        (case balanced 0 (c # cs) of
           None \<Rightarrow> first_json_object loads cs
         | Some t \<Rightarrow> (case loads t of Some obj \<Rightarrow> Some obj | None \<Rightarrow> first_json_object loads cs))
      else first_json_object loads cs)"

definition fallback_intent :: "string \<Rightarrow> string \<Rightarrow> structured_intent" where
  "fallback_intent source text = (parse text)\<lparr>i_source := source\<rparr>"

definition reply_intent :: "host \<Rightarrow> pydict \<Rightarrow> string \<Rightarrow> string \<Rightarrow> structured_intent res" where
  "reply_intent h obj name raw =
     (let args = dict_get obj ''arguments'' (PDict []);
          speed = dict_get obj ''requested_speed'' (PStr ''normal'')
      in case (if truthy args then args else PDict [], speed) of
           (PDict m, PStr sp) \<Rightarrow>
             and_then (to_float h (dict_get obj ''confidence'' (PFloat (9 / 10)))) (\<lambda>cf.
               Inr \<lparr>i_intent = name, i_arguments = m,
                    i_requires_motion = truthy (dict_get obj ''requires_motion'' (PBool False)),
                    i_requested_speed = sp, i_requested_output = ''text'', i_raw_text = raw,
                    i_source = ''llm'', i_confidence = cf\<rparr>)
         | _ \<Rightarrow> Inl (TypeError ''reply outside the model''))"

definition parse_intent :: "host \<Rightarrow> network \<Rightarrow> string \<Rightarrow> string \<Rightarrow> string list \<Rightarrow> structured_intent res" where
  "parse_intent h net content raw allowed =
     (case first_json_object (json_object net) content of
        None \<Rightarrow> Inr (fallback_intent ''llm-fallback'' raw)
      | Some obj \<Rightarrow>
          (case dict_get obj ''intent'' PNone of
             PStr n \<Rightarrow> if n \<in> set allowed then reply_intent h obj n raw else Inr (fallback_intent ''llm-fallback'' raw)
           | _ \<Rightarrow> Inr (fallback_intent ''llm-fallback'' raw)))"

text \<open>\<open>body["choices"][0]["message"]["content"]\<close>, or the text of the exception it raises.\<close>

definition err_text :: "'a res \<Rightarrow> string + 'a" where
  "err_text r = (case r of Inl e \<Rightarrow> Inl (exn_str e) | Inr x \<Rightarrow> Inr x)"

definition first_choice :: "pyval \<Rightarrow> string + pyval" where
  "first_choice cs =
     (case cs of
        PList (c # _) \<Rightarrow> Inr c
      | PList [] \<Rightarrow> Inl ''list index out of range''
      | PStr (c # _) \<Rightarrow> Inr (PStr [c])
      | PStr [] \<Rightarrow> Inl ''string index out of range''
      | PDict _ \<Rightarrow> Inl ''0''
      | _ \<Rightarrow> Inl (repr_str (py_type_name cs) @ '' object is not subscriptable''))"

definition reply_content :: "pyval \<Rightarrow> string + pyval" where
  "reply_content body =
     (case err_text (val_item body ''choices'') of
        Inl m \<Rightarrow> Inl m
      | Inr cs \<Rightarrow>
          (case first_choice cs of
             Inl m \<Rightarrow> Inl m
           | Inr c \<Rightarrow> err_text (and_then (val_item c ''message'') (\<lambda>m. val_item m ''content''))))"

definition generate :: "host \<Rightarrow> network \<Rightarrow> provider \<Rightarrow> string \<Rightarrow> string list \<Rightarrow> structured_intent res" where
  "generate h net p text allowed =
     (case p of
        OfflineProvider \<Rightarrow> Inr (fallback_intent ''offline'' text)
      | DisabledProvider \<Rightarrow> Inl (ProviderError ''language model disabled'')
      | OpenAICompatibleProvider q \<Rightarrow>
          (case http_base q of
             None \<Rightarrow> Inl (ProviderError (''endpoint '' @ repr_str (hp_endpoint q) @ '' not reachable in reference build''))
           | Some base \<Rightarrow>
               (case (case chat net base (api_key net q) (hp_model q) text allowed of
                        Inl e \<Rightarrow> Inl (exn_str e) | Inr body \<Rightarrow> reply_content body) of
                  Inl m \<Rightarrow> Inl (ProviderError (hp_name q @ '' request failed: '' @ m))
                | Inr (PStr content) \<Rightarrow> parse_intent h net content text allowed
                | Inr v \<Rightarrow> Inl (AttributeError (repr_str (py_type_name v) @ '' object has no attribute '' @ repr_str ''find'')))))"

section \<open>The chain\<close>

definition build_http :: "host \<Rightarrow> network \<Rightarrow> string \<Rightarrow> pydict \<Rightarrow> provider res" where
  "build_http h net name spec =
     and_then (to_float h (dict_get spec ''timeout'' (PFloat 3))) (\<lambda>t.
       Inr (OpenAICompatibleProvider
         \<lparr>hp_name = name, hp_endpoint = py_str (net_float_repr net) (dict_get spec ''endpoint'' (PStr [])),
          hp_model = py_str (net_float_repr net) (dict_get spec ''model'' (PStr ''default'')),
          hp_api_key_ref = dict_get spec ''api_key_ref'' PNone, hp_timeout = t\<rparr>))"

definition build_provider :: "host \<Rightarrow> network \<Rightarrow> string \<Rightarrow> pydict \<Rightarrow> provider res" where
  "build_provider h net name spec =
     (let ptype = dict_get spec ''type'' (PStr ''offline'') in
      if ptype = PStr ''offline'' then Inr OfflineProvider
      else if ptype = PStr ''disabled'' then Inr DisabledProvider
      else if ptype \<in> {PStr ''llama_cpp'', PStr ''compatible_http''} then build_http h net name spec
      else Inr OfflineProvider)"

definition ProviderChain :: "provider list \<Rightarrow> provider list" where
  "ProviderChain ps = (if OfflineProvider \<in> set ps then ps else ps @ [OfflineProvider])"

fun active_provider :: "network \<Rightarrow> provider list \<Rightarrow> provider" where
  "active_provider net [] = OfflineProvider"
| "active_provider net (p # ps) = (if available net p then p else active_provider net ps)"

fun chain_generate :: "host \<Rightarrow> network \<Rightarrow> provider list \<Rightarrow> string \<Rightarrow> string list \<Rightarrow> structured_intent res" where
  "chain_generate h net [] text allowed = Inr (fallback_intent ''offline'' text)"
| "chain_generate h net (p # ps) text allowed =
     (if \<not> available net p then chain_generate h net ps text allowed
      else case generate h net p text allowed of
        Inl (ProviderError _) \<Rightarrow> chain_generate h net ps text allowed
      | r \<Rightarrow> r)"

definition degraded :: "network \<Rightarrow> provider list \<Rightarrow> bool" where
  "degraded net ps = (active_provider net ps = OfflineProvider \<and> length ps > 1)"

definition active_provider_name :: "network \<Rightarrow> provider list \<Rightarrow> string" where
  "active_provider_name net ps = provider_name (active_provider net ps)"

definition is_degraded :: "network \<Rightarrow> provider list \<Rightarrow> bool" where
  "is_degraded net ps = degraded net ps"

text \<open>\<open>_build_chain\<close>: the primary and the fallback provider of the configuration, where it describes them.\<close>

fun build_order :: "host \<Rightarrow> network \<Rightarrow> (string \<times> pydict) list \<Rightarrow> string option list \<Rightarrow> provider list res" where
  "build_order h net specs [] = Inr []"
| "build_order h net specs (n # ns) =
     (case n of
        None \<Rightarrow> build_order h net specs ns
      | Some name \<Rightarrow>
          if name = [] then build_order h net specs ns
          else case map_of specs name of
            None \<Rightarrow> build_order h net specs ns
          | Some spec \<Rightarrow> and_then (build_provider h net name spec) (\<lambda>p.
              and_then (build_order h net specs ns) (\<lambda>ps. Inr (p # ps))))"

definition build_chain ::
  "host \<Rightarrow> network \<Rightarrow> (string \<times> pydict) list \<Rightarrow> string option \<Rightarrow> string option \<Rightarrow> provider list res" where
  "build_chain h net specs primary fallback =
     and_then (build_order h net specs [primary, fallback]) (\<lambda>ps. Inr (ProviderChain ps))"

text \<open>The language side of the system with this chain.\<close>

definition language_with :: "personality \<Rightarrow> host \<Rightarrow> network \<Rightarrow> provider list \<Rightarrow> language" where
  "language_with pn h net ps =
     \<lparr>lg_personality = pn,
      proposal = (\<lambda>text. chain_generate h net ps text (map tool_name (map snd (tool_registry None)))),
      chain_active = active_provider_name net ps, chain_degraded = degraded net ps\<rparr>"

section \<open>Facts\<close>

definition registered :: "string \<Rightarrow> bool" where
  "registered n = (n = ''unknown'' \<or> (\<exists>t. get_tool (tool_registry None) n = Some t))"

lemma parse_registered: "registered (i_intent (parse s))"
proof (cases rule: parse_cases [of s])
  case rule
  then obtain t where "t \<in> set default_tools" "tool_name t = i_intent (parse s)" by (auto simp: well_typed_def)
  then show ?thesis using get_default_tool [of t] by (simp add: registered_def)
next
  case unknown
  then show ?thesis by (simp add: registered_def si_def mk_intent_def)
qed

lemma fallback_registered: "registered (i_intent (fallback_intent src s))"
  using parse_registered [of s] by (simp add: fallback_intent_def)

lemma reply_intent_name: "reply_intent h obj n raw = Inr i \<Longrightarrow> i_intent i = n"
  by (auto simp: reply_intent_def Let_def and_then_def split: pyval.splits sum.splits)

lemma parse_intent_registered:
  assumes "parse_intent h net content raw allowed = Inr i" "\<And>n. n \<in> set allowed \<Longrightarrow> registered n"
  shows "registered (i_intent i)"
  using assms fallback_registered reply_intent_name
  by (auto simp: parse_intent_def split: option.splits pyval.splits if_splits)

lemma generate_registered:
  assumes "generate h net p s allowed = Inr i" "\<And>n. n \<in> set allowed \<Longrightarrow> registered n"
  shows "registered (i_intent i)"
proof (cases p)
  case OfflineProvider
  then show ?thesis using assms fallback_registered by (auto simp: generate_def)
next
  case DisabledProvider
  then show ?thesis using assms by (simp add: generate_def)
next
  case (OpenAICompatibleProvider q)
  then obtain content where "parse_intent h net content s allowed = Inr i"
    using assms(1) by (auto simp: generate_def split: option.splits sum.splits pyval.splits)
  then show ?thesis using assms(2) by (rule parse_intent_registered)
qed

lemma chain_registered:
  assumes "chain_generate h net ps s allowed = Inr i" "\<And>n. n \<in> set allowed \<Longrightarrow> registered n"
  shows "registered (i_intent i)"
  using assms(1)
proof (induction ps)
  case Nil
  then show ?case using fallback_registered by auto
next
  case (Cons p ps)
  show ?case
  proof (cases "available net p \<and> generate h net p s allowed = Inr i")
    case True
    then show ?thesis using generate_registered [OF _ assms(2)] by blast
  next
    case False
    then have "chain_generate h net ps s allowed = Inr i"
      using Cons.prems by (auto split: if_splits sum.splits exn.splits)
    then show ?thesis by (rule Cons.IH)
  qed
qed

lemma fallback_offline: "fallback_intent ''offline'' s = parse s"
proof -
  have "i_source (parse s) = ''offline''"
    by (cases rule: parse_cases [of s]) (simp_all add: well_typed_def si_def mk_intent_def)
  then show ?thesis by (simp add: fallback_intent_def)
qed

lemma chain_outage:
  assumes "\<forall>p \<in> set ps. p = OfflineProvider \<or> \<not> available net p \<or> (\<exists>m. generate h net p s allowed = Inl (ProviderError m))"
  shows "chain_generate h net ps s allowed = Inr (parse s)"
  using assms by (induction ps) (auto simp: fallback_offline generate_def available_def)

lemma default_names_registered: "n \<in> set (map tool_name (map snd (tool_registry None))) \<Longrightarrow> registered n"
  using get_default_tool unfolding default_registry registered_def by auto

section \<open>Properties\<close>

text \<open>C27. No reply of a language model invents an action: whatever the servers return, an intent that the
  chain proposes is \<open>unknown\<close>, which the broker rejects, or the name of a registered tool.\<close>

theorem proposals_are_registered:
  assumes "proposal (language_with pn h net ps) s = Inr i"
  shows "(i_intent i = ''unknown'' \<and> dec_outcome (fst (validate (tool_registry None) i u c rt)) = REJECTED)
    \<or> (\<exists>t. get_tool (tool_registry None) (i_intent i) = Some t)"
proof -
  have "registered (i_intent i)"
    using assms default_names_registered by (auto simp: language_with_def intro!: chain_registered)
  moreover have "dec_outcome (fst (validate (tool_registry None) i u c rt)) = REJECTED"
    if "get_tool (tool_registry None) (i_intent i) = None" using that by (simp add: validate_def)
  ultimately show ?thesis
    by (cases "get_tool (tool_registry None) (i_intent i)") (auto simp: registered_def)
qed

definition example_net :: "pydict \<Rightarrow> network" where
  "example_net obj = \<lparr>serves_models = (\<lambda>_ _. True),
     chat = (\<lambda>_ _ _ _ _. Inr (PDict [(''choices'', PList [PDict [(''message'', PDict [(''content'', PStr ''{}'')])]])])),
     credential = (\<lambda>_. None), json_object = (\<lambda>_. Some obj), net_float_repr = (\<lambda>_. [])\<rparr>"

definition example_server :: provider where
  "example_server = OpenAICompatibleProvider \<lparr>hp_name = ''local'', hp_endpoint = ''http://localhost'', hp_model = ''m'',
     hp_api_key_ref = PNone, hp_timeout = 3\<rparr>"

lemma example_reply:
  "chain_generate h (example_net obj) (ProviderChain [example_server]) s allowed
     = (case parse_intent h (example_net obj) ''{}'' s allowed of
          Inl (ProviderError m) \<Rightarrow> Inr (parse s) | r \<Rightarrow> r)"
proof -
  have "available (example_net obj) example_server"
    by (simp add: available_def example_server_def http_base_def startswith_def example_net_def)
  moreover have "generate h (example_net obj) example_server s allowed = parse_intent h (example_net obj) ''{}'' s allowed"
    by (simp add: generate_def example_server_def http_base_def startswith_def example_net_def reply_content_def
        err_text_def val_item_def item_def first_choice_def and_then_def)
  ultimately show ?thesis
    by (simp add: ProviderChain_def example_server_def fallback_offline generate_def available_def
        split: sum.split exn.split)
qed

lemma allowed_names: "map tool_name (map snd (tool_registry None)) = map tool_name default_tools"
  unfolding default_registry by (simp add: comp_def)

lemma help_allowed: "''help'' \<in> set (map tool_name (map snd (tool_registry None)))"
  unfolding allowed_names by (simp add: default_tools_def info_tool_def)

definition example_model :: "pydict \<Rightarrow> language" where
  "example_model obj = language_with \<lparr>pn_profile = [], pn_verbosity = []\<rparr> example_host (example_net obj)
     (ProviderChain [example_server])"

lemma balanced_empty_object: "first_json_object (json_object (example_net obj)) ''{}'' = Some obj"
  by (simp add: example_net_def)

lemma example_model_reply:
  assumes "map_of obj ''intent'' = Some (PStr ''help'')" "reply_intent example_host obj ''help'' s = r"
    "\<forall>m. r \<noteq> Inl (ProviderError m)"
  shows "proposal (example_model obj) s = r"
  using assms help_allowed
  unfolding example_model_def language_with_def example_reply parse_intent_def balanced_empty_object
  by (auto simp: example_reply parse_intent_def balanced_empty_object dict_get_def split: sum.splits exn.splits)

theorem proposals_are_registered_witness:
  "\<exists>t. get_tool (tool_registry None) ''help'' = Some t"
proof -
  have "\<exists>i. proposal (example_model [(''intent'', PStr ''help'')]) ''hi'' = Inr i \<and> i_intent i = ''help''"
    by (subst example_model_reply [OF _ refl]) (simp_all add: reply_intent_def dict_get_def to_float_def and_then_def)
  then obtain i where "proposal (example_model [(''intent'', PStr ''help'')]) ''hi'' = Inr i" "i_intent i = ''help''" by blast
  from proposals_are_registered [OF this(1) [unfolded example_model_def], of example_operator False active_rt] this(2)
  show ?thesis by force
qed

text \<open>C15. The droid stays operable when every model fails: if each provider of the chain is the offline
  one, is unavailable, or fails with a provider error, the proposal is the offline parser's, so the
  request does not raise; and every text that contains ``emergency stop'' then stops the droid, with the
  stop latched, both contactors open and the state EMERGENCY_STOPPED.\<close>

theorem emergency_stop_without_models:
  assumes "\<forall>p \<in> set ps. p = OfflineProvider \<or> \<not> available net p
      \<or> (\<exists>m. generate hc net p s (map tool_name (map snd (tool_registry None))) = Inl (ProviderError m))"
  shows "proposal (language_with pn hc net ps) s = Inr (parse s)
    \<and> (contains ''emergency stop'' (normal_text s) \<and> has_safety rt \<and> has_service rt ''executive'' \<longrightarrow>
        (let rt' = snd (process (language_with pn hc net ps) h s uname c None rt) in
           powers_off rt' \<and> c_estop (ctl rt') \<and> cur_state (rt_state rt') = EMERGENCY_STOPPED
           \<and> latch_file rt' = write_doc (Some \<lparr>latch_estop = True, latch_reason = Some ''voice_or_text_command''\<rparr>) (latch_file rt)))"
proof -
  let ?l = "language_with pn hc net ps"
  have p: "proposal ?l s = Inr (parse s)"
    using chain_outage [OF assms] by (simp add: language_with_def)
  moreover have "let rt' = snd (process ?l h s uname c None rt) in
           powers_off rt' \<and> c_estop (ctl rt') \<and> cur_state (rt_state rt') = EMERGENCY_STOPPED
           \<and> latch_file rt' = write_doc (Some \<lparr>latch_estop = True, latch_reason = Some ''voice_or_text_command''\<rparr>) (latch_file rt)"
    if "contains ''emergency stop'' (normal_text s)" "has_safety rt" "has_service rt ''executive''"
    using process_estop [OF that(2,3) p parse_emergency [OF that(1)], of h uname c] by (simp add: Let_def case_prod_beta)
  ultimately show ?thesis by blast
qed

theorem emergency_stop_without_models_witness:
  "cur_state (rt_state (snd (process (language_with \<lparr>pn_profile = [], pn_verbosity = []\<rparr> example_host (example_net [])
      (ProviderChain [DisabledProvider])) example_host ''Emergency STOP'' None False None active_rt))) = EMERGENCY_STOPPED"
proof -
  have a: "\<forall>p \<in> set (ProviderChain [DisabledProvider]). p = OfflineProvider \<or> \<not> available (example_net []) p
      \<or> (\<exists>m. generate example_host (example_net []) p ''Emergency STOP'' (map tool_name (map snd (tool_registry None)))
               = Inl (ProviderError m))"
    by (simp add: ProviderChain_def available_def)
  have n: "contains ''emergency stop'' (normal_text ''Emergency STOP'')" by code_simp
  show ?thesis
    using emergency_stop_without_models [OF a, of "\<lparr>pn_profile = [], pn_verbosity = []\<rparr>" active_rt example_host None False]
      n active_fields(4) active_has_executive by (simp only: Let_def)
qed

text \<open>With a model the text path trusts it with the emergency stop: a server that is available and
  answers \<open>help\<close> turns the text ``emergency stop'' into a help request, and one that sends a confidence
  that is not a number makes the whole request raise, since only provider errors are caught.\<close>

theorem model_overrides_emergency_stop:
  "(\<exists>i. proposal (example_model [(''intent'', PStr ''help'')]) ''emergency stop'' = Inr i \<and> i_intent i = ''help'')
   \<and> (\<exists>e. proposal (example_model [(''intent'', PStr ''help''), (''confidence'', PList [])]) ''emergency stop'' = Inl e
        \<and> \<not> is_droid_error e)"
proof
  show "\<exists>i. proposal (example_model [(''intent'', PStr ''help'')]) ''emergency stop'' = Inr i \<and> i_intent i = ''help''"
    by (subst example_model_reply [OF _ refl]) (simp_all add: reply_intent_def dict_get_def to_float_def and_then_def)
  show "\<exists>e. proposal (example_model [(''intent'', PStr ''help''), (''confidence'', PList [])]) ''emergency stop'' = Inl e
        \<and> \<not> is_droid_error e"
    by (subst example_model_reply [OF _ refl]) (simp_all add: reply_intent_def dict_get_def to_float_def and_then_def)
qed

end
