(* ===== verification/ReplyText.thy ===== *)
theory ReplyText
  imports JsonRead Providers
begin

text \<open>
  The replies of language models as characters: \<open>_first_json_object\<close> (\<open>language/providers.py\<close>) with \<open>json.loads\<close> in
  place of the parameter of \<open>Providers\<close>. An object that stands in prose is found and read, as long as no string in it
  has a brace, because the braces are counted inside of strings too.
\<close>

definition object_reader :: "(string \<Rightarrow> real option) \<Rightarrow> string \<Rightarrow> pydict option" where
  "object_reader fl t = (case json_loads fl t of Some (PDict m) \<Rightarrow> Some m | _ \<Rightarrow> None)"

definition no_brace :: "string \<Rightarrow> bool" where
  "no_brace s = list_all (\<lambda>c. c \<noteq> CHR ''{'' \<and> c \<noteq> CHR ''}'') s"

fun brace_free :: "pyval \<Rightarrow> bool" where
  "brace_free (PStr s) = no_brace s"
| "brace_free (PList xs) = list_all brace_free xs"
| "brace_free (PDict m) = list_all (\<lambda>(k, v). no_brace k \<and> brace_free v) m"
| "brace_free _ = True"

section \<open>Counting braces\<close>

text \<open>A text that leaves the count of open braces as it was, and never below\<close>

definition neutral :: "string \<Rightarrow> bool" where
  "neutral t = (\<forall>d \<ge> 1. \<forall>r. balanced d (t @ r) = map_option (\<lambda>u. t @ u) (balanced d r))"

lemma neutral_plain: "no_brace t \<Longrightarrow> neutral t"
proof -
  assume "no_brace t"
  then have "balanced d (t @ r) = map_option (\<lambda>u. t @ u) (balanced d r)" for d r
  proof (induction t arbitrary: d)
    case Nil
    show ?case by (cases "balanced d r") simp_all
  next
    case (Cons c t)
    then show ?case by (cases "balanced d r") (simp_all add: no_brace_def)
  qed
  then show ?thesis by (simp add: neutral_def)
qed

lemma neutral_append: "neutral s \<Longrightarrow> neutral t \<Longrightarrow> neutral (s @ t)"
  by (simp add: neutral_def option.map_comp comp_def)

lemma neutral_braces:
  assumes "neutral t"
  shows "neutral (''{'' @ t @ ''}'')" "balanced 0 (CHR ''{'' # t @ CHR ''}'' # r) = Some (CHR ''{'' # t @ ''}'')"
proof -
  have i: "balanced (Suc d) (t @ CHR ''}'' # r) = map_option (\<lambda>u. t @ u) (balanced (Suc d) (CHR ''}'' # r))" for d r
    using assms by (simp add: neutral_def)
  show "neutral (''{'' @ t @ ''}'')" unfolding neutral_def
  proof (intro allI impI)
    fix d :: nat and r
    assume "1 \<le> d"
    then show "balanced d ((''{'' @ t @ ''}'') @ r) = map_option (\<lambda>u. (''{'' @ t @ ''}'') @ u) (balanced d r)"
      using i [of d r] by (simp add: option.map_comp comp_def)
  qed
  show "balanced 0 (CHR ''{'' # t @ CHR ''}'' # r) = Some (CHR ''{'' # t @ ''}'')"
    using i [of 0 r] by simp
qed

lemma neutral_join: "neutral sep \<Longrightarrow> (\<And>x. x \<in> set xs \<Longrightarrow> neutral x) \<Longrightarrow> neutral (join sep xs)"
  by (induction sep xs rule: join.induct) (simp_all add: neutral_append neutral_plain no_brace_def)

lemma json_char_brace: "no_brace [c] \<Longrightarrow> no_brace (json_char c)"
proof -
  assume c: "no_brace [c]"
  have h: "no_brace [hex_digit k]" for k
    using hex_digit_printable [of k] by (auto simp: no_brace_def)
  show ?thesis using c h by (simp add: json_char_def Let_def no_brace_def)
qed

lemma no_brace_append: "no_brace (s @ t) \<longleftrightarrow> no_brace s \<and> no_brace t"
  by (simp add: no_brace_def)

lemma string_brace: "no_brace s \<Longrightarrow> neutral (json_string s)"
proof (rule neutral_plain)
  assume "no_brace s"
  then have "no_brace (concat (map json_char s))"
    using json_char_brace by (induction s) (simp_all add: no_brace_def)
  then show "no_brace (json_string s)" by (simp add: json_string_def no_brace_def)
qed

lemma int_brace: "no_brace (show_int i)"
  unfolding no_brace_def
proof (rule list.pred_mono_strong [OF show_int_number])
  show "c \<noteq> CHR ''{'' \<and> c \<noteq> CHR ''}''" if "number_char c" for c
    using that by (auto simp: number_char_def)
qed

lemma member_neutral: "no_brace k \<Longrightarrow> neutral t \<Longrightarrow> neutral (json_string k @ '': '' @ t)"
  using string_brace neutral_plain [of "'': ''"] by (intro neutral_append) (simp_all add: no_brace_def)

lemma dumps_neutral:
  assumes "\<forall>x. no_brace (fr x)"
  shows "brace_free v \<Longrightarrow> neutral (json_dumps fr v)"
proof (induction v)
  case (PList xs)
  have "neutral (join '', '' (map (json_dumps fr) xs))"
    using PList neutral_plain [of "'', ''"] by (intro neutral_join) (auto simp: list_all_iff no_brace_def)
  then show ?case using neutral_append [OF neutral_plain neutral_append [OF _ neutral_plain], of "''[''" _ "'']''"]
    by (simp add: no_brace_def)
next
  case (PDict m)
  have "neutral (join '', '' (map (\<lambda>(k, v). json_string k @ '': '' @ json_dumps fr v) m))"
    using PDict neutral_plain [of "'', ''"] member_neutral by (intro neutral_join) (fastforce simp: list_all_iff no_brace_def)+
  then show ?case using neutral_braces(1) by simp
next
  case (PStr s)
  then show ?case using string_brace by simp
next
  case (PInt i)
  then show ?case using neutral_plain int_brace by simp
next
  case (PFloat x)
  then show ?case using neutral_plain assms by simp
next
  case PNone
  then show ?case by (simp add: neutral_plain no_brace_def)
next
  case (PBool b)
  then show ?case by (simp add: neutral_plain no_brace_def)
qed

section \<open>Objects in prose\<close>

lemma skip_prose: "CHR ''{'' \<notin> set prose \<Longrightarrow> first_json_object loads (prose @ s) = first_json_object loads s"
proof (induction prose)
  case (Cons c cs)
  then have "c \<noteq> CHR ''{''" by auto
  then show ?case using Cons by simp
qed simp

text \<open>An object without braces in its strings is found behind any prose without an opening brace, whatever follows it.\<close>

lemma object_found:
  assumes "float_reads fr fl F" "\<forall>x. no_brace (fr x)" "floats_in F (PDict m)" "py_keys (PDict m)" "brace_free (PDict m)"
    "CHR ''{'' \<notin> set prose"
  shows "first_json_object (object_reader fl) (prose @ json_dumps fr (PDict m) @ rest) = Some m"
proof -
  let ?t = "join '', '' (map (\<lambda>(k, v). json_string k @ '': '' @ json_dumps fr v) m)"
  have "neutral ?t"
    using assms(5) dumps_neutral [OF assms(2)] neutral_plain [of "'', ''"] member_neutral
    by (intro neutral_join) (fastforce simp: list_all_iff no_brace_def)+
  from neutral_braces(2) [OF this, of rest]
  have "balanced 0 (CHR ''{'' # ?t @ CHR ''}'' # rest) = Some (json_dumps fr (PDict m))" by simp
  moreover have "object_reader fl (json_dumps fr (PDict m)) = Some m"
    using loads_dumps(1) [OF assms(1,3,4)] by (simp add: object_reader_def del: json_dumps.simps)
  ultimately show ?thesis unfolding skip_prose [OF assms(6)] by simp
qed

text \<open>A brace in a string defeats the search.\<close>

lemma brace_in_string_not_found:
  "first_json_object (object_reader fl) [CHR ''{'', CHR 0x22, CHR ''a'', CHR 0x22, CHR '':'', CHR 0x22, CHR ''}'', CHR 0x22, CHR ''}''] = None"
  by (simp add: object_reader_def json_loads_def numeral_2_eq_2 skip_ws_def json_space_def startswith_def)

text \<open>The intent of a reply that proposes a registered tool in this form is taken from it.\<close>

lemma proposal_read:
  assumes "float_reads fr fl F" "\<forall>x. no_brace (fr x)" "floats_in F (PDict m)" "py_keys (PDict m)" "brace_free (PDict m)"
    "CHR ''{'' \<notin> set prose" "dict_get m ''intent'' PNone = PStr n" "n \<in> set allowed" "json_object net = object_reader fl"
  shows "parse_intent h net (prose @ json_dumps fr (PDict m) @ rest) raw allowed = reply_intent h m n raw"
  unfolding parse_intent_def assms(9) object_found [OF assms(1-6)] using assms(7,8) by simp

text \<open>A confidence that is no number makes the whole request raise, although the rules could interpret it.\<close>

lemma bad_confidence_raises:
  assumes "dict_get m ''confidence'' (PFloat (9 / 10)) = PStr s" "parse_float h s = None"
    "dict_get m ''arguments'' (PDict []) = PDict []"
    "dict_get m ''requested_speed'' (PStr ''normal'') = PStr sp"
  shows "\<exists>e. reply_intent h m n raw = Inl e \<and> (\<forall>x. e \<noteq> ProviderError x)"
  using assms by (simp add: reply_intent_def to_float_def and_then_def)

end
