(* ===== verification/Config.thy ===== *)
theory Config
  imports MiniYaml
begin

text \<open>
  The configuration of the brain, \<open>core/config.py\<close>: where its files are, the defaults, and the merge of
  \<open>droidos.yaml\<close> over them.

  A \<open>path\<close> is what \<open>pathlib.PurePosixPath\<close> keeps, the root and the components. The host is a parameter:
  environment variables, the tests on the file system, reading a file and creating a directory. The
  directories that were created come back beside the result.
\<close>

section \<open>Paths\<close>

record path =
  root :: string
  comps :: "string list"

fun split_slash :: "string \<Rightarrow> string \<Rightarrow> string list" where
  "split_slash buf [] = [buf]"
| "split_slash buf (c # cs) = (if c = CHR ''/'' then buf # split_slash [] cs else split_slash (buf @ [c]) cs)"

text \<open>\<open>Path(s)\<close>: empty components and single dots vanish; exactly two leading slashes are a root of their own.\<close>

definition path_root :: "string \<Rightarrow> string" where
  "path_root s =
     (let n = length (takeWhile (\<lambda>c. c = CHR ''/'') s) in if n = 0 then [] else if n = 2 then ''//'' else ''/'')"

definition Path :: "string \<Rightarrow> path" where
  "Path s = \<lparr>root = path_root s, comps = filter (\<lambda>c. c \<noteq> [] \<and> c \<noteq> ''.'') (split_slash [] s)\<rparr>"

definition path_str :: "path \<Rightarrow> string" where
  "path_str p = (if root p = [] \<and> comps p = [] then ''.'' else root p @ join ''/'' (comps p))"

text \<open>\<open>p / name\<close> for a name without slashes\<close>

definition path_div :: "path \<Rightarrow> string \<Rightarrow> path" where
  "path_div p name = p\<lparr>comps := comps p @ [name]\<rparr>"

text \<open>\<open>[p, *p.parents]\<close>\<close>

definition self_and_parents :: "path \<Rightarrow> path list" where
  "self_and_parents p = map (\<lambda>n. p\<lparr>comps := take n (comps p)\<rparr>) (rev [0..<Suc (length (comps p))])"

record config_host =
  getenv :: "string \<Rightarrow> string option"
  path_exists :: "path \<Rightarrow> bool"
  is_dir :: "path \<Rightarrow> bool"
  mkdir_error :: "path \<Rightarrow> string option"
  read_text :: "path \<Rightarrow> string res"
  module_file :: path
  cwd :: path

definition find_repo_root :: "config_host \<Rightarrow> path option" where
  "find_repo_root h =
     (case filter (\<lambda>p. path_exists h (path_div p ''pyproject.toml'') \<and> is_dir h (path_div p ''bodies''))
         (self_and_parents (module_file h)) of
        p # _ \<Rightarrow> Some p
      | [] \<Rightarrow>
          (case filter (\<lambda>p. is_dir h (path_div p ''bodies'') \<and> is_dir h (path_div (path_div p ''src'') ''droidos''))
              (self_and_parents (cwd h)) of
             p # _ \<Rightarrow> Some p
           | [] \<Rightarrow> None))"

record paths =
  repo_root :: "path option"
  config_dir :: path
  bodies_dir :: path
  state_dir :: path
  log_dir :: path
  run_dir :: path
  models_dir :: path

text \<open>\<open>os.environ.get(var) or default\<close>\<close>

definition env_or :: "config_host \<Rightarrow> string \<Rightarrow> string \<Rightarrow> string" where
  "env_or h var d = (case getenv h var of Some s \<Rightarrow> if s = [] then d else s | None \<Rightarrow> d)"

definition located :: "config_host \<Rightarrow> string \<Rightarrow> string \<Rightarrow> string \<Rightarrow> path option \<Rightarrow> path" where
  "located h var name production repo =
     Path (env_or h var (case repo of Some r \<Rightarrow> path_str (path_div r name) | None \<Rightarrow> production))"

text \<open>\<open>ensure_writable\<close>, with the directories it created\<close>

fun make_dirs :: "config_host \<Rightarrow> path list \<Rightarrow> unit res \<times> path list" where
  "make_dirs h [] = (Inr (), [])"
| "make_dirs h (p # ps) =
     (case mkdir_error h p of
        Some exc \<Rightarrow> (Inl (ConfigError (''cannot create writable dir '' @ path_str p @ '': '' @ exc)), [])
      | None \<Rightarrow> (case make_dirs h ps of (r, made) \<Rightarrow> (r, p # made)))"

definition ensure_writable :: "config_host \<Rightarrow> paths \<Rightarrow> unit res \<times> path list" where
  "ensure_writable h ps = make_dirs h [state_dir ps, log_dir ps, run_dir ps]"

definition resolve_paths :: "config_host \<Rightarrow> paths res \<times> path list" where
  "resolve_paths h =
     (let repo = find_repo_root h;
          state = located h ''DROIDOS_STATE'' ''run-state'' ''/var/lib/droidos'' repo;
          ps = \<lparr>repo_root = repo,
                config_dir = located h ''DROIDOS_CONFIG'' ''config'' ''/etc/droidos'' repo,
                bodies_dir = located h ''DROIDOS_BODIES'' ''bodies'' ''/usr/lib/droidos/bodies'' repo,
                state_dir = state,
                log_dir = Path (env_or h ''DROIDOS_LOG'' (path_str (path_div state ''log''))),
                run_dir = Path (env_or h ''DROIDOS_RUN'' (path_str (path_div state ''run''))),
                models_dir = located h ''DROIDOS_MODELS'' ''models'' ''/var/lib/droidos/models'' repo\<rparr>
      in case ensure_writable h ps of (r, made) \<Rightarrow> (and_then r (\<lambda>_. Inr ps), made))"

definition system_config_file :: "paths \<Rightarrow> path" where
  "system_config_file ps = path_div (config_dir ps) ''droidos.yaml''"

definition body_select_file :: "paths \<Rightarrow> path" where
  "body_select_file ps = path_div (state_dir ps) ''body.yaml''"

definition default_body_select_file :: "paths \<Rightarrow> path" where
  "default_body_select_file ps = path_div (config_dir ps) ''body.yaml''"

definition memory_file :: "paths \<Rightarrow> path" where
  "memory_file ps = path_div (state_dir ps) ''memory.json''"

definition world_model_file :: "paths \<Rightarrow> path" where
  "world_model_file ps = path_div (state_dir ps) ''world_model.json''"

definition safety_latch_file :: "paths \<Rightarrow> path" where
  "safety_latch_file ps = path_div (state_dir ps) ''safety_latch.json''"

definition audit_log_file :: "paths \<Rightarrow> path" where
  "audit_log_file ps = path_div (log_dir ps) ''audit.jsonl''"

definition users_file :: "paths \<Rightarrow> path" where
  "users_file ps = path_div (config_dir ps) ''users.yaml''"

section \<open>Values\<close>

definition DEFAULT_SYSTEM_CONFIG :: pydict where
  "DEFAULT_SYSTEM_CONFIG =
     [(''identity'', PDict
        [(''name'', PStr ''IG-12''), (''model_family'', PStr ''assassin_droid''), (''voice_profile'', PStr ''mechanical_01''),
         (''personality_profile'', PStr ''dry_literal''), (''verbosity'', PStr ''concise''),
         (''wake_names'', PList [PStr ''IG-12'', PStr ''droid''])]),
      (''language'', PDict
        [(''primary_provider'', PStr ''offline''), (''fallback_provider'', PStr ''offline''),
         (''providers'', PDict
           [(''offline'', PDict [(''type'', PStr ''offline'')]),
            (''local'', PDict [(''type'', PStr ''llama_cpp''), (''endpoint'', PStr ''unix:///run/droidos/llm.sock''),
              (''model'', PStr ''/var/lib/droidos/models/default.gguf'')])])]),
      (''safety'', PDict
        [(''battery_motion_minimum_percent'', PFloat 20), (''motor_warn_temp_c'', PFloat 70), (''motor_fault_temp_c'', PFloat 85)]),
      (''default_user'', PStr ''operator'')]"

function deep_merge :: "pydict \<Rightarrow> pydict \<Rightarrow> pydict" where
  "deep_merge out [] = out"
| "deep_merge out ((key, val) # rest) =
     deep_merge
       (case (map_of out key, val) of
          (Some (PDict b), PDict v) \<Rightarrow> AList.update key (PDict (deep_merge b v)) out
        | _ \<Rightarrow> AList.update key val out) rest"
  by pat_completeness auto
termination
  by (relation "measure (\<lambda>(b, v). size (PDict v))") auto

record config =
  cfg_paths :: paths
  cfg_data :: pydict

definition load_config :: "config_host \<Rightarrow> (string \<Rightarrow> real option) \<Rightarrow> config res \<times> path list" where
  "load_config h pf =
     (case resolve_paths h of
        (Inl e, made) \<Rightarrow> (Inl e, made)
      | (Inr ps, made) \<Rightarrow>
          (if path_exists h (system_config_file ps) then
             and_then (read_text h (system_config_file ps)) (\<lambda>text.
             and_then (the (parse_yaml pf text)) (\<lambda>loaded.
               case (if truthy loaded then loaded else PDict []) of
                 PDict m \<Rightarrow> Inr \<lparr>cfg_paths = ps, cfg_data = deep_merge DEFAULT_SYSTEM_CONFIG m\<rparr>
               | _ \<Rightarrow> Inl (ConfigError ''droidos.yaml must be a mapping'')))
           else Inr \<lparr>cfg_paths = ps, cfg_data = DEFAULT_SYSTEM_CONFIG\<rparr>, made))"

fun walk :: "pyval \<Rightarrow> string list \<Rightarrow> pyval option" where
  "walk node [] = Some node"
| "walk node (key # keys) =
     (case node of PDict m \<Rightarrow> (case map_of m key of Some v \<Rightarrow> walk v keys | None \<Rightarrow> None) | _ \<Rightarrow> None)"

definition config_get :: "config \<Rightarrow> string list \<Rightarrow> pyval \<Rightarrow> pyval" where
  "config_get c keys d = (case walk (PDict (cfg_data c)) keys of Some v \<Rightarrow> v | None \<Rightarrow> d)"

definition section_of :: "string \<Rightarrow> config \<Rightarrow> pyval" where
  "section_of name c = dict_get (cfg_data c) name (PDict [])"

definition cfg_identity :: "config \<Rightarrow> pyval" where
  "cfg_identity c = section_of ''identity'' c"

definition cfg_language :: "config \<Rightarrow> pyval" where
  "cfg_language c = section_of ''language'' c"

definition cfg_safety :: "config \<Rightarrow> pyval" where
  "cfg_safety c = section_of ''safety'' c"


section \<open>Facts about the merge\<close>

text \<open>A dictionary has one entry per key, at every level that a walk can reach.\<close>

fun dict_ok :: "pyval \<Rightarrow> bool" where
  "dict_ok (PDict m) = (distinct (map fst m) \<and> (\<forall>kv \<in> set m. dict_ok (snd kv)))"
| "dict_ok _ = True"

fun is_dict :: "pyval \<Rightarrow> bool" where
  "is_dict (PDict _) = True"
| "is_dict _ = False"

definition merged :: "pyval option \<Rightarrow> pyval option \<Rightarrow> pyval option" where
  "merged x y = (case (x, y) of
     (Some (PDict b), Some (PDict v)) \<Rightarrow> Some (PDict (deep_merge b v))
   | (_, Some v) \<Rightarrow> Some v
   | (_, None) \<Rightarrow> x)"

lemma merged_simps [simp]:
  "merged x None = x" "merged None (Some v) = Some v"
  "merged (Some (PDict b)) (Some (PDict o')) = Some (PDict (deep_merge b o'))"
  by (auto simp: merged_def split: option.splits pyval.splits)

lemma merged_value [simp]: "\<not> is_dict v \<Longrightarrow> merged x (Some v) = Some v"
  by (cases v) (auto simp: merged_def split: option.splits pyval.splits)

lemma merged_over_value [simp]: "\<not> is_dict u \<Longrightarrow> merged (Some u) (Some v) = Some v"
  by (cases u) (auto simp: merged_def)

lemma map_of_deep_merge:
  "distinct (map fst ov) \<Longrightarrow> map_of (deep_merge out ov) k = merged (map_of out k) (map_of ov k)"
proof (induction ov arbitrary: out)
  case (Cons kv ov)
  obtain key v where kv: "kv = (key, v)" by fastforce
  have "map_of (case (map_of out key, v) of (Some (PDict b), PDict v') \<Rightarrow> AList.update key (PDict (deep_merge b v')) out
      | _ \<Rightarrow> AList.update key v out) k = (if k = key then merged (map_of out k) (Some v) else map_of out k)"
    by (auto simp: merged_def update_conv split: option.splits pyval.splits)
  moreover have "map_of ov key = None" using Cons.prems by (auto simp: kv map_of_eq_None_iff)
  ultimately show ?case using Cons by (auto simp: kv)
qed simp

text \<open>The override says nothing about a path when some key on the way is missing in it.\<close>

fun silent :: "pyval \<Rightarrow> string list \<Rightarrow> bool" where
  "silent (PDict m) (key # keys) = (case map_of m key of None \<Rightarrow> True | Some v \<Rightarrow> silent v keys)"
| "silent _ _ = False"

lemma dict_ok_entry: "dict_ok (PDict m) \<Longrightarrow> map_of m k = Some v \<Longrightarrow> dict_ok v"
  by (auto dest!: map_of_SomeD)

lemma walk_override:
  "dict_ok (PDict ov) \<Longrightarrow> walk (PDict ov) keys = Some v \<Longrightarrow> \<not> is_dict v \<Longrightarrow> walk (PDict (deep_merge b ov)) keys = Some v"
proof (induction keys arbitrary: b ov)
  case (Cons key keys)
  then obtain u where u: "map_of ov key = Some u" "walk u keys = Some v" by (auto split: option.splits)
  show ?case
  proof (cases "is_dict u")
    case True
    then obtain o' where o: "u = PDict o'" by (cases u) auto
    have ok: "dict_ok (PDict o')" using dict_ok_entry [OF Cons.prems(1) u(1)] o by simp
    show ?thesis
    proof (cases "\<exists>b'. map_of b key = Some (PDict b')")
      case True
      then show ?thesis
        using Cons.IH [OF ok] u Cons.prems by (auto simp: map_of_deep_merge o)
    next
      case False
      then have "merged (map_of b key) (Some u) = Some u" by (cases "map_of b key"; cases "the (map_of b key)") (auto simp: o)
      then show ?thesis using u Cons.prems by (simp add: map_of_deep_merge)
    qed
  next
    case False
    then show ?thesis using u Cons.prems by (simp add: map_of_deep_merge)
  qed
qed auto

lemma walk_default:
  "dict_ok (PDict ov) \<Longrightarrow> silent (PDict ov) keys \<Longrightarrow> walk (PDict b) keys = Some v \<Longrightarrow> walk (PDict (deep_merge b ov)) keys = Some v"
proof (induction keys arbitrary: b ov)
  case (Cons key keys)
  then obtain w where w: "map_of b key = Some w" "walk w keys = Some v" by (auto split: option.splits)
  show ?case
  proof (cases "map_of ov key")
    case (Some u)
    have s: "silent u keys" using Cons.prems(2) Some by simp
    then obtain o' where o: "u = PDict o'" by (cases u; cases keys) auto
    have ok: "dict_ok (PDict o')" using dict_ok_entry [OF Cons.prems(1) Some] o by simp
    have "\<exists>b'. w = PDict b'" using w(2) s o by (cases keys; cases w) auto
    then show ?thesis using Cons.IH [OF ok] s w Some Cons.prems(1) by (auto simp: map_of_deep_merge o)
  qed (use w Cons.prems in \<open>simp add: map_of_deep_merge\<close>)
qed simp


section \<open>What the parser delivers\<close>

lemma dict_ok_update: "dict_ok (PDict m) \<Longrightarrow> dict_ok v \<Longrightarrow> dict_ok (PDict (AList.update k v m))"
proof -
  have "kv \<in> set (AList.update k v m) \<Longrightarrow> kv = (k, v) \<or> kv \<in> set m" for kv
    by (induction m) (auto split: if_splits)
  then show "dict_ok (PDict m) \<Longrightarrow> dict_ok v \<Longrightarrow> dict_ok (PDict (AList.update k v m))"
    using distinct_update [of m k v] by fastforce
qed

lemma scalar_dict_ok: "dict_ok (scalar pf s)"
  by (subst scalar.simps) (simp add: Let_def split: option.splits)

lemma parsers_dict_ok:
  "(\<forall>ls ind v rest. parse_block pf n ls ind = Some (Inr (v, rest)) \<longrightarrow> dict_ok v)
   \<and> (\<forall>ls ind acc v rest. parse_map pf n ls ind acc = Some (Inr (v, rest)) \<longrightarrow> dict_ok (PDict acc) \<longrightarrow> dict_ok v)
   \<and> (\<forall>ls ind xs v rest. parse_list pf n ls ind xs = Some (Inr (v, rest)) \<longrightarrow> dict_ok v)"
proof (induction n)
  case (Suc n)
  note bp = Suc [THEN conjunct1, rule_format] and mp = Suc [THEN conjunct2, THEN conjunct1, rule_format]
    and lp = Suc [THEN conjunct2, THEN conjunct2, rule_format]
  have l: "dict_ok v" if "list_step pf (parse_map pf n) (parse_list pf n) ls ind xs = Some (Inr (v, rest))" for ls ind xs v rest
    using that
    by (auto simp: list_step_def yfail_def ythen_def Let_def split: list.splits if_splits option.splits sum.splits dest: lp)
  have m: "dict_ok v" if "map_step pf (parse_block pf n) (parse_map pf n) ls ind acc = Some (Inr (v, rest))" "dict_ok (PDict acc)"
    for ls ind acc v rest
    using that
    by (auto simp: map_step_def yfail_def ythen_def Let_def split: list.splits if_splits option.splits sum.splits prod.splits
        simp del: dict_ok.simps(1) dest!: mp intro!: dict_ok_update scalar_dict_ok dest: bp)
  have "dict_ok (PDict [])" by simp
  then have b: "dict_ok v" if "block_step (parse_map pf n) (parse_list pf n) ls ind = Some (Inr (v, rest))" for ls ind v rest
    using that mp lp by (auto simp: block_step_def simp del: dict_ok.simps(1) split: if_splits)
  show ?case using b l m by (simp del: dict_ok.simps(1))
qed simp

lemma parse_yaml_dict_ok: "parse_yaml pf s = Some (Inr v) \<Longrightarrow> dict_ok v"
  by (auto simp: parse_yaml_def Let_def split: if_splits option.splits sum.splits list.splits
      dest: parsers_dict_ok [THEN conjunct1, rule_format])

section \<open>Properties\<close>

text \<open>C28. A configuration file overrides exactly what it says: when the file parses to a mapping, loading succeeds
  if the directories can be made; every plain value in the file is what the configuration then returns
  for its keys, and keys that the file is silent about keep their default, however deeply they are nested.\<close>

theorem file_overrides_defaults:
  assumes "resolve_paths h = (Inr ps, made)" "path_exists h (system_config_file ps)" "read_text h (system_config_file ps) = Inr s"
    "parse_yaml pf s = Some (Inr (PDict m))"
  shows "\<exists>c. load_config h pf = (Inr c, made)
    \<and> (\<forall>keys v. walk (PDict m) keys = Some v \<and> \<not> is_dict v \<longrightarrow> config_get c keys d = v)
    \<and> (\<forall>keys v. silent (PDict m) keys \<and> walk (PDict DEFAULT_SYSTEM_CONFIG) keys = Some v \<longrightarrow> config_get c keys d = v)"
proof -
  let ?c = "\<lparr>cfg_paths = ps, cfg_data = deep_merge DEFAULT_SYSTEM_CONFIG m\<rparr>"
  have "load_config h pf = (Inr ?c, made)" using assms by (cases m) (simp_all add: load_config_def)
  moreover have ok: "dict_ok (PDict m)" by (rule parse_yaml_dict_ok [OF assms(4)])
  moreover have "config_get ?c keys d = v" if "walk (PDict m) keys = Some v" "\<not> is_dict v" for keys v
    using walk_override [OF ok that] by (simp add: config_get_def)
  moreover have "config_get ?c keys d = v" if "silent (PDict m) keys" "walk (PDict DEFAULT_SYSTEM_CONFIG) keys = Some v" for keys v
    using walk_default [OF ok that] by (simp add: config_get_def)
  ultimately show ?thesis by blast
qed

definition example_config_host :: "string \<Rightarrow> config_host" where
  "example_config_host s = \<lparr>getenv = (\<lambda>_. None), path_exists = (\<lambda>p. comps p = [''etc'', ''droidos'', ''droidos.yaml'']),
     is_dir = (\<lambda>_. False), mkdir_error = (\<lambda>_. None), read_text = (\<lambda>_. Inr s),
     module_file = Path ''/usr/lib/droidos/config.py'', cwd = Path ''/''\<rparr>"

definition example_yaml :: string where
  "example_yaml = join [CHR 0x0A] [''identity:'', ''  name: R2'']"

lemma example_parsed: "parse_yaml (\<lambda>_. None) example_yaml = Some (Inr (PDict [(''identity'', PDict [(''name'', PStr ''R2'')])]))"
proof -
  have l: "clean_lines example_yaml = [(0, ''identity:''), (2, ''name: R2'')]"
    and f: "yaml_fuel [(0, ''identity:''), (2, ''name: R2'')] = 40" by code_simp+
  have "(40::nat) = Suc (Suc (Suc (Suc (Suc (Suc 34)))))" by simp
  then obtain n where e: "(40::nat) = Suc (Suc (Suc (Suc (Suc (Suc n)))))" by blast
  have k: "key_of ''identity:'' = ''identity''" "rest_of ''identity:'' = []" "key_of ''name: R2'' = ''name''" "rest_of ''name: R2'' = ''R2''"
    "block_scalar_kind [] = None" "block_scalar_kind ''R2'' = None" "scalar (\<lambda>_. None) ''R2'' = PStr ''R2''"
    "\<not> startswith ''- '' ''identity:''" "\<not> startswith ''- '' ''name: R2''" by code_simp+
  show ?thesis
    unfolding parse_yaml_def l f Let_def e by (simp add: block_step_def map_step_def k ythen_def)
qed

lemma example_resolve: "\<exists>ps made. resolve_paths (example_config_host s) = (Inr ps, made) \<and> config_dir ps = Path ''/etc/droidos''"
proof -
  have "find_repo_root (example_config_host s) = None"
    by (simp add: find_repo_root_def example_config_host_def filter_empty_conv path_div_def self_and_parents_def Path_def)
  then show ?thesis
    by (simp add: resolve_paths_def ensure_writable_def located_def env_or_def example_config_host_def Let_def)
qed

theorem file_overrides_defaults_witness:
  "\<exists>c made. load_config (example_config_host example_yaml) (\<lambda>_. None) = (Inr c, made)
    \<and> config_get c [''identity'', ''name''] PNone = PStr ''R2'' \<and> config_get c [''identity'', ''verbosity''] PNone = PStr ''concise''"
proof -
  obtain ps made where r: "resolve_paths (example_config_host example_yaml) = (Inr ps, made)" "config_dir ps = Path ''/etc/droidos''"
    using example_resolve by blast
  have "comps (Path ''/etc/droidos'') = [''etc'', ''droidos'']" by code_simp
  then have e: "path_exists (example_config_host example_yaml) (system_config_file ps)"
    "read_text (example_config_host example_yaml) (system_config_file ps) = Inr example_yaml"
    by (simp_all add: example_config_host_def system_config_file_def r path_div_def)
  obtain c where c: "load_config (example_config_host example_yaml) (\<lambda>_. None) = (Inr c, made)"
    and v: "\<forall>keys v. walk (PDict [(''identity'', PDict [(''name'', PStr ''R2'')])]) keys = Some v \<and> \<not> is_dict v
      \<longrightarrow> config_get c keys PNone = v"
    and w: "\<forall>keys v. silent (PDict [(''identity'', PDict [(''name'', PStr ''R2'')])]) keys \<and> walk (PDict DEFAULT_SYSTEM_CONFIG) keys = Some v
      \<longrightarrow> config_get c keys PNone = v"
    using file_overrides_defaults [OF r(1) e example_parsed, of PNone] by (elim exE conjE)
  have "config_get c [''identity'', ''name''] PNone = PStr ''R2''"
    using v [THEN spec, THEN spec, of "[''identity'', ''name'']" "PStr ''R2''"] by simp
  moreover have "walk (PDict DEFAULT_SYSTEM_CONFIG) [''identity'', ''verbosity''] = Some (PStr ''concise'')"
    by (simp add: DEFAULT_SYSTEM_CONFIG_def)
  then have "config_get c [''identity'', ''verbosity''] PNone = PStr ''concise''"
    using w [THEN spec, THEN spec, of "[''identity'', ''verbosity'']" "PStr ''concise''"] by simp
  ultimately show ?thesis using c by (intro exI conjI)
qed

text \<open>A file that is not well formed stops the start with an exception of the parser, which is no
  \<open>DroidError\<close>, while a file that is a list or a scalar is reported as a configuration error.\<close>

theorem malformed_file_escapes:
  assumes "resolve_paths h = (Inr ps, made)" "path_exists h (system_config_file ps)" "read_text h (system_config_file ps) = Inr s"
  shows "(parse_yaml pf s = Some (Inl e) \<longrightarrow> load_config h pf = (Inl e, made))
    \<and> (\<forall>v. parse_yaml pf s = Some (Inr v) \<and> truthy v \<and> \<not> is_dict v \<longrightarrow> load_config h pf = (Inl (ConfigError ''droidos.yaml must be a mapping''), made))"
proof (intro conjI impI allI)
  show "load_config h pf = (Inl e, made)" if "parse_yaml pf s = Some (Inl e)"
    using that assms by (simp add: load_config_def and_then_def)
  show "load_config h pf = (Inl (ConfigError ''droidos.yaml must be a mapping''), made)"
    if "parse_yaml pf s = Some (Inr v) \<and> truthy v \<and> \<not> is_dict v" for v
    using that assms by (cases v) (simp_all add: load_config_def)
qed

end
