(* ===== verification/CanFd.thy ===== *)
theory CanFd
  imports Simulation "HOL-Library.Word"
begin

unbundle bit_operations_syntax

text \<open>
  The CAN-FD backend, \<open>backends/canfd_hardware.py\<close>: frames on the bus, decoding of telemetry, battery and
  safety frames, setpoints for the joints, and the backend's methods.

  A bus is the queue of frames that have arrived and the frames that were sent; opening it, and whether
  it accepts a frame, is the driver's (\<open>python-can\<close>) answer, a parameter, as is \<open>struct.pack\<close> of a float.
  A byte is an 8-bit word and a 32-bit float is decoded bit by bit into \<open>pyfloat\<close>, since frames may carry
  NaN and infinities. Draining reads until \<open>recv\<close> has nothing more, that is, the whole queue.
\<close>

section \<open>Frames\<close>

type_synonym byte = "8 word"

record frame =
  arbitration_id :: nat
  data :: "byte list"

definition BASE_CMD_ID :: nat where "BASE_CMD_ID = 0x200"
definition BASE_STATE_ID :: nat where "BASE_STATE_ID = 0x300"
definition BATTERY_STATE_ID :: nat where "BATTERY_STATE_ID = 0x3F0"
definition SAFETY_STATE_ID :: nat where "SAFETY_STATE_ID = 0x010"

lemmas id_defs = BASE_CMD_ID_def BASE_STATE_ID_def BATTERY_STATE_ID_def SAFETY_STATE_ID_def

text \<open>\<open>struct.unpack("<f", bs)\<close>: IEEE 754 single precision, little endian.\<close>

fun le_nat :: "byte list \<Rightarrow> nat" where
  "le_nat [] = 0"
| "le_nat (b # bs) = unat b + 256 * le_nat bs"

definition f32_of_bits :: "nat \<Rightarrow> pyfloat" where
  "f32_of_bits n =
     (let neg = n div 2 ^ 31 mod 2 = 1; e = n div 2 ^ 23 mod 256; m = n mod 2 ^ 23;
          mag = (if e = 0 then real m / 2 ^ 149
                 else if e \<ge> 150 then real (2 ^ 23 + m) * 2 ^ (e - 150) else real (2 ^ 23 + m) / 2 ^ (150 - e))
      in if e = 255 then (if m \<noteq> 0 then NaN else if neg then NegInf else PosInf)
         else Fin (if neg then - mag else mag))"

definition unpack_f :: "byte list \<Rightarrow> nat \<Rightarrow> pyfloat" where
  "unpack_f bs i = f32_of_bits (le_nat (take 4 (drop (4 * i) bs)))"

section \<open>The backend\<close>

record telemetry =
  t_name :: string
  t_position :: pyfloat
  t_velocity :: pyfloat
  t_temperature_c :: pyfloat
  t_current_a :: pyfloat

record can_battery =
  cb_percent :: pyfloat
  cb_voltage :: pyfloat

record bus =
  rx :: "frame list"
  tx :: "frame list"

record driver =
  open_bus :: "string \<Rightarrow> string + bus"
  send_error :: "frame \<Rightarrow> string option"
  pack_f :: "real \<Rightarrow> byte list res"
  has_python_can :: bool

record canfd =
  can_body :: loaded_body
  can_channel :: string
  can_bus :: "bus option"
  can_actuators :: "string list"
  can_telemetry :: "(string \<times> telemetry) list"
  can_battery :: can_battery
  can_pose :: pose
  can_power :: bool
  can_last_recv :: real

definition new_telemetry :: "string \<Rightarrow> telemetry" where
  "new_telemetry n = \<lparr>t_name = n, t_position = Fin 0, t_velocity = Fin 0, t_temperature_c = Fin 25, t_current_a = Fin 0\<rparr>"

definition CanFdBackend :: "loaded_body \<Rightarrow> canfd" where
  "CanFdBackend body =
     (let acts = (if required_actuators (manifest body) = [] then [''drive''] else required_actuators (manifest body)) in
      \<lparr>can_body = body, can_channel = ''can0'', can_bus = None, can_actuators = acts,
       can_telemetry = dict_of (map (\<lambda>n. (n, new_telemetry n)) acts),
       can_battery = \<lparr>cb_percent = Fin 100, cb_voltage = Fin 0\<rparr>,
       can_pose = \<lparr>pose_x = 0, pose_y = 0, pose_theta = 0\<rparr>, can_power = False, can_last_recv = 0\<rparr>)"

text \<open>\<open>{name: i for i, name in enumerate(actuators)}\<close>: the last index of a repeated name\<close>

definition can_index :: "canfd \<Rightarrow> (string \<times> nat) list" where
  "can_index c = dict_of (zip (can_actuators c) [0..<length (can_actuators c)])"

definition decode :: "frame \<Rightarrow> canfd \<Rightarrow> canfd" where
  "decode msg c =
     (let aid = arbitration_id msg; d = data msg in
      if BASE_STATE_ID \<le> aid \<and> aid < BASE_STATE_ID + length (can_actuators c) then
        let name = can_actuators c ! (aid - BASE_STATE_ID) in
        if length d \<ge> 16 then
          c\<lparr>can_telemetry := AList.update name
              \<lparr>t_name = name, t_position = unpack_f d 0, t_velocity = unpack_f d 1, t_temperature_c = unpack_f d 2,
               t_current_a = unpack_f d 3\<rparr> (can_telemetry c)\<rparr>
        else c
      else if aid = BATTERY_STATE_ID \<and> length d \<ge> 8 then
        c\<lparr>can_battery := \<lparr>cb_percent = unpack_f d 0, cb_voltage = unpack_f d 1\<rparr>\<rparr>
      else if aid = SAFETY_STATE_ID \<and> length d \<ge> 1 then c\<lparr>can_power := (hd d AND 1 \<noteq> 0)\<rparr>
      else c)"

definition drain :: "real \<Rightarrow> canfd \<Rightarrow> canfd" where
  "drain t c =
     (case can_bus c of
        None \<Rightarrow> c
      | Some b \<Rightarrow>
          fold (\<lambda>msg c. decode msg (c\<lparr>can_last_recv := t\<rparr>)) (rx b) (c\<lparr>can_bus := Some (b\<lparr>rx := []\<rparr>)\<rparr>))"

definition can_connect :: "driver \<Rightarrow> real \<Rightarrow> canfd \<Rightarrow> unit res \<times> canfd" where
  "can_connect drv t c =
     (if \<not> has_python_can drv
      then (Inl (BackendError (''python-can is required for the CAN-FD backend. ''
             @ ''Install it (`pip install python-can`) or use the simulation backend.'')), c)
      else case open_bus drv (can_channel c) of
        Inl exc \<Rightarrow> (Inl (BackendError (''cannot open CAN-FD bus '' @ can_channel c @ '': '' @ exc)), c)
      | Inr b \<Rightarrow> (Inr (), drain t (c\<lparr>can_bus := Some b, can_power := False\<rparr>)))"

definition can_shutdown :: "canfd \<Rightarrow> canfd" where
  "can_shutdown c = c\<lparr>can_bus := None, can_power := False\<rparr>"

definition can_sensor_ids :: "canfd \<Rightarrow> string list" where
  "can_sensor_ids c = sensor_ids (can_body c)"

definition can_set_power :: "bool \<Rightarrow> canfd \<Rightarrow> canfd" where
  "can_set_power enabled c = c\<lparr>can_power := enabled\<rparr>"

definition not_connected :: exn where
  "not_connected = BackendError ''CAN-FD bus not connected''"

definition can_command_velocity :: "real \<Rightarrow> canfd \<Rightarrow> unit res \<times> canfd" where
  "can_command_velocity t c = (if can_bus c = None then (Inl not_connected, c) else (Inr (), drain t c))"

definition setpoint :: "nat \<Rightarrow> byte list \<Rightarrow> frame" where
  "setpoint idx payload = \<lparr>arbitration_id = BASE_CMD_ID + idx, data = payload\<rparr>"

fun send_targets :: "driver \<Rightarrow> (string \<times> nat) list \<Rightarrow> (string \<times> real) list \<Rightarrow> bus \<Rightarrow> unit res \<times> bus" where
  "send_targets drv index [] b = (Inr (), b)"
| "send_targets drv index ((name, v) # rest) b =
     (case map_of index name of
        None \<Rightarrow> send_targets drv index rest b
      | Some idx \<Rightarrow>
          (case pack_f drv v of
             Inl e \<Rightarrow> (Inl e, b)
           | Inr payload \<Rightarrow>
               (let msg = setpoint idx payload in
                case send_error drv msg of
                  Some exc \<Rightarrow> (Inl (BackendError (''CAN send failed for '' @ name @ '': '' @ exc)), b)
                | None \<Rightarrow> send_targets drv index rest (b\<lparr>tx := tx b @ [msg]\<rparr>))))"

definition can_command_joints :: "driver \<Rightarrow> (string \<times> real) list \<Rightarrow> canfd \<Rightarrow> unit res \<times> canfd" where
  "can_command_joints drv targets c =
     (case can_bus c of
        None \<Rightarrow> (Inl not_connected, c)
      | Some b \<Rightarrow> (case send_targets drv (can_index c) targets b of (r, b') \<Rightarrow> (r, c\<lparr>can_bus := Some b'\<rparr>)))"

definition can_read_actuator :: "string \<Rightarrow> real \<Rightarrow> canfd \<Rightarrow> telemetry \<times> canfd" where
  "can_read_actuator name t c =
     (let c' = drain t c in (dict_get (can_telemetry c') name (new_telemetry name), c'))"

definition can_read_sensor :: "string \<Rightarrow> real \<Rightarrow> canfd \<Rightarrow> sensor_reading" where
  "can_read_sensor sid t c =
     (let ok = t - can_last_recv c < 1 in
      case filter (\<lambda>s. s_id s = sid) (sensors (can_body c)) of
        s # _ \<Rightarrow> \<lparr>sr_sensor_id = sid, sr_type = s_type s, sr_ok = ok, sr_rate_hz = s_rate_hz s, sr_age_s = 0,
                  sr_confidence = 1, sr_values = []\<rparr>
      | [] \<Rightarrow> \<lparr>sr_sensor_id = sid, sr_type = ''unknown'', sr_ok = ok, sr_rate_hz = 0, sr_age_s = 0,
               sr_confidence = 1, sr_values = []\<rparr>)"

definition can_read_battery :: "real \<Rightarrow> canfd \<Rightarrow> can_battery \<times> canfd" where
  "can_read_battery t c = (let c' = drain t c in (canfd.can_battery c', c'))"

definition can_describe_scene :: pydict where
  "can_describe_scene = [(''camera_ok'', PBool True), (''objects'', PList []), (''people'', PList []), (''confidence'', PFloat 0),
     (''note'', PStr ''scene comes from the perception pipeline, not the CAN backend'')]"

definition can_step :: "real \<Rightarrow> canfd \<Rightarrow> canfd" where
  "can_step t c = drain t c"

definition can_actuator_names :: "canfd \<Rightarrow> string list" where
  "can_actuator_names c = can_actuators c"

definition can_power_enabled :: "canfd \<Rightarrow> bool" where
  "can_power_enabled c = can_power c"

text \<open>The pose is set by the constructor and by nothing else.\<close>

definition can_get_pose :: "canfd \<Rightarrow> pose" where
  "can_get_pose c = \<lparr>pose_x = 0, pose_y = 0, pose_theta = 0\<rparr>"

text \<open>What the backend inherits from \<open>HardwareBackend\<close>: no range scan, no faults to inject or to clear\<close>

definition base_lidar_scan :: "'b \<Rightarrow> real list option" where
  "base_lidar_scan b = None"

definition base_inject_fault :: "string \<Rightarrow> string \<Rightarrow> 'b \<Rightarrow> unit res \<times> 'b" where
  "base_inject_fault knd fault b =
     (Inl (NotImplementedError (''backend '' @ knd @ '' does not support fault injection'')), b)"

definition base_clear_faults :: "'b \<Rightarrow> 'b" where
  "base_clear_faults b = b"

text \<open>The contract of every backend on its contactor; the contract of the simulated backends does not hold, because a
  frame may report the contactor closed while the backend steps.\<close>

interpretation can: power_contactor can_shutdown can_set_power can_power_enabled
  by unfold_locales (simp_all add: can_shutdown_def can_set_power_def can_power_enabled_def)


section \<open>Facts\<close>

definition is_safety_frame :: "frame \<Rightarrow> bool" where
  "is_safety_frame f = (arbitration_id f = SAFETY_STATE_ID \<and> data f \<noteq> [])"

definition reported_power :: "frame \<Rightarrow> bool" where
  "reported_power f = bit (hd (data f)) 0"

lemma and_one_bit: "(b AND 1 \<noteq> 0) = bit b 0" for b :: byte
  by (simp add: and_one_eq bit_0 odd_iff_mod_2_eq_one flip: even_iff_mod_2_eq_zero)

lemma decode_keeps [simp]:
  "can_body (decode f c) = can_body c" "can_channel (decode f c) = can_channel c" "can_bus (decode f c) = can_bus c"
  "can_actuators (decode f c) = can_actuators c" "can_pose (decode f c) = can_pose c" "can_last_recv (decode f c) = can_last_recv c"
  by (simp_all add: decode_def Let_def)

lemma decode_power: "can_power (decode f c) = (if is_safety_frame f then reported_power f else can_power c)"
  by (auto simp: decode_def is_safety_frame_def reported_power_def Let_def and_one_bit id_defs Suc_le_eq)

lemma fold_decode_power:
  "can_power (fold (\<lambda>msg c. decode msg (c\<lparr>can_last_recv := t\<rparr>)) fs c)
     = (case rev (filter is_safety_frame fs) of [] \<Rightarrow> can_power c | f # _ \<Rightarrow> reported_power f)"
proof (induction fs arbitrary: c)
  case (Cons f fs)
  then show ?case by (cases "rev (filter is_safety_frame fs)") (simp_all add: decode_power)
qed simp

lemma fold_decode_bus:
  "can_bus (fold (\<lambda>msg c. decode msg (c\<lparr>can_last_recv := t\<rparr>)) fs c) = can_bus c"
  by (induction fs arbitrary: c) simp_all

text \<open>The frames that \<open>command_joints\<close> has to send, up to the first value that cannot be packed.\<close>

definition setpoints :: "driver \<Rightarrow> (string \<times> nat) list \<Rightarrow> (string \<times> real) list \<Rightarrow> frame option list" where
  "setpoints drv index targets =
     concat (map (\<lambda>(name, v). case map_of index name of
        None \<Rightarrow> []
      | Some i \<Rightarrow> [case pack_f drv v of Inl _ \<Rightarrow> None | Inr bs \<Rightarrow> Some (setpoint i bs)]) targets)"

definition accepted :: "driver \<Rightarrow> frame option \<Rightarrow> bool" where
  "accepted drv f = (case f of None \<Rightarrow> False | Some m \<Rightarrow> send_error drv m = None)"

lemma send_targets_prefix:
  "send_targets drv index targets b =
     (fst (send_targets drv index targets b),
      b\<lparr>tx := tx b @ map the (takeWhile (accepted drv) (setpoints drv index targets))\<rparr>)
   \<and> (fst (send_targets drv index targets b) = Inr () \<longleftrightarrow> list_all (accepted drv) (setpoints drv index targets))"
proof (induction targets arbitrary: b)
  case Nil
  then show ?case by (simp add: setpoints_def)
next
  case (Cons nv targets)
  obtain name v where nv: "nv = (name, v)" by fastforce
  show ?case
  proof (cases "map_of index name")
    case None
    then show ?thesis using Cons [of b] by (simp add: nv setpoints_def)
  next
    case (Some i)
    show ?thesis
    proof (cases "pack_f drv v")
      case (Inr bs)
      show ?thesis
      proof (cases "send_error drv (setpoint i bs)")
        case None
        then show ?thesis
          using Cons [of "b\<lparr>tx := tx b @ [setpoint i bs]\<rparr>"] by (simp add: nv Some Inr setpoints_def accepted_def Let_def)
      qed (simp add: nv Some Inr setpoints_def accepted_def Let_def)
    qed (simp add: nv Some setpoints_def accepted_def)
  qed
qed

lemma setpoints_ids:
  "Some m \<in> set (setpoints drv index targets) \<Longrightarrow> \<exists>n k bs. map_of index n = Some k \<and> m = setpoint k bs"
proof (induction targets)
  case (Cons nv targets)
  then show ?case
    by (cases nv; cases "map_of index (fst nv)"; cases "pack_f drv (snd nv)") (force simp: setpoints_def)+
qed (simp add: setpoints_def)

lemma map_of_dict_of_zip: "map_of (dict_of (zip xs is)) n = Some i \<Longrightarrow> i \<in> set is"
proof -
  have "map_of (fold (\<lambda>(k, v) d. AList.update k v d) kvs d) n = Some i \<Longrightarrow> i \<in> snd ` set kvs \<or> map_of d n = Some i" for kvs d
    by (induction kvs arbitrary: d) (fastforce simp: update_conv split: if_splits)+
  then show "map_of (dict_of (zip xs is)) n = Some i \<Longrightarrow> i \<in> set is"
    unfolding dict_of_def by (fastforce dest: set_zip_rightD)
qed

section \<open>Properties\<close>

text \<open>C29. The backend knows the contactor from the safety controller's own frames: after the bus was drained, power
  is what the last well-formed safety frame reported, whatever other frames arrived around it, and without
  such a frame it is unchanged; connecting starts from power off.\<close>

theorem power_follows_safety_frames:
  "(\<forall>b. can_bus c = Some b \<longrightarrow>
      can_power (drain t c) = (case rev (filter is_safety_frame (rx b)) of [] \<Rightarrow> can_power c | f # _ \<Rightarrow> reported_power f)
      \<and> can_bus (drain t c) = Some (b\<lparr>rx := []\<rparr>))
   \<and> (\<forall>c'. can_connect drv t c = (Inr (), c') \<longrightarrow>
      (\<exists>b. open_bus drv (can_channel c) = Inr b
        \<and> (can_power c' \<longrightarrow> (\<exists>f \<in> set (rx b). is_safety_frame f \<and> reported_power f))))"
proof (intro conjI allI impI)
  fix b
  assume "can_bus c = Some b"
  then show "can_power (drain t c) = (case rev (filter is_safety_frame (rx b)) of [] \<Rightarrow> can_power c | f # _ \<Rightarrow> reported_power f)"
    "can_bus (drain t c) = Some (b\<lparr>rx := []\<rparr>)"
    by (simp_all add: drain_def fold_decode_power fold_decode_bus split: list.splits)
next
  fix c'
  assume a: "can_connect drv t c = (Inr (), c')"
  then obtain b where b: "open_bus drv (can_channel c) = Inr b" "c' = drain t (c\<lparr>can_bus := Some b, can_power := False\<rparr>)"
    by (auto simp: can_connect_def split: if_splits sum.splits)
  have "\<exists>f \<in> set (rx b). is_safety_frame f \<and> reported_power f" if "can_power c'"
  proof (cases "rev (filter is_safety_frame (rx b))")
    case (Cons f fs)
    then have "f \<in> set (filter is_safety_frame (rx b))" by (metis list.set_intros(1) set_rev)
    then show ?thesis using that Cons by (auto simp: b(2) drain_def fold_decode_power)
  qed (use that in \<open>simp add: b(2) drain_def fold_decode_power\<close>)
  then show "\<exists>b. open_bus drv (can_channel c) = Inr b
      \<and> (can_power c' \<longrightarrow> (\<exists>f \<in> set (rx b). is_safety_frame f \<and> reported_power f))"
    using b(1) by blast
qed

definition example_can :: "canfd" where
  "example_can = CanFdBackend example_body"

theorem power_follows_safety_frames_witness:
  "can_power (drain 0 (example_can\<lparr>can_bus := Some \<lparr>rx = [\<lparr>arbitration_id = SAFETY_STATE_ID, data = [1]\<rparr>], tx = []\<rparr>\<rparr>))"
proof -
  let ?b = "\<lparr>rx = [\<lparr>arbitration_id = SAFETY_STATE_ID, data = [1 :: byte]\<rparr>], tx = []\<rparr>"
  have "can_bus (example_can\<lparr>can_bus := Some ?b\<rparr>) = Some ?b" by simp
  with power_follows_safety_frames [of "example_can\<lparr>can_bus := Some ?b\<rparr>" 0] show ?thesis
    by (auto simp: is_safety_frame_def reported_power_def)
qed

text \<open>Frames are told apart by their identifiers as long as a body has at most 240 actuators: a battery frame
  then sets the battery alone, a full telemetry frame the one actuator with its index alone, and setpoints use
  identifiers that no telemetry frame has.\<close>

theorem frames_do_not_collide:
  assumes "length (can_actuators c) \<le> 240"
  shows "(arbitration_id f = BATTERY_STATE_ID \<and> length (data f) \<ge> 8 \<longrightarrow>
      decode f c = c\<lparr>can_battery := \<lparr>cb_percent = unpack_f (data f) 0, cb_voltage = unpack_f (data f) 1\<rparr>\<rparr>)
    \<and> (i < length (can_actuators c) \<and> arbitration_id f = BASE_STATE_ID + i \<and> length (data f) \<ge> 16 \<longrightarrow>
      decode f c = c\<lparr>can_telemetry := AList.update (can_actuators c ! i)
        \<lparr>t_name = can_actuators c ! i, t_position = unpack_f (data f) 0, t_velocity = unpack_f (data f) 1,
         t_temperature_c = unpack_f (data f) 2, t_current_a = unpack_f (data f) 3\<rparr> (can_telemetry c)\<rparr>)
    \<and> (Some m \<in> set (setpoints drv (can_index c) targets) \<longrightarrow>
      BASE_CMD_ID \<le> arbitration_id m \<and> arbitration_id m < BASE_STATE_ID)"
proof (intro conjI impI)
  assume "Some m \<in> set (setpoints drv (can_index c) targets)"
  then obtain n k bs where "map_of (can_index c) n = Some k" "m = setpoint k bs"
    using setpoints_ids by blast
  then have "k < length (can_actuators c)" "m = setpoint k bs" unfolding can_index_def by (auto dest: map_of_dict_of_zip)
  then show "BASE_CMD_ID \<le> arbitration_id m" "arbitration_id m < BASE_STATE_ID"
    using assms by (auto simp: setpoint_def id_defs)
qed (use assms in \<open>auto simp: decode_def id_defs Let_def\<close>)

theorem frames_do_not_collide_witness:
  "canfd.can_battery (decode \<lparr>arbitration_id = BATTERY_STATE_ID, data = [0, 0, 0xC8, 0x42, 0, 0, 0, 0]\<rparr> example_can)
     = \<lparr>cb_percent = Fin 100, cb_voltage = Fin 0\<rparr>"
proof -
  let ?f = "\<lparr>arbitration_id = BATTERY_STATE_ID, data = [0, 0, 0xC8, 0x42, 0, 0, 0, 0 :: byte]\<rparr>"
  have "length (can_actuators example_can) \<le> 240" by (simp add: example_can_def CanFdBackend_def example_body_def example_manifest_def Let_def)
  then have "decode ?f example_can = example_can\<lparr>can_battery := \<lparr>cb_percent = unpack_f (data ?f) 0, cb_voltage = unpack_f (data ?f) 1\<rparr>\<rparr>"
    using frames_do_not_collide [of example_can ?f] by simp
  then show ?thesis by (simp add: unpack_f_def f32_of_bits_def Let_def)
qed

text \<open>Setpoints are sent one per known joint in the order of the targets; the first one that cannot be packed or
  sent stops the command, what was sent before stays sent, and only a command whose setpoints were all sent
  returns. The contactor is not looked at: the same frames go out with motor power off.\<close>

theorem setpoints_ignore_power:
  assumes "can_bus c = Some b"
  shows "(\<exists>r. can_command_joints drv targets c =
      (r, c\<lparr>can_bus := Some (b\<lparr>tx := tx b @ map the (takeWhile (accepted drv) (setpoints drv (can_index c) targets))\<rparr>)\<rparr>)
      \<and> (r = Inr () \<longleftrightarrow> list_all (accepted drv) (setpoints drv (can_index c) targets)))
    \<and> can_bus (snd (can_command_joints drv targets (can_set_power False c))) = can_bus (snd (can_command_joints drv targets c))"
proof -
  note p = send_targets_prefix [of drv "can_index c" targets b]
  have "snd (send_targets drv (can_index c) targets b)
      = b\<lparr>tx := tx b @ map the (takeWhile (accepted drv) (setpoints drv (can_index c) targets))\<rparr>"
    by (subst p [THEN conjunct1]) simp
  moreover have "can_index (can_set_power False c) = can_index c" by (simp add: can_index_def can_set_power_def)
  ultimately show ?thesis
    using p [THEN conjunct2] assms by (simp add: can_command_joints_def can_set_power_def case_prod_beta)
qed

definition example_driver :: driver where
  "example_driver = \<lparr>open_bus = (\<lambda>_. Inr \<lparr>rx = [\<lparr>arbitration_id = SAFETY_STATE_ID, data = [1]\<rparr>], tx = []\<rparr>), send_error = (\<lambda>_. None),
     pack_f = (\<lambda>_. Inr [0, 0, 0, 0]), has_python_can = True\<rparr>"

theorem setpoints_ignore_power_witness:
  "\<exists>b r c'. can_command_joints example_driver [(''drive_left'', 1)] (example_can\<lparr>can_bus := Some b\<rparr>) = (r, c')"
proof -
  let ?c = "example_can\<lparr>can_bus := Some \<lparr>rx = [], tx = []\<rparr>\<rparr>"
  have "can_bus ?c = Some \<lparr>rx = [], tx = []\<rparr>" by simp
  from setpoints_ignore_power [OF this, of example_driver "[(''drive_left'', 1)]"] show ?thesis by blast
qed

text \<open>A battery frame may carry NaN, and NaN is below no threshold: such a frame passes every check that motion
  is refused below a minimum charge.\<close>

lemma nan_battery_is_never_low:
  "unpack_f [0, 0, 0xC0, 0x7F] 0 = NaN \<and> \<not> py_lt NaN (Fin minimum)"
  by (simp add: unpack_f_def f32_of_bits_def Let_def)

end
