(* ===== verification/Voice.thy ===== *)
theory Voice
  imports Providers
begin

text \<open>
  The voice service, \<open>services/voice.py\<close>, with the text-mode engine: wake words, emergency detection
  before any language processing, speaker identification, speech, and the whole pipeline for one
  heard utterance. What an engine recognises as the speaker of a sample is a parameter of the
  service; the text-mode engine recognises nobody. The spoken lines are kept in order.
\<close>

section \<open>The service\<close>

record voice =
  vo_wake_names :: "string list"
  vo_require_wake :: bool
  vo_speaking :: bool
  vo_speaker_of :: "string \<Rightarrow> string option"
  vo_default_user :: string
  vo_spoken :: "string list"

record voice_result =
  vr_heard :: string
  vr_woke :: bool
  vr_emergency :: "string option"
  vr_speaker :: string
  vr_response :: string

definition ESTOP_RX :: rx where
  "ESTOP_RX = word_rx (Grp 1 (alt [Str ''emergency stop'', cat [Str ''e'', Opt (Str ''-''), Str ''stop''],
     Str ''kill power'', Str ''kill it'']))"

definition VOICE_STOP_RX :: rx where
  "VOICE_STOP_RX = words ''stop'' [''halt'', ''freeze'', ''whoa'', ''abort'']"

definition EMERGENCY :: "(rx \<times> string) list" where
  "EMERGENCY = [(ESTOP_RX, ''emergency_stop''), (VOICE_STOP_RX, ''stop'')]"

definition has_wake_word :: "voice \<Rightarrow> string \<Rightarrow> bool" where
  "has_wake_word v text = list_ex (\<lambda>w. contains w (lower text)) (vo_wake_names v)"

definition strip_chars :: "string \<Rightarrow> string \<Rightarrow> string" where
  "strip_chars cs s = rstrip_chars cs (dropWhile (\<lambda>c. c \<in> set cs) s)"

definition strip_wake_word :: "voice \<Rightarrow> string \<Rightarrow> string" where
  "strip_wake_word v text =
     strip_chars '',.'' (fold (\<lambda>w out. re_delete (cat [Bnd, Str w, Bnd]) out) (vo_wake_names v) text)"

definition spoken_text :: "string \<Rightarrow> string" where
  "spoken_text text = join '' '' (split (lower text))"

fun first_kind :: "(rx \<times> string) list \<Rightarrow> string \<Rightarrow> string option" where
  "first_kind [] t = None"
| "first_kind ((r, kind) # rs) t = (if found r t then Some kind else first_kind rs t)"

definition detect_emergency :: "string \<Rightarrow> string option" where
  "detect_emergency text = first_kind EMERGENCY (spoken_text text)"

definition identify_speaker :: "voice \<Rightarrow> string \<Rightarrow> string" where
  "identify_speaker v sample =
     (case vo_speaker_of v sample of Some who \<Rightarrow> if who \<noteq> [] then who else vo_default_user v | None \<Rightarrow> vo_default_user v)"

text \<open>\<open>TextModeEngine.capture\<close>: a line that \<open>input\<close> reads, \<open>None\<close> at the end of the input or on an interrupt\<close>

definition text_capture :: "(string \<Rightarrow> string option) \<Rightarrow> string option \<Rightarrow> string option" where
  "text_capture read_line prompt =
     read_line (case prompt of None \<Rightarrow> ''voice> '' | Some p \<Rightarrow> if p = [] then ''voice> '' else p)"

definition text_identify_speaker :: "string \<Rightarrow> string option" where
  "text_identify_speaker sample = None"

text \<open>\<open>TextModeEngine.speak\<close> prints a non-empty text after the droid's tag.\<close>

definition engine_speak :: "string \<Rightarrow> voice \<Rightarrow> voice" where
  "engine_speak text v = (if text \<noteq> [] then v\<lparr>vo_spoken := vo_spoken v @ [''[droid] '' @ text]\<rparr> else v)"

definition speak :: "string \<Rightarrow> voice \<Rightarrow> voice" where
  "speak text v = (engine_speak text (v\<lparr>vo_speaking := True\<rparr>))\<lparr>vo_speaking := False\<rparr>"

definition voice_silence :: "voice \<Rightarrow> voice" where
  "voice_silence v = v\<lparr>vo_speaking := False\<rparr>"

definition heard :: "string \<Rightarrow> bool \<Rightarrow> string option \<Rightarrow> string \<Rightarrow> string \<Rightarrow> voice_result" where
  "heard text woke em sp resp = \<lparr>vr_heard = text, vr_woke = woke, vr_emergency = em, vr_speaker = sp, vr_response = resp\<rparr>"

definition handle_utterance ::
  "language \<Rightarrow> host \<Rightarrow> string \<Rightarrow> string option \<Rightarrow> voice \<times> runtime \<Rightarrow> voice_result res \<times> voice \<times> runtime" where
  "handle_utterance lang h text user w =
     (case w of (v, rt) \<Rightarrow>
        let speaker = (case user of Some u \<Rightarrow> if u \<noteq> [] then u else identify_speaker v text | None \<Rightarrow> identify_speaker v text);
            emergency = detect_emergency text
        in
        if emergency = Some ''emergency_stop'' then
          (if \<not> has_safety rt then (Inl (no_attr ''engage_estop''), v, rt)
           else
             let msg = ''Emergency stop engaged. Motor power removed.'' in
             (Inr (heard text True emergency speaker msg), speak msg v, engage_estop ''voice_emergency'' rt))
        else if emergency = Some ''stop'' then
          (case (if has_service rt ''motion'' then motion_stop rt else (Inr (), rt)) of
             (Inl e, rt1) \<Rightarrow> (Inl e, v, rt1)
           | (Inr _, rt1) \<Rightarrow> (Inr (heard text True emergency speaker ''Stopped.''), speak ''Stopped.'' v, rt1))
        else if vo_require_wake v \<and> \<not> has_wake_word v text then (Inr (heard text False None speaker []), v, rt)
        else
          let command = (if vo_require_wake v then strip_wake_word v text else text) in
          (case process lang h command (Some speaker) False None rt of
             (Inl e, rt1) \<Rightarrow> (Inl e, v, rt1)
           | (Inr resp, rt1) \<Rightarrow> (Inr (heard text True None speaker (rp_text resp)), speak (rp_text resp) v, rt1)))"

section \<open>Facts\<close>

lemma not_speaking [simp]: "\<not> vo_speaking (speak s v)"
  by (simp add: speak_def)

text \<open>A phrase occurs as whole words.\<close>

definition whole_words :: "string \<Rightarrow> string \<Rightarrow> bool" where
  "whole_words v t = (\<exists>a b. t = a @ v @ b \<and> (a = [] \<or> \<not> word_char (last a)) \<and> (b = [] \<or> \<not> word_char (hd b)))"

lemma boundary_before:
  "v \<noteq> [] \<Longrightarrow> word_char (hd v) \<Longrightarrow> at_boundary (before_char None a, v @ b) \<longleftrightarrow> a = [] \<or> \<not> word_char (last a)"
  by (cases v) (auto simp: at_boundary_def before_char_def word_opt_def first_char_def)

lemma boundary_after:
  "v \<noteq> [] \<Longrightarrow> word_char (last v) \<Longrightarrow> at_boundary (before_char None (a @ v), b) \<longleftrightarrow> b = [] \<or> \<not> word_char (hd b)"
  by (cases b) (auto simp: at_boundary_def before_char_def word_opt_def first_char_def)

lemma found_word:
  assumes "whole_words v t" "v \<noteq> []" "word_char (hd v)" "word_char (last v)"
    "\<And>prev b. matches False r (prev, v @ b) (length v)"
  shows "found (word_rx (Grp k r)) t"
proof -
  obtain a b where t: "t = a @ v @ b" "a = [] \<or> \<not> word_char (last a)" "b = [] \<or> \<not> word_char (hd b)"
    using assms(1) by (auto simp: whole_words_def)
  let ?p = "(before_char None a, v @ b)"
  have "matches False (word_rx (Grp k r)) ?p (0 + (length v + 0))"
    unfolding word_rx_def cat.simps
    using t boundary_before [of v a b] boundary_after [of v a b] assms(2-5) advance_before [of v None a b]
    by (intro m_cat m_bnd m_grp) auto
  then show ?thesis unfolding found_def re_search_def search_from_iff using t(1) by blast
qed

lemma words_is_word_rx: "words w ws = word_rx (Grp 1 (alts w ws))"
  by (simp add: words_def word_rx_def)

definition ESTOP_PHRASES :: "string list" where
  "ESTOP_PHRASES = [''emergency stop'', ''e-stop'', ''estop'', ''kill power'', ''kill it'']"

lemma matches_literal: "matches False (Str v) (prev, v @ b) (length v)"
  using m_str [of v "(prev, v @ b)" False] by (simp add: same_text_def)

lemma detect_estop:
  assumes "v \<in> set ESTOP_PHRASES" "whole_words v (spoken_text s)"
  shows "detect_emergency s = Some ''emergency_stop''"
proof -
  have w: "v \<noteq> [] \<and> word_char (hd v) \<and> word_char (last v)"
    using assms(1) unfolding ESTOP_PHRASES_def by (auto simp: word_char_def)
  have "matches False (alt [Str ''emergency stop'', cat [Str ''e'', Opt (Str ''-''), Str ''stop''],
     Str ''kill power'', Str ''kill it'']) (prev, v @ b) (length v)" for prev b
    using assms(1) unfolding ESTOP_PHRASES_def alt.simps cat.simps
    by (auto simp: matches_simps(3,4,5) matches_Str)
  with found_word [OF assms(2)] w have "found ESTOP_RX (spoken_text s)" unfolding ESTOP_RX_def by blast
  then show ?thesis by (simp add: detect_emergency_def EMERGENCY_def)
qed

lemma detect_stop:
  assumes "v \<in> set [''stop'', ''halt'', ''freeze'', ''whoa'', ''abort'']" "whole_words v (spoken_text s)"
  shows "detect_emergency s \<noteq> None"
proof -
  have w: "v \<noteq> [] \<and> word_char (hd v) \<and> word_char (last v)" using assms(1) by (auto simp: word_char_def)
  have "matches False (alts ''stop'' [''halt'', ''freeze'', ''whoa'', ''abort'']) (prev, v @ b) (length v)" for prev b
    unfolding matches_alts using assms(1) matches_literal [of v prev b] by blast
  with found_word [OF assms(2)] w have "found VOICE_STOP_RX (spoken_text s)"
    unfolding VOICE_STOP_RX_def words_is_word_rx by blast
  then show ?thesis by (simp add: detect_emergency_def EMERGENCY_def)
qed

lemma detect_cases:
  obtains "detect_emergency s = Some ''emergency_stop''" | "detect_emergency s = Some ''stop''" | "detect_emergency s = None"
  by (cases "found ESTOP_RX (spoken_text s)"; cases "found VOICE_STOP_RX (spoken_text s)")
    (simp_all add: detect_emergency_def EMERGENCY_def)

section \<open>Properties\<close>

text \<open>C14. A spoken emergency stop needs no model, no wake word and no authority: an utterance with one of the
  phrases as whole words, in any letter case and spacing, is never passed to the language service; with a
  safety gateway it engages and latches the stop, opens both contactors and says so, whoever speaks.\<close>

theorem spoken_emergency_stop:
  assumes "ph \<in> set ESTOP_PHRASES" "whole_words ph (spoken_text s)" "has_safety rt"
  shows "\<exists>sp rt'. (\<forall>lang. handle_utterance lang h s user (v, rt) =
       (Inr (heard s True (Some ''emergency_stop'') sp ''Emergency stop engaged. Motor power removed.''),
        speak ''Emergency stop engaged. Motor power removed.'' v, rt'))
     \<and> powers_off rt' \<and> c_estop (ctl rt') \<and> cur_state (rt_state rt') = EMERGENCY_STOPPED
     \<and> latch_file rt' = write_doc (Some \<lparr>latch_estop = True, latch_reason = Some ''voice_emergency''\<rparr>) (latch_file rt)"
proof -
  let ?rt = "engage_estop ''voice_emergency'' rt"
  have "cur_state (rt_state ?rt) = EMERGENCY_STOPPED" by (simp add: engage_estop_def Let_def)
  moreover have "c_estop (ctl ?rt)" "powers_off ?rt"
    using stop_state_estop [of "''voice_emergency''" rt] engage_powers_off [of "''voice_emergency''" rt] by simp_all
  moreover note engage_latch [of "''voice_emergency''" rt]
  ultimately show ?thesis
    by (intro exI [of _ "case user of Some u \<Rightarrow> if u \<noteq> [] then u else identify_speaker v s | None \<Rightarrow> identify_speaker v s"]
        exI [of _ ?rt])
      (simp add: handle_utterance_def Let_def detect_estop [OF assms(1,2)] assms(3))
qed

definition example_voice :: voice where
  "example_voice = \<lparr>vo_wake_names = [''droid''], vo_require_wake = True, vo_speaking = False,
     vo_speaker_of = (\<lambda>_. None), vo_default_user = ''operator'', vo_spoken = []\<rparr>"

theorem spoken_emergency_stop_witness:
  "cur_state (rt_state (snd (snd (handle_utterance example_language example_host ''Quick, KILL  power!'' None
     (example_voice, active_rt))))) = EMERGENCY_STOPPED"
proof -
  have n: "spoken_text ''Quick, KILL  power!'' = ''quick, '' @ ''kill power'' @ ''!''" by code_simp
  have "\<not> word_char (last ''quick, '')" "\<not> word_char (hd ''!'')" by code_simp+
  then have "whole_words ''kill power'' (spoken_text ''Quick, KILL  power!'')" unfolding n whole_words_def by blast
  moreover have "''kill power'' \<in> set ESTOP_PHRASES" by (simp add: ESTOP_PHRASES_def)
  ultimately obtain sp rt' where
    "\<forall>lang. handle_utterance lang example_host ''Quick, KILL  power!'' None (example_voice, active_rt) =
       (Inr (heard ''Quick, KILL  power!'' True (Some ''emergency_stop'') sp ''Emergency stop engaged. Motor power removed.''),
        speak ''Emergency stop engaged. Motor power removed.'' example_voice, rt')"
    "cur_state (rt_state rt') = EMERGENCY_STOPPED"
    using spoken_emergency_stop [OF _ _ active_fields(4)] by blast
  then show ?thesis by simp
qed

text \<open>Without the wake word nothing but an emergency is acted on: when the wake word is required and
  absent, an utterance with no emergency word changes nothing in the system, is not answered, and is
  reported as not addressed to the droid. An utterance with a stop word never reaches the language
  service, and a plain stop keeps the contactors, the state and the latch as they are.\<close>

theorem wake_word_gates_commands:
  "(vo_require_wake v \<and> \<not> has_wake_word v s \<and> detect_emergency s = None \<longrightarrow>
      (\<exists>sp. handle_utterance lang h s user (v, rt) = (Inr (heard s False None sp []), v, rt)))
   \<and> (detect_emergency s = Some ''stop'' \<longrightarrow>
      handle_utterance lang h s user (v, rt) = handle_utterance lang' h s user (v, rt)
      \<and> drives rt (snd (snd (handle_utterance lang h s user (v, rt)))))"
proof (intro conjI impI)
  assume a: "vo_require_wake v \<and> \<not> has_wake_word v s \<and> detect_emergency s = None"
  then show "\<exists>sp. handle_utterance lang h s user (v, rt) = (Inr (heard s False None sp []), v, rt)"
    by (intro exI [of _ "case user of Some u \<Rightarrow> if u \<noteq> [] then u else identify_speaker v s | None \<Rightarrow> identify_speaker v s"])
      (simp add: handle_utterance_def Let_def)
next
  assume a: "detect_emergency s = Some ''stop''"
  then show "handle_utterance lang h s user (v, rt) = handle_utterance lang' h s user (v, rt)"
    by (simp add: handle_utterance_def Let_def)
  show "drives rt (snd (snd (handle_utterance lang h s user (v, rt))))"
    using a motion_stop_drives [of rt]
    by (cases "fst (motion_stop rt)") (auto simp: handle_utterance_def Let_def case_prod_beta split: sum.splits)
qed

theorem wake_word_gates_commands_witness:
  "snd (snd (handle_utterance example_language example_host ''shut down'' None (example_voice, active_rt))) = active_rt"
proof -
  have "vo_require_wake example_voice \<and> \<not> has_wake_word example_voice ''shut down'' \<and> detect_emergency ''shut down'' = None"
    by code_simp
  then show ?thesis
    using wake_word_gates_commands [of example_voice "''shut down''" example_language example_host None active_rt example_language]
    by (metis snd_conv)
qed

end
