(* ===== verification/Session.thy ===== *)
theory Session
  imports Voice
begin

text \<open>
  Conversations: any sequence of typed and spoken requests, from any users, under any language models. The
  theory shows what no conversation can do, namely undo an emergency stop: the latch in the controller, the
  open contactors and the record on disk survive every request, whatever it is understood as.
\<close>

section \<open>The convenience interface\<close>

text \<open>\<open>DroidSystem.ask\<close> and \<open>DroidSystem.shutdown\<close>\<close>

definition ask ::
  "language \<Rightarrow> host \<Rightarrow> string \<Rightarrow> string option \<Rightarrow> bool \<Rightarrow> runtime \<Rightarrow> response res \<times> runtime" where
  "ask lang h text user confirmed rt = process lang h text user confirmed None rt"

definition system_shutdown :: "runtime \<Rightarrow> unit res \<times> runtime" where
  "system_shutdown rt = request_shutdown rt"

section \<open>The stopped state\<close>

definition stop_recorded :: "latch_doc option json_file \<Rightarrow> bool" where
  "stop_recorded f = (case contents f of Doc (Some d) \<Rightarrow> latch_estop d | _ \<Rightarrow> False)"

definition stopped :: "runtime \<Rightarrow> bool" where
  "stopped rt = (c_estop (ctl rt) \<and> powers_off rt \<and> stop_recorded (latch_file rt))"

lemma stopped_observes: "observes rt rt' \<Longrightarrow> stopped rt \<Longrightarrow> stopped rt'"
  using observes_powers_off [of rt rt'] by (simp add: stopped_def observes_def)

lemma stopped_drives: "drives rt rt' \<Longrightarrow> stopped rt \<Longrightarrow> stopped rt'"
  using drives_power [of rt rt'] by (simp add: stopped_def drives_def)

lemma stopped_data_only: "data_only rt rt' \<Longrightarrow> stopped rt \<Longrightarrow> stopped rt'"
  using data_only_powers_off [of rt rt'] by (simp add: stopped_def data_only_def)

lemma stopped_engage: "stopped rt \<Longrightarrow> stopped (engage_estop reason rt)"
  using stop_state_estop [of reason rt] engage_powers_off [of reason rt] engage_latch [of reason rt]
  by (auto simp: stopped_def stop_recorded_def write_doc_def)

lemma stopped_transition: "stopped rt \<Longrightarrow> stopped (snd (rt_transition d m rt))"
  by (simp add: stopped_def)

lemma stopped_step: "stopped (rt_task_step m rt) = stopped rt"
  by (simp add: stopped_def powers_off_def backend_power_def)

lemma stopped_release: "stopped rt \<Longrightarrow> stopped (release_motion_permission rt)"
  using release_powers_off [of rt]
  by (simp add: stopped_def) (simp add: release_motion_permission_def Let_def disable_power_def)

lemma stopped_unhealthy: "stopped rt \<Longrightarrow> \<not> healthy_now rt"
  by (simp add: stopped_def healthy_now_def)

section \<open>Handlers\<close>

text \<open>With the emergency stop engaged a drive is refused before anything moves.\<close>

lemma stopped_drive_release: "stopped rt \<Longrightarrow> stopped (snd (drive_release held rt))"
  using stopped_release [of rt] stopped_transition by (simp add: drive_release_def Let_def)

lemma stopped_acquire: "stopped rt \<Longrightarrow> stopped (fst (snd (bt_acquire (rt, data, held))))"
proof (cases "has_safety rt")
  case True
  assume s: "stopped rt"
  have "observes rt (snd (request_motion_permission rt))"
    using request_denied [OF stopped_unhealthy [OF s]] observes_trans [OF observes_gw(1) observes_gw(2)] by simp
  then show ?thesis using stopped_observes s True by (simp add: bt_acquire_def case_prod_beta)
qed (simp add: bt_acquire_def)

lemma stopped_drive_to:
  assumes "stopped rt"
  shows "stopped (snd (drive_to goal l rt))"
proof -
  let ?label = "py_str (float_repr rt) l" and ?w = "(stepped l rt, [(''label'', l)], False)"
  have s: "stopped (stepped l rt)" using assms by (simp add: stepped_def stopped_step)
  obtain r w where a: "bt_acquire ?w = (r, w)" by (cases "bt_acquire ?w")
  have w: "stopped (fst w)" using stopped_acquire [OF s] a by (metis snd_conv)
  have "r = Inr (Flag False) \<or> (\<exists>e. r = Inl e)"
    using a request_denied [OF stopped_unhealthy [OF s]] by (auto simp: bt_acquire_def case_prod_beta split: if_splits)
  then obtain r' tree where "tick (navigate_tree goal ?label) ?w = (r', tree, w)" "r' = Inr FAILURE \<or> (\<exists>e. r' = Inl e)"
    using a tick_refused [of ?w w goal ?label] by (auto simp: navigate_tree_def)
  then have run: "run 10000 (navigate_tree goal ?label) ?w = (r', tree, w)"
    using run_settled [of 10000 "navigate_tree goal ?label" ?w] by auto
  obtain rt2 data held where w': "w = (rt2, data, held)" by (cases w)
  have "stopped rt2" "stopped (snd (drive_release held rt2))" using w stopped_drive_release by (auto simp: w')
  then show ?thesis
    unfolding drive_to_def Let_def stepped_def [symmetric] run w'
    by (cases r'; cases "drive_release held rt2"; cases "fst (drive_release held rt2)") auto
qed

lemma stopped_set_charging: "stopped rt \<Longrightarrow> stopped (on_backend (set_charging True) rt)"
  by (cases "rt_backend rt")
    (simp_all add: stopped_def powers_off_def backend_power_def set_charging_def power_enabled_def on_backend_def)

lemma stopped_inspect: "stopped rt \<Longrightarrow> stopped (snd (inspect_here d tg dd rt))"
  by (simp add: inspect_here_def Let_def stopped_step split: sum.split)

lemma stopped_motion_handlers:
  assumes "stopped rt"
  shows "stopped (snd (h_navigate h t rt))" "stopped (snd (h_go_charge h t rt))" "stopped (snd (h_inspect h t rt))"
proof -
  have d: "stopped rt1" if "drive_to goal l rt = (r, rt1)" for goal l r rt1
    using stopped_drive_to [OF assms, of goal l] that by simp
  show "stopped (snd (h_navigate h t rt))"
    using assms d by (auto simp: h_navigate_def Let_def split: option.split sum.split prod.split)
  show "stopped (snd (h_go_charge h t rt))"
    using assms d stopped_set_charging by (auto simp: h_go_charge_def Let_def split: option.split sum.split prod.split)
  show "stopped (snd (h_inspect h t rt))"
    using assms d stopped_inspect by (auto simp: h_inspect_def Let_def split: option.split sum.split prod.split)
qed

lemma stopped_safe_idle: "stopped rt \<Longrightarrow> stopped (snd (h_safe_idle h t rt))"
  using stopped_release [of rt] stopped_transition
  by (auto simp: h_safe_idle_def Let_def case_prod_beta split: sum.split)

text \<open>Shutting down runs the hooks of every service; none of them touches the latch or closes a contactor.\<close>

lemma latch_hooks:
  "latch_file (snd (world_on_configure rt)) = latch_file rt" "latch_file (snd (memory_on_configure rt)) = latch_file rt"
  "latch_file (snd (update_on_configure rt)) = latch_file rt" "latch_file (snd (motion_on_configure rt)) = latch_file rt"
  "latch_file (snd (gw_on_configure rt)) = latch_file rt" "latch_file (snd (gw_on_activate rt)) = latch_file rt"
  "latch_file (rt_log_error m rt) = latch_file rt"
  by (simp_all add: world_on_configure_def memory_on_configure_def update_on_configure_def case_prod_beta
      motion_on_configure_def gw_on_configure_def gw_on_activate_def load_latch_def Let_def rt_log_error_def
      split: option.split sum.split)

interpretation hook_stopped: hook_contract "service_hooks name" stopped for name
  by unfold_locales (auto simp: stopped_def service_hooks_def estop_hooks hook_frames latch_hooks)

lemma stopped_shutdown_all: "stopped rt \<Longrightarrow> stopped (snd (shutdown_all ns rt))"
proof (induction ns arbitrary: rt)
  case (Cons n ns)
  have "stopped (snd (svc_shutdown n rt))"
    using hook_stopped.shutdown_svc_keeps [OF Cons.prems]
    by (simp add: svc_shutdown_def case_prod_beta stopped_def powers_off_def backend_power_def put_service_def)
  then show ?case using Cons.IH by (cases "svc_shutdown n rt"; cases "fst (svc_shutdown n rt)") auto
qed simp

lemma stopped_request_shutdown:
  assumes "stopped rt"
  shows "stopped (snd (request_shutdown rt))"
proof -
  define rt1 where "rt1 = (if cur_state (rt_state rt) \<noteq> SHUTTING_DOWN
              then rt\<lparr>rt_state := force (rt_state rt) SHUTTING_DOWN ''shutdown requested''\<rparr> else rt)"
  have "stopped rt1" using assms by (simp add: rt1_def stopped_def powers_off_def backend_power_def)
  then have p: "stopped (snd (shutdown_all (rev (map fst (svcs rt1))) rt1))" by (rule stopped_shutdown_all)
  obtain r rt2 where sh: "shutdown_all (rev (map fst (svcs rt1))) rt1 = (r, rt2)"
    by (cases "shutdown_all (rev (map fst (svcs rt1))) rt1")
  then have "stopped rt2" using p by simp
  then have "stopped ((on_backend backend_shutdown rt2)\<lparr>rt_state := st\<rparr>)" for st
    by (simp add: stopped_def powers_off_def)
      (simp add: backend_power_def backend_shutdown_def power_enabled_def on_backend_def split: option.split)
  with \<open>stopped rt2\<close> show ?thesis
    unfolding request_shutdown_def rt1_def [symmetric] Let_def sh by (cases r) simp_all
qed

lemma stopped_handlers: "stopped rt \<Longrightarrow> stopped (snd (handler_for name h t rt))"
proof (rule handler_for_all [where Q = "\<lambda>_ f. stopped rt \<longrightarrow> stopped (snd (f h t rt))", THEN mp])
  show "stopped rt \<longrightarrow> stopped (snd (h_unhandled h t rt))" by (simp add: pure_handlers)
  have ob: "stopped rt \<longrightarrow> stopped (snd (f h t rt))" if "observes rt (snd (f h t rt))" for f :: handler
    using stopped_observes [OF that] by simp
  have dr: "stopped rt \<longrightarrow> stopped (snd (f h t rt))" if "drives rt (snd (f h t rt))" for f :: handler
    using stopped_drives [OF that] by simp
  have da: "stopped rt \<longrightarrow> stopped (snd (f h t rt))" if "data_only rt (snd (f h t rt))" for f :: handler
    using stopped_data_only [OF that] by simp
  have ot: "stopped rt \<longrightarrow> stopped (snd (h_estop h t rt))" "stopped rt \<longrightarrow> stopped (snd (h_shutdown h t rt))"
    using stopped_engage stopped_request_shutdown
    by (auto simp: h_estop_def h_shutdown_def case_prod_beta split: sum.split)
  show "list_all (\<lambda>(n, f). stopped rt \<longrightarrow> stopped (snd (f h t rt))) HANDLERS"
    unfolding HANDLERS_def
    using ot stopped_motion_handlers [of rt h t] stopped_safe_idle [of rt h t]
    by (simp add: ob [of h_status] ob [of h_explain] ob [of h_diagnostics] observes_h_status observes_h_explain
        observes_h_diagnostics dr [of h_stop] dr [of h_cancel] stop_handlers_drive
        da [of h_remember] da [of h_store_place] da [of h_forget] da [of h_set_body] da [of h_install_update]
        data_handlers data_only_install
        ob [of h_battery] ob [of h_temperature] ob [of h_describe] ob [of h_list_places] ob [of h_help]
        ob [of h_silence] ob [of h_reboot] pure_handlers)
qed

lemma stopped_run_intent: "stopped rt \<Longrightarrow> stopped (snd (run_intent h dec user rt))"
  using run_intent_data [of rt dec h user] stopped_data_only stopped_handlers by metis

section \<open>Conversations\<close>

lemma stopped_dispatch:
  assumes "stopped rt"
  shows "stopped (snd (dispatch lang h i u c dg rt))"
proof -
  consider "dec_outcome (fst (validate (tool_registry None) i u c rt)) \<noteq> APPROVED"
    | "dec_outcome (fst (validate (tool_registry None) i u c rt)) = APPROVED" "has_service rt ''executive''"
    | "dec_outcome (fst (validate (tool_registry None) i u c rt)) = APPROVED" "\<not> has_service rt ''executive''" by blast
  then show ?thesis
  proof cases
    case 1
    then show ?thesis using dispatch_unapproved [OF 1] stopped_observes assms by blast
  next
    case 2
    then obtain dec rt1 where d: "decide_request i u c rt = (dec, rt1)"
      "snd (dispatch lang h i u c dg rt) = snd (run_intent h dec (user_name u) rt1)" by (rule dispatch_approved)
    have "stopped rt1" using stopped_observes [OF decide_request_facts(2) assms, of i u c] d(1) by simp
    then show ?thesis using stopped_run_intent d(2) by simp
  next
    case 3
    then show ?thesis using dispatch_unavailable [OF 3(2,1)] stopped_observes assms by blast
  qed
qed

lemma stopped_process: "stopped rt \<Longrightarrow> stopped (snd (process lang h s u c pend rt))"
proof (rule process_cases [of lang h s u c pend rt])
  fix i c' rt1
  assume "stopped rt" "process lang h s u c pend rt = dispatch lang h i (resolve_user (rt_auth rt) u) c' (chain_degraded lang) rt1"
    "observes rt rt1"
  then show ?thesis using stopped_dispatch [OF stopped_observes] by simp
qed simp

lemma stopped_utterance: "stopped rt \<Longrightarrow> stopped (snd (snd (handle_utterance lang h s user (v, rt))))"
  using stopped_engage [of rt] stopped_drives [OF motion_stop_drives, of rt]
    stopped_process [of rt lang h "if vo_require_wake v then strip_wake_word v s else s"]
  by (auto simp: handle_utterance_def Let_def case_prod_beta split: sum.split)

text \<open>One request: typed by some user (with any confirmation flag and any pending question) or spoken.\<close>

inductive converses :: "voice \<times> runtime \<Rightarrow> voice \<times> runtime \<Rightarrow> bool" where
  typed: "process lang h s user confirmed pending rt = (r, rt') \<Longrightarrow> converses (v, rt) (v, rt')"
| spoken: "handle_utterance lang h s user (v, rt) = (r, v', rt') \<Longrightarrow> converses (v, rt) (v', rt')"

section \<open>Properties\<close>

text \<open>No conversation undoes an emergency stop: after one was engaged and recorded, any sequence of typed and spoken
  requests, by any users and whatever language models make of them, leaves the latch engaged, both contactors
  open and the record on disk, even when requests fail, raise or shut the services down.\<close>

theorem no_conversation_clears_a_stop:
  assumes "converses\<^sup>*\<^sup>* (v, rt) (v', rt')" "stopped rt"
  shows "c_estop (ctl rt') \<and> powers_off rt' \<and> stop_recorded (latch_file rt')"
proof -
  have "stopped (snd w')" if "converses\<^sup>*\<^sup>* w w'" "stopped (snd w)" for w w'
    using that
  proof (induction rule: rtranclp_induct)
    case (step a b)
    from step(2) show ?case
    proof (cases rule: converses.cases)
      case (typed lang h s user confirmed pending rt r rt' v)
      then show ?thesis using stopped_process [of rt lang h s user confirmed pending] step by simp
    next
      case (spoken lang h s user v rt r v' rt')
      then show ?thesis using stopped_utterance [of rt lang h s user v] step by simp
    qed
  qed simp
  from this [OF assms(1)] assms(2) show ?thesis by (simp add: stopped_def)
qed

theorem no_conversation_clears_a_stop_witness:
  "c_estop (ctl (snd (process example_language example_host ''go to the workshop'' None True None (engage_estop ''x'' active_rt))))"
proof -
  let ?rt = "engage_estop ''x'' active_rt"
  have "writable (latch_file active_rt)"
    by (simp add: active_rt_def example_rt_def example_env_def fresh_file_def wire_def new_runtime_def SERVICE_NAMES_def)
  then have "stopped ?rt"
    using stop_state_estop [of "''x''" active_rt] engage_powers_off [of "''x''" active_rt] engage_latch [of "''x''" active_rt]
    by (simp add: stopped_def stop_recorded_def write_doc_def)
  moreover have "converses (example_voice, ?rt)
      (example_voice, snd (process example_language example_host ''go to the workshop'' None True None ?rt))"
    by (rule typed [OF prod.collapse [symmetric]])
  ultimately show ?thesis using no_conversation_clears_a_stop [OF r_into_rtranclp] by blast
qed

end
