(* ===== verification/Restart.thy ===== *)
theory Restart
  imports Session
begin

text \<open>
  The emergency stop across a restart, in both directions: what boot does to the latch and its file. A contract
  on the two, kept by the hooks of every service, holds through the whole boot sequence; the interpretations are
  the file itself, which boot never writes, and a cleared stop, which boot never engages.
\<close>

locale boot_contract =
  fixes Q :: "bool \<Rightarrow> latch_doc option json_file \<Rightarrow> bool"
  assumes hooks: "hook_contract (service_hooks n) (\<lambda>rt. Q (c_estop (ctl rt)) (latch_file rt))"
begin

abbreviation P :: "runtime \<Rightarrow> bool" where
  "P rt \<equiv> Q (c_estop (ctl rt)) (latch_file rt)"

lemma svc_activate_keeps: "P rt \<Longrightarrow> P (snd (svc_activate n rt))"
  using hook_contract.activate_svc_keeps [OF hooks, of rt n "service rt n"]
  by (simp add: svc_activate_def case_prod_beta put_service_def)

lemma services_keep: "P rt \<Longrightarrow> P (fold boot_service ns rt)"
  by (rule fold_keeps) (rule boot_service_keeps [of P], auto simp: svc_activate_keeps report_def)

lemma contact_keeps: "P rt \<Longrightarrow> P (contact_safety (boot_prologue rt))"
  using svc_activate_keeps [of "boot_prologue rt" "''safety_gateway''"]
  by (simp add: contact_safety_def power_report_def case_prod_beta Let_def boot_prologue_def report_def)

lemma drivers_keep: "P rt \<Longrightarrow> P (start_drivers (check_body rt))"
  by (simp add: start_drivers_def check_body_def report_def on_backend_def Let_def split: option.split)

lemma epilogue_keeps: "P rt \<Longrightarrow> P (snd (boot_epilogue rt))"
  by (simp add: boot_epilogue_def refresh_def case_prod_beta report_def settle_def Let_def split: sum.split)

lemma transition_keeps: "rt_transition d r rt = (x, rt') \<Longrightarrow> P rt \<Longrightarrow> P rt'"
  using rt_transition_keeps(1,7) [of d r rt] by simp

lemma boot_keeps:
  assumes "cur_state (rt_state rt) = POWERED_OFF" "has_safety rt" "P rt"
  shows "P (snd (boot rt))"
proof (rule boot_ok [OF assms(1,2)])
  fix rt1 rt2 rt3
  assume t1: "rt_transition BOOTING ''boot start'' (rt\<lparr>boot_report := []\<rparr>) = (Inr (), rt1)"
    and t2: "rt_transition HARDWARE_CHECK ''safety contacted'' (contact_safety (boot_prologue rt1)) = (Inr (), rt2)"
    and t3: "rt_transition SAFE_IDLE ''boot checks complete''
       (fold boot_service ACTIVATION_ORDER (start_drivers (check_body rt2))) = (Inr (), rt3)"
    and b: "boot rt = (Inr (fst (boot_epilogue rt3)), snd (boot_epilogue rt3))"
  have "P rt1" using transition_keeps [OF t1] assms(3) by simp
  then have "P rt2" by (rule transition_keeps [OF t2 contact_keeps])
  then have "P rt3" by (rule transition_keeps [OF t3 services_keep [OF drivers_keep]])
  with b show ?thesis by (simp add: epilogue_keeps)
qed

end

interpretation boot_file: boot_contract "\<lambda>_ f. f = f0" for f0
  by unfold_locales (auto simp: service_hooks_def latch_hooks)

text \<open>A file that says that the stop was cleared\<close>

definition stop_cleared :: "latch_doc option json_file \<Rightarrow> bool" where
  "stop_cleared f = (case contents f of Doc (Some d) \<Rightarrow> \<not> latch_estop d | _ \<Rightarrow> False)"

lemma unstop_hooks:
  "c_estop (ctl (snd (world_on_configure rt))) = c_estop (ctl rt)" "c_estop (ctl (snd (memory_on_configure rt))) = c_estop (ctl rt)"
  "c_estop (ctl (snd (update_on_configure rt))) = c_estop (ctl rt)" "c_estop (ctl (snd (motion_on_configure rt))) = c_estop (ctl rt)"
  "c_estop (ctl (snd (gw_on_activate rt))) = c_estop (ctl rt)" "c_estop (ctl (rt_log_error m rt)) = c_estop (ctl rt)"
  by (simp_all add: world_on_configure_def memory_on_configure_def update_on_configure_def case_prod_beta
      motion_on_configure_def gw_on_activate_def Let_def disable_power_def rt_log_error_def split: option.split sum.split)

interpretation boot_cleared: boot_contract "\<lambda>e f. \<not> e \<and> stop_cleared f"
proof unfold_locales
  fix w :: runtime
  assume a: "\<not> c_estop (ctl w) \<and> stop_cleared (latch_file w)"
  then obtain d where "contents (latch_file w) = Doc (Some d)" "\<not> latch_estop d"
    by (auto simp: stop_cleared_def split: file_content.splits option.splits)
  then have g: "\<not> c_estop (ctl (snd (gw_on_configure w)))" using a configure_from_latch [of w d] by simp
  show "\<not> c_estop (ctl (snd (on_configure (service_hooks n) w))) \<and> stop_cleared (latch_file (snd (on_configure (service_hooks n) w)))" for n
    using a g by (simp add: service_hooks_def unstop_hooks latch_hooks)
  show "\<not> c_estop (ctl (snd (on_activate (service_hooks n) w))) \<and> stop_cleared (latch_file (snd (on_activate (service_hooks n) w)))" for n
    using a by (simp add: service_hooks_def unstop_hooks latch_hooks)
qed (auto simp: service_hooks_def unstop_hooks latch_hooks)

section \<open>Boot and the latch\<close>

lemma boot_latch_file:
  "cur_state (rt_state rt) = POWERED_OFF \<Longrightarrow> has_safety rt \<Longrightarrow> latch_file (snd (boot rt)) = latch_file rt"
  using boot_file.boot_keeps [of rt "latch_file rt"] by simp

lemma assess_reports_stop: "r_state (fst (assess_readiness rt)) = EMERGENCY_STOPPED \<Longrightarrow> c_estop (ctl rt)"
  by (cases "has_safety rt"; cases "c_estop (ctl rt)")
    (auto simp: assess_running assess_no_safety classify_state split: if_splits)

lemma boot_reported_stop:
  assumes "cur_state (rt_state rt) = POWERED_OFF" "has_safety rt" "fst (boot rt) = Inr r" "r_state r = EMERGENCY_STOPPED"
  shows "c_estop (ctl (snd (boot rt)))"
proof (rule boot_ok [OF assms(1,2)])
  fix rt1 rt2 rt3
  assume "boot rt = (Inr (fst (boot_epilogue rt3)), snd (boot_epilogue rt3))"
  then show ?thesis
    using assms(3,4) assess_reports_stop [of "report ''enter_safe_idle'' True [] rt3"]
    by (simp add: boot_epilogue_def refresh_def case_prod_beta report_def)
qed

lemma boot_stopped:
  assumes "cur_state (rt_state rt) = POWERED_OFF" "has_safety rt" "powers_off rt" "stop_recorded (latch_file rt)"
    "svc_state (service rt ''safety_gateway'') = LC_UNCONFIGURED"
  shows "stopped (snd (boot rt))"
proof -
  obtain d where d: "contents (latch_file rt) = Doc (Some d)" "latch_estop d"
    using assms(4) by (auto simp: stop_recorded_def split: file_content.splits option.splits)
  from boot_latched [OF assms(1,2) d assms(5)] boot_reported_stop [OF assms(1,2)] boot_settles [OF assms(1-3)]
    boot_latch_file [OF assms(1,2)] assms(4)
  show ?thesis by (auto simp: stopped_def)
qed

lemma boot_has_safety:
  assumes "cur_state (rt_state rt) = POWERED_OFF" "has_safety rt"
  shows "has_safety (snd (boot rt))"
proof (rule boot_ok [OF assms])
  fix rt1 rt2 rt3
  assume t1: "rt_transition BOOTING ''boot start'' (rt\<lparr>boot_report := []\<rparr>) = (Inr (), rt1)"
    and t2: "rt_transition HARDWARE_CHECK ''safety contacted'' (contact_safety (boot_prologue rt1)) = (Inr (), rt2)"
    and t3: "rt_transition SAFE_IDLE ''boot checks complete''
       (fold boot_service ACTIVATION_ORDER (start_drivers (check_body rt2))) = (Inr (), rt3)"
    and b: "boot rt = (Inr (fst (boot_epilogue rt3)), snd (boot_epilogue rt3))"
  have v: "sys_view a = sys_view b \<Longrightarrow> has_safety a = has_safety b" for a b by (simp add: sys_view_def)
  have k: "rt_transition d r a = (x, b) \<Longrightarrow> has_safety b = has_safety a" for d r a x b
    using rt_transition_keeps(5) [of d r a] by simp
  have "has_safety rt1" using k [OF t1] assms(2) by simp
  then have "has_safety rt2" using k [OF t2] v [OF contact_safety_frame(1) [of "boot_prologue rt1"]] by simp
  moreover have "sys_view (fold boot_service ACTIVATION_ORDER (start_drivers (check_body rt2))) = sys_view rt2"
    by (simp add: boot_services_frame start_drivers_frame)
  ultimately have "has_safety rt3" using k [OF t3] v by blast
  then show ?thesis by (simp add: b boot_epilogue_def refresh_def case_prod_beta report_def)
qed

lemma boot_after_reset:
  assumes "cur_state (rt_state rt) = POWERED_OFF" "has_safety rt" "\<not> c_estop (ctl rt)" "stop_cleared (latch_file rt)"
    "fst (boot rt) = Inr r"
  shows "r_state r \<noteq> EMERGENCY_STOPPED" "\<not> c_estop (ctl (snd (boot rt)))"
  using boot_cleared.boot_keeps [OF assms(1,2)] boot_reported_stop [OF assms(1,2,5)] assms(3,4) by auto

section \<open>A freshly built system\<close>

lemma built_system:
  assumes "build_system env = Inr (Some rt)"
  shows "cur_state (rt_state rt) = POWERED_OFF" "has_safety rt" "powers_off rt" "latch_file rt = env_latch_file env"
    "svc_state (service rt ''safety_gateway'') = LC_UNCONFIGURED" "\<not> c_estop (ctl rt)"
proof -
  obtain body sel b where w: "rt = wire (env_degraded env) body b (new_runtime env)"
    "make_backend body (backend_kind body) (dict_get sel ''hardware_backend'' PNone) = Some b"
    using assms by (auto simp: build_system_def Let_def split: sum.splits)
  have "\<not> power_enabled b"
    using w(2) by (auto simp: make_backend_def power_enabled_def SimulationBackend_def MockHardwareBackend_def
        init_sim_def Let_def split: if_splits)
  then show "powers_off rt" "cur_state (rt_state rt) = POWERED_OFF" "has_safety rt" "latch_file rt = env_latch_file env"
    "\<not> c_estop (ctl rt)"
    using w(1) by (simp_all add: wire_def new_runtime_def powers_off_def backend_power_def init_controller_def
        init_machine_def SERVICE_NAMES_def)
  show "svc_state (service rt ''safety_gateway'') = LC_UNCONFIGURED"
    unfolding service_def w(1) svcs_wire by (simp add: SERVICE_NAMES_def new_service_def dict_get_def)
qed

definition selected_env :: "latch_doc option json_file \<Rightarrow> environment" where
  "selected_env f = example_env\<lparr>env_latch_file := f, env_bodies := example_bodies\<lparr>bm_state_file
      := \<lparr>contents = Doc (dump (\<lambda>_. []) 0 (PDict [(''body_id'', PStr ''r2'')])), writable = True\<rparr>\<rparr>\<rparr>"

lemma selected_env_builds: "\<exists>rt. build_system (selected_env f) = Inr (Some rt)"
proof -
  let ?bm = "env_bodies (selected_env f)"
  have sel: "selection ?bm = Inr (AList.update ''body_id'' (PStr ''r2'') DEFAULT_BODY_SELECTION)"
  proof -
    have "yaml_ok (\<lambda>_. None) (PDict [(''body_id'', PStr ''r2'')])" by code_simp
    from yaml_read_back [OF this, of "\<lambda>_. []"]
    have "selection ?bm = Inr (fold (\<lambda>(k, v) d. AList.update k v d) [(''body_id'', PStr ''r2'')] DEFAULT_BODY_SELECTION)"
      by (intro selection_written) (simp_all add: selected_env_def example_bodies_def dict_get_def del: dump.simps)
    then show ?thesis by simp
  qed
  have "\<exists>b. load_body (Some example_package) ''/b/r2'' k = Inr b" for k
    by (simp add: load_body_def example_package_def manifest_load_def yaml_read_def manifest_from_dict_def
        VALID_LOCOMOTION_def load_component_def file_path_def or_default_def flat_def Let_def)
  then obtain body where "load_active ?bm = Inr body"
    unfolding load_active_def sel
    by (auto simp: load_selected_def dict_get_def DEFAULT_BODY_SELECTION_def selected_env_def example_bodies_def)
  then show ?thesis
    using sel by (auto simp: build_system_def Let_def new_runtime_def make_backend_def dict_get_def DEFAULT_BODY_SELECTION_def)
qed

end
