(* ===== verification/Cli.thy ===== *)
theory Cli
  imports Restart Tabular
begin

text \<open>
  The natural-language command line, \<open>cli/droid.py\<close>, and what it shares with \<open>cli/droidctl.py\<close>: one process boots the
  whole system, runs one command or a conversation, and ends; what survives it are its files.

  A process yields its exit status (or the exception that escapes \<open>main\<close>), the texts it printed, and the runtime it
  ended with, if one was built. Standard input is the list of its lines, whose end is the end of the file or
  an interrupt; the prompts are not among the printed texts. Booting on the CAN-FD transport is outside the model
  of the runtime, and such a process is \<open>None\<close>.
\<close>

section \<open>A process\<close>

type_synonym 'a ran = "'a res \<times> printed list \<times> runtime"
type_synonym invocation = "int res \<times> printed list \<times> runtime option"

datatype started = Started runtime | Refused exn "runtime option" | OnCanFd

text \<open>\<open>DroidSystem.boot()\<close>; \<open>Inl\<close> is a configuration that did not load.\<close>

definition droid_boot :: "environment res \<Rightarrow> started" where
  "droid_boot cfg =
     (case and_then cfg build_system of
        Inl e \<Rightarrow> Refused e None
      | Inr None \<Rightarrow> OnCanFd
      | Inr (Some rt) \<Rightarrow> (case boot rt of (Inl e, rt1) \<Rightarrow> Refused e (Some rt1) | (Inr _, rt1) \<Rightarrow> Started rt1))"

text \<open>The frame of every command: only a \<open>DroidError\<close> during the start is caught.\<close>

definition starting :: "string \<Rightarrow> started \<Rightarrow> (runtime \<Rightarrow> int ran) \<Rightarrow> invocation option" where
  "starting tool st k =
     (case st of
        OnCanFd \<Rightarrow> None
      | Refused e rt \<Rightarrow>
          Some (if is_droid_error e then (Inr 2, [Err (tool @ '': failed to start: '' @ exn_str e)], rt) else (Inl e, [], rt))
      | Started rt \<Rightarrow> (case k rt of (r, out, rt1) \<Rightarrow> Some (r, out, Some rt1)))"

text \<open>What a process finds: its configuration, the language service, the voice service and the host\<close>

record machine =
  m_env :: "environment res"
  m_lang :: language
  m_host :: host
  m_voice :: voice

section \<open>The tool \<open>droid\<close>\<close>

definition MODES :: "string list" where
  "MODES = [''ask'', ''do'', ''explain'', ''remember'', ''forget'']"

definition apply_mode :: "string \<Rightarrow> string \<Rightarrow> string" where
  "apply_mode mode text =
     (if mode \<in> set [''remember'', ''forget''] \<and> \<not> startswith mode (lower text) then mode @ '' '' @ text else text)"

definition nl :: string where
  "nl = [CHR 0x0A]"

definition banner :: "machine \<Rightarrow> runtime \<Rightarrow> string" where
  "banner m rt =
     ''DroidOS interactive interface'' @ nl
     @ ''Body: '' @ (case rt_body rt of Some b \<Rightarrow> body_id (manifest b) | None \<Rightarrow> ''none'') @ nl
     @ ''State: '' @ state_value (cur_state (rt_state rt)) @ nl
     @ ''Language service: '' @ chain_active (m_lang m)
     @ (if chain_degraded (m_lang m) then '' (advanced model unavailable)'' else []) @ nl
     @ ''Motion permission: '' @ (if motion_permitted (rt_state rt) then ''available'' else ''unavailable'') @ nl"

definition said :: "string \<Rightarrow> printed list" where
  "said text = (if text \<noteq> [] then [Out text] else [])"

definition answer_once :: "machine \<Rightarrow> string \<Rightarrow> string \<Rightarrow> bool \<Rightarrow> runtime \<Rightarrow> int ran" where
  "answer_once m text user confirm rt =
     (case process (m_lang m) (m_host m) text (Some user) confirm None rt of
        (Inl e, rt1) \<Rightarrow> (Inl e, [], rt1)
      | (Inr resp, rt1) \<Rightarrow>
          if rp_needs_confirmation resp
          then (Inr 3, said (rp_text resp) @ [Err ''(re-run with --yes to confirm, or use interactive mode)''], rt1)
          else (Inr (if rp_outcome resp \<in> set [''approved'', ''cancelled''] then 0 else 1), said (rp_text resp), rt1))"

definition run_once :: "machine \<Rightarrow> string \<Rightarrow> string \<Rightarrow> bool \<Rightarrow> invocation option" where
  "run_once m text user confirm = starting ''droid'' (droid_boot (m_env m)) (answer_once m text user confirm)"

fun converse :: "machine \<Rightarrow> string \<Rightarrow> structured_intent option \<Rightarrow> string list \<Rightarrow> runtime \<Rightarrow> int ran" where
  "converse m user pending [] rt = (Inr 0, [Out []], rt)"
| "converse m user pending (l # ls) rt =
     (let line = strip l in
      if line = [] then converse m user pending ls rt
      else if lower line \<in> set [''quit'', ''exit'', '':q''] then (Inr 0, [], rt)
      else case process (m_lang m) (m_host m) line (Some user) False pending rt of
        (Inl e, rt1) \<Rightarrow> (Inl e, [], rt1)
      | (Inr resp, rt1) \<Rightarrow>
          (case converse m user (if rp_needs_confirmation resp then rp_pending resp else None) ls rt1 of
             (r, out, rt2) \<Rightarrow> (r, said (rp_text resp) @ out, rt2)))"

definition interactive :: "machine \<Rightarrow> string \<Rightarrow> string list \<Rightarrow> invocation option" where
  "interactive m user stdin =
     starting ''droid'' (droid_boot (m_env m))
       (\<lambda>rt. case converse m user None stdin rt of (r, out, rt1) \<Rightarrow> (r, Out (banner m rt) # out, rt1))"

fun listen :: "machine \<Rightarrow> string list \<Rightarrow> voice \<times> runtime \<Rightarrow> int ran" where
  "listen m [] w = (Inr 0, [Out []], snd w)"
| "listen m (l # ls) w =
     (let text = strip l in
      if text = [] then listen m ls w
      else case handle_utterance (m_lang m) (m_host m) text None w of
        (Inl e, w1) \<Rightarrow> (Inl e, [], snd w1)
      | (Inr result, w1) \<Rightarrow>
          (case listen m ls w1 of (r, out, rt2) \<Rightarrow>
             (r, map Out (drop (length (vo_spoken (fst w))) (vo_spoken (fst w1)))
                 @ (if \<not> vr_woke result \<and> vr_emergency result \<in> set [None, Some []] then [Out ''(no wake word, ignored)''] else [])
                 @ out, rt2)))"

definition voice_interactive :: "machine \<Rightarrow> string \<Rightarrow> string list \<Rightarrow> invocation option" where
  "voice_interactive m user stdin =
     starting ''droid'' (droid_boot (m_env m))
       (\<lambda>rt. let v = m_voice m in
          case listen m stdin (v, rt) of (r, out, rt1) \<Rightarrow>
            (r, [Out (''DroidOS voice interface (say '' @ [CHR 0x27] @ join ''/'' (vo_wake_names v) @ [CHR 0x27] @ ''). Ctrl-D to exit.''),
                 Out (''Wake word required: '' @ (if vo_require_wake v then ''True'' else ''False'')
                        @ ''. Emergency words work anytime.'' @ nl)] @ out, rt1))"

definition DROID_DOC :: string where
  "DROID_DOC = join nl
     [''`'' @ ''`droid'' @ ''`'' @ ''`, the natural-language interface (spec '' @ [CHR 0xA7] @ ''13.1).'',
      [],
      ''Accepts ordinary English and returns an English response. Runs a single command'',
      ''when given arguments, or an interactive conversation when run with none. The same'',
      ''command broker validates voice and typed input, so this CLI is a thin shell over'',
      '':meth:'' @ ''`LanguageService.process'' @ ''`.'',
      [],
      ''    droid '' @ [CHR 0x22] @ ''What can you see?'' @ [CHR 0x22],
      ''    droid do '' @ [CHR 0x22] @ ''Walk to the workshop.'' @ [CHR 0x22],
      ''    droid explain '' @ [CHR 0x22] @ ''Why did the previous task fail?'' @ [CHR 0x22],
      ''    droid remember '' @ [CHR 0x22] @ ''This shelf contains networking equipment.'' @ [CHR 0x22],
      ''    droid                       # interactive session'',
      []]"

text \<open>The flags; \<open>None\<close> is a request for help, at the first such flag.\<close>

record droid_args =
  da_user :: string
  da_confirm :: bool
  da_voice :: bool
  da_rest :: "string list"

fun scan :: "droid_args \<Rightarrow> string list \<Rightarrow> droid_args option" where
  "scan d [] = Some d"
| "scan d (a # as) =
     (if a = ''--user'' \<and> as \<noteq> [] then (case as of u # bs \<Rightarrow> scan (d\<lparr>da_user := u\<rparr>) bs | [] \<Rightarrow> None)
      else if a \<in> set [''--yes'', ''-y''] then scan (d\<lparr>da_confirm := True\<rparr>) as
      else if a = ''--voice'' then scan (d\<lparr>da_voice := True\<rparr>) as
      else if a \<in> set [''-h'', ''--help''] then None
      else scan (d\<lparr>da_rest := da_rest d @ [a]\<rparr>) as)"

definition droid_main :: "machine \<Rightarrow> string list \<Rightarrow> string list \<Rightarrow> invocation option" where
  "droid_main m argv stdin =
     (case scan \<lparr>da_user = ''operator'', da_confirm = False, da_voice = False, da_rest = []\<rparr> argv of
        None \<Rightarrow> Some (Inr 0, [Out DROID_DOC], None)
      | Some d \<Rightarrow>
          if da_voice d then voice_interactive m (da_user d) stdin
          else if da_rest d = [] then interactive m (da_user d) stdin
          else
            let (mode, rest) = (if hd (da_rest d) \<in> set MODES \<and> length (da_rest d) > 1 then (hd (da_rest d), tl (da_rest d))
                                else ([], da_rest d));
                text = join '' '' rest
            in run_once m (if mode \<noteq> [] then apply_mode mode text else text) (da_user d) (da_confirm d))"

section \<open>A stopped droid in a new process\<close>

text \<open>A process keeps a recorded stop when the runtime it ends with does; without a runtime it touched no file.\<close>

definition keeps_stop :: "invocation option \<Rightarrow> bool" where
  "keeps_stop p = (case p of Some (_, _, Some rt) \<Rightarrow> stopped rt | _ \<Rightarrow> True)"

lemma boot_of_built:
  assumes "build_system env = Inr (Some rt)" "stop_recorded (env_latch_file env)"
  shows "stopped (snd (boot rt))"
  using boot_stopped built_system [OF assms(1)] assms(2) by simp

lemma starting_keeps_stop:
  assumes "\<And>env. cfg = Inr env \<Longrightarrow> stop_recorded (env_latch_file env)" "\<And>rt. stopped rt \<Longrightarrow> stopped (snd (snd (k rt)))"
  shows "keeps_stop (starting tool (droid_boot cfg) k)"
proof (cases "and_then cfg build_system")
  case (Inr built)
  then obtain env where env: "cfg = Inr env" "build_system env = Inr built" by (cases cfg) (auto simp: and_then_def)
  show ?thesis
  proof (cases built)
    case (Some rt)
    have s: "stopped (snd (boot rt))" using boot_of_built assms(1) env Some by blast
    obtain r rt1 where b: "boot rt = (r, rt1)" by (cases "boot rt")
    have "stopped rt1" "stopped (snd (snd (k rt1)))" using s b assms(2) by auto
    then show ?thesis
      using Inr Some b by (cases r) (auto simp: keeps_stop_def starting_def droid_boot_def case_prod_beta)
  qed (use Inr in \<open>simp add: keeps_stop_def starting_def droid_boot_def\<close>)
qed (simp add: keeps_stop_def starting_def droid_boot_def)

lemma stopped_answer: "stopped rt \<Longrightarrow> stopped (snd (snd (answer_once m s user confirm rt)))"
  using stopped_process [of rt "m_lang m" "m_host m" s "Some user" confirm None]
  by (auto simp: answer_once_def case_prod_beta split: sum.split)

lemma stopped_converse: "stopped rt \<Longrightarrow> stopped (snd (snd (converse m user pending ls rt)))"
proof (induction ls arbitrary: pending rt)
  case (Cons l ls)
  obtain r rt1 where p: "process (m_lang m) (m_host m) (strip l) (Some user) False pending rt = (r, rt1)"
    by (cases "process (m_lang m) (m_host m) (strip l) (Some user) False pending rt")
  have "stopped rt1" using stopped_process [OF Cons.prems, of "m_lang m" "m_host m" "strip l" "Some user" False pending] p by simp
  then show ?case using Cons.IH Cons.prems p by (cases r) (simp_all add: Let_def case_prod_beta)
qed simp

lemma stopped_listen: "stopped (snd w) \<Longrightarrow> stopped (snd (snd (listen m ls w)))"
proof (induction ls arbitrary: w)
  case (Cons l ls)
  obtain v rt where w: "w = (v, rt)" by (cases w)
  obtain r w1 where p: "handle_utterance (m_lang m) (m_host m) (strip l) None w = (r, w1)"
    by (cases "handle_utterance (m_lang m) (m_host m) (strip l) None w")
  have "stopped (snd w1)" using stopped_utterance [of rt "m_lang m" "m_host m" "strip l" None v] Cons.prems p by (simp add: w)
  then show ?case using Cons.IH Cons.prems p by (cases r) (simp_all add: Let_def case_prod_beta)
qed simp

lemma droid_keeps_stop:
  assumes "\<And>env. m_env m = Inr env \<Longrightarrow> stop_recorded (env_latch_file env)"
  shows "keeps_stop (droid_main m argv stdin)"
proof -
  note k = starting_keeps_stop [OF assms]
  have "keeps_stop (run_once m s user confirm)" for s user confirm
    unfolding run_once_def by (rule k) (simp_all add: stopped_answer)
  moreover have "keeps_stop (interactive m user stdin)" for user
    unfolding interactive_def by (rule k) (simp_all add: stopped_converse case_prod_beta)
  moreover have "keeps_stop (voice_interactive m user stdin)" for user
    unfolding voice_interactive_def by (rule k) (simp_all add: stopped_listen case_prod_beta Let_def)
  ultimately show ?thesis
    by (auto simp: droid_main_def Let_def keeps_stop_def [of "Some (Inr 0, _, None)"] split: option.split)
qed

end
