(* ===== verification/RosNodes.thy ===== *)
theory RosNodes
  imports Cli
begin

text \<open>
  The bridge to ROS 2, \<open>src/ros2/droid_nodes\<close>: the nodes for the supervisor, the safety gateway and the language service,
  which share one booted brain. A callback is a function on the runtime; messages are records with the
  fields that the callback reads or fills.

  The client library is outside: it calls the callbacks, one at a time, and delivers what they return or publish. How
  the text of an intent's arguments is decoded (\<open>json.loads\<close>) is the parameter \<open>loads\<close>; only texts of objects are
  decoded.
\<close>

section \<open>The shared brain\<close>

text \<open>\<open>get_brain()\<close>: the first call boots, later calls find the same brain; a boot that raises leaves none.\<close>

definition get_brain :: "environment res \<Rightarrow> runtime option \<Rightarrow> (runtime res \<times> runtime option) option" where
  "get_brain cfg brain =
     (case brain of
        Some rt \<Rightarrow> Some (Inr rt, brain)
      | None \<Rightarrow>
          (case droid_boot cfg of
             OnCanFd \<Rightarrow> None | Refused e _ \<Rightarrow> Some (Inl e, None) | Started rt \<Rightarrow> Some (Inr rt, Some rt)))"

section \<open>The language node\<close>

record intent_msg =
  im_intent :: string
  im_arguments_json :: string
  im_requires_motion :: bool
  im_requested_speed :: string
  im_source :: string

record request_msg =
  rq_intent :: intent_msg
  rq_user :: string
  rq_confirmed :: bool

record validate_response =
  vs_outcome :: string
  vs_reason :: string
  vs_confirm_prompt :: string
  vs_failed_checks :: "string list"

datatype goal_status = Aborted | Succeeded

record task_response =
  ts_ok :: bool
  ts_result_json :: string
  ts_error :: string
  ts_goal :: goal_status

definition str_or :: "string \<Rightarrow> string \<Rightarrow> string" where
  "str_or s d = (if s = [] then d else s)"

definition to_intent :: "(string \<Rightarrow> pydict res) \<Rightarrow> intent_msg \<Rightarrow> structured_intent res" where
  "to_intent loads m =
     and_then (loads (str_or (im_arguments_json m) ''{}'')) (\<lambda>args.
       Inr \<lparr>i_intent = im_intent m, i_arguments = args, i_requires_motion = im_requires_motion m,
            i_requested_speed = str_or (im_requested_speed m) ''normal'', i_requested_output = ''text'', i_raw_text = [],
            i_source = str_or (im_source m) ''llm'', i_confidence = 1\<rparr>)"

definition validate_cb :: "(string \<Rightarrow> pydict res) \<Rightarrow> request_msg \<Rightarrow> runtime \<Rightarrow> validate_response res \<times> runtime" where
  "validate_cb loads req rt =
     (let u = resolve_user (rt_auth rt) (Some (rq_user req)) in
      case to_intent loads (rq_intent req) of
        Inl e \<Rightarrow> (Inl e, rt)
      | Inr intent \<Rightarrow>
          (case validate (tool_registry None) intent u (rq_confirmed req) rt of (dec, rt1) \<Rightarrow>
             (Inr \<lparr>vs_outcome = outcome_value (dec_outcome dec), vs_reason = dec_reason dec, vs_confirm_prompt = dec_prompt dec,
                   vs_failed_checks = map ck_name (filter (\<lambda>c. \<not> ck_ok c) (dec_checks dec))\<rparr>, rt1)))"

definition execute_cb :: "(string \<Rightarrow> pydict res) \<Rightarrow> host \<Rightarrow> request_msg \<Rightarrow> runtime \<Rightarrow> task_response res \<times> runtime" where
  "execute_cb loads h req rt =
     (let u = resolve_user (rt_auth rt) (Some (rq_user req)) in
      case to_intent loads (rq_intent req) of
        Inl e \<Rightarrow> (Inl e, rt)
      | Inr intent \<Rightarrow>
          (case validate (tool_registry None) intent u True rt of (dec, rt1) \<Rightarrow>
             if \<not> approved dec
             then (Inr \<lparr>ts_ok = False, ts_result_json = [], ts_error = dec_reason dec, ts_goal = Aborted\<rparr>, rt1)
             else if \<not> has_service rt1 ''executive'' then (Inl (no_attr ''run_intent''), rt1)
             else (case run_intent h dec (user_name u) rt1 of (r, rt2) \<Rightarrow>
               (Inr \<lparr>ts_ok = tr_ok r, ts_result_json = json_dumps (float_repr rt) (PDict (tr_data r)), ts_error = tr_error r,
                     ts_goal = Succeeded\<rparr>, rt2))))"

section \<open>The safety gateway node\<close>

record safety_msg =
  sm_alive :: bool
  sm_estop_engaged :: bool
  sm_power_enabled :: bool
  sm_watchdog_ok :: bool
  sm_movement_permitted :: bool
  sm_faults :: "string list"
  sm_last_host_contact_age_s :: real

definition publish_safety :: "runtime \<Rightarrow> safety_msg \<times> runtime" where
  "publish_safety rt =
     (case gw_ctl_status rt of (st, rt1) \<Rightarrow>
        (\<lparr>sm_alive = st_alive st, sm_estop_engaged = st_estop_engaged st, sm_power_enabled = st_power_enabled st,
          sm_watchdog_ok = st_watchdog_ok st, sm_movement_permitted = movement_permitted st, sm_faults = st_faults st,
          sm_last_host_contact_age_s = st_last_host_contact_age_s st\<rparr>, rt1))"

type_synonym trigger_response = "bool \<times> string"

definition estop_cb :: "runtime \<Rightarrow> trigger_response \<times> runtime" where
  "estop_cb rt = ((True, ''emergency stop engaged; motor power removed''), engage_estop ''ros_service'' rt)"

definition reset_cb :: "runtime \<Rightarrow> trigger_response \<times> runtime" where
  "reset_cb rt = ((True, ''e-stop latch cleared; reboot to re-arm''), snd (reset_estop rt))"

section \<open>The supervisor node\<close>

record droid_msg =
  dm_state :: string
  dm_body_id :: string
  dm_backend :: string
  dm_motion_permitted :: bool
  dm_inhibit_reasons :: "string list"
  dm_battery_percent :: real

record supervisor_node =
  sn_configured :: bool
  sn_timer :: bool

definition node_on_configure :: "supervisor_node \<Rightarrow> supervisor_node" where
  "node_on_configure n = n\<lparr>sn_configured := True\<rparr>"

definition node_on_activate :: "supervisor_node \<Rightarrow> supervisor_node" where
  "node_on_activate n = n\<lparr>sn_timer := True\<rparr>"

definition node_on_deactivate :: "supervisor_node \<Rightarrow> supervisor_node" where
  "node_on_deactivate n = n\<lparr>sn_timer := False\<rparr>"

definition publish_state :: "runtime \<Rightarrow> droid_msg \<times> runtime" where
  "publish_state rt =
     (case assess_readiness rt of (r, rt1) \<Rightarrow>
        (\<lparr>dm_state = state_value (cur_state (rt_state rt1)),
          dm_body_id = (case rt_body rt1 of Some b \<Rightarrow> body_id (manifest b) | None \<Rightarrow> []),
          dm_backend = (case rt_body rt1 of Some b \<Rightarrow> backend_kind b | None \<Rightarrow> []),
          dm_motion_permitted = motion_permitted (rt_state rt1), dm_inhibit_reasons = inhibit_reasons r,
          dm_battery_percent = (case rt_backend rt1 of Some b \<Rightarrow> bt_percent (battery b) | None \<Rightarrow> 0)\<rparr>, rt1))"

section \<open>Callbacks in any order\<close>

inductive ros_step :: "runtime \<Rightarrow> runtime \<Rightarrow> bool" where
  validated: "validate_cb loads req rt = (r, rt') \<Longrightarrow> ros_step rt rt'"
| executed: "execute_cb loads h req rt = (r, rt') \<Longrightarrow> ros_step rt rt'"
| published_safety: "publish_safety rt = (msg, rt') \<Longrightarrow> ros_step rt rt'"
| published_state: "publish_state rt = (msg, rt') \<Longrightarrow> ros_step rt rt'"
| estop: "estop_cb rt = (r, rt') \<Longrightarrow> ros_step rt rt'"

lemma stopped_validate_cb: "stopped rt \<Longrightarrow> stopped (snd (validate_cb loads req rt))"
  using stopped_observes [OF observes_validate] by (simp add: validate_cb_def Let_def case_prod_beta split: sum.split)

lemma stopped_execute_cb: "stopped rt \<Longrightarrow> stopped (snd (execute_cb loads h req rt))"
  using stopped_observes [OF observes_validate] stopped_run_intent
  by (simp add: execute_cb_def Let_def case_prod_beta split: sum.split)

lemma stopped_publishers: "stopped rt \<Longrightarrow> stopped (snd (publish_safety rt))" "stopped rt \<Longrightarrow> stopped (snd (publish_state rt))"
  using stopped_observes [OF observes_gw(2)] stopped_observes [OF observes_assess]
  by (simp_all add: publish_safety_def publish_state_def case_prod_beta)

lemma ros_step_stopped: "ros_step rt rt' \<Longrightarrow> stopped rt \<Longrightarrow> stopped rt'"
proof (induction rule: ros_step.induct)
  case (validated loads req rt r rt')
  then show ?case using stopped_validate_cb [of rt loads req] by simp
next
  case (executed loads h req rt r rt')
  then show ?case using stopped_execute_cb [of rt loads h req] by simp
next
  case (published_safety rt msg rt')
  then show ?case using stopped_publishers(1) [of rt] by simp
next
  case (published_state rt msg rt')
  then show ?case using stopped_publishers(2) [of rt] by simp
next
  case (estop rt r rt')
  then show ?case using stopped_engage [of rt "''ros_service''"] by (simp add: estop_cb_def)
qed

section \<open>Properties\<close>

text \<open>The emergency-stop service always works: from any state of the brain it engages and latches the stop, opens both
  contactors and records it, and after it no sequence of callbacks other than the reset service, whatever intents they
  carry, clears the latch or closes a contactor.\<close>

theorem ros_estop_holds:
  assumes "writable (latch_file rt)" "ros_step\<^sup>*\<^sup>* (snd (estop_cb rt)) rt'"
  shows "c_estop (ctl rt') \<and> powers_off rt' \<and> stop_recorded (latch_file rt')"
proof -
  have s: "stopped (snd (estop_cb rt))"
    using assms(1) stop_state_estop [of "''ros_service''" rt] engage_powers_off [of "''ros_service''" rt] engage_latch [of "''ros_service''" rt]
    by (simp add: estop_cb_def stopped_def stop_recorded_def write_doc_def)
  from assms(2) s have "stopped rt'" by (induction rule: rtranclp_induct) (auto dest: ros_step_stopped)
  then show ?thesis by (simp add: stopped_def)
qed

theorem ros_estop_holds_witness:
  "c_estop (ctl (snd (execute_cb (\<lambda>_. Inr []) example_host
      \<lparr>rq_intent = \<lparr>im_intent = ''navigation.go_to'', im_arguments_json = [], im_requires_motion = True, im_requested_speed = [],
        im_source = []\<rparr>, rq_user = ''ann'', rq_confirmed = True\<rparr> (snd (estop_cb active_rt)))))"
proof -
  have "writable (latch_file active_rt)"
    by (simp add: active_rt_def example_rt_def example_env_def fresh_file_def wire_def new_runtime_def SERVICE_NAMES_def)
  moreover have "ros_step (snd (estop_cb active_rt)) (snd (execute_cb loads h req (snd (estop_cb active_rt))))" for loads h req
    by (rule executed [OF prod.collapse [symmetric]])
  ultimately show ?thesis using ros_estop_holds [OF _ r_into_rtranclp] by blast
qed

text \<open>The action server confirms for the user: an owner's request to shut down, which the validation service answers
  with a demand for confirmation, is run to its end by \<open>ExecuteTask\<close> although nobody confirmed it.\<close>

theorem ros_execute_skips_confirmation:
  assumes "im_intent (rq_intent req) = ''system.shutdown''" "loads (str_or (im_arguments_json (rq_intent req)) ''{}'') = Inr args"
    "user_role (resolve_user (rt_auth rt) (Some (rq_user req))) = Owner" "rt_body rt \<noteq> None" "\<not> rq_confirmed req"
    "has_service rt ''executive''"
  shows "(\<exists>resp. fst (validate_cb loads req rt) = Inr resp \<and> vs_outcome resp = outcome_value CONFIRM)
    \<and> (\<exists>resp dec. execute_cb loads h req rt = (Inr resp, snd (run_intent h dec (user_name (resolve_user (rt_auth rt) (Some (rq_user req)))) rt))
        \<and> ts_goal resp = Succeeded \<and> i_intent (dec_intent dec) = ''system.shutdown'')"
proof -
  obtain i where i: "to_intent loads (rq_intent req) = Inr i" "i_intent i = ''system.shutdown''"
    using assms(1,2) by (simp add: to_intent_def)
  let ?u = "resolve_user (rt_auth rt) (Some (rq_user req))"
  have "dec_outcome (fst (validate (tool_registry None) i ?u c rt)) = (if c then APPROVED else CONFIRM)" for c
    using shutdown_outcome [OF i(2) assms(4), of ?u c] assms(3) by simp
  moreover have "snd (validate (tool_registry None) i ?u c rt) = rt" for c
    unfolding validate_def i(2) get_shutdown_tool
    by (simp add: shutdown_tool_def case_prod_beta Let_def confirm_gate_facts)
  moreover have "dec_intent (fst (validate (tool_registry None) i ?u True rt)) = i"
    unfolding validate_def i(2) get_shutdown_tool
    by (simp add: shutdown_tool_def case_prod_beta Let_def confirm_gate_def decide_def)
  ultimately show ?thesis
    using assms(5,6) i
    by (simp add: validate_cb_def execute_cb_def Let_def case_prod_beta approved_def)
      (intro exI [of _ "fst (validate (tool_registry None) i ?u True rt)"], simp)
qed

end
