(* ===== verification/VoiceEngines.thy ===== *)
theory VoiceEngines
  imports Voice MiniYaml
begin

text \<open>
  The optional audio engines, \<open>services/voice_engines.py\<close>: the factory and the engine whose speech libraries are loaded
  when it is built. The libraries are parameters: whether they can be imported, and the exception that
  loading a model raises, if any.
\<close>

record audio_libs =
  has_vosk :: bool
  has_piper :: bool
  vosk_error :: "pyval \<Rightarrow> exn option"
  piper_error :: "pyval \<Rightarrow> exn option"

record audio_engine =
  ae_asr_model :: pyval
  ae_tts_model :: pyval
  ae_sample_rate :: int

datatype engine = TextMode | Audio audio_engine

definition single_quoted :: "string \<Rightarrow> string" where
  "single_quoted s = [CHR 0x27] @ s @ [CHR 0x27]"

definition load_asr :: "audio_libs \<Rightarrow> pyval \<Rightarrow> unit res" where
  "load_asr libs model =
     (if \<not> has_vosk libs
      then Inl (RuntimeError (''AudioEngine needs the '' @ single_quoted ''vosk'' @ '' package and a model. ''
             @ ''Install vosk and set voice.asr_model, or use the default text engine.''))
      else case vosk_error libs model of Some e \<Rightarrow> Inl e | None \<Rightarrow> Inr ())"

definition load_tts :: "audio_libs \<Rightarrow> pyval \<Rightarrow> unit res" where
  "load_tts libs model =
     (if \<not> has_piper libs
      then Inl (RuntimeError (''AudioEngine needs a TTS backend (e.g. '' @ single_quoted ''piper'' @ ''). ''
             @ ''Install it and set voice.tts_model, or use the default text engine.''))
      else case piper_error libs model of Some e \<Rightarrow> Inl e | None \<Rightarrow> Inr ())"

definition new_audio_engine :: "audio_libs \<Rightarrow> pyval \<Rightarrow> pyval \<Rightarrow> int \<Rightarrow> engine res" where
  "new_audio_engine libs asr tts rate =
     and_then (load_asr libs asr) (\<lambda>_. and_then (load_tts libs tts) (\<lambda>_.
       Inr (Audio \<lparr>ae_asr_model = asr, ae_tts_model = tts, ae_sample_rate = rate\<rparr>)))"

definition audio_capture :: "audio_engine \<Rightarrow> string option res" where
  "audio_capture a = Inl (NotImplementedError ''wire AudioEngine.capture to your audio input'')"

definition audio_speak :: "audio_engine \<Rightarrow> string \<Rightarrow> unit res" where
  "audio_speak a text = Inl (NotImplementedError ''wire AudioEngine.speak to your audio output'')"

text \<open>\<open>int(v)\<close>\<close>

definition int_of :: "pyval \<Rightarrow> int res" where
  "int_of v =
     (case v of
        PInt i \<Rightarrow> Inr i | PBool b \<Rightarrow> Inr (if b then 1 else 0) | PFloat r \<Rightarrow> Inr (trunc_int r)
      | PStr s \<Rightarrow> (case py_int (strip s) of Some i \<Rightarrow> Inr i
                  | None \<Rightarrow> Inl (ValueError (''invalid literal for int() with base 10: '' @ repr_str s)))
      | _ \<Rightarrow> Inl (TypeError (''int() argument must be a string, a bytes-like object or a real number, not '' @ repr_str (py_type_name v))))"

definition build_engine :: "audio_libs \<Rightarrow> pyval \<Rightarrow> engine res" where
  "build_engine libs spec =
     and_then (val_get (if truthy spec then spec else PDict []) ''engine'' (PStr ''text'')) (\<lambda>kind.
       if kind = PStr ''audio'' then
         and_then (val_get spec ''asr_model'' (PStr [])) (\<lambda>asr.
         and_then (val_get spec ''tts_model'' (PStr [])) (\<lambda>tts.
         and_then (val_get spec ''sample_rate'' (PInt 16000)) (\<lambda>rate.
         and_then (int_of rate) (new_audio_engine libs asr tts))))
       else Inr TextMode)"

text \<open>An audio engine is never replaced silently: a specification that asks for one yields it with its models loaded, or an
  exception; every other specification, a misspelt one included, yields the text engine.\<close>

theorem audio_never_degrades_silently:
  "build_engine libs (PDict m) = Inr e \<Longrightarrow>
     (dict_get m ''engine'' (PStr ''text'') = PStr ''audio'') = (\<exists>a. e = Audio a \<and> load_asr libs (ae_asr_model a) = Inr ()
        \<and> load_tts libs (ae_tts_model a) = Inr ())"
  by (cases m) (auto simp: build_engine_def val_get_def dict_get_def new_audio_engine_def and_then_eq_Inr split: if_splits)

end
