(* ===== verification/Droidctl.thy ===== *)
theory Droidctl
  imports Cli
begin

text \<open>
  The deterministic command line, \<open>cli/droidctl.py\<close>: its commands over the services, with every text they print.

  The command line is declared to \<open>argparse\<close> as \<open>build_parser\<close> does; reading it is a parameter, which answers with
  the parsed arguments or ends the process itself (usage errors and \<open>--help\<close>). The numbers of a body's
  capabilities are kept as reals, so they are printed as floats.
\<close>

section \<open>The command line\<close>

text \<open>An argument: a positional one with its choices, whether it may be missing (\<open>nargs="?"\<close>) and its default; an option with
  a value; a flag\<close>

datatype arg =
    Positional string "string list option" bool "string option"
  | Valued string "string list"
  | Flag string

definition build_parser :: "(string \<times> arg list) list" where
  "build_parser =
     [(''status'', [Flag ''--json'']),
      (''body'', [Positional ''action'' (Some [''show'', ''list'', ''validate'', ''set'']) False None,
                  Positional ''id'' None True None, Valued ''--backend'' [''simulation'', ''physical''], Flag ''--json'']),
      (''safety'', [Positional ''action'' (Some [''status'', ''estop'', ''reset'']) False None, Flag ''--json'']),
      (''diagnostics'', [Positional ''action'' None True (Some ''list''), Flag ''--json'']),
      (''services'', []),
      (''boot-report'', []),
      (''task'', [Positional ''action'' (Some [''cancel'']) False None]),
      (''update'', [Positional ''action'' (Some [''status'', ''install'', ''rollback'']) True (Some ''status''),
                    Positional ''bundle'' None True None, Flag ''--json'']),
      (''voice'', [Positional ''action'' None True (Some ''status''), Flag ''--json''])]"

record namespace =
  ns_command :: string
  ns_action :: "string option"
  ns_id :: "string option"
  ns_backend :: "string option"
  ns_bundle :: "string option"
  ns_json :: bool

text \<open>\<open>parse_args\<close>: the parsed arguments, or the exit status of \<open>SystemExit\<close> and what was printed\<close>

type_synonym arg_parser = "(string \<times> arg list) list \<Rightarrow> string list \<Rightarrow> (int \<times> printed list) + namespace"

section \<open>Commands\<close>

definition prints :: "string list \<Rightarrow> printed list" where
  "prints ls = map Out ls"

definition VERSION :: string where
  "VERSION = ''1.0.0''"

definition status_dict :: "machine \<Rightarrow> runtime \<Rightarrow> pydict res \<times> runtime" where
  "status_dict m rt =
     (case (if has_service rt ''diagnostics'' then summary (m_host m) rt else (Inr [], rt)) of
        (Inl e, rt1) \<Rightarrow> (Inl e, rt1)
      | (Inr diag, rt1) \<Rightarrow>
          (case (if has_safety rt1 then gw_status rt1 else ([], rt1)) of (safety, rt2) \<Rightarrow>
            (Inr [(''name'', PStr (droid_name rt1)),
              (''version'', PStr VERSION),
              (''state'', state_val rt1),
              (''body'', opt_val (\<lambda>b. PStr (body_id (manifest b))) (rt_body rt1)),
              (''backend'', opt_val (\<lambda>b. PStr (backend_kind b)) (rt_body rt1)),
              (''locomotion_type'', opt_val (\<lambda>b. PStr (locomotion_type (manifest b))) (rt_body rt1)),
              (''battery_percent'', opt_val (\<lambda>b. PFloat (py_round (bt_percent (battery b)) 1)) (rt_backend rt)),
              (''motion_permitted'', PBool (motion_permitted (rt_state rt1))),
              (''readiness'', PStr (state_value (r_state (rt_readiness rt1)))),
              (''inhibit_reasons'', PList (map PStr (inhibit_reasons (rt_readiness rt1)))),
              (''safety'', PDict safety),
              (''language_provider'', PStr (chain_active (m_lang m))),
              (''language_degraded'', PBool (chain_degraded (m_lang m))),
              (''diagnostics_overall'', dict_get diag ''overall'' PNone),
              (''fault_count'', dict_get diag ''fault_count'' (PInt 0))], rt2)))"

definition cmd_status :: "machine \<Rightarrow> namespace \<Rightarrow> runtime \<Rightarrow> int ran" where
  "cmd_status m args rt =
     (let fr = float_repr rt in
      case status_dict m rt of
        (Inl e, rt1) \<Rightarrow> (Inl e, [], rt1)
      | (Inr d, rt1) \<Rightarrow>
          let shown = (\<lambda>k. py_str fr (dict_get d k PNone)); val = (\<lambda>k. dict_get d k PNone) in
          if ns_json args then (Inr 0, prints [as_json fr (PDict d)], rt1)
          else
            (Inr 0, prints (kv fr
               [(''name'', val ''name''), (''version'', val ''version''), (''state'', val ''state''),
                (''body'', PStr (shown ''body'' @ '' ('' @ shown ''backend'' @ '', '' @ shown ''locomotion_type'' @ '')'')),
                (''battery'', PStr (shown ''battery_percent'' @ ''%'')),
                (''motion permitted'', val ''motion_permitted''),
                (''readiness'', val ''readiness''),
                (''language'', PStr (shown ''language_provider'' @ (if truthy (val ''language_degraded'') then '' (degraded)'' else []))),
                (''diagnostics'', PStr (shown ''diagnostics_overall'' @ '' ('' @ shown ''fault_count'' @ '' fault(s))''))]
              # (let reasons = inhibit_reasons (rt_readiness rt1) in
                 if reasons \<noteq> [] then (nl @ ''motion inhibited:'') # map (\<lambda>r. ''  - '' @ r) reasons else [])), rt1))"

definition cap_val :: "cap_value \<Rightarrow> pyval" where
  "cap_val c = (case c of CapBool b \<Rightarrow> PBool b | CapNum r \<Rightarrow> PFloat r | CapExperimental \<Rightarrow> PStr ''experimental'')"

definition body_to_dict :: "loaded_body \<Rightarrow> pydict" where
  "body_to_dict b =
     (let mf = manifest b in
      [(''body_id'', PStr (body_id mf)), (''name'', PStr (m_name mf)), (''model_family'', PStr (model_family mf)),
       (''revision'', PStr (revision mf)), (''interface_revision'', PStr (interface_revision mf)),
       (''locomotion_type'', PStr (locomotion_type mf)), (''hardware_profile'', PStr (hardware_profile mf)),
       (''backend'', PStr (backend_kind b)), (''required_sensors'', PList (map PStr (required_sensors mf))),
       (''required_actuators'', PList (map PStr (required_actuators mf))),
       (''capabilities'', PDict (map (\<lambda>(k, c). (k, PDict (map (\<lambda>(n, v). (n, cap_val v)) c))) (caps_raw (caps b)))),
       (''issues'', PList (map PStr (issues b)))])"

definition body_summary :: "(real \<Rightarrow> string) \<Rightarrow> loaded_body \<Rightarrow> string res" where
  "body_summary fr b =
     and_then (locomotion_summary (caps b)) (\<lambda>loco.
       let mf = manifest b in
       Inr (kv fr [(''body_id'', PStr (body_id mf)), (''name'', PStr (m_name mf)), (''model_family'', PStr (model_family mf)),
         (''locomotion'', PStr (locomotion_type mf)), (''backend'', PStr (backend_kind b)),
         (''interface_rev'', PStr (interface_revision mf)), (''locomotion_summary'', PStr loco),
         (''required_sensors'', PStr (join '', '' (required_sensors mf)))]))"

definition issue_fatal :: "string \<Rightarrow> bool" where
  "issue_fatal i = (\<not> contains ''placeholder'' i)"

definition validate_report :: "string list \<Rightarrow> int \<times> printed list" where
  "validate_report is =
     (if is = [] then (0, prints [''body OK: no issues''])
      else (if list_ex issue_fatal is then 1 else 0,
            prints (''body issues:'' # map (\<lambda>i. ''  ['' @ (if issue_fatal i then ''FATAL'' else ''warn '') @ ''] '' @ i) is)))"

definition cmd_body :: "machine \<Rightarrow> namespace \<Rightarrow> runtime \<Rightarrow> int ran" where
  "cmd_body m args rt =
     (let fr = float_repr rt; action = ns_action args in
      if action = Some ''list'' then (Inr 0, prints (available_bodies (bodies rt)), rt)
      else if action = Some ''show'' then
        (case rt_body rt of
           None \<Rightarrow> (Inl (no_attr (if ns_json args then ''to_dict'' else ''body_id'')), [], rt)
         | Some b \<Rightarrow>
             if ns_json args then (Inr 0, prints [as_json fr (PDict (body_to_dict b))], rt)
             else (case body_summary fr b of Inl e \<Rightarrow> (Inl e, [], rt) | Inr s \<Rightarrow> (Inr 0, prints [s], rt)))
      else if action = Some ''validate'' then
        (case rt_body rt of
           None \<Rightarrow> (Inl (no_attr ''issues''), [], rt)
         | Some b \<Rightarrow> (case validate_report (issues b) of (code, out) \<Rightarrow> (Inr code, out, rt)))
      else if action = Some ''set'' then
        (case ns_id args of
           None \<Rightarrow> (Inr 2, [Err ''droidctl body set <id> [--backend sim|physical]''], rt)
         | Some i \<Rightarrow>
             if i = [] then (Inr 2, [Err ''droidctl body set <id> [--backend sim|physical]''], rt)
             else case set_active i (ns_backend args) (bodies rt) of
               (Inl e, bm) \<Rightarrow>
                 (if is_droid_error e then (Inr 1, [Err (''error: '' @ exn_str e)], rt\<lparr>bodies := bm\<rparr>)
                  else (Inl e, [], rt\<lparr>bodies := bm\<rparr>))
             | (Inr sel, bm) \<Rightarrow>
                 (Inr 0, prints [''active body set to '' @ py_str fr (dict_get sel ''body_id'' PNone) @ '' (''
                    @ py_str fr (dict_get sel ''backend'' PNone) @ ''); applies on next boot''], rt\<lparr>bodies := bm\<rparr>))
      else (Inr 2, [], rt))"

definition cmd_safety :: "machine \<Rightarrow> namespace \<Rightarrow> runtime \<Rightarrow> int ran" where
  "cmd_safety m args rt =
     (let fr = float_repr rt; action = ns_action args in
      if \<not> has_safety rt then (Inr 2, [Err ''safety gateway unavailable''], rt)
      else if action = Some ''status'' then
        (case gw_status rt of (d, rt1) \<Rightarrow> (Inr 0, prints [if ns_json args then as_json fr (PDict d) else kv fr d], rt1))
      else if action = Some ''estop'' then
        (Inr 0, prints [''EMERGENCY STOP engaged; motor power removed''], engage_estop ''droidctl'' rt)
      else if action = Some ''reset'' then
        (Inr 0, prints [''emergency-stop latch cleared; reboot to re-arm''], snd (reset_estop rt))
      else (Inr 2, [], rt))"

definition print_table :: "(real \<Rightarrow> string) \<Rightarrow> string list \<Rightarrow> pyval list list \<Rightarrow> runtime \<Rightarrow> int ran" where
  "print_table fr headers rows rt =
     (case table fr headers rows of Inl e \<Rightarrow> (Inl e, [], rt) | Inr s \<Rightarrow> (Inr 0, prints [s], rt))"

definition cmd_diagnostics :: "machine \<Rightarrow> namespace \<Rightarrow> runtime \<Rightarrow> int ran" where
  "cmd_diagnostics m args rt =
     (let fr = float_repr rt in
      if \<not> has_service rt ''diagnostics'' then (Inl (no_attr ''collect''), [], rt)
      else case collect (m_host m) rt of
        (Inl e, rt1) \<Rightarrow> (Inl e, [], rt1)
      | (Inr items, rt1) \<Rightarrow>
          if ns_json args then (Inr 0, prints [as_json fr (PList (map (PDict \<circ> diag_to_dict) items))], rt1)
          else print_table fr [''component'', ''level'', ''message'']
            (map (\<lambda>d. [PStr (d_name d), PStr (level_label (d_level d)), PStr (d_message d)]) items) rt1)"

definition cmd_services :: "machine \<Rightarrow> namespace \<Rightarrow> runtime \<Rightarrow> int ran" where
  "cmd_services m args rt =
     print_table (float_repr rt) [''service'', ''state'', ''restarts'']
       (map (\<lambda>s. [PStr (svc_name s), PStr (lifecycle_value (svc_state s)), PInt (int (restart_count s))]) (all_services rt)) rt"

definition cmd_boot_report :: "machine \<Rightarrow> namespace \<Rightarrow> runtime \<Rightarrow> int ran" where
  "cmd_boot_report m args rt =
     print_table (float_repr rt) [''step'', ''ok'', ''detail'']
       (map (\<lambda>s. [PStr (bs_name s), PStr (if bs_ok s then ''yes'' else ''NO''), PStr (bs_detail s)]) (boot_report rt)) rt"

definition cmd_task :: "machine \<Rightarrow> namespace \<Rightarrow> runtime \<Rightarrow> int ran" where
  "cmd_task m args rt =
     (if ns_action args = Some ''cancel'' then
        let rt1 = (if has_service rt ''executive'' then exec_cancel rt else rt) in
        if \<not> has_service rt1 ''motion'' then (Inl (no_attr ''stop''), [], rt1)
        else (case motion_stop rt1 of
          (Inl e, rt2) \<Rightarrow> (Inl e, [], rt2)
        | (Inr _, rt2) \<Rightarrow> (Inr 0, prints [''cancel signalled; motion stopped''], rt2))
      else (Inr 2, [], rt))"

definition exit_of :: "pydict \<Rightarrow> int" where
  "exit_of result = (if truthy (dict_get result ''ok'' PNone) then 0 else 1)"

definition cmd_update :: "machine \<Rightarrow> namespace \<Rightarrow> runtime \<Rightarrow> int ran" where
  "cmd_update m args rt =
     (let fr = float_repr rt; u = rt_update rt; usage = [Err ''droidctl update install <bundle.json>''] in
      if \<not> has_service rt ''update'' then (Inr 2, [Err ''update service unavailable''], rt)
      else if ns_action args = Some ''install'' then
        (case ns_bundle args of
           None \<Rightarrow> (Inr 2, usage, rt)
         | Some p \<Rightarrow>
             if p = [] then (Inr 2, usage, rt)
             else case install fr (payload_digest rt) (bundle_at rt p) u of
               (Inl e, u1) \<Rightarrow> (Inl e, [], rt\<lparr>rt_update := u1\<rparr>)
             | (Inr (result, recs), u1) \<Rightarrow>
                 (Inr (exit_of result), prints [if ns_json args then as_json fr (PDict result) else kv fr result],
                  fold emit_audit recs (rt\<lparr>rt_update := u1\<rparr>)))
      else if ns_action args = Some ''rollback'' then
        (case rollback u of (result, u1) \<Rightarrow> (Inr (exit_of result), prints [kv fr result], rt\<lparr>rt_update := u1\<rparr>))
      else
        let st = update_status (uinfo u) in
        (Inr 0, prints [if ns_json args then as_json fr (PDict st)
           else kv fr (map (\<lambda>k. (k, dict_get st k PNone))
             [''running_version'', ''active_slot'', ''next_boot'', ''update_available'', ''last_result''])], rt))"

definition cmd_voice :: "machine \<Rightarrow> namespace \<Rightarrow> runtime \<Rightarrow> int ran" where
  "cmd_voice m args rt =
     (if \<not> has_service rt ''voice'' then (Inr 2, [Err ''voice service unavailable''], rt)
      else (Inr 0, prints (map (\<lambda>d. if ns_json args then as_json (float_repr rt) (PDict (diag_to_dict d))
                                    else kv (float_repr rt) (d_values d)) (voice_diagnostics (m_host m))), rt))"

definition DISPATCH :: "(string \<times> (machine \<Rightarrow> namespace \<Rightarrow> runtime \<Rightarrow> int ran)) list" where
  "DISPATCH =
     [(''status'', cmd_status), (''body'', cmd_body), (''safety'', cmd_safety), (''diagnostics'', cmd_diagnostics),
      (''services'', cmd_services), (''boot-report'', cmd_boot_report), (''task'', cmd_task), (''update'', cmd_update),
      (''voice'', cmd_voice)]"

definition ctl_command :: "machine \<Rightarrow> namespace \<Rightarrow> runtime \<Rightarrow> int ran" where
  "ctl_command m args rt =
     (case map_of DISPATCH (ns_command args) of None \<Rightarrow> (Inl (KeyError (ns_command args)), [], rt) | Some f \<Rightarrow> f m args rt)"

definition ctl_main :: "arg_parser \<Rightarrow> machine \<Rightarrow> string list \<Rightarrow> invocation option" where
  "ctl_main parse_args m argv =
     (case parse_args build_parser argv of
        Inl (code, out) \<Rightarrow> Some (Inr code, out, None)
      | Inr args \<Rightarrow> starting ''droidctl'' (droid_boot (m_env m)) (ctl_command m args))"

section \<open>Processes one after the other\<close>

text \<open>What is run: \<open>droid\<close> with its arguments and input, or \<open>droidctl\<close>\<close>

datatype tool = Droid "string list" "string list" | Ctl "string list"

definition invoke :: "arg_parser \<Rightarrow> machine \<Rightarrow> tool \<Rightarrow> invocation option" where
  "invoke parse_args m c = (case c of Droid argv stdin \<Rightarrow> droid_main m argv stdin | Ctl argv \<Rightarrow> ctl_main parse_args m argv)"

text \<open>The only state that the following concerns is the latch file; everything else may differ between processes.\<close>

definition with_latch :: "latch_doc option json_file \<Rightarrow> machine \<Rightarrow> machine" where
  "with_latch f m = m\<lparr>m_env := map_sum id (\<lambda>env. env\<lparr>env_latch_file := f\<rparr>) (m_env m)\<rparr>"

fun processes ::
  "arg_parser \<Rightarrow> latch_doc option json_file \<Rightarrow> (machine \<times> tool) list \<Rightarrow> (latch_doc option json_file \<times> runtime list) option" where
  "processes parse_args f [] = Some (f, [])"
| "processes parse_args f ((m, c) # ps) =
     (case invoke parse_args (with_latch f m) c of
        None \<Rightarrow> None
      | Some (_, _, last_rt) \<Rightarrow>
          map_option (\<lambda>(f', rts). (f', (case last_rt of Some rt \<Rightarrow> rt # rts | None \<Rightarrow> rts)))
            (processes parse_args (case last_rt of Some rt \<Rightarrow> latch_file rt | None \<Rightarrow> f) ps))"

definition resets :: "arg_parser \<Rightarrow> tool \<Rightarrow> bool" where
  "resets parse_args c =
     (case c of
        Ctl argv \<Rightarrow>
          (case parse_args build_parser argv of
             Inr args \<Rightarrow> ns_command args = ''safety'' \<and> ns_action args = Some ''reset'' | Inl _ \<Rightarrow> False)
      | Droid _ _ \<Rightarrow> False)"

section \<open>Facts\<close>

lemma stopped_status: "stopped rt \<Longrightarrow> stopped (snd (gw_status rt))"
  using observes_status stopped_observes by blast

lemma stopped_summary: "stopped rt \<Longrightarrow> stopped (snd (summary h rt))"
  using observes_summary stopped_observes by blast

lemma stopped_collect: "stopped rt \<Longrightarrow> stopped (snd (collect h rt))"
  using observes_collect stopped_observes by blast

lemma stopped_update: "stopped (rt\<lparr>rt_update := u\<rparr>) = stopped rt" "stopped (rt\<lparr>bodies := bm\<rparr>) = stopped rt"
  "stopped (exec_cancel rt) = stopped rt"
  by (simp_all add: stopped_def powers_off_def backend_power_def exec_cancel_def)

lemma stopped_emits: "stopped rt \<Longrightarrow> stopped (fold emit_audit recs rt)"
  using fold_emit_audit stopped_data_only by blast

lemma stopped_cmd_status: "stopped rt \<Longrightarrow> stopped (snd (snd (cmd_status m args rt)))"
proof -
  assume s: "stopped rt"
  have "stopped (snd (status_dict m rt))"
    using s stopped_summary [OF s, of "m_host m"] stopped_status [of "snd (summary (m_host m) rt)"] stopped_status [OF s]
    by (auto simp: status_dict_def case_prod_beta split: sum.split)
  then show ?thesis by (auto simp: cmd_status_def Let_def case_prod_beta split: sum.split)
qed

lemma stopped_cmd_body: "stopped rt \<Longrightarrow> stopped (snd (snd (cmd_body m args rt)))"
  by (simp add: cmd_body_def Let_def case_prod_beta stopped_update split: option.split sum.split)

lemma stopped_print_table: "stopped rt \<Longrightarrow> stopped (snd (snd (print_table fr hs rows rt)))"
  by (simp add: print_table_def split: sum.split)

lemma stopped_cmd_diagnostics: "stopped rt \<Longrightarrow> stopped (snd (snd (cmd_diagnostics m args rt)))"
  using stopped_collect [of rt "m_host m"] stopped_print_table
  by (auto simp: cmd_diagnostics_def Let_def case_prod_beta split: sum.split)

lemma stopped_cmd_task: "stopped rt \<Longrightarrow> stopped (snd (snd (cmd_task m args rt)))"
proof -
  assume "stopped rt"
  then have s: "stopped (if has_service rt ''executive'' then exec_cancel rt else rt)" by (simp add: stopped_update)
  from stopped_drives [OF motion_stop_drives s] s \<open>stopped rt\<close> show ?thesis
    by (auto simp: cmd_task_def Let_def case_prod_beta split: sum.split)
qed

lemma stopped_cmd_update: "stopped rt \<Longrightarrow> stopped (snd (snd (cmd_update m args rt)))"
  by (simp add: cmd_update_def Let_def case_prod_beta stopped_update stopped_emits split: option.split sum.split)

lemma stopped_cmd_safety:
  "stopped rt \<Longrightarrow> ns_action args \<noteq> Some ''reset'' \<Longrightarrow> stopped (snd (snd (cmd_safety m args rt)))"
  using stopped_status [of rt] stopped_engage [of rt "''droidctl''"] by (simp add: cmd_safety_def Let_def case_prod_beta)

lemma stopped_ctl_command:
  assumes "stopped rt" "\<not> (ns_command args = ''safety'' \<and> ns_action args = Some ''reset'')"
  shows "stopped (snd (snd (ctl_command m args rt)))"
proof (cases "map_of DISPATCH (ns_command args)")
  case (Some f)
  then have "(ns_command args, f) \<in> set DISPATCH" by (rule map_of_SomeD)
  then have "stopped (snd (snd (f m args rt)))"
    using assms unfolding DISPATCH_def
    by (auto simp: stopped_cmd_status stopped_cmd_body stopped_cmd_diagnostics stopped_cmd_task stopped_cmd_update
        stopped_cmd_safety cmd_services_def cmd_boot_report_def cmd_voice_def stopped_print_table)
  then show ?thesis using Some by (simp add: ctl_command_def)
qed (use assms in \<open>simp add: ctl_command_def\<close>)

lemma invoke_keeps_stop:
  assumes "stop_recorded f" "\<not> resets parse_args c"
  shows "keeps_stop (invoke parse_args (with_latch f m) c)"
proof -
  have env: "stop_recorded (env_latch_file env)" if "m_env (with_latch f m) = Inr env" for env
    using that assms(1) by (cases "m_env m") (auto simp: with_latch_def)
  show ?thesis
  proof (cases c)
    case (Droid argv stdin)
    then show ?thesis using droid_keeps_stop [OF env] by (simp add: invoke_def)
  next
    case (Ctl argv)
    show ?thesis
    proof (cases "parse_args build_parser argv")
      case (Inr args)
      then have "stopped (snd (snd (ctl_command (with_latch f m) args rt)))" if "stopped rt" for rt
        using stopped_ctl_command [OF that] assms(2) Ctl by (simp add: resets_def)
      then show ?thesis
        using starting_keeps_stop [OF env] Ctl Inr by (simp add: invoke_def ctl_main_def)
    qed (use Ctl in \<open>auto simp: invoke_def ctl_main_def keeps_stop_def\<close>)
  qed
qed

section \<open>Properties\<close>

text \<open>C2. Only \<open>droidctl safety reset\<close> clears an emergency stop: once it is recorded, whatever is run afterwards, any number
  of processes of either tool with any arguments, input, users, language models and surroundings, as long
  as none of them is that command, leaves the record in place, and every one of them ends with the stop engaged
  and both contactors open.\<close>

theorem only_reset_clears_a_stop:
  assumes "stop_recorded f" "processes parse_args f ps = Some (f', rts)" "list_all (\<lambda>(m, c). \<not> resets parse_args c) ps"
  shows "stop_recorded f' \<and> list_all (\<lambda>rt. c_estop (ctl rt) \<and> powers_off rt) rts"
  using assms
proof (induction ps arbitrary: f rts)
  case (Cons p ps)
  obtain m c where p: "p = (m, c)" by (cases p)
  obtain r out last_rt where i: "invoke parse_args (with_latch f m) c = Some (r, out, last_rt)"
    using Cons.prems(2) by (auto simp: p split: option.splits)
  have "keeps_stop (Some (r, out, last_rt))" using invoke_keeps_stop [OF Cons.prems(1), of parse_args c m] Cons.prems(3) i by (simp add: p)
  then have last_rt: "stop_recorded (case last_rt of Some rt \<Rightarrow> latch_file rt | None \<Rightarrow> f)" "\<And>rt. last_rt = Some rt \<Longrightarrow> stopped rt"
    using Cons.prems(1) by (auto simp: keeps_stop_def stopped_def split: option.splits)
  obtain rts1 where rest: "processes parse_args (case last_rt of Some rt \<Rightarrow> latch_file rt | None \<Rightarrow> f) ps = Some (f', rts1)"
    "rts = (case last_rt of Some rt \<Rightarrow> rt # rts1 | None \<Rightarrow> rts1)"
    using Cons.prems(2) i by (auto simp: p)
  from Cons.IH [OF last_rt(1) rest(1)] Cons.prems(3) rest(2) last_rt(2) show ?case by (auto simp: stopped_def split: option.splits)
qed simp

text \<open>The concrete input of witnesses: a machine whose body loads, and a reader of the first argument only\<close>

definition example_machine :: machine where
  "example_machine = \<lparr>m_env = Inr (selected_env fresh_file), m_lang = example_language, m_host = example_host, m_voice = example_voice\<rparr>"

definition example_parser :: arg_parser where
  "example_parser spec argv = Inr \<lparr>ns_command = hd argv, ns_action = (case tl argv of a # _ \<Rightarrow> Some a | [] \<Rightarrow> None),
     ns_id = None, ns_backend = None, ns_bundle = None, ns_json = False\<rparr>"

definition stop_file :: "latch_doc option json_file" where
  "stop_file = \<lparr>contents = Doc (Some \<lparr>latch_estop = True, latch_reason = None\<rparr>), writable = True\<rparr>"

lemma built_starts:
  assumes "m_env m = Inr env" "build_system env = Inr (Some rt)"
  shows "droid_boot (m_env m) = Started (snd (boot rt))"
proof -
  note b = built_system [OF assms(2)]
  obtain r where "fst (boot rt) = Inr r" using boot_settles [OF b(1-3)] by blast
  then show ?thesis using assms by (cases "boot rt") (simp add: droid_boot_def)
qed

lemma with_latch_example: "m_env (with_latch f example_machine) = Inr (selected_env f)"
  by (simp add: with_latch_def example_machine_def selected_env_def)

theorem only_reset_clears_a_stop_witness:
  "\<exists>f' rt. processes example_parser stop_file [(example_machine, Ctl [''services''])] = Some (f', [rt])
     \<and> stop_recorded f' \<and> c_estop (ctl rt) \<and> powers_off rt"
proof -
  obtain rt where "build_system (selected_env stop_file) = Inr (Some rt)" using selected_env_builds by blast
  from built_starts [OF with_latch_example this]
  obtain f' rt1 where p: "processes example_parser stop_file [(example_machine, Ctl [''services''])] = Some (f', [rt1])"
    by (simp add: invoke_def ctl_main_def example_parser_def starting_def case_prod_beta)
  have "stop_recorded stop_file" by (simp add: stop_recorded_def stop_file_def)
  moreover have "list_all (\<lambda>(m, c). \<not> resets example_parser c) [(example_machine, Ctl [''services''])]"
    by (simp add: resets_def example_parser_def)
  ultimately show ?thesis using only_reset_clears_a_stop [OF _ p] p by auto
qed

text \<open>C3. And that command does clear it: \<open>droidctl safety reset\<close>, on a machine that starts and can write its latch
  file, succeeds and records that the stop is cleared; the next process that finds this file, whatever else it finds,
  boots with the stop disengaged and into another state than \<open>EMERGENCY_STOPPED\<close>.\<close>

theorem reset_takes_effect:
  assumes "parse_args build_parser argv = Inr args" "ns_command args = ''safety''" "ns_action args = Some ''reset''"
    "m_env m = Inr env" "build_system env = Inr (Some rt0)" "writable (env_latch_file env)"
  shows "\<exists>rt1. invoke parse_args m (Ctl argv) = Some (Inr 0, [Out ''emergency-stop latch cleared; reboot to re-arm''], Some rt1)
    \<and> stop_cleared (latch_file rt1)
    \<and> (\<forall>env' rt'. env_latch_file env' = latch_file rt1 \<and> build_system env' = Inr (Some rt') \<longrightarrow>
        (\<exists>r. fst (boot rt') = Inr r \<and> r_state r \<noteq> EMERGENCY_STOPPED \<and> \<not> c_estop (ctl (snd (boot rt')))))"
proof -
  note b = built_system [OF assms(5)]
  let ?rt = "snd (boot rt0)"
  let ?rt1 = "snd (reset_estop ?rt)"
  have "ctl_command m args ?rt = (Inr 0, [Out ''emergency-stop latch cleared; reboot to re-arm''], ?rt1)"
    using assms(2,3) boot_has_safety [OF b(1,2)] by (simp add: ctl_command_def DISPATCH_def cmd_safety_def prints_def)
  then have i: "invoke parse_args m (Ctl argv) = Some (Inr 0, [Out ''emergency-stop latch cleared; reboot to re-arm''], Some ?rt1)"
    using assms(1) built_starts [OF assms(4,5)] by (simp add: invoke_def ctl_main_def starting_def)
  have c: "stop_cleared (latch_file ?rt1)"
    using assms(6) b(4) by (simp add: reset_latch boot_latch_file [OF b(1,2)] write_doc_def stop_cleared_def)
  have "\<exists>r. fst (boot rt') = Inr r \<and> r_state r \<noteq> EMERGENCY_STOPPED \<and> \<not> c_estop (ctl (snd (boot rt')))"
    if "env_latch_file env' = latch_file ?rt1" "build_system env' = Inr (Some rt')" for env' rt'
  proof -
    note b' = built_system [OF that(2)]
    obtain r where r: "fst (boot rt') = Inr r" using boot_settles [OF b'(1-3)] by blast
    have "stop_cleared (latch_file rt')" using c b'(4) that(1) by simp
    from boot_after_reset [OF b'(1,2,6) this r] r show ?thesis by blast
  qed
  with i c show ?thesis by blast
qed

theorem reset_takes_effect_witness:
  "\<exists>rt1 rt'. invoke example_parser (with_latch stop_file example_machine) (Ctl [''safety'', ''reset''])
       = Some (Inr 0, [Out ''emergency-stop latch cleared; reboot to re-arm''], Some rt1)
     \<and> build_system (selected_env (latch_file rt1)) = Inr (Some rt') \<and> \<not> c_estop (ctl (snd (boot rt')))"
proof -
  obtain rt where rt: "build_system (selected_env stop_file) = Inr (Some rt)" using selected_env_builds by blast
  let ?args = "\<lparr>ns_command = ''safety'', ns_action = Some ''reset'', ns_id = None, ns_backend = None, ns_bundle = None, ns_json = False\<rparr>"
  have "example_parser build_parser [''safety'', ''reset''] = Inr ?args" by (simp add: example_parser_def)
  moreover have "writable (env_latch_file (selected_env stop_file))" by (simp add: selected_env_def stop_file_def)
  ultimately obtain rt1 where i: "invoke example_parser (with_latch stop_file example_machine) (Ctl [''safety'', ''reset''])
       = Some (Inr 0, [Out ''emergency-stop latch cleared; reboot to re-arm''], Some rt1)"
    and n: "\<And>env' rt'. env_latch_file env' = latch_file rt1 \<Longrightarrow> build_system env' = Inr (Some rt') \<Longrightarrow> \<not> c_estop (ctl (snd (boot rt')))"
    using reset_takes_effect [OF _ _ _ with_latch_example rt, of example_parser "[''safety'', ''reset'']" ?args] by auto
  obtain rt' where "build_system (selected_env (latch_file rt1)) = Inr (Some rt')" using selected_env_builds by blast
  with i n [of "selected_env (latch_file rt1)"] show ?thesis by (auto simp: selected_env_def)
qed

end
