(* ===== verification/Spec2Isabelle.thy ===== *)
theory Spec2Isabelle
  imports RockyShipped RockyCtl AuditFile BundleText ReplyText Config CanFd RosNodes VoiceEngines Droidctl
begin

text \<open>
  A verification of the DroidOS brain, the Python package \<open>src/src/droidos\<close>: the supervisory software of a
  mobile droid that understands requests in English, decides whether they may be carried out, and
  drives a body through a hardware backend under an independent safety controller.

  \<^bold>\<open>The program and its model.\<close> The brain is one process around a shared \<open>Runtime\<close> object
  (\<open>system.py\<close>). Its parts and the theories that model them:

  \<^item> \<open>Prelude\<close>: Python values (\<open>pyval\<close>), floats with NaN and infinities, string methods, formatting,
    rounding; \<open>Errors\<close>: the exceptions of \<open>core/errors.py\<close> and of the language; \<open>Storage\<close>: a state file
    that may be missing, unreadable or malformed.
  \<^item> \<open>JsonRead\<close>: the reader of JSON texts (\<open>json.loads\<close>) and its round trips with the writer of \<open>Tabular\<close>;
    \<open>StateFiles\<close>: the characters of the four state files, which refine the documents of \<open>Storage\<close>;
    \<open>AuditFile\<close>: the characters of the audit file (\<open>core/logging.py\<close>); \<open>BundleText\<close>: those of an update
    bundle with its checksum; \<open>ReplyText\<close>: those of a language model's reply.
  \<^item> \<open>States\<close> (\<open>core/states.py\<close>), \<open>Events\<close> (\<open>core/events.py\<close>, \<open>core/logging.py\<close>), \<open>Models\<close>
    (\<open>core/models.py\<close>): the system state machine, the event bus, the logger and the audit log.
  \<^item> \<open>SafetyController\<close> (\<open>backends/safety_controller.py\<close>) and \<open>SafetyGateway\<close>
    (\<open>services/safety_gateway.py\<close>): the watchdog, the latched emergency stop and the motor-power
    contactor, and the only service that may ask for motor power.
  \<^item> \<open>Simulation\<close> (\<open>backends/base.py\<close>, \<open>simulation.py\<close>, \<open>mock_hardware.py\<close>): the body's kinematics,
    thermal and battery model, faults, sensors.
  \<^item> \<open>Body\<close>, \<open>BodyManager\<close> (\<open>body/\<close>): capabilities, limits, manifests, static validation, loading and
    selection, the selection file down to its characters; \<open>Gait\<close> (\<open>gait/policy.py\<close>): gait policies and their envelope.
  \<^item> \<open>Lifecycle\<close> (\<open>services/lifecycle.py\<close>), \<open>Services\<close> (motion, navigation, perception, state estimator,
    hardware), \<open>WorldModel\<close>, \<open>MemoryStore\<close>, \<open>UpdateSlots\<close>, \<open>Diagnostics\<close>, \<open>Supervisor\<close>: the managed
    services of \<open>services/\<close>; \<open>Runtime\<close>: the shared context and its wiring (\<open>system.py\<close>).
  \<^item> \<open>BehaviourTree\<close>, \<open>Tasks\<close>, \<open>Executive\<close>, \<open>ExecutiveDrive\<close>, \<open>ExecutiveTasks\<close> (\<open>executive/\<close>): behaviour
    trees, the handlers of all intents, the drive with its collision monitor, task bookkeeping.
  \<^item> \<open>Tools\<close>, \<open>Broker\<close>, \<open>Language\<close> (\<open>language/\<close>): the tool registry, users and roles, the command
    broker's gates, the language service with its renderers; \<open>Regex\<close> (the part of \<open>re\<close> the rules use) and
    \<open>OfflineParser\<close> (\<open>language/offline_parser.py\<close>): the rules that turn a text into an intent; \<open>Providers\<close>
    (\<open>language/providers.py\<close>): language models, the chain that falls back to the rules, and what a
    reply may propose; \<open>Voice\<close> (\<open>services/voice.py\<close>): spoken requests and emergency words;
    \<open>VoiceEngines\<close> (\<open>services/voice_engines.py\<close>): the factory of audio engines.
  \<^item> \<open>Session\<close>: sequences of typed and spoken requests; \<open>Restart\<close>: what boot does to the latched stop and its file.
  \<^item> \<open>Cli\<close> (\<open>cli/droid.py\<close>) and \<open>Droidctl\<close> (\<open>cli/droidctl.py\<close>): the two command-line tools, one process each, and
    sequences of such processes on one machine; \<open>Tabular\<close>, \<open>JsonText\<close> (\<open>util/tabular.py\<close>): the texts they print.
  \<^item> \<open>MiniYaml\<close>, \<open>YamlRoundTrip\<close> (\<open>util/miniyaml.py\<close>): the parser and dumper of the configuration format;
    \<open>Config\<close> (\<open>core/config.py\<close>): the directories, the defaults and the merge of \<open>droidos.yaml\<close> over them.
  \<^item> \<open>CanFd\<close> (\<open>backends/canfd_hardware.py\<close>): the backend for a real bus, with frames as lists of bytes and
    single-precision floats read from their bits.

  Beside the brain, \<open>src/rocky\<close> is a control layer for a Debian host: a model proposes actions, a policy decides,
  an executor runs what was approved, and everything is recorded in a database. \<open>RockyPolicy\<close> is the policy
  (\<open>policy.py\<close>) and \<open>RockyShipped\<close> its decisions under the shipped configuration files, \<open>RockyStore\<close> the memory
  and audit tables (\<open>memory.py\<close>, \<open>audit.py\<close>), \<open>RockyTools\<close> the executor (\<open>executor.py\<close>) and the pipeline
  \<open>handle_action\<close> of \<open>rockyctl\<close>, \<open>RockyCtl\<close> the rest of \<open>rockyctl\<close>: its commands and the language model it asks. \<open>RosNodes\<close>
  models the bridge to ROS 2, \<open>src/ros2/droid_nodes\<close>.

  A service method is a function on the record \<open>runtime\<close>, which holds every attribute of the object
  graph; a method that may raise returns \<open>'a res\<close>, that is \<open>exn + 'a\<close>, next to the new runtime, so an
  exception keeps the effects that preceded it. Clock readings come from a stream and each reading
  advances it. Floats are reals where the code only computes with finite values, and \<open>pyfloat\<close> (with
  NaN and infinities) where a command may carry special values; rounding errors are not modelled.

  \<^bold>\<open>What the theorems show.\<close> The contactor of the controller is closed only while it is safe, an
  emergency stop latches, survives the process, and is accepted from anyone at any time. Permission
  is granted exactly by a healthy controller; every stop path, every returning drive and every
  command end with both contactors open. The broker approves motion only after all its gates, nothing
  runs without its approval, and administrative actions need a confirmed owner. No language model can
  name an action that is not registered, and with every model down a typed emergency stop still works,
  as a spoken one always does; no conversation and no sequence of processes undoes it,
  except the command that resets it, which does; this holds down to the characters of the latch file. The four state
  files and the audit file read back as they were written, whatever the strings in them, and an update bundle whose
  payload does not match the checksum it carries is not installed. A committed body selection is the body that the next start
  loads, as long as its values print as YAML that reads back.
  In the Debian layer nothing runs that the policy did not approve, whatever the language model replies, and every decision is recorded. Boot and shutdown
  complete; readiness is exactly the conjunction of its checks. The simulated and the mock backend move neither the body nor a
  joint without power, and execute only finite velocities within the limits; a drive sends the saturated command; gait targets stay in the envelope. Stores round-trip through
  their files; the update slots roll back; audit and task history are complete. The theorems whose
  text describes a failure (an exception that skips the release, a link loss that leaves the backend
  powered, and others) are recorded as findings.

  \<^bold>\<open>Interfaces.\<close> Locales state what a client relies on, and each is interpreted on the model: invariants
  of state machines given by steps (\<open>SafetyController\<close>, \<open>States\<close>, \<open>Simulation\<close>, \<open>MemoryStore\<close>), bounded logs
  (\<open>Events\<close>), persistent stores (\<open>Storage\<close>, interpreted by \<open>WorldModel\<close>, \<open>MemoryStore\<close> and \<open>UpdateSlots\<close>), the encodings of their documents
  (\<open>json_codec\<close> in \<open>StateFiles\<close>, interpreted four times), the contactor of every backend and the stronger contract of the
  simulated ones (\<open>power_contactor\<close> and \<open>hardware_backend\<close> in \<open>Simulation\<close>, the first also interpreted by \<open>CanFd\<close>),
  hooks that keep a relation (\<open>Lifecycle\<close>, interpreted by \<open>Supervisor\<close>, \<open>ExecutiveTasks\<close> and \<open>Session\<close>), contracts on the
  latch that hold through boot (\<open>Restart\<close>), ordered
  enumerations and keyed maps.

  \<^bold>\<open>Bounds.\<close> Loops are structural or bounded as in the code: a drive runs at most \<open>MAX_DRIVE_TICKS\<close>
  ticks, a behaviour tree at most 10000; dependency activation recurses on a rank of the service
  names. The YAML parser recurses on fuel, twice the number of characters and lines of the text plus two,
  which is shown to be enough for every text; the JSON reader on twice the number of characters plus one, shown to be
  enough as well; no other fuel is used.

  \<^bold>\<open>Not modelled.\<close> Time stamps that are only recorded (they are in the texts of \<open>StateFiles\<close> and \<open>AuditFile\<close>); characters
  above 255; state documents of a shape that the services do not write; the YAML text of a body package, which is a parsed
  document or malformed for \<open>Body\<close> (the format itself is the subject of \<open>MiniYaml\<close>); PyYAML, which replaces the
  parser of the repository where it is installed; Python's recursion limit; the CAN-FD backend as the
  backend of a running system (\<open>CanFd\<close> is about the backend alone); speech libraries, the HTTP transport, the driver of the CAN bus, \<open>onnxruntime\<close>, the operating
  system under the Debian layer (parameters where the code calls them), how \<open>argparse\<close> reads a command line, the
  client library of ROS 2. What a language server answers is a parameter of \<open>Providers\<close> and \<open>RockyCtl\<close>.
\<close>

section \<open>Properties that span components\<close>

text \<open>C4. An emergency stop outlives the process, down to the characters of its file: when any user commanded it,
  on a droid with a safety gateway and a writable latch file, then the JSON text that is written to the file is read by
  a new process as the stop, and whatever happened to the old process, the new one, if it is built successfully,
  boots without raising into EMERGENCY_STOPPED with both contactors open, whatever else is in its environment.\<close>

theorem estop_outlives_the_process:
  assumes "has_safety rt" "writable (latch_file rt)" "i_intent (dec_intent dec) = ''motion.emergency_stop''"
    "float_reads fr fl F" "range st \<subseteq> F" "file_of_text fl latch_of_json t = Some (latch_file rt)"
    "file_of_text fl latch_of_json (write_text (latch_text fr st True ''voice_or_text_command'') t) = Some (env_latch_file env)"
    "build_system env = Inr (Some rt')"
  shows "env_latch_file env = latch_file (snd (run_intent h dec user rt))
    \<and> (\<exists>r. fst (boot rt') = Inr r \<and> r_state r = EMERGENCY_STOPPED
          \<and> cur_state (rt_state (snd (boot rt'))) = EMERGENCY_STOPPED \<and> powers_off (snd (boot rt')))"
proof -
  note b = built_system [OF assms(8)]
  let ?d = "\<lparr>latch_estop = True, latch_reason = Some ''voice_or_text_command''\<rparr>"
  have "latch_fits F (Some ?d)" by (auto simp: latch_fits_def)
  from latch_codec.write_refines [OF assms(4) this assms(5) _ assms(6)] assms(7)
  have f: "env_latch_file env = write_doc (Some ?d) (latch_file rt)" by (simp add: latch_text_def)
  have "contents (latch_file rt') = Doc (Some ?d)" using assms(2) by (simp add: b(4) f write_doc_def)
  from boot_latched [OF b(1,2) this _ b(5)] boot_settles [OF b(1,2,3)] run_estop [OF assms(1,3), of h user] f
  show ?thesis by auto
qed

theorem estop_outlives_the_process_witness:
  "\<exists>env rt' r. build_system env = Inr (Some rt') \<and> fst (boot rt') = Inr r \<and> r_state r = EMERGENCY_STOPPED"
proof -
  let ?f = "latch_file (snd (run_intent example_host (example_decision ''motion.emergency_stop'') ''guest'' active_rt))"
  let ?t = "\<lparr>t_characters = NoFile, t_writable = True\<rparr>"
  obtain rt' where b: "build_system (selected_env ?f) = Inr (Some rt')"
    using selected_env_builds by blast
  have l: "latch_file active_rt = fresh_file" and i: "i_intent (dec_intent (example_decision ''motion.emergency_stop'')) = ''motion.emergency_stop''"
    by (simp_all add: active_rt_def example_rt_def example_env_def fresh_file_def wire_def new_runtime_def SERVICE_NAMES_def
        example_decision_def decide_def mk_intent_def)
  have w: "writable (latch_file active_rt)" by (simp add: l fresh_file_def)
  have r: "range (\<lambda>_ :: nat. 1) \<subseteq> range real_of_int" by (auto intro: range_eqI [of _ _ 1])
  have t: "file_of_text whole_read latch_of_json ?t = Some (latch_file active_rt)" by (simp only: l fresh_text)
  have d: "latch_fits (range real_of_int) (Some \<lparr>latch_estop = True, latch_reason = Some ''voice_or_text_command''\<rparr>)"
    by (auto simp: latch_fits_def)
  have "file_of_text whole_read latch_of_json (write_text (latch_text whole_repr (\<lambda>_. 1) True ''voice_or_text_command'') ?t)
      = Some (env_latch_file (selected_env ?f))"
    using latch_codec.write_refines [OF whole_reads d r _ t] run_estop [OF active_fields(4) i, of example_host "''guest''"]
    by (simp add: latch_text_def selected_env_def)
  from estop_outlives_the_process [OF active_fields(4) w i whole_reads r t this b] b show ?thesis by blast
qed

end
